(* ===== verification/Rafi_Prelude.thy ===== *)
theory Rafi_Prelude
  imports Main "HOL-Library.Word"
begin

text \<open>
  The prelude of the development: the machine integers of the emulator, the ways in which
  a C++ routine can fail to return, the state-and-failure actions every stateful routine
  is written in, and the two judgements the component proofs share: \<open>preserves\<close> (an
  action that returns keeps an invariant) and \<open>returns\<close> (an action does return from every
  state with the invariant, and keeps it).

  Signed and unsigned C++ integers of one width are the same \<^typ>\<open>'a word\<close>; a signed
  reading is \<open>sint\<close> or \<open>signed\<close> comparison at the place where the code has it. Signed
  addition, subtraction and multiplication of the machine's data wrap, as they do on every compiler
  the project supports; shifts by a negative or too large amount, division by zero and division
  overflow, which the compiled program does not survive or does not define, are failures. The
  counter of the emulator's loop is the exception: behind its last value the loop has no result,
  neither a state nor a failure.
\<close>

type_synonym u8 = "8 word"
type_synonym u16 = "16 word"
type_synonym u32 = "32 word"
type_synonym u64 = "64 word"

text \<open>
  \<open>EmuException\<close> is \<open>throw RafiEmuException()\<close> (the macros \<open>RAFI_EMU_ERROR\<close>,
  \<open>RAFI_EMU_NOT_IMPLEMENTED\<close>, \<open>RAFI_EMU_CHECK_RANGE\<close>, \<open>RAFI_EMU_CHECK_ACCESS\<close> of
  \<^verbatim>\<open>include/rafi/emu/Macro.h\<close>); \<open>ProcessExit\<close> is \<open>std::exit(1)\<close>
  (\<open>RAFI_NOT_IMPLEMENTED\<close> of \<^verbatim>\<open>include/rafi/common/Macro.h\<close> and \<open>Executor::Error\<close>);
  \<open>BadVariant\<close> is the \<open>std::bad_variant_access\<close> that \<open>std::get\<close> throws;
  \<open>AssertionFailure\<close> is a failed \<open>assert\<close>: the model is of a build with assertions, the Debug build,
  and says nothing of what a Release build, which has \<open>NDEBUG\<close>, does where one fails;
  \<open>Undefined\<close> is C++ undefined behaviour;
  \<open>TraceException\<close> is the exception of the trace library (\<^verbatim>\<open>include/rafi/trace/Exception.h\<close>) and \<open>FileOpenFailure\<close> its \<open>FileOpenFailureException\<close>.
\<close>

datatype failure = EmuException | ProcessExit | BadVariant | AssertionFailure | Undefined
  | TraceException | FileOpenFailure

type_synonym 'a result = "failure + 'a"
type_synonym ('s, 'a) act = "'s \<Rightarrow> failure + ('a \<times> 's)"

named_theorems act_simps "evaluation of actions on a concrete or symbolic state"
named_theorems preserves_intros "preservation of invariants by actions"
named_theorems returns_intros "actions that return"

definition returnM :: "'a \<Rightarrow> ('s, 'a) act" where
  [act_simps]: "returnM x = (\<lambda>s. Inr (x, s))"

definition failM :: "failure \<Rightarrow> ('s, 'a) act" where
  [act_simps]: "failM e = (\<lambda>s. Inl e)"

definition bindM :: "('s, 'a) act \<Rightarrow> ('a \<Rightarrow> ('s, 'b) act) \<Rightarrow> ('s, 'b) act" where
  "bindM m f = (\<lambda>s. case m s of Inl e \<Rightarrow> Inl e | Inr (x, t) \<Rightarrow> f x t)"

definition getM :: "('s \<Rightarrow> 'a) \<Rightarrow> ('s, 'a) act" where
  [act_simps]: "getM f = (\<lambda>s. Inr (f s, s))"

definition modifyM :: "('s \<Rightarrow> 's) \<Rightarrow> ('s, unit) act" where
  [act_simps]: "modifyM f = (\<lambda>s. Inr ((), f s))"

definition liftM :: "'a result \<Rightarrow> ('s, 'a) act" where
  "liftM r = (\<lambda>s. case r of Inl e \<Rightarrow> Inl e | Inr x \<Rightarrow> Inr (x, s))"

text \<open>A \<open>const\<close> routine reads the state and may fail, but does not change it.\<close>

definition queryM :: "('s \<Rightarrow> 'a result) \<Rightarrow> ('s, 'a) act" where
  "queryM f = (\<lambda>s. case f s of Inl e \<Rightarrow> Inl e | Inr x \<Rightarrow> Inr (x, s))"

text \<open>
  An action on one component runs inside the state that holds the component:
  \<open>get\<close> reads the component out, \<open>put\<close> stores it back.
\<close>

definition zoomM :: "('s \<Rightarrow> 'c) \<Rightarrow> ('c \<Rightarrow> 's \<Rightarrow> 's) \<Rightarrow> ('c, 'a) act \<Rightarrow> ('s, 'a) act" where
  "zoomM get put m =
     (\<lambda>s. case m (get s) of Inl e \<Rightarrow> Inl e | Inr (x, c) \<Rightarrow> Inr (x, put c s))"

definition whenM :: "bool \<Rightarrow> ('s, unit) act \<Rightarrow> ('s, unit) act" where
  "whenM b m = (if b then m else returnM ())"

text \<open>\<open>std::get\<close>-style access and guards: fail unless the value is there.\<close>

definition requireM :: "failure \<Rightarrow> bool \<Rightarrow> ('s, unit) act" where
  "requireM e b = (if b then returnM () else failM e)"

subsection \<open>Evaluation\<close>

lemma bindM_Inr [act_simps]: "m s = Inr (x, t) \<Longrightarrow> bindM m f s = f x t"
  by (simp add: bindM_def)

lemma bindM_Inl [act_simps]: "m s = Inl e \<Longrightarrow> bindM m f s = Inl e"
  by (simp add: bindM_def)

lemma bindM_returnM [simp]: "bindM (returnM x) f = f x"
  by (rule ext) (simp add: bindM_def returnM_def)

lemma bindM_failM [simp]: "bindM (failM e) f = failM e"
  by (rule ext) (simp add: bindM_def failM_def)

lemma bindM_getM [act_simps]: "bindM (getM g) f s = f (g s) s"
  by (simp add: bindM_def getM_def)

lemma bindM_modifyM [act_simps]: "bindM (modifyM g) f s = f () (g s)"
  by (simp add: bindM_def modifyM_def)

lemma liftM_Inr [simp]: "liftM (Inr x) = returnM x"
  by (rule ext) (simp add: liftM_def returnM_def)

lemma liftM_Inl [simp]: "liftM (Inl e) = failM e"
  by (rule ext) (simp add: liftM_def failM_def)

lemma whenM_simps [simp]: "whenM True m = m" "whenM False m = returnM ()"
  by (simp_all add: whenM_def)

lemma requireM_simps [simp]: "requireM e True = returnM ()" "requireM e False = failM e"
  by (simp_all add: requireM_def)

lemma bindM_assoc: "bindM (bindM m f) g = bindM m (\<lambda>x. bindM (f x) g)"
  by (rule ext) (simp add: bindM_def split: sum.splits prod.splits)

lemma bindM_if: "bindM (if b then m else n) f = (if b then bindM m f else bindM n f)"
  by simp

text \<open>Inversion: what must have happened when an action returned.\<close>

lemma bindM_eq_Inr:
  "bindM m f s = Inr (y, u) \<longleftrightarrow> (\<exists>x t. m s = Inr (x, t) \<and> f x t = Inr (y, u))"
  by (auto simp: bindM_def split: sum.splits)

lemma bindM_eq_Inl:
  "bindM m f s = Inl e \<longleftrightarrow> m s = Inl e \<or> (\<exists>x t. m s = Inr (x, t) \<and> f x t = Inl e)"
  by (auto simp: bindM_def split: sum.splits)

lemma liftM_eq_Inr: "liftM r s = Inr (x, t) \<longleftrightarrow> r = Inr x \<and> t = s"
  by (auto simp: liftM_def split: sum.splits)

lemma queryM_eq_Inr: "queryM f s = Inr (x, t) \<longleftrightarrow> f s = Inr x \<and> t = s"
  by (auto simp: queryM_def split: sum.splits)

lemma queryM_Inr [act_simps]: "f s = Inr x \<Longrightarrow> queryM f s = Inr (x, s)"
  by (simp add: queryM_def)

lemma queryM_Inl [act_simps]: "f s = Inl e \<Longrightarrow> queryM f s = Inl e"
  by (simp add: queryM_def)

lemma zoomM_eq_Inr:
  "zoomM get put m s = Inr (x, t) \<longleftrightarrow> (\<exists>c. m (get s) = Inr (x, c) \<and> t = put c s)"
  by (auto simp: zoomM_def split: sum.splits)

lemma zoomM_Inr [act_simps]: "m (get s) = Inr (x, c) \<Longrightarrow> zoomM get put m s = Inr (x, put c s)"
  by (simp add: zoomM_def)

lemma zoomM_Inl [act_simps]: "m (get s) = Inl e \<Longrightarrow> zoomM get put m s = Inl e"
  by (simp add: zoomM_def)

subsection \<open>Preservation of invariants\<close>

definition preserves :: "('s \<Rightarrow> bool) \<Rightarrow> ('s, 'a) act \<Rightarrow> bool" where
  "preserves I m \<longleftrightarrow> (\<forall>s x t. I s \<longrightarrow> m s = Inr (x, t) \<longrightarrow> I t)"

lemma preservesI: "(\<And>s x t. I s \<Longrightarrow> m s = Inr (x, t) \<Longrightarrow> I t) \<Longrightarrow> preserves I m"
  by (auto simp: preserves_def)

lemma preservesD: "preserves I m \<Longrightarrow> I s \<Longrightarrow> m s = Inr (x, t) \<Longrightarrow> I t"
  by (auto simp: preserves_def)

lemma preserves_returnM [preserves_intros]: "preserves I (returnM x)"
  by (simp add: preserves_def returnM_def)

lemma preserves_failM [preserves_intros]: "preserves I (failM e)"
  by (simp add: preserves_def failM_def)

lemma preserves_getM [preserves_intros]: "preserves I (getM f)"
  by (simp add: preserves_def getM_def)

lemma preserves_liftM [preserves_intros]: "preserves I (liftM r)"
  by (simp add: preserves_def liftM_eq_Inr)

lemma preserves_queryM [preserves_intros]: "preserves I (queryM f)"
  by (simp add: preserves_def queryM_eq_Inr)

lemma preserves_zoomM:
  assumes "preserves J m" and "\<And>s. I s \<Longrightarrow> J (get s)" and "\<And>s c. I s \<Longrightarrow> J c \<Longrightarrow> I (put c s)"
  shows "preserves I (zoomM get put m)"
  using assms by (fastforce simp: preserves_def zoomM_eq_Inr)

lemma preserves_requireM [preserves_intros]: "preserves I (requireM e b)"
  by (simp add: requireM_def preserves_returnM preserves_failM)

lemma preserves_bindM [preserves_intros]:
  assumes "preserves I m" and "\<And>x. preserves I (f x)"
  shows "preserves I (bindM m f)"
proof (rule preservesI)
  fix s y u
  assume "I s" and "bindM m f s = Inr (y, u)"
  then obtain x t where "m s = Inr (x, t)" and "f x t = Inr (y, u)"
    by (auto simp: bindM_eq_Inr)
  then show "I u"
    using assms \<open>I s\<close> by (blast dest: preservesD)
qed

lemma preserves_whenM [preserves_intros]: "preserves I m \<Longrightarrow> preserves I (whenM b m)"
  by (simp add: whenM_def preserves_returnM)

lemma preserves_if [preserves_intros]:
  "preserves I m \<Longrightarrow> preserves I n \<Longrightarrow> preserves I (if b then m else n)"
  by simp

lemma preserves_modifyM: "(\<And>s. I s \<Longrightarrow> I (f s)) \<Longrightarrow> preserves I (modifyM f)"
  by (simp add: preserves_def modifyM_def)

lemma preserves_let [preserves_intros]: "preserves I (f x) \<Longrightarrow> preserves I (Let x f)"
  by simp

lemma preserves_case_option [preserves_intros]:
  "preserves I m \<Longrightarrow> (\<And>x. preserves I (f x)) \<Longrightarrow>
   preserves I (case opt of None \<Rightarrow> m | Some x \<Rightarrow> f x)"
  by (cases opt) auto

lemma preserves_case_prod [preserves_intros]:
  "(\<And>x y. preserves I (f x y)) \<Longrightarrow> preserves I (case p of (x, y) \<Rightarrow> f x y)"
  by (cases p) auto

subsection \<open>Actions that return\<close>

definition returns :: "('s \<Rightarrow> bool) \<Rightarrow> ('s, 'a) act \<Rightarrow> ('a \<Rightarrow> bool) \<Rightarrow> bool" where
  "returns I m Q \<longleftrightarrow> (\<forall>s. I s \<longrightarrow> (\<exists>x t. m s = Inr (x, t) \<and> I t \<and> Q x))"

lemma returnsI: "(\<And>s. I s \<Longrightarrow> \<exists>x t. m s = Inr (x, t) \<and> I t \<and> Q x) \<Longrightarrow> returns I m Q"
  by (simp add: returns_def)

lemma returnsE:
  assumes "returns I m Q" "I s"
  obtains x t where "m s = Inr (x, t)" "I t" "Q x"
  using assms by (auto simp: returns_def)

lemma returns_preserves: "returns I m Q \<Longrightarrow> preserves I m"
  by (fastforce simp: returns_def preserves_def)

lemma returns_weaken: "returns I m Q \<Longrightarrow> (\<And>x. Q x \<Longrightarrow> R x) \<Longrightarrow> returns I m R"
  by (fastforce simp: returns_def)

lemma returns_returnM [returns_intros]: "Q x \<Longrightarrow> returns I (returnM x) Q"
  by (simp add: returns_def returnM_def)

lemma returns_bindM:
  assumes "returns I m Q" and "\<And>x. Q x \<Longrightarrow> returns I (f x) R"
  shows "returns I (bindM m f) R"
  using assms by (fastforce simp: returns_def bindM_def)

lemma returns_getM [returns_intros]: "(\<And>s. I s \<Longrightarrow> Q (f s)) \<Longrightarrow> returns I (getM f) Q"
  by (simp add: returns_def getM_def)

lemma returns_modifyM [returns_intros]:
  "(\<And>s. I s \<Longrightarrow> I (f s)) \<Longrightarrow> Q () \<Longrightarrow> returns I (modifyM f) Q"
  by (simp add: returns_def modifyM_def)

lemma returns_queryM:
  "(\<And>s. I s \<Longrightarrow> \<exists>x. f s = Inr x \<and> Q x) \<Longrightarrow> returns I (queryM f) Q"
  by (fastforce simp: returns_def queryM_def)

lemma returns_if [returns_intros]:
  "(b \<Longrightarrow> returns I m Q) \<Longrightarrow> (\<not> b \<Longrightarrow> returns I n Q) \<Longrightarrow> returns I (if b then m else n) Q"
  by simp

lemma returns_whenM [returns_intros]:
  "(b \<Longrightarrow> returns I m Q) \<Longrightarrow> (\<not> b \<Longrightarrow> Q ()) \<Longrightarrow> returns I (whenM b m) Q"
  by (simp add: whenM_def returns_returnM)

lemma returns_zoomM:
  assumes "returns J m Q" and "\<And>s. I s \<Longrightarrow> J (get s)" and "\<And>s c. I s \<Longrightarrow> J c \<Longrightarrow> I (put c s)"
  shows "returns I (zoomM get put m) Q"
proof (rule returnsI)
  fix s assume "I s"
  with assms(2) have "J (get s)" by simp
  with assms(1) obtain x c where "m (get s) = Inr (x, c)" "J c" "Q x" by (rule returnsE)
  with assms(3) \<open>I s\<close> show "\<exists>x t. zoomM get put m s = Inr (x, t) \<and> I t \<and> Q x"
    by (auto simp: zoomM_def)
qed

subsection \<open>The range and access checks\<close>

text \<open>
  The macro \<open>RAFI_EMU_CHECK_RANGE\<close> raises when the value lies below the lower bound or
  \<^emph>\<open>above\<close> the upper bound: the upper bound itself passes.
\<close>

definition check_range :: "int \<Rightarrow> int \<Rightarrow> int \<Rightarrow> ('s, unit) act" where
  "check_range lower actual upper =
     (if actual < lower \<or> upper < actual then failM EmuException else returnM ())"

text \<open>
  \<open>RAFI_EMU_CHECK_ACCESS\<close> compares in the unsigned 64-bit type of its address and size
  operands, so the sum wraps.
\<close>

definition check_access :: "u64 \<Rightarrow> u64 \<Rightarrow> u64 \<Rightarrow> ('s, unit) act" where
  "check_access address sz capacity =
     (if address + sz - 1 < capacity then returnM () else failM EmuException)"

lemma check_range_ok [simp]:
  "lower \<le> actual \<Longrightarrow> actual \<le> upper \<Longrightarrow> check_range lower actual upper = returnM ()"
  by (simp add: check_range_def)

lemma preserves_check_range [preserves_intros]: "preserves I (check_range l a u)"
  by (simp add: check_range_def preserves_failM preserves_returnM)

lemma preserves_check_access [preserves_intros]: "preserves I (check_access a z c)"
  by (simp add: check_access_def preserves_failM preserves_returnM)

subsection \<open>Arrays\<close>

text \<open>Reading or writing a C array outside its bounds is undefined behaviour.\<close>

definition array_get :: "'a list \<Rightarrow> int \<Rightarrow> 'a result" where
  "array_get xs i =
     (if 0 \<le> i \<and> i < int (length xs) then Inr (xs ! nat i) else Inl Undefined)"

definition array_set :: "'a list \<Rightarrow> int \<Rightarrow> 'a \<Rightarrow> 'a list result" where
  "array_set xs i v =
     (if 0 \<le> i \<and> i < int (length xs) then Inr (xs[nat i := v]) else Inl Undefined)"

lemma array_get_ok: "0 \<le> i \<Longrightarrow> nat i < length xs \<Longrightarrow> array_get xs i = Inr (xs ! nat i)"
  by (simp add: array_get_def)

lemma array_set_ok: "0 \<le> i \<Longrightarrow> nat i < length xs \<Longrightarrow> array_set xs i v = Inr (xs[nat i := v])"
  by (simp add: array_set_def)

lemma array_set_length: "array_set xs i v = Inr ys \<Longrightarrow> length ys = length xs"
  by (auto simp: array_set_def split: if_splits)

end
