(* ===== verification/Rafi_Bits.thy ===== *)
theory Rafi_Bits
  imports Rafi_Prelude
begin

unbundle bit_operations_syntax

text \<open>
  \<^verbatim>\<open>include/rafi/common/BitField.h\<close> and \<^verbatim>\<open>include/rafi/common/Util.h\<close>: bit fields of a
  register, described by their most and least significant bit, and the helpers that split,
  merge and extend integers. The lemmas give each operation its meaning bit by bit, the
  laws of a lens for every bit field, and independence of fields that do not overlap.
\<close>

section \<open>Bit fields\<close>

type_synonym bit_member = "nat \<times> nat"

definition Member_Mask :: "bit_member \<Rightarrow> 'a::len word" where
  "Member_Mask m = push_bit (snd m) (push_bit (fst m - snd m + 1) 1 - 1)"

definition GetMember :: "bit_member \<Rightarrow> 'a::len word \<Rightarrow> 'a word" where
  "GetMember m v = drop_bit (snd m) (v AND Member_Mask m)"

definition SetMember :: "bit_member \<Rightarrow> 'a::len word \<Rightarrow> 'a word \<Rightarrow> 'a word" where
  "SetMember m x v = (v AND NOT (Member_Mask m)) OR (push_bit (snd m) x AND Member_Mask m)"

definition GetWithMask :: "'a::len word \<Rightarrow> 'a word \<Rightarrow> 'a word" where
  "GetWithMask msk v = v AND msk"

definition SetWithMask :: "'a::len word \<Rightarrow> 'a word \<Rightarrow> 'a word \<Rightarrow> 'a word" where
  "SetWithMask x msk v = (v AND NOT msk) OR (x AND msk)"

definition member_in :: "bit_member \<Rightarrow> nat \<Rightarrow> bool" where
  "member_in m n \<longleftrightarrow> snd m \<le> n \<and> n \<le> fst m"

definition disjoint_members :: "bit_member \<Rightarrow> bit_member \<Rightarrow> bool" where
  "disjoint_members a b \<longleftrightarrow>
     snd a \<le> fst a \<and> snd b \<le> fst b \<and> (fst a < snd b \<or> fst b < snd a)"

lemma Member_Mask_eq: "Member_Mask m = push_bit (snd m) (mask (fst m - snd m + 1))"
  by (simp add: Member_Mask_def mask_eq_exp_minus_1 push_bit_of_1)

lemma bit_Member_Mask [bit_simps]:
  "bit (Member_Mask m :: 'a::len word) n \<longleftrightarrow>
     n < LENGTH('a) \<and> snd m \<le> n \<and> n - snd m < fst m - snd m + 1"
  by (auto simp: Member_Mask_eq bit_simps)

lemma bit_GetMember [bit_simps]:
  "bit (GetMember m v) n \<longleftrightarrow> n < fst m - snd m + 1 \<and> bit v (snd m + n)"
  for v :: "'a::len word"
  by (auto simp: GetMember_def bit_simps dest: bit_imp_le_length)

lemma bit_SetMember [bit_simps]:
  "bit (SetMember m x v) n \<longleftrightarrow>
     (if snd m \<le> n \<and> n - snd m < fst m - snd m + 1
      then n < LENGTH('a) \<and> bit x (n - snd m) else bit v n)"
  for v :: "'a::len word"
  by (auto simp: SetMember_def bit_simps dest: bit_imp_le_length)

lemma bit_SetWithMask [bit_simps]:
  "bit (SetWithMask x msk v) n \<longleftrightarrow> (if bit msk n then bit x n else bit v n)"
  for v :: "'a::len word"
  by (auto simp: SetWithMask_def bit_simps dest: bit_imp_le_length)

lemma bit_GetWithMask [bit_simps]: "bit (GetWithMask msk v) n \<longleftrightarrow> bit v n \<and> bit msk n"
  by (simp add: GetWithMask_def bit_simps)

lemma GetMember_eq_take_bit:
  "GetMember m v = take_bit (fst m - snd m + 1) (drop_bit (snd m) v)"
  by (rule bit_word_eqI) (auto simp: bit_simps)

subsection \<open>Every bit field is a lens\<close>

text \<open>
  The contract of a field inside a larger state: what was stored is read back, storing what
  is there changes nothing, and the last store wins. \<open>valid\<close> are the values the field can
  hold.
\<close>

locale lens =
  fixes get :: "'s \<Rightarrow> 'v"
    and put :: "'v \<Rightarrow> 's \<Rightarrow> 's"
    and valid :: "'v \<Rightarrow> bool"
  assumes get_put: "valid v \<Longrightarrow> get (put v s) = v"
    and put_get: "put (get s) s = s"
    and put_put: "put v (put w s) = put v s"
begin

lemma put_inj: "valid v \<Longrightarrow> valid w \<Longrightarrow> put v s = put w s \<Longrightarrow> v = w"
  by (metis get_put)

lemma put_idem: "put v (put v s) = put v s"
  by (rule put_put)

lemma put_twice_restore: "put (get s) (put v s) = s"
  by (simp add: put_put put_get)

end

text \<open>Two lenses on one state that do not interfere.\<close>

locale lens_pair =
  a: lens getA putA validA + b: lens getB putB validB
  for getA :: "'s \<Rightarrow> 'v" and putA validA
    and getB :: "'s \<Rightarrow> 'w" and putB validB +
  assumes getA_putB: "getA (putB w s) = getA s"
    and getB_putA: "getB (putA v s) = getB s"
    and put_comm: "putA v (putB w s) = putB w (putA v s)"
begin

lemma both_read_back:
  "validA v \<Longrightarrow> validB w \<Longrightarrow>
   getA (putA v (putB w s)) = v \<and> getB (putA v (putB w s)) = w"
  by (simp add: a.get_put b.get_put getB_putA)

end

definition member_value :: "bit_member \<Rightarrow> 'a::len word \<Rightarrow> bool" where
  "member_value m v \<longleftrightarrow> take_bit (fst m - snd m + 1) v = v"

definition member_ok :: "'a::len itself \<Rightarrow> bit_member \<Rightarrow> bool" where
  "member_ok t m \<longleftrightarrow> snd m \<le> fst m \<and> fst m < LENGTH('a)"

lemma Get_SetMember:
  fixes v :: "'a::len word"
  assumes "member_ok TYPE('a) m"
  shows "GetMember m (SetMember m x v) = take_bit (fst m - snd m + 1) x"
  using assms by (intro bit_word_eqI) (auto simp: bit_simps member_ok_def)

lemma Set_GetMember: "SetMember m (GetMember m v) v = v"
  by (rule bit_word_eqI) (auto simp: bit_simps)

lemma Set_SetMember: "SetMember m x (SetMember m y v) = SetMember m x v"
  by (rule bit_word_eqI) (auto simp: bit_simps)

lemma lens_member:
  "member_ok TYPE('a::len) m \<Longrightarrow>
   lens (GetMember m :: 'a word \<Rightarrow> 'a word) (SetMember m) (member_value m)"
  by unfold_locales (simp_all add: Get_SetMember Set_GetMember Set_SetMember member_value_def)

lemma Get_SetMember_disjoint [simp]:
  assumes "disjoint_members a b"
  shows "GetMember a (SetMember b x v) = GetMember a v"
  using assms by (intro bit_word_eqI) (auto simp: bit_simps disjoint_members_def)

lemma Set_SetMember_disjoint:
  assumes "disjoint_members a b"
  shows "SetMember a x (SetMember b y v) = SetMember b y (SetMember a x v)"
  using assms by (intro bit_word_eqI) (auto simp: bit_simps disjoint_members_def)

lemma lens_pair_members:
  assumes "member_ok TYPE('a::len) a" "member_ok TYPE('a) b" "disjoint_members a b"
  shows "lens_pair (GetMember a :: 'a word \<Rightarrow> 'a word) (SetMember a) (member_value a)
           (GetMember b) (SetMember b) (member_value b)"
proof -
  have "disjoint_members b a" using assms(3) by (auto simp: disjoint_members_def)
  with assms show ?thesis
    by (intro lens_pair.intro lens_pair_axioms.intro lens_member)
      (auto simp: Set_SetMember_disjoint [of a b])
qed

lemma GetMember_1 [simp]: "GetMember m (0 :: 'a::len word) = 0"
  by (simp add: GetMember_def)

lemma GetMember_single:
  "GetMember (n, n) v = (if bit v n then 1 else 0)"
  by (rule bit_word_eqI) (auto simp: bit_simps bit_1_iff)

lemma GetMember_single_zero: "GetMember (n, n) v = 0 \<longleftrightarrow> \<not> bit v n"
  by (simp add: GetMember_single)

section \<open>Splitting, merging and extending integers\<close>

definition GetHigh32 :: "u64 \<Rightarrow> u32" where
  "GetHigh32 value = ucast (drop_bit 32 value)"

definition GetLow32 :: "u64 \<Rightarrow> u32" where
  "GetLow32 value = ucast (value AND 0xffffffff)"

text \<open>
  Both setters take an \<open>int32_t\<close>: merging it into the 64-bit target sign-extends it, before
  the shift in \<open>SetHigh32\<close>, and with nothing to hide the extension in \<open>SetLow32\<close>.
\<close>

definition SetHigh32 :: "u32 \<Rightarrow> u64 \<Rightarrow> u64" where
  "SetHigh32 value out = (out AND 0x00000000ffffffff) OR push_bit 32 (scast value)"

definition SetLow32 :: "u32 \<Rightarrow> u64 \<Rightarrow> u64" where
  "SetLow32 value out = (out AND 0xffffffff00000000) OR scast value"

definition SignExtend :: "nat \<Rightarrow> 'a::len word \<Rightarrow> 'a word" where
  "SignExtend srcWidth srcValue =
     (if srcValue AND push_bit (srcWidth - 1) 1 \<noteq> 0
      then srcValue OR push_bit (srcWidth - 1) (- 1)
      else srcValue)"

definition ZeroExtend :: "nat \<Rightarrow> 'a::len word \<Rightarrow> 'a word" where
  "ZeroExtend srcWidth srcValue = srcValue AND (push_bit srcWidth 1 - 1)"

lemma and_push_bit_1_zero: "v AND push_bit n 1 = 0 \<longleftrightarrow> \<not> bit v n"
  for v :: "'a::len word"
  by (simp add: push_bit_of_1 and_exp_eq_0_iff_not_bit)

lemma bit_top: "bit v n \<Longrightarrow> LENGTH('a) - 1 \<le> n \<Longrightarrow> bit v (LENGTH('a) - 1)"
  for v :: "'a::len word"
  by (metis bit_imp_le_length le_antisym less_imp_Suc_add diff_Suc_1 le_add1)

lemma bit_SignExtend:
  fixes v :: "'a::len word"
  assumes "1 \<le> w" "w \<le> LENGTH('a)"
  shows "bit (SignExtend w v) n \<longleftrightarrow>
    n < LENGTH('a) \<and> (bit v n \<or> (w - 1 \<le> n \<and> bit v (w - 1)))"
  using assms
  by (auto simp: SignExtend_def and_push_bit_1_zero bit_simps simp del: push_bit_of_1
      dest: bit_imp_le_length)

lemma SignExtend_signed_take_bit:
  fixes v :: "'a::len word"
  assumes "1 \<le> w" "w \<le> LENGTH('a)" "take_bit w v = v"
  shows "SignExtend w v = signed_take_bit (w - 1) v"
proof (rule bit_word_eqI)
  fix n assume n: "n < LENGTH('a)"
  have hi: "bit v n \<Longrightarrow> n < w"
    by (subst (asm) assms(3) [symmetric]) (simp add: bit_simps)
  show "bit (SignExtend w v) n = bit (signed_take_bit (w - 1) v) n"
  proof (cases "n < w - 1")
    case True
    with n assms(1,2) show ?thesis by (simp add: bit_SignExtend bit_simps)
  next
    case False
    with hi assms(1) have "bit v n \<Longrightarrow> n = w - 1" by simp
    with False n assms(1,2) show ?thesis by (auto simp: bit_SignExtend bit_simps)
  qed
qed

lemma ZeroExtend_take_bit: "ZeroExtend w v = take_bit w v" for v :: "'a::len word"
  by (simp add: ZeroExtend_def take_bit_eq_mask mask_eq_exp_minus_1 push_bit_of_1)

lemma bit_ZeroExtend [bit_simps]: "bit (ZeroExtend w v) n \<longleftrightarrow> n < w \<and> bit v n"
  for v :: "'a::len word"
  by (simp add: ZeroExtend_take_bit bit_simps)

lemma bit_top_32: "bit v n \<Longrightarrow> 31 \<le> n \<Longrightarrow> bit v 31" for v :: u32
  using bit_top [of v n] by simp

lemma SignExtend_32_ucast: "SignExtend 32 (ucast (v :: u32) :: u64) = scast v"
  by (rule bit_word_eqI)
     (auto simp: bit_SignExtend bit_simps min_def dest: bit_imp_le_length bit_top_32)

lemma SignExtend_32_scast: "SignExtend 32 (scast (v :: u32) :: u64) = scast v"
  by (rule bit_word_eqI)
     (auto simp: bit_SignExtend bit_simps min_def dest: bit_imp_le_length bit_top_32)

end
