(* ===== verification/Rafi_Types.thy ===== *)
theory Rafi_Types
  imports Rafi_Bits
begin

text \<open>
  The enumerations and structures of \<^verbatim>\<open>include/rafi/common/RvTypes.h\<close> and
  \<^verbatim>\<open>include/rafi/common/OpTypes.h\<close>, and \<open>IsRV32\<close>/\<open>IsRV64\<close> of
  \<^verbatim>\<open>src/librafi_common/OpApi.cpp\<close>. A C++ \<open>int\<close> is a \<^typ>\<open>32 word\<close>.
  The enumeration \<open>OpCode\<close> keeps the groups its declaration marks by comments, one datatype
  for each; \<open>unknown\<close> is the value before the first group. An enumerator keeps its name
  behind the prefix \<open>i_\<close>.
\<close>

type_synonym i32 = "32 word"
type_synonym i64 = "64 word"
type_synonym vaddr_t = u64
type_synonym paddr_t = u64
type_synonym csr_addr_t = u32

section \<open>RvTypes.h\<close>

definition IntRegCount :: int where "IntRegCount = 32"
definition FpRegCount :: int where "FpRegCount = 32"

datatype XLEN = XLEN32 | XLEN64 | XLEN128

definition XLEN_value :: "XLEN \<Rightarrow> u32" where
  "XLEN_value x = (case x of XLEN32 \<Rightarrow> 1 | XLEN64 \<Rightarrow> 2 | XLEN128 \<Rightarrow> 3)"

text \<open>
  A value cast to an enumeration need not be an enumerator; \<open>Mode_other\<close> holds the rest.
\<close>

datatype AddressTranslationMode = Bare | Sv32 | Sv39 | Sv48 | Sv57 | Sv64 | Mode_other u64

definition AddressTranslationMode_of :: "u64 \<Rightarrow> AddressTranslationMode" where
  "AddressTranslationMode_of v =
     (if v = 0 then Bare else if v = 1 then Sv32 else if v = 8 then Sv39
      else if v = 9 then Sv48 else if v = 10 then Sv57 else if v = 11 then Sv64
      else Mode_other v)"

datatype MemoryAccessType = Instruction | Load | Store

datatype PrivilegeLevel = User | Supervisor | Reserved | Machine

definition PrivilegeLevel_value :: "PrivilegeLevel \<Rightarrow> u64" where
  "PrivilegeLevel_value p = (case p of User \<Rightarrow> 0 | Supervisor \<Rightarrow> 1 | Reserved \<Rightarrow> 2 | Machine \<Rightarrow> 3)"

text \<open>The casts into \<open>PrivilegeLevel\<close> are of one- and two-bit fields only.\<close>

definition PrivilegeLevel_of :: "u64 \<Rightarrow> PrivilegeLevel" where
  "PrivilegeLevel_of v =
     (if v = 0 then User else if v = 1 then Supervisor else if v = 2 then Reserved else Machine)"

datatype TrapType = Interrupt | Exception | Return

datatype InterruptType =
    UserSoftware | SupervisorSoftware | MachineSoftware
  | UserTimer | SupervisorTimer | MachineTimer
  | UserExternal | SupervisorExternal | MachineExternal

definition InterruptType_value :: "InterruptType \<Rightarrow> u32" where
  "InterruptType_value t = (case t of
     UserSoftware \<Rightarrow> 0 | SupervisorSoftware \<Rightarrow> 1 | MachineSoftware \<Rightarrow> 3
   | UserTimer \<Rightarrow> 4 | SupervisorTimer \<Rightarrow> 5 | MachineTimer \<Rightarrow> 7
   | UserExternal \<Rightarrow> 8 | SupervisorExternal \<Rightarrow> 9 | MachineExternal \<Rightarrow> 11)"

datatype ExceptionType =
    InstructionAddressMisaligned | InstructionAccessFault | IllegalInstruction | Breakpoint
  | LoadAddressMisaligned | LoadAccessFault | StoreAddressMisaligned | StoreAccessFault
  | EnvironmentCallFromUser | EnvironmentCallFromSupervisor | EnvironmentCallFromMachine
  | InstructionPageFault | LoadPageFault | StorePageFault

definition ExceptionType_value :: "ExceptionType \<Rightarrow> u32" where
  "ExceptionType_value t = (case t of
     InstructionAddressMisaligned \<Rightarrow> 0 | InstructionAccessFault \<Rightarrow> 1
   | IllegalInstruction \<Rightarrow> 2 | Breakpoint \<Rightarrow> 3
   | LoadAddressMisaligned \<Rightarrow> 4 | LoadAccessFault \<Rightarrow> 5
   | StoreAddressMisaligned \<Rightarrow> 6 | StoreAccessFault \<Rightarrow> 7
   | EnvironmentCallFromUser \<Rightarrow> 8 | EnvironmentCallFromSupervisor \<Rightarrow> 9
   | EnvironmentCallFromMachine \<Rightarrow> 11 | InstructionPageFault \<Rightarrow> 12
   | LoadPageFault \<Rightarrow> 13 | StorePageFault \<Rightarrow> 15)"

section \<open>OpTypes.h\<close>

datatype OpClass =
    RV32I | RV32M | RV32A | RV32F | RV32D | RV32C
  | RV64I | RV64M | RV64A | RV64F | RV64D | RV64C

datatype (plugins only: code size) OpCodeI =
  i_lui | i_auipc | i_jal | i_jalr | i_beq | i_bne | i_blt | i_bge | i_bltu | i_bgeu
  | i_lb | i_lh | i_lw | i_ld | i_lbu | i_lhu | i_lwu | i_sb | i_sh | i_sw | i_sd
  | i_addi | i_addiw | i_slti | i_sltiu | i_xori | i_ori | i_andi | i_slli | i_slliw
  | i_srli | i_srliw | i_srai | i_sraiw | i_add | i_addw | i_sub | i_subw | i_sll
  | i_sllw | i_slt | i_sltu | i_xor | i_srl | i_srlw | i_sra | i_sraw | i_or | i_and
  | i_fence | i_fence_i | i_ecall | i_ebreak | i_csrrw | i_csrrs | i_csrrc | i_csrrwi
  | i_csrrsi | i_csrrci | i_mret | i_sret | i_uret | i_wfi | i_sfence_vma

datatype (plugins only: code size) OpCodeM =
  i_mul | i_mulw | i_mulh | i_mulhsu | i_mulhu | i_div | i_divw | i_divu | i_divuw
  | i_rem | i_remw | i_remu | i_remuw

datatype (plugins only: code size) OpCodeA =
  i_lr_w | i_lr_d | i_sc_w | i_sc_d | i_amoswap_w | i_amoswap_d | i_amoadd_w
  | i_amoadd_d | i_amoxor_w | i_amoxor_d | i_amoand_w | i_amoand_d | i_amoor_w
  | i_amoor_d | i_amomin_w | i_amomin_d | i_amomax_w | i_amomax_d | i_amominu_w
  | i_amominu_d | i_amomaxu_w | i_amomaxu_d

datatype (plugins only: code size) OpCodeF =
  i_flw | i_fsw | i_fmadd_s | i_fmsub_s | i_fnmsub_s | i_fnmadd_s | i_fadd_s | i_fsub_s
  | i_fmul_s | i_fdiv_s | i_fsqrt_s | i_fsgnj_s | i_fsgnjn_s | i_fsgnjx_s | i_fmin_s
  | i_fmax_s | i_fcvt_w_s | i_fcvt_wu_s | i_fmv_x_w | i_feq_s | i_flt_s | i_fle_s
  | i_fclass_s | i_fcvt_l_s | i_fcvt_lu_s | i_fcvt_s_w | i_fcvt_s_l | i_fcvt_s_wu
  | i_fcvt_s_lu | i_fmv_w_x

datatype (plugins only: code size) OpCodeD =
  i_fld | i_fsd | i_fmadd_d | i_fmsub_d | i_fnmsub_d | i_fnmadd_d | i_fadd_d | i_fsub_d
  | i_fmul_d | i_fdiv_d | i_fsqrt_d | i_fsgnj_d | i_fsgnjn_d | i_fsgnjx_d | i_fmin_d
  | i_fmax_d | i_fmv_d_x | i_fmv_x_d | i_feq_d | i_flt_d | i_fle_d | i_fclass_d
  | i_fcvt_s_d | i_fcvt_w_d | i_fcvt_wu_d | i_fcvt_l_d | i_fcvt_lu_d | i_fcvt_d_s
  | i_fcvt_d_w | i_fcvt_d_wu | i_fcvt_d_l | i_fcvt_d_lu

datatype (plugins only: code size) OpCodeC =
  i_c_addi4spn | i_c_fld | i_c_lq | i_c_lw | i_c_flw | i_c_ld | i_c_fsd | i_c_sq
  | i_c_sw | i_c_fsw | i_c_sd | i_c_nop | i_c_addi | i_c_jal | i_c_addiw | i_c_li
  | i_c_addi16sp | i_c_lui | i_c_srli | i_c_srli64 | i_c_srai | i_c_srai64 | i_c_andi
  | i_c_sub | i_c_xor | i_c_or | i_c_and | i_c_subw | i_c_addw | i_c_j | i_c_beqz
  | i_c_bnez | i_c_slli | i_c_slli64 | i_c_fldsp | i_c_lqsp | i_c_lwsp | i_c_flwsp
  | i_c_ldsp | i_c_jr | i_c_mv | i_c_ebreak | i_c_jalr | i_c_add | i_c_fsdsp | i_c_sqsp
  | i_c_swsp | i_c_fswsp | i_c_sdsp

datatype OpCode =
    Op_unknown
  | OpI OpCodeI
  | OpM OpCodeM
  | OpA OpCodeA
  | OpF OpCodeF
  | OpD OpCodeD
  | OpC OpCodeC

text \<open>
  The operand structures, in the order of the \<open>std::variant\<close>, their fields in declaration order.
\<close>

datatype Operand =
    OperandR i32 i32 i32 i32 i32  \<comment> \<open>rd, rs1, rs2, funct3, funct7\<close>
  | OperandR4 i32 i32 i32 i32 i32 i32  \<comment> \<open>rd, rs1, rs2, rs3, funct3, funct2\<close>
  | OperandI i64 i32 i32 i32  \<comment> \<open>imm, rd, rs1, funct3\<close>
  | OperandS i64 i32 i32 i32  \<comment> \<open>imm, rs1, rs2, funct3\<close>
  | OperandB i64 i32 i32 i32  \<comment> \<open>imm, rs1, rs2, funct3\<close>
  | OperandU i64 i32  \<comment> \<open>imm, rd\<close>
  | OperandJ i64 i32  \<comment> \<open>imm, rd\<close>
  | OperandShiftImm i32 i32 i32  \<comment> \<open>rd, rs1, shamt\<close>
  | OperandCsr i32 i32 csr_addr_t  \<comment> \<open>rd, rs1, csr\<close>
  | OperandCsrImm i32 i32 csr_addr_t  \<comment> \<open>zimm, rd, csr\<close>
  | OperandFence i32 i32  \<comment> \<open>pred, succ\<close>
  | OperandCR i32 i32 i32  \<comment> \<open>rd, rs1, rs2\<close>
  | OperandCI i64 i32 i32  \<comment> \<open>imm, rd, rs1\<close>
  | OperandCSS i64 i32  \<comment> \<open>imm, rs2\<close>
  | OperandCIW i64 i32  \<comment> \<open>imm, rd\<close>
  | OperandCL i64 i32 i32  \<comment> \<open>imm, rd, rs1\<close>
  | OperandCS i64 i32 i32  \<comment> \<open>imm, rs1, rs2\<close>
  | OperandCB i64 i32  \<comment> \<open>imm, rs1\<close>
  | OperandCJ i64  \<comment> \<open>imm\<close>
  | OperandNone

datatype Op = Op (op_opClass: OpClass) (op_opCode: OpCode) (op_operand: Operand)

section \<open>OpApi.cpp: the two class predicates\<close>

definition IsRV32 :: "OpClass \<Rightarrow> bool" where
  "IsRV32 c = (case c of RV32I \<Rightarrow> True | RV32M \<Rightarrow> True | RV32A \<Rightarrow> True | RV32F \<Rightarrow> True
     | RV32D \<Rightarrow> True | RV32C \<Rightarrow> True | _ \<Rightarrow> False)"

definition IsRV64 :: "OpClass \<Rightarrow> bool" where
  "IsRV64 c = (case c of RV64I \<Rightarrow> True | RV64M \<Rightarrow> True | RV64A \<Rightarrow> True | RV64F \<Rightarrow> True
     | RV64D \<Rightarrow> True | RV64C \<Rightarrow> True | _ \<Rightarrow> False)"

lemma PrivilegeLevel_of_value [simp]: "PrivilegeLevel_of (PrivilegeLevel_value p) = p"
  by (cases p) (simp_all add: PrivilegeLevel_of_def PrivilegeLevel_value_def)

lemma PrivilegeLevel_value_of: "v < 4 \<Longrightarrow> PrivilegeLevel_value (PrivilegeLevel_of v) = v"
  unfolding PrivilegeLevel_of_def PrivilegeLevel_value_def
  by (auto split: if_splits) unat_arith

lemma IsRV64_not_IsRV32: "IsRV64 c \<longleftrightarrow> \<not> IsRV32 c"
  by (cases c) (simp_all add: IsRV32_def IsRV64_def)

end
