(* ===== verification/Rafi_Decoder.thy ===== *)
theory Rafi_Decoder
  imports Rafi_Types
begin

text \<open>
  \<^verbatim>\<open>src/librafi_common/DecoderImpl.cpp\<close>, the instruction decoder: \<open>Decode\<close> on a 32-bit
  word, the compressed decoder \<open>DecodeC\<close> on a 16-bit word, the six decoders of the
  instruction sets, and the operand decoders. Each \<open>case\<close> of the C++ \<open>switch\<close> on the
  major opcode is one definition; its \<open>if\<close>/\<open>else if\<close> chain is kept in order. The asserts of
  \<open>Pick\<close> bound two literals at every call and hold there. \<open>ProcessExit\<close> is
  \<open>RAFI_NOT_IMPLEMENTED\<close>.
\<close>

section \<open>Operand decoders\<close>

definition Pick :: "u32 \<Rightarrow> nat \<Rightarrow> nat \<Rightarrow> i32" where
  "Pick insn lsb width = drop_bit lsb insn AND (push_bit width 1 - 1)"

abbreviation shl :: "'a::len word \<Rightarrow> nat \<Rightarrow> 'a word" where
  "shl v n \<equiv> push_bit n v"

text \<open>The immediate is computed in \<open>int\<close> and converted to \<open>int64_t\<close>, which sign-extends.\<close>

definition SignExtend64 :: "nat \<Rightarrow> i32 \<Rightarrow> i64" where
  "SignExtend64 w v = SignExtend w (scast v)"

definition ZeroExtend64 :: "nat \<Rightarrow> i32 \<Rightarrow> i64" where
  "ZeroExtend64 w v = ZeroExtend w (scast v)"

definition DecodeOperandR :: "u32 \<Rightarrow> Operand" where
  "DecodeOperandR insn =
     OperandR (Pick insn 7 5) (Pick insn 15 5) (Pick insn 20 5) (Pick insn 12 3) (Pick insn 25 5)"

definition DecodeOperandR4 :: "u32 \<Rightarrow> Operand" where
  "DecodeOperandR4 insn =
     OperandR4 (Pick insn 7 5) (Pick insn 15 5) (Pick insn 20 5) (Pick insn 27 5)
       (Pick insn 12 3) (Pick insn 25 2)"

definition DecodeOperandI :: "u32 \<Rightarrow> Operand" where
  "DecodeOperandI insn =
     OperandI (SignExtend64 12 (Pick insn 20 12))
       (Pick insn 7 5) (Pick insn 15 5) (Pick insn 12 3)"

definition DecodeOperandS :: "u32 \<Rightarrow> Operand" where
  "DecodeOperandS insn =
     OperandS (SignExtend64 12 (shl (Pick insn 25 7) 5 OR Pick insn 7 5))
       (Pick insn 15 5) (Pick insn 20 5) (Pick insn 12 3)"

definition DecodeOperandB :: "u32 \<Rightarrow> Operand" where
  "DecodeOperandB insn =
     OperandB (SignExtend64 13
         (shl (Pick insn 31 1) 12 OR shl (Pick insn 25 6) 5 OR
          shl (Pick insn 8 4) 1 OR shl (Pick insn 7 1) 11))
       (Pick insn 15 5) (Pick insn 20 5) (Pick insn 12 3)"

definition DecodeOperandU :: "u32 \<Rightarrow> Operand" where
  "DecodeOperandU insn =
     OperandU (SignExtend64 32 (shl (Pick insn 12 20) 12)) (Pick insn 7 5)"

definition DecodeOperandJ :: "u32 \<Rightarrow> Operand" where
  "DecodeOperandJ insn =
     OperandJ (SignExtend64 21
         (shl (Pick insn 31 1) 20 OR shl (Pick insn 21 10) 1 OR
          shl (Pick insn 20 1) 11 OR shl (Pick insn 12 8) 12))
       (Pick insn 7 5)"

definition DecodeOperandShiftImm_32 :: "u32 \<Rightarrow> Operand" where
  "DecodeOperandShiftImm_32 insn =
     OperandShiftImm (Pick insn 7 5) (Pick insn 15 5) (Pick insn 20 5)"

definition DecodeOperandShiftImm_64 :: "u32 \<Rightarrow> Operand" where
  "DecodeOperandShiftImm_64 insn =
     OperandShiftImm (Pick insn 7 5) (Pick insn 15 5) (Pick insn 20 6)"

definition DecodeOperandCsr :: "u32 \<Rightarrow> Operand" where
  "DecodeOperandCsr insn =
     OperandCsr (Pick insn 7 5) (Pick insn 15 5) (Pick insn 20 12)"

definition DecodeOperandCsrImm :: "u32 \<Rightarrow> Operand" where
  "DecodeOperandCsrImm insn =
     OperandCsrImm (Pick insn 15 5) (Pick insn 7 5) (Pick insn 20 12)"

definition DecodeOperandFence :: "u32 \<Rightarrow> Operand" where
  "DecodeOperandFence insn = OperandFence (Pick insn 24 4) (Pick insn 20 4)"

text \<open>
  The compressed operand decoders take a \<open>uint16_t\<close>, which \<open>Pick\<close> receives zero-extended.
\<close>

definition PickC :: "u16 \<Rightarrow> nat \<Rightarrow> nat \<Rightarrow> i32" where
  "PickC insn lsb width = Pick (ucast insn) lsb width"

definition DecodeOperandCR :: "u16 \<Rightarrow> Operand" where
  "DecodeOperandCR insn = OperandCR (PickC insn 7 5) (PickC insn 7 5) (PickC insn 2 5)"

definition DecodeOperandCR_Alu :: "u16 \<Rightarrow> Operand" where
  "DecodeOperandCR_Alu insn =
     OperandCR (PickC insn 7 3 + 8) (PickC insn 7 3 + 8) (PickC insn 2 3 + 8)"

definition DecodeOperandCI :: "u16 \<Rightarrow> bool \<Rightarrow> Operand" where
  "DecodeOperandCI insn immSigned =
     OperandCI
       (if immSigned then SignExtend64 6 (shl (PickC insn 12 1) 5 OR PickC insn 2 5)
        else ZeroExtend64 6 (shl (PickC insn 12 1) 5 OR PickC insn 2 5))
       (PickC insn 7 5) (PickC insn 7 5)"

definition DecodeOperandCI_ADDI16SP :: "u16 \<Rightarrow> Operand" where
  "DecodeOperandCI_ADDI16SP insn =
     OperandCI (SignExtend64 10
         (shl (PickC insn 12 1) 9 OR shl (PickC insn 6 1) 4 OR shl (PickC insn 5 1) 6 OR
          shl (PickC insn 3 2) 7 OR shl (PickC insn 2 1) 5))
       (PickC insn 7 5) (PickC insn 7 5)"

definition DecodeOperandCI_AluImm :: "u16 \<Rightarrow> bool \<Rightarrow> Operand" where
  "DecodeOperandCI_AluImm insn immSigned =
     OperandCI
       (if immSigned then SignExtend64 6 (shl (PickC insn 12 1) 5 OR PickC insn 2 5)
        else ZeroExtend64 6 (shl (PickC insn 12 1) 5 OR PickC insn 2 5))
       (PickC insn 7 3 + 8) (PickC insn 7 3 + 8)"

definition DecodeOperandCI_LoadSP :: "u16 \<Rightarrow> nat \<Rightarrow> Operand result" where
  "DecodeOperandCI_LoadSP insn accessSize =
     (if accessSize = 4 then Inr (OperandCI (ZeroExtend64 8
         (shl (PickC insn 12 1) 5 OR shl (PickC insn 4 3) 2 OR shl (PickC insn 2 2) 6))
         (PickC insn 7 5) (PickC insn 7 5))
      else if accessSize = 8 then Inr (OperandCI (ZeroExtend64 9
         (shl (PickC insn 12 1) 5 OR shl (PickC insn 5 2) 3 OR shl (PickC insn 2 3) 6))
         (PickC insn 7 5) (PickC insn 7 5))
      else if accessSize = 16 then Inr (OperandCI (ZeroExtend64 10
         (shl (PickC insn 12 1) 5 OR shl (PickC insn 6 1) 4 OR shl (PickC insn 2 4) 6))
         (PickC insn 7 5) (PickC insn 7 5))
      else Inl ProcessExit)"

definition DecodeOperandCI_LUI :: "u16 \<Rightarrow> Operand" where
  "DecodeOperandCI_LUI insn =
     OperandCI (SignExtend64 18 (shl (PickC insn 12 1) 17 OR shl (PickC insn 2 5) 12))
       (PickC insn 7 5) (PickC insn 7 5)"

definition DecodeOperandCSS :: "u16 \<Rightarrow> nat \<Rightarrow> Operand result" where
  "DecodeOperandCSS insn accessSize =
     (if accessSize = 4 then Inr (OperandCSS (ZeroExtend64 8
         (shl (PickC insn 9 4) 2 OR shl (PickC insn 7 2) 6)) (PickC insn 2 5))
      else if accessSize = 8 then Inr (OperandCSS (ZeroExtend64 9
         (shl (PickC insn 10 3) 3 OR shl (PickC insn 7 3) 6)) (PickC insn 2 5))
      else if accessSize = 16 then Inr (OperandCSS (ZeroExtend64 10
         (shl (PickC insn 11 2) 4 OR shl (PickC insn 7 4) 6)) (PickC insn 2 5))
      else Inl ProcessExit)"

definition DecodeOperandCIW :: "u16 \<Rightarrow> Operand" where
  "DecodeOperandCIW insn =
     OperandCIW (ZeroExtend64 10
         (shl (PickC insn 11 2) 4 OR shl (PickC insn 7 4) 6 OR
          shl (PickC insn 6 1) 2 OR shl (PickC insn 5 1) 3))
       (PickC insn 2 3 + 8)"

definition DecodeOperandCL :: "u16 \<Rightarrow> nat \<Rightarrow> Operand result" where
  "DecodeOperandCL insn accessSize =
     (if accessSize = 4 then Inr (OperandCL (ZeroExtend64 7
         (shl (PickC insn 10 3) 3 OR shl (PickC insn 6 1) 2 OR shl (PickC insn 5 1) 6))
         (PickC insn 2 3 + 8) (PickC insn 7 3 + 8))
      else if accessSize = 8 then Inr (OperandCL (ZeroExtend64 8
         (shl (PickC insn 10 3) 3 OR shl (PickC insn 5 2) 6))
         (PickC insn 2 3 + 8) (PickC insn 7 3 + 8))
      else if accessSize = 16 then Inr (OperandCL (ZeroExtend64 9
         (shl (PickC insn 11 2) 4 OR shl (PickC insn 10 1) 8 OR shl (PickC insn 5 2) 6))
         (PickC insn 2 3 + 8) (PickC insn 7 3 + 8))
      else Inl ProcessExit)"

definition DecodeOperandCS :: "u16 \<Rightarrow> nat \<Rightarrow> Operand result" where
  "DecodeOperandCS insn accessSize =
     (if accessSize = 4 then Inr (OperandCS (ZeroExtend64 7
         (shl (PickC insn 10 3) 3 OR shl (PickC insn 6 1) 2 OR shl (PickC insn 5 1) 6))
         (PickC insn 7 3 + 8) (PickC insn 2 3 + 8))
      else if accessSize = 8 then Inr (OperandCS (ZeroExtend64 8
         (shl (PickC insn 10 3) 3 OR shl (PickC insn 5 2) 6))
         (PickC insn 7 3 + 8) (PickC insn 2 3 + 8))
      else if accessSize = 16 then Inr (OperandCS (ZeroExtend64 9
         (shl (PickC insn 11 2) 4 OR shl (PickC insn 10 1) 8 OR shl (PickC insn 5 2) 6))
         (PickC insn 7 3 + 8) (PickC insn 2 3 + 8))
      else Inl ProcessExit)"

definition DecodeOperandCB :: "u16 \<Rightarrow> Operand" where
  "DecodeOperandCB insn =
     OperandCB (SignExtend64 9
         (shl (PickC insn 12 1) 8 OR shl (PickC insn 10 2) 3 OR shl (PickC insn 5 2) 6 OR
          shl (PickC insn 3 2) 1 OR shl (PickC insn 2 1) 5))
       (PickC insn 7 3 + 8)"

definition DecodeOperandCJ :: "u16 \<Rightarrow> Operand" where
  "DecodeOperandCJ insn =
     OperandCJ (SignExtend64 12
         (shl (PickC insn 12 1) 11 OR shl (PickC insn 11 1) 4 OR shl (PickC insn 9 2) 8 OR
          shl (PickC insn 8 1) 10 OR shl (PickC insn 7 1) 6 OR shl (PickC insn 6 1) 7 OR
          shl (PickC insn 3 3) 1 OR shl (PickC insn 2 1) 5))"

section \<open>RV32I and RV64I\<close>

definition unknown_op :: "OpClass \<Rightarrow> Op" where
  "unknown_op opClass = Op opClass Op_unknown OperandNone"

definition DecodeI_branch :: "OpClass \<Rightarrow> u32 \<Rightarrow> Op" where
  "DecodeI_branch opClass insn =
    (let funct3 = Pick insn 12 3 in
     (if funct3 = 0 then Op opClass (OpI i_beq) (DecodeOperandB insn)
      else if funct3 = 1 then Op opClass (OpI i_bne) (DecodeOperandB insn)
      else if funct3 = 4 then Op opClass (OpI i_blt) (DecodeOperandB insn)
      else if funct3 = 5 then Op opClass (OpI i_bge) (DecodeOperandB insn)
      else if funct3 = 6 then Op opClass (OpI i_bltu) (DecodeOperandB insn)
      else if funct3 = 7 then Op opClass (OpI i_bgeu) (DecodeOperandB insn)
      else unknown_op opClass))"

definition DecodeI_load :: "OpClass \<Rightarrow> u32 \<Rightarrow> Op" where
  "DecodeI_load opClass insn =
    (let funct3 = Pick insn 12 3 in
     (if funct3 = 0 then Op opClass (OpI i_lb) (DecodeOperandI insn)
      else if funct3 = 1 then Op opClass (OpI i_lh) (DecodeOperandI insn)
      else if funct3 = 2 then Op opClass (OpI i_lw) (DecodeOperandI insn)
      else if funct3 = 3 \<and> opClass = RV64I then Op opClass (OpI i_ld) (DecodeOperandI insn)
      else if funct3 = 4 then Op opClass (OpI i_lbu) (DecodeOperandI insn)
      else if funct3 = 5 then Op opClass (OpI i_lhu) (DecodeOperandI insn)
      else if funct3 = 6 \<and> opClass = RV64I then Op opClass (OpI i_lwu) (DecodeOperandI insn)
      else unknown_op opClass))"

definition DecodeI_store :: "OpClass \<Rightarrow> u32 \<Rightarrow> Op" where
  "DecodeI_store opClass insn =
    (let funct3 = Pick insn 12 3 in
     (if funct3 = 0 then Op opClass (OpI i_sb) (DecodeOperandS insn)
      else if funct3 = 1 then Op opClass (OpI i_sh) (DecodeOperandS insn)
      else if funct3 = 2 then Op opClass (OpI i_sw) (DecodeOperandS insn)
      else if funct3 = 3 \<and> opClass = RV64I then Op opClass (OpI i_sd) (DecodeOperandS insn)
      else unknown_op opClass))"

definition DecodeI_op_imm :: "OpClass \<Rightarrow> u32 \<Rightarrow> Op" where
  "DecodeI_op_imm opClass insn =
    (let funct3 = Pick insn 12 3;
         funct6 = Pick insn 26 6;
         funct7 = Pick insn 25 7 in
     (if funct3 = 0 then Op opClass (OpI i_addi) (DecodeOperandI insn)
      else if funct3 = 1 \<and> opClass = RV32I \<and> funct7 = 0b0000000
           then Op opClass (OpI i_slli) (DecodeOperandShiftImm_32 insn)
      else if funct3 = 1 \<and> opClass = RV64I \<and> funct6 = 0b000000
           then Op opClass (OpI i_slli) (DecodeOperandShiftImm_64 insn)
      else if funct3 = 2 then Op opClass (OpI i_slti) (DecodeOperandI insn)
      else if funct3 = 3 then Op opClass (OpI i_sltiu) (DecodeOperandI insn)
      else if funct3 = 4 then Op opClass (OpI i_xori) (DecodeOperandI insn)
      else if funct3 = 5 \<and> opClass = RV32I \<and> funct7 = 0b0000000
           then Op opClass (OpI i_srli) (DecodeOperandShiftImm_32 insn)
      else if funct3 = 5 \<and> opClass = RV32I \<and> funct7 = 0b0100000
           then Op opClass (OpI i_srai) (DecodeOperandShiftImm_32 insn)
      else if funct3 = 5 \<and> opClass = RV64I \<and> funct6 = 0b000000
           then Op opClass (OpI i_srli) (DecodeOperandShiftImm_64 insn)
      else if funct3 = 5 \<and> opClass = RV64I \<and> funct6 = 0b010000
           then Op opClass (OpI i_srai) (DecodeOperandShiftImm_64 insn)
      else if funct3 = 6 then Op opClass (OpI i_ori) (DecodeOperandI insn)
      else if funct3 = 7 then Op opClass (OpI i_andi) (DecodeOperandI insn)
      else unknown_op opClass))"

definition DecodeI_op :: "OpClass \<Rightarrow> u32 \<Rightarrow> Op" where
  "DecodeI_op opClass insn =
    (let funct3 = Pick insn 12 3;
         funct7 = Pick insn 25 7 in
     if funct7 = 0b0000000 then
       (if funct3 = 0 then Op opClass (OpI i_add) (DecodeOperandR insn)
        else if funct3 = 1 then Op opClass (OpI i_sll) (DecodeOperandR insn)
        else if funct3 = 2 then Op opClass (OpI i_slt) (DecodeOperandR insn)
        else if funct3 = 3 then Op opClass (OpI i_sltu) (DecodeOperandR insn)
        else if funct3 = 4 then Op opClass (OpI i_xor) (DecodeOperandR insn)
        else if funct3 = 5 then Op opClass (OpI i_srl) (DecodeOperandR insn)
        else if funct3 = 6 then Op opClass (OpI i_or) (DecodeOperandR insn)
        else if funct3 = 7 then Op opClass (OpI i_and) (DecodeOperandR insn)
        else unknown_op opClass)
     else if funct7 = 0b0100000 then
       (if funct3 = 0 then Op opClass (OpI i_sub) (DecodeOperandR insn)
        else if funct3 = 5 then Op opClass (OpI i_sra) (DecodeOperandR insn)
        else unknown_op opClass)
     else unknown_op opClass)"

definition DecodeI_op_imm_32 :: "OpClass \<Rightarrow> u32 \<Rightarrow> Op" where
  "DecodeI_op_imm_32 opClass insn =
    (let funct3 = Pick insn 12 3;
         funct7 = Pick insn 25 7 in
     (if opClass = RV64I \<and> funct3 = 0b000 then Op opClass (OpI i_addiw) (DecodeOperandI insn)
      else if opClass = RV64I \<and> funct3 = 0b001 \<and> funct7 = 0b0000000
           then Op opClass (OpI i_slliw) (DecodeOperandShiftImm_32 insn)
      else if opClass = RV64I \<and> funct3 = 0b101 \<and> funct7 = 0b0000000
           then Op opClass (OpI i_srliw) (DecodeOperandShiftImm_32 insn)
      else if opClass = RV64I \<and> funct3 = 0b101 \<and> funct7 = 0b0100000
           then Op opClass (OpI i_sraiw) (DecodeOperandShiftImm_32 insn)
      else unknown_op opClass))"

definition DecodeI_op_32 :: "OpClass \<Rightarrow> u32 \<Rightarrow> Op" where
  "DecodeI_op_32 opClass insn =
    (let funct3 = Pick insn 12 3;
         funct7 = Pick insn 25 7 in
     (if opClass = RV64I \<and> funct3 = 0b000 \<and> funct7 = 0b0000000
           then Op opClass (OpI i_addw) (DecodeOperandR insn)
      else if opClass = RV64I \<and> funct3 = 0b000 \<and> funct7 = 0b0100000
           then Op opClass (OpI i_subw) (DecodeOperandR insn)
      else if opClass = RV64I \<and> funct3 = 0b001 \<and> funct7 = 0b0000000
           then Op opClass (OpI i_sllw) (DecodeOperandR insn)
      else if opClass = RV64I \<and> funct3 = 0b101 \<and> funct7 = 0b0000000
           then Op opClass (OpI i_srlw) (DecodeOperandR insn)
      else if opClass = RV64I \<and> funct3 = 0b101 \<and> funct7 = 0b0100000
           then Op opClass (OpI i_sraw) (DecodeOperandR insn)
      else unknown_op opClass))"

definition DecodeI_misc_mem :: "OpClass \<Rightarrow> u32 \<Rightarrow> Op" where
  "DecodeI_misc_mem opClass insn =
    (let funct3 = Pick insn 12 3;
         funct12 = Pick insn 20 12;
         rd = Pick insn 7 5;
         rs1 = Pick insn 15 5 in
     (if funct3 = 0 \<and> rd = 0 \<and> rs1 = 0 \<and> Pick insn 28 4 = 0
           then Op opClass (OpI i_fence) (DecodeOperandFence insn)
      else if funct3 = 1 \<and> rd = 0 \<and> rs1 = 0 \<and> funct12 = 0
           then Op opClass (OpI i_fence_i) (DecodeOperandFence insn)
      else unknown_op opClass))"

definition DecodeI_system :: "OpClass \<Rightarrow> u32 \<Rightarrow> Op" where
  "DecodeI_system opClass insn =
    (let funct3 = Pick insn 12 3;
         funct7 = Pick insn 25 7;
         funct12 = Pick insn 20 12;
         rd = Pick insn 7 5;
         rs1 = Pick insn 15 5 in
     if funct3 = 0 \<and> rd = 0 then
       (if funct7 = 0b0001001 then Op opClass (OpI i_sfence_vma) (DecodeOperandR insn)
        else if rs1 = 0 then
          (if funct12 = 0b000000000000 then Op opClass (OpI i_ecall) OperandNone
           else if funct12 = 0b000000000001 then Op opClass (OpI i_ebreak) OperandNone
           else if funct12 = 0b000000000010 then Op opClass (OpI i_uret) OperandNone
           else if funct12 = 0b000100000010 then Op opClass (OpI i_sret) OperandNone
           else if funct12 = 0b000100000101 then Op opClass (OpI i_wfi) OperandNone
           else if funct12 = 0b001100000010 then Op opClass (OpI i_mret) OperandNone
           else unknown_op opClass)
        else unknown_op opClass)
     else if funct3 = 1 then Op opClass (OpI i_csrrw) (DecodeOperandCsr insn)
     else if funct3 = 2 then Op opClass (OpI i_csrrs) (DecodeOperandCsr insn)
     else if funct3 = 3 then Op opClass (OpI i_csrrc) (DecodeOperandCsr insn)
     else if funct3 = 5 then Op opClass (OpI i_csrrwi) (DecodeOperandCsrImm insn)
     else if funct3 = 6 then Op opClass (OpI i_csrrsi) (DecodeOperandCsrImm insn)
     else if funct3 = 7 then Op opClass (OpI i_csrrci) (DecodeOperandCsrImm insn)
     else unknown_op opClass)"

text \<open>The \<open>switch (m_XLEN)\<close> that opens every decoder.\<close>

definition opClass_I :: "XLEN \<Rightarrow> OpClass result" where
  "opClass_I xlen = (case xlen of
     XLEN32 \<Rightarrow> Inr RV32I | XLEN64 \<Rightarrow> Inr RV64I | XLEN128 \<Rightarrow> Inl ProcessExit)"

definition opClass_M :: "XLEN \<Rightarrow> OpClass result" where
  "opClass_M xlen = (case xlen of
     XLEN32 \<Rightarrow> Inr RV32M | XLEN64 \<Rightarrow> Inr RV64M | XLEN128 \<Rightarrow> Inl ProcessExit)"

definition opClass_A :: "XLEN \<Rightarrow> OpClass result" where
  "opClass_A xlen = (case xlen of
     XLEN32 \<Rightarrow> Inr RV32A | XLEN64 \<Rightarrow> Inr RV64A | XLEN128 \<Rightarrow> Inl ProcessExit)"

definition opClass_F :: "XLEN \<Rightarrow> OpClass result" where
  "opClass_F xlen = (case xlen of
     XLEN32 \<Rightarrow> Inr RV32F | XLEN64 \<Rightarrow> Inr RV64F | XLEN128 \<Rightarrow> Inl ProcessExit)"

definition opClass_D :: "XLEN \<Rightarrow> OpClass result" where
  "opClass_D xlen = (case xlen of
     XLEN32 \<Rightarrow> Inr RV32D | XLEN64 \<Rightarrow> Inr RV64D | XLEN128 \<Rightarrow> Inl ProcessExit)"

definition opClass_C :: "XLEN \<Rightarrow> OpClass result" where
  "opClass_C xlen = (case xlen of
     XLEN32 \<Rightarrow> Inr RV32C | XLEN64 \<Rightarrow> Inr RV64C | XLEN128 \<Rightarrow> Inl ProcessExit)"

definition DecodeI :: "XLEN \<Rightarrow> u32 \<Rightarrow> Op result" where
  "DecodeI xlen insn = (case opClass_I xlen of Inl e \<Rightarrow> Inl e | Inr opClass \<Rightarrow>
    (let opcode = Pick insn 0 7 in
     (if opcode = 0b0110111 then Inr (Op opClass (OpI i_lui) (DecodeOperandU insn))
      else if opcode = 0b0010111 then Inr (Op opClass (OpI i_auipc) (DecodeOperandU insn))
      else if opcode = 0b1101111 then Inr (Op opClass (OpI i_jal) (DecodeOperandJ insn))
      else if opcode = 0b1100111
           then Inr ((if Pick insn 12 3 = 0 then Op opClass (OpI i_jalr) (DecodeOperandI insn) else unknown_op opClass))
      else if opcode = 0b1100011 then Inr (DecodeI_branch opClass insn)
      else if opcode = 0b0000011 then Inr (DecodeI_load opClass insn)
      else if opcode = 0b0100011 then Inr (DecodeI_store opClass insn)
      else if opcode = 0b0010011 then Inr (DecodeI_op_imm opClass insn)
      else if opcode = 0b0110011 then Inr (DecodeI_op opClass insn)
      else if opcode = 0b0011011 then Inr (DecodeI_op_imm_32 opClass insn)
      else if opcode = 0b0111011 then Inr (DecodeI_op_32 opClass insn)
      else if opcode = 0b0001111 then Inr (DecodeI_misc_mem opClass insn)
      else if opcode = 0b1110011 then Inr (DecodeI_system opClass insn)
      else Inr (unknown_op opClass))))"

section \<open>RV32M and RV64M\<close>

definition DecodeM_op :: "OpClass \<Rightarrow> u32 \<Rightarrow> Op" where
  "DecodeM_op opClass insn =
    (let funct3 = Pick insn 12 3 in
     (if funct3 = 0b000 then Op opClass (OpM i_mul) (DecodeOperandR insn)
      else if funct3 = 0b001 then Op opClass (OpM i_mulh) (DecodeOperandR insn)
      else if funct3 = 0b010 then Op opClass (OpM i_mulhsu) (DecodeOperandR insn)
      else if funct3 = 0b011 then Op opClass (OpM i_mulhu) (DecodeOperandR insn)
      else if funct3 = 0b100 then Op opClass (OpM i_div) (DecodeOperandR insn)
      else if funct3 = 0b101 then Op opClass (OpM i_divu) (DecodeOperandR insn)
      else if funct3 = 0b110 then Op opClass (OpM i_rem) (DecodeOperandR insn)
      else Op opClass (OpM i_remu) (DecodeOperandR insn)))"

definition DecodeM_op_32 :: "OpClass \<Rightarrow> u32 \<Rightarrow> Op" where
  "DecodeM_op_32 opClass insn =
    (let funct3 = Pick insn 12 3 in
     (if opClass = RV64M \<and> funct3 = 0b000 then Op opClass (OpM i_mulw) (DecodeOperandR insn)
      else if opClass = RV64M \<and> funct3 = 0b100
           then Op opClass (OpM i_divw) (DecodeOperandR insn)
      else if opClass = RV64M \<and> funct3 = 0b101
           then Op opClass (OpM i_divuw) (DecodeOperandR insn)
      else if opClass = RV64M \<and> funct3 = 0b110
           then Op opClass (OpM i_remw) (DecodeOperandR insn)
      else if opClass = RV64M \<and> funct3 = 0b111
           then Op opClass (OpM i_remuw) (DecodeOperandR insn)
      else Op opClass Op_unknown (DecodeOperandR insn)))"

definition DecodeM :: "XLEN \<Rightarrow> u32 \<Rightarrow> Op result" where
  "DecodeM xlen insn = (case opClass_M xlen of Inl e \<Rightarrow> Inl e | Inr opClass \<Rightarrow>
    (let opcode = Pick insn 0 7 in
     (if opcode = 0b0110011 then Inr (DecodeM_op opClass insn)
      else if opcode = 0b0111011 then Inr (DecodeM_op_32 opClass insn)
      else Inl ProcessExit)))"

section \<open>RV32A and RV64A\<close>

definition DecodeA_w :: "OpClass \<Rightarrow> u32 \<Rightarrow> Op" where
  "DecodeA_w opClass insn =
    (let funct5 = Pick insn 27 5;
         rs2 = Pick insn 20 5 in
     (if funct5 = 0b00010 \<and> rs2 = 0b00000 then Op opClass (OpA i_lr_w) (DecodeOperandR insn)
      else if funct5 = 0b00011 then Op opClass (OpA i_sc_w) (DecodeOperandR insn)
      else if funct5 = 0b00001 then Op opClass (OpA i_amoswap_w) (DecodeOperandR insn)
      else if funct5 = 0b00000 then Op opClass (OpA i_amoadd_w) (DecodeOperandR insn)
      else if funct5 = 0b00100 then Op opClass (OpA i_amoxor_w) (DecodeOperandR insn)
      else if funct5 = 0b01100 then Op opClass (OpA i_amoand_w) (DecodeOperandR insn)
      else if funct5 = 0b01000 then Op opClass (OpA i_amoor_w) (DecodeOperandR insn)
      else if funct5 = 0b10000 then Op opClass (OpA i_amomin_w) (DecodeOperandR insn)
      else if funct5 = 0b10100 then Op opClass (OpA i_amomax_w) (DecodeOperandR insn)
      else if funct5 = 0b11000 then Op opClass (OpA i_amominu_w) (DecodeOperandR insn)
      else if funct5 = 0b11100 then Op opClass (OpA i_amomaxu_w) (DecodeOperandR insn)
      else unknown_op opClass))"

definition DecodeA_d :: "OpClass \<Rightarrow> u32 \<Rightarrow> Op" where
  "DecodeA_d opClass insn =
    (let funct5 = Pick insn 27 5;
         rs2 = Pick insn 20 5 in
     (if opClass = RV64A \<and> funct5 = 0b00010 \<and> rs2 = 0b00000
           then Op opClass (OpA i_lr_d) (DecodeOperandR insn)
      else if opClass = RV64A \<and> funct5 = 0b00011
           then Op opClass (OpA i_sc_d) (DecodeOperandR insn)
      else if opClass = RV64A \<and> funct5 = 0b00001
           then Op opClass (OpA i_amoswap_d) (DecodeOperandR insn)
      else if opClass = RV64A \<and> funct5 = 0b00000
           then Op opClass (OpA i_amoadd_d) (DecodeOperandR insn)
      else if opClass = RV64A \<and> funct5 = 0b00100
           then Op opClass (OpA i_amoxor_d) (DecodeOperandR insn)
      else if opClass = RV64A \<and> funct5 = 0b01100
           then Op opClass (OpA i_amoand_d) (DecodeOperandR insn)
      else if opClass = RV64A \<and> funct5 = 0b01000
           then Op opClass (OpA i_amoor_d) (DecodeOperandR insn)
      else if opClass = RV64A \<and> funct5 = 0b10000
           then Op opClass (OpA i_amomin_d) (DecodeOperandR insn)
      else if opClass = RV64A \<and> funct5 = 0b10100
           then Op opClass (OpA i_amomax_d) (DecodeOperandR insn)
      else if opClass = RV64A \<and> funct5 = 0b11000
           then Op opClass (OpA i_amominu_d) (DecodeOperandR insn)
      else if opClass = RV64A \<and> funct5 = 0b11100
           then Op opClass (OpA i_amomaxu_d) (DecodeOperandR insn)
      else unknown_op opClass))"

definition DecodeA :: "XLEN \<Rightarrow> u32 \<Rightarrow> Op result" where
  "DecodeA xlen insn = (case opClass_A xlen of Inl e \<Rightarrow> Inl e | Inr opClass \<Rightarrow>
    (let funct3 = Pick insn 12 3 in
     (if funct3 = 0b010 then Inr (DecodeA_w opClass insn)
      else if funct3 = 0b011 then Inr (DecodeA_d opClass insn)
      else Inr (unknown_op opClass))))"

section \<open>RV32F and RV64F\<close>

definition DecodeF_op_fp :: "OpClass \<Rightarrow> u32 \<Rightarrow> Op" where
  "DecodeF_op_fp opClass insn =
    (let funct3 = Pick insn 12 3;
         funct7 = Pick insn 25 7;
         rs2 = Pick insn 20 5 in
     (if funct7 = 0b0000000 then Op opClass (OpF i_fadd_s) (DecodeOperandR insn)
      else if funct7 = 0b0000100 then Op opClass (OpF i_fsub_s) (DecodeOperandR insn)
      else if funct7 = 0b0001000 then Op opClass (OpF i_fmul_s) (DecodeOperandR insn)
      else if funct7 = 0b0001100 then Op opClass (OpF i_fdiv_s) (DecodeOperandR insn)
      else if funct7 = 0b0101100
           then 
        (if rs2 = 0b00000 then Op opClass (OpF i_fsqrt_s) (DecodeOperandR insn)
         else unknown_op opClass)
      else if funct7 = 0b0010000
           then 
        (if funct3 = 0b000 then Op opClass (OpF i_fsgnj_s) (DecodeOperandR insn)
         else if funct3 = 0b001 then Op opClass (OpF i_fsgnjn_s) (DecodeOperandR insn)
         else if funct3 = 0b010 then Op opClass (OpF i_fsgnjx_s) (DecodeOperandR insn)
         else unknown_op opClass)
      else if funct7 = 0b0010100
           then 
        (if funct3 = 0b000 then Op opClass (OpF i_fmin_s) (DecodeOperandR insn)
         else if funct3 = 0b001 then Op opClass (OpF i_fmax_s) (DecodeOperandR insn)
         else unknown_op opClass)
      else if funct7 = 0b1100000
           then 
        (if rs2 = 0b00000 then Op opClass (OpF i_fcvt_w_s) (DecodeOperandR insn)
         else if rs2 = 0b00001 then Op opClass (OpF i_fcvt_wu_s) (DecodeOperandR insn)
         else if rs2 = 0b00010 \<and> opClass = RV64F
              then Op opClass (OpF i_fcvt_l_s) (DecodeOperandR insn)
         else if rs2 = 0b00011 \<and> opClass = RV64F
              then Op opClass (OpF i_fcvt_lu_s) (DecodeOperandR insn)
         else unknown_op opClass)
      else if funct7 = 0b1110000
           then 
        (if rs2 = 0b00000 \<and> funct3 = 0b000
              then Op opClass (OpF i_fmv_x_w) (DecodeOperandR insn)
         else if rs2 = 0b00000 \<and> funct3 = 0b001
              then Op opClass (OpF i_fclass_s) (DecodeOperandR insn)
         else unknown_op opClass)
      else if funct7 = 0b1010000
           then 
        (if funct3 = 0b000 then Op opClass (OpF i_fle_s) (DecodeOperandR insn)
         else if funct3 = 0b001 then Op opClass (OpF i_flt_s) (DecodeOperandR insn)
         else if funct3 = 0b010 then Op opClass (OpF i_feq_s) (DecodeOperandR insn)
         else unknown_op opClass)
      else if funct7 = 0b1101000
           then 
        (if rs2 = 0b00000 then Op opClass (OpF i_fcvt_s_w) (DecodeOperandR insn)
         else if rs2 = 0b00001 then Op opClass (OpF i_fcvt_s_wu) (DecodeOperandR insn)
         else if rs2 = 0b00010 \<and> opClass = RV64F
              then Op opClass (OpF i_fcvt_s_l) (DecodeOperandR insn)
         else if rs2 = 0b00011 \<and> opClass = RV64F
              then Op opClass (OpF i_fcvt_s_lu) (DecodeOperandR insn)
         else unknown_op opClass)
      else if funct7 = 0b1111000
           then 
        (if rs2 = 0b00000 \<and> funct3 = 0b000
              then Op opClass (OpF i_fmv_w_x) (DecodeOperandR insn)
         else unknown_op opClass)
      else unknown_op opClass))"

definition DecodeF :: "XLEN \<Rightarrow> u32 \<Rightarrow> Op result" where
  "DecodeF xlen insn = (case opClass_F xlen of Inl e \<Rightarrow> Inl e | Inr opClass \<Rightarrow>
    (let opcode = Pick insn 0 7 in
     (if opcode = 0b0000111
           then Inr (if Pick insn 12 3 = 0b010 then Op opClass (OpF i_flw) (DecodeOperandI insn) else unknown_op opClass)
      else if opcode = 0b0100111
           then Inr (if Pick insn 12 3 = 0b010 then Op opClass (OpF i_fsw) (DecodeOperandS insn) else unknown_op opClass)
      else if opcode = 0b1000011 then Inr (Op opClass (OpF i_fmadd_s) (DecodeOperandR4 insn))
      else if opcode = 0b1000111 then Inr (Op opClass (OpF i_fmsub_s) (DecodeOperandR4 insn))
      else if opcode = 0b1001011 then Inr (Op opClass (OpF i_fnmsub_s) (DecodeOperandR4 insn))
      else if opcode = 0b1001111 then Inr (Op opClass (OpF i_fnmadd_s) (DecodeOperandR4 insn))
      else if opcode = 0b1010011 then Inr (DecodeF_op_fp opClass insn)
      else Inr (unknown_op opClass))))"

section \<open>RV32D and RV64D\<close>

definition DecodeD_op_fp :: "OpClass \<Rightarrow> u32 \<Rightarrow> Op" where
  "DecodeD_op_fp opClass insn =
    (let funct3 = Pick insn 12 3;
         funct7 = Pick insn 25 7;
         rs2 = Pick insn 20 5 in
     (if funct7 = 0b0000001 then Op opClass (OpD i_fadd_d) (DecodeOperandR insn)
      else if funct7 = 0b0000101 then Op opClass (OpD i_fsub_d) (DecodeOperandR insn)
      else if funct7 = 0b0001001 then Op opClass (OpD i_fmul_d) (DecodeOperandR insn)
      else if funct7 = 0b0001101 then Op opClass (OpD i_fdiv_d) (DecodeOperandR insn)
      else if funct7 = 0b0101101
           then 
        (if rs2 = 0b00000 then Op opClass (OpD i_fsqrt_d) (DecodeOperandR insn)
         else unknown_op opClass)
      else if funct7 = 0b0010001
           then 
        (if funct3 = 0b000 then Op opClass (OpD i_fsgnj_d) (DecodeOperandR insn)
         else if funct3 = 0b001 then Op opClass (OpD i_fsgnjn_d) (DecodeOperandR insn)
         else if funct3 = 0b010 then Op opClass (OpD i_fsgnjx_d) (DecodeOperandR insn)
         else unknown_op opClass)
      else if funct7 = 0b0010101
           then 
        (if funct3 = 0b000 then Op opClass (OpD i_fmin_d) (DecodeOperandR insn)
         else if funct3 = 0b001 then Op opClass (OpD i_fmax_d) (DecodeOperandR insn)
         else unknown_op opClass)
      else if funct7 = 0b0100000
           then 
        (if rs2 = 0b00001 then Op opClass (OpD i_fcvt_s_d) (DecodeOperandR insn)
         else unknown_op opClass)
      else if funct7 = 0b0100001
           then 
        (if rs2 = 0b00000 then Op opClass (OpD i_fcvt_d_s) (DecodeOperandR insn)
         else unknown_op opClass)
      else if funct7 = 0b1010001
           then 
        (if funct3 = 0b000 then Op opClass (OpD i_fle_d) (DecodeOperandR insn)
         else if funct3 = 0b001 then Op opClass (OpD i_flt_d) (DecodeOperandR insn)
         else if funct3 = 0b010 then Op opClass (OpD i_feq_d) (DecodeOperandR insn)
         else unknown_op opClass)
      else if funct7 = 0b1110001
           then 
        (if rs2 = 0b00000 \<and> funct3 = 0b000
              then Op opClass (OpD i_fmv_x_d) (DecodeOperandR insn)
         else if rs2 = 0b00000 \<and> funct3 = 0b001
              then Op opClass (OpD i_fclass_d) (DecodeOperandR insn)
         else unknown_op opClass)
      else if funct7 = 0b1100001
           then 
        (if rs2 = 0b00000 then Op opClass (OpD i_fcvt_w_d) (DecodeOperandR insn)
         else if rs2 = 0b00001 then Op opClass (OpD i_fcvt_wu_d) (DecodeOperandR insn)
         else if rs2 = 0b00010 then Op opClass (OpD i_fcvt_l_d) (DecodeOperandR insn)
         else if rs2 = 0b00011 then Op opClass (OpD i_fcvt_lu_d) (DecodeOperandR insn)
         else unknown_op opClass)
      else if funct7 = 0b1101001
           then 
        (if rs2 = 0b00000 then Op opClass (OpD i_fcvt_d_w) (DecodeOperandR insn)
         else if rs2 = 0b00001 then Op opClass (OpD i_fcvt_d_wu) (DecodeOperandR insn)
         else if rs2 = 0b00010 then Op opClass (OpD i_fcvt_d_l) (DecodeOperandR insn)
         else if rs2 = 0b00011 then Op opClass (OpD i_fcvt_d_lu) (DecodeOperandR insn)
         else unknown_op opClass)
      else if funct7 = 0b1111001
           then 
        (if rs2 = 0b00000 \<and> funct3 = 0b000
              then Op opClass (OpD i_fmv_d_x) (DecodeOperandR insn)
         else unknown_op opClass)
      else unknown_op opClass))"

definition DecodeD :: "XLEN \<Rightarrow> u32 \<Rightarrow> Op result" where
  "DecodeD xlen insn = (case opClass_D xlen of Inl e \<Rightarrow> Inl e | Inr opClass \<Rightarrow>
    (let opcode = Pick insn 0 7 in
     (if opcode = 0b0000111
           then Inr (if Pick insn 12 3 = 0b011 then Op opClass (OpD i_fld) (DecodeOperandI insn) else unknown_op opClass)
      else if opcode = 0b0100111
           then Inr (if Pick insn 12 3 = 0b011 then Op opClass (OpD i_fsd) (DecodeOperandS insn) else unknown_op opClass)
      else if opcode = 0b1000011 then Inr (Op opClass (OpD i_fmadd_d) (DecodeOperandR4 insn))
      else if opcode = 0b1000111 then Inr (Op opClass (OpD i_fmsub_d) (DecodeOperandR4 insn))
      else if opcode = 0b1001011 then Inr (Op opClass (OpD i_fnmsub_d) (DecodeOperandR4 insn))
      else if opcode = 0b1001111 then Inr (Op opClass (OpD i_fnmadd_d) (DecodeOperandR4 insn))
      else if opcode = 0b1010011 then Inr (DecodeD_op_fp opClass insn)
      else Inr (unknown_op opClass))))"

section \<open>The compressed instructions\<close>

definition DecodeC_00 :: "OpClass \<Rightarrow> u16 \<Rightarrow> Op result" where
  "DecodeC_00 opClass insn =
    (let funct3 = PickC insn 13 3 in
     (if funct3 = 0b000 \<and> PickC insn 5 8 \<noteq> 0
           then Inr (Op opClass (OpC i_c_addi4spn) (DecodeOperandCIW insn))
      else if funct3 = 0b001 then map_sum id (Op opClass (OpC i_c_fld)) (DecodeOperandCL insn 8)
      else if funct3 = 0b010 then map_sum id (Op opClass (OpC i_c_lw)) (DecodeOperandCL insn 4)
      else if funct3 = 0b011 \<and> opClass = RV32C
           then map_sum id (Op opClass (OpC i_c_flw)) (DecodeOperandCL insn 4)
      else if funct3 = 0b011 \<and> opClass = RV64C
           then map_sum id (Op opClass (OpC i_c_ld)) (DecodeOperandCL insn 8)
      else if funct3 = 0b101 then map_sum id (Op opClass (OpC i_c_fsd)) (DecodeOperandCS insn 8)
      else if funct3 = 0b110 then map_sum id (Op opClass (OpC i_c_sw)) (DecodeOperandCS insn 4)
      else if funct3 = 0b111 \<and> opClass = RV32C
           then map_sum id (Op opClass (OpC i_c_fsw)) (DecodeOperandCS insn 4)
      else if funct3 = 0b111 \<and> opClass = RV64C
           then map_sum id (Op opClass (OpC i_c_sd)) (DecodeOperandCS insn 8)
      else Inr (unknown_op opClass)))"

definition DecodeC_01 :: "OpClass \<Rightarrow> u16 \<Rightarrow> Op result" where
  "DecodeC_01 opClass insn =
    (let funct4 = PickC insn 12 4;
         funct3 = PickC insn 13 3;
         funct2_rs1 = PickC insn 10 2;
         funct2_rs2 = PickC insn 5 2;
         rd = PickC insn 7 5;
         rs2 = PickC insn 2 5 in
     (if funct4 = 0b0000 \<and> rd = 0 \<and> rs2 = 0
           then Inr (Op opClass (OpC i_c_nop) OperandNone)
      else if funct3 = 0b000 then Inr (Op opClass (OpC i_c_addi) (DecodeOperandCI insn True))
      else if funct3 = 0b001 \<and> opClass = RV32C
           then Inr (Op opClass (OpC i_c_jal) (DecodeOperandCJ insn))
      else if funct3 = 0b001 \<and> opClass = RV64C \<and> rd \<noteq> 0
           then Inr (Op opClass (OpC i_c_addiw) (DecodeOperandCI insn True))
      else if funct3 = 0b010 \<and> rd \<noteq> 0
           then Inr (Op opClass (OpC i_c_li) (DecodeOperandCI insn True))
      else if funct3 = 0b011 \<and> rd = 2
           then Inr (Op opClass (OpC i_c_addi16sp) (DecodeOperandCI_ADDI16SP insn))
      else if funct3 = 0b011 \<and> rd \<noteq> 0 \<and> rd \<noteq> 2
           then Inr (Op opClass (OpC i_c_lui) (DecodeOperandCI_LUI insn))
      else if funct3 = 0b100 \<and> funct2_rs1 = 0b00
           then Inr (Op opClass (OpC i_c_srli) (DecodeOperandCI_AluImm insn False))
      else if funct3 = 0b100 \<and> funct2_rs1 = 0b01
           then Inr (Op opClass (OpC i_c_srai) (DecodeOperandCI_AluImm insn False))
      else if funct3 = 0b100 \<and> funct2_rs1 = 0b10
           then Inr (Op opClass (OpC i_c_andi) (DecodeOperandCI_AluImm insn True))
      else if funct4 = 0b1000 \<and> funct2_rs1 = 0b11 \<and> funct2_rs2 = 0b00
           then Inr (Op opClass (OpC i_c_sub) (DecodeOperandCR_Alu insn))
      else if funct4 = 0b1000 \<and> funct2_rs1 = 0b11 \<and> funct2_rs2 = 0b01
           then Inr (Op opClass (OpC i_c_xor) (DecodeOperandCR_Alu insn))
      else if funct4 = 0b1000 \<and> funct2_rs1 = 0b11 \<and> funct2_rs2 = 0b10
           then Inr (Op opClass (OpC i_c_or) (DecodeOperandCR_Alu insn))
      else if funct4 = 0b1000 \<and> funct2_rs1 = 0b11 \<and> funct2_rs2 = 0b11
           then Inr (Op opClass (OpC i_c_and) (DecodeOperandCR_Alu insn))
      else if funct4 = 0b1001 \<and> funct2_rs1 = 0b11 \<and> funct2_rs2 = 0b00
           then Inr (Op opClass (OpC i_c_subw) (DecodeOperandCR_Alu insn))
      else if funct4 = 0b1001 \<and> funct2_rs1 = 0b11 \<and> funct2_rs2 = 0b01
           then Inr (Op opClass (OpC i_c_addw) (DecodeOperandCR_Alu insn))
      else if funct3 = 0b101 then Inr (Op opClass (OpC i_c_j) (DecodeOperandCJ insn))
      else if funct3 = 0b110 then Inr (Op opClass (OpC i_c_beqz) (DecodeOperandCB insn))
      else if funct3 = 0b111 then Inr (Op opClass (OpC i_c_bnez) (DecodeOperandCB insn))
      else Inr (unknown_op opClass)))"

definition DecodeC_10 :: "OpClass \<Rightarrow> u16 \<Rightarrow> Op result" where
  "DecodeC_10 opClass insn =
    (let funct4 = PickC insn 12 4;
         funct3 = PickC insn 13 3;
         rd = PickC insn 7 5;
         rs1 = PickC insn 7 5;
         rs2 = PickC insn 2 5 in
     (if funct3 = 0b000 then Inr (Op opClass (OpC i_c_slli) (DecodeOperandCI insn True))
      else if funct3 = 0b001
           then map_sum id (Op opClass (OpC i_c_fldsp)) (DecodeOperandCI_LoadSP insn 8)
      else if funct3 = 0b010 \<and> rd \<noteq> 0
           then map_sum id (Op opClass (OpC i_c_lwsp)) (DecodeOperandCI_LoadSP insn 4)
      else if funct3 = 0b011 \<and> opClass = RV32C
           then map_sum id (Op opClass (OpC i_c_flwsp)) (DecodeOperandCI_LoadSP insn 4)
      else if funct3 = 0b011 \<and> opClass = RV64C \<and> rd \<noteq> 0
           then map_sum id (Op opClass (OpC i_c_ldsp)) (DecodeOperandCI_LoadSP insn 8)
      else if funct4 = 0b1000 \<and> rs1 \<noteq> 0 \<and> rs2 = 0
           then Inr (Op opClass (OpC i_c_jr) (DecodeOperandCR insn))
      else if funct4 = 0b1000 \<and> rd \<noteq> 0 \<and> rs2 \<noteq> 0
           then Inr (Op opClass (OpC i_c_mv) (DecodeOperandCR insn))
      else if funct4 = 0b1001 \<and> rd = 0 \<and> rs2 = 0
           then Inr (Op opClass (OpC i_c_ebreak) (DecodeOperandCR insn))
      else if funct4 = 0b1001 \<and> rs1 \<noteq> 0 \<and> rs2 = 0
           then Inr (Op opClass (OpC i_c_jalr) (DecodeOperandCR insn))
      else if funct4 = 0b1001 \<and> rs1 \<noteq> 0 \<and> rs2 \<noteq> 0
           then Inr (Op opClass (OpC i_c_add) (DecodeOperandCR insn))
      else if funct3 = 0b101
           then map_sum id (Op opClass (OpC i_c_fsdsp)) (DecodeOperandCSS insn 8)
      else if funct3 = 0b110 then map_sum id (Op opClass (OpC i_c_swsp)) (DecodeOperandCSS insn 4)
      else if funct3 = 0b111 \<and> opClass = RV32C
           then map_sum id (Op opClass (OpC i_c_fswsp)) (DecodeOperandCSS insn 4)
      else if funct3 = 0b111 \<and> opClass = RV64C
           then map_sum id (Op opClass (OpC i_c_sdsp)) (DecodeOperandCSS insn 8)
      else Inr (unknown_op opClass)))"

definition DecodeC :: "XLEN \<Rightarrow> u16 \<Rightarrow> Op result" where
  "DecodeC xlen insn = (case opClass_C xlen of Inl e \<Rightarrow> Inl e | Inr opClass \<Rightarrow>
    (let opcode = PickC insn 0 2 in
     (if opcode = 0b00 then DecodeC_00 opClass insn
      else if opcode = 0b01 then DecodeC_01 opClass insn
      else if opcode = 0b10 then DecodeC_10 opClass insn
      else Inr (unknown_op opClass))))"

section \<open>The entry points\<close>

definition Decode16 :: "XLEN \<Rightarrow> u16 \<Rightarrow> Op result" where
  "Decode16 xlen insn = DecodeC xlen insn"

definition IsCompressedInstruction16 :: "u16 \<Rightarrow> bool" where
  "IsCompressedInstruction16 insn \<longleftrightarrow> insn AND 0b11 \<noteq> 0b11"

definition IsCompressedInstruction :: "u32 \<Rightarrow> bool" where
  "IsCompressedInstruction insn \<longleftrightarrow> insn AND 0b11 \<noteq> 0b11"

definition Decode :: "XLEN \<Rightarrow> u32 \<Rightarrow> Op result" where
  "Decode xlen insn =
    (let opcode = Pick insn 0 7;
         funct3 = Pick insn 12 3;
         funct7 = Pick insn 25 7;
         funct2 = Pick insn 25 2 in
     if IsCompressedInstruction insn then DecodeC xlen (ucast insn)
     else if (opcode = 0b0110011 \<and> funct7 = 0b0000001) \<or>
             (opcode = 0b0111011 \<and> funct7 = 0b0000001) then DecodeM xlen insn
     else if (opcode = 0b0101111 \<and> funct3 = 0b010) \<or>
             (opcode = 0b0101111 \<and> funct3 = 0b011) then DecodeA xlen insn
     else if (opcode = 0b0000111 \<and> funct3 = 0b010) \<or>
             (opcode = 0b0100111 \<and> funct3 = 0b010) \<or>
             (opcode = 0b1000011 \<and> funct2 = 0b00) \<or>
             (opcode = 0b1000111 \<and> funct2 = 0b00) \<or>
             (opcode = 0b1001011 \<and> funct2 = 0b00) \<or>
             (opcode = 0b1001111 \<and> funct2 = 0b00) \<or>
             (opcode = 0b1010011 \<and> funct2 = 0b00 \<and> \<not> funct7 = 0b0100000)
       then DecodeF xlen insn
     else if (opcode = 0b0000111 \<and> funct3 = 0b011) \<or>
             (opcode = 0b0100111 \<and> funct3 = 0b011) \<or>
             (opcode = 0b1000011 \<and> funct2 = 0b01) \<or>
             (opcode = 0b1000111 \<and> funct2 = 0b01) \<or>
             (opcode = 0b1001011 \<and> funct2 = 0b01) \<or>
             (opcode = 0b1001111 \<and> funct2 = 0b01) \<or>
             (opcode = 0b1010011 \<and> funct2 = 0b01) \<or>
             (opcode = 0b1010011 \<and> funct7 = 0b0100000)
       then DecodeD xlen insn
     else DecodeI xlen insn)"

end
