(* ===== verification/Rafi_Decoder_Ok.thy ===== *)
theory Rafi_Decoder_Ok
  imports Rafi_Decoder
begin

text \<open>
  What the decoder promises to the executor: it answers every word on RV32 and RV64, every
  operation it answers has the operand variant the executor reads with \<open>std::get\<close> for that
  opcode, register numbers inside the register files, and the class of the decoder's width.
\<close>

section \<open>The instruction formats\<close>

datatype (plugins only: code size) format =
  Fmt_R | Fmt_R4 | Fmt_I | Fmt_S | Fmt_B | Fmt_U | Fmt_J | Fmt_Shift | Fmt_Csr | Fmt_CsrImm
  | Fmt_Fence | Fmt_CR | Fmt_CI | Fmt_CSS | Fmt_CIW | Fmt_CL | Fmt_CS | Fmt_CB | Fmt_CJ
  | Fmt_None | Fmt_Any

text \<open>An unknown operation has no operand, or the registers that its decoder had read before.\<close>

definition operand_in :: "format \<Rightarrow> Operand \<Rightarrow> bool" where
  "operand_in fmt opr = (case opr of
     OperandR rd rs1 rs2 funct3 funct7 \<Rightarrow>
       (fmt = Fmt_R \<or> fmt = Fmt_Any) \<and> rd < 32 \<and> rs1 < 32 \<and> rs2 < 32 \<and> funct3 < 8 \<and> funct7 < 32
   | OperandR4 rd rs1 rs2 rs3 funct3 funct2 \<Rightarrow>
       fmt = Fmt_R4 \<and> rd < 32 \<and> rs1 < 32 \<and> rs2 < 32 \<and> rs3 < 32 \<and> funct3 < 8 \<and> funct2 < 4
   | OperandI imm rd rs1 funct3 \<Rightarrow> fmt = Fmt_I \<and> rd < 32 \<and> rs1 < 32 \<and> funct3 < 8
   | OperandS imm rs1 rs2 funct3 \<Rightarrow> fmt = Fmt_S \<and> rs1 < 32 \<and> rs2 < 32 \<and> funct3 < 8
   | OperandB imm rs1 rs2 funct3 \<Rightarrow> fmt = Fmt_B \<and> rs1 < 32 \<and> rs2 < 32 \<and> funct3 < 8
   | OperandU imm rd \<Rightarrow> fmt = Fmt_U \<and> rd < 32
   | OperandJ imm rd \<Rightarrow> fmt = Fmt_J \<and> rd < 32
   | OperandShiftImm rd rs1 shamt \<Rightarrow> fmt = Fmt_Shift \<and> rd < 32 \<and> rs1 < 32 \<and> shamt < 64
   | OperandCsr rd rs1 csr \<Rightarrow> fmt = Fmt_Csr \<and> rd < 32 \<and> rs1 < 32 \<and> csr < 4096
   | OperandCsrImm zimm rd csr \<Rightarrow> fmt = Fmt_CsrImm \<and> zimm < 32 \<and> rd < 32 \<and> csr < 4096
   | OperandFence pred succ \<Rightarrow> fmt = Fmt_Fence \<and> pred < 16 \<and> succ < 16
   | OperandCR rd rs1 rs2 \<Rightarrow> fmt = Fmt_CR \<and> rd < 32 \<and> rs1 < 32 \<and> rs2 < 32
   | OperandCI imm rd rs1 \<Rightarrow> fmt = Fmt_CI \<and> rd < 32 \<and> rs1 < 32
   | OperandCSS imm rs2 \<Rightarrow> fmt = Fmt_CSS \<and> rs2 < 32
   | OperandCIW imm rd \<Rightarrow> fmt = Fmt_CIW \<and> rd < 32
   | OperandCL imm rd rs1 \<Rightarrow> fmt = Fmt_CL \<and> rd < 32 \<and> rs1 < 32
   | OperandCS imm rs1 rs2 \<Rightarrow> fmt = Fmt_CS \<and> rs1 < 32 \<and> rs2 < 32
   | OperandCB imm rs1 \<Rightarrow> fmt = Fmt_CB \<and> rs1 < 32
   | OperandCJ imm \<Rightarrow> fmt = Fmt_CJ
   | OperandNone \<Rightarrow> fmt = Fmt_None \<or> fmt = Fmt_Any)"

definition format_I :: "OpCodeI \<Rightarrow> format" where
  "format_I c =
     (if c \<in> {i_lui, i_auipc} then Fmt_U
      else if c = i_jal then Fmt_J
      else if c \<in> {i_beq, i_bne, i_blt, i_bge, i_bltu, i_bgeu} then Fmt_B
      else if c \<in> {i_sb, i_sh, i_sw, i_sd} then Fmt_S
      else if c \<in> {i_jalr, i_lb, i_lh, i_lw, i_ld, i_lbu, i_lhu, i_lwu,
                   i_addi, i_addiw, i_slti, i_sltiu, i_xori, i_ori, i_andi} then Fmt_I
      else if c \<in> {i_slli, i_slliw, i_srli, i_srliw, i_srai, i_sraiw} then Fmt_Shift
      else if c \<in> {i_fence, i_fence_i} then Fmt_Fence
      else if c \<in> {i_csrrw, i_csrrs, i_csrrc} then Fmt_Csr
      else if c \<in> {i_csrrwi, i_csrrsi, i_csrrci} then Fmt_CsrImm
      else if c \<in> {i_ecall, i_ebreak, i_mret, i_sret, i_uret, i_wfi} then Fmt_None
      else Fmt_R)"

definition format_F :: "OpCodeF \<Rightarrow> format" where
  "format_F c =
     (if c = i_flw then Fmt_I else if c = i_fsw then Fmt_S
      else if c \<in> {i_fmadd_s, i_fmsub_s, i_fnmsub_s, i_fnmadd_s} then Fmt_R4
      else Fmt_R)"

definition format_D :: "OpCodeD \<Rightarrow> format" where
  "format_D c =
     (if c = i_fld then Fmt_I else if c = i_fsd then Fmt_S
      else if c \<in> {i_fmadd_d, i_fmsub_d, i_fnmsub_d, i_fnmadd_d} then Fmt_R4
      else Fmt_R)"

definition format_C :: "OpCodeC \<Rightarrow> format" where
  "format_C c =
     (if c = i_c_nop then Fmt_None
      else if c = i_c_addi4spn then Fmt_CIW
      else if c \<in> {i_c_fld, i_c_lw, i_c_flw, i_c_ld} then Fmt_CL
      else if c \<in> {i_c_fsd, i_c_sw, i_c_fsw, i_c_sd} then Fmt_CS
      else if c \<in> {i_c_jal, i_c_j} then Fmt_CJ
      else if c \<in> {i_c_beqz, i_c_bnez} then Fmt_CB
      else if c \<in> {i_c_fsdsp, i_c_swsp, i_c_fswsp, i_c_sdsp} then Fmt_CSS
      else if c \<in> {i_c_sub, i_c_xor, i_c_or, i_c_and, i_c_subw, i_c_addw,
                   i_c_jr, i_c_mv, i_c_ebreak, i_c_jalr, i_c_add} then Fmt_CR
      else Fmt_CI)"

definition format_of :: "OpCode \<Rightarrow> format" where
  "format_of code = (case code of Op_unknown \<Rightarrow> Fmt_Any | OpI c \<Rightarrow> format_I c
     | OpM c \<Rightarrow> Fmt_R | OpA c \<Rightarrow> Fmt_R | OpF c \<Rightarrow> format_F c | OpD c \<Rightarrow> format_D c
     | OpC c \<Rightarrow> format_C c)"

text \<open>The group of an opcode is the group of the class it is dispatched under.\<close>

definition group_ok :: "OpClass \<Rightarrow> OpCode \<Rightarrow> bool" where
  "group_ok c code = (case code of Op_unknown \<Rightarrow> True
     | OpI _ \<Rightarrow> c \<in> {RV32I, RV64I} | OpM _ \<Rightarrow> c \<in> {RV32M, RV64M} | OpA _ \<Rightarrow> c \<in> {RV32A, RV64A}
     | OpF _ \<Rightarrow> c \<in> {RV32F, RV64F} | OpD _ \<Rightarrow> c \<in> {RV32D, RV64D} | OpC _ \<Rightarrow> c \<in> {RV32C, RV64C})"

definition class_of_xlen :: "XLEN \<Rightarrow> OpClass \<Rightarrow> bool" where
  "class_of_xlen xlen c =
     (case xlen of XLEN32 \<Rightarrow> IsRV32 c | XLEN64 \<Rightarrow> IsRV64 c | XLEN128 \<Rightarrow> False)"

definition op_ok :: "OpClass \<Rightarrow> Op \<Rightarrow> bool" where
  "op_ok c op \<longleftrightarrow> op_opClass op = c \<and> group_ok c (op_opCode op) \<and>
     operand_in (format_of (op_opCode op)) (op_operand op)"

section \<open>Operands\<close>

lemma Pick_take_bit: "Pick insn l w = take_bit w (drop_bit l insn)"
  by (simp add: Pick_def take_bit_eq_mask mask_eq_exp_minus_1 push_bit_of_1)

lemma bit_Pick [bit_simps]: "bit (Pick insn l w) n \<longleftrightarrow> n < w \<and> bit insn (l + n)"
  by (auto simp: Pick_take_bit bit_simps)

lemma Pick_lt [simp]:
  "Pick insn l 2 < 4" "Pick insn l 3 < 8" "Pick insn l 4 < 16" "Pick insn l 5 < 32"
  "Pick insn l 6 < 64" "Pick insn l 12 < 4096"
  by (simp_all add: Pick_take_bit word_less_nat_alt unsigned_take_bit_eq take_bit_nat_eq_self_iff
      take_bit_nat_less_exp [of 2, simplified] take_bit_nat_less_exp [of 3, simplified]
      take_bit_nat_less_exp [of 4, simplified] take_bit_nat_less_exp [of 5, simplified]
      take_bit_nat_less_exp [of 6, simplified] take_bit_nat_less_exp [of 12, simplified])

lemma Pick_creg [simp]: "Pick insn l 3 + 8 < 32"
proof -
  have "Pick insn l 3 < 8" by simp
  then show ?thesis by unat_arith
qed

lemma PickC_lt [simp]: "PickC insn l 5 < 32" "PickC insn l 3 + 8 < 32"
  by (simp_all add: PickC_def)

lemma operand_in_decoded [simp]:
  "operand_in Fmt_R (DecodeOperandR insn)"
  "operand_in Fmt_R4 (DecodeOperandR4 insn)"
  "operand_in Fmt_I (DecodeOperandI insn)"
  "operand_in Fmt_S (DecodeOperandS insn)"
  "operand_in Fmt_B (DecodeOperandB insn)"
  "operand_in Fmt_U (DecodeOperandU insn)"
  "operand_in Fmt_J (DecodeOperandJ insn)"
  "operand_in Fmt_Shift (DecodeOperandShiftImm_64 insn)"
  "operand_in Fmt_Csr (DecodeOperandCsr insn)"
  "operand_in Fmt_CsrImm (DecodeOperandCsrImm insn)"
  "operand_in Fmt_Fence (DecodeOperandFence insn)"
  "operand_in Fmt_CR (DecodeOperandCR c)"
  "operand_in Fmt_CR (DecodeOperandCR_Alu c)"
  "operand_in Fmt_CI (DecodeOperandCI c imm_signed)"
  "operand_in Fmt_CI (DecodeOperandCI_ADDI16SP c)"
  "operand_in Fmt_CI (DecodeOperandCI_AluImm c imm_signed)"
  "operand_in Fmt_CI (DecodeOperandCI_LUI c)"
  "operand_in Fmt_CIW (DecodeOperandCIW c)"
  "operand_in Fmt_CB (DecodeOperandCB c)"
  "operand_in Fmt_CJ (DecodeOperandCJ c)"
  "operand_in Fmt_None OperandNone"
  "operand_in Fmt_Any OperandNone"
  "operand_in Fmt_Any (DecodeOperandR insn)"
  by (simp_all add: operand_in_def DecodeOperandR_def DecodeOperandR4_def DecodeOperandI_def
      DecodeOperandS_def DecodeOperandB_def DecodeOperandU_def DecodeOperandJ_def
      DecodeOperandShiftImm_64_def DecodeOperandCsr_def DecodeOperandCsrImm_def
      DecodeOperandFence_def DecodeOperandCR_def DecodeOperandCR_Alu_def DecodeOperandCI_def
      DecodeOperandCI_ADDI16SP_def DecodeOperandCI_AluImm_def DecodeOperandCI_LUI_def
      DecodeOperandCIW_def DecodeOperandCB_def DecodeOperandCJ_def)

lemma operand_in_shift_32 [simp]: "operand_in Fmt_Shift (DecodeOperandShiftImm_32 insn)"
proof -
  have "Pick insn 20 5 < 32" by simp
  then have "Pick insn 20 5 < 64" by unat_arith
  then show ?thesis by (simp add: operand_in_def DecodeOperandShiftImm_32_def)
qed

text \<open>The memory operands of the compressed loads and stores, at the sizes that occur.\<close>

lemma operand_in_mem:
  assumes "sz \<in> {4, 8, 16}"
  shows "\<exists>opr. DecodeOperandCI_LoadSP c sz = Inr opr \<and> operand_in Fmt_CI opr"
    and "\<exists>opr. DecodeOperandCSS c sz = Inr opr \<and> operand_in Fmt_CSS opr"
    and "\<exists>opr. DecodeOperandCL c sz = Inr opr \<and> operand_in Fmt_CL opr"
    and "\<exists>opr. DecodeOperandCS c sz = Inr opr \<and> operand_in Fmt_CS opr"
  using assms by (auto simp: operand_in_def DecodeOperandCI_LoadSP_def DecodeOperandCSS_def
      DecodeOperandCL_def DecodeOperandCS_def)

section \<open>Operations\<close>

definition decoded :: "OpClass \<Rightarrow> Op result \<Rightarrow> bool" where
  "decoded c r \<longleftrightarrow> (\<exists>op. r = Inr op \<and> op_ok c op)"

lemma decoded_Inr [simp]: "decoded c (Inr op) \<longleftrightarrow> op_ok c op"
  by (auto simp: decoded_def)

lemma decoded_mem:
  assumes "sz \<in> {4, 8, 16}" and "group_ok cls code"
  shows "format_of code = Fmt_CI \<Longrightarrow>
           decoded cls (map_sum id (Op cls code) (DecodeOperandCI_LoadSP c sz))"
    and "format_of code = Fmt_CSS \<Longrightarrow> decoded cls (map_sum id (Op cls code) (DecodeOperandCSS c sz))"
    and "format_of code = Fmt_CL \<Longrightarrow> decoded cls (map_sum id (Op cls code) (DecodeOperandCL c sz))"
    and "format_of code = Fmt_CS \<Longrightarrow> decoded cls (map_sum id (Op cls code) (DecodeOperandCS c sz))"
  using operand_in_mem [OF assms(1), of c] assms(2) by (auto simp: decoded_def op_ok_def)

lemma op_ok_Op [simp]:
  "op_ok c (Op c code opr) \<longleftrightarrow> group_ok c code \<and> operand_in (format_of code) opr"
  by (simp add: op_ok_def)

lemma op_ok_unknown [simp]: "op_ok c (unknown_op c)"
  by (simp add: unknown_op_def group_ok_def format_of_def)

lemmas op_ok_simps =
  group_ok_def format_of_def format_I_def format_F_def format_D_def format_C_def

lemma op_ok_DecodeI:
  assumes "c \<in> {RV32I, RV64I}"
  shows "op_ok c (DecodeI_branch c insn)" "op_ok c (DecodeI_load c insn)"
    "op_ok c (DecodeI_store c insn)" "op_ok c (DecodeI_op_imm c insn)"
    "op_ok c (DecodeI_op c insn)" "op_ok c (DecodeI_op_imm_32 c insn)"
    "op_ok c (DecodeI_op_32 c insn)" "op_ok c (DecodeI_misc_mem c insn)"
    "op_ok c (DecodeI_system c insn)"
  using assms
  by (simp_all add: DecodeI_branch_def DecodeI_load_def DecodeI_store_def DecodeI_op_imm_def
      DecodeI_op_def DecodeI_op_imm_32_def DecodeI_op_32_def DecodeI_misc_mem_def
      DecodeI_system_def Let_def op_ok_simps)

lemma op_ok_DecodeM:
  "c \<in> {RV32M, RV64M} \<Longrightarrow> op_ok c (DecodeM_op c insn)"
  "c \<in> {RV32M, RV64M} \<Longrightarrow> op_ok c (DecodeM_op_32 c insn)"
  by (simp_all add: DecodeM_op_def DecodeM_op_32_def Let_def op_ok_simps)

lemma op_ok_DecodeA:
  "c \<in> {RV32A, RV64A} \<Longrightarrow> op_ok c (DecodeA_w c insn)"
  "c \<in> {RV32A, RV64A} \<Longrightarrow> op_ok c (DecodeA_d c insn)"
  by (simp_all add: DecodeA_w_def DecodeA_d_def Let_def op_ok_simps)

lemma op_ok_DecodeF: "c \<in> {RV32F, RV64F} \<Longrightarrow> op_ok c (DecodeF_op_fp c insn)"
  by (simp add: DecodeF_op_fp_def Let_def op_ok_simps)

lemma op_ok_DecodeD: "c \<in> {RV32D, RV64D} \<Longrightarrow> op_ok c (DecodeD_op_fp c insn)"
  by (simp add: DecodeD_op_fp_def Let_def op_ok_simps)

lemma decoded_C_parts:
  assumes "c \<in> {RV32C, RV64C}"
  shows "decoded c (DecodeC_00 c insn)" "decoded c (DecodeC_01 c insn)"
    "decoded c (DecodeC_10 c insn)"
  using assms
  by (simp_all add: DecodeC_00_def DecodeC_01_def DecodeC_10_def Let_def decoded_mem op_ok_simps)


lemma opClass_Inr:
  "opClass_I xlen = Inr c \<Longrightarrow> c \<in> {RV32I, RV64I} \<and> class_of_xlen xlen c"
  "opClass_M xlen = Inr c \<Longrightarrow> c \<in> {RV32M, RV64M} \<and> class_of_xlen xlen c"
  "opClass_A xlen = Inr c \<Longrightarrow> c \<in> {RV32A, RV64A} \<and> class_of_xlen xlen c"
  "opClass_F xlen = Inr c \<Longrightarrow> c \<in> {RV32F, RV64F} \<and> class_of_xlen xlen c"
  "opClass_D xlen = Inr c \<Longrightarrow> c \<in> {RV32D, RV64D} \<and> class_of_xlen xlen c"
  "opClass_C xlen = Inr c \<Longrightarrow> c \<in> {RV32C, RV64C} \<and> class_of_xlen xlen c"
  by (cases xlen; auto simp: opClass_I_def opClass_M_def opClass_A_def opClass_F_def
      opClass_D_def opClass_C_def class_of_xlen_def IsRV32_def IsRV64_def)+

lemma opClass_total:
  assumes "xlen \<noteq> XLEN128"
  shows "\<exists>c. opClass_I xlen = Inr c" "\<exists>c. opClass_M xlen = Inr c" "\<exists>c. opClass_A xlen = Inr c"
    "\<exists>c. opClass_F xlen = Inr c" "\<exists>c. opClass_D xlen = Inr c" "\<exists>c. opClass_C xlen = Inr c"
  using assms by (cases xlen; simp add: opClass_I_def opClass_M_def opClass_A_def opClass_F_def
      opClass_D_def opClass_C_def)+

lemma decoded_sets:
  "opClass_I xlen = Inr c \<Longrightarrow> decoded c (DecodeI xlen insn)"
  "opClass_M xlen = Inr c \<Longrightarrow> Pick insn 0 7 \<in> {0b0110011, 0b0111011} \<Longrightarrow>
     decoded c (DecodeM xlen insn)"
  "opClass_A xlen = Inr c \<Longrightarrow> decoded c (DecodeA xlen insn)"
  "opClass_F xlen = Inr c \<Longrightarrow> decoded c (DecodeF xlen insn)"
  "opClass_D xlen = Inr c \<Longrightarrow> decoded c (DecodeD xlen insn)"
  "opClass_C xlen = Inr c \<Longrightarrow> decoded c (DecodeC xlen insn16)"
  subgoal by (frule opClass_Inr) (simp add: DecodeI_def Let_def op_ok_DecodeI op_ok_simps)
  subgoal by (frule opClass_Inr) (auto simp add: DecodeM_def Let_def op_ok_DecodeM)
  subgoal by (frule opClass_Inr) (simp add: DecodeA_def Let_def op_ok_DecodeA)
  subgoal by (frule opClass_Inr) (simp add: DecodeF_def Let_def op_ok_DecodeF op_ok_simps)
  subgoal by (frule opClass_Inr) (simp add: DecodeD_def Let_def op_ok_DecodeD op_ok_simps)
  subgoal by (frule opClass_Inr) (simp add: DecodeC_def Let_def decoded_C_parts)
  done

definition decoded_for :: "XLEN \<Rightarrow> Op result \<Rightarrow> bool" where
  "decoded_for xlen r \<longleftrightarrow> (\<exists>c. class_of_xlen xlen c \<and> decoded c r)"

lemma decoded_for_sets:
  assumes "xlen \<noteq> XLEN128"
  shows "decoded_for xlen (DecodeI xlen insn)" "decoded_for xlen (DecodeA xlen insn)"
    "decoded_for xlen (DecodeF xlen insn)" "decoded_for xlen (DecodeD xlen insn)"
    "decoded_for xlen (DecodeC xlen insn16)"
    "Pick insn 0 7 \<in> {0b0110011, 0b0111011} \<Longrightarrow> decoded_for xlen (DecodeM xlen insn)"
  using opClass_total [OF assms] unfolding decoded_for_def by (meson decoded_sets opClass_Inr)+

lemma decoded_for_Decode: "xlen \<noteq> XLEN128 \<Longrightarrow> decoded_for xlen (Decode xlen insn)"
  unfolding Decode_def Let_def by (auto simp: decoded_for_sets split: if_splits)

text \<open>
  C30: on RV32 and RV64 the decoder answers every 32-bit word (it neither throws nor exits);
  the class of the answer has the decoder's width, its opcode belongs to the group of that
  class, and its operand is the variant of that opcode with every register number below 32.
\<close>

theorem decode_total_typed:
  assumes "xlen \<noteq> XLEN128"
  shows "\<exists>op. Decode xlen insn = Inr op \<and> class_of_xlen xlen (op_opClass op) \<and>
    group_ok (op_opClass op) (op_opCode op) \<and>
    operand_in (format_of (op_opCode op)) (op_operand op)"
  using decoded_for_Decode [OF assms, of insn]
  by (auto simp: decoded_for_def decoded_def op_ok_def)

theorem decode_total_typed_witness:
  "\<exists>op. Decode XLEN64 0xfff28293 = Inr op \<and> class_of_xlen XLEN64 (op_opClass op) \<and>
    group_ok (op_opClass op) (op_opCode op) \<and>
    operand_in (format_of (op_opCode op)) (op_operand op)"
  by (rule decode_total_typed) simp

section \<open>RV64 operations on RV32\<close>

definition rv64_only :: "OpCode \<Rightarrow> bool" where
  "rv64_only code \<longleftrightarrow> code \<in> OpI ` {i_ld, i_lwu, i_sd, i_addiw, i_slliw, i_srliw, i_sraiw,
       i_addw, i_subw, i_sllw, i_srlw, i_sraw}
     \<union> OpM ` {i_mulw, i_divw, i_divuw, i_remw, i_remuw}
     \<union> OpA ` {i_lr_d, i_sc_d, i_amoswap_d, i_amoadd_d, i_amoxor_d, i_amoand_d, i_amoor_d,
       i_amomin_d, i_amomax_d, i_amominu_d, i_amomaxu_d}
     \<union> OpF ` {i_fcvt_l_s, i_fcvt_lu_s, i_fcvt_s_l, i_fcvt_s_lu}
     \<union> OpD ` {i_fcvt_l_d, i_fcvt_lu_d, i_fcvt_d_l, i_fcvt_d_lu}
     \<union> OpC ` {i_c_ld, i_c_sd, i_c_addiw, i_c_ldsp, i_c_sdsp, i_c_subw, i_c_addw}"

definition rv64_leaks :: "OpCode set" where
  "rv64_leaks = OpC ` {i_c_subw, i_c_addw} \<union> OpD ` {i_fcvt_l_d, i_fcvt_lu_d, i_fcvt_d_l, i_fcvt_d_lu}"

definition no_leak :: "Op \<Rightarrow> bool" where
  "no_leak op \<longleftrightarrow> (rv64_only (op_opCode op) \<longrightarrow> op_opCode op \<in> rv64_leaks)"

lemma no_leak_unknown [simp]: "no_leak (unknown_op c)"
  by (simp add: no_leak_def unknown_op_def rv64_only_def image_iff)

lemma no_leak_Op [simp]:
  "no_leak (Op c code opr) \<longleftrightarrow> (rv64_only code \<longrightarrow> code \<in> rv64_leaks)"
  by (simp add: no_leak_def)

lemma rv64_only_simps:
  "rv64_only Op_unknown = False"
  "rv64_only (OpI a) = (a \<in> {i_ld, i_lwu, i_sd, i_addiw, i_slliw, i_srliw, i_sraiw,
       i_addw, i_subw, i_sllw, i_srlw, i_sraw})"
  "rv64_only (OpM b) = (b \<in> {i_mulw, i_divw, i_divuw, i_remw, i_remuw})"
  "rv64_only (OpA d) = (d \<in> {i_lr_d, i_sc_d, i_amoswap_d, i_amoadd_d, i_amoxor_d, i_amoand_d,
       i_amoor_d, i_amomin_d, i_amomax_d, i_amominu_d, i_amomaxu_d})"
  "rv64_only (OpF e) = (e \<in> {i_fcvt_l_s, i_fcvt_lu_s, i_fcvt_s_l, i_fcvt_s_lu})"
  "rv64_only (OpD f) = (f \<in> {i_fcvt_l_d, i_fcvt_lu_d, i_fcvt_d_l, i_fcvt_d_lu})"
  "rv64_only (OpC g) =
     (g \<in> {i_c_ld, i_c_sd, i_c_addiw, i_c_ldsp, i_c_sdsp, i_c_subw, i_c_addw})"
  by (auto simp: rv64_only_def)

lemma rv64_leaks_simps:
  "OpD f \<in> rv64_leaks \<longleftrightarrow> f \<in> {i_fcvt_l_d, i_fcvt_lu_d, i_fcvt_d_l, i_fcvt_d_lu}"
  "OpC g \<in> rv64_leaks \<longleftrightarrow> g \<in> {i_c_subw, i_c_addw}"
  by (auto simp: rv64_leaks_def)

lemmas leak_simps = rv64_only_simps rv64_leaks_simps

lemma no_leak_parts:
  "no_leak (DecodeI_branch RV32I insn)" "no_leak (DecodeI_load RV32I insn)"
  "no_leak (DecodeI_store RV32I insn)" "no_leak (DecodeI_op_imm RV32I insn)"
  "no_leak (DecodeI_op RV32I insn)" "no_leak (DecodeI_op_imm_32 RV32I insn)"
  "no_leak (DecodeI_op_32 RV32I insn)" "no_leak (DecodeI_misc_mem RV32I insn)"
  "no_leak (DecodeI_system RV32I insn)" "no_leak (DecodeM_op RV32M insn)"
  "no_leak (DecodeM_op_32 RV32M insn)" "no_leak (DecodeA_w RV32A insn)"
  "no_leak (DecodeA_d RV32A insn)" "no_leak (DecodeF_op_fp RV32F insn)"
  "no_leak (DecodeD_op_fp RV32D insn)"
  by (simp_all add: DecodeI_branch_def DecodeI_load_def DecodeI_store_def DecodeI_op_imm_def
      DecodeI_op_def DecodeI_op_imm_32_def DecodeI_op_32_def DecodeI_misc_mem_def
      DecodeI_system_def DecodeM_op_def DecodeM_op_32_def DecodeA_w_def DecodeA_d_def
      DecodeF_op_fp_def DecodeD_op_fp_def Let_def leak_simps)

definition no_leak_result :: "Op result \<Rightarrow> bool" where
  "no_leak_result r \<longleftrightarrow> (\<forall>op. r = Inr op \<longrightarrow> no_leak op)"

lemma no_leak_result_simps [simp]:
  "no_leak_result (Inr op) = no_leak op"
  "no_leak_result (Inl e)"
  by (simp_all add: no_leak_result_def)

lemma no_leak_map_sum:
  "\<not> rv64_only code \<or> code \<in> rv64_leaks \<Longrightarrow> no_leak_result (map_sum id (Op c code) r)"
  by (cases r) auto

lemma no_leak_C:
  "no_leak_result (DecodeC_00 RV32C insn)" "no_leak_result (DecodeC_01 RV32C insn)"
  "no_leak_result (DecodeC_10 RV32C insn)"
  by (simp_all add: DecodeC_00_def DecodeC_01_def DecodeC_10_def Let_def no_leak_map_sum leak_simps)

lemma no_leak_sets:
  "no_leak_result (DecodeI XLEN32 insn)" "no_leak_result (DecodeM XLEN32 insn)"
  "no_leak_result (DecodeA XLEN32 insn)" "no_leak_result (DecodeF XLEN32 insn)"
  "no_leak_result (DecodeD XLEN32 insn)" "no_leak_result (DecodeC XLEN32 insn16)"
  by (simp_all add: DecodeI_def DecodeM_def DecodeA_def DecodeF_def DecodeD_def DecodeC_def
      opClass_I_def opClass_M_def opClass_A_def opClass_F_def opClass_D_def opClass_C_def
      Let_def leak_simps no_leak_parts no_leak_C)

lemma no_leak_Decode: "no_leak_result (Decode XLEN32 insn)"
  unfolding Decode_def Let_def by (simp add: no_leak_sets)

text \<open>
  The only RV64 operations the RV32 decoder answers are \<open>c.subw\<close>, \<open>c.addw\<close> and the four
  conversions between a double and a 64-bit integer, whose width tests are missing.
\<close>

theorem decode_rv32_width:
  assumes "Decode XLEN32 insn = Inr op" and "rv64_only (op_opCode op)"
  shows "op_opCode op \<in> rv64_leaks"
  using no_leak_Decode [of insn] assms by (simp add: no_leak_def)

theorem decode_rv32_width_witness: "OpC i_c_addw \<in> rv64_leaks"
proof -
  have d: "Decode XLEN32 0x9c25 = Inr (Op RV32C (OpC i_c_addw) (OperandCR 8 8 9))"
    by code_simp
  show ?thesis
    using decode_rv32_width [OF d] by (simp add: leak_simps)
qed

end
