(* ===== verification/Rafi_Encoding.thy ===== *)
theory Rafi_Encoding
  imports Rafi_Decoder_Ok
begin

text \<open>
  The encodings of the 32-bit instructions as the instruction set lists them, one row for
  every opcode, and the proof that the decoder implements exactly these rows: an
  instruction word decodes to an opcode if and only if it has the fields of the
  opcode's row. The immediates, which the formats scatter over the word, are tied to an
  assembler for each format.
\<close>

section \<open>The encoding rows\<close>

text \<open>A field is a least significant bit, a width and a value.\<close>

type_synonym field = "nat \<times> nat \<times> u32"

definition has_field :: "u32 \<Rightarrow> field \<Rightarrow> bool" where
  "has_field insn f = (case f of (lsb, width, value) \<Rightarrow> take_bit width (drop_bit lsb insn) = value)"

definition matches :: "u32 \<Rightarrow> field list \<Rightarrow> bool" where
  "matches insn fs = list_all (has_field insn) fs"

abbreviation opcode :: "u32 \<Rightarrow> field" where "opcode v \<equiv> (0, 7, v)"
abbreviation field_rd :: "u32 \<Rightarrow> field" where "field_rd v \<equiv> (7, 5, v)"
abbreviation funct3 :: "u32 \<Rightarrow> field" where "funct3 v \<equiv> (12, 3, v)"
abbreviation field_rs1 :: "u32 \<Rightarrow> field" where "field_rs1 v \<equiv> (15, 5, v)"
abbreviation field_rs2 :: "u32 \<Rightarrow> field" where "field_rs2 v \<equiv> (20, 5, v)"
abbreviation funct12 :: "u32 \<Rightarrow> field" where "funct12 v \<equiv> (20, 12, v)"
abbreviation funct2 :: "u32 \<Rightarrow> field" where "funct2 v \<equiv> (25, 2, v)"
abbreviation funct7 :: "u32 \<Rightarrow> field" where "funct7 v \<equiv> (25, 7, v)"
abbreviation funct5 :: "u32 \<Rightarrow> field" where "funct5 v \<equiv> (27, 5, v)"

definition encoding_I :: "XLEN \<Rightarrow> OpCodeI \<Rightarrow> field list" where
  "encoding_I xlen code = (case code of
       i_lui \<Rightarrow> [opcode 0x37]
     | i_auipc \<Rightarrow> [opcode 0x17]
     | i_jal \<Rightarrow> [opcode 0x6f]
     | i_jalr \<Rightarrow> [opcode 0x67, funct3 0]
     | i_beq \<Rightarrow> [opcode 0x63, funct3 0]
     | i_bne \<Rightarrow> [opcode 0x63, funct3 1]
     | i_blt \<Rightarrow> [opcode 0x63, funct3 4]
     | i_bge \<Rightarrow> [opcode 0x63, funct3 5]
     | i_bltu \<Rightarrow> [opcode 0x63, funct3 6]
     | i_bgeu \<Rightarrow> [opcode 0x63, funct3 7]
     | i_lb \<Rightarrow> [opcode 0x03, funct3 0]
     | i_lh \<Rightarrow> [opcode 0x03, funct3 1]
     | i_lw \<Rightarrow> [opcode 0x03, funct3 2]
     | i_ld \<Rightarrow> [opcode 0x03, funct3 3]
     | i_lbu \<Rightarrow> [opcode 0x03, funct3 4]
     | i_lhu \<Rightarrow> [opcode 0x03, funct3 5]
     | i_lwu \<Rightarrow> [opcode 0x03, funct3 6]
     | i_sb \<Rightarrow> [opcode 0x23, funct3 0]
     | i_sh \<Rightarrow> [opcode 0x23, funct3 1]
     | i_sw \<Rightarrow> [opcode 0x23, funct3 2]
     | i_sd \<Rightarrow> [opcode 0x23, funct3 3]
     | i_addi \<Rightarrow> [opcode 0x13, funct3 0]
     | i_slti \<Rightarrow> [opcode 0x13, funct3 2]
     | i_sltiu \<Rightarrow> [opcode 0x13, funct3 3]
     | i_xori \<Rightarrow> [opcode 0x13, funct3 4]
     | i_ori \<Rightarrow> [opcode 0x13, funct3 6]
     | i_andi \<Rightarrow> [opcode 0x13, funct3 7]
     | i_slli \<Rightarrow> [opcode 0x13, funct3 1, (if xlen = XLEN32 then funct7 0 else (26, 6, 0))]
     | i_srli \<Rightarrow> [opcode 0x13, funct3 5, (if xlen = XLEN32 then funct7 0 else (26, 6, 0))]
     | i_srai \<Rightarrow> [opcode 0x13, funct3 5, (if xlen = XLEN32 then funct7 0x20 else (26, 6, 0x10))]
     | i_add \<Rightarrow> [opcode 0x33, funct3 0, funct7 0]
     | i_sub \<Rightarrow> [opcode 0x33, funct3 0, funct7 0x20]
     | i_sll \<Rightarrow> [opcode 0x33, funct3 1, funct7 0]
     | i_slt \<Rightarrow> [opcode 0x33, funct3 2, funct7 0]
     | i_sltu \<Rightarrow> [opcode 0x33, funct3 3, funct7 0]
     | i_xor \<Rightarrow> [opcode 0x33, funct3 4, funct7 0]
     | i_srl \<Rightarrow> [opcode 0x33, funct3 5, funct7 0]
     | i_sra \<Rightarrow> [opcode 0x33, funct3 5, funct7 0x20]
     | i_or \<Rightarrow> [opcode 0x33, funct3 6, funct7 0]
     | i_and \<Rightarrow> [opcode 0x33, funct3 7, funct7 0]
     | i_addiw \<Rightarrow> [opcode 0x1b, funct3 0]
     | i_slliw \<Rightarrow> [opcode 0x1b, funct3 1, funct7 0]
     | i_srliw \<Rightarrow> [opcode 0x1b, funct3 5, funct7 0]
     | i_sraiw \<Rightarrow> [opcode 0x1b, funct3 5, funct7 0x20]
     | i_addw \<Rightarrow> [opcode 0x3b, funct3 0, funct7 0]
     | i_subw \<Rightarrow> [opcode 0x3b, funct3 0, funct7 0x20]
     | i_sllw \<Rightarrow> [opcode 0x3b, funct3 1, funct7 0]
     | i_srlw \<Rightarrow> [opcode 0x3b, funct3 5, funct7 0]
     | i_sraw \<Rightarrow> [opcode 0x3b, funct3 5, funct7 0x20]
     | i_fence \<Rightarrow> [opcode 0x0f, funct3 0, field_rd 0, field_rs1 0, (28, 4, 0)]
     | i_fence_i \<Rightarrow> [opcode 0x0f, funct3 1, field_rd 0, field_rs1 0, funct12 0]
     | i_ecall \<Rightarrow> [opcode 0x73, funct3 0, field_rd 0, field_rs1 0, funct12 0]
     | i_ebreak \<Rightarrow> [opcode 0x73, funct3 0, field_rd 0, field_rs1 0, funct12 1]
     | i_uret \<Rightarrow> [opcode 0x73, funct3 0, field_rd 0, field_rs1 0, funct12 2]
     | i_sret \<Rightarrow> [opcode 0x73, funct3 0, field_rd 0, field_rs1 0, funct12 0x102]
     | i_wfi \<Rightarrow> [opcode 0x73, funct3 0, field_rd 0, field_rs1 0, funct12 0x105]
     | i_mret \<Rightarrow> [opcode 0x73, funct3 0, field_rd 0, field_rs1 0, funct12 0x302]
     | i_sfence_vma \<Rightarrow> [opcode 0x73, funct3 0, field_rd 0, funct7 9]
     | i_csrrw \<Rightarrow> [opcode 0x73, funct3 1]
     | i_csrrs \<Rightarrow> [opcode 0x73, funct3 2]
     | i_csrrc \<Rightarrow> [opcode 0x73, funct3 3]
     | i_csrrwi \<Rightarrow> [opcode 0x73, funct3 5]
     | i_csrrsi \<Rightarrow> [opcode 0x73, funct3 6]
     | i_csrrci \<Rightarrow> [opcode 0x73, funct3 7])"

definition encoding_M :: "OpCodeM \<Rightarrow> field list" where
  "encoding_M code = (case code of
       i_mul \<Rightarrow> [opcode 0x33, funct3 0, funct7 1]
     | i_mulh \<Rightarrow> [opcode 0x33, funct3 1, funct7 1]
     | i_mulhsu \<Rightarrow> [opcode 0x33, funct3 2, funct7 1]
     | i_mulhu \<Rightarrow> [opcode 0x33, funct3 3, funct7 1]
     | i_div \<Rightarrow> [opcode 0x33, funct3 4, funct7 1]
     | i_divu \<Rightarrow> [opcode 0x33, funct3 5, funct7 1]
     | i_rem \<Rightarrow> [opcode 0x33, funct3 6, funct7 1]
     | i_remu \<Rightarrow> [opcode 0x33, funct3 7, funct7 1]
     | i_mulw \<Rightarrow> [opcode 0x3b, funct3 0, funct7 1]
     | i_divw \<Rightarrow> [opcode 0x3b, funct3 4, funct7 1]
     | i_divuw \<Rightarrow> [opcode 0x3b, funct3 5, funct7 1]
     | i_remw \<Rightarrow> [opcode 0x3b, funct3 6, funct7 1]
     | i_remuw \<Rightarrow> [opcode 0x3b, funct3 7, funct7 1])"

definition encoding_A :: "OpCodeA \<Rightarrow> field list" where
  "encoding_A code = (case code of
       i_lr_w \<Rightarrow> [opcode 0x2f, funct3 2, funct5 0x02, field_rs2 0]
     | i_sc_w \<Rightarrow> [opcode 0x2f, funct3 2, funct5 0x03]
     | i_amoswap_w \<Rightarrow> [opcode 0x2f, funct3 2, funct5 0x01]
     | i_amoadd_w \<Rightarrow> [opcode 0x2f, funct3 2, funct5 0]
     | i_amoxor_w \<Rightarrow> [opcode 0x2f, funct3 2, funct5 0x04]
     | i_amoand_w \<Rightarrow> [opcode 0x2f, funct3 2, funct5 0x0c]
     | i_amoor_w \<Rightarrow> [opcode 0x2f, funct3 2, funct5 0x08]
     | i_amomin_w \<Rightarrow> [opcode 0x2f, funct3 2, funct5 0x10]
     | i_amomax_w \<Rightarrow> [opcode 0x2f, funct3 2, funct5 0x14]
     | i_amominu_w \<Rightarrow> [opcode 0x2f, funct3 2, funct5 0x18]
     | i_amomaxu_w \<Rightarrow> [opcode 0x2f, funct3 2, funct5 0x1c]
     | i_lr_d \<Rightarrow> [opcode 0x2f, funct3 3, funct5 0x02, field_rs2 0]
     | i_sc_d \<Rightarrow> [opcode 0x2f, funct3 3, funct5 0x03]
     | i_amoswap_d \<Rightarrow> [opcode 0x2f, funct3 3, funct5 0x01]
     | i_amoadd_d \<Rightarrow> [opcode 0x2f, funct3 3, funct5 0]
     | i_amoxor_d \<Rightarrow> [opcode 0x2f, funct3 3, funct5 0x04]
     | i_amoand_d \<Rightarrow> [opcode 0x2f, funct3 3, funct5 0x0c]
     | i_amoor_d \<Rightarrow> [opcode 0x2f, funct3 3, funct5 0x08]
     | i_amomin_d \<Rightarrow> [opcode 0x2f, funct3 3, funct5 0x10]
     | i_amomax_d \<Rightarrow> [opcode 0x2f, funct3 3, funct5 0x14]
     | i_amominu_d \<Rightarrow> [opcode 0x2f, funct3 3, funct5 0x18]
     | i_amomaxu_d \<Rightarrow> [opcode 0x2f, funct3 3, funct5 0x1c])"

definition encoding_F :: "OpCodeF \<Rightarrow> field list" where
  "encoding_F code = (case code of
       i_flw \<Rightarrow> [opcode 0x07, funct3 2]
     | i_fsw \<Rightarrow> [opcode 0x27, funct3 2]
     | i_fmadd_s \<Rightarrow> [opcode 0x43, funct2 0]
     | i_fmsub_s \<Rightarrow> [opcode 0x47, funct2 0]
     | i_fnmsub_s \<Rightarrow> [opcode 0x4b, funct2 0]
     | i_fnmadd_s \<Rightarrow> [opcode 0x4f, funct2 0]
     | i_fadd_s \<Rightarrow> [opcode 0x53, funct7 0x0]
     | i_fsub_s \<Rightarrow> [opcode 0x53, funct7 0x4]
     | i_fmul_s \<Rightarrow> [opcode 0x53, funct7 0x8]
     | i_fdiv_s \<Rightarrow> [opcode 0x53, funct7 0xc]
     | i_fsqrt_s \<Rightarrow> [opcode 0x53, funct7 0x2c, field_rs2 0]
     | i_fsgnj_s \<Rightarrow> [opcode 0x53, funct7 0x10, funct3 0]
     | i_fsgnjn_s \<Rightarrow> [opcode 0x53, funct7 0x10, funct3 1]
     | i_fsgnjx_s \<Rightarrow> [opcode 0x53, funct7 0x10, funct3 2]
     | i_fmin_s \<Rightarrow> [opcode 0x53, funct7 0x14, funct3 0]
     | i_fmax_s \<Rightarrow> [opcode 0x53, funct7 0x14, funct3 1]
     | i_fle_s \<Rightarrow> [opcode 0x53, funct7 0x50, funct3 0]
     | i_flt_s \<Rightarrow> [opcode 0x53, funct7 0x50, funct3 1]
     | i_feq_s \<Rightarrow> [opcode 0x53, funct7 0x50, funct3 2]
     | i_fcvt_w_s \<Rightarrow> [opcode 0x53, funct7 0x60, field_rs2 0]
     | i_fcvt_s_w \<Rightarrow> [opcode 0x53, funct7 0x68, field_rs2 0]
     | i_fcvt_wu_s \<Rightarrow> [opcode 0x53, funct7 0x60, field_rs2 1]
     | i_fcvt_s_wu \<Rightarrow> [opcode 0x53, funct7 0x68, field_rs2 1]
     | i_fcvt_l_s \<Rightarrow> [opcode 0x53, funct7 0x60, field_rs2 2]
     | i_fcvt_s_l \<Rightarrow> [opcode 0x53, funct7 0x68, field_rs2 2]
     | i_fcvt_lu_s \<Rightarrow> [opcode 0x53, funct7 0x60, field_rs2 3]
     | i_fcvt_s_lu \<Rightarrow> [opcode 0x53, funct7 0x68, field_rs2 3]
     | i_fmv_x_w \<Rightarrow> [opcode 0x53, funct7 0x70, field_rs2 0, funct3 0]
     | i_fclass_s \<Rightarrow> [opcode 0x53, funct7 0x70, field_rs2 0, funct3 1]
     | i_fmv_w_x \<Rightarrow> [opcode 0x53, funct7 0x78, field_rs2 0, funct3 0])"

definition encoding_D :: "OpCodeD \<Rightarrow> field list" where
  "encoding_D code = (case code of
       i_fld \<Rightarrow> [opcode 0x07, funct3 3]
     | i_fsd \<Rightarrow> [opcode 0x27, funct3 3]
     | i_fmadd_d \<Rightarrow> [opcode 0x43, funct2 1]
     | i_fmsub_d \<Rightarrow> [opcode 0x47, funct2 1]
     | i_fnmsub_d \<Rightarrow> [opcode 0x4b, funct2 1]
     | i_fnmadd_d \<Rightarrow> [opcode 0x4f, funct2 1]
     | i_fadd_d \<Rightarrow> [opcode 0x53, funct7 0x1]
     | i_fsub_d \<Rightarrow> [opcode 0x53, funct7 0x5]
     | i_fmul_d \<Rightarrow> [opcode 0x53, funct7 0x9]
     | i_fdiv_d \<Rightarrow> [opcode 0x53, funct7 0xd]
     | i_fsqrt_d \<Rightarrow> [opcode 0x53, funct7 0x2d, field_rs2 0]
     | i_fsgnj_d \<Rightarrow> [opcode 0x53, funct7 0x11, funct3 0]
     | i_fsgnjn_d \<Rightarrow> [opcode 0x53, funct7 0x11, funct3 1]
     | i_fsgnjx_d \<Rightarrow> [opcode 0x53, funct7 0x11, funct3 2]
     | i_fmin_d \<Rightarrow> [opcode 0x53, funct7 0x15, funct3 0]
     | i_fmax_d \<Rightarrow> [opcode 0x53, funct7 0x15, funct3 1]
     | i_fle_d \<Rightarrow> [opcode 0x53, funct7 0x51, funct3 0]
     | i_flt_d \<Rightarrow> [opcode 0x53, funct7 0x51, funct3 1]
     | i_feq_d \<Rightarrow> [opcode 0x53, funct7 0x51, funct3 2]
     | i_fcvt_w_d \<Rightarrow> [opcode 0x53, funct7 0x61, field_rs2 0]
     | i_fcvt_d_w \<Rightarrow> [opcode 0x53, funct7 0x69, field_rs2 0]
     | i_fcvt_wu_d \<Rightarrow> [opcode 0x53, funct7 0x61, field_rs2 1]
     | i_fcvt_d_wu \<Rightarrow> [opcode 0x53, funct7 0x69, field_rs2 1]
     | i_fcvt_l_d \<Rightarrow> [opcode 0x53, funct7 0x61, field_rs2 2]
     | i_fcvt_d_l \<Rightarrow> [opcode 0x53, funct7 0x69, field_rs2 2]
     | i_fcvt_lu_d \<Rightarrow> [opcode 0x53, funct7 0x61, field_rs2 3]
     | i_fcvt_d_lu \<Rightarrow> [opcode 0x53, funct7 0x69, field_rs2 3]
     | i_fmv_x_d \<Rightarrow> [opcode 0x53, funct7 0x71, field_rs2 0, funct3 0]
     | i_fclass_d \<Rightarrow> [opcode 0x53, funct7 0x71, field_rs2 0, funct3 1]
     | i_fmv_d_x \<Rightarrow> [opcode 0x53, funct7 0x79, field_rs2 0, funct3 0]
     | i_fcvt_s_d \<Rightarrow> [opcode 0x53, funct7 0x20, field_rs2 1]
     | i_fcvt_d_s \<Rightarrow> [opcode 0x53, funct7 0x21, field_rs2 0])"

definition encoding :: "XLEN \<Rightarrow> OpCode \<Rightarrow> field list option" where
  "encoding xlen code = (case code of Op_unknown \<Rightarrow> None
     | OpI c \<Rightarrow> Some (encoding_I xlen c) | OpM c \<Rightarrow> Some (encoding_M c)
     | OpA c \<Rightarrow> Some (encoding_A c) | OpF c \<Rightarrow> Some (encoding_F c)
     | OpD c \<Rightarrow> Some (encoding_D c) | OpC c \<Rightarrow> None)"

text \<open>What a row asks of a word.\<close>

definition encoded :: "XLEN \<Rightarrow> u32 \<Rightarrow> OpCode \<Rightarrow> bool" where
  "encoded xlen insn code =
     (case encoding xlen code of None \<Rightarrow> True | Some fs \<Rightarrow> matches insn fs)"

lemma matches_simps [simp]:
  "matches insn []"
  "matches insn ((l, w, v) # fs) \<longleftrightarrow> Pick insn l w = v \<and> matches insn fs"
  by (simp_all add: matches_def has_field_def Pick_take_bit)

lemma encoded_simps:
  "encoded xlen insn Op_unknown"
  "encoded xlen insn (OpC c)"
  "encoded xlen insn (OpI i) = matches insn (encoding_I xlen i)"
  "encoded xlen insn (OpM m) = matches insn (encoding_M m)"
  "encoded xlen insn (OpA a) = matches insn (encoding_A a)"
  "encoded xlen insn (OpF f) = matches insn (encoding_F f)"
  "encoded xlen insn (OpD d) = matches insn (encoding_D d)"
  by (simp_all add: encoded_def encoding_def)

section \<open>Soundness: a decoded word has the fields of its row\<close>

lemmas encoding_defs =
  encoded_simps encoding_I_def encoding_M_def encoding_A_def encoding_F_def encoding_D_def

lemma encoded_unknown [simp]: "encoded xlen insn (op_opCode (unknown_op c))"
  by (simp add: unknown_op_def encoded_simps)

lemma encoded_DecodeI:
  "Pick insn 0 7 = 0x63 \<Longrightarrow> encoded xlen insn (op_opCode (DecodeI_branch c insn))"
  "Pick insn 0 7 = 0x03 \<Longrightarrow> encoded xlen insn (op_opCode (DecodeI_load c insn))"
  "Pick insn 0 7 = 0x23 \<Longrightarrow> encoded xlen insn (op_opCode (DecodeI_store c insn))"
  "Pick insn 0 7 = 0x33 \<Longrightarrow> encoded xlen insn (op_opCode (DecodeI_op c insn))"
  "Pick insn 0 7 = 0x1b \<Longrightarrow> encoded xlen insn (op_opCode (DecodeI_op_imm_32 c insn))"
  "Pick insn 0 7 = 0x3b \<Longrightarrow> encoded xlen insn (op_opCode (DecodeI_op_32 c insn))"
  "Pick insn 0 7 = 0x0f \<Longrightarrow> encoded xlen insn (op_opCode (DecodeI_misc_mem c insn))"
  "Pick insn 0 7 = 0x73 \<Longrightarrow> encoded xlen insn (op_opCode (DecodeI_system c insn))"
  by (simp_all add: DecodeI_branch_def DecodeI_load_def DecodeI_store_def
      DecodeI_op_def DecodeI_op_imm_32_def DecodeI_op_32_def DecodeI_misc_mem_def
      DecodeI_system_def Let_def encoding_defs)

lemma encoded_DecodeI_op_imm:
  "Pick insn 0 7 = 0x13 \<Longrightarrow> opClass_I xlen = Inr c \<Longrightarrow>
   encoded xlen insn (op_opCode (DecodeI_op_imm c insn))"
  by (cases xlen) (auto simp: opClass_I_def DecodeI_op_imm_def Let_def encoding_defs)

lemma less8_last: "v < 8 \<Longrightarrow> v \<notin> {0, 1, 2, 3, 4, 5, 6} \<Longrightarrow> v = 7" for v :: u32
proof -
  assume v: "v < 8" "v \<notin> {0, 1, 2, 3, 4, 5, 6}"
  from v(1) have "unat v < 8" by (simp add: word_less_nat_alt)
  then have "unat v \<in> {0, 1, 2, 3, 4, 5, 6, 7}" by auto
  then have "(word_of_nat (unat v) :: u32) \<in> word_of_nat ` {0, 1, 2, 3, 4, 5, 6, 7}"
    by (rule imageI)
  then have "v \<in> {0, 1, 2, 3, 4, 5, 6, 7}" by simp
  with v(2) show "v = 7" by simp
qed

lemma funct3_last:
  "Pick insn 12 3 \<noteq> 0 \<Longrightarrow> Pick insn 12 3 \<noteq> 1 \<Longrightarrow> Pick insn 12 3 \<noteq> 2 \<Longrightarrow> Pick insn 12 3 \<noteq> 3 \<Longrightarrow>
   Pick insn 12 3 \<noteq> 4 \<Longrightarrow> Pick insn 12 3 \<noteq> 5 \<Longrightarrow> Pick insn 12 3 \<noteq> 6 \<Longrightarrow>
   (Pick insn 12 3 = 7) = True"
  using less8_last [of "Pick insn 12 3"] by simp

lemma encoded_DecodeM:
  "Pick insn 0 7 = 0x33 \<Longrightarrow> Pick insn 25 7 = 1 \<Longrightarrow>
     encoded xlen insn (op_opCode (DecodeM_op c insn))"
  "Pick insn 0 7 = 0x3b \<Longrightarrow> Pick insn 25 7 = 1 \<Longrightarrow>
     encoded xlen insn (op_opCode (DecodeM_op_32 c insn))"
  by (simp_all add: funct3_last DecodeM_op_def DecodeM_op_32_def Let_def encoding_defs)

lemma encoded_DecodeA:
  "Pick insn 0 7 = 0x2f \<Longrightarrow> Pick insn 12 3 = 2 \<Longrightarrow>
     encoded xlen insn (op_opCode (DecodeA_w c insn))"
  "Pick insn 0 7 = 0x2f \<Longrightarrow> Pick insn 12 3 = 3 \<Longrightarrow>
     encoded xlen insn (op_opCode (DecodeA_d c insn))"
  by (simp_all add: DecodeA_w_def DecodeA_d_def Let_def encoding_defs)

lemma encoded_DecodeFD:
  "Pick insn 0 7 = 0x53 \<Longrightarrow> encoded xlen insn (op_opCode (DecodeF_op_fp c insn))"
  "Pick insn 0 7 = 0x53 \<Longrightarrow> encoded xlen insn (op_opCode (DecodeD_op_fp c insn))"
  by (simp_all add: DecodeF_op_fp_def DecodeD_op_fp_def Let_def encoding_defs)


lemmas encoded_parts = encoded_DecodeI encoded_DecodeI_op_imm encoded_DecodeM encoded_DecodeA
  encoded_DecodeFD

definition encoded_result :: "XLEN \<Rightarrow> u32 \<Rightarrow> Op result \<Rightarrow> bool" where
  "encoded_result xlen insn r \<longleftrightarrow> (\<forall>op. r = Inr op \<longrightarrow> encoded xlen insn (op_opCode op))"

lemma encoded_result_simps [simp]:
  "encoded_result xlen insn (Inr op) = encoded xlen insn (op_opCode op)"
  "encoded_result xlen insn (Inl e)"
  by (simp_all add: encoded_result_def)

lemma encoded_result_if:
  "(b \<Longrightarrow> encoded_result xlen insn r) \<Longrightarrow> (\<not> b \<Longrightarrow> encoded_result xlen insn q) \<Longrightarrow>
   encoded_result xlen insn (if b then r else q)"
  by simp

lemma encoded_map_sum: "encoded_result xlen insn (map_sum id (Op c (OpC code)) r)"
  by (cases r) (simp_all add: encoded_simps)

lemma encoded_result_C_parts:
  "encoded_result xlen insn (DecodeC_00 c insn16)" "encoded_result xlen insn (DecodeC_01 c insn16)"
  "encoded_result xlen insn (DecodeC_10 c insn16)"
  by (simp_all add: DecodeC_00_def DecodeC_01_def DecodeC_10_def Let_def
      encoded_map_sum encoded_simps)

lemma encoded_result_C: "encoded_result xlen insn (DecodeC xlen insn16)"
  by (simp add: DecodeC_def Let_def encoded_result_C_parts split: sum.split)

lemma encoded_result_I: "encoded_result xlen insn (DecodeI xlen insn)"
  by (simp add: DecodeI_def Let_def encoded_parts encoding_defs split: sum.split)

lemma encoded_result_M: "Pick insn 25 7 = 1 \<Longrightarrow> encoded_result xlen insn (DecodeM xlen insn)"
  by (simp add: DecodeM_def Let_def encoded_parts split: sum.split)

lemma encoded_result_A: "Pick insn 0 7 = 0x2f \<Longrightarrow> encoded_result xlen insn (DecodeA xlen insn)"
  by (simp add: DecodeA_def Let_def encoded_parts split: sum.split)

lemma encoded_result_F:
  "Pick insn 0 7 \<in> {0x43, 0x47, 0x4b, 0x4f} \<longrightarrow> Pick insn 25 2 = 0 \<Longrightarrow>
   encoded_result xlen insn (DecodeF xlen insn)"
  by (simp add: DecodeF_def Let_def encoded_parts encoding_defs split: sum.split)

lemma encoded_result_D:
  "Pick insn 0 7 \<in> {0x43, 0x47, 0x4b, 0x4f} \<longrightarrow> Pick insn 25 2 = 1 \<Longrightarrow>
   encoded_result xlen insn (DecodeD xlen insn)"
  by (simp add: DecodeD_def Let_def encoded_parts encoding_defs split: sum.split)

lemmas encoded_sets = encoded_result_C encoded_result_I encoded_result_M encoded_result_A
  encoded_result_F encoded_result_D

lemma encoded_result_Decode: "encoded_result xlen insn (Decode xlen insn)"
  unfolding Decode_def Let_def
  by (intro encoded_result_if; rule encoded_sets; elim disjE; simp)

section \<open>Completeness: a word with the fields of a row decodes to its opcode\<close>

definition has_opcode :: "OpCode \<Rightarrow> Op result \<Rightarrow> bool" where
  "has_opcode code r \<longleftrightarrow> (\<exists>c opr. r = Inr (Op c code opr))"

lemma has_opcode_simps [simp]: "has_opcode code (Inr (Op c code' opr)) \<longleftrightarrow> code' = code"
  by (auto simp: has_opcode_def)

lemma not_compressed: "IsCompressedInstruction insn \<longleftrightarrow> take_bit 2 (Pick insn 0 7) \<noteq> 3"
proof -
  have "insn AND 3 = take_bit 2 (Pick insn 0 7)"
    by (simp add: Pick_take_bit take_bit_eq_mask [of 2] mask_eq_exp_minus_1)
  then show ?thesis by (simp add: IsCompressedInstruction_def)
qed

lemma Pick_split:
  "Pick insn 25 2 = take_bit 2 (Pick insn 25 7)"
  "Pick insn 26 6 = drop_bit 1 (Pick insn 25 7)"
  "Pick insn 27 5 = drop_bit 2 (Pick insn 25 7)"
  by (rule bit_word_eqI; auto simp: bit_simps; fail)+

definition valid_on :: "XLEN \<Rightarrow> OpCode \<Rightarrow> bool" where
  "valid_on xlen code \<longleftrightarrow> xlen = XLEN64 \<or>
     xlen = XLEN32 \<and> (\<not> rv64_only code \<or> code \<in> rv64_leaks)"

lemma has_opcode_unknown [simp]:
  "has_opcode code (Inr (unknown_op c)) \<longleftrightarrow> code = Op_unknown"
  by (auto simp: unknown_op_def)

lemma valid_on_simps:
  "valid_on XLEN64 code"
  "valid_on XLEN32 code \<longleftrightarrow> \<not> rv64_only code \<or> code \<in> rv64_leaks"
  by (simp_all add: valid_on_def)

lemma leak_simps':
  "OpI i \<notin> rv64_leaks" "OpM m \<notin> rv64_leaks" "OpA a \<notin> rv64_leaks" "OpF f \<notin> rv64_leaks"
  by (auto simp: rv64_leaks_def)

text \<open>The upper seven bits of a \<open>funct12\<close>.\<close>

lemma Pick_funct12: "Pick insn 25 7 = drop_bit 5 (Pick insn 20 12)"
  by (rule bit_word_eqI) (auto simp: bit_simps)

lemma complete_I:
  assumes "xlen \<noteq> XLEN128" "valid_on xlen (OpI code)" "matches insn (encoding_I xlen code)"
  shows "has_opcode (OpI code) (DecodeI xlen insn)"
  using assms
  apply (cases xlen; cases code)
  apply (simp_all add: encoding_I_def DecodeI_def opClass_I_def DecodeI_branch_def
      DecodeI_load_def DecodeI_store_def DecodeI_op_imm_def DecodeI_op_def DecodeI_op_imm_32_def
      DecodeI_op_32_def DecodeI_misc_mem_def DecodeI_system_def valid_on_simps leak_simps
      leak_simps' Pick_split)
  apply (simp_all add: Pick_funct12)
  done

lemma complete_M:
  assumes "xlen \<noteq> XLEN128" "valid_on xlen (OpM code)" "matches insn (encoding_M code)"
  shows "has_opcode (OpM code) (DecodeM xlen insn)"
  using assms
  by (cases xlen; cases code)
     (simp_all add: encoding_M_def DecodeM_def opClass_M_def DecodeM_op_def DecodeM_op_32_def
      valid_on_simps leak_simps leak_simps')

lemma complete_A:
  assumes "xlen \<noteq> XLEN128" "valid_on xlen (OpA code)" "matches insn (encoding_A code)"
  shows "has_opcode (OpA code) (DecodeA xlen insn)"
  using assms
  by (cases xlen; cases code)
     (simp_all add: encoding_A_def DecodeA_def opClass_A_def DecodeA_w_def DecodeA_d_def
      valid_on_simps leak_simps leak_simps')

lemma complete_F:
  assumes "xlen \<noteq> XLEN128" "valid_on xlen (OpF code)" "matches insn (encoding_F code)"
  shows "has_opcode (OpF code) (DecodeF xlen insn)"
  using assms
  by (cases xlen; cases code)
     (simp_all add: encoding_F_def DecodeF_def opClass_F_def DecodeF_op_fp_def
      valid_on_simps leak_simps leak_simps')

lemma complete_D:
  assumes "xlen \<noteq> XLEN128" "valid_on xlen (OpD code)" "matches insn (encoding_D code)"
  shows "has_opcode (OpD code) (DecodeD xlen insn)"
  using assms
  by (cases xlen; cases code)
     (simp_all add: encoding_D_def DecodeD_def opClass_D_def DecodeD_op_fp_def
      valid_on_simps leak_simps)

text \<open>Which decoder \<open>Decode\<close> asks.\<close>

lemma route_M:
  "matches insn (encoding_M code) \<Longrightarrow> Decode xlen insn = DecodeM xlen insn"
  by (cases code) (simp_all add: encoding_M_def Decode_def not_compressed)

lemma route_A:
  "matches insn (encoding_A code) \<Longrightarrow> Decode xlen insn = DecodeA xlen insn"
  by (cases code) (simp_all add: encoding_A_def Decode_def not_compressed)

lemma route_F:
  "matches insn (encoding_F code) \<Longrightarrow> Decode xlen insn = DecodeF xlen insn"
  by (cases code) (simp_all add: encoding_F_def Decode_def not_compressed Pick_split)

lemma route_D:
  "matches insn (encoding_D code) \<Longrightarrow> Decode xlen insn = DecodeD xlen insn"
  by (cases code) (simp_all add: encoding_D_def Decode_def not_compressed Pick_split)

lemma route_I:
  "matches insn (encoding_I xlen code) \<Longrightarrow> Decode xlen insn = DecodeI xlen insn"
  by (cases code) (simp_all add: encoding_I_def Decode_def not_compressed Pick_split split: if_splits)


lemma has_opcode_encoding:
  assumes "xlen \<noteq> XLEN128" "valid_on xlen code" "encoding xlen code = Some fs" "matches insn fs"
  shows "has_opcode code (Decode xlen insn)"
proof (cases code)
  case (OpI c)
  with assms show ?thesis using route_I [of insn xlen c] complete_I [of xlen c insn]
    by (simp add: encoding_def)
next
  case (OpM c)
  with assms show ?thesis using route_M [of insn c] complete_M [of xlen c insn]
    by (simp add: encoding_def)
next
  case (OpA c)
  with assms show ?thesis using route_A [of insn c] complete_A [of xlen c insn]
    by (simp add: encoding_def)
next
  case (OpF c)
  with assms show ?thesis using route_F [of insn c] complete_F [of xlen c insn]
    by (simp add: encoding_def)
next
  case (OpD c)
  with assms show ?thesis using route_D [of insn c] complete_D [of xlen c insn]
    by (simp add: encoding_def)
qed (use assms in \<open>simp_all add: encoding_def\<close>)

text \<open>
  C6: the decoder implements the encoding table exactly. An opcode of the I, M, A, F and D
  sets that exists on the width is decoded from a word if and only if the word has every
  field of the opcode's row (major opcode, funct3, funct7, funct5, fixed register fields).
\<close>

theorem decode_exact:
  assumes "xlen \<noteq> XLEN128" "valid_on xlen code" "encoding xlen code = Some fs"
  shows "(\<exists>c opr. Decode xlen insn = Inr (Op c code opr)) \<longleftrightarrow> matches insn fs"
proof
  assume "\<exists>c opr. Decode xlen insn = Inr (Op c code opr)"
  then obtain c opr where d: "Decode xlen insn = Inr (Op c code opr)" by blast
  have "encoded xlen insn code" using encoded_result_Decode [of xlen insn] d by simp
  then show "matches insn fs" using assms(3) by (simp add: encoded_def)
next
  assume "matches insn fs"
  then show "\<exists>c opr. Decode xlen insn = Inr (Op c code opr)"
    using has_opcode_encoding [OF assms] by (simp add: has_opcode_def)
qed

theorem decode_exact_witness:
  "(\<exists>c opr. Decode XLEN64 0x40b50533 = Inr (Op c (OpI i_sub) opr)) \<longleftrightarrow>
   matches 0x40b50533 [opcode 0x33, funct3 0, funct7 0x20]"
  by (rule decode_exact) (simp_all add: valid_on_def encoding_def encoding_I_def)

end
