(* ===== verification/Rafi_Formats.thy ===== *)
theory Rafi_Formats
  imports Rafi_Decoder_Ok
begin

text \<open>
  An assembler for every instruction format, on fields of their exact width, and the proof
  that the operand decoders of \<^verbatim>\<open>src/librafi_common/DecoderImpl.cpp\<close> invert it.
\<close>

section \<open>The operand formats\<close>

lemma SignExtend64_ucast:
  assumes "LENGTH('a::len) < 32"
  shows "SignExtend64 (LENGTH('a)) (ucast (x :: 'a word)) = scast x"
proof (rule bit_word_eqI)
  fix n assume n: "n < LENGTH(64)"
  let ?v = "scast (ucast x :: i32) :: i64"
  have low: "bit ?v m \<longleftrightarrow> bit x m" if "m < 64" for m
    using that assms by (auto simp: bit_simps min_def dest: bit_imp_le_length)
  have "bit (SignExtend (LENGTH('a)) ?v) n \<longleftrightarrow>
      bit x n \<or> (LENGTH('a) - 1 \<le> n \<and> bit x (LENGTH('a) - 1))"
    using n assms by (subst bit_SignExtend) (simp_all add: low Suc_leI)
  then show "bit (SignExtend64 (LENGTH('a)) (ucast x)) n = bit (scast x :: i64) n"
    using n bit_top [of x n] by (auto simp: SignExtend64_def bit_simps min_def)
qed

lemma ZeroExtend64_ucast:
  assumes "LENGTH('a::len) < 32"
  shows "ZeroExtend64 (LENGTH('a)) (ucast (x :: 'a word)) = ucast x"
  using assms
  by (intro bit_word_eqI) (auto simp: ZeroExtend64_def bit_simps min_def dest: bit_imp_le_length)

lemma SignExtend64_32: "SignExtend64 32 v = scast v"
  by (simp add: SignExtend64_def SignExtend_32_scast)

text \<open>Equality of 32-bit words position by position.\<close>

lemma lessThan_32:
  "{..<32::nat} = {0, 1, 2, 3, 4, 5, 6, 7, 8, 9, 10, 11, 12, 13, 14, 15, 16, 17, 18, 19, 20, 21,
     22, 23, 24, 25, 26, 27, 28, 29, 30, 31}"
  by (simp add: lessThan_nat_numeral lessThan_Suc insert_commute)

lemma word32_eqI:
  fixes a b :: u32
  assumes "\<forall>n\<in>{0, 1, 2, 3, 4, 5, 6, 7, 8, 9, 10, 11, 12, 13, 14, 15, 16, 17, 18, 19, 20, 21,
     22, 23, 24, 25, 26, 27, 28, 29, 30, 31}. bit a n = bit b n"
  shows "a = b"
  using assms unfolding lessThan_32 [symmetric] by (intro bit_word_eqI) simp

lemma bit_beyond: "LENGTH('a) \<le> n \<Longrightarrow> \<not> bit w n" for w :: "'a::len word"
  using bit_imp_le_length by fastforce

declare push_bit_Suc [simp del] take_bit_Suc_0 [simp del]

text \<open>Bits \<open>src + w - 1\<close> down to \<open>src\<close> of a field, moved to position \<open>dst\<close> of the word.\<close>

definition place :: "nat \<Rightarrow> nat \<Rightarrow> nat \<Rightarrow> u32 \<Rightarrow> u32" where
  "place dst src w x = push_bit dst (take_bit w (drop_bit src x))"

lemmas place_simps = place_def bit_simps bit_beyond numeral_2_eq_2 [symmetric]

definition asm_R :: "7 word \<Rightarrow> 3 word \<Rightarrow> 7 word \<Rightarrow> 5 word \<Rightarrow> 5 word \<Rightarrow> 5 word \<Rightarrow> u32" where
  "asm_R opc f3 f7 rd rs1 rs2 =
     place 0 0 7 (ucast opc) OR
     place 7 0 5 (ucast rd) OR
     place 12 0 3 (ucast f3) OR
     place 15 0 5 (ucast rs1) OR
     place 20 0 5 (ucast rs2) OR
     place 25 0 7 (ucast f7)"

definition asm_R4 :: "7 word \<Rightarrow> 3 word \<Rightarrow> 2 word \<Rightarrow> 5 word \<Rightarrow> 5 word \<Rightarrow> 5 word \<Rightarrow> 5 word \<Rightarrow> u32" where
  "asm_R4 opc f3 f2 rd rs1 rs2 rs3 =
     place 0 0 7 (ucast opc) OR
     place 7 0 5 (ucast rd) OR
     place 12 0 3 (ucast f3) OR
     place 15 0 5 (ucast rs1) OR
     place 20 0 5 (ucast rs2) OR
     place 25 0 2 (ucast f2) OR
     place 27 0 5 (ucast rs3)"

definition asm_I :: "7 word \<Rightarrow> 3 word \<Rightarrow> 5 word \<Rightarrow> 5 word \<Rightarrow> 12 word \<Rightarrow> u32" where
  "asm_I opc f3 rd rs1 imm12 =
     place 0 0 7 (ucast opc) OR
     place 7 0 5 (ucast rd) OR
     place 12 0 3 (ucast f3) OR
     place 15 0 5 (ucast rs1) OR
     place 20 0 12 (ucast imm12)"

definition asm_Sh :: "7 word \<Rightarrow> 3 word \<Rightarrow> 6 word \<Rightarrow> 5 word \<Rightarrow> 5 word \<Rightarrow> 6 word \<Rightarrow> u32" where
  "asm_Sh opc f3 f6 rd rs1 shamt =
     place 0 0 7 (ucast opc) OR
     place 7 0 5 (ucast rd) OR
     place 12 0 3 (ucast f3) OR
     place 15 0 5 (ucast rs1) OR
     place 20 0 6 (ucast shamt) OR
     place 26 0 6 (ucast f6)"

definition asm_S :: "7 word \<Rightarrow> 3 word \<Rightarrow> 5 word \<Rightarrow> 5 word \<Rightarrow> 12 word \<Rightarrow> u32" where
  "asm_S opc f3 rs1 rs2 imm12 =
     place 0 0 7 (ucast opc) OR
     place 7 0 5 (ucast imm12) OR
     place 12 0 3 (ucast f3) OR
     place 15 0 5 (ucast rs1) OR
     place 20 0 5 (ucast rs2) OR
     place 25 5 7 (ucast imm12)"

definition asm_B :: "7 word \<Rightarrow> 3 word \<Rightarrow> 5 word \<Rightarrow> 5 word \<Rightarrow> 12 word \<Rightarrow> u32" where
  "asm_B opc f3 rs1 rs2 imm12 =
     place 0 0 7 (ucast opc) OR
     place 7 10 1 (ucast imm12) OR
     place 8 0 4 (ucast imm12) OR
     place 12 0 3 (ucast f3) OR
     place 15 0 5 (ucast rs1) OR
     place 20 0 5 (ucast rs2) OR
     place 25 4 6 (ucast imm12) OR
     place 31 11 1 (ucast imm12)"

definition asm_U :: "7 word \<Rightarrow> 5 word \<Rightarrow> 20 word \<Rightarrow> u32" where
  "asm_U opc rd imm20 =
     place 0 0 7 (ucast opc) OR
     place 7 0 5 (ucast rd) OR
     place 12 0 20 (ucast imm20)"

definition asm_J :: "7 word \<Rightarrow> 5 word \<Rightarrow> 20 word \<Rightarrow> u32" where
  "asm_J opc rd imm20 =
     place 0 0 7 (ucast opc) OR
     place 7 0 5 (ucast rd) OR
     place 12 11 8 (ucast imm20) OR
     place 20 10 1 (ucast imm20) OR
     place 21 0 10 (ucast imm20) OR
     place 31 19 1 (ucast imm20)"

definition asm_Fence :: "7 word \<Rightarrow> 3 word \<Rightarrow> 4 word \<Rightarrow> 4 word \<Rightarrow> 4 word \<Rightarrow> 5 word \<Rightarrow> 5 word \<Rightarrow> u32" where
  "asm_Fence opc f3 fm pred succ rd rs1 =
     place 0 0 7 (ucast opc) OR
     place 7 0 5 (ucast rd) OR
     place 12 0 3 (ucast f3) OR
     place 15 0 5 (ucast rs1) OR
     place 20 0 4 (ucast succ) OR
     place 24 0 4 (ucast pred) OR
     place 28 0 4 (ucast fm)"

definition asm_CI :: "2 word \<Rightarrow> 3 word \<Rightarrow> 5 word \<Rightarrow> 6 word \<Rightarrow> u16" where
  "asm_CI opc f3 rd imm6 =
     ucast (place 0 0 2 (ucast opc) OR
     place 13 0 3 (ucast f3) OR
     place 7 0 5 (ucast rd) OR
     place 12 5 1 (ucast imm6) OR
     place 2 0 5 (ucast imm6))"

definition asm_CI16SP :: "2 word \<Rightarrow> 3 word \<Rightarrow> 5 word \<Rightarrow> 6 word \<Rightarrow> u16" where
  "asm_CI16SP opc f3 rd imm6 =
     ucast (place 0 0 2 (ucast opc) OR
     place 13 0 3 (ucast f3) OR
     place 7 0 5 (ucast rd) OR
     place 12 5 1 (ucast imm6) OR
     place 6 0 1 (ucast imm6) OR
     place 5 2 1 (ucast imm6) OR
     place 3 3 2 (ucast imm6) OR
     place 2 1 1 (ucast imm6))"

definition asm_CI_LUI :: "2 word \<Rightarrow> 3 word \<Rightarrow> 5 word \<Rightarrow> 6 word \<Rightarrow> u16" where
  "asm_CI_LUI opc f3 rd imm6 =
     ucast (place 0 0 2 (ucast opc) OR
     place 13 0 3 (ucast f3) OR
     place 7 0 5 (ucast rd) OR
     place 12 5 1 (ucast imm6) OR
     place 2 0 5 (ucast imm6))"

definition asm_CI_LWSP :: "2 word \<Rightarrow> 3 word \<Rightarrow> 5 word \<Rightarrow> 6 word \<Rightarrow> u16" where
  "asm_CI_LWSP opc f3 rd imm6 =
     ucast (place 0 0 2 (ucast opc) OR
     place 13 0 3 (ucast f3) OR
     place 7 0 5 (ucast rd) OR
     place 12 3 1 (ucast imm6) OR
     place 4 0 3 (ucast imm6) OR
     place 2 4 2 (ucast imm6))"

definition asm_CI_LDSP :: "2 word \<Rightarrow> 3 word \<Rightarrow> 5 word \<Rightarrow> 6 word \<Rightarrow> u16" where
  "asm_CI_LDSP opc f3 rd imm6 =
     ucast (place 0 0 2 (ucast opc) OR
     place 13 0 3 (ucast f3) OR
     place 7 0 5 (ucast rd) OR
     place 12 2 1 (ucast imm6) OR
     place 5 0 2 (ucast imm6) OR
     place 2 3 3 (ucast imm6))"

definition asm_CSS_W :: "2 word \<Rightarrow> 3 word \<Rightarrow> 5 word \<Rightarrow> 6 word \<Rightarrow> u16" where
  "asm_CSS_W opc f3 rs2 imm6 =
     ucast (place 0 0 2 (ucast opc) OR
     place 13 0 3 (ucast f3) OR
     place 2 0 5 (ucast rs2) OR
     place 9 0 4 (ucast imm6) OR
     place 7 4 2 (ucast imm6))"

definition asm_CSS_D :: "2 word \<Rightarrow> 3 word \<Rightarrow> 5 word \<Rightarrow> 6 word \<Rightarrow> u16" where
  "asm_CSS_D opc f3 rs2 imm6 =
     ucast (place 0 0 2 (ucast opc) OR
     place 13 0 3 (ucast f3) OR
     place 2 0 5 (ucast rs2) OR
     place 10 0 3 (ucast imm6) OR
     place 7 3 3 (ucast imm6))"

definition asm_CIW :: "2 word \<Rightarrow> 3 word \<Rightarrow> 3 word \<Rightarrow> 8 word \<Rightarrow> u16" where
  "asm_CIW opc f3 crd imm8 =
     ucast (place 0 0 2 (ucast opc) OR
     place 13 0 3 (ucast f3) OR
     place 2 0 3 (ucast crd) OR
     place 11 2 2 (ucast imm8) OR
     place 7 4 4 (ucast imm8) OR
     place 6 0 1 (ucast imm8) OR
     place 5 1 1 (ucast imm8))"

definition asm_CL_W :: "2 word \<Rightarrow> 3 word \<Rightarrow> 3 word \<Rightarrow> 3 word \<Rightarrow> 5 word \<Rightarrow> u16" where
  "asm_CL_W opc f3 clo chi imm5 =
     ucast (place 0 0 2 (ucast opc) OR
     place 13 0 3 (ucast f3) OR
     place 2 0 3 (ucast clo) OR
     place 7 0 3 (ucast chi) OR
     place 10 1 3 (ucast imm5) OR
     place 6 0 1 (ucast imm5) OR
     place 5 4 1 (ucast imm5))"

definition asm_CL_D :: "2 word \<Rightarrow> 3 word \<Rightarrow> 3 word \<Rightarrow> 3 word \<Rightarrow> 5 word \<Rightarrow> u16" where
  "asm_CL_D opc f3 clo chi imm5 =
     ucast (place 0 0 2 (ucast opc) OR
     place 13 0 3 (ucast f3) OR
     place 2 0 3 (ucast clo) OR
     place 7 0 3 (ucast chi) OR
     place 10 0 3 (ucast imm5) OR
     place 5 3 2 (ucast imm5))"

definition asm_CB :: "2 word \<Rightarrow> 3 word \<Rightarrow> 3 word \<Rightarrow> 8 word \<Rightarrow> u16" where
  "asm_CB opc f3 crs1 imm8 =
     ucast (place 0 0 2 (ucast opc) OR
     place 13 0 3 (ucast f3) OR
     place 7 0 3 (ucast crs1) OR
     place 12 7 1 (ucast imm8) OR
     place 10 2 2 (ucast imm8) OR
     place 5 5 2 (ucast imm8) OR
     place 3 0 2 (ucast imm8) OR
     place 2 4 1 (ucast imm8))"

definition asm_CJ :: "2 word \<Rightarrow> 3 word \<Rightarrow> 11 word \<Rightarrow> u16" where
  "asm_CJ opc f3 imm11 =
     ucast (place 0 0 2 (ucast opc) OR
     place 13 0 3 (ucast f3) OR
     place 12 10 1 (ucast imm11) OR
     place 11 3 1 (ucast imm11) OR
     place 9 7 2 (ucast imm11) OR
     place 8 9 1 (ucast imm11) OR
     place 7 5 1 (ucast imm11) OR
     place 6 6 1 (ucast imm11) OR
     place 3 0 3 (ucast imm11) OR
     place 2 4 1 (ucast imm11))"

definition asm_CR :: "2 word \<Rightarrow> 4 word \<Rightarrow> 5 word \<Rightarrow> 5 word \<Rightarrow> u16" where
  "asm_CR opc f4 rd rs2 =
     ucast (place 0 0 2 (ucast opc) OR
     place 12 0 4 (ucast f4) OR
     place 7 0 5 (ucast rd) OR
     place 2 0 5 (ucast rs2))"

definition asm_CA :: "2 word \<Rightarrow> 6 word \<Rightarrow> 2 word \<Rightarrow> 3 word \<Rightarrow> 3 word \<Rightarrow> u16" where
  "asm_CA opc f6 f2 crd crs2 =
     ucast (place 0 0 2 (ucast opc) OR
     place 10 0 6 (ucast f6) OR
     place 7 0 3 (ucast crd) OR
     place 5 0 2 (ucast f2) OR
     place 2 0 3 (ucast crs2))"

definition asm_CI_Alu :: "2 word \<Rightarrow> 3 word \<Rightarrow> 2 word \<Rightarrow> 3 word \<Rightarrow> 6 word \<Rightarrow> u16" where
  "asm_CI_Alu opc f3 f2 crd imm6 =
     ucast (place 0 0 2 (ucast opc) OR
     place 13 0 3 (ucast f3) OR
     place 12 5 1 (ucast imm6) OR
     place 10 0 2 (ucast f2) OR
     place 7 0 3 (ucast crd) OR
     place 2 0 5 (ucast imm6))"

definition asm_CI_LQSP :: "2 word \<Rightarrow> 3 word \<Rightarrow> 5 word \<Rightarrow> 6 word \<Rightarrow> u16" where
  "asm_CI_LQSP opc f3 rd imm6 =
     ucast (place 0 0 2 (ucast opc) OR
     place 13 0 3 (ucast f3) OR
     place 7 0 5 (ucast rd) OR
     place 12 1 1 (ucast imm6) OR
     place 6 0 1 (ucast imm6) OR
     place 2 2 4 (ucast imm6))"

definition asm_CSS_Q :: "2 word \<Rightarrow> 3 word \<Rightarrow> 5 word \<Rightarrow> 6 word \<Rightarrow> u16" where
  "asm_CSS_Q opc f3 rs2 imm6 =
     ucast (place 0 0 2 (ucast opc) OR
     place 13 0 3 (ucast f3) OR
     place 2 0 5 (ucast rs2) OR
     place 11 0 2 (ucast imm6) OR
     place 7 2 4 (ucast imm6))"

definition asm_CL_Q :: "2 word \<Rightarrow> 3 word \<Rightarrow> 3 word \<Rightarrow> 3 word \<Rightarrow> 5 word \<Rightarrow> u16" where
  "asm_CL_Q opc f3 clo chi imm5 =
     ucast (place 0 0 2 (ucast opc) OR
     place 13 0 3 (ucast f3) OR
     place 2 0 3 (ucast clo) OR
     place 7 0 3 (ucast chi) OR
     place 11 0 2 (ucast imm5) OR
     place 10 4 1 (ucast imm5) OR
     place 5 2 2 (ucast imm5))"

lemma operand_R:
  "DecodeOperandR (asm_R opc f3 f7 rd rs1 rs2) = OperandR (ucast rd) (ucast rs1) (ucast rs2)
   (ucast f3) (take_bit 5 (ucast f7))"
proof -
  have "Pick (asm_R opc f3 f7 rd rs1 rs2) 7 5 = ucast rd"
    "Pick (asm_R opc f3 f7 rd rs1 rs2) 15 5 = ucast rs1"
    "Pick (asm_R opc f3 f7 rd rs1 rs2) 20 5 = ucast rs2"
    "Pick (asm_R opc f3 f7 rd rs1 rs2) 12 3 = ucast f3"
    "Pick (asm_R opc f3 f7 rd rs1 rs2) 25 5 = take_bit 5 (ucast f7)"
    by (rule word32_eqI; simp add: asm_R_def place_simps)+
  then show ?thesis
    by (simp add: DecodeOperandR_def)
qed

lemma operand_R4:
  "DecodeOperandR4 (asm_R4 opc f3 f2 rd rs1 rs2 rs3) = OperandR4 (ucast rd) (ucast rs1) (ucast
   rs2) (ucast rs3) (ucast f3) (ucast f2)"
proof -
  have "Pick (asm_R4 opc f3 f2 rd rs1 rs2 rs3) 7 5 = ucast rd"
    "Pick (asm_R4 opc f3 f2 rd rs1 rs2 rs3) 15 5 = ucast rs1"
    "Pick (asm_R4 opc f3 f2 rd rs1 rs2 rs3) 20 5 = ucast rs2"
    "Pick (asm_R4 opc f3 f2 rd rs1 rs2 rs3) 27 5 = ucast rs3"
    "Pick (asm_R4 opc f3 f2 rd rs1 rs2 rs3) 12 3 = ucast f3"
    "Pick (asm_R4 opc f3 f2 rd rs1 rs2 rs3) 25 2 = ucast f2"
    by (rule word32_eqI; simp add: asm_R4_def place_simps)+
  then show ?thesis
    by (simp add: DecodeOperandR4_def)
qed

lemma operand_I:
  "DecodeOperandI (asm_I opc f3 rd rs1 imm12) = OperandI (scast imm12) (ucast rd) (ucast rs1)
   (ucast f3)"
proof -
  have "Pick (asm_I opc f3 rd rs1 imm12) 7 5 = ucast rd"
    "Pick (asm_I opc f3 rd rs1 imm12) 15 5 = ucast rs1"
    "Pick (asm_I opc f3 rd rs1 imm12) 12 3 = ucast f3"
    "Pick (asm_I opc f3 rd rs1 imm12) 20 12 = ucast imm12"
    by (rule word32_eqI; simp add: asm_I_def place_simps)+
  then show ?thesis
    using SignExtend64_ucast [where 'a = 12] by (simp add: DecodeOperandI_def)
qed

lemma operand_Csr:
  "DecodeOperandCsr (asm_I opc f3 rd rs1 imm12) = OperandCsr (ucast rd) (ucast rs1) (ucast
   imm12)"
proof -
  have "Pick (asm_I opc f3 rd rs1 imm12) 7 5 = ucast rd"
    "Pick (asm_I opc f3 rd rs1 imm12) 15 5 = ucast rs1"
    "Pick (asm_I opc f3 rd rs1 imm12) 12 3 = ucast f3"
    "Pick (asm_I opc f3 rd rs1 imm12) 20 12 = ucast imm12"
    by (rule word32_eqI; simp add: asm_I_def place_simps)+
  then show ?thesis
    by (simp add: DecodeOperandCsr_def)
qed

lemma operand_CsrImm:
  "DecodeOperandCsrImm (asm_I opc f3 rd rs1 imm12) = OperandCsrImm (ucast rs1) (ucast rd) (ucast
   imm12)"
proof -
  have "Pick (asm_I opc f3 rd rs1 imm12) 7 5 = ucast rd"
    "Pick (asm_I opc f3 rd rs1 imm12) 15 5 = ucast rs1"
    "Pick (asm_I opc f3 rd rs1 imm12) 12 3 = ucast f3"
    "Pick (asm_I opc f3 rd rs1 imm12) 20 12 = ucast imm12"
    by (rule word32_eqI; simp add: asm_I_def place_simps)+
  then show ?thesis
    by (simp add: DecodeOperandCsrImm_def)
qed

lemma operand_Shift:
  "DecodeOperandShiftImm_64 (asm_Sh opc f3 f6 rd rs1 shamt) = OperandShiftImm (ucast rd) (ucast
   rs1) (ucast shamt)"
proof -
  have "Pick (asm_Sh opc f3 f6 rd rs1 shamt) 7 5 = ucast rd"
    "Pick (asm_Sh opc f3 f6 rd rs1 shamt) 15 5 = ucast rs1"
    "Pick (asm_Sh opc f3 f6 rd rs1 shamt) 20 6 = ucast shamt"
    by (rule word32_eqI; simp add: asm_Sh_def place_simps)+
  then show ?thesis
    by (simp add: DecodeOperandShiftImm_64_def)
qed

lemma operand_S:
  "DecodeOperandS (asm_S opc f3 rs1 rs2 imm12) = OperandS (scast imm12) (ucast rs1) (ucast rs2)
   (ucast f3)"
proof -
  have "Pick (asm_S opc f3 rs1 rs2 imm12) 15 5 = ucast rs1"
    "Pick (asm_S opc f3 rs1 rs2 imm12) 20 5 = ucast rs2"
    "Pick (asm_S opc f3 rs1 rs2 imm12) 12 3 = ucast f3"
    "shl (Pick (asm_S opc f3 rs1 rs2 imm12) 25 7) 5 OR Pick (asm_S opc f3 rs1 rs2 imm12) 7 5
     = ucast (imm12)"
    by (rule word32_eqI; simp add: asm_S_def place_simps)+
  then show ?thesis
    using SignExtend64_ucast [where 'a = 12] by (simp add: DecodeOperandS_def)
qed

lemma operand_B:
  "DecodeOperandB (asm_B opc f3 rs1 rs2 imm12) = OperandB (scast (push_bit 1 (ucast imm12) :: 13
   word)) (ucast rs1) (ucast rs2) (ucast f3)"
proof -
  have "Pick (asm_B opc f3 rs1 rs2 imm12) 15 5 = ucast rs1"
    "Pick (asm_B opc f3 rs1 rs2 imm12) 20 5 = ucast rs2"
    "Pick (asm_B opc f3 rs1 rs2 imm12) 12 3 = ucast f3"
    "shl (Pick (asm_B opc f3 rs1 rs2 imm12) 31 1) 12 OR shl (Pick (asm_B opc f3 rs1 rs2 imm12)
     25 6) 5 OR shl (Pick (asm_B opc f3 rs1 rs2 imm12) 8 4) 1 OR shl (Pick (asm_B opc f3 rs1 rs2
     imm12) 7 1) 11
     = ucast (push_bit 1 (ucast imm12) :: 13 word)"
    by (rule word32_eqI; simp add: asm_B_def place_simps)+
  then show ?thesis
    using SignExtend64_ucast [where 'a = 13] by (simp add: DecodeOperandB_def)
qed

lemma operand_U:
  "DecodeOperandU (asm_U opc rd imm20) = OperandU (scast (push_bit 12 (ucast imm20) :: u32))
   (ucast rd)"
proof -
  have "Pick (asm_U opc rd imm20) 7 5 = ucast rd"
    "Pick (asm_U opc rd imm20) 12 20 = ucast imm20"
    by (rule word32_eqI; simp add: asm_U_def place_simps)+
  then show ?thesis
    by (simp add: DecodeOperandU_def SignExtend64_32)
qed

lemma operand_J:
  "DecodeOperandJ (asm_J opc rd imm20) = OperandJ (scast (push_bit 1 (ucast imm20) :: 21 word))
   (ucast rd)"
proof -
  have "Pick (asm_J opc rd imm20) 7 5 = ucast rd"
    "shl (Pick (asm_J opc rd imm20) 31 1) 20 OR shl (Pick (asm_J opc rd imm20) 21 10) 1 OR shl
     (Pick (asm_J opc rd imm20) 20 1) 11 OR shl (Pick (asm_J opc rd imm20) 12 8) 12
     = ucast (push_bit 1 (ucast imm20) :: 21 word)"
    by (rule word32_eqI; simp add: asm_J_def place_simps)+
  then show ?thesis
    using SignExtend64_ucast [where 'a = 21] by (simp add: DecodeOperandJ_def)
qed

lemma operand_CI:
  "DecodeOperandCI (asm_CI opc f3 rd imm6) immSigned =
     OperandCI (if immSigned then scast imm6 else ucast imm6) (ucast rd) (ucast rd)"
proof -
  have "PickC (asm_CI opc f3 rd imm6) 7 5 = ucast rd"
    "shl (PickC (asm_CI opc f3 rd imm6) 12 1) 5 OR PickC (asm_CI opc f3 rd imm6) 2 5
     = ucast (imm6)"
    by (rule word32_eqI; simp add: PickC_def asm_CI_def place_simps)+
  then show ?thesis
    using SignExtend64_ucast [where 'a = 6] ZeroExtend64_ucast [where 'a = 6]
    by (simp add: DecodeOperandCI_def)
qed

lemma operand_CI16SP:
  "DecodeOperandCI_ADDI16SP (asm_CI16SP opc f3 rd imm6) = OperandCI (scast (push_bit 4 (ucast
   imm6) :: 10 word)) (ucast rd) (ucast rd)"
proof -
  have "PickC (asm_CI16SP opc f3 rd imm6) 7 5 = ucast rd"
    "shl (PickC (asm_CI16SP opc f3 rd imm6) 12 1) 9 OR shl (PickC (asm_CI16SP opc f3 rd imm6) 6
     1) 4 OR shl (PickC (asm_CI16SP opc f3 rd imm6) 5 1) 6 OR shl (PickC (asm_CI16SP opc f3 rd
     imm6) 3 2) 7 OR shl (PickC (asm_CI16SP opc f3 rd imm6) 2 1) 5
     = ucast (push_bit 4 (ucast imm6) :: 10 word)"
    by (rule word32_eqI; simp add: PickC_def asm_CI16SP_def place_simps)+
  then show ?thesis
    using SignExtend64_ucast [where 'a = 10] by (simp add: DecodeOperandCI_ADDI16SP_def)
qed

lemma operand_CI_LUI:
  "DecodeOperandCI_LUI (asm_CI_LUI opc f3 rd imm6) = OperandCI (scast (push_bit 12 (ucast imm6)
   :: 18 word)) (ucast rd) (ucast rd)"
proof -
  have "PickC (asm_CI_LUI opc f3 rd imm6) 7 5 = ucast rd"
    "shl (PickC (asm_CI_LUI opc f3 rd imm6) 12 1) 17 OR shl (PickC (asm_CI_LUI opc f3 rd imm6) 2
     5) 12
     = ucast (push_bit 12 (ucast imm6) :: 18 word)"
    by (rule word32_eqI; simp add: PickC_def asm_CI_LUI_def place_simps)+
  then show ?thesis
    using SignExtend64_ucast [where 'a = 18] by (simp add: DecodeOperandCI_LUI_def)
qed

lemma operand_CI_LWSP:
  "DecodeOperandCI_LoadSP (asm_CI_LWSP opc f3 rd imm6) 4 = Inr (OperandCI (ucast (push_bit 2
   (ucast imm6) :: 8 word)) (ucast rd) (ucast rd))"
proof -
  have "PickC (asm_CI_LWSP opc f3 rd imm6) 7 5 = ucast rd"
    "shl (PickC (asm_CI_LWSP opc f3 rd imm6) 12 1) 5 OR shl (PickC (asm_CI_LWSP opc f3 rd imm6)
     4 3) 2 OR shl (PickC (asm_CI_LWSP opc f3 rd imm6) 2 2) 6
     = ucast (push_bit 2 (ucast imm6) :: 8 word)"
    by (rule word32_eqI; simp add: PickC_def asm_CI_LWSP_def place_simps)+
  then show ?thesis
    using ZeroExtend64_ucast [where 'a = 8] by (simp add: DecodeOperandCI_LoadSP_def)
qed

lemma operand_CI_LDSP:
  "DecodeOperandCI_LoadSP (asm_CI_LDSP opc f3 rd imm6) 8 = Inr (OperandCI (ucast (push_bit 3
   (ucast imm6) :: 9 word)) (ucast rd) (ucast rd))"
proof -
  have "PickC (asm_CI_LDSP opc f3 rd imm6) 7 5 = ucast rd"
    "shl (PickC (asm_CI_LDSP opc f3 rd imm6) 12 1) 5 OR shl (PickC (asm_CI_LDSP opc f3 rd imm6)
     5 2) 3 OR shl (PickC (asm_CI_LDSP opc f3 rd imm6) 2 3) 6
     = ucast (push_bit 3 (ucast imm6) :: 9 word)"
    by (rule word32_eqI; simp add: PickC_def asm_CI_LDSP_def place_simps)+
  then show ?thesis
    using ZeroExtend64_ucast [where 'a = 9] by (simp add: DecodeOperandCI_LoadSP_def)
qed

lemma operand_CSS_W:
  "DecodeOperandCSS (asm_CSS_W opc f3 rs2 imm6) 4 = Inr (OperandCSS (ucast (push_bit 2 (ucast
   imm6) :: 8 word)) (ucast rs2))"
proof -
  have "PickC (asm_CSS_W opc f3 rs2 imm6) 2 5 = ucast rs2"
    "shl (PickC (asm_CSS_W opc f3 rs2 imm6) 9 4) 2 OR shl (PickC (asm_CSS_W opc f3 rs2 imm6) 7
     2) 6
     = ucast (push_bit 2 (ucast imm6) :: 8 word)"
    by (rule word32_eqI; simp add: PickC_def asm_CSS_W_def place_simps)+
  then show ?thesis
    using ZeroExtend64_ucast [where 'a = 8] by (simp add: DecodeOperandCSS_def)
qed

lemma operand_CSS_D:
  "DecodeOperandCSS (asm_CSS_D opc f3 rs2 imm6) 8 = Inr (OperandCSS (ucast (push_bit 3 (ucast
   imm6) :: 9 word)) (ucast rs2))"
proof -
  have "PickC (asm_CSS_D opc f3 rs2 imm6) 2 5 = ucast rs2"
    "shl (PickC (asm_CSS_D opc f3 rs2 imm6) 10 3) 3 OR shl (PickC (asm_CSS_D opc f3 rs2 imm6) 7
     3) 6
     = ucast (push_bit 3 (ucast imm6) :: 9 word)"
    by (rule word32_eqI; simp add: PickC_def asm_CSS_D_def place_simps)+
  then show ?thesis
    using ZeroExtend64_ucast [where 'a = 9] by (simp add: DecodeOperandCSS_def)
qed

lemma operand_CIW:
  "DecodeOperandCIW (asm_CIW opc f3 crd imm8) = OperandCIW (ucast (push_bit 2 (ucast imm8) :: 10
   word)) (ucast crd + 8)"
proof -
  have "PickC (asm_CIW opc f3 crd imm8) 2 3 = ucast crd"
    "shl (PickC (asm_CIW opc f3 crd imm8) 11 2) 4 OR shl (PickC (asm_CIW opc f3 crd imm8) 7 4) 6
     OR shl (PickC (asm_CIW opc f3 crd imm8) 6 1) 2 OR shl (PickC (asm_CIW opc f3 crd imm8) 5 1)
     3
     = ucast (push_bit 2 (ucast imm8) :: 10 word)"
    by (rule word32_eqI; simp add: PickC_def asm_CIW_def place_simps)+
  then show ?thesis
    using ZeroExtend64_ucast [where 'a = 10] by (simp add: DecodeOperandCIW_def)
qed

lemma operand_CL_W:
  "DecodeOperandCL (asm_CL_W opc f3 clo chi imm5) 4 = Inr (OperandCL (ucast (push_bit 2 (ucast
   imm5) :: 7 word)) (ucast clo + 8) (ucast chi + 8))"
proof -
  have "PickC (asm_CL_W opc f3 clo chi imm5) 2 3 = ucast clo"
    "PickC (asm_CL_W opc f3 clo chi imm5) 7 3 = ucast chi"
    "shl (PickC (asm_CL_W opc f3 clo chi imm5) 10 3) 3 OR shl (PickC (asm_CL_W opc f3 clo chi
     imm5) 6 1) 2 OR shl (PickC (asm_CL_W opc f3 clo chi imm5) 5 1) 6
     = ucast (push_bit 2 (ucast imm5) :: 7 word)"
    by (rule word32_eqI; simp add: PickC_def asm_CL_W_def place_simps)+
  then show ?thesis
    using ZeroExtend64_ucast [where 'a = 7] by (simp add: DecodeOperandCL_def)
qed

lemma operand_CS_W:
  "DecodeOperandCS (asm_CL_W opc f3 clo chi imm5) 4 = Inr (OperandCS (ucast (push_bit 2 (ucast
   imm5) :: 7 word)) (ucast chi + 8) (ucast clo + 8))"
proof -
  have "PickC (asm_CL_W opc f3 clo chi imm5) 2 3 = ucast clo"
    "PickC (asm_CL_W opc f3 clo chi imm5) 7 3 = ucast chi"
    "shl (PickC (asm_CL_W opc f3 clo chi imm5) 10 3) 3 OR shl (PickC (asm_CL_W opc f3 clo chi
     imm5) 6 1) 2 OR shl (PickC (asm_CL_W opc f3 clo chi imm5) 5 1) 6
     = ucast (push_bit 2 (ucast imm5) :: 7 word)"
    by (rule word32_eqI; simp add: PickC_def asm_CL_W_def place_simps)+
  then show ?thesis
    using ZeroExtend64_ucast [where 'a = 7] by (simp add: DecodeOperandCS_def)
qed

lemma operand_CL_D:
  "DecodeOperandCL (asm_CL_D opc f3 clo chi imm5) 8 = Inr (OperandCL (ucast (push_bit 3 (ucast
   imm5) :: 8 word)) (ucast clo + 8) (ucast chi + 8))"
proof -
  have "PickC (asm_CL_D opc f3 clo chi imm5) 2 3 = ucast clo"
    "PickC (asm_CL_D opc f3 clo chi imm5) 7 3 = ucast chi"
    "shl (PickC (asm_CL_D opc f3 clo chi imm5) 10 3) 3 OR shl (PickC (asm_CL_D opc f3 clo chi
     imm5) 5 2) 6
     = ucast (push_bit 3 (ucast imm5) :: 8 word)"
    by (rule word32_eqI; simp add: PickC_def asm_CL_D_def place_simps)+
  then show ?thesis
    using ZeroExtend64_ucast [where 'a = 8] by (simp add: DecodeOperandCL_def)
qed

lemma operand_CS_D:
  "DecodeOperandCS (asm_CL_D opc f3 clo chi imm5) 8 = Inr (OperandCS (ucast (push_bit 3 (ucast
   imm5) :: 8 word)) (ucast chi + 8) (ucast clo + 8))"
proof -
  have "PickC (asm_CL_D opc f3 clo chi imm5) 2 3 = ucast clo"
    "PickC (asm_CL_D opc f3 clo chi imm5) 7 3 = ucast chi"
    "shl (PickC (asm_CL_D opc f3 clo chi imm5) 10 3) 3 OR shl (PickC (asm_CL_D opc f3 clo chi
     imm5) 5 2) 6
     = ucast (push_bit 3 (ucast imm5) :: 8 word)"
    by (rule word32_eqI; simp add: PickC_def asm_CL_D_def place_simps)+
  then show ?thesis
    using ZeroExtend64_ucast [where 'a = 8] by (simp add: DecodeOperandCS_def)
qed

lemma operand_CB:
  "DecodeOperandCB (asm_CB opc f3 crs1 imm8) = OperandCB (scast (push_bit 1 (ucast imm8) :: 9
   word)) (ucast crs1 + 8)"
proof -
  have "PickC (asm_CB opc f3 crs1 imm8) 7 3 = ucast crs1"
    "shl (PickC (asm_CB opc f3 crs1 imm8) 12 1) 8 OR shl (PickC (asm_CB opc f3 crs1 imm8) 10 2)
     3 OR shl (PickC (asm_CB opc f3 crs1 imm8) 5 2) 6 OR shl (PickC (asm_CB opc f3 crs1 imm8) 3
     2) 1 OR shl (PickC (asm_CB opc f3 crs1 imm8) 2 1) 5
     = ucast (push_bit 1 (ucast imm8) :: 9 word)"
    by (rule word32_eqI; simp add: PickC_def asm_CB_def place_simps)+
  then show ?thesis
    using SignExtend64_ucast [where 'a = 9] by (simp add: DecodeOperandCB_def)
qed

lemma operand_CJ:
  "DecodeOperandCJ (asm_CJ opc f3 imm11) = OperandCJ (scast (push_bit 1 (ucast imm11) :: 12
   word))"
proof -
  have "shl (PickC (asm_CJ opc f3 imm11) 12 1) 11 OR shl (PickC (asm_CJ opc f3 imm11) 11 1) 4 OR
     shl (PickC (asm_CJ opc f3 imm11) 9 2) 8 OR shl (PickC (asm_CJ opc f3 imm11) 8 1) 10 OR shl
     (PickC (asm_CJ opc f3 imm11) 7 1) 6 OR shl (PickC (asm_CJ opc f3 imm11) 6 1) 7 OR shl
     (PickC (asm_CJ opc f3 imm11) 3 3) 1 OR shl (PickC (asm_CJ opc f3 imm11) 2 1) 5
     = ucast (push_bit 1 (ucast imm11) :: 12 word)"
    by (rule word32_eqI; simp add: PickC_def asm_CJ_def place_simps)
  then show ?thesis
    using SignExtend64_ucast [where 'a = 12] by (simp add: DecodeOperandCJ_def)
qed

lemma operand_Shift_32:
  "DecodeOperandShiftImm_32 (asm_R opc f3 f7 rd rs1 shamt) = OperandShiftImm (ucast rd) (ucast rs1) (ucast shamt)"
proof -
  have "Pick (asm_R opc f3 f7 rd rs1 shamt) 7 5 = ucast rd"
    "Pick (asm_R opc f3 f7 rd rs1 shamt) 15 5 = ucast rs1"
    "Pick (asm_R opc f3 f7 rd rs1 shamt) 20 5 = ucast shamt"
    by (rule word32_eqI; simp add: asm_R_def place_simps)+
  then show ?thesis
    by (simp add: DecodeOperandShiftImm_32_def)
qed

lemma operand_Fence:
  "DecodeOperandFence (asm_Fence opc f3 fm pred succ rd rs1) = OperandFence (ucast pred) (ucast succ)"
proof -
  have "Pick (asm_Fence opc f3 fm pred succ rd rs1) 24 4 = ucast pred"
    "Pick (asm_Fence opc f3 fm pred succ rd rs1) 20 4 = ucast succ"
    by (rule word32_eqI; simp add: asm_Fence_def place_simps)+
  then show ?thesis
    by (simp add: DecodeOperandFence_def)
qed

lemma operand_CR:
  "DecodeOperandCR (asm_CR opc f4 rd rs2) = OperandCR (ucast rd) (ucast rd) (ucast rs2)"
proof -
  have "PickC (asm_CR opc f4 rd rs2) 7 5 = ucast rd" "PickC (asm_CR opc f4 rd rs2) 2 5 = ucast rs2"
    by (rule word32_eqI; simp add: PickC_def asm_CR_def place_simps)+
  then show ?thesis
    by (simp add: DecodeOperandCR_def)
qed

lemma operand_CA:
  "DecodeOperandCR_Alu (asm_CA opc f6 f2 crd crs2) = OperandCR (ucast crd + 8) (ucast crd + 8) (ucast crs2 + 8)"
proof -
  have "PickC (asm_CA opc f6 f2 crd crs2) 7 3 = ucast crd" "PickC (asm_CA opc f6 f2 crd crs2) 2 3 = ucast crs2"
    by (rule word32_eqI; simp add: PickC_def asm_CA_def place_simps)+
  then show ?thesis
    by (simp add: DecodeOperandCR_Alu_def)
qed

lemma operand_CI_Alu:
  "DecodeOperandCI_AluImm (asm_CI_Alu opc f3 f2 crd imm6) immSigned =
     OperandCI (if immSigned then scast imm6 else ucast imm6) (ucast crd + 8) (ucast crd + 8)"
proof -
  have "PickC (asm_CI_Alu opc f3 f2 crd imm6) 7 3 = ucast crd"
    "shl (PickC (asm_CI_Alu opc f3 f2 crd imm6) 12 1) 5 OR PickC (asm_CI_Alu opc f3 f2 crd imm6) 2 5
     = ucast imm6"
    by (rule word32_eqI; simp add: PickC_def asm_CI_Alu_def place_simps)+
  then show ?thesis
    using SignExtend64_ucast [where 'a = 6] ZeroExtend64_ucast [where 'a = 6]
    by (simp add: DecodeOperandCI_AluImm_def)
qed

lemma operand_CI_LQSP:
  "DecodeOperandCI_LoadSP (asm_CI_LQSP opc f3 rd imm6) 16 = Inr (OperandCI (ucast (push_bit 4
   (ucast imm6) :: 10 word)) (ucast rd) (ucast rd))"
proof -
  have "PickC (asm_CI_LQSP opc f3 rd imm6) 7 5 = ucast rd"
    "shl (PickC (asm_CI_LQSP opc f3 rd imm6) 12 1) 5 OR shl (PickC (asm_CI_LQSP opc f3 rd imm6) 6 1) 4
     OR shl (PickC (asm_CI_LQSP opc f3 rd imm6) 2 4) 6
     = ucast (push_bit 4 (ucast imm6) :: 10 word)"
    by (rule word32_eqI; simp add: PickC_def asm_CI_LQSP_def place_simps)+
  then show ?thesis
    using ZeroExtend64_ucast [where 'a = 10] by (simp add: DecodeOperandCI_LoadSP_def)
qed

lemma operand_CSS_Q:
  "DecodeOperandCSS (asm_CSS_Q opc f3 rs2 imm6) 16 = Inr (OperandCSS (ucast (push_bit 4 (ucast
   imm6) :: 10 word)) (ucast rs2))"
proof -
  have "PickC (asm_CSS_Q opc f3 rs2 imm6) 2 5 = ucast rs2"
    "shl (PickC (asm_CSS_Q opc f3 rs2 imm6) 11 2) 4 OR shl (PickC (asm_CSS_Q opc f3 rs2 imm6) 7 4) 6
     = ucast (push_bit 4 (ucast imm6) :: 10 word)"
    by (rule word32_eqI; simp add: PickC_def asm_CSS_Q_def place_simps)+
  then show ?thesis
    using ZeroExtend64_ucast [where 'a = 10] by (simp add: DecodeOperandCSS_def)
qed

lemma operand_CL_Q:
  "DecodeOperandCL (asm_CL_Q opc f3 clo chi imm5) 16 = Inr (OperandCL (ucast (push_bit 4 (ucast
   imm5) :: 9 word)) (ucast clo + 8) (ucast chi + 8))"
  "DecodeOperandCS (asm_CL_Q opc f3 clo chi imm5) 16 = Inr (OperandCS (ucast (push_bit 4 (ucast
   imm5) :: 9 word)) (ucast chi + 8) (ucast clo + 8))"
proof -
  have "PickC (asm_CL_Q opc f3 clo chi imm5) 2 3 = ucast clo"
    "PickC (asm_CL_Q opc f3 clo chi imm5) 7 3 = ucast chi"
    "shl (PickC (asm_CL_Q opc f3 clo chi imm5) 11 2) 4 OR shl (PickC (asm_CL_Q opc f3 clo chi imm5) 10 1) 8
     OR shl (PickC (asm_CL_Q opc f3 clo chi imm5) 5 2) 6
     = ucast (push_bit 4 (ucast imm5) :: 9 word)"
    by (rule word32_eqI; simp add: PickC_def asm_CL_Q_def place_simps)+
  then show "DecodeOperandCL (asm_CL_Q opc f3 clo chi imm5) 16 = Inr (OperandCL (ucast (push_bit 4 (ucast
   imm5) :: 9 word)) (ucast clo + 8) (ucast chi + 8))"
    "DecodeOperandCS (asm_CL_Q opc f3 clo chi imm5) 16 = Inr (OperandCS (ucast (push_bit 4 (ucast
   imm5) :: 9 word)) (ucast chi + 8) (ucast clo + 8))"
    using ZeroExtend64_ucast [where 'a = 9]
    by (simp_all add: DecodeOperandCL_def DecodeOperandCS_def)
qed

text \<open>
  C31: the operand decoders invert the instruction formats. Assembling any register numbers
  and any immediate into the fields of a format, with the bits of the immediate scattered as
  the instruction set prescribes, and decoding the word gives the register numbers and the
  sign-extended immediate back, of a shift or a fence its unsigned fields; \<open>funct7\<close> alone loses its
  two upper bits.
\<close>

theorem operand_roundtrip:
  "DecodeOperandR (asm_R opc f3 f7 rd rs1 rs2) = OperandR (ucast rd) (ucast rs1) (ucast rs2)
     (ucast f3) (take_bit 5 (ucast f7)) \<and>
   DecodeOperandR4 (asm_R4 opc f3 f2 rd rs1 rs2 rs3) = OperandR4 (ucast rd) (ucast rs1) (ucast
     rs2) (ucast rs3) (ucast f3) (ucast f2) \<and>
   DecodeOperandI (asm_I opc f3 rd rs1 imm12) = OperandI (scast imm12) (ucast rd) (ucast rs1)
     (ucast f3) \<and>
   DecodeOperandCsr (asm_I opc f3 rd rs1 imm12) = OperandCsr (ucast rd) (ucast rs1) (ucast
     imm12) \<and>
   DecodeOperandCsrImm (asm_I opc f3 rd rs1 imm12) = OperandCsrImm (ucast rs1) (ucast rd)
     (ucast imm12) \<and>
   DecodeOperandShiftImm_64 (asm_Sh opc f3 f6 rd rs1 shamt) = OperandShiftImm (ucast rd)
     (ucast rs1) (ucast shamt) \<and>
   DecodeOperandS (asm_S opc f3 rs1 rs2 imm12) = OperandS (scast imm12) (ucast rs1) (ucast
     rs2) (ucast f3) \<and>
   DecodeOperandB (asm_B opc f3 rs1 rs2 imm12) = OperandB (scast (push_bit 1 (ucast imm12) ::
     13 word)) (ucast rs1) (ucast rs2) (ucast f3) \<and>
   DecodeOperandU (asm_U opc rd imm20) = OperandU (scast (push_bit 12 (ucast imm20) :: u32))
     (ucast rd) \<and>
   DecodeOperandJ (asm_J opc rd imm20) = OperandJ (scast (push_bit 1 (ucast imm20) :: 21
     word)) (ucast rd) \<and>
   DecodeOperandShiftImm_32 (asm_R opc f3 f7 rd rs1 shamt5) = OperandShiftImm (ucast rd)
     (ucast rs1) (ucast shamt5) \<and>
   DecodeOperandFence (asm_Fence opc f3 fm pred succ rd rs1) = OperandFence (ucast pred) (ucast succ)"
  by (simp add: operand_R operand_R4 operand_I operand_Csr operand_CsrImm operand_Shift operand_S
      operand_B operand_U operand_J operand_Shift_32 operand_Fence)

text \<open>
  C32: the same for every operand decoder of the compressed instructions: the register pairs of
  \<open>CR\<close> and of the register-register operations, the signed and the unsigned six-bit immediates of
  \<open>CI\<close> and of the shifts and the mask on three-bit registers, and the scattered immediates of the
  loads, stores (of 4, 8 and 16 bytes), jumps, branches and stack operations, which come back at
  their scale; a three-bit register number stands for \<open>x8\<close> to \<open>x15\<close>.
\<close>

theorem operand_roundtrip_compressed:
  "DecodeOperandCR (asm_CR opc f4 rd rs2) = OperandCR (ucast rd) (ucast rd) (ucast rs2) \<and>
   DecodeOperandCR_Alu (asm_CA opc f6 f2 crd crs2) = OperandCR (ucast crd + 8) (ucast crd + 8)
     (ucast crs2 + 8) \<and>
   DecodeOperandCI (asm_CI opc f3 rd imm6) True = OperandCI (scast imm6) (ucast rd) (ucast rd) \<and>
   DecodeOperandCI (asm_CI opc f3 rd imm6) False = OperandCI (ucast imm6) (ucast rd) (ucast rd) \<and>
   DecodeOperandCI_AluImm (asm_CI_Alu opc f3 f2 crd imm6) True = OperandCI (scast imm6)
     (ucast crd + 8) (ucast crd + 8) \<and>
   DecodeOperandCI_AluImm (asm_CI_Alu opc f3 f2 crd imm6) False = OperandCI (ucast imm6)
     (ucast crd + 8) (ucast crd + 8) \<and>
   DecodeOperandCI_ADDI16SP (asm_CI16SP opc f3 rd imm6) = OperandCI (scast (push_bit 4 (ucast
     imm6) :: 10 word)) (ucast rd) (ucast rd) \<and>
   DecodeOperandCI_LUI (asm_CI_LUI opc f3 rd imm6) = OperandCI (scast (push_bit 12 (ucast
     imm6) :: 18 word)) (ucast rd) (ucast rd) \<and>
   DecodeOperandCI_LoadSP (asm_CI_LWSP opc f3 rd imm6) 4 = Inr (OperandCI (ucast (push_bit 2
     (ucast imm6) :: 8 word)) (ucast rd) (ucast rd)) \<and>
   DecodeOperandCI_LoadSP (asm_CI_LDSP opc f3 rd imm6) 8 = Inr (OperandCI (ucast (push_bit 3
     (ucast imm6) :: 9 word)) (ucast rd) (ucast rd)) \<and>
   DecodeOperandCSS (asm_CSS_W opc f3 rs2 imm6) 4 = Inr (OperandCSS (ucast (push_bit 2 (ucast
     imm6) :: 8 word)) (ucast rs2)) \<and>
   DecodeOperandCSS (asm_CSS_D opc f3 rs2 imm6) 8 = Inr (OperandCSS (ucast (push_bit 3 (ucast
     imm6) :: 9 word)) (ucast rs2)) \<and>
   DecodeOperandCIW (asm_CIW opc f3 crd imm8) = OperandCIW (ucast (push_bit 2 (ucast imm8) ::
     10 word)) (ucast crd + 8) \<and>
   DecodeOperandCL (asm_CL_W opc f3 clo chi imm5) 4 = Inr (OperandCL (ucast (push_bit 2 (ucast
     imm5) :: 7 word)) (ucast clo + 8) (ucast chi + 8)) \<and>
   DecodeOperandCS (asm_CL_W opc f3 clo chi imm5) 4 = Inr (OperandCS (ucast (push_bit 2 (ucast
     imm5) :: 7 word)) (ucast chi + 8) (ucast clo + 8)) \<and>
   DecodeOperandCL (asm_CL_D opc f3 clo chi imm5) 8 = Inr (OperandCL (ucast (push_bit 3 (ucast
     imm5) :: 8 word)) (ucast clo + 8) (ucast chi + 8)) \<and>
   DecodeOperandCS (asm_CL_D opc f3 clo chi imm5) 8 = Inr (OperandCS (ucast (push_bit 3 (ucast
     imm5) :: 8 word)) (ucast chi + 8) (ucast clo + 8)) \<and>
   DecodeOperandCB (asm_CB opc f3 crs1 imm8) = OperandCB (scast (push_bit 1 (ucast imm8) :: 9
     word)) (ucast crs1 + 8) \<and>
   DecodeOperandCJ (asm_CJ opc f3 imm11) = OperandCJ (scast (push_bit 1 (ucast imm11) :: 12
     word)) \<and>
   DecodeOperandCI_LoadSP (asm_CI_LQSP opc f3 rd imm6) 16 = Inr (OperandCI (ucast (push_bit 4
     (ucast imm6) :: 10 word)) (ucast rd) (ucast rd)) \<and>
   DecodeOperandCSS (asm_CSS_Q opc f3 rs2 imm6) 16 = Inr (OperandCSS (ucast (push_bit 4 (ucast
     imm6) :: 10 word)) (ucast rs2)) \<and>
   DecodeOperandCL (asm_CL_Q opc f3 clo chi imm5) 16 = Inr (OperandCL (ucast (push_bit 4 (ucast
     imm5) :: 9 word)) (ucast clo + 8) (ucast chi + 8)) \<and>
   DecodeOperandCS (asm_CL_Q opc f3 clo chi imm5) 16 = Inr (OperandCS (ucast (push_bit 4 (ucast
     imm5) :: 9 word)) (ucast chi + 8) (ucast clo + 8))"
  by (simp add: operand_CR operand_CA operand_CI_Alu operand_CI_LQSP operand_CSS_Q operand_CL_Q operand_CI operand_CI16SP operand_CI_LUI operand_CI_LWSP operand_CI_LDSP operand_CSS_W
      operand_CSS_D operand_CIW operand_CL_W operand_CS_W operand_CL_D operand_CS_D operand_CB
      operand_CJ)

end
