(* ===== verification/Rafi_RegFile.thy ===== *)
theory Rafi_RegFile
  imports Rafi_Types
begin

text \<open>
  \<^verbatim>\<open>src/rafi-emu/cpu/IntRegFile.cpp\<close>, \<^verbatim>\<open>FpRegFile.cpp\<close> and \<^verbatim>\<open>AtomicManager.cpp\<close>: the
  two register files and the reservation of the load-reserved / store-conditional pair.
  An entry is a union of a 32-bit and a 64-bit member, on the little-endian hosts the
  emulator supports: one 64-bit word whose lower half is the 32-bit member. Signed and unsigned members
  share their bits.
\<close>

section \<open>The contract of a register file\<close>

text \<open>
  A file of \<open>count\<close> registers: in range, every access returns; a register for which
  \<open>writable\<close> holds reads back what was written; no other register sees the write.
\<close>

locale register_file =
  fixes wf :: "'s \<Rightarrow> bool"
    and rd_of :: "i32 \<Rightarrow> 's \<Rightarrow> 'v result"
    and wr :: "i32 \<Rightarrow> 'v \<Rightarrow> 's \<Rightarrow> 's result"
    and writable :: "i32 \<Rightarrow> bool"
  assumes read_ok: "wf s \<Longrightarrow> i < 32 \<Longrightarrow> \<exists>v. rd_of i s = Inr v"
    and write_ok: "wf s \<Longrightarrow> i < 32 \<Longrightarrow> \<exists>t. wr i v s = Inr t \<and> wf t"
    and read_write: "wf s \<Longrightarrow> i < 32 \<Longrightarrow> j < 32 \<Longrightarrow> wr i v s = Inr t \<Longrightarrow>
      rd_of j t = (if j = i \<and> writable i then Inr v else rd_of j s)"
begin

lemma returns_write: "i < 32 \<Longrightarrow>
    returns wf (\<lambda>s. map_sum id (Pair ()) (wr i v s)) (\<lambda>_. True)"
proof -
  assume i: "i < 32"
  show ?thesis
  proof (rule returnsI)
    fix s assume "wf s"
    then obtain t where "wr i v s = Inr t" "wf t" using write_ok i by blast
    then show "\<exists>x t. map_sum id (Pair ()) (wr i v s) = Inr (x, t) \<and> wf t \<and> True" by simp
  qed
qed

lemma returns_read: "i < 32 \<Longrightarrow> returns wf (queryM (rd_of i)) (\<lambda>_. True)"
  using read_ok by (intro returns_queryM) simp

text \<open>The last of two writes to a register wins, and writes to different registers commute.\<close>

lemma write_twice:
  assumes "wf s" "i < 32" "j < 32" "wr i v s = Inr t" "wr i w t = Inr u"
  shows "rd_of j u = (if j = i \<and> writable i then Inr w else rd_of j s)"
proof -
  have "wf t" using write_ok [OF assms(1,2), of v] assms(4) by auto
  then show ?thesis
    using read_write [OF assms(1,2,3,4)] read_write [OF _ assms(2,3,5)] by auto
qed

lemma write_commute:
  assumes "wf s" "i < 32" "k < 32" "j < 32" "i \<noteq> k"
    and "wr i v s = Inr t" "wr k w t = Inr u"
    and "wr k w s = Inr t'" "wr i v t' = Inr u'"
  shows "rd_of j u = rd_of j u'"
proof -
  have "wf t" "wf t'"
    using write_ok [OF assms(1,2), of v] write_ok [OF assms(1,3), of w] assms(6,8) by auto
  then show ?thesis
    using read_write [OF assms(1,2,4,6)] read_write [OF _ assms(3,4,7)]
      read_write [OF assms(1,3,4,8)] read_write [OF _ assms(2,4,9)] assms(5)
    by auto
qed

text \<open>An operation on two source registers and a destination.\<close>

lemma binary_operation:
  assumes "wf s" "rd < 32" "rs1 < 32" "rs2 < 32"
  shows "\<exists>a b t. rd_of rs1 s = Inr a \<and> rd_of rs2 s = Inr b \<and> wr rd (f a b) s = Inr t \<and> wf t \<and>
    (\<forall>j < 32. rd_of j t = (if j = rd \<and> writable rd then Inr (f a b) else rd_of j s))"
proof -
  obtain a b where ab: "rd_of rs1 s = Inr a" "rd_of rs2 s = Inr b"
    using read_ok assms by meson
  obtain t where "wr rd (f a b) s = Inr t" "wf t"
    using write_ok assms by meson
  with ab show ?thesis using read_write [OF assms(1,2)] by metis
qed

end

section \<open>The integer registers\<close>

record IntRegFile =
  intreg_m_Entries :: "u64 list"

definition IntRegFile_new :: IntRegFile where
  "IntRegFile_new = \<lparr>intreg_m_Entries = replicate (nat IntRegCount) 0\<rparr>"

definition IntRegFile_entry :: "i32 \<Rightarrow> IntRegFile \<Rightarrow> u64 result" where
  "IntRegFile_entry regId f =
     (if sint regId < 0 \<or> IntRegCount < sint regId then Inl EmuException
      else array_get (intreg_m_Entries f) (sint regId))"

definition IntRegFile_ReadUInt32 :: "i32 \<Rightarrow> IntRegFile \<Rightarrow> u32 result" where
  "IntRegFile_ReadUInt32 regId f = map_sum id ucast (IntRegFile_entry regId f)"

definition IntRegFile_ReadUInt64 :: "i32 \<Rightarrow> IntRegFile \<Rightarrow> u64 result" where
  "IntRegFile_ReadUInt64 regId f = IntRegFile_entry regId f"

definition IntRegFile_ReadInt32 :: "i32 \<Rightarrow> IntRegFile \<Rightarrow> i32 result" where
  "IntRegFile_ReadInt32 regId f = IntRegFile_ReadUInt32 regId f"

definition IntRegFile_ReadInt64 :: "i32 \<Rightarrow> IntRegFile \<Rightarrow> i64 result" where
  "IntRegFile_ReadInt64 regId f = IntRegFile_ReadUInt64 regId f"

text \<open>Storing the 32-bit member leaves the upper half of the entry as it was.\<close>

definition entry_set_low :: "u32 \<Rightarrow> u64 \<Rightarrow> u64" where
  "entry_set_low value e = push_bit 32 (drop_bit 32 e) OR ucast value"

definition IntRegFile_update :: "i32 \<Rightarrow> (u64 \<Rightarrow> u64) \<Rightarrow> IntRegFile \<Rightarrow> IntRegFile result" where
  "IntRegFile_update regId g f =
     (if sint regId < 0 \<or> IntRegCount < sint regId then Inl EmuException
      else if regId \<noteq> 0
      then case array_get (intreg_m_Entries f) (sint regId) of
          Inl e \<Rightarrow> Inl e
        | Inr old \<Rightarrow> map_sum id (\<lambda>es. f\<lparr>intreg_m_Entries := es\<rparr>)
            (array_set (intreg_m_Entries f) (sint regId) (g old))
      else Inr f)"

definition IntRegFile_WriteUInt32 :: "i32 \<Rightarrow> u32 \<Rightarrow> IntRegFile \<Rightarrow> IntRegFile result" where
  "IntRegFile_WriteUInt32 regId value = IntRegFile_update regId (entry_set_low value)"

definition IntRegFile_WriteUInt64 :: "i32 \<Rightarrow> u64 \<Rightarrow> IntRegFile \<Rightarrow> IntRegFile result" where
  "IntRegFile_WriteUInt64 regId value = IntRegFile_update regId (\<lambda>_. value)"

definition IntRegFile_WriteInt32 :: "i32 \<Rightarrow> i32 \<Rightarrow> IntRegFile \<Rightarrow> IntRegFile result" where
  "IntRegFile_WriteInt32 regId value = IntRegFile_WriteUInt32 regId value"

definition IntRegFile_WriteInt64 :: "i32 \<Rightarrow> i64 \<Rightarrow> IntRegFile \<Rightarrow> IntRegFile result" where
  "IntRegFile_WriteInt64 regId value = IntRegFile_WriteUInt64 regId value"

section \<open>The floating-point registers\<close>

text \<open>A \<open>float\<close> and a \<open>double\<close> are their bits. A 32-bit write fills the upper half with ones.\<close>

record FpRegFile =
  fpreg_m_Entries :: "u64 list"

definition FpRegFile_new :: FpRegFile where
  "FpRegFile_new = \<lparr>fpreg_m_Entries = replicate (nat FpRegCount) 0\<rparr>"

definition FpRegFile_ReadUInt64 :: "i32 \<Rightarrow> FpRegFile \<Rightarrow> u64 result" where
  "FpRegFile_ReadUInt64 regId f =
     (if sint regId < 0 \<or> FpRegCount < sint regId then Inl EmuException
      else array_get (fpreg_m_Entries f) (sint regId))"

definition FpRegFile_ReadUInt32 :: "i32 \<Rightarrow> FpRegFile \<Rightarrow> u32 result" where
  "FpRegFile_ReadUInt32 regId f = map_sum id ucast (FpRegFile_ReadUInt64 regId f)"

definition FpRegFile_WriteUInt64 :: "i32 \<Rightarrow> u64 \<Rightarrow> FpRegFile \<Rightarrow> FpRegFile result" where
  "FpRegFile_WriteUInt64 regId value f =
     (if sint regId < 0 \<or> FpRegCount < sint regId then Inl EmuException
      else map_sum id (\<lambda>es. f\<lparr>fpreg_m_Entries := es\<rparr>)
        (array_set (fpreg_m_Entries f) (sint regId) value))"

definition FpRegFile_WriteUInt32 :: "i32 \<Rightarrow> u32 \<Rightarrow> FpRegFile \<Rightarrow> FpRegFile result" where
  "FpRegFile_WriteUInt32 regId value f =
     FpRegFile_WriteUInt64 regId (push_bit 32 (ucast (0xffffffff :: u32)) OR ucast value) f"

definition FpRegFile_ReadFloat :: "i32 \<Rightarrow> FpRegFile \<Rightarrow> u32 result" where
  "FpRegFile_ReadFloat regId f = FpRegFile_ReadUInt32 regId f"

definition FpRegFile_ReadDouble :: "i32 \<Rightarrow> FpRegFile \<Rightarrow> u64 result" where
  "FpRegFile_ReadDouble regId f = FpRegFile_ReadUInt64 regId f"

definition FpRegFile_WriteFloat :: "i32 \<Rightarrow> u32 \<Rightarrow> FpRegFile \<Rightarrow> FpRegFile result" where
  "FpRegFile_WriteFloat regId value f = FpRegFile_WriteUInt32 regId value f"

definition FpRegFile_WriteDouble :: "i32 \<Rightarrow> u64 \<Rightarrow> FpRegFile \<Rightarrow> FpRegFile result" where
  "FpRegFile_WriteDouble regId value f = FpRegFile_WriteUInt64 regId value f"

section \<open>The reservation\<close>

record AtomicManager =
  atomic_m_Address :: vaddr_t
  atomic_m_Reserved :: bool

definition AtomicManager_new :: AtomicManager where
  "AtomicManager_new = \<lparr>atomic_m_Address = 0, atomic_m_Reserved = False\<rparr>"

definition AtomicManager_IsReserved :: "AtomicManager \<Rightarrow> bool" where
  "AtomicManager_IsReserved a = atomic_m_Reserved a"

definition AtomicManager_GetReservedAddress :: "AtomicManager \<Rightarrow> vaddr_t" where
  "AtomicManager_GetReservedAddress a = atomic_m_Address a"

definition AtomicManager_Reserve :: "vaddr_t \<Rightarrow> AtomicManager \<Rightarrow> AtomicManager" where
  "AtomicManager_Reserve addr a = a\<lparr>atomic_m_Address := addr, atomic_m_Reserved := True\<rparr>"

definition AtomicManager_Cancel :: "AtomicManager \<Rightarrow> AtomicManager" where
  "AtomicManager_Cancel a = a\<lparr>atomic_m_Reserved := False\<rparr>"

section \<open>The register files satisfy the contract\<close>

definition intreg_wf :: "IntRegFile \<Rightarrow> bool" where
  "intreg_wf f \<longleftrightarrow> length (intreg_m_Entries f) = 32 \<and> intreg_m_Entries f ! 0 = 0"

definition fpreg_wf :: "FpRegFile \<Rightarrow> bool" where
  "fpreg_wf f \<longleftrightarrow> length (fpreg_m_Entries f) = 32"

lemma small_reg:
  fixes i :: i32
  assumes "i < 32"
  shows "sint i = int (unat i)" "unat i < 32" "nat (sint i) = unat i"
proof -
  show u: "unat i < 32" using assms by (simp add: word_less_nat_alt)
  then have "int (unat i) < 32" by linarith
  then have "uint i < 2 ^ 31" by simp
  then have "signed_take_bit 31 (uint i) = uint i"
    by (intro signed_take_bit_int_eq_self) (simp_all add: order_trans [of _ 0])
  then show s: "sint i = int (unat i)" by (simp add: sint_uint)
  show "nat (sint i) = unat i" unfolding s by simp
qed

lemma in_range:
  assumes "(i :: i32) < 32"
  shows "\<not> sint i < 0" "\<not> 32 < sint i" "0 \<le> sint i" "sint i < 32"
  using small_reg [OF assms] by linarith+

lemma IntRegFile_entry_ok:
  "i < 32 \<Longrightarrow> intreg_wf f \<Longrightarrow> IntRegFile_entry i f = Inr (intreg_m_Entries f ! unat i)"
  using in_range [of i] small_reg [of i]
  by (simp add: IntRegFile_entry_def IntRegCount_def array_get_def intreg_wf_def del: sint_0)

lemma IntRegFile_update_ok:
  "i < 32 \<Longrightarrow> intreg_wf f \<Longrightarrow> IntRegFile_update i g f =
     Inr (if i = 0 then f
          else f\<lparr>intreg_m_Entries := (intreg_m_Entries f)[unat i := g (intreg_m_Entries f ! unat i)]\<rparr>)"
  using in_range [of i] small_reg [of i]
  by (simp add: IntRegFile_update_def IntRegCount_def array_get_def array_set_def intreg_wf_def
      del: sint_0)

lemma intreg_wf_update:
  "i < 32 \<Longrightarrow> intreg_wf f \<Longrightarrow> i \<noteq> 0 \<Longrightarrow> intreg_wf (f\<lparr>intreg_m_Entries := (intreg_m_Entries f)[unat i := v]\<rparr>)"
  by (cases "unat i") (auto simp: intreg_wf_def unat_eq_0)

lemma entry_set_low_ucast: "ucast (entry_set_low v e) = v"
  by (rule bit_word_eqI) (auto simp: entry_set_low_def bit_simps)

lemma nth_update_reg:
  fixes i j :: i32
  shows "i < 32 \<Longrightarrow> intreg_wf f \<Longrightarrow> j < 32 \<Longrightarrow>
   (intreg_m_Entries f)[unat i := v] ! unat j = (if j = i then v else intreg_m_Entries f ! unat j)"
  using small_reg(2) [of i] by (auto simp: intreg_wf_def nth_list_update word_unat_eq_iff [of j i])

lemmas intreg_simps = IntRegFile_ReadUInt64_def IntRegFile_WriteUInt64_def
  IntRegFile_ReadUInt32_def IntRegFile_WriteUInt32_def IntRegFile_entry_ok IntRegFile_update_ok
  intreg_wf_update nth_update_reg entry_set_low_ucast

interpretation int64: register_file intreg_wf IntRegFile_ReadUInt64 IntRegFile_WriteUInt64
  "\<lambda>i. i \<noteq> 0"
  by unfold_locales (auto simp: intreg_simps)

interpretation int32: register_file intreg_wf IntRegFile_ReadUInt32 IntRegFile_WriteUInt32
  "\<lambda>i. i \<noteq> 0"
  by unfold_locales (auto simp: intreg_simps)

lemma FpRegFile_ok:
  assumes "i < 32" "fpreg_wf f"
  shows "FpRegFile_ReadUInt64 i f = Inr (fpreg_m_Entries f ! unat i)"
    and "FpRegFile_WriteUInt64 i v f =
      Inr (f\<lparr>fpreg_m_Entries := (fpreg_m_Entries f)[unat i := v]\<rparr>)"
  using assms in_range [of i] small_reg [of i]
  by (simp_all add: FpRegFile_ReadUInt64_def FpRegFile_WriteUInt64_def FpRegCount_def
      array_get_def array_set_def fpreg_wf_def del: sint_0)

lemma fpreg_nth:
  fixes i j :: i32
  shows "i < 32 \<Longrightarrow> fpreg_wf f \<Longrightarrow> j < 32 \<Longrightarrow>
   (fpreg_m_Entries f)[unat i := v] ! unat j = (if j = i then v else fpreg_m_Entries f ! unat j)"
  using small_reg(2) [of i] by (auto simp: fpreg_wf_def nth_list_update word_unat_eq_iff [of j i])

lemma box_unbox: "ucast (push_bit 32 m OR ucast v :: u64) = v" for v :: u32
  by (rule bit_word_eqI) (simp add: bit_simps)

lemma fpreg_wf_update [simp]:
  "fpreg_wf (f\<lparr>fpreg_m_Entries := (fpreg_m_Entries f)[n := v]\<rparr>) = fpreg_wf f"
  by (simp add: fpreg_wf_def)

interpretation fp64: register_file fpreg_wf FpRegFile_ReadUInt64 FpRegFile_WriteUInt64 "\<lambda>_. True"
  by unfold_locales (auto simp: FpRegFile_ok fpreg_nth)

interpretation fp32: register_file fpreg_wf FpRegFile_ReadUInt32 FpRegFile_WriteUInt32 "\<lambda>_. True"
  by unfold_locales
     (auto simp: FpRegFile_ReadUInt32_def FpRegFile_WriteUInt32_def FpRegFile_ok fpreg_nth
       box_unbox [of "ucast (0xffffffff :: u32)", simplified])

subsection \<open>The hard-wired zero\<close>

text \<open>A register file whose register 0 always reads one value.\<close>

locale zero_register_file = register_file +
  fixes zero :: 'v
  assumes read_zero: "wf s \<Longrightarrow> rd_of 0 s = Inr zero"
    and zero_fixed: "\<not> writable 0"
begin

lemma zero_after_write: "wf s \<Longrightarrow> i < 32 \<Longrightarrow> wr i v s = Inr t \<Longrightarrow> rd_of 0 t = Inr zero"
  using write_ok [of s i v] read_zero by auto

end

interpretation int64z: zero_register_file intreg_wf IntRegFile_ReadUInt64 IntRegFile_WriteUInt64
  "\<lambda>i. i \<noteq> 0" 0
  by unfold_locales (auto simp: IntRegFile_ReadUInt64_def IntRegFile_entry_ok, simp add: intreg_wf_def)

interpretation int32z: zero_register_file intreg_wf IntRegFile_ReadUInt32 IntRegFile_WriteUInt32
  "\<lambda>i. i \<noteq> 0" 0
  by unfold_locales (auto simp: IntRegFile_ReadUInt32_def IntRegFile_entry_ok, simp add: intreg_wf_def)

lemma intreg_wf_new: "intreg_wf IntRegFile_new"
  by (simp add: intreg_wf_def IntRegFile_new_def IntRegCount_def)

lemma fpreg_wf_new: "fpreg_wf FpRegFile_new"
  by (simp add: fpreg_wf_def FpRegFile_new_def FpRegCount_def)

text \<open>
  The integer register file on both widths. Reading two registers, computing and
  writing the result to a third returns for all register numbers below 32; afterwards the destination
  reads the result unless it is \<open>x0\<close>, every other register is as before, and \<open>x0\<close> reads 0.
\<close>

theorem intreg_operation:
  assumes "intreg_wf s" "rd < 32" "rs1 < 32" "rs2 < 32"
  shows "\<exists>a b t. IntRegFile_ReadUInt64 rs1 s = Inr a \<and> IntRegFile_ReadUInt64 rs2 s = Inr b \<and>
    IntRegFile_WriteUInt64 rd (f a b) s = Inr t \<and> intreg_wf t \<and>
    (\<forall>j < 32. IntRegFile_ReadUInt64 j t =
      (if j = rd \<and> rd \<noteq> 0 then Inr (f a b) else IntRegFile_ReadUInt64 j s)) \<and>
    IntRegFile_ReadUInt64 0 t = Inr 0"
  using int64.binary_operation [OF assms, of f] int64z.read_zero by blast

theorem intreg_operation_witness:
  "\<exists>t. IntRegFile_WriteUInt64 5 7 IntRegFile_new = Inr t \<and> IntRegFile_ReadUInt64 0 t = Inr 0"
  using intreg_operation [OF intreg_wf_new, of 5 1 2 "\<lambda>a b. 7"] by auto

end
