(* ===== verification/Rafi_Trap.thy ===== *)
theory Rafi_Trap
  imports Rafi_Types
begin

text \<open>
  \<^verbatim>\<open>src/rafi-emu/cpu/Trap.h\<close> and \<^verbatim>\<open>Trap.cpp\<close>: the value a routine returns instead of
  throwing when the guest program causes an exception, and its constructors.
  \<open>std::optional<Trap>\<close> is \<^typ>\<open>'a option\<close>.
\<close>

record Trap =
  trap_type :: ExceptionType
  trap_pc :: vaddr_t
  trap_trapValue :: u64

definition mk_Trap :: "ExceptionType \<Rightarrow> vaddr_t \<Rightarrow> u64 \<Rightarrow> Trap" where
  "mk_Trap t pc v = \<lparr>trap_type = t, trap_pc = pc, trap_trapValue = v\<rparr>"

definition MakeInstructionAddressMisalignedException :: "vaddr_t \<Rightarrow> Trap" where
  "MakeInstructionAddressMisalignedException pc = mk_Trap InstructionAddressMisaligned pc pc"

definition MakeInstructionAccessFaultException :: "vaddr_t \<Rightarrow> Trap" where
  "MakeInstructionAccessFaultException pc = mk_Trap InstructionAccessFault pc pc"

definition MakeIllegalInstructionException :: "vaddr_t \<Rightarrow> u32 \<Rightarrow> Trap" where
  "MakeIllegalInstructionException pc insn = mk_Trap IllegalInstruction pc (ucast insn)"

definition MakeBreakpointException :: "vaddr_t \<Rightarrow> Trap" where
  "MakeBreakpointException pc = mk_Trap Breakpoint pc pc"

definition MakeLoadAddressMisalignedException :: "vaddr_t \<Rightarrow> vaddr_t \<Rightarrow> Trap" where
  "MakeLoadAddressMisalignedException pc address = mk_Trap LoadAddressMisaligned pc address"

definition MakeLoadAccessFaultException :: "vaddr_t \<Rightarrow> vaddr_t \<Rightarrow> Trap" where
  "MakeLoadAccessFaultException pc address = mk_Trap LoadAccessFault pc address"

definition MakeStoreAccessFaultException :: "vaddr_t \<Rightarrow> vaddr_t \<Rightarrow> Trap" where
  "MakeStoreAccessFaultException pc address = mk_Trap StoreAccessFault pc address"

definition MakeEnvironmentCallFromUserException :: "vaddr_t \<Rightarrow> Trap" where
  "MakeEnvironmentCallFromUserException pc = mk_Trap EnvironmentCallFromUser pc pc"

definition MakeEnvironmentCallFromSupervisorException :: "vaddr_t \<Rightarrow> Trap" where
  "MakeEnvironmentCallFromSupervisorException pc = mk_Trap EnvironmentCallFromSupervisor pc pc"

definition MakeEnvironmentCallFromMachineException :: "vaddr_t \<Rightarrow> Trap" where
  "MakeEnvironmentCallFromMachineException pc = mk_Trap EnvironmentCallFromMachine pc pc"

definition MakeInstructionPageFaultException :: "vaddr_t \<Rightarrow> vaddr_t \<Rightarrow> Trap" where
  "MakeInstructionPageFaultException pc address = mk_Trap InstructionPageFault pc address"

definition MakeLoadPageFaultException :: "vaddr_t \<Rightarrow> vaddr_t \<Rightarrow> Trap" where
  "MakeLoadPageFaultException pc address = mk_Trap LoadPageFault pc address"

definition MakeStorePageFaultException :: "vaddr_t \<Rightarrow> vaddr_t \<Rightarrow> Trap" where
  "MakeStorePageFaultException pc address = mk_Trap StorePageFault pc address"

text \<open>
  \<open>RAFI_RETURN_IF_TRAP\<close>: the trap of the first check is the answer, otherwise the next
  check runs.
\<close>

definition return_if_trap :: "('s, Trap option) act \<Rightarrow> ('s, Trap option) act \<Rightarrow> ('s, Trap option) act"
where
  "return_if_trap m n = bindM m (\<lambda>t. case t of None \<Rightarrow> n | Some _ \<Rightarrow> returnM t)"

lemma preserves_return_if_trap [preserves_intros]:
  "preserves I m \<Longrightarrow> preserves I n \<Longrightarrow> preserves I (return_if_trap m n)"
  unfolding return_if_trap_def by (intro preserves_intros)

lemma return_if_trap_None:
  "return_if_trap m n s = Inr (None, u) \<longleftrightarrow>
     (\<exists>t. m s = Inr (None, t) \<and> n t = Inr (None, u))"
  by (auto simp: return_if_trap_def bindM_eq_Inr returnM_def split: option.splits)

end
