(* ===== verification/Rafi_Csr.thy ===== *)
theory Rafi_Csr
  imports Rafi_Trap
begin

text \<open>
  The control and status registers: the addresses and bit fields of
  \<^verbatim>\<open>include/rafi/common/RvCsr.h\<close>, and the register file of
  \<^verbatim>\<open>src/rafi-emu/cpu/Csr.h\<close> and \<^verbatim>\<open>Csr.cpp\<close>. A \<open>BitField\<close> object is its value. The message of
  \<open>PrintRegisterUnimplementedMessage\<close> is output and not modelled.
\<close>

section \<open>Addresses\<close>

definition CSR_ustatus :: csr_addr_t where [simp]: "CSR_ustatus = 0x000"
definition CSR_uie :: csr_addr_t where [simp]: "CSR_uie = 0x004"
definition CSR_utvec :: csr_addr_t where [simp]: "CSR_utvec = 0x005"
definition CSR_uscratch :: csr_addr_t where [simp]: "CSR_uscratch = 0x040"
definition CSR_uepc :: csr_addr_t where [simp]: "CSR_uepc = 0x041"
definition CSR_ucause :: csr_addr_t where [simp]: "CSR_ucause = 0x042"
definition CSR_utval :: csr_addr_t where [simp]: "CSR_utval = 0x043"
definition CSR_uip :: csr_addr_t where [simp]: "CSR_uip = 0x044"
definition CSR_fflags :: csr_addr_t where [simp]: "CSR_fflags = 0x001"
definition CSR_frm :: csr_addr_t where [simp]: "CSR_frm = 0x002"
definition CSR_fcsr :: csr_addr_t where [simp]: "CSR_fcsr = 0x003"
definition CSR_sstatus :: csr_addr_t where [simp]: "CSR_sstatus = 0x100"
definition CSR_sedeleg :: csr_addr_t where [simp]: "CSR_sedeleg = 0x102"
definition CSR_sideleg :: csr_addr_t where [simp]: "CSR_sideleg = 0x103"
definition CSR_sie :: csr_addr_t where [simp]: "CSR_sie = 0x104"
definition CSR_stvec :: csr_addr_t where [simp]: "CSR_stvec = 0x105"
definition CSR_scounteren :: csr_addr_t where [simp]: "CSR_scounteren = 0x106"
definition CSR_sscratch :: csr_addr_t where [simp]: "CSR_sscratch = 0x140"
definition CSR_sepc :: csr_addr_t where [simp]: "CSR_sepc = 0x141"
definition CSR_scause :: csr_addr_t where [simp]: "CSR_scause = 0x142"
definition CSR_stval :: csr_addr_t where [simp]: "CSR_stval = 0x143"
definition CSR_sip :: csr_addr_t where [simp]: "CSR_sip = 0x144"
definition CSR_satp :: csr_addr_t where [simp]: "CSR_satp = 0x180"
definition CSR_mstatus :: csr_addr_t where [simp]: "CSR_mstatus = 0x300"
definition CSR_misa :: csr_addr_t where [simp]: "CSR_misa = 0x301"
definition CSR_medeleg :: csr_addr_t where [simp]: "CSR_medeleg = 0x302"
definition CSR_mideleg :: csr_addr_t where [simp]: "CSR_mideleg = 0x303"
definition CSR_mie :: csr_addr_t where [simp]: "CSR_mie = 0x304"
definition CSR_mtvec :: csr_addr_t where [simp]: "CSR_mtvec = 0x305"
definition CSR_mcounteren :: csr_addr_t where [simp]: "CSR_mcounteren = 0x306"
definition CSR_mscratch :: csr_addr_t where [simp]: "CSR_mscratch = 0x340"
definition CSR_mepc :: csr_addr_t where [simp]: "CSR_mepc = 0x341"
definition CSR_mcause :: csr_addr_t where [simp]: "CSR_mcause = 0x342"
definition CSR_mtval :: csr_addr_t where [simp]: "CSR_mtval = 0x343"
definition CSR_mip :: csr_addr_t where [simp]: "CSR_mip = 0x344"
definition CSR_pmpcfg0 :: csr_addr_t where [simp]: "CSR_pmpcfg0 = 0x3a0"
definition CSR_pmpcfg1 :: csr_addr_t where [simp]: "CSR_pmpcfg1 = 0x3a1"
definition CSR_pmpcfg2 :: csr_addr_t where [simp]: "CSR_pmpcfg2 = 0x3a2"
definition CSR_pmpcfg3 :: csr_addr_t where [simp]: "CSR_pmpcfg3 = 0x3a3"
definition CSR_pmpaddr_begin :: csr_addr_t where [simp]: "CSR_pmpaddr_begin = 0x3b0"
definition CSR_pmpaddr_end :: csr_addr_t where [simp]: "CSR_pmpaddr_end = 0x3c0"
definition CSR_mhpmcounter_begin :: csr_addr_t where [simp]: "CSR_mhpmcounter_begin = 0xb00"
definition CSR_mcycle :: csr_addr_t where [simp]: "CSR_mcycle = 0xb00"
definition CSR_minstret :: csr_addr_t where [simp]: "CSR_minstret = 0xb02"
definition CSR_mhpmcounter_end :: csr_addr_t where [simp]: "CSR_mhpmcounter_end = 0xb20"
definition CSR_mhpmcounterh_begin :: csr_addr_t where [simp]: "CSR_mhpmcounterh_begin = 0xb80"
definition CSR_mcycleh :: csr_addr_t where [simp]: "CSR_mcycleh = 0xb80"
definition CSR_minstreth :: csr_addr_t where [simp]: "CSR_minstreth = 0xb82"
definition CSR_mhpmcounterh_end :: csr_addr_t where [simp]: "CSR_mhpmcounterh_end = 0xba0"
definition CSR_hpmcounter_begin :: csr_addr_t where [simp]: "CSR_hpmcounter_begin = 0xc00"
definition CSR_cycle :: csr_addr_t where [simp]: "CSR_cycle = 0xc00"
definition CSR_time :: csr_addr_t where [simp]: "CSR_time = 0xc01"
definition CSR_instret :: csr_addr_t where [simp]: "CSR_instret = 0xc02"
definition CSR_hpmcounter_end :: csr_addr_t where [simp]: "CSR_hpmcounter_end = 0xc20"
definition CSR_hpmcounterh_begin :: csr_addr_t where [simp]: "CSR_hpmcounterh_begin = 0xc80"
definition CSR_cycleh :: csr_addr_t where [simp]: "CSR_cycleh = 0xc80"
definition CSR_timeh :: csr_addr_t where [simp]: "CSR_timeh = 0xc81"
definition CSR_instreth :: csr_addr_t where [simp]: "CSR_instreth = 0xc82"
definition CSR_hpmcounterh_end :: csr_addr_t where [simp]: "CSR_hpmcounterh_end = 0xca0"
definition CSR_mvendorid :: csr_addr_t where [simp]: "CSR_mvendorid = 0xf11"
definition CSR_marchid :: csr_addr_t where [simp]: "CSR_marchid = 0xf12"
definition CSR_mimpid :: csr_addr_t where [simp]: "CSR_mimpid = 0xf13"
definition CSR_mhartid :: csr_addr_t where [simp]: "CSR_mhartid = 0xf14"

section \<open>Bit fields and masks\<close>

definition misa_A :: bit_member where [simp]: "misa_A = (0, 0)"
definition misa_C :: bit_member where [simp]: "misa_C = (2, 2)"
definition misa_D :: bit_member where [simp]: "misa_D = (3, 3)"
definition misa_F :: bit_member where [simp]: "misa_F = (5, 5)"
definition misa_I :: bit_member where [simp]: "misa_I = (8, 8)"
definition misa_M :: bit_member where [simp]: "misa_M = (12, 12)"
definition misa_S :: bit_member where [simp]: "misa_S = (18, 18)"
definition misa_U :: bit_member where [simp]: "misa_U = (20, 20)"
definition misa_MXL_RV32 :: bit_member where [simp]: "misa_MXL_RV32 = (31, 30)"
definition misa_MXL_RV64 :: bit_member where [simp]: "misa_MXL_RV64 = (63, 62)"
definition fcsr_RM :: bit_member where [simp]: "fcsr_RM = (7, 5)"
definition fcsr_AE :: bit_member where [simp]: "fcsr_AE = (4, 0)"
definition fcsr_NV :: bit_member where [simp]: "fcsr_NV = (4, 4)"
definition fcsr_DZ :: bit_member where [simp]: "fcsr_DZ = (3, 3)"
definition fcsr_OF :: bit_member where [simp]: "fcsr_OF = (2, 2)"
definition fcsr_UF :: bit_member where [simp]: "fcsr_UF = (1, 1)"
definition fcsr_NX :: bit_member where [simp]: "fcsr_NX = (0, 0)"
definition fcsr_UserMask :: u32 where
  "fcsr_UserMask =
     Member_Mask fcsr_RM OR Member_Mask fcsr_AE"
definition xstatus_SD_RV64 :: bit_member where [simp]: "xstatus_SD_RV64 = (63, 63)"
definition xstatus_SXL :: bit_member where [simp]: "xstatus_SXL = (35, 34)"
definition xstatus_UXL :: bit_member where [simp]: "xstatus_UXL = (33, 32)"
definition xstatus_SD_RV32 :: bit_member where [simp]: "xstatus_SD_RV32 = (31, 31)"
definition xstatus_TSR :: bit_member where [simp]: "xstatus_TSR = (22, 22)"
definition xstatus_TW :: bit_member where [simp]: "xstatus_TW = (21, 21)"
definition xstatus_TVM :: bit_member where [simp]: "xstatus_TVM = (20, 20)"
definition xstatus_MXR :: bit_member where [simp]: "xstatus_MXR = (19, 19)"
definition xstatus_SUM :: bit_member where [simp]: "xstatus_SUM = (18, 18)"
definition xstatus_MPRV :: bit_member where [simp]: "xstatus_MPRV = (17, 17)"
definition xstatus_XS :: bit_member where [simp]: "xstatus_XS = (16, 15)"
definition xstatus_FS :: bit_member where [simp]: "xstatus_FS = (14, 13)"
definition xstatus_MPP :: bit_member where [simp]: "xstatus_MPP = (12, 11)"
definition xstatus_SPP :: bit_member where [simp]: "xstatus_SPP = (8, 8)"
definition xstatus_MPIE :: bit_member where [simp]: "xstatus_MPIE = (7, 7)"
definition xstatus_SPIE :: bit_member where [simp]: "xstatus_SPIE = (5, 5)"
definition xstatus_UPIE :: bit_member where [simp]: "xstatus_UPIE = (4, 4)"
definition xstatus_MIE :: bit_member where [simp]: "xstatus_MIE = (3, 3)"
definition xstatus_SIE :: bit_member where [simp]: "xstatus_SIE = (1, 1)"
definition xstatus_UIE :: bit_member where [simp]: "xstatus_UIE = (0, 0)"
definition xstatus_WriteMask :: u64 where
  "xstatus_WriteMask =
     Member_Mask xstatus_TSR OR Member_Mask xstatus_TW OR Member_Mask xstatus_TVM OR
     Member_Mask xstatus_MXR OR Member_Mask xstatus_SUM OR Member_Mask xstatus_MPRV OR
     Member_Mask xstatus_XS OR Member_Mask xstatus_FS OR Member_Mask xstatus_MPP OR
     Member_Mask xstatus_SPP OR Member_Mask xstatus_MPIE OR Member_Mask xstatus_SPIE OR
     Member_Mask xstatus_UPIE OR Member_Mask xstatus_MIE OR Member_Mask xstatus_SIE OR
     Member_Mask xstatus_UIE"
definition xstatus_SupervisorMask_RV64 :: u64 where
  "xstatus_SupervisorMask_RV64 =
     Member_Mask xstatus_SD_RV64 OR Member_Mask xstatus_SXL OR Member_Mask xstatus_UXL OR
     Member_Mask xstatus_MXR OR Member_Mask xstatus_SUM OR Member_Mask xstatus_XS OR
     Member_Mask xstatus_FS OR Member_Mask xstatus_SPP OR Member_Mask xstatus_SPIE OR
     Member_Mask xstatus_UPIE OR Member_Mask xstatus_SIE OR Member_Mask xstatus_UIE"
definition xstatus_SupervisorMask_RV32 :: u64 where
  "xstatus_SupervisorMask_RV32 =
     Member_Mask xstatus_SD_RV32 OR Member_Mask xstatus_MXR OR Member_Mask xstatus_SUM OR
     Member_Mask xstatus_XS OR Member_Mask xstatus_FS OR Member_Mask xstatus_SPP OR
     Member_Mask xstatus_SPIE OR Member_Mask xstatus_UPIE OR Member_Mask xstatus_SIE OR
     Member_Mask xstatus_UIE"
definition xstatus_UserMask :: u64 where
  "xstatus_UserMask =
     Member_Mask xstatus_UPIE OR Member_Mask xstatus_UIE"
definition xtvec_BASE_RV32 :: bit_member where [simp]: "xtvec_BASE_RV32 = (31, 2)"
definition xtvec_BASE_RV64 :: bit_member where [simp]: "xtvec_BASE_RV64 = (63, 2)"
definition xtvec_MODE :: bit_member where [simp]: "xtvec_MODE = (1, 0)"
definition xip_MEIP :: bit_member where [simp]: "xip_MEIP = (11, 11)"
definition xip_SEIP :: bit_member where [simp]: "xip_SEIP = (9, 9)"
definition xip_UEIP :: bit_member where [simp]: "xip_UEIP = (8, 8)"
definition xip_MTIP :: bit_member where [simp]: "xip_MTIP = (7, 7)"
definition xip_STIP :: bit_member where [simp]: "xip_STIP = (5, 5)"
definition xip_UTIP :: bit_member where [simp]: "xip_UTIP = (4, 4)"
definition xip_MSIP :: bit_member where [simp]: "xip_MSIP = (3, 3)"
definition xip_SSIP :: bit_member where [simp]: "xip_SSIP = (1, 1)"
definition xip_USIP :: bit_member where [simp]: "xip_USIP = (0, 0)"
definition xip_WriteMask :: u64 where
  "xip_WriteMask =
     Member_Mask xip_MEIP OR Member_Mask xip_SEIP OR Member_Mask xip_UEIP OR
     Member_Mask xip_MSIP OR Member_Mask xip_SSIP OR Member_Mask xip_USIP"
definition xip_UserMask :: u64 where
  "xip_UserMask =
     Member_Mask xip_UEIP OR Member_Mask xip_UTIP OR Member_Mask xip_USIP"
definition xip_SupervisorMask :: u64 where
  "xip_SupervisorMask =
     Member_Mask xip_SEIP OR Member_Mask xip_STIP OR Member_Mask xip_SSIP OR xip_UserMask"
definition xip_MachineMask :: u64 where
  "xip_MachineMask =
     Member_Mask xip_MEIP OR Member_Mask xip_MTIP OR Member_Mask xip_MSIP OR
     xip_SupervisorMask"
definition xie_MEIE :: bit_member where [simp]: "xie_MEIE = (11, 11)"
definition xie_SEIE :: bit_member where [simp]: "xie_SEIE = (9, 9)"
definition xie_UEIE :: bit_member where [simp]: "xie_UEIE = (8, 8)"
definition xie_MTIE :: bit_member where [simp]: "xie_MTIE = (7, 7)"
definition xie_STIE :: bit_member where [simp]: "xie_STIE = (5, 5)"
definition xie_UTIE :: bit_member where [simp]: "xie_UTIE = (4, 4)"
definition xie_MSIE :: bit_member where [simp]: "xie_MSIE = (3, 3)"
definition xie_SSIE :: bit_member where [simp]: "xie_SSIE = (1, 1)"
definition xie_USIE :: bit_member where [simp]: "xie_USIE = (0, 0)"
definition xie_WriteMask :: u64 where
  "xie_WriteMask =
     Member_Mask xie_MEIE OR Member_Mask xie_SEIE OR Member_Mask xie_UEIE OR
     Member_Mask xie_MSIE OR Member_Mask xie_SSIE OR Member_Mask xie_USIE"
definition xie_UserMask :: u64 where
  "xie_UserMask =
     Member_Mask xie_UEIE OR Member_Mask xie_UTIE OR Member_Mask xie_USIE"
definition xie_SupervisorMask :: u64 where
  "xie_SupervisorMask =
     Member_Mask xie_SEIE OR Member_Mask xie_STIE OR Member_Mask xie_SSIE OR xie_UserMask"
definition xie_MachineMask :: u64 where
  "xie_MachineMask =
     Member_Mask xie_MEIE OR Member_Mask xie_MTIE OR Member_Mask xie_MSIE OR
     xie_SupervisorMask"
definition satp_MODE_RV64 :: bit_member where [simp]: "satp_MODE_RV64 = (63, 60)"
definition satp_ASID_RV64 :: bit_member where [simp]: "satp_ASID_RV64 = (59, 44)"
definition satp_PPN_RV64 :: bit_member where [simp]: "satp_PPN_RV64 = (43, 0)"
definition satp_MODE_RV32 :: bit_member where [simp]: "satp_MODE_RV32 = (31, 31)"
definition satp_ASID_RV32 :: bit_member where [simp]: "satp_ASID_RV32 = (30, 22)"
definition satp_PPN_RV32 :: bit_member where [simp]: "satp_PPN_RV32 = (21, 0)"

lemmas csr_mask_defs = fcsr_UserMask_def xstatus_WriteMask_def xstatus_SupervisorMask_RV64_def
  xstatus_SupervisorMask_RV32_def xstatus_UserMask_def xip_WriteMask_def xip_UserMask_def
  xip_SupervisorMask_def xip_MachineMask_def xie_WriteMask_def xie_UserMask_def
  xie_SupervisorMask_def xie_MachineMask_def

text \<open>The constructor of \<open>xstatus_t\<close> takes a \<open>uint32_t\<close>.\<close>

definition xstatus_of :: "u64 \<Rightarrow> u64" where
  "xstatus_of value = ucast (ucast value :: u32)"

section \<open>The register file\<close>

record Csr =
  csr_m_XLEN :: XLEN
  csr_m_ISA :: u64
  csr_m_FpCsr :: u32
  csr_m_Status :: u64
  csr_m_MachineTrapVector :: u64
  csr_m_SupervisorTrapVector :: u64
  csr_m_UserTrapVector :: u64
  csr_m_MachineExceptionDelegation :: u64
  csr_m_SupervisorExceptionDelegation :: u64
  csr_m_MachineInterruptDelegation :: u64
  csr_m_SupervisorInterruptDelegation :: u64
  csr_m_MachineCounterEnable :: u64
  csr_m_SupervisorCounterEnable :: u64
  csr_m_MachineScratch :: u64
  csr_m_SupervisorScratch :: u64
  csr_m_UserScratch :: u64
  csr_m_MachineExceptionProgramCounter :: vaddr_t
  csr_m_SupervisorExceptionProgramCounter :: vaddr_t
  csr_m_UserExceptionProgramCounter :: vaddr_t
  csr_m_MachineCause :: u64
  csr_m_SupervisorCause :: u64
  csr_m_UserCause :: u64
  csr_m_MachineTrapValue :: u64
  csr_m_SupervisorTrapValue :: u64
  csr_m_UserTrapValue :: u64
  csr_m_InterruptEnable :: u64
  csr_m_InterruptPending :: u64
  csr_m_SupervisorAddressTranslationProtection :: u64
  csr_m_CycleCounter :: u64
  csr_m_TimeCounter :: u64
  csr_m_InstructionRetiredCounter :: u64
  csr_m_ProgramCounter :: vaddr_t
  csr_m_PrivilegeLevel :: PrivilegeLevel

definition Csr_init_ISA :: "XLEN \<Rightarrow> u64 result" where
  "Csr_init_ISA xlen =
     (let isa = SetMember misa_S 1 (SetMember misa_U 1 (SetMember misa_C 1 (SetMember misa_D 1
        (SetMember misa_F 1 (SetMember misa_A 1 (SetMember misa_M 1 (SetMember misa_I 1 0)))))))
      in case xlen of
           XLEN32 \<Rightarrow> Inr (SetMember misa_MXL_RV32 (ucast (XLEN_value XLEN32)) isa)
         | XLEN64 \<Rightarrow> Inr (SetMember misa_MXL_RV64 (ucast (XLEN_value XLEN64)) isa)
         | XLEN128 \<Rightarrow> Inl EmuException)"

definition Csr_new :: "XLEN \<Rightarrow> vaddr_t \<Rightarrow> Csr result" where
  "Csr_new xlen initialPc = map_sum id (\<lambda>isa. \<lparr>csr_m_XLEN = xlen, csr_m_ISA = isa,
      csr_m_FpCsr = 0, csr_m_Status = 0,
      csr_m_MachineTrapVector = 0, csr_m_SupervisorTrapVector = 0,
      csr_m_UserTrapVector = 0, csr_m_MachineExceptionDelegation = 0,
      csr_m_SupervisorExceptionDelegation = 0, csr_m_MachineInterruptDelegation = 0,
      csr_m_SupervisorInterruptDelegation = 0, csr_m_MachineCounterEnable = 0,
      csr_m_SupervisorCounterEnable = 0, csr_m_MachineScratch = 0,
      csr_m_SupervisorScratch = 0, csr_m_UserScratch = 0,
      csr_m_MachineExceptionProgramCounter = 0, csr_m_SupervisorExceptionProgramCounter = 0,
      csr_m_UserExceptionProgramCounter = 0, csr_m_MachineCause = 0,
      csr_m_SupervisorCause = 0, csr_m_UserCause = 0,
      csr_m_MachineTrapValue = 0, csr_m_SupervisorTrapValue = 0,
      csr_m_UserTrapValue = 0, csr_m_InterruptEnable = 0,
      csr_m_InterruptPending = 0, csr_m_SupervisorAddressTranslationProtection = 0,
      csr_m_CycleCounter = 0, csr_m_TimeCounter = 0,
      csr_m_InstructionRetiredCounter = 0, csr_m_ProgramCounter = initialPc,
      csr_m_PrivilegeLevel = Machine\<rparr>)
     (Csr_init_ISA xlen)"

definition Csr_GetProgramCounter :: "Csr \<Rightarrow> vaddr_t" where
  "Csr_GetProgramCounter csr = csr_m_ProgramCounter csr"

definition Csr_SetProgramCounter :: "vaddr_t \<Rightarrow> Csr \<Rightarrow> Csr" where
  "Csr_SetProgramCounter value csr = csr\<lparr>csr_m_ProgramCounter := value\<rparr>"

definition Csr_GetPrivilegeLevel :: "Csr \<Rightarrow> PrivilegeLevel" where
  "Csr_GetPrivilegeLevel csr = csr_m_PrivilegeLevel csr"

definition Csr_SetPrivilegeLevel :: "PrivilegeLevel \<Rightarrow> Csr \<Rightarrow> Csr" where
  "Csr_SetPrivilegeLevel level csr = csr\<lparr>csr_m_PrivilegeLevel := level\<rparr>"

definition Csr_ProcessCycle :: "Csr \<Rightarrow> Csr" where
  "Csr_ProcessCycle csr = csr\<lparr>csr_m_CycleCounter := csr_m_CycleCounter csr + 1,
     csr_m_TimeCounter := csr_m_TimeCounter csr + 1,
     csr_m_InstructionRetiredCounter := csr_m_InstructionRetiredCounter csr + 1\<rparr>"

definition IsUserModeRegister :: "csr_addr_t \<Rightarrow> bool" where
  "IsUserModeRegister addr \<longleftrightarrow> drop_bit 8 addr AND 0b11 = 0b00"

definition IsSupervisorModeRegister :: "csr_addr_t \<Rightarrow> bool" where
  "IsSupervisorModeRegister addr \<longleftrightarrow> drop_bit 8 addr AND 0b11 = 0b01"

definition IsReservedModeRegister :: "csr_addr_t \<Rightarrow> bool" where
  "IsReservedModeRegister addr \<longleftrightarrow> drop_bit 8 addr AND 0b11 = 0b10"

definition IsMachineModeRegister :: "csr_addr_t \<Rightarrow> bool" where
  "IsMachineModeRegister addr \<longleftrightarrow> drop_bit 8 addr AND 0b11 = 0b11"

definition GetPerformanceCounterIndex :: "csr_addr_t \<Rightarrow> i32 result" where
  "GetPerformanceCounterIndex addr =
     (if CSR_mhpmcounter_begin \<le> addr \<and> addr < CSR_mhpmcounter_end
      then Inr (addr - CSR_mhpmcounter_begin)
      else if CSR_mhpmcounterh_begin \<le> addr \<and> addr < CSR_mhpmcounterh_end
      then Inr (addr - CSR_mhpmcounterh_begin)
      else if CSR_hpmcounter_begin \<le> addr \<and> addr < CSR_hpmcounter_end
      then Inr (addr - CSR_hpmcounter_begin)
      else if CSR_hpmcounterh_begin \<le> addr \<and> addr < CSR_hpmcounterh_end
      then Inr (addr - CSR_hpmcounterh_begin)
      else Inl EmuException)"

definition NumberOfRegister :: int where "NumberOfRegister = 2 ^ 12"

text \<open>The counter-enable test; the mask \<open>1 << index\<close> is an \<open>int\<close>, sign-extended for the \<open>&\<close>.\<close>

definition Csr_counter_disabled :: "Csr \<Rightarrow> i32 \<Rightarrow> bool" where
  "Csr_counter_disabled csr index =
     (let mask = scast (push_bit (unat index) 1 :: i32) :: u64 in
      case csr_m_PrivilegeLevel csr of
        Supervisor \<Rightarrow> csr_m_MachineCounterEnable csr AND mask = 0
      | User \<Rightarrow> csr_m_MachineCounterEnable csr AND mask = 0 \<or>
                csr_m_SupervisorCounterEnable csr AND mask = 0
      | _ \<Rightarrow> False)"

definition Csr_CheckTrap ::
  "csr_addr_t \<Rightarrow> bool \<Rightarrow> vaddr_t \<Rightarrow> u32 \<Rightarrow> (Csr, Trap option) act" where
  "Csr_CheckTrap addr write pc insn = (\<lambda>csr.
     (let regId = sint addr;
          level = csr_m_PrivilegeLevel csr;
          illegal = returnM (Some (MakeIllegalInstructionException pc insn)) in
      bindM (check_range 0 regId NumberOfRegister) (\<lambda>_.
      if IsSupervisorModeRegister addr \<and> level = User then illegal
      else if IsReservedModeRegister addr then illegal
      else if IsMachineModeRegister addr \<and> (level = User \<or> level = Supervisor) then illegal
      else if regId div 1024 = 0b11 \<and> write then illegal
      else if addr = CSR_satp \<and> level = Supervisor \<and>
              GetMember xstatus_TVM (csr_m_Status csr) \<noteq> 0 then illegal
      else
        bindM
          (if (CSR_hpmcounter_begin \<le> addr \<and> addr < CSR_hpmcounter_end) \<or>
              (CSR_hpmcounterh_begin \<le> addr \<and> addr < CSR_hpmcounterh_end)
           then bindM (liftM (GetPerformanceCounterIndex addr)) (\<lambda>index.
                bindM (check_range 0 (sint index) 32) (\<lambda>_.
                returnM (Csr_counter_disabled csr index)))
           else returnM False) (\<lambda>disabled.
        if disabled then illegal
        else if addr = CSR_time then returnM (Some (MakeIllegalInstructionException pc 0))
        else returnM None)) csr))"

definition Csr_ReadStatus :: "Csr \<Rightarrow> u64 result" where
  "Csr_ReadStatus csr =
     (let status = csr_m_Status csr in
      if GetMember xstatus_XS status = 0b11 \<or> GetMember xstatus_FS status = 0b11
      then (case csr_m_XLEN csr of
              XLEN32 \<Rightarrow> Inr (SetMember xstatus_SD_RV32 1 status)
            | XLEN64 \<Rightarrow> Inr (SetMember xstatus_SD_RV64 1 status)
            | XLEN128 \<Rightarrow> Inl EmuException)
      else Inr status)"

definition Csr_WriteStatus :: "u64 \<Rightarrow> Csr \<Rightarrow> Csr" where
  "Csr_WriteStatus value csr =
     csr\<lparr>csr_m_Status := SetWithMask value xstatus_WriteMask (csr_m_Status csr)\<rparr>"

text \<open>
  \<open>GetLow32\<close> and \<open>GetHigh32\<close> return an \<open>int32_t\<close>, so a counter half is sign-extended to the
  \<open>uint64_t\<close> a read answers. The default of each \<open>switch\<close> prints a message and answers 0, or ignores the write.\<close>

definition ReadMachineModeRegister :: "csr_addr_t \<Rightarrow> Csr \<Rightarrow> u64 result" where
  "ReadMachineModeRegister addr csr =
    (if CSR_pmpaddr_begin \<le> addr \<and> addr < CSR_pmpaddr_end
          then Inr 0
     else if addr = CSR_mstatus
          then Csr_ReadStatus csr
     else if addr = CSR_misa
          then Inr (csr_m_ISA csr)
     else if addr = CSR_medeleg
          then Inr (csr_m_MachineExceptionDelegation csr)
     else if addr = CSR_mideleg
          then Inr (csr_m_MachineInterruptDelegation csr)
     else if addr = CSR_mie
          then Inr (GetWithMask xie_MachineMask (csr_m_InterruptEnable csr))
     else if addr = CSR_mtvec
          then Inr (csr_m_MachineTrapVector csr)
     else if addr = CSR_mcounteren
          then Inr (csr_m_MachineCounterEnable csr)
     else if addr = CSR_mscratch
          then Inr (csr_m_MachineScratch csr)
     else if addr = CSR_mepc
          then Inr (csr_m_MachineExceptionProgramCounter csr)
     else if addr = CSR_mcause
          then Inr (csr_m_MachineCause csr)
     else if addr = CSR_mtval
          then Inr (csr_m_MachineTrapValue csr)
     else if addr = CSR_mip
          then Inr (GetWithMask xip_MachineMask (csr_m_InterruptPending csr))
     else if addr \<in> {CSR_pmpcfg0, CSR_pmpcfg1, CSR_pmpcfg2, CSR_pmpcfg3}
          then Inr 0
     else if addr \<in> {CSR_mvendorid, CSR_marchid, CSR_mimpid, CSR_mhartid}
          then Inr 0
     else if addr = CSR_mcycle \<and> csr_m_XLEN csr = XLEN32
          then Inr (scast (GetLow32 (csr_m_CycleCounter csr)))
     else if addr = CSR_mcycle \<and> csr_m_XLEN csr = XLEN64
          then Inr (csr_m_CycleCounter csr)
     else if addr = CSR_minstret \<and> csr_m_XLEN csr = XLEN32
          then Inr (scast (GetLow32 (csr_m_InstructionRetiredCounter csr)))
     else if addr = CSR_minstret \<and> csr_m_XLEN csr = XLEN64
          then Inr (csr_m_InstructionRetiredCounter csr)
     else if addr = CSR_mcycleh \<and> csr_m_XLEN csr = XLEN32
          then Inr (scast (GetHigh32 (csr_m_CycleCounter csr)))
     else if addr = CSR_minstreth \<and> csr_m_XLEN csr = XLEN32
          then Inr (scast (GetHigh32 (csr_m_InstructionRetiredCounter csr)))
     else Inr 0)"

definition ReadSupervisorModeRegister :: "csr_addr_t \<Rightarrow> Csr \<Rightarrow> u64 result" where
  "ReadSupervisorModeRegister addr csr =
    (if addr = CSR_sstatus
          then (if csr_m_XLEN csr = XLEN32 then map_sum id (GetWithMask xstatus_SupervisorMask_RV32) (Csr_ReadStatus csr)
           else if csr_m_XLEN csr = XLEN64 then map_sum id (GetWithMask xstatus_SupervisorMask_RV64) (Csr_ReadStatus csr)
           else Inl EmuException)
     else if addr = CSR_sedeleg
          then Inr (csr_m_SupervisorExceptionDelegation csr)
     else if addr = CSR_sideleg
          then Inr (csr_m_SupervisorInterruptDelegation csr)
     else if addr = CSR_sie
          then Inr (GetWithMask xie_SupervisorMask (csr_m_InterruptEnable csr))
     else if addr = CSR_stvec
          then Inr (csr_m_SupervisorTrapVector csr)
     else if addr = CSR_scounteren
          then Inr (csr_m_SupervisorCounterEnable csr)
     else if addr = CSR_sscratch
          then Inr (csr_m_SupervisorScratch csr)
     else if addr = CSR_sepc
          then Inr (csr_m_SupervisorExceptionProgramCounter csr)
     else if addr = CSR_scause
          then Inr (csr_m_SupervisorCause csr)
     else if addr = CSR_stval
          then Inr (csr_m_SupervisorTrapValue csr)
     else if addr = CSR_sip
          then Inr (GetWithMask xip_SupervisorMask (csr_m_InterruptPending csr))
     else if addr = CSR_satp
          then Inr (csr_m_SupervisorAddressTranslationProtection csr)
     else Inr 0)"

definition ReadUserModeRegister :: "csr_addr_t \<Rightarrow> Csr \<Rightarrow> u64 result" where
  "ReadUserModeRegister addr csr =
    (if addr = CSR_ustatus
          then map_sum id (GetWithMask xstatus_UserMask) (Csr_ReadStatus csr)
     else if addr = CSR_fflags
          then Inr (ucast (GetMember fcsr_AE (csr_m_FpCsr csr)))
     else if addr = CSR_frm
          then Inr (ucast (GetMember fcsr_RM (csr_m_FpCsr csr)))
     else if addr = CSR_fcsr
          then Inr (ucast (GetWithMask fcsr_UserMask (csr_m_FpCsr csr)))
     else if addr = CSR_uie
          then Inr (GetWithMask xie_UserMask (csr_m_InterruptEnable csr))
     else if addr = CSR_utvec
          then Inr (csr_m_UserTrapVector csr)
     else if addr = CSR_uscratch
          then Inr (csr_m_UserScratch csr)
     else if addr = CSR_uepc
          then Inr (csr_m_UserExceptionProgramCounter csr)
     else if addr = CSR_ucause
          then Inr (csr_m_UserCause csr)
     else if addr = CSR_utval
          then Inr (csr_m_UserTrapValue csr)
     else if addr = CSR_uip
          then Inr (GetWithMask xip_UserMask (csr_m_InterruptPending csr))
     else if addr = CSR_cycle \<and> csr_m_XLEN csr = XLEN32
          then Inr (scast (GetLow32 (csr_m_CycleCounter csr)))
     else if addr = CSR_cycle \<and> csr_m_XLEN csr = XLEN64
          then Inr (csr_m_CycleCounter csr)
     else if addr = CSR_time \<and> csr_m_XLEN csr = XLEN32
          then Inr (scast (GetLow32 (csr_m_CycleCounter csr)))
     else if addr = CSR_time \<and> csr_m_XLEN csr = XLEN64
          then Inr (csr_m_TimeCounter csr)
     else if addr = CSR_instret \<and> csr_m_XLEN csr = XLEN32
          then Inr (scast (GetLow32 (csr_m_InstructionRetiredCounter csr)))
     else if addr = CSR_instret \<and> csr_m_XLEN csr = XLEN64
          then Inr (csr_m_InstructionRetiredCounter csr)
     else if addr = CSR_cycleh \<and> csr_m_XLEN csr = XLEN32
          then Inr (scast (GetHigh32 (csr_m_CycleCounter csr)))
     else if addr = CSR_timeh \<and> csr_m_XLEN csr = XLEN32
          then Inr (scast (GetHigh32 (csr_m_TimeCounter csr)))
     else if addr = CSR_instreth \<and> csr_m_XLEN csr = XLEN32
          then Inr (scast (GetHigh32 (csr_m_InstructionRetiredCounter csr)))
     else Inr 0)"

definition WriteMachineModeRegister :: "csr_addr_t \<Rightarrow> u64 \<Rightarrow> Csr \<Rightarrow> Csr" where
  "WriteMachineModeRegister addr value csr =
    (if CSR_pmpaddr_begin \<le> addr \<and> addr < CSR_pmpaddr_end
          then csr
     else if addr \<in> {CSR_mhartid, CSR_misa}
          then csr
     else if addr = CSR_mstatus
          then Csr_WriteStatus (xstatus_of value) csr
     else if addr = CSR_medeleg
          then csr\<lparr>csr_m_MachineExceptionDelegation := value\<rparr>
     else if addr = CSR_mideleg
          then csr\<lparr>csr_m_MachineInterruptDelegation := value\<rparr>
     else if addr = CSR_mie
          then csr\<lparr>csr_m_InterruptEnable := SetWithMask value xie_MachineMask (csr_m_InterruptEnable csr)\<rparr>
     else if addr = CSR_mcounteren
          then csr\<lparr>csr_m_MachineCounterEnable := value\<rparr>
     else if addr = CSR_mtvec
          then csr\<lparr>csr_m_MachineTrapVector := value\<rparr>
     else if addr = CSR_mscratch
          then csr\<lparr>csr_m_MachineScratch := value\<rparr>
     else if addr = CSR_mepc
          then csr\<lparr>csr_m_MachineExceptionProgramCounter := value\<rparr>
     else if addr = CSR_mcause
          then csr\<lparr>csr_m_MachineCause := value\<rparr>
     else if addr = CSR_mtval
          then csr\<lparr>csr_m_MachineTrapValue := value\<rparr>
     else if addr = CSR_mip
          then csr\<lparr>csr_m_InterruptPending := SetWithMask value (xip_MachineMask AND xip_WriteMask) (csr_m_InterruptPending csr)\<rparr>
     else if addr \<in> {CSR_pmpcfg0, CSR_pmpcfg1, CSR_pmpcfg2, CSR_pmpcfg3}
          then csr
     else if addr = CSR_mcycle \<and> csr_m_XLEN csr = XLEN32
          then csr\<lparr>csr_m_CycleCounter := SetLow32 (ucast value) (csr_m_CycleCounter csr)\<rparr>
     else if addr = CSR_mcycle \<and> csr_m_XLEN csr = XLEN64
          then csr\<lparr>csr_m_CycleCounter := value\<rparr>
     else if addr = CSR_minstret \<and> csr_m_XLEN csr = XLEN32
          then csr\<lparr>csr_m_InstructionRetiredCounter := SetLow32 (ucast value) (csr_m_InstructionRetiredCounter csr)\<rparr>
     else if addr = CSR_minstret \<and> csr_m_XLEN csr = XLEN64
          then csr\<lparr>csr_m_InstructionRetiredCounter := value\<rparr>
     else if addr = CSR_mcycleh \<and> csr_m_XLEN csr = XLEN32
          then csr\<lparr>csr_m_CycleCounter := SetHigh32 (ucast value) (csr_m_CycleCounter csr)\<rparr>
     else if addr = CSR_minstreth \<and> csr_m_XLEN csr = XLEN32
          then csr\<lparr>csr_m_InstructionRetiredCounter := SetHigh32 (ucast value) (csr_m_InstructionRetiredCounter csr)\<rparr>
     else csr)"

definition WriteSupervisorModeRegister :: "csr_addr_t \<Rightarrow> u64 \<Rightarrow> Csr \<Rightarrow> Csr result" where
  "WriteSupervisorModeRegister addr value csr =
    (if addr = CSR_sstatus
          then (case csr_m_XLEN csr of
             XLEN32 \<Rightarrow> Inr (Csr_WriteStatus (xstatus_of (value AND xstatus_SupervisorMask_RV32)) csr)
           | XLEN64 \<Rightarrow> Inr (Csr_WriteStatus (xstatus_of (value AND xstatus_SupervisorMask_RV64)) csr)
           | XLEN128 \<Rightarrow> Inl EmuException)
     else if addr = CSR_sedeleg
          then Inr (csr\<lparr>csr_m_SupervisorExceptionDelegation := value\<rparr>)
     else if addr = CSR_sideleg
          then Inr (csr\<lparr>csr_m_SupervisorInterruptDelegation := value\<rparr>)
     else if addr = CSR_sie
          then Inr (csr\<lparr>csr_m_InterruptEnable := SetWithMask value xie_SupervisorMask (csr_m_InterruptEnable csr)\<rparr>)
     else if addr = CSR_stvec
          then Inr (csr\<lparr>csr_m_SupervisorTrapVector := value\<rparr>)
     else if addr = CSR_scounteren
          then Inr (csr\<lparr>csr_m_SupervisorCounterEnable := value\<rparr>)
     else if addr = CSR_sscratch
          then Inr (csr\<lparr>csr_m_SupervisorScratch := value\<rparr>)
     else if addr = CSR_sepc
          then Inr (csr\<lparr>csr_m_SupervisorExceptionProgramCounter := value\<rparr>)
     else if addr = CSR_scause
          then Inr (csr\<lparr>csr_m_SupervisorCause := value\<rparr>)
     else if addr = CSR_stval
          then Inr (csr\<lparr>csr_m_SupervisorTrapValue := value\<rparr>)
     else if addr = CSR_sip
          then Inr (csr\<lparr>csr_m_InterruptPending := SetWithMask value (xip_WriteMask AND xip_SupervisorMask) (csr_m_InterruptPending csr)\<rparr>)
     else if addr = CSR_satp
          then Inr (csr\<lparr>csr_m_SupervisorAddressTranslationProtection := value\<rparr>)
     else Inr csr)"

definition WriteUserModeRegister :: "csr_addr_t \<Rightarrow> u64 \<Rightarrow> Csr \<Rightarrow> Csr" where
  "WriteUserModeRegister addr value csr =
    (if addr = CSR_ustatus
          then Csr_WriteStatus (xstatus_of (value AND xstatus_UserMask)) csr
     else if addr = CSR_fflags
          then csr\<lparr>csr_m_FpCsr := SetMember fcsr_AE (ucast value) (csr_m_FpCsr csr)\<rparr>
     else if addr = CSR_frm
          then csr\<lparr>csr_m_FpCsr := SetMember fcsr_RM (ucast value) (csr_m_FpCsr csr)\<rparr>
     else if addr = CSR_fcsr
          then csr\<lparr>csr_m_FpCsr := SetWithMask (ucast value) fcsr_UserMask (csr_m_FpCsr csr)\<rparr>
     else if addr = CSR_uie
          then csr\<lparr>csr_m_InterruptEnable := SetWithMask value xie_UserMask (csr_m_InterruptEnable csr)\<rparr>
     else if addr = CSR_utvec
          then csr\<lparr>csr_m_UserTrapVector := value\<rparr>
     else if addr = CSR_uscratch
          then csr\<lparr>csr_m_UserScratch := value\<rparr>
     else if addr = CSR_uepc
          then csr\<lparr>csr_m_UserExceptionProgramCounter := value\<rparr>
     else if addr = CSR_ucause
          then csr\<lparr>csr_m_UserCause := value\<rparr>
     else if addr = CSR_utval
          then csr\<lparr>csr_m_UserTrapValue := value\<rparr>
     else if addr = CSR_uip
          then csr\<lparr>csr_m_InterruptPending := SetWithMask value (xip_WriteMask AND xip_UserMask) (csr_m_InterruptPending csr)\<rparr>
     else if addr = CSR_cycle \<and> csr_m_XLEN csr = XLEN32
          then csr\<lparr>csr_m_CycleCounter := SetLow32 (ucast value) (csr_m_CycleCounter csr)\<rparr>
     else if addr = CSR_cycle \<and> csr_m_XLEN csr = XLEN64
          then csr\<lparr>csr_m_CycleCounter := value\<rparr>
     else if addr = CSR_time \<and> csr_m_XLEN csr = XLEN32
          then csr\<lparr>csr_m_TimeCounter := SetLow32 (ucast value) (csr_m_TimeCounter csr)\<rparr>
     else if addr = CSR_time \<and> csr_m_XLEN csr = XLEN64
          then csr\<lparr>csr_m_TimeCounter := value\<rparr>
     else if addr = CSR_instret \<and> csr_m_XLEN csr = XLEN32
          then csr\<lparr>csr_m_InstructionRetiredCounter := SetLow32 (ucast value) (csr_m_InstructionRetiredCounter csr)\<rparr>
     else if addr = CSR_instret \<and> csr_m_XLEN csr = XLEN64
          then csr\<lparr>csr_m_InstructionRetiredCounter := value\<rparr>
     else if addr = CSR_cycleh \<and> csr_m_XLEN csr = XLEN32
          then csr\<lparr>csr_m_CycleCounter := SetHigh32 (ucast value) (csr_m_CycleCounter csr)\<rparr>
     else if addr = CSR_timeh \<and> csr_m_XLEN csr = XLEN32
          then csr\<lparr>csr_m_CycleCounter := SetHigh32 (ucast value) (csr_m_CycleCounter csr)\<rparr>
     else if addr = CSR_instreth \<and> csr_m_XLEN csr = XLEN32
          then csr\<lparr>csr_m_InstructionRetiredCounter := SetHigh32 (ucast value) (csr_m_InstructionRetiredCounter csr)\<rparr>
     else csr)"

definition Csr_ReadUInt64 :: "csr_addr_t \<Rightarrow> Csr \<Rightarrow> u64 result" where
  "Csr_ReadUInt64 addr csr =
     (if IsMachineModeRegister addr then ReadMachineModeRegister addr csr
      else if IsSupervisorModeRegister addr then ReadSupervisorModeRegister addr csr
      else if IsUserModeRegister addr then ReadUserModeRegister addr csr
      else Inr 0)"

definition Csr_ReadUInt32 :: "csr_addr_t \<Rightarrow> Csr \<Rightarrow> u32 result" where
  "Csr_ReadUInt32 addr csr = map_sum id ucast (Csr_ReadUInt64 addr csr)"

definition Csr_WriteUInt64 :: "csr_addr_t \<Rightarrow> u64 \<Rightarrow> (Csr, unit) act" where
  "Csr_WriteUInt64 addr value = (\<lambda>csr.
     (if IsMachineModeRegister addr then Inr ((), WriteMachineModeRegister addr value csr)
      else if IsSupervisorModeRegister addr
        then map_sum id (Pair ()) (WriteSupervisorModeRegister addr value csr)
      else if IsUserModeRegister addr then Inr ((), WriteUserModeRegister addr value csr)
      else Inr ((), csr)))"

definition Csr_WriteUInt32 :: "csr_addr_t \<Rightarrow> u32 \<Rightarrow> (Csr, unit) act" where
  "Csr_WriteUInt32 addr value = Csr_WriteUInt64 addr (ucast value)"

text \<open>Direct access for the other components.\<close>

definition Csr_ReadFpCsr :: "Csr \<Rightarrow> u32" where "Csr_ReadFpCsr csr = csr_m_FpCsr csr"

definition Csr_ReadInterruptPending :: "Csr \<Rightarrow> u64" where
  "Csr_ReadInterruptPending csr = csr_m_InterruptPending csr"

definition Csr_ReadInterruptEnable :: "Csr \<Rightarrow> u64" where
  "Csr_ReadInterruptEnable csr = csr_m_InterruptEnable csr"

definition Csr_ReadSatp :: "Csr \<Rightarrow> u64" where
  "Csr_ReadSatp csr = csr_m_SupervisorAddressTranslationProtection csr"

definition Csr_ReadTime :: "Csr \<Rightarrow> u64" where "Csr_ReadTime csr = csr_m_TimeCounter csr"

definition Csr_WriteFpCsr :: "u32 \<Rightarrow> Csr \<Rightarrow> Csr" where
  "Csr_WriteFpCsr value csr = csr\<lparr>csr_m_FpCsr := value\<rparr>"

definition Csr_WriteInterruptPending :: "u64 \<Rightarrow> Csr \<Rightarrow> Csr" where
  "Csr_WriteInterruptPending value csr = csr\<lparr>csr_m_InterruptPending := value\<rparr>"

definition Csr_WriteTime :: "u64 \<Rightarrow> Csr \<Rightarrow> Csr" where
  "Csr_WriteTime value csr = csr\<lparr>csr_m_TimeCounter := value\<rparr>"

end
