(* ===== verification/Rafi_TrapProcessor.thy ===== *)
theory Rafi_TrapProcessor
  imports Rafi_Csr
begin

text \<open>
  \<^verbatim>\<open>src/rafi-emu/cpu/TrapProcessor.cpp\<close> (trap entry with delegation, trap return) and
  \<^verbatim>\<open>src/rafi-emu/cpu/InterruptController.cpp\<close> (pending bits, priority). Both hold a pointer to
  the control and status registers: their state is the pair of the registers and their own
  fields. \<open>IInterruptSource::IsRequested\<close> of the timer source is an argument of \<open>Update\<close>.
\<close>

section \<open>State\<close>

text \<open>\<open>TrapEvent\<close> of \<^verbatim>\<open>include/rafi/emu/Event.h\<close>.\<close>

record TrapEvent =
  te_trapType :: TrapType
  te_trapCause :: u32
  te_from :: PrivilegeLevel
  te_to :: PrivilegeLevel
  te_trapValue :: u64

record TrapProcessor =
  trap_m_XLEN :: XLEN
  trap_m_TrapEvent :: TrapEvent
  trap_m_TrapEventValid :: bool

definition zero_TrapEvent :: TrapEvent where
  "zero_TrapEvent = \<lparr>te_trapType = Interrupt, te_trapCause = 0, te_from = User, te_to = User,
     te_trapValue = 0\<rparr>"

text \<open>
  The constructor leaves \<open>m_TrapEvent\<close> indeterminate; no routine reads it before \<open>ClearEvent\<close>
  has zeroed it.
\<close>

definition TrapProcessor_new :: "XLEN \<Rightarrow> TrapEvent \<Rightarrow> TrapProcessor" where
  "TrapProcessor_new xlen indeterminate =
     \<lparr>trap_m_XLEN = xlen, trap_m_TrapEvent = indeterminate, trap_m_TrapEventValid = False\<rparr>"

type_synonym ('p, 'a) csr_act = "(Csr \<times> 'p, 'a) act"

definition on_csr :: "(Csr, 'a) act \<Rightarrow> ('p, 'a) csr_act" where
  "on_csr m = zoomM fst (\<lambda>c s. (c, snd s)) m"

definition read_csr :: "csr_addr_t \<Rightarrow> ('p, u64) csr_act" where
  "read_csr addr = on_csr (queryM (Csr_ReadUInt64 addr))"

definition write_csr :: "csr_addr_t \<Rightarrow> u64 \<Rightarrow> ('p, unit) csr_act" where
  "write_csr addr value = on_csr (Csr_WriteUInt64 addr value)"

section \<open>Trap entry\<close>

definition trap_cause :: "XLEN \<Rightarrow> bool \<Rightarrow> u32 \<Rightarrow> u64 result" where
  "trap_cause xlen isInterrupt exceptionCode = (case xlen of
     XLEN32 \<Rightarrow> Inr ((if isInterrupt then push_bit 31 1 else 0) OR ucast exceptionCode)
   | XLEN64 \<Rightarrow> Inr ((if isInterrupt then push_bit 63 1 else 0) OR ucast exceptionCode)
   | XLEN128 \<Rightarrow> Inl EmuException)"

definition trap_base :: "XLEN \<Rightarrow> u64 \<Rightarrow> u64 result" where
  "trap_base xlen trapVector = (case xlen of
     XLEN32 \<Rightarrow> Inr (GetWithMask (Member_Mask xtvec_BASE_RV32) trapVector)
   | XLEN64 \<Rightarrow> Inr (GetWithMask (Member_Mask xtvec_BASE_RV64) trapVector)
   | XLEN128 \<Rightarrow> Inl EmuException)"

text \<open>The \<open>switch\<close> on the next privilege level; its result is the trap vector.\<close>

definition trap_save ::
  "PrivilegeLevel \<Rightarrow> PrivilegeLevel \<Rightarrow> u64 \<Rightarrow> vaddr_t \<Rightarrow> u64 \<Rightarrow> ('p, u64) csr_act" where
  "trap_save nextPrivilegeLevel prevPrivilegeLevel cause pc trapValue = (case nextPrivilegeLevel of
     Machine \<Rightarrow>
       bindM (read_csr CSR_mstatus) (\<lambda>v.
       let status = xstatus_of v;
           status = SetMember xstatus_MPIE (GetMember xstatus_MIE status) status;
           status = SetMember xstatus_MIE 0 status;
           status = SetMember xstatus_MPP (PrivilegeLevel_value prevPrivilegeLevel) status in
       bindM (write_csr CSR_mstatus status) (\<lambda>_.
       bindM (write_csr CSR_mcause cause) (\<lambda>_.
       bindM (write_csr CSR_mepc pc) (\<lambda>_.
       bindM (write_csr CSR_mtval trapValue) (\<lambda>_.
       read_csr CSR_mtvec)))))
   | Supervisor \<Rightarrow>
       bindM (read_csr CSR_sstatus) (\<lambda>v.
       let status = xstatus_of v;
           status = SetMember xstatus_SPIE (GetMember xstatus_SIE status) status;
           status = SetMember xstatus_SIE 0 status;
           status = SetMember xstatus_SPP (PrivilegeLevel_value prevPrivilegeLevel) status in
       bindM (write_csr CSR_sstatus status) (\<lambda>_.
       bindM (write_csr CSR_scause cause) (\<lambda>_.
       bindM (write_csr CSR_sepc pc) (\<lambda>_.
       bindM (write_csr CSR_stval trapValue) (\<lambda>_.
       read_csr CSR_stvec)))))
   | User \<Rightarrow>
       bindM (read_csr CSR_ustatus) (\<lambda>v.
       let status = xstatus_of v;
           status = SetMember xstatus_UPIE (GetMember xstatus_UIE status) status;
           status = SetMember xstatus_UIE 0 status in
       bindM (write_csr CSR_ustatus status) (\<lambda>_.
       bindM (write_csr CSR_ucause cause) (\<lambda>_.
       bindM (write_csr CSR_uepc pc) (\<lambda>_.
       bindM (write_csr CSR_utval trapValue) (\<lambda>_.
       read_csr CSR_utvec)))))
   | Reserved \<Rightarrow> failM EmuException)"

definition ProcessTrapEnter ::
  "bool \<Rightarrow> u32 \<Rightarrow> u64 \<Rightarrow> vaddr_t \<Rightarrow> PrivilegeLevel \<Rightarrow> (TrapProcessor, unit) csr_act" where
  "ProcessTrapEnter isInterrupt exceptionCode trapValue pc nextPrivilegeLevel =
    bindM (getM (\<lambda>s. Csr_GetPrivilegeLevel (fst s))) (\<lambda>prevPrivilegeLevel.
    bindM (on_csr (modifyM (Csr_SetPrivilegeLevel nextPrivilegeLevel))) (\<lambda>_.
    bindM (getM (\<lambda>s. trap_m_XLEN (snd s))) (\<lambda>xlen.
    bindM (liftM (trap_cause xlen isInterrupt exceptionCode)) (\<lambda>cause.
    bindM (trap_save nextPrivilegeLevel prevPrivilegeLevel cause pc trapValue) (\<lambda>trapVector.
    bindM (liftM (trap_base xlen trapVector)) (\<lambda>base.
    bindM (on_csr (modifyM (Csr_SetProgramCounter
       (if isInterrupt \<and> GetMember xtvec_MODE trapVector = 1
        then base + ucast (exceptionCode * 4) else base)))) (\<lambda>_.
    modifyM (\<lambda>s. (fst s, (snd s)\<lparr>trap_m_TrapEventValid := True,
       trap_m_TrapEvent := \<lparr>te_trapType = (if isInterrupt then Interrupt else Exception),
         te_trapCause = exceptionCode, te_from = Csr_GetPrivilegeLevel (fst s),
         te_to = nextPrivilegeLevel, te_trapValue = trapValue\<rparr>\<rparr>)))))))))"

text \<open>The level a trap is delegated to; the mask \<open>1 << cause\<close> is an \<open>int\<close>, below bit 31 here.\<close>

definition delegate_level ::
  "csr_addr_t \<Rightarrow> csr_addr_t \<Rightarrow> i32 \<Rightarrow> ('p, PrivilegeLevel) csr_act" where
  "delegate_level mdeleg sdeleg cause =
    (let delegMask = scast (push_bit (unat cause) 1 :: i32) :: u64 in
     bindM (read_csr mdeleg) (\<lambda>m.
     if m AND delegMask \<noteq> 0 then
       bindM (read_csr sdeleg) (\<lambda>sd.
       returnM (if sd AND delegMask \<noteq> 0 then User else Supervisor))
     else returnM Machine))"

definition ProcessException :: "Trap \<Rightarrow> (TrapProcessor, unit) csr_act" where
  "ProcessException trap =
    (let cause = ExceptionType_value (trap_type trap) in
     bindM (delegate_level CSR_medeleg CSR_sedeleg cause) (\<lambda>nextPrivilegeLevel.
     ProcessTrapEnter False cause (trap_trapValue trap) (trap_pc trap) nextPrivilegeLevel))"

definition ProcessInterrupt :: "InterruptType \<Rightarrow> vaddr_t \<Rightarrow> (TrapProcessor, unit) csr_act" where
  "ProcessInterrupt type pc =
    (let cause = InterruptType_value type in
     bindM (delegate_level CSR_mideleg CSR_sideleg cause) (\<lambda>nextPrivilegeLevel.
     ProcessTrapEnter True cause 0 pc nextPrivilegeLevel))"

section \<open>Trap return\<close>

text \<open>The two cases of the \<open>switch\<close>; the result is the previous level.\<close>

definition trap_restore ::
  "csr_addr_t \<Rightarrow> csr_addr_t \<Rightarrow> bit_member \<Rightarrow> bit_member \<Rightarrow> bit_member \<Rightarrow> ('p, u64) csr_act" where
  "trap_restore status_addr epc_addr PP PIE IE =
    bindM (read_csr status_addr) (\<lambda>v.
    let status = xstatus_of v in
    bindM (read_csr epc_addr) (\<lambda>pc.
    let previousLevel = GetMember PP status;
        previousInterruptEnable = GetMember PIE status;
        status = SetMember PP 0 status;
        status = SetMember IE previousInterruptEnable status in
    bindM (write_csr status_addr status) (\<lambda>_.
    bindM (on_csr (modifyM (Csr_SetProgramCounter pc))) (\<lambda>_.
    returnM previousLevel))))"

definition ProcessTrapReturn :: "PrivilegeLevel \<Rightarrow> (TrapProcessor, unit) csr_act" where
  "ProcessTrapReturn level =
    bindM (case level of
        Machine \<Rightarrow> trap_restore CSR_mstatus CSR_mepc xstatus_MPP xstatus_MPIE xstatus_MIE
      | Supervisor \<Rightarrow> trap_restore CSR_sstatus CSR_sepc xstatus_SPP xstatus_SPIE xstatus_SIE
      | _ \<Rightarrow> failM EmuException) (\<lambda>previousLevel.
    let nextPrivilegeLevel = PrivilegeLevel_of previousLevel in
    bindM (modifyM (\<lambda>s. (fst s, (snd s)\<lparr>trap_m_TrapEventValid := True,
       trap_m_TrapEvent := (trap_m_TrapEvent (snd s))\<lparr>te_trapType := Return,
         te_from := Csr_GetPrivilegeLevel (fst s), te_to := nextPrivilegeLevel\<rparr>\<rparr>))) (\<lambda>_.
    on_csr (modifyM (Csr_SetPrivilegeLevel nextPrivilegeLevel))))"

definition TrapProcessor_ClearEvent :: "TrapProcessor \<Rightarrow> TrapProcessor" where
  "TrapProcessor_ClearEvent t =
     t\<lparr>trap_m_TrapEventValid := False, trap_m_TrapEvent := zero_TrapEvent\<rparr>"

section \<open>The interrupt controller\<close>

record InterruptController =
  intc_m_IsRequested :: bool
  intc_m_InterruptType :: InterruptType

definition InterruptController_new :: "InterruptType \<Rightarrow> InterruptController" where
  "InterruptController_new indeterminate =
     \<lparr>intc_m_IsRequested = False, intc_m_InterruptType = indeterminate\<rparr>"

definition GetInterruptType :: "InterruptController \<Rightarrow> InterruptType result" where
  "GetInterruptType ic =
     (if intc_m_IsRequested ic then Inr (intc_m_InterruptType ic) else Inl AssertionFailure)"

definition InterruptController_IsRequested :: "InterruptController \<Rightarrow> bool" where
  "InterruptController_IsRequested ic = intc_m_IsRequested ic"

text \<open>Both halves of \<open>UpdateCsr\<close> ask the timer source.\<close>

definition pending_bit ::
  "u32 \<Rightarrow> u32 \<Rightarrow> InterruptType \<Rightarrow> InterruptType \<Rightarrow> bit_member \<Rightarrow> bit_member \<Rightarrow> bit_member \<Rightarrow>
   u64 \<Rightarrow> u64" where
  "pending_bit mideleg sideleg mtype stype M S U pending =
     (if drop_bit (unat (InterruptType_value mtype)) mideleg = 0 then SetMember M 1 pending
      else if drop_bit (unat (InterruptType_value stype)) sideleg = 0 then SetMember S 1 pending
      else SetMember U 1 pending)"

definition UpdateCsr :: "bool \<Rightarrow> (Csr, unit) act" where
  "UpdateCsr timerRequested =
    bindM (queryM (Csr_ReadUInt32 CSR_mideleg)) (\<lambda>mideleg.
    bindM (queryM (Csr_ReadUInt32 CSR_sideleg)) (\<lambda>sideleg.
    bindM (getM Csr_ReadInterruptPending) (\<lambda>pending.
    let pending = SetMember xip_UTIP 0 (SetMember xip_STIP 0 (SetMember xip_MTIP 0 pending));
        pending = (if timerRequested
          then pending_bit mideleg sideleg MachineTimer SupervisorTimer xip_MTIP xip_STIP xip_UTIP
                 pending
          else pending);
        pending = SetMember xip_UEIP 0 (SetMember xip_SEIP 0 (SetMember xip_MEIP 0 pending));
        pending = (if timerRequested
          then pending_bit mideleg sideleg MachineExternal SupervisorExternal xip_MEIP xip_SEIP
                 xip_UEIP pending
          else pending) in
    modifyM (Csr_WriteInterruptPending pending))))"

text \<open>The chain of tests from the machine to the user level.\<close>

definition select_interrupt :: "u64 \<Rightarrow> u64 \<Rightarrow> InterruptType option" where
  "select_interrupt ie ip =
     (if GetMember xie_MEIE ie \<noteq> 0 \<and> GetMember xip_MEIP ip \<noteq> 0 then Some MachineExternal
      else if GetMember xie_MTIE ie \<noteq> 0 \<and> GetMember xip_MTIP ip \<noteq> 0 then Some MachineTimer
      else if GetMember xie_MSIE ie \<noteq> 0 \<and> GetMember xip_MSIP ip \<noteq> 0 then Some MachineSoftware
      else if GetMember xie_SEIE ie \<noteq> 0 \<and> GetMember xip_SEIP ip \<noteq> 0 then Some SupervisorExternal
      else if GetMember xie_STIE ie \<noteq> 0 \<and> GetMember xip_STIP ip \<noteq> 0 then Some SupervisorTimer
      else if GetMember xie_SSIE ie \<noteq> 0 \<and> GetMember xip_SSIP ip \<noteq> 0 then Some SupervisorSoftware
      else if GetMember xie_UEIE ie \<noteq> 0 \<and> GetMember xip_UEIP ip \<noteq> 0 then Some UserExternal
      else if GetMember xie_UTIE ie \<noteq> 0 \<and> GetMember xip_UTIP ip \<noteq> 0 then Some UserTimer
      else if GetMember xie_USIE ie \<noteq> 0 \<and> GetMember xip_USIP ip \<noteq> 0 then Some UserSoftware
      else None)"

definition InterruptController_Update :: "bool \<Rightarrow> (InterruptController, unit) csr_act" where
  "InterruptController_Update timerRequested =
    bindM (on_csr (UpdateCsr timerRequested)) (\<lambda>_.
    bindM (on_csr (queryM Csr_ReadStatus)) (\<lambda>status.
    bindM (getM (\<lambda>s. Csr_ReadInterruptEnable (fst s))) (\<lambda>ie.
    bindM (getM (\<lambda>s. Csr_ReadInterruptPending (fst s))) (\<lambda>ip.
    bindM (modifyM (\<lambda>s. (fst s, (snd s)\<lparr>intc_m_IsRequested := False\<rparr>))) (\<lambda>_.
    bindM (getM (\<lambda>s. Csr_GetPrivilegeLevel (fst s))) (\<lambda>level.
    bindM (case level of
        Machine \<Rightarrow> returnM (GetMember xstatus_MIE status)
      | Supervisor \<Rightarrow> returnM (GetMember xstatus_SIE status)
      | User \<Rightarrow> returnM (GetMember xstatus_UIE status)
      | Reserved \<Rightarrow> failM EmuException) (\<lambda>enable.
    if enable = 0 then returnM ()
    else case select_interrupt ie ip of
        None \<Rightarrow> returnM ()
      | Some t \<Rightarrow> modifyM (\<lambda>s. (fst s,
          (snd s)\<lparr>intc_m_IsRequested := True, intc_m_InterruptType := t\<rparr>)))))))))"

end
