(* ===== verification/Rafi_Csr_Ok.thy ===== *)
theory Rafi_Csr_Ok
  imports Rafi_Csr
begin

text \<open>
  The laws of the control and status registers: who may access which address, what a write
  changes and a later read sees, and which bits no write can reach.
\<close>

section \<open>Access control\<close>

lemma mode_register_cases:
  "IsUserModeRegister addr \<or> IsSupervisorModeRegister addr \<or>
   IsReservedModeRegister addr \<or> IsMachineModeRegister addr"
proof -
  let ?m = "drop_bit 8 addr AND 3"
  have "?m = take_bit 2 (drop_bit 8 addr)"
    by (simp add: take_bit_eq_mask mask_eq_exp_minus_1)
  then have "unat ?m < 4"
    using take_bit_nat_less_exp [of 2 "unat (drop_bit 8 addr)"] by (simp add: unsigned_take_bit_eq)
  then have "unat ?m \<in> {0, 1, 2, 3}" by auto
  then have "?m \<in> {0, 1, 2, 3}" by (auto simp: word_unat_eq_iff)
  then show ?thesis
    by (auto simp: IsUserModeRegister_def IsSupervisorModeRegister_def IsReservedModeRegister_def
        IsMachineModeRegister_def)
qed

text \<open>What the mask of the code tests: at counter 31, where it is sign-extended, every bit from 31 up.\<close>

definition counter_enabled :: "u64 \<Rightarrow> nat \<Rightarrow> bool" where
  "counter_enabled en n = (if n = 31 then drop_bit 31 en \<noteq> 0 else bit en n)"

text \<open>
  What the privileged architecture asks of an access: the level named by bits 9 and 8 of
  the address, no write to the read-only quarter, \<open>satp\<close> guarded by \<open>TVM\<close>, and the
  unprivileged counters guarded by their bits of the counter-enable registers.
\<close>

definition csr_allowed :: "Csr \<Rightarrow> csr_addr_t \<Rightarrow> bool \<Rightarrow> bool" where
  "csr_allowed csr addr write \<longleftrightarrow>
     (let need = take_bit 2 (drop_bit 8 (unat addr));
          level = csr_m_PrivilegeLevel csr;
          n = unat addr mod 32 in
      need \<noteq> 2 \<and> need \<le> unat (PrivilegeLevel_value level) \<and>
      \<not> (write \<and> unat addr div 1024 = 3) \<and>
      \<not> (addr = 0x180 \<and> level = Supervisor \<and> bit (csr_m_Status csr) 20) \<and>
      ((0xc00 \<le> addr \<and> addr < 0xc20) \<or> (0xc80 \<le> addr \<and> addr < 0xca0) \<longrightarrow>
         (level \<noteq> Machine \<longrightarrow> bit (csr_m_MachineCounterEnable csr) n) \<and>
         (level = User \<longrightarrow> bit (csr_m_SupervisorCounterEnable csr) n)))"


lemma and_3_mask: "w AND 3 = w AND mask 2" for w :: "'a::len word"
  by (simp add: mask_eq_exp_minus_1)

lemma mode_of_address:
  "IsUserModeRegister addr \<longleftrightarrow> take_bit 2 (drop_bit 8 (unat addr)) = 0"
  "IsSupervisorModeRegister addr \<longleftrightarrow> take_bit 2 (drop_bit 8 (unat addr)) = 1"
  "IsReservedModeRegister addr \<longleftrightarrow> take_bit 2 (drop_bit 8 (unat addr)) = 2"
  "IsMachineModeRegister addr \<longleftrightarrow> take_bit 2 (drop_bit 8 (unat addr)) = 3"
proof -
  have "unat (drop_bit 8 addr AND 3) = take_bit 2 (drop_bit 8 (unat addr))"
    by (rule bit_eqI) (auto simp: bit_simps and_3_mask dest: bit_imp_le_length)
  then show "IsUserModeRegister addr \<longleftrightarrow> take_bit 2 (drop_bit 8 (unat addr)) = 0"
    "IsSupervisorModeRegister addr \<longleftrightarrow> take_bit 2 (drop_bit 8 (unat addr)) = 1"
    "IsReservedModeRegister addr \<longleftrightarrow> take_bit 2 (drop_bit 8 (unat addr)) = 2"
    "IsMachineModeRegister addr \<longleftrightarrow> take_bit 2 (drop_bit 8 (unat addr)) = 3"
    by (auto simp: IsUserModeRegister_def IsSupervisorModeRegister_def
        IsReservedModeRegister_def IsMachineModeRegister_def word_unat_eq_iff)
qed

lemma counter_mask:
  assumes "n < 32"
  shows "(en :: u64) AND scast (push_bit n 1 :: i32) = 0 \<longleftrightarrow> \<not> counter_enabled en n"
proof (cases "n = 31")
  case True
  have top: "scast (push_bit 31 1 :: i32) = (NOT (mask 31) :: u64)"
    by (simp add: mask_eq_exp_minus_1)
  have "en AND NOT (mask 31) = push_bit 31 (drop_bit 31 en)"
    by (rule bit_word_eqI) (auto simp: bit_simps)
  moreover have "push_bit 31 (drop_bit 31 en) = 0 \<longleftrightarrow> drop_bit 31 en = 0"
  proof
    assume "push_bit 31 (drop_bit 31 en) = 0"
    then have "drop_bit 31 (push_bit 31 (drop_bit 31 en)) = 0" by simp
    also have "drop_bit 31 (push_bit 31 (drop_bit 31 en)) = drop_bit 31 en"
      by (rule bit_word_eqI) (auto simp: bit_simps dest: bit_imp_le_length)
    finally show "drop_bit 31 en = 0" .
  qed simp
  ultimately show ?thesis
    unfolding \<open>n = 31\<close> top by (simp only: counter_enabled_def simp_thms if_True)
next
  case False
  with assms have "scast (push_bit n 1 :: i32) = (push_bit n 1 :: u64)"
    by (intro bit_word_eqI) (auto simp: bit_simps min_def)
  with False show ?thesis by (simp add: and_push_bit_1_zero counter_enabled_def del: push_bit_of_1)
qed


lemma mod_3072_3200: "(3072 + k) mod 32 = k mod 32" "(3200 + k) mod 32 = k mod 32" for k :: nat
  using mod_mult_self3 [of 96 32 k] mod_mult_self3 [of 100 32 k] by simp_all

lemma counter_index:
  assumes "(CSR_hpmcounter_begin \<le> addr \<and> addr < CSR_hpmcounter_end) \<or>
    (CSR_hpmcounterh_begin \<le> addr \<and> addr < CSR_hpmcounterh_end)"
  obtains i where "GetPerformanceCounterIndex addr = Inr i" "unat i = unat addr mod 32"
    "unat i < 32"
  using assms
proof (elim disjE)
  assume r: "CSR_hpmcounter_begin \<le> addr \<and> addr < CSR_hpmcounter_end"
  then have "unat addr = 3072 + unat (addr - CSR_hpmcounter_begin)"
    by simp unat_arith
  moreover from r have "unat (addr - CSR_hpmcounter_begin) < 32" by simp unat_arith
  ultimately have "unat (addr - CSR_hpmcounter_begin) = unat addr mod 32"
    by (simp add: mod_3072_3200)
  with r show ?thesis
    using that [of "addr - CSR_hpmcounter_begin"] mod_less_divisor [of 32 "unat addr"]
    by (simp add: GetPerformanceCounterIndex_def) (simp add: word_le_nat_alt word_less_nat_alt)
next
  assume r: "CSR_hpmcounterh_begin \<le> addr \<and> addr < CSR_hpmcounterh_end"
  then have "unat addr = 3200 + unat (addr - CSR_hpmcounterh_begin)"
    by simp unat_arith
  moreover from r have "unat (addr - CSR_hpmcounterh_begin) < 32" by simp unat_arith
  ultimately have "unat (addr - CSR_hpmcounterh_begin) = unat addr mod 32"
    by (simp add: mod_3072_3200)
  with r show ?thesis
    using that [of "addr - CSR_hpmcounterh_begin"] mod_less_divisor [of 32 "unat addr"]
    by (simp add: GetPerformanceCounterIndex_def) (simp add: word_le_nat_alt word_less_nat_alt)
qed



lemma counter_disabled_iff:
  assumes "unat i < 32"
  shows "Csr_counter_disabled csr i \<longleftrightarrow>
    \<not> ((csr_m_PrivilegeLevel csr \<in> {User, Supervisor} \<longrightarrow>
          counter_enabled (csr_m_MachineCounterEnable csr) (unat i)) \<and>
       (csr_m_PrivilegeLevel csr = User \<longrightarrow>
          counter_enabled (csr_m_SupervisorCounterEnable csr) (unat i)))"
  using assms
  by (cases "csr_m_PrivilegeLevel csr")
     (auto simp: Csr_counter_disabled_def counter_mask simp del: push_bit_of_1)

lemma sint_small: "unat v < 2147483648 \<Longrightarrow> sint v = int (unat v)" for v :: u32
proof -
  assume "unat v < 2147483648"
  then have "int (unat v) < 2147483648" by linarith
  then have "uint v < 2 ^ 31" by simp
  then have "signed_take_bit 31 (uint v) = uint v"
    by (intro signed_take_bit_int_eq_self) (simp_all add: order_trans [of _ 0])
  then show ?thesis by (simp add: sint_uint)
qed

lemma int_div_1024: "int n div 1024 = int (n div 1024)"
  using zdiv_int [of n 1024] by simp

text \<open>The answer of the check as one value.\<close>

definition counter_trap :: "Csr \<Rightarrow> csr_addr_t \<Rightarrow> bool" where
  "counter_trap csr addr \<longleftrightarrow>
     ((CSR_hpmcounter_begin \<le> addr \<and> addr < CSR_hpmcounter_end) \<or>
      (CSR_hpmcounterh_begin \<le> addr \<and> addr < CSR_hpmcounterh_end)) \<and>
     \<not> ((csr_m_PrivilegeLevel csr \<in> {User, Supervisor} \<longrightarrow>
          counter_enabled (csr_m_MachineCounterEnable csr) (unat addr mod 32)) \<and>
       (csr_m_PrivilegeLevel csr = User \<longrightarrow>
          counter_enabled (csr_m_SupervisorCounterEnable csr) (unat addr mod 32)))"

lemma counter_check:
  "bindM (liftM (GetPerformanceCounterIndex addr)) (\<lambda>index.
     bindM (check_range 0 (sint index) 32) (\<lambda>_. returnM (Csr_counter_disabled csr index)))
   = (returnM (counter_trap csr addr) :: (Csr, bool) act)"
  if c: "(CSR_hpmcounter_begin \<le> addr \<and> addr < CSR_hpmcounter_end) \<or>
    (CSR_hpmcounterh_begin \<le> addr \<and> addr < CSR_hpmcounterh_end)"
proof -
  obtain i where i: "GetPerformanceCounterIndex addr = Inr i" "unat i = unat addr mod 32"
      "unat i < 32"
    using c by (rule counter_index)
  have "sint i = int (unat i)" using i(3) by (intro sint_small) linarith
  with i(3) have "check_range 0 (sint i) 32 = (returnM () :: (Csr, unit) act)"
    by (intro check_range_ok) linarith+
  then have *: "bindM (liftM (GetPerformanceCounterIndex addr)) (\<lambda>index.
     bindM (check_range 0 (sint index) 32) (\<lambda>_. returnM (Csr_counter_disabled csr index)))
     = (returnM (Csr_counter_disabled csr i) :: (Csr, bool) act)"
    by (simp add: i(1))
  from counter_disabled_iff [OF i(3)] c i(2) show ?thesis
    unfolding * by (simp only: counter_trap_def simp_thms)
qed

lemma NumberOfRegister_value: "NumberOfRegister = 4096"
  by (simp add: NumberOfRegister_def)

lemma CheckTrap_value:
  assumes "unat addr < 4096"
  shows "Csr_CheckTrap addr write pc insn csr =
    (let illegal = Some (MakeIllegalInstructionException pc insn) in
     Inr (if IsSupervisorModeRegister addr \<and> csr_m_PrivilegeLevel csr = User then illegal
          else if IsReservedModeRegister addr then illegal
          else if IsMachineModeRegister addr \<and>
            (csr_m_PrivilegeLevel csr = User \<or> csr_m_PrivilegeLevel csr = Supervisor) then illegal
          else if unat addr div 1024 = 3 \<and> write then illegal
          else if addr = CSR_satp \<and> csr_m_PrivilegeLevel csr = Supervisor \<and>
               bit (csr_m_Status csr) 20 then illegal
          else if counter_trap csr addr then illegal
          else if addr = CSR_time then Some (MakeIllegalInstructionException pc 0)
          else None, csr))"
proof -
  have s: "sint addr = int (unat addr)" using assms by (simp add: sint_small)
  have r: "check_range 0 (sint addr) NumberOfRegister = (returnM () :: (Csr, unit) act)"
  proof (rule check_range_ok)
    show "0 \<le> sint addr" using s by linarith
    show "sint addr \<le> NumberOfRegister" using s assms NumberOfRegister_value by linarith
  qed
  have ro: "sint addr div 1024 = 3 \<longleftrightarrow> unat addr div 1024 = 3"
    unfolding s int_div_1024 by linarith
  have tvm: "GetMember xstatus_TVM (csr_m_Status csr) \<noteq> 0 \<longleftrightarrow> bit (csr_m_Status csr) 20"
    by (simp add: GetMember_single_zero)
  have c: "(if (CSR_hpmcounter_begin \<le> addr \<and> addr < CSR_hpmcounter_end) \<or>
      (CSR_hpmcounterh_begin \<le> addr \<and> addr < CSR_hpmcounterh_end)
    then bindM (liftM (GetPerformanceCounterIndex addr)) (\<lambda>index.
         bindM (check_range 0 (sint index) 32) (\<lambda>_. returnM (Csr_counter_disabled csr index)))
    else returnM False) = (returnM (counter_trap csr addr) :: (Csr, bool) act)"
    using counter_check [of addr csr] unfolding counter_trap_def by (cases "counter_trap csr addr") auto
  show ?thesis
    unfolding Csr_CheckTrap_def Let_def r ro tvm c bindM_returnM
    by (simp only: returnM_def if_distrib [of "\<lambda>t. Inr (t, csr)"] if_distribR)
qed

text \<open>On registers of 32 bits, the mask of the code is the bit of the counter.\<close>

lemma counter_enabled_bit:
  assumes "n < 32" "n = 31 \<Longrightarrow> en < 2 ^ 32"
  shows "counter_enabled en n = bit en n"
proof (cases "n = 31")
  case True
  then have "unat en < 2 ^ 32" using assms(2) by (simp add: word_less_nat_alt)
  then have "unat en div 2 ^ 31 < 2" by (simp add: less_mult_imp_div_less)
  then have "unat en div 2 ^ 31 = 0 \<or> unat en div 2 ^ 31 = 1" by linarith
  moreover have "unat (drop_bit 31 en) = drop_bit 31 (unat en)"
    by (rule bit_eqI) (auto simp: bit_simps dest: bit_imp_le_length)
  then have "drop_bit 31 en \<noteq> 0 \<longleftrightarrow> unat en div 2 ^ 31 \<noteq> 0"
    by (metis drop_bit_eq_div unsigned_eq_0_iff)
  moreover have "bit en 31 \<longleftrightarrow> odd (unat en div 2 ^ 31)"
    using bit_iff_odd [of "unat en" 31] by (simp add: bit_simps)
  ultimately show ?thesis using True by (auto simp: counter_enabled_def)
qed (simp add: counter_enabled_def)

lemma counter_31:
  fixes addr :: csr_addr_t
  assumes "(0xc00 \<le> addr \<and> addr < 0xc20) \<or> (0xc80 \<le> addr \<and> addr < 0xca0)" "unat addr mod 32 = 31"
  shows "addr \<in> {0xc1f, 0xc9f}"
proof -
  have "unat addr = 0xc1f \<or> unat addr = 0xc9f"
    using assms by (auto simp: word_le_nat_alt word_less_nat_alt) presburger+
  then show ?thesis by (simp add: word_unat_eq_iff)
qed

text \<open>
  C21: the access check of the control and status registers. On every 12-bit address and
  every architectural privilege level the check returns without changing a register. It lets the
  access pass exactly when the privileged architecture allows it, but for \<open>time\<close>, which always
  traps, and it traps with an illegal instruction at the program counter. At the two addresses of
  counter 31 the counter-enable registers are assumed to hold no more than their 32 bits.
\<close>

theorem csr_access_control:
  assumes "addr < 4096" and "csr_m_PrivilegeLevel csr \<noteq> Reserved"
    and "addr \<in> {0xc1f, 0xc9f} \<Longrightarrow>
      csr_m_MachineCounterEnable csr < 2 ^ 32 \<and> csr_m_SupervisorCounterEnable csr < 2 ^ 32"
  shows "\<exists>t. Csr_CheckTrap addr write pc insn csr = Inr (t, csr) \<and>
    (t = None \<longleftrightarrow> csr_allowed csr addr write \<and> addr \<noteq> CSR_time) \<and>
    (\<forall>trap. t = Some trap \<longrightarrow> (\<exists>value. trap = MakeIllegalInstructionException pc value))"
proof -
  have small: "unat addr < 4096" using assms(1) by (simp add: word_less_nat_alt)
  have counter: "counter_trap csr addr \<longleftrightarrow> (0xc00 \<le> addr \<and> addr < 0xc20 \<or> 0xc80 \<le> addr \<and> addr < 0xca0) \<and>
      \<not> ((csr_m_PrivilegeLevel csr \<in> {User, Supervisor} \<longrightarrow> bit (csr_m_MachineCounterEnable csr) (unat addr mod 32)) \<and>
        (csr_m_PrivilegeLevel csr = User \<longrightarrow> bit (csr_m_SupervisorCounterEnable csr) (unat addr mod 32)))"
  proof (cases "0xc00 \<le> addr \<and> addr < 0xc20 \<or> 0xc80 \<le> addr \<and> addr < 0xca0")
    case True
    have "counter_enabled (csr_m_MachineCounterEnable csr) (unat addr mod 32) = bit (csr_m_MachineCounterEnable csr) (unat addr mod 32)"
      "counter_enabled (csr_m_SupervisorCounterEnable csr) (unat addr mod 32) = bit (csr_m_SupervisorCounterEnable csr) (unat addr mod 32)"
      using assms(3) counter_31 [OF True] by (intro counter_enabled_bit; simp)+
    then show ?thesis by (simp add: counter_trap_def)
  qed (auto simp: counter_trap_def)
  have "take_bit 2 (drop_bit 8 (unat addr)) \<in> {0, 1, 2, 3}"
    using mode_register_cases [of addr] by (auto simp: mode_of_address)
  with assms(2) show ?thesis
    unfolding CheckTrap_value [OF small] counter
    by (cases "csr_m_PrivilegeLevel csr")
       (auto simp: csr_allowed_def Let_def mode_of_address PrivilegeLevel_value_def)
qed

text \<open>A machine register from the machine level, and a counter that the user level has no access to.\<close>

theorem csr_access_control_witness:
  "\<exists>csr t u. Csr_CheckTrap 0x300 True 0x1000 0 csr = Inr (t, csr) \<and> t = None \<and>
    Csr_CheckTrap 0xc1f False 0x1000 0 (csr\<lparr>csr_m_PrivilegeLevel := User\<rparr>) = Inr (u, csr\<lparr>csr_m_PrivilegeLevel := User\<rparr>) \<and> u \<noteq> None"
proof -
  obtain csr where csr: "Csr_new XLEN64 0 = Inr csr" "csr_m_PrivilegeLevel csr = Machine"
      "csr_m_MachineCounterEnable csr = 0" "csr_m_SupervisorCounterEnable csr = 0"
    by (simp add: Csr_new_def Csr_init_ISA_def)
  have a: "csr_allowed csr 0x300 True" "\<not> csr_allowed (csr\<lparr>csr_m_PrivilegeLevel := User\<rparr>) 0xc1f False"
    using csr by (simp_all add: csr_allowed_def PrivilegeLevel_value_def Let_def drop_bit_eq_div take_bit_eq_mod)
  obtain t u where "Csr_CheckTrap 0x300 True 0x1000 0 csr = Inr (t, csr)" "t = None"
      "Csr_CheckTrap 0xc1f False 0x1000 0 (csr\<lparr>csr_m_PrivilegeLevel := User\<rparr>) = Inr (u, csr\<lparr>csr_m_PrivilegeLevel := User\<rparr>)" "u \<noteq> None"
    using csr_access_control [of "0x300" csr True "0x1000" 0] a csr
      csr_access_control [of "0xc1f" "csr\<lparr>csr_m_PrivilegeLevel := User\<rparr>" False "0x1000" 0] by auto
  then show ?thesis by blast
qed

section \<open>Registers that hold what was written\<close>

definition csr_plain :: "csr_addr_t set" where
  "csr_plain = {CSR_medeleg, CSR_mideleg, CSR_mtvec, CSR_mcounteren, CSR_mscratch, CSR_mepc,
     CSR_mcause, CSR_mtval, CSR_sedeleg, CSR_sideleg, CSR_stvec, CSR_scounteren, CSR_sscratch,
     CSR_sepc, CSR_scause, CSR_stval, CSR_satp, CSR_utvec, CSR_uscratch, CSR_uepc, CSR_ucause,
     CSR_utval}"

lemma csr_plain_mode:
  "IsMachineModeRegister addr \<longleftrightarrow> drop_bit 8 addr AND 3 = 3"
  "IsSupervisorModeRegister addr \<longleftrightarrow> drop_bit 8 addr AND 3 = 1"
  "IsUserModeRegister addr \<longleftrightarrow> drop_bit 8 addr AND 3 = 0"
  by (simp_all add: IsMachineModeRegister_def IsSupervisorModeRegister_def IsUserModeRegister_def)

lemmas csr_read_defs = Csr_ReadUInt64_def ReadMachineModeRegister_def
  ReadSupervisorModeRegister_def ReadUserModeRegister_def csr_plain_mode

lemmas csr_write_defs = Csr_WriteUInt64_def WriteMachineModeRegister_def
  WriteSupervisorModeRegister_def WriteUserModeRegister_def csr_plain_mode

text \<open>The plain registers, read and written at their literal addresses.\<close>

lemma csr_read_plain:
  "Csr_ReadUInt64 0x302 csr = Inr (csr_m_MachineExceptionDelegation csr)"
  "Csr_ReadUInt64 0x303 csr = Inr (csr_m_MachineInterruptDelegation csr)"
  "Csr_ReadUInt64 0x305 csr = Inr (csr_m_MachineTrapVector csr)"
  "Csr_ReadUInt64 0x306 csr = Inr (csr_m_MachineCounterEnable csr)"
  "Csr_ReadUInt64 0x340 csr = Inr (csr_m_MachineScratch csr)"
  "Csr_ReadUInt64 0x341 csr = Inr (csr_m_MachineExceptionProgramCounter csr)"
  "Csr_ReadUInt64 0x342 csr = Inr (csr_m_MachineCause csr)"
  "Csr_ReadUInt64 0x343 csr = Inr (csr_m_MachineTrapValue csr)"
  "Csr_ReadUInt64 0x102 csr = Inr (csr_m_SupervisorExceptionDelegation csr)"
  "Csr_ReadUInt64 0x103 csr = Inr (csr_m_SupervisorInterruptDelegation csr)"
  "Csr_ReadUInt64 0x105 csr = Inr (csr_m_SupervisorTrapVector csr)"
  "Csr_ReadUInt64 0x106 csr = Inr (csr_m_SupervisorCounterEnable csr)"
  "Csr_ReadUInt64 0x140 csr = Inr (csr_m_SupervisorScratch csr)"
  "Csr_ReadUInt64 0x141 csr = Inr (csr_m_SupervisorExceptionProgramCounter csr)"
  "Csr_ReadUInt64 0x142 csr = Inr (csr_m_SupervisorCause csr)"
  "Csr_ReadUInt64 0x143 csr = Inr (csr_m_SupervisorTrapValue csr)"
  "Csr_ReadUInt64 0x180 csr = Inr (csr_m_SupervisorAddressTranslationProtection csr)"
  "Csr_ReadUInt64 5 csr = Inr (csr_m_UserTrapVector csr)"
  "Csr_ReadUInt64 0x40 csr = Inr (csr_m_UserScratch csr)"
  "Csr_ReadUInt64 0x41 csr = Inr (csr_m_UserExceptionProgramCounter csr)"
  "Csr_ReadUInt64 0x42 csr = Inr (csr_m_UserCause csr)"
  "Csr_ReadUInt64 0x43 csr = Inr (csr_m_UserTrapValue csr)"
  by (simp_all add: csr_read_defs)

lemma csr_write_plain:
  "Csr_WriteUInt64 0x302 v csr = Inr ((), csr\<lparr>csr_m_MachineExceptionDelegation := v\<rparr>)"
  "Csr_WriteUInt64 0x303 v csr = Inr ((), csr\<lparr>csr_m_MachineInterruptDelegation := v\<rparr>)"
  "Csr_WriteUInt64 0x305 v csr = Inr ((), csr\<lparr>csr_m_MachineTrapVector := v\<rparr>)"
  "Csr_WriteUInt64 0x306 v csr = Inr ((), csr\<lparr>csr_m_MachineCounterEnable := v\<rparr>)"
  "Csr_WriteUInt64 0x340 v csr = Inr ((), csr\<lparr>csr_m_MachineScratch := v\<rparr>)"
  "Csr_WriteUInt64 0x341 v csr = Inr ((), csr\<lparr>csr_m_MachineExceptionProgramCounter := v\<rparr>)"
  "Csr_WriteUInt64 0x342 v csr = Inr ((), csr\<lparr>csr_m_MachineCause := v\<rparr>)"
  "Csr_WriteUInt64 0x343 v csr = Inr ((), csr\<lparr>csr_m_MachineTrapValue := v\<rparr>)"
  "Csr_WriteUInt64 0x102 v csr = Inr ((), csr\<lparr>csr_m_SupervisorExceptionDelegation := v\<rparr>)"
  "Csr_WriteUInt64 0x103 v csr = Inr ((), csr\<lparr>csr_m_SupervisorInterruptDelegation := v\<rparr>)"
  "Csr_WriteUInt64 0x105 v csr = Inr ((), csr\<lparr>csr_m_SupervisorTrapVector := v\<rparr>)"
  "Csr_WriteUInt64 0x106 v csr = Inr ((), csr\<lparr>csr_m_SupervisorCounterEnable := v\<rparr>)"
  "Csr_WriteUInt64 0x140 v csr = Inr ((), csr\<lparr>csr_m_SupervisorScratch := v\<rparr>)"
  "Csr_WriteUInt64 0x141 v csr = Inr ((), csr\<lparr>csr_m_SupervisorExceptionProgramCounter := v\<rparr>)"
  "Csr_WriteUInt64 0x142 v csr = Inr ((), csr\<lparr>csr_m_SupervisorCause := v\<rparr>)"
  "Csr_WriteUInt64 0x143 v csr = Inr ((), csr\<lparr>csr_m_SupervisorTrapValue := v\<rparr>)"
  "Csr_WriteUInt64 0x180 v csr =
     Inr ((), csr\<lparr>csr_m_SupervisorAddressTranslationProtection := v\<rparr>)"
  "Csr_WriteUInt64 5 v csr = Inr ((), csr\<lparr>csr_m_UserTrapVector := v\<rparr>)"
  "Csr_WriteUInt64 0x40 v csr = Inr ((), csr\<lparr>csr_m_UserScratch := v\<rparr>)"
  "Csr_WriteUInt64 0x41 v csr = Inr ((), csr\<lparr>csr_m_UserExceptionProgramCounter := v\<rparr>)"
  "Csr_WriteUInt64 0x42 v csr = Inr ((), csr\<lparr>csr_m_UserCause := v\<rparr>)"
  "Csr_WriteUInt64 0x43 v csr = Inr ((), csr\<lparr>csr_m_UserTrapValue := v\<rparr>)"
  by (simp_all add: csr_write_defs)

lemmas csr_plain_simps = csr_read_plain csr_write_plain

text \<open>
  C28: a plain register holds the value last written to it, and a write to a plain register
  is not seen at any other plain register. Writes never fail there.
\<close>

theorem csr_read_after_write:
  assumes "a \<in> csr_plain" "b \<in> csr_plain"
  shows "\<exists>csr'. Csr_WriteUInt64 a v csr = Inr ((), csr') \<and>
    Csr_ReadUInt64 b csr' = (if b = a then Inr v else Csr_ReadUInt64 b csr)"
  using assms unfolding csr_plain_def
  by (simp only: insert_iff empty_iff simp_thms)
     (elim disjE; simp add: csr_plain_simps)

theorem csr_read_after_write_witness:
  "\<exists>csr csr'. Csr_WriteUInt64 CSR_mepc 0x80000004 csr = Inr ((), csr') \<and>
    Csr_ReadUInt64 CSR_mepc csr' = Inr 0x80000004"
  using csr_read_after_write [where a = CSR_mepc and b = CSR_mepc and v = "0x80000004"]
  by (fastforce simp: csr_plain_def)

section \<open>The masked registers\<close>

text \<open>The masks as bit sets.\<close>

lemma bit_word_of_mask: "bit (Member_Mask m :: 'a::len word) n \<longleftrightarrow>
    n < LENGTH('a) \<and> snd m \<le> n \<and> n \<le> max (fst m) (snd m)"
  by (auto simp: bit_Member_Mask)

lemma mask_values:
  "xstatus_WriteMask = 0x7FF9BB"
  "xstatus_SupervisorMask_RV32 = 0x800DE133"
  "xstatus_SupervisorMask_RV64 = 0x8000000F000DE133"
  "xstatus_UserMask = 0x11"
  "xip_WriteMask = 0xB0B" "xip_UserMask = 0x111" "xip_SupervisorMask = 0x333"
  "xip_MachineMask = 0xBBB"
  "xie_UserMask = 0x111" "xie_SupervisorMask = 0x333" "xie_MachineMask = 0xBBB"
  "fcsr_UserMask = 0xFF"
  by (simp_all add: csr_mask_defs Member_Mask_def)

text \<open>
  The registers with unwritable bits: no write may set a bit outside its mask, the width is
  one of the two supported ones, and the privilege level is never the reserved one.
\<close>

definition csr_inv :: "Csr \<Rightarrow> bool" where
  "csr_inv csr \<longleftrightarrow> csr_m_XLEN csr \<noteq> XLEN128 \<and> csr_m_PrivilegeLevel csr \<noteq> Reserved \<and>
     csr_m_Status csr AND xstatus_WriteMask = csr_m_Status csr \<and>
     csr_m_InterruptEnable csr AND xie_MachineMask = csr_m_InterruptEnable csr \<and>
     csr_m_InterruptPending csr AND xip_MachineMask = csr_m_InterruptPending csr"

lemma masked_SetWithMask:
  fixes v :: "'a::len word"
  assumes "v AND m = v" and "n AND m = n"
  shows "SetWithMask x n v AND m = SetWithMask x n v"
proof -
  have "(v AND NOT n) AND m = v AND NOT n" "(x AND n) AND m = x AND n"
    by (metis assms(1) and.assoc and.commute, metis assms(2) and.assoc)
  then show ?thesis by (simp add: SetWithMask_def bit.conj_disj_distrib2)
qed

lemma csr_inv_fields:
  assumes "csr_inv csr"
  shows "csr_inv (csr\<lparr>csr_m_Status := SetWithMask v xstatus_WriteMask (csr_m_Status csr)\<rparr>)"
    and "n AND xie_MachineMask = n \<Longrightarrow>
      csr_inv (csr\<lparr>csr_m_InterruptEnable := SetWithMask v n (csr_m_InterruptEnable csr)\<rparr>)"
    and "n AND xip_MachineMask = n \<Longrightarrow>
      csr_inv (csr\<lparr>csr_m_InterruptPending := SetWithMask v n (csr_m_InterruptPending csr)\<rparr>)"
  using assms by (simp_all add: csr_inv_def masked_SetWithMask)

lemma csr_inv_other [simp]:
  "csr_inv (csr\<lparr>csr_m_MachineTrapVector := v\<rparr>) = csr_inv csr"
  "csr_inv (csr\<lparr>csr_m_SupervisorTrapVector := v\<rparr>) = csr_inv csr"
  "csr_inv (csr\<lparr>csr_m_UserTrapVector := v\<rparr>) = csr_inv csr"
  "csr_inv (csr\<lparr>csr_m_MachineExceptionDelegation := v\<rparr>) = csr_inv csr"
  "csr_inv (csr\<lparr>csr_m_SupervisorExceptionDelegation := v\<rparr>) = csr_inv csr"
  "csr_inv (csr\<lparr>csr_m_MachineInterruptDelegation := v\<rparr>) = csr_inv csr"
  "csr_inv (csr\<lparr>csr_m_SupervisorInterruptDelegation := v\<rparr>) = csr_inv csr"
  "csr_inv (csr\<lparr>csr_m_MachineCounterEnable := v\<rparr>) = csr_inv csr"
  "csr_inv (csr\<lparr>csr_m_SupervisorCounterEnable := v\<rparr>) = csr_inv csr"
  "csr_inv (csr\<lparr>csr_m_MachineScratch := v\<rparr>) = csr_inv csr"
  "csr_inv (csr\<lparr>csr_m_SupervisorScratch := v\<rparr>) = csr_inv csr"
  "csr_inv (csr\<lparr>csr_m_UserScratch := v\<rparr>) = csr_inv csr"
  "csr_inv (csr\<lparr>csr_m_MachineExceptionProgramCounter := v\<rparr>) = csr_inv csr"
  "csr_inv (csr\<lparr>csr_m_SupervisorExceptionProgramCounter := v\<rparr>) = csr_inv csr"
  "csr_inv (csr\<lparr>csr_m_UserExceptionProgramCounter := v\<rparr>) = csr_inv csr"
  "csr_inv (csr\<lparr>csr_m_MachineCause := v\<rparr>) = csr_inv csr"
  "csr_inv (csr\<lparr>csr_m_SupervisorCause := v\<rparr>) = csr_inv csr"
  "csr_inv (csr\<lparr>csr_m_UserCause := v\<rparr>) = csr_inv csr"
  "csr_inv (csr\<lparr>csr_m_MachineTrapValue := v\<rparr>) = csr_inv csr"
  "csr_inv (csr\<lparr>csr_m_SupervisorTrapValue := v\<rparr>) = csr_inv csr"
  "csr_inv (csr\<lparr>csr_m_UserTrapValue := v\<rparr>) = csr_inv csr"
  "csr_inv (csr\<lparr>csr_m_SupervisorAddressTranslationProtection := v\<rparr>) = csr_inv csr"
  "csr_inv (csr\<lparr>csr_m_CycleCounter := v\<rparr>) = csr_inv csr"
  "csr_inv (csr\<lparr>csr_m_TimeCounter := v\<rparr>) = csr_inv csr"
  "csr_inv (csr\<lparr>csr_m_InstructionRetiredCounter := v\<rparr>) = csr_inv csr"
  "csr_inv (csr\<lparr>csr_m_ProgramCounter := v\<rparr>) = csr_inv csr"
  "csr_inv (csr\<lparr>csr_m_FpCsr := f\<rparr>) = csr_inv csr"
  by (simp_all add: csr_inv_def)

lemma mask_in_mask:
  "xie_SupervisorMask AND xie_MachineMask = xie_SupervisorMask"
  "xie_UserMask AND xie_MachineMask = xie_UserMask"
  "(xip_MachineMask AND xip_WriteMask) AND xip_MachineMask = xip_MachineMask AND xip_WriteMask"
  "(xip_WriteMask AND xip_SupervisorMask) AND xip_MachineMask = xip_WriteMask AND xip_SupervisorMask"
  "(xip_WriteMask AND xip_UserMask) AND xip_MachineMask = xip_WriteMask AND xip_UserMask"
  by (simp_all add: mask_values)

lemma csr_inv_Write:
  assumes "csr_inv csr"
  shows "csr_inv (WriteMachineModeRegister addr v csr)"
    and "csr_inv (WriteUserModeRegister addr v csr)"
    and "\<exists>csr'. WriteSupervisorModeRegister addr v csr = Inr csr' \<and> csr_inv csr'"
proof -
  have x: "csr_m_XLEN csr \<noteq> XLEN128" using assms by (simp add: csr_inv_def)
  note upd = assms csr_inv_fields [OF assms] mask_in_mask Csr_WriteStatus_def
  show "csr_inv (WriteMachineModeRegister addr v csr)"
    unfolding WriteMachineModeRegister_def by (simp add: upd)
  show "csr_inv (WriteUserModeRegister addr v csr)"
    unfolding WriteUserModeRegister_def by (simp add: upd)
  show "\<exists>csr'. WriteSupervisorModeRegister addr v csr = Inr csr' \<and> csr_inv csr'"
    using x unfolding WriteSupervisorModeRegister_def
    by (cases "csr_m_XLEN csr") (simp_all add: upd)
qed

lemma returns_Csr_Write: "returns csr_inv (Csr_WriteUInt64 addr v) (\<lambda>_. True)"
proof (rule returnsI)
  fix csr assume inv: "csr_inv csr"
  obtain csr' where s: "WriteSupervisorModeRegister addr v csr = Inr csr'" "csr_inv csr'"
    using csr_inv_Write(3) [OF inv] by blast
  show "\<exists>x t. Csr_WriteUInt64 addr v csr = Inr (x, t) \<and> csr_inv t \<and> True"
    using s csr_inv_Write(1,2) [OF inv, of addr v] inv by (simp add: Csr_WriteUInt64_def)
qed

lemma returns_Csr_Write32: "returns csr_inv (Csr_WriteUInt32 addr v) (\<lambda>_. True)"
  unfolding Csr_WriteUInt32_def by (rule returns_Csr_Write)

lemma csr_inv_init:
  assumes "Csr_new xlen pc = Inr csr"
  shows "csr_inv csr"
  using assms by (cases xlen) (auto simp: Csr_new_def Csr_init_ISA_def csr_inv_def)

lemma Csr_Read_total:
  assumes "csr_inv csr"
  shows "\<exists>v. Csr_ReadUInt64 addr csr = Inr v"
proof -
  have x: "csr_m_XLEN csr \<noteq> XLEN128" using assms by (simp add: csr_inv_def)
  then have "\<exists>v. Csr_ReadStatus csr = Inr v"
    by (cases "csr_m_XLEN csr") (simp_all add: Csr_ReadStatus_def Let_def)
  then obtain s where "Csr_ReadStatus csr = Inr s" by blast
  with x show ?thesis
    by (cases "csr_m_XLEN csr")
       (simp_all add: Csr_ReadUInt64_def ReadMachineModeRegister_def
         ReadSupervisorModeRegister_def ReadUserModeRegister_def)
qed

text \<open>A sequence of writes.\<close>

fun csr_writes :: "(csr_addr_t \<times> u64) list \<Rightarrow> (Csr, unit) act" where
  "csr_writes [] = returnM ()"
| "csr_writes ((addr, v) # ws) = bindM (Csr_WriteUInt64 addr v) (\<lambda>_. csr_writes ws)"

lemma returns_csr_writes: "returns csr_inv (csr_writes ws) (\<lambda>_. True)"
  by (induction ws rule: csr_writes.induct)
     (auto intro: returns_returnM returns_bindM returns_Csr_Write)

text \<open>
  C12: the registers are total and keep their invariant. From a fresh register file, any
  sequence of writes of any values to any addresses returns; afterwards the reserved bits of
  the status, interrupt-enable and interrupt-pending registers are zero, and every address
  can be read.
\<close>

theorem csr_invariant:
  assumes "Csr_new xlen pc = Inr csr0"
  shows "\<exists>csr. csr_writes ws csr0 = Inr ((), csr) \<and> csr_inv csr \<and>
     (\<forall>addr. \<exists>w. Csr_ReadUInt64 addr csr = Inr w)"
proof -
  obtain csr where "csr_writes ws csr0 = Inr ((), csr)" "csr_inv csr"
    by (rule returnsE [OF returns_csr_writes csr_inv_init [OF assms]]) simp
  then show ?thesis using Csr_Read_total by blast
qed

theorem csr_invariant_witness:
  "\<exists>csr0 csr. Csr_new XLEN32 0x1000 = Inr csr0 \<and>
     csr_writes [(CSR_mstatus, - 1), (CSR_mip, - 1)] csr0 = Inr ((), csr) \<and> csr_inv csr"
proof -
  obtain csr0 where "Csr_new XLEN32 0x1000 = Inr csr0" by (simp add: Csr_new_def Csr_init_ISA_def)
  with csr_invariant [OF this] show ?thesis by blast
qed

section \<open>The status register\<close>

text \<open>
  What a write of \<open>mstatus\<close>, \<open>sstatus\<close> or \<open>ustatus\<close> stores: the value keeps its lower
  32 bits, the narrower views keep their mask, and \<open>WriteStatus\<close> replaces every
  writable bit, those of the wider views included.
\<close>

definition status_view :: "XLEN \<Rightarrow> csr_addr_t \<Rightarrow> u64" where
  "status_view xlen addr =
     (if addr = CSR_mstatus then - 1
      else if addr = CSR_ustatus then xstatus_UserMask
      else if xlen = XLEN32 then xstatus_SupervisorMask_RV32 else xstatus_SupervisorMask_RV64)"

lemma WriteMask_low: "bit xstatus_WriteMask n \<Longrightarrow> n < 32"
proof -
  have "xstatus_WriteMask = take_bit 32 xstatus_WriteMask" by (simp add: mask_values)
  then show "bit xstatus_WriteMask n \<Longrightarrow> n < 32" by (metis bit_take_bit_iff)
qed

lemma GetMember_zero:
  assumes "\<And>n. snd m \<le> n \<Longrightarrow> n \<le> fst m \<Longrightarrow> \<not> bit s n" "snd m \<le> fst m"
  shows "GetMember m s = 0"
  using assms by (intro bit_word_eqI) (auto simp: bit_simps)

lemma status_write:
  assumes "csr_inv csr" "addr \<in> {CSR_mstatus, CSR_sstatus, CSR_ustatus}"
  shows "Csr_WriteUInt64 addr v csr =
    Inr ((), csr\<lparr>csr_m_Status := v AND status_view (csr_m_XLEN csr) addr AND xstatus_WriteMask\<rparr>)"
proof -
  have old: "csr_m_Status csr AND NOT xstatus_WriteMask = 0"
    using assms(1) unfolding csr_inv_def by (metis and.assoc bit.conj_cancel_right bit.conj_zero_right)
  have m32: "xstatus_of w AND xstatus_WriteMask = w AND xstatus_WriteMask" for w
    by (rule bit_word_eqI)
       (auto simp: bit_simps xstatus_of_def dest: WriteMask_low bit_imp_le_length)
  have w: "Csr_WriteStatus (xstatus_of u) csr = csr\<lparr>csr_m_Status := u AND xstatus_WriteMask\<rparr>" for u
    by (simp add: Csr_WriteStatus_def SetWithMask_def old m32)
  have x: "csr_m_XLEN csr \<noteq> XLEN128" using assms(1) by (simp add: csr_inv_def)
  from assms(2) consider "addr = CSR_mstatus" | "addr = CSR_sstatus" | "addr = CSR_ustatus" by blast
  then show ?thesis
  proof cases
    case 1
    then show ?thesis by (simp add: csr_write_defs w status_view_def)
  next
    case 2
    with x show ?thesis
      by (cases "csr_m_XLEN csr") (simp_all add: csr_write_defs w status_view_def and.assoc)
  next
    case 3
    then show ?thesis by (simp add: csr_write_defs w status_view_def and.assoc)
  qed
qed


text \<open>
  A write of \<open>sstatus\<close> or \<open>ustatus\<close> does not stay inside its view. Whatever is
  written, afterwards every bit of the machine status that the view does not show is zero:
  the machine-level interrupt enable, the previous machine interrupt enable and the previous
  machine privilege are lost.
\<close>

theorem sstatus_write_clears_machine_bits:
  assumes "csr_inv csr" "addr \<in> {CSR_sstatus, CSR_ustatus}"
  shows "\<exists>csr'. Csr_WriteUInt64 addr v csr = Inr ((), csr') \<and>
    GetMember xstatus_MIE (csr_m_Status csr') = 0 \<and>
    GetMember xstatus_MPIE (csr_m_Status csr') = 0 \<and>
    GetMember xstatus_MPP (csr_m_Status csr') = 0"
proof -
  let ?s = "v AND status_view (csr_m_XLEN csr) addr AND xstatus_WriteMask"
  have hidden: "\<not> bit ?s n" if "n \<in> {3, 7, 11, 12}" for n
    using that assms(2) by (auto simp: bit_simps status_view_def mask_values)
  have "GetMember xstatus_MPP ?s = 0"
  proof (rule GetMember_zero)
    fix n assume "snd xstatus_MPP \<le> n" "n \<le> fst xstatus_MPP"
    then have "n = 11 \<or> n = 12" by simp linarith
    then show "\<not> bit ?s n" using hidden by blast
  qed simp
  moreover have "GetMember xstatus_MIE ?s = 0" "GetMember xstatus_MPIE ?s = 0"
    using hidden by (simp_all add: GetMember_single_zero)
  ultimately show ?thesis using status_write [of csr addr v] assms by simp
qed

theorem sstatus_write_clears_machine_bits_witness:
  "\<exists>csr csr'. csr_m_Status csr = 0x8 \<and> Csr_WriteUInt64 CSR_sstatus 0x2 csr = Inr ((), csr') \<and>
    GetMember xstatus_MIE (csr_m_Status csr') = 0"
proof -
  obtain csr0 where "Csr_new XLEN64 0x1000 = Inr csr0" by (simp add: Csr_new_def Csr_init_ISA_def)
  then have "csr_inv csr0" by (rule csr_inv_init)
  then have "csr_inv (csr0\<lparr>csr_m_Status := 0x8\<rparr>)" by (simp add: csr_inv_def mask_values)
  from sstatus_write_clears_machine_bits [OF this, of CSR_sstatus 2] show ?thesis
    by (metis insertI1 Csr.select_convs(4) Csr.surjective Csr.update_convs(4))
qed

text \<open>
  The value a status view reads: the stored bits of the view, and above them the dirty bit
  computed from the floating-point and extension fields.
\<close>

definition status_dirty :: "XLEN \<Rightarrow> u64 \<Rightarrow> u64" where
  "status_dirty xlen s =
     (if GetMember xstatus_XS s = 3 \<or> GetMember xstatus_FS s = 3
      then SetMember (if xlen = XLEN32 then xstatus_SD_RV32 else xstatus_SD_RV64) 1 s else s)"

lemma ReadStatus_dirty:
  "csr_m_XLEN csr \<noteq> XLEN128 \<Longrightarrow>
   Csr_ReadStatus csr = Inr (status_dirty (csr_m_XLEN csr) (csr_m_Status csr))"
  by (cases "csr_m_XLEN csr") (simp_all add: Csr_ReadStatus_def status_dirty_def)

lemma status_read:
  assumes "csr_inv csr" "addr \<in> {CSR_mstatus, CSR_sstatus, CSR_ustatus}"
  shows "Csr_ReadUInt64 addr csr =
    Inr (status_dirty (csr_m_XLEN csr) (csr_m_Status csr) AND status_view (csr_m_XLEN csr) addr)"
proof -
  have x: "csr_m_XLEN csr \<noteq> XLEN128" using assms(1) by (simp add: csr_inv_def)
  from assms(2) consider "addr = CSR_mstatus" | "addr = CSR_sstatus" | "addr = CSR_ustatus" by blast
  then show ?thesis
  proof cases
    case 1
    then show ?thesis by (simp add: csr_read_defs ReadStatus_dirty x status_view_def)
  next
    case 2
    with x show ?thesis
      by (cases "csr_m_XLEN csr")
         (simp_all add: csr_read_defs ReadStatus_dirty status_view_def GetWithMask_def)
  next
    case 3
    then show ?thesis
      by (simp add: csr_read_defs ReadStatus_dirty x status_view_def GetWithMask_def)
  qed
qed

section \<open>Interrupt pending\<close>

text \<open>
  A guest cannot forge a timer interrupt. No write to any address changes the machine,
  supervisor or user timer-pending bit.
\<close>

theorem timer_pending_not_writable:
  assumes "Csr_WriteUInt64 addr v csr = Inr ((), csr')" "n \<in> {4, 5, 7}"
  shows "bit (csr_m_InterruptPending csr') n = bit (csr_m_InterruptPending csr) n"
proof -
  have keep: "bit (SetWithMask w m p) n = bit p n" if "\<not> bit m n" for w m p :: u64
    using that by (simp add: bit_simps)
  have "\<not> bit (xip_MachineMask AND xip_WriteMask) n" "\<not> bit (xip_WriteMask AND xip_SupervisorMask) n"
    "\<not> bit (xip_WriteMask AND xip_UserMask) n"
    using assms(2) by (auto simp: mask_values)
  note masks = this [THEN keep]
  have m: "bit (csr_m_InterruptPending (WriteMachineModeRegister addr v csr)) n =
      bit (csr_m_InterruptPending csr) n"
    by (simp add: WriteMachineModeRegister_def Csr_WriteStatus_def masks)
  have u: "bit (csr_m_InterruptPending (WriteUserModeRegister addr v csr)) n =
      bit (csr_m_InterruptPending csr) n"
    by (simp add: WriteUserModeRegister_def Csr_WriteStatus_def masks)
  have s: "bit (csr_m_InterruptPending t) n = bit (csr_m_InterruptPending csr) n"
    if "WriteSupervisorModeRegister addr v csr = Inr t" for t
    using that masks
    by (auto simp: WriteSupervisorModeRegister_def Csr_WriteStatus_def split: if_splits XLEN.splits)
  show ?thesis
    using assms(1) m u s
    by (cases "WriteSupervisorModeRegister addr v csr")
       (auto simp: Csr_WriteUInt64_def split: if_splits)
qed

theorem timer_pending_not_writable_witness:
  "\<exists>csr csr'. Csr_WriteUInt64 CSR_mip (- 1) csr = Inr ((), csr') \<and>
    bit (csr_m_InterruptPending csr') 7 = bit (csr_m_InterruptPending csr) 7"
proof -
  obtain csr0 csr where "Csr_new XLEN64 0x1000 = Inr csr0"
    "Csr_WriteUInt64 CSR_mip (- 1) csr0 = Inr ((), csr)"
    by (simp add: Csr_new_def Csr_init_ISA_def csr_write_defs)
  with timer_pending_not_writable [of CSR_mip "- 1" csr0 csr 7] show ?thesis by auto
qed

end
