(* ===== verification/Rafi_Trap_Ok.thy ===== *)
theory Rafi_Trap_Ok
  imports Rafi_TrapProcessor Rafi_Csr_Ok
begin

text \<open>
  Trap entry, trap return and interrupt selection: what is saved where, that return undoes
  entry, the level a trap is taken at, and the interrupt that wins.
\<close>

section \<open>Fields of the status register\<close>

text \<open>The members of the status register that trap entry and return use are independent lenses.\<close>

lemma status_members_ok:
  "member_ok TYPE(64) xstatus_MIE" "member_ok TYPE(64) xstatus_MPIE" "member_ok TYPE(64) xstatus_MPP"
  "member_ok TYPE(64) xstatus_SIE" "member_ok TYPE(64) xstatus_SPIE" "member_ok TYPE(64) xstatus_SPP"
  "member_ok TYPE(64) xstatus_UIE" "member_ok TYPE(64) xstatus_UPIE"
  by (simp_all add: member_ok_def)

lemma status_members_disjoint:
  "disjoint_members xstatus_MIE xstatus_MPIE" "disjoint_members xstatus_MPIE xstatus_MPP"
  "disjoint_members xstatus_MIE xstatus_MPP" "disjoint_members xstatus_SIE xstatus_SPIE"
  "disjoint_members xstatus_SPIE xstatus_SPP" "disjoint_members xstatus_SIE xstatus_SPP"
  "disjoint_members xstatus_UIE xstatus_UPIE"
  by (simp_all add: disjoint_members_def)

interpretation MIE_MPIE: lens_pair
  "GetMember xstatus_MIE :: u64 \<Rightarrow> u64" "SetMember xstatus_MIE" "member_value xstatus_MIE"
  "GetMember xstatus_MPIE" "SetMember xstatus_MPIE" "member_value xstatus_MPIE"
  by (rule lens_pair_members) (rule status_members_ok status_members_disjoint)+

interpretation MIE_MPP: lens_pair
  "GetMember xstatus_MIE :: u64 \<Rightarrow> u64" "SetMember xstatus_MIE" "member_value xstatus_MIE"
  "GetMember xstatus_MPP" "SetMember xstatus_MPP" "member_value xstatus_MPP"
  by (rule lens_pair_members) (rule status_members_ok status_members_disjoint)+

interpretation MPIE_MPP: lens_pair
  "GetMember xstatus_MPIE :: u64 \<Rightarrow> u64" "SetMember xstatus_MPIE" "member_value xstatus_MPIE"
  "GetMember xstatus_MPP" "SetMember xstatus_MPP" "member_value xstatus_MPP"
  by (rule lens_pair_members) (rule status_members_ok status_members_disjoint)+

interpretation SIE_SPIE: lens_pair
  "GetMember xstatus_SIE :: u64 \<Rightarrow> u64" "SetMember xstatus_SIE" "member_value xstatus_SIE"
  "GetMember xstatus_SPIE" "SetMember xstatus_SPIE" "member_value xstatus_SPIE"
  by (rule lens_pair_members) (rule status_members_ok status_members_disjoint)+

interpretation SIE_SPP: lens_pair
  "GetMember xstatus_SIE :: u64 \<Rightarrow> u64" "SetMember xstatus_SIE" "member_value xstatus_SIE"
  "GetMember xstatus_SPP" "SetMember xstatus_SPP" "member_value xstatus_SPP"
  by (rule lens_pair_members) (rule status_members_ok status_members_disjoint)+

interpretation SPIE_SPP: lens_pair
  "GetMember xstatus_SPIE :: u64 \<Rightarrow> u64" "SetMember xstatus_SPIE" "member_value xstatus_SPIE"
  "GetMember xstatus_SPP" "SetMember xstatus_SPP" "member_value xstatus_SPP"
  by (rule lens_pair_members) (rule status_members_ok status_members_disjoint)+

text \<open>A member inside a mask does not see the masking.\<close>

lemma GetMember_masked:
  assumes "Member_Mask m AND k = Member_Mask m"
  shows "GetMember m (v AND k) = GetMember m v"
proof -
  have "(v AND k) AND Member_Mask m = v AND Member_Mask m"
    by (metis assms and.assoc and.commute)
  then show ?thesis by (simp add: GetMember_def)
qed

lemma SetMember_masked:
  fixes v :: "'a::len word"
  assumes "Member_Mask m AND k = Member_Mask m"
  shows "SetMember m x v AND k = SetMember m x (v AND k)"
proof -
  have "bit k n" if "bit (Member_Mask m :: 'a word) n" for n
    using that assms by (metis bit_and_iff)
  then show ?thesis
    by (intro bit_word_eqI) (auto simp: bit_simps)
qed


text \<open>
  What the status register holds after a trap entry and after a trap return: the chain of
  \<open>SetMember\<close> on the value read, masked as the write masks it.
\<close>

definition entered :: "bit_member \<Rightarrow> bit_member \<Rightarrow> bit_member \<Rightarrow> u64 \<Rightarrow> u64 \<Rightarrow> u64" where
  "entered IE PIE PP prev s = SetMember PP prev (SetMember IE 0 (SetMember PIE (GetMember IE s) s))"

definition returned :: "bit_member \<Rightarrow> bit_member \<Rightarrow> bit_member \<Rightarrow> u64 \<Rightarrow> u64" where
  "returned IE PIE PP s = SetMember IE (GetMember PIE s) (SetMember PP 0 s)"

lemma entered_masked:
  assumes "Member_Mask IE AND k = Member_Mask IE" "Member_Mask PIE AND k = Member_Mask PIE"
    "Member_Mask PP AND k = Member_Mask PP"
  shows "entered IE PIE PP prev s AND k = entered IE PIE PP prev (s AND k)"
  using assms by (simp add: entered_def SetMember_masked GetMember_masked)

lemma returned_masked:
  assumes "Member_Mask IE AND k = Member_Mask IE" "Member_Mask PIE AND k = Member_Mask PIE"
    "Member_Mask PP AND k = Member_Mask PP"
  shows "returned IE PIE PP s AND k = returned IE PIE PP (s AND k)"
  using assms by (simp add: returned_def SetMember_masked GetMember_masked)

text \<open>
  The part of the status register one level's entry and return read and write: the view
  of the level, less the bits nobody can write.
\<close>

abbreviation level_mask :: "XLEN \<Rightarrow> csr_addr_t \<Rightarrow> u64" where
  "level_mask xlen addr \<equiv> status_view xlen addr AND xstatus_WriteMask"

lemma level_mask_value:
  "xlen \<noteq> XLEN128 \<Longrightarrow> level_mask xlen CSR_mstatus = 0x7FF9BB"
  "xlen \<noteq> XLEN128 \<Longrightarrow> level_mask xlen CSR_sstatus = 0x000DE133"
  "xlen \<noteq> XLEN128 \<Longrightarrow> level_mask xlen CSR_ustatus = 0x11"
  by (auto simp: status_view_def mask_values)

lemma WriteMask_high: "bit xstatus_WriteMask n \<Longrightarrow> n < 23"
proof -
  have "xstatus_WriteMask = take_bit 23 xstatus_WriteMask" by (simp add: mask_values)
  then show "bit xstatus_WriteMask n \<Longrightarrow> n < 23" by (metis bit_take_bit_iff)
qed

text \<open>The dirty bit and the truncation do not show through the writable mask.\<close>

lemma status_roundtrip:
  assumes "s AND xstatus_WriteMask = s"
  shows "xstatus_of (status_dirty xlen s AND status_view xlen addr) AND level_mask xlen addr =
    s AND status_view xlen addr"
proof (rule bit_word_eqI)
  fix n assume "n < LENGTH(64)"
  have s: "bit s n \<longleftrightarrow> bit s n \<and> bit xstatus_WriteMask n" by (metis assms bit_and_iff)
  show "bit (xstatus_of (status_dirty xlen s AND status_view xlen addr) AND level_mask xlen addr) n
      = bit (s AND status_view xlen addr) n"
    using WriteMask_high [of n] s
    by (auto simp: bit_simps xstatus_of_def status_dirty_def)
qed

lemma status_write_read:
  assumes "csr_inv csr" "addr \<in> {CSR_mstatus, CSR_sstatus, CSR_ustatus}"
  shows "\<exists>v. Csr_ReadUInt64 addr csr = Inr v \<and>
    xstatus_of v AND level_mask (csr_m_XLEN csr) addr =
      csr_m_Status csr AND status_view (csr_m_XLEN csr) addr"
  using status_read [OF assms] status_roundtrip assms(1) by (simp add: csr_inv_def)


section \<open>Trap entry\<close>

lemma on_csr_eval:
  "m csr = Inr (x, csr') \<Longrightarrow> on_csr m (csr, p) = Inr (x, (csr', p))"
  "f csr = Inr x \<Longrightarrow> on_csr (queryM f) (csr, p) = Inr (x, (csr, p))"
  "on_csr (modifyM g) (csr, p) = Inr ((), (g csr, p))"
  by (simp_all add: on_csr_def zoomM_def queryM_def modifyM_def)

lemma read_csr_eval: "Csr_ReadUInt64 addr csr = Inr v \<Longrightarrow> read_csr addr (csr, p) = Inr (v, (csr, p))"
  by (simp add: read_csr_def on_csr_eval)

lemma write_csr_eval:
  "Csr_WriteUInt64 addr v csr = Inr ((), csr') \<Longrightarrow> write_csr addr v (csr, p) = Inr ((), (csr', p))"
  by (simp add: write_csr_def on_csr_eval)

lemmas csr_eval = read_csr_eval write_csr_eval csr_plain_simps bindM_Inr

lemma status_store:
  assumes "csr_inv csr" "addr \<in> {CSR_mstatus, CSR_sstatus, CSR_ustatus}"
    and "Csr_ReadUInt64 addr csr = Inr v"
    and "\<And>s. F s AND level_mask (csr_m_XLEN csr) addr = F (s AND level_mask (csr_m_XLEN csr) addr)"
  shows "Csr_WriteUInt64 addr (F (xstatus_of v)) csr =
    Inr ((), csr\<lparr>csr_m_Status := F (csr_m_Status csr AND status_view (csr_m_XLEN csr) addr)\<rparr>)"
  using status_write [OF assms(1,2)] status_write_read [OF assms(1,2)] assms(3,4) by auto

lemma entry_masks:
  assumes "xlen \<noteq> XLEN128"
  shows "entered xstatus_MIE xstatus_MPIE xstatus_MPP l s AND level_mask xlen CSR_mstatus =
      entered xstatus_MIE xstatus_MPIE xstatus_MPP l (s AND level_mask xlen CSR_mstatus)"
    and "entered xstatus_SIE xstatus_SPIE xstatus_SPP l s AND level_mask xlen CSR_sstatus =
      entered xstatus_SIE xstatus_SPIE xstatus_SPP l (s AND level_mask xlen CSR_sstatus)"
    and "returned xstatus_MIE xstatus_MPIE xstatus_MPP s AND level_mask xlen CSR_mstatus =
      returned xstatus_MIE xstatus_MPIE xstatus_MPP (s AND level_mask xlen CSR_mstatus)"
    and "returned xstatus_SIE xstatus_SPIE xstatus_SPP s AND level_mask xlen CSR_sstatus =
      returned xstatus_SIE xstatus_SPIE xstatus_SPP (s AND level_mask xlen CSR_sstatus)"
    and "SetMember xstatus_UIE 0 (SetMember xstatus_UPIE (GetMember xstatus_UIE s) s)
        AND level_mask xlen CSR_ustatus =
      SetMember xstatus_UIE 0 (SetMember xstatus_UPIE
        (GetMember xstatus_UIE (s AND level_mask xlen CSR_ustatus)) (s AND level_mask xlen CSR_ustatus))"
  unfolding level_mask_value [OF assms]
  by (rule entered_masked returned_masked; simp add: Member_Mask_def; fail)+
     (simp add: SetMember_masked GetMember_masked Member_Mask_def)

lemma trap_save_Machine:
  assumes "csr_inv csr"
  shows "trap_save Machine prev cause pc tval (csr, p) = Inr (csr_m_MachineTrapVector csr,
    (csr\<lparr>csr_m_Status := entered xstatus_MIE xstatus_MPIE xstatus_MPP
         (PrivilegeLevel_value prev) (csr_m_Status csr),
       csr_m_MachineCause := cause, csr_m_MachineExceptionProgramCounter := pc,
       csr_m_MachineTrapValue := tval\<rparr>, p))"
proof -
  have x: "csr_m_XLEN csr \<noteq> XLEN128" using assms by (simp add: csr_inv_def)
  obtain v where v: "Csr_ReadUInt64 0x300 csr = Inr v"
    using Csr_Read_total [OF assms] by blast
  have "Csr_WriteUInt64 0x300 (entered xstatus_MIE xstatus_MPIE xstatus_MPP
      (PrivilegeLevel_value prev) (xstatus_of v)) csr =
    Inr ((), csr\<lparr>csr_m_Status := entered xstatus_MIE xstatus_MPIE xstatus_MPP
      (PrivilegeLevel_value prev) (csr_m_Status csr)\<rparr>)"
    using status_store [OF assms, where addr = CSR_mstatus and v = v and
        F = "entered xstatus_MIE xstatus_MPIE xstatus_MPP (PrivilegeLevel_value prev)"]
      v entry_masks(1) [OF x] by (simp add: status_view_def)
  with v show ?thesis
    by (simp add: trap_save_def csr_eval entered_def Let_def)
qed

lemma trap_save_Supervisor:
  assumes "csr_inv csr"
  shows "trap_save Supervisor prev cause pc tval (csr, p) = Inr (csr_m_SupervisorTrapVector csr,
    (csr\<lparr>csr_m_Status := entered xstatus_SIE xstatus_SPIE xstatus_SPP (PrivilegeLevel_value prev)
         (csr_m_Status csr AND status_view (csr_m_XLEN csr) CSR_sstatus),
       csr_m_SupervisorCause := cause, csr_m_SupervisorExceptionProgramCounter := pc,
       csr_m_SupervisorTrapValue := tval\<rparr>, p))"
proof -
  have x: "csr_m_XLEN csr \<noteq> XLEN128" using assms by (simp add: csr_inv_def)
  obtain v where v: "Csr_ReadUInt64 0x100 csr = Inr v"
    using Csr_Read_total [OF assms] by blast
  have "Csr_WriteUInt64 0x100 (entered xstatus_SIE xstatus_SPIE xstatus_SPP
      (PrivilegeLevel_value prev) (xstatus_of v)) csr =
    Inr ((), csr\<lparr>csr_m_Status := entered xstatus_SIE xstatus_SPIE xstatus_SPP
      (PrivilegeLevel_value prev) (csr_m_Status csr AND status_view (csr_m_XLEN csr) CSR_sstatus)\<rparr>)"
    using status_store [OF assms, where addr = CSR_sstatus and v = v and
        F = "entered xstatus_SIE xstatus_SPIE xstatus_SPP (PrivilegeLevel_value prev)"]
      v entry_masks(2) [OF x] by simp
  with v show ?thesis
    by (simp add: trap_save_def csr_eval entered_def Let_def)
qed

lemma trap_save_User:
  assumes "csr_inv csr"
  shows "\<exists>st. trap_save User prev cause pc tval (csr, p) = Inr (csr_m_UserTrapVector csr,
    (csr\<lparr>csr_m_Status := st, csr_m_UserCause := cause, csr_m_UserExceptionProgramCounter := pc,
       csr_m_UserTrapValue := tval\<rparr>, p)) \<and>
    st = SetMember xstatus_UIE 0 (SetMember xstatus_UPIE
      (GetMember xstatus_UIE (csr_m_Status csr AND status_view (csr_m_XLEN csr) CSR_ustatus))
      (csr_m_Status csr AND status_view (csr_m_XLEN csr) CSR_ustatus))"
proof -
  let ?F = "\<lambda>s. SetMember xstatus_UIE 0 (SetMember xstatus_UPIE (GetMember xstatus_UIE s) s)"
  have x: "csr_m_XLEN csr \<noteq> XLEN128" using assms by (simp add: csr_inv_def)
  obtain v where v: "Csr_ReadUInt64 0 csr = Inr v"
    using Csr_Read_total [OF assms] by blast
  have "Csr_WriteUInt64 0 (?F (xstatus_of v)) csr =
    Inr ((), csr\<lparr>csr_m_Status := ?F (csr_m_Status csr AND status_view (csr_m_XLEN csr) CSR_ustatus)\<rparr>)"
    using status_store [OF assms, where addr = CSR_ustatus and v = v and F = ?F]
      v entry_masks(5) [OF x] by simp
  with v show ?thesis
    by (simp add: trap_save_def csr_eval Let_def)
qed

text \<open>The level the architecture delegates a trap to.\<close>

definition deleg_target :: "u64 \<Rightarrow> u64 \<Rightarrow> nat \<Rightarrow> PrivilegeLevel" where
  "deleg_target mdeleg sdeleg cause =
     (if bit mdeleg cause then if bit sdeleg cause then User else Supervisor else Machine)"

lemma delegate_mask:
  assumes "n < 31"
  shows "(m :: u64) AND scast (push_bit n 1 :: i32) \<noteq> 0 \<longleftrightarrow> bit m n"
proof -
  have "scast (push_bit n 1 :: i32) = (push_bit n 1 :: u64)"
    using assms by (intro bit_word_eqI) (auto simp: bit_simps min_def)
  then show ?thesis by (simp add: and_push_bit_1_zero del: push_bit_of_1)
qed

lemma delegate_level_eval:
  assumes "unat cause < 31" "Csr_ReadUInt64 a csr = Inr m" "Csr_ReadUInt64 b csr = Inr sd"
  shows "delegate_level a b cause (csr, p) = Inr (deleg_target m sd (unat cause), (csr, p))"
  using assms
  by (simp add: delegate_level_def Let_def csr_eval delegate_mask deleg_target_def returnM_def
      del: push_bit_of_1)

lemma cause_small: "unat (ExceptionType_value t) < 16" "unat (InterruptType_value i) < 16"
  by (cases t; simp add: ExceptionType_value_def) (cases i; simp add: InterruptType_value_def)

text \<open>The program counter after a trap: the vector's base, or an entry of the vector table.\<close>

definition trap_pc_of :: "XLEN \<Rightarrow> bool \<Rightarrow> u32 \<Rightarrow> u64 \<Rightarrow> vaddr_t" where
  "trap_pc_of xlen isInterrupt code vec =
     (let base = vec AND (if xlen = XLEN32 then 0xfffffffc else 0xfffffffffffffffc) in
      if isInterrupt \<and> take_bit 2 vec = 1 then base + ucast (code * 4) else base)"

lemma trap_base_eval:
  "xlen \<noteq> XLEN128 \<Longrightarrow> trap_base xlen vec =
     Inr (vec AND (if xlen = XLEN32 then 0xfffffffc else 0xfffffffffffffffc))"
  by (cases xlen) (simp_all add: trap_base_def GetWithMask_def Member_Mask_def)


text \<open>The registers of a privilege level, and what a trap to the level stores.\<close>

definition level_tvec :: "PrivilegeLevel \<Rightarrow> Csr \<Rightarrow> u64" where
  "level_tvec l csr = (case l of Machine \<Rightarrow> csr_m_MachineTrapVector csr
     | Supervisor \<Rightarrow> csr_m_SupervisorTrapVector csr | _ \<Rightarrow> csr_m_UserTrapVector csr)"

definition level_epc :: "PrivilegeLevel \<Rightarrow> Csr \<Rightarrow> vaddr_t" where
  "level_epc l csr = (case l of Machine \<Rightarrow> csr_m_MachineExceptionProgramCounter csr
     | Supervisor \<Rightarrow> csr_m_SupervisorExceptionProgramCounter csr
     | _ \<Rightarrow> csr_m_UserExceptionProgramCounter csr)"

definition level_cause :: "PrivilegeLevel \<Rightarrow> Csr \<Rightarrow> u64" where
  "level_cause l csr = (case l of Machine \<Rightarrow> csr_m_MachineCause csr
     | Supervisor \<Rightarrow> csr_m_SupervisorCause csr | _ \<Rightarrow> csr_m_UserCause csr)"

definition level_tval :: "PrivilegeLevel \<Rightarrow> Csr \<Rightarrow> u64" where
  "level_tval l csr = (case l of Machine \<Rightarrow> csr_m_MachineTrapValue csr
     | Supervisor \<Rightarrow> csr_m_SupervisorTrapValue csr | _ \<Rightarrow> csr_m_UserTrapValue csr)"

definition trap_status :: "PrivilegeLevel \<Rightarrow> PrivilegeLevel \<Rightarrow> Csr \<Rightarrow> u64" where
  "trap_status l prev csr =
     (let view = (\<lambda>addr. csr_m_Status csr AND status_view (csr_m_XLEN csr) addr) in
      case l of
        Machine \<Rightarrow> entered xstatus_MIE xstatus_MPIE xstatus_MPP (PrivilegeLevel_value prev)
          (csr_m_Status csr)
      | Supervisor \<Rightarrow> entered xstatus_SIE xstatus_SPIE xstatus_SPP (PrivilegeLevel_value prev)
          (view CSR_sstatus)
      | _ \<Rightarrow> SetMember xstatus_UIE 0 (SetMember xstatus_UPIE
          (GetMember xstatus_UIE (view CSR_ustatus)) (view CSR_ustatus)))"

lemmas level_defs = level_tvec_def level_epc_def level_cause_def level_tval_def trap_status_def

lemma trap_status_writable:
  assumes "csr_inv csr"
  shows "trap_status l prev csr AND xstatus_WriteMask = trap_status l prev csr"
proof -
  let ?s = "csr_m_Status csr"
  have k: "?s AND xstatus_WriteMask = ?s" using assms by (simp add: csr_inv_def)
  then have v: "(?s AND w) AND xstatus_WriteMask = ?s AND w" for w
    by (metis and.assoc and.commute)
  have m: "Member_Mask m AND xstatus_WriteMask = Member_Mask m"
    if "m \<in> {xstatus_MIE, xstatus_MPIE, xstatus_MPP, xstatus_SIE, xstatus_SPIE, xstatus_SPP,
      xstatus_UIE, xstatus_UPIE}" for m
    using that by (auto simp: mask_values Member_Mask_def)
  show ?thesis
  proof (cases l)
    case Machine
    then show ?thesis using k by (simp only: trap_status_def Let_def PrivilegeLevel.case
          entered_masked [OF m m m] insert_iff simp_thms)
  next
    case Supervisor
    then show ?thesis by (simp only: trap_status_def Let_def PrivilegeLevel.case
          entered_masked [OF m m m] v insert_iff simp_thms)
  qed (simp_all only: trap_status_def Let_def PrivilegeLevel.case SetMember_masked [OF m]
      GetMember_masked [OF m] v insert_iff simp_thms)
qed

lemma trap_save_eval:
  assumes "csr_inv csr" "l \<noteq> Reserved"
  shows "\<exists>csr'. trap_save l prev cause pc tval (csr, p) = Inr (level_tvec l csr, (csr', p)) \<and>
    csr_inv csr' \<and> level_epc l csr' = pc \<and> level_cause l csr' = cause \<and> level_tval l csr' = tval \<and>
    csr_m_Status csr' = trap_status l prev csr \<and> csr_m_PrivilegeLevel csr' = csr_m_PrivilegeLevel csr \<and>
    csr_m_XLEN csr' = csr_m_XLEN csr"
proof -
  have st: "csr_inv (csr\<lparr>csr_m_Status := trap_status l prev csr\<rparr>)"
    using assms(1) trap_status_writable [OF assms(1), of l prev] by (simp add: csr_inv_def)
  show ?thesis
  proof (cases l)
    case Machine
    with st trap_save_Machine [OF assms(1), of prev cause pc tval p] show ?thesis
      by (simp add: level_defs)
  next
    case Supervisor
    with st trap_save_Supervisor [OF assms(1), of prev cause pc tval p] show ?thesis
      by (simp add: level_defs)
  next
    case User
    with st trap_save_User [OF assms(1), of prev cause pc tval p] show ?thesis
      by (auto simp: level_defs)
  qed (use assms(2) in simp)
qed


definition cause_word :: "XLEN \<Rightarrow> bool \<Rightarrow> u32 \<Rightarrow> u64" where
  "cause_word xlen isInterrupt code =
     (if isInterrupt then push_bit (if xlen = XLEN32 then 31 else 63) 1 else 0) OR ucast code"

lemma trap_cause_eval:
  "xlen \<noteq> XLEN128 \<Longrightarrow> trap_cause xlen isInterrupt code = Inr (cause_word xlen isInterrupt code)"
  by (cases xlen) (simp_all add: trap_cause_def cause_word_def)

lemma xtvec_MODE_eval: "GetMember xtvec_MODE vec = take_bit 2 (vec :: u64)"
  by (simp add: GetMember_def Member_Mask_def) (simp add: take_bit_eq_mask mask_eq_exp_minus_1)

definition trap_taken ::
  "bool \<Rightarrow> u32 \<Rightarrow> u64 \<Rightarrow> vaddr_t \<Rightarrow> PrivilegeLevel \<Rightarrow> Csr \<Rightarrow> Csr \<Rightarrow> bool" where
  "trap_taken isInterrupt code tval pc level csr csr' \<longleftrightarrow>
     csr_inv csr' \<and> csr_m_XLEN csr' = csr_m_XLEN csr \<and>
     csr_m_PrivilegeLevel csr' = level \<and>
     level_epc level csr' = pc \<and> level_tval level csr' = tval \<and>
     level_cause level csr' = cause_word (csr_m_XLEN csr) isInterrupt code \<and>
     csr_m_Status csr' = trap_status level (csr_m_PrivilegeLevel csr) csr \<and>
     csr_m_ProgramCounter csr' =
       trap_pc_of (csr_m_XLEN csr) isInterrupt code (level_tvec level csr)"


lemma ProcessTrapEnter_eval:
  assumes inv: "csr_inv csr" and x: "trap_m_XLEN p = csr_m_XLEN csr" and l: "level \<noteq> Reserved"
  shows "\<exists>csr'. ProcessTrapEnter isInterrupt code tval pc level (csr, p) =
      Inr ((), (csr', p\<lparr>trap_m_TrapEventValid := True,
        trap_m_TrapEvent := \<lparr>te_trapType = (if isInterrupt then Interrupt else Exception),
          te_trapCause = code, te_from = level, te_to = level, te_trapValue = tval\<rparr>\<rparr>)) \<and>
    trap_taken isInterrupt code tval pc level csr csr'"
proof -
  let ?csr = "csr\<lparr>csr_m_PrivilegeLevel := level\<rparr>"
  have nx: "csr_m_XLEN csr \<noteq> XLEN128" using inv by (simp add: csr_inv_def)
  have "csr_inv ?csr" using inv l by (simp add: csr_inv_def)
  from trap_save_eval [OF this l, of "csr_m_PrivilegeLevel csr"
      "cause_word (csr_m_XLEN csr) isInterrupt code" pc tval p]
  obtain c where c: "trap_save level (csr_m_PrivilegeLevel csr)
        (cause_word (csr_m_XLEN csr) isInterrupt code) pc tval (?csr, p) =
      Inr (level_tvec level ?csr, (c, p))"
    and c': "csr_inv c" "level_epc level c = pc"
      "level_cause level c = cause_word (csr_m_XLEN csr) isInterrupt code"
      "level_tval level c = tval" "csr_m_PrivilegeLevel c = level" "csr_m_XLEN c = csr_m_XLEN csr"
      "csr_m_Status c = trap_status level (csr_m_PrivilegeLevel csr) ?csr"
    by auto
  have p: "csr_inv (c\<lparr>csr_m_ProgramCounter := v\<rparr>)" for v using c'(1) by (simp add: csr_inv_def)
  have l': "level_tvec level ?csr = level_tvec level csr"
    "trap_status level prev ?csr = trap_status level prev csr"
    "level_epc level (c\<lparr>csr_m_ProgramCounter := v\<rparr>) = level_epc level c"
    "level_cause level (c\<lparr>csr_m_ProgramCounter := v\<rparr>) = level_cause level c"
    "level_tval level (c\<lparr>csr_m_ProgramCounter := v\<rparr>) = level_tval level c" for prev v
    by (cases level; simp add: level_defs)+
  show ?thesis
    using c c' p l'
    by (simp add: ProcessTrapEnter_def bindM_Inr getM_def modifyM_def on_csr_def zoomM_def
        Csr_GetPrivilegeLevel_def Csr_SetPrivilegeLevel_def Csr_SetProgramCounter_def x
        trap_cause_eval [OF nx] trap_base_eval [OF nx] returnM_def xtvec_MODE_eval
        trap_taken_def trap_pc_of_def Let_def del: xtvec_MODE_def)
qed


lemma ProcessException_event:
  assumes "csr_inv csr" "trap_m_XLEN p = csr_m_XLEN csr"
  shows "\<exists>csr' p'. ProcessException t (csr, p) = Inr ((), (csr', p')) \<and> trap_m_TrapEventValid p' \<and>
    te_trapType (trap_m_TrapEvent p') = Exception \<and>
    te_trapCause (trap_m_TrapEvent p') = ExceptionType_value (trap_type t) \<and>
    trap_taken False (ExceptionType_value (trap_type t)) (trap_trapValue t) (trap_pc t)
      (deleg_target (csr_m_MachineExceptionDelegation csr) (csr_m_SupervisorExceptionDelegation csr)
        (unat (ExceptionType_value (trap_type t)))) csr csr'"
proof -
  let ?l = "deleg_target (csr_m_MachineExceptionDelegation csr)
    (csr_m_SupervisorExceptionDelegation csr) (unat (ExceptionType_value (trap_type t)))"
  have "?l \<noteq> Reserved" by (simp add: deleg_target_def)
  moreover have "delegate_level CSR_medeleg CSR_sedeleg (ExceptionType_value (trap_type t)) (csr, p) =
      Inr (?l, (csr, p))"
    using cause_small(1) [of "trap_type t"] by (intro delegate_level_eval) (simp_all add: csr_read_plain)
  ultimately show ?thesis
    using ProcessTrapEnter_eval [OF assms, of ?l False "ExceptionType_value (trap_type t)"
        "trap_trapValue t" "trap_pc t"]
    by (force simp: ProcessException_def Let_def bindM_Inr)
qed

lemma ProcessException_taken:
  assumes "csr_inv csr" "trap_m_XLEN p = csr_m_XLEN csr"
  shows "\<exists>csr' p'. ProcessException t (csr, p) = Inr ((), (csr', p')) \<and> trap_m_TrapEventValid p' \<and>
    trap_taken False (ExceptionType_value (trap_type t)) (trap_trapValue t) (trap_pc t)
      (deleg_target (csr_m_MachineExceptionDelegation csr) (csr_m_SupervisorExceptionDelegation csr)
        (unat (ExceptionType_value (trap_type t)))) csr csr'"
  using ProcessException_event [OF assms, of t] by blast

lemma ProcessInterrupt_taken:
  assumes "csr_inv csr" "trap_m_XLEN p = csr_m_XLEN csr"
  shows "\<exists>csr' p'. ProcessInterrupt i pc (csr, p) = Inr ((), (csr', p')) \<and> trap_m_TrapEventValid p' \<and>
    trap_taken True (InterruptType_value i) 0 pc
      (deleg_target (csr_m_MachineInterruptDelegation csr) (csr_m_SupervisorInterruptDelegation csr)
        (unat (InterruptType_value i))) csr csr'"
proof -
  let ?l = "deleg_target (csr_m_MachineInterruptDelegation csr)
    (csr_m_SupervisorInterruptDelegation csr) (unat (InterruptType_value i))"
  have "?l \<noteq> Reserved" by (simp add: deleg_target_def)
  moreover have "delegate_level CSR_mideleg CSR_sideleg (InterruptType_value i) (csr, p) =
      Inr (?l, (csr, p))"
    using cause_small(2) [of i] by (intro delegate_level_eval) (simp_all add: csr_read_plain)
  ultimately show ?thesis
    using ProcessTrapEnter_eval [OF assms, of ?l True "InterruptType_value i" 0 pc]
    by (force simp: ProcessInterrupt_def Let_def bindM_Inr)
qed

text \<open>
  C20: trap entry. From every state of the invariant, processing an exception or an interrupt
  returns; the level is the one the delegation registers select; that level's exception
  program counter, cause and trap value are stored, its previous-enable and previous-level
  fields keep the interrupted context, and execution continues at the base of its trap
  vector, or, for an interrupt in vectored mode, at the interrupt's entry of the table.
\<close>

theorem trap_entry:
  assumes "csr_inv csr" "trap_m_XLEN p = csr_m_XLEN csr"
  shows "(\<exists>csr' p'. ProcessException t (csr, p) = Inr ((), (csr', p')) \<and> trap_m_TrapEventValid p' \<and>
      trap_taken False (ExceptionType_value (trap_type t)) (trap_trapValue t) (trap_pc t)
        (deleg_target (csr_m_MachineExceptionDelegation csr) (csr_m_SupervisorExceptionDelegation csr)
          (unat (ExceptionType_value (trap_type t)))) csr csr') \<and>
    (\<exists>csr' p'. ProcessInterrupt i pc (csr, p) = Inr ((), (csr', p')) \<and> trap_m_TrapEventValid p' \<and>
      trap_taken True (InterruptType_value i) 0 pc
        (deleg_target (csr_m_MachineInterruptDelegation csr) (csr_m_SupervisorInterruptDelegation csr)
          (unat (InterruptType_value i))) csr csr')"
  using ProcessException_taken [OF assms] ProcessInterrupt_taken [OF assms] by (rule conjI)

theorem trap_entry_witness:
  "\<exists>csr p csr' p'. csr_m_MachineTrapVector csr = 0x80000101 \<and>
     ProcessInterrupt MachineTimer 0x1000 (csr, p) = Inr ((), (csr', p')) \<and>
     csr_m_ProgramCounter csr' = 0x8000011c"
proof -
  obtain csr0 where c: "Csr_new XLEN64 0x1000 = Inr csr0"
    by (simp add: Csr_new_def Csr_init_ISA_def)
  let ?csr = "csr0\<lparr>csr_m_MachineTrapVector := 0x80000101\<rparr>"
  let ?p = "TrapProcessor_new XLEN64 zero_TrapEvent"
  have "csr_inv ?csr" "trap_m_XLEN ?p = csr_m_XLEN ?csr" "csr_m_MachineInterruptDelegation ?csr = 0"
    "csr_m_XLEN ?csr = XLEN64"
    using c csr_inv_init [OF c]
    by (auto simp: TrapProcessor_new_def Csr_new_def Csr_init_ISA_def csr_inv_def)
  moreover have "csr_m_MachineTrapVector ?csr = 0x80000101" by simp
  ultimately show ?thesis
    using trap_entry [of ?csr ?p _ MachineTimer "0x1000"]
    by (fastforce simp: deleg_target_def trap_taken_def trap_pc_of_def level_tvec_def
        InterruptType_value_def)
qed

lemma trap_restore_Machine:
  assumes "csr_inv csr"
  shows "trap_restore CSR_mstatus CSR_mepc xstatus_MPP xstatus_MPIE xstatus_MIE (csr, p) =
    Inr (GetMember xstatus_MPP (csr_m_Status csr),
      (csr\<lparr>csr_m_Status := returned xstatus_MIE xstatus_MPIE xstatus_MPP (csr_m_Status csr),
        csr_m_ProgramCounter := csr_m_MachineExceptionProgramCounter csr\<rparr>, p))"
proof -
  let ?F = "returned xstatus_MIE xstatus_MPIE xstatus_MPP"
  have x: "csr_m_XLEN csr \<noteq> XLEN128" using assms by (simp add: csr_inv_def)
  obtain v where v: "Csr_ReadUInt64 0x300 csr = Inr v"
    and m: "xstatus_of v AND level_mask (csr_m_XLEN csr) CSR_mstatus = csr_m_Status csr"
    using status_write_read [OF assms, of CSR_mstatus] by (auto simp: status_view_def)
  have "Csr_WriteUInt64 0x300 (?F (xstatus_of v)) csr =
    Inr ((), csr\<lparr>csr_m_Status := ?F (csr_m_Status csr)\<rparr>)"
    using status_store [OF assms, where addr = CSR_mstatus and v = v and F = ?F]
      v entry_masks(3) [OF x] by (simp add: status_view_def)
  moreover have "GetMember xstatus_MPP (csr_m_Status csr) = GetMember xstatus_MPP (xstatus_of v)"
    unfolding m [symmetric] level_mask_value [OF x]
    by (rule GetMember_masked) (simp add: Member_Mask_def)
  ultimately show ?thesis
    using v by (simp add: trap_restore_def csr_eval returned_def Let_def on_csr_def zoomM_def
        modifyM_def Csr_SetProgramCounter_def returnM_def)
qed

lemma trap_restore_Supervisor:
  assumes "csr_inv csr"
  shows "trap_restore CSR_sstatus CSR_sepc xstatus_SPP xstatus_SPIE xstatus_SIE (csr, p) =
    Inr (GetMember xstatus_SPP (csr_m_Status csr),
      (csr\<lparr>csr_m_Status := returned xstatus_SIE xstatus_SPIE xstatus_SPP
           (csr_m_Status csr AND status_view (csr_m_XLEN csr) CSR_sstatus),
        csr_m_ProgramCounter := csr_m_SupervisorExceptionProgramCounter csr\<rparr>, p))"
proof -
  let ?F = "returned xstatus_SIE xstatus_SPIE xstatus_SPP"
  let ?view = "status_view (csr_m_XLEN csr) CSR_sstatus"
  have x: "csr_m_XLEN csr \<noteq> XLEN128" using assms by (simp add: csr_inv_def)
  obtain v where v: "Csr_ReadUInt64 0x100 csr = Inr v"
    and m: "xstatus_of v AND level_mask (csr_m_XLEN csr) CSR_sstatus = csr_m_Status csr AND ?view"
    using status_write_read [OF assms, of CSR_sstatus] by auto
  have "Csr_WriteUInt64 0x100 (?F (xstatus_of v)) csr =
    Inr ((), csr\<lparr>csr_m_Status := ?F (csr_m_Status csr AND ?view)\<rparr>)"
    using status_store [OF assms, where addr = CSR_sstatus and v = v and F = ?F]
      v entry_masks(4) [OF x] by simp
  moreover have "GetMember xstatus_SPP (csr_m_Status csr AND ?view) =
      GetMember xstatus_SPP (csr_m_Status csr)"
    by (rule GetMember_masked) (auto simp: status_view_def mask_values Member_Mask_def)
  moreover have "GetMember xstatus_SPP (csr_m_Status csr AND ?view) =
      GetMember xstatus_SPP (xstatus_of v)"
    unfolding m [symmetric] level_mask_value [OF x]
    by (rule GetMember_masked) (simp add: Member_Mask_def)
  ultimately show ?thesis
    using v by (simp add: trap_restore_def csr_eval returned_def Let_def on_csr_def zoomM_def
        modifyM_def Csr_SetProgramCounter_def returnM_def)
qed

lemma ProcessTrapReturn_eval:
  assumes "trap_restore (if l = Machine then CSR_mstatus else CSR_sstatus)
      (if l = Machine then CSR_mepc else CSR_sepc)
      (if l = Machine then xstatus_MPP else xstatus_SPP)
      (if l = Machine then xstatus_MPIE else xstatus_SPIE)
      (if l = Machine then xstatus_MIE else xstatus_SIE) (csr, p) = Inr (prev, (csr', p))"
    and "l \<in> {Machine, Supervisor}"
  shows "ProcessTrapReturn l (csr, p) =
    Inr ((), (csr'\<lparr>csr_m_PrivilegeLevel := PrivilegeLevel_of prev\<rparr>,
      p\<lparr>trap_m_TrapEventValid := True, trap_m_TrapEvent := (trap_m_TrapEvent p)
        \<lparr>te_trapType := Return, te_from := csr_m_PrivilegeLevel csr', te_to := PrivilegeLevel_of prev\<rparr>\<rparr>))"
  using assms
  by (cases l) (simp_all add: ProcessTrapReturn_def bindM_Inr modifyM_def on_csr_def zoomM_def
      Csr_GetPrivilegeLevel_def Csr_SetPrivilegeLevel_def Let_def)


section \<open>Trap return\<close>

lemma PrivilegeLevel_member: "PrivilegeLevel_value l \<le> 3"
  by (cases l) (simp_all add: PrivilegeLevel_value_def)

lemma level_members:
  "member_value xstatus_MPP (PrivilegeLevel_value l)"
  "l = User \<or> l = Supervisor \<Longrightarrow> member_value xstatus_SPP (PrivilegeLevel_value l)"
  by (cases l) (auto simp: member_value_def PrivilegeLevel_value_def take_bit_eq_mask
      mask_eq_exp_minus_1)

text \<open>
  The three fields of the status register that form the stack of one level: the enable
  bit, the previous enable bit of the same width, and the previous level.
\<close>

locale status_stack =
  fixes IE PIE PP :: bit_member
  assumes ok: "member_ok TYPE(64) IE" "member_ok TYPE(64) PIE" "member_ok TYPE(64) PP"
    and disjoint: "disjoint_members IE PIE" "disjoint_members IE PP" "disjoint_members PIE PP"
    and width: "fst IE - snd IE = fst PIE - snd PIE"
begin

lemma disjoint': "disjoint_members PIE IE" "disjoint_members PP IE" "disjoint_members PP PIE"
  using disjoint by (auto simp: disjoint_members_def)

lemma enable_fits: "member_value PIE (GetMember IE (s :: u64))" "member_value IE (GetMember PIE s)"
  using width by (auto simp: member_value_def intro!: bit_word_eqI simp: bit_simps)

lemma entered_fields:
  assumes "member_value PP l"
  shows "GetMember PP (entered IE PIE PP l s) = l"
    and "GetMember PIE (entered IE PIE PP l s) = GetMember IE s"
    and "GetMember IE (entered IE PIE PP l s) = 0"
  using assms ok disjoint disjoint' enable_fits [of s]
  by (simp_all add: entered_def Get_SetMember member_value_def)

lemma returned_entered:
  "returned IE PIE PP (entered IE PIE PP l s) = SetMember PP 0 (SetMember PIE (GetMember IE s) s)"
proof -
  have "GetMember PIE (entered IE PIE PP l s) = GetMember IE s"
    using ok disjoint disjoint' enable_fits [of s]
    by (simp add: entered_def Get_SetMember member_value_def)
  then have "returned IE PIE PP (entered IE PIE PP l s) =
      SetMember IE (GetMember IE s) (SetMember PP 0 (SetMember PIE (GetMember IE s) s))"
    using disjoint'
    by (simp add: returned_def entered_def Set_SetMember_disjoint [of PP IE] Set_SetMember
        Set_SetMember_disjoint [of PIE IE])
  moreover have "GetMember IE (SetMember PP 0 (SetMember PIE (GetMember IE s) s)) = GetMember IE s"
    using disjoint by simp
  ultimately show ?thesis by (metis Set_GetMember)
qed

end

interpretation m_stack: status_stack xstatus_MIE xstatus_MPIE xstatus_MPP
  by unfold_locales (rule status_members_ok status_members_disjoint | simp)+

interpretation s_stack: status_stack xstatus_SIE xstatus_SPIE xstatus_SPP
  by unfold_locales (rule status_members_ok status_members_disjoint | simp)+

lemma trap_return_eval:
  assumes inv: "csr_inv csr" and l: "l = Machine \<or> l = Supervisor \<and> csr_m_PrivilegeLevel csr \<noteq> Machine"
    and t: "trap_taken isInterrupt code tval pc l csr csr1"
  shows "\<exists>csr2 p2. ProcessTrapReturn l (csr1, p1) = Inr ((), (csr2, p2)) \<and>
    csr_m_ProgramCounter csr2 = pc \<and> csr_m_PrivilegeLevel csr2 = csr_m_PrivilegeLevel csr \<and>
    csr_m_Status csr2 =
      (if l = Machine
       then SetMember xstatus_MPP 0
         (SetMember xstatus_MPIE (GetMember xstatus_MIE (csr_m_Status csr)) (csr_m_Status csr))
       else let s = csr_m_Status csr AND status_view (csr_m_XLEN csr) CSR_sstatus in
         SetMember xstatus_SPP 0 (SetMember xstatus_SPIE (GetMember xstatus_SIE s) s))"
proof -
  have inv1: "csr_inv csr1" and xl: "csr_m_XLEN csr1 = csr_m_XLEN csr"
    and epc: "level_epc l csr1 = pc"
    and st: "csr_m_Status csr1 = trap_status l (csr_m_PrivilegeLevel csr) csr"
    using t by (simp_all add: trap_taken_def)
  show ?thesis
  proof (cases "l = Machine")
    case True
    with ProcessTrapReturn_eval [of Machine csr1 p1] trap_restore_Machine [OF inv1, of p1] st epc
    show ?thesis
      by (simp add: trap_status_def level_epc_def m_stack.entered_fields(1) level_members
          m_stack.returned_entered del: xstatus_MPP_def xstatus_MPIE_def xstatus_MIE_def
          CSR_mstatus_def CSR_mepc_def)
  next
    case False
    with l have s: "l = Supervisor" "csr_m_PrivilegeLevel csr \<noteq> Machine" by auto
    with inv have u: "csr_m_PrivilegeLevel csr = User \<or> csr_m_PrivilegeLevel csr = Supervisor"
      by (cases "csr_m_PrivilegeLevel csr") (auto simp: csr_inv_def)
    let ?view = "status_view (csr_m_XLEN csr) CSR_sstatus"
    have "entered xstatus_SIE xstatus_SPIE xstatus_SPP x (csr_m_Status csr AND ?view) AND ?view =
        entered xstatus_SIE xstatus_SPIE xstatus_SPP x (csr_m_Status csr AND ?view)" for x
      by (subst entered_masked) (auto simp: status_view_def mask_values Member_Mask_def and.assoc)
    then show ?thesis
      using ProcessTrapReturn_eval [of Supervisor csr1 p1] trap_restore_Supervisor [OF inv1, of p1]
        st epc xl s(1) level_members(2) [OF u]
      by (simp add: trap_status_def level_epc_def s_stack.entered_fields(1) Let_def
          s_stack.returned_entered del: xstatus_SPP_def xstatus_SPIE_def xstatus_SIE_def
          CSR_sstatus_def CSR_sepc_def)
  qed
qed


text \<open>
  C13: a trap return undoes the trap entry. After an exception has been taken to the machine
  level, or to the supervisor level from a level below the machine, the return instruction of
  that level restores the program counter and the privilege level of the interrupted code and
  its interrupt enable; of the status register only the previous-enable field (the enable
  before the trap) and the previous-level field (zero) differ, and at the supervisor level
  the bits outside its view are gone.
\<close>

theorem trap_return_restores:
  assumes "csr_inv csr" "trap_m_XLEN p = csr_m_XLEN csr"
    and "ProcessException t (csr, p) = Inr ((), (csr1, p1))" "csr_m_PrivilegeLevel csr1 = l"
    and "l = Machine \<or> l = Supervisor \<and> csr_m_PrivilegeLevel csr \<noteq> Machine"
  shows "\<exists>csr2 p2. ProcessTrapReturn l (csr1, p1) = Inr ((), (csr2, p2)) \<and>
    csr_m_ProgramCounter csr2 = trap_pc t \<and> csr_m_PrivilegeLevel csr2 = csr_m_PrivilegeLevel csr \<and>
    csr_m_Status csr2 =
      (if l = Machine
       then SetMember xstatus_MPP 0
         (SetMember xstatus_MPIE (GetMember xstatus_MIE (csr_m_Status csr)) (csr_m_Status csr))
       else let s = csr_m_Status csr AND status_view (csr_m_XLEN csr) CSR_sstatus in
         SetMember xstatus_SPP 0 (SetMember xstatus_SPIE (GetMember xstatus_SIE s) s))"
proof -
  from ProcessException_taken [OF assms(1,2), of t] assms(3) obtain level where
    taken: "trap_taken False (ExceptionType_value (trap_type t)) (trap_trapValue t) (trap_pc t)
      level csr csr1" by auto
  then have "level = l" using assms(4) by (simp add: trap_taken_def)
  with trap_return_eval [OF assms(1,5)] taken show ?thesis by blast
qed

theorem trap_return_restores_witness:
  "\<exists>csr p csr1 p1 csr2 p2.
     ProcessException (MakeLoadAccessFaultException 0x80000004 0) (csr, p) = Inr ((), (csr1, p1)) \<and>
     ProcessTrapReturn Machine (csr1, p1) = Inr ((), (csr2, p2)) \<and>
     csr_m_ProgramCounter csr1 = 0x200 \<and> csr_m_ProgramCounter csr2 = 0x80000004"
proof -
  obtain csr0 where c: "Csr_new XLEN64 0x1000 = Inr csr0"
    by (simp add: Csr_new_def Csr_init_ISA_def)
  let ?csr = "csr0\<lparr>csr_m_MachineTrapVector := 0x200\<rparr>"
  let ?p = "TrapProcessor_new XLEN64 zero_TrapEvent"
  let ?t = "MakeLoadAccessFaultException 0x80000004 0"
  have inv: "csr_inv ?csr" "trap_m_XLEN ?p = csr_m_XLEN ?csr"
    and d: "csr_m_MachineExceptionDelegation ?csr = 0" "csr_m_XLEN ?csr = XLEN64"
    using c csr_inv_init [OF c]
    by (auto simp: TrapProcessor_new_def Csr_new_def Csr_init_ISA_def csr_inv_def)
  obtain csr1 p1 where e: "ProcessException ?t (?csr, ?p) = Inr ((), (csr1, p1))"
    "csr_m_PrivilegeLevel csr1 = Machine" "csr_m_ProgramCounter csr1 = 0x200"
    using ProcessException_taken [OF inv, of ?t] d
    by (auto simp: trap_taken_def deleg_target_def trap_pc_of_def level_tvec_def)
  from trap_return_restores [OF inv e(1,2)] e show ?thesis
    by (fastforce simp: MakeLoadAccessFaultException_def mk_Trap_def)
qed

section \<open>The interrupt controller\<close>

text \<open>The interrupts in the order in which the controller prefers them.\<close>

definition interrupt_priority :: "InterruptType list" where
  "interrupt_priority =
     [MachineExternal, MachineTimer, MachineSoftware,
      SupervisorExternal, SupervisorTimer, SupervisorSoftware,
      UserExternal, UserTimer, UserSoftware]"

definition pick_interrupt :: "u64 \<Rightarrow> u64 \<Rightarrow> InterruptType option" where
  "pick_interrupt ie ip = List.find (\<lambda>t. bit ie (unat (InterruptType_value t)) \<and>
     bit ip (unat (InterruptType_value t))) interrupt_priority"

lemma select_interrupt_eq: "select_interrupt ie ip = pick_interrupt ie ip"
  by (simp add: select_interrupt_def pick_interrupt_def interrupt_priority_def
      InterruptType_value_def GetMember_single_zero)

text \<open>
  The timer bit that the instruction set prescribes for a request of the timer: the one of the
  level that the timer's own delegation bits select.
\<close>

definition delegated_timer :: "u32 \<Rightarrow> u32 \<Rightarrow> nat" where
  "delegated_timer mideleg sideleg =
     (if \<not> bit mideleg 7 then 7 else if \<not> bit sideleg 5 then 5 else 4)"

text \<open>
  The timer and the external bit that the code raises. It tests the whole delegation register
  shifted to the bit, so that a delegated interrupt of a higher number counts as one of the line;
  for the timer this is \<open>delegated_timer\<close> as long as there is none. Both lines are driven by
  the timer.
\<close>

definition timer_line :: "u32 \<Rightarrow> u32 \<Rightarrow> nat" where
  "timer_line mideleg sideleg =
     (if unat mideleg < 2 ^ 7 then 7 else if unat sideleg < 2 ^ 5 then 5 else 4)"

definition external_line :: "u32 \<Rightarrow> u32 \<Rightarrow> nat" where
  "external_line mideleg sideleg =
     (if unat mideleg < 2 ^ 11 then 11 else if unat sideleg < 2 ^ 9 then 9 else 8)"

definition pending_after :: "bool \<Rightarrow> u32 \<Rightarrow> u32 \<Rightarrow> u64 \<Rightarrow> u64 \<Rightarrow> bool" where
  "pending_after req mideleg sideleg ip ip' \<longleftrightarrow> (\<forall>n < 64. bit ip' n =
     (if n \<in> {4, 5, 7} then req \<and> n = timer_line mideleg sideleg
      else if n \<in> {8, 9, 11} then req \<and> n = external_line mideleg sideleg
      else bit ip n))"

lemma drop_bit_zero_iff: "drop_bit k (v :: u32) = 0 \<longleftrightarrow> unat v < 2 ^ k"
proof -
  have "unat v < 2 ^ 32" by (rule order.strict_trans2 [OF unsigned_less]) simp
  then have small: "take_bit 32 (unat v) = unat v" by (rule take_bit_nat_eq_self)
  have "drop_bit k v = 0 \<longleftrightarrow> unat (drop_bit k v) = 0" by (simp add: unsigned_eq_0_iff)
  also have "\<dots> \<longleftrightarrow> unat v div 2 ^ k = 0"
    by (simp only: unsigned_drop_bit_eq) (simp add: drop_bit_eq_div small)
  finally show ?thesis by (simp add: div_eq_0_iff)
qed

lemma less_2_even: "q < 2 \<Longrightarrow> even q \<longleftrightarrow> q = (0 :: nat)"
  by (auto simp: less_2_cases_iff)

lemma less_power_Suc_bit:
  assumes "unat (v :: u32) < 2 ^ Suc k"
  shows "unat v < 2 ^ k \<longleftrightarrow> \<not> bit v k"
proof -
  have "unat v div 2 ^ k < 2" using assms by (simp add: less_mult_imp_div_less)
  then have "even (unat v div 2 ^ k) \<longleftrightarrow> unat v div 2 ^ k = 0" by (rule less_2_even)
  also have "\<dots> \<longleftrightarrow> unat v < 2 ^ k" by (simp add: div_eq_0_iff)
  finally have "unat v < 2 ^ k \<longleftrightarrow> \<not> bit (unat v) k" by (simp add: bit_iff_odd)
  also have "bit (unat v) k = bit v k" by (auto simp: bit_unsigned_iff dest: bit_imp_le_length)
  finally show ?thesis .
qed

lemma timer_line_delegated:
  "unat mideleg < 2 ^ 8 \<Longrightarrow> unat sideleg < 2 ^ 6 \<Longrightarrow> timer_line mideleg sideleg = delegated_timer mideleg sideleg"
  using less_power_Suc_bit [of mideleg 7] less_power_Suc_bit [of sideleg 5]
  by (simp add: timer_line_def delegated_timer_def)

lemma pending_bit_eval:
  "bit (pending_bit md sd MachineTimer SupervisorTimer xip_MTIP xip_STIP xip_UTIP p) n \<longleftrightarrow>
     n = timer_line md sd \<or> bit p n"
  "bit (pending_bit md sd MachineExternal SupervisorExternal xip_MEIP xip_SEIP xip_UEIP p) n \<longleftrightarrow>
     n = external_line md sd \<or> bit p n"
  by (auto simp: pending_bit_def timer_line_def external_line_def drop_bit_zero_iff
      InterruptType_value_def bit_simps split: if_splits)

lemma lines_member: "timer_line md sd \<in> {4, 5, 7}" "external_line md sd \<in> {8, 9, 11}"
  by (simp_all add: timer_line_def external_line_def)

lemma pending_clear:
  "bit (SetMember xip_UTIP 0 (SetMember xip_STIP 0 (SetMember xip_MTIP 0 p))) n \<longleftrightarrow>
     bit (p :: u64) n \<and> n \<notin> {4, 5, 7}"
  "bit (SetMember xip_UEIP 0 (SetMember xip_SEIP 0 (SetMember xip_MEIP 0 p))) n \<longleftrightarrow>
     bit p n \<and> n \<notin> {8, 9, 11}"
  by (auto simp: bit_SetMember)

lemma UpdateCsr_eval:
  "\<exists>ip'. UpdateCsr req csr = Inr ((), csr\<lparr>csr_m_InterruptPending := ip'\<rparr>) \<and>
    pending_after req (ucast (csr_m_MachineInterruptDelegation csr))
      (ucast (csr_m_SupervisorInterruptDelegation csr)) (csr_m_InterruptPending csr) ip'"
proof -
  let ?md = "ucast (csr_m_MachineInterruptDelegation csr) :: u32"
  let ?sd = "ucast (csr_m_SupervisorInterruptDelegation csr) :: u32"
  let ?clear = "\<lambda>a b c p. SetMember a 0 (SetMember b 0 (SetMember c 0 p)) :: u64"
  let ?t = "\<lambda>p. if req then pending_bit ?md ?sd MachineTimer SupervisorTimer xip_MTIP xip_STIP xip_UTIP p
    else p"
  let ?e = "\<lambda>p. if req then pending_bit ?md ?sd MachineExternal SupervisorExternal xip_MEIP xip_SEIP
    xip_UEIP p else p"
  let ?ip = "?e (?clear xip_UEIP xip_SEIP xip_MEIP
    (?t (?clear xip_UTIP xip_STIP xip_MTIP (csr_m_InterruptPending csr))))"
  have "UpdateCsr req csr = Inr ((), csr\<lparr>csr_m_InterruptPending := ?ip\<rparr>)"
    by (simp add: UpdateCsr_def bindM_Inr queryM_def Csr_ReadUInt32_def csr_read_plain getM_def
        modifyM_def Csr_ReadInterruptPending_def Csr_WriteInterruptPending_def Let_def
        del: xip_MTIP_def xip_STIP_def xip_UTIP_def xip_MEIP_def xip_SEIP_def xip_UEIP_def)
  moreover have "pending_after req ?md ?sd (csr_m_InterruptPending csr) ?ip"
    using lines_member [of ?md ?sd]
    by (cases req; simp only: pending_after_def pending_bit_eval pending_clear if_True if_False simp_thms)
       auto
  ultimately show ?thesis by blast
qed


definition level_enable :: "Csr \<Rightarrow> bool" where
  "level_enable csr = bit (csr_m_Status csr)
     (case csr_m_PrivilegeLevel csr of Machine \<Rightarrow> 3 | Supervisor \<Rightarrow> 1 | _ \<Rightarrow> 0)"

lemma ReadStatus_enable:
  assumes "csr_inv csr"
  shows "\<exists>st. Csr_ReadStatus csr = Inr st \<and> GetMember xstatus_MIE st = GetMember xstatus_MIE (csr_m_Status csr) \<and>
    GetMember xstatus_SIE st = GetMember xstatus_SIE (csr_m_Status csr) \<and>
    GetMember xstatus_UIE st = GetMember xstatus_UIE (csr_m_Status csr)"
proof -
  have "csr_m_XLEN csr \<noteq> XLEN128" using assms by (simp add: csr_inv_def)
  then show ?thesis
    by (cases "csr_m_XLEN csr")
       (simp_all add: Csr_ReadStatus_def Let_def GetMember_single bit_SetMember)
qed

definition update_request :: "Csr \<Rightarrow> u64 \<Rightarrow> InterruptController \<Rightarrow> InterruptController" where
  "update_request csr ip ic =
     (case if level_enable csr then pick_interrupt (csr_m_InterruptEnable csr) ip else None of
        None \<Rightarrow> ic\<lparr>intc_m_IsRequested := False\<rparr>
      | Some t \<Rightarrow> ic\<lparr>intc_m_IsRequested := True, intc_m_InterruptType := t\<rparr>)"

lemma Update_eval:
  assumes u: "UpdateCsr req csr = Inr ((), csr\<lparr>csr_m_InterruptPending := ip\<rparr>)"
    and st: "Csr_ReadStatus (csr\<lparr>csr_m_InterruptPending := ip\<rparr>) = Inr st"
    and e: "GetMember xstatus_MIE st = GetMember xstatus_MIE (csr_m_Status csr)"
      "GetMember xstatus_SIE st = GetMember xstatus_SIE (csr_m_Status csr)"
      "GetMember xstatus_UIE st = GetMember xstatus_UIE (csr_m_Status csr)"
    and r: "csr_m_PrivilegeLevel csr \<noteq> Reserved"
  shows "InterruptController_Update req (csr, ic) =
    Inr ((), (csr\<lparr>csr_m_InterruptPending := ip\<rparr>, update_request csr ip ic))"
proof -
  let ?en = "case csr_m_PrivilegeLevel csr of
      Machine \<Rightarrow> GetMember xstatus_MIE st | Supervisor \<Rightarrow> GetMember xstatus_SIE st
    | _ \<Rightarrow> GetMember xstatus_UIE st"
  have en: "?en = 0 \<longleftrightarrow> \<not> level_enable csr"
    using r by (cases "csr_m_PrivilegeLevel csr"; simp only: e level_enable_def PrivilegeLevel.case)
      (simp_all add: GetMember_single)
  have sw: "(case csr_m_PrivilegeLevel csr of
      Machine \<Rightarrow> returnM (GetMember xstatus_MIE st) | Supervisor \<Rightarrow> returnM (GetMember xstatus_SIE st)
    | User \<Rightarrow> returnM (GetMember xstatus_UIE st) | Reserved \<Rightarrow> failM EmuException) = returnM ?en"
    using r by (cases "csr_m_PrivilegeLevel csr") simp_all
  have 1: "on_csr (UpdateCsr req) (csr, ic) = Inr ((), (csr\<lparr>csr_m_InterruptPending := ip\<rparr>, ic))"
    by (rule on_csr_eval(1)) (rule u)
  have 2: "on_csr (queryM Csr_ReadStatus) (csr\<lparr>csr_m_InterruptPending := ip\<rparr>, ic) =
      Inr (st, (csr\<lparr>csr_m_InterruptPending := ip\<rparr>, ic))"
    by (rule on_csr_eval(2)) (rule st)
  show ?thesis
    by (simp add: InterruptController_Update_def bindM_Inr 1 2 bindM_getM
        bindM_modifyM Csr_GetPrivilegeLevel_def Csr_ReadInterruptEnable_def
        Csr_ReadInterruptPending_def sw en select_interrupt_eq update_request_def
        returnM_def modifyM_def del: xstatus_MIE_def xstatus_SIE_def xstatus_UIE_def
        split: option.splits)
qed

text \<open>
  C25: the interrupt controller. From every state of the invariant \<open>Update\<close> returns and
  changes only the pending register and its own fields. A request of the timer leaves exactly one
  timer bit pending, and without a request there is none; it is the bit of the level that the
  timer's delegation bits select whenever the delegation registers delegate no interrupt of a
  higher number, and \<open>timer_line\<close> in general. With it the code raises one external bit,
  \<open>external_line\<close>; every other bit stays. The controller requests an interrupt exactly when the
  current level has its interrupts enabled and one is both pending and enabled, and the interrupt
  it names is the first such in the order of priority.
\<close>

theorem interrupt_update:
  assumes "csr_inv csr"
  shows "\<exists>ip ic'. InterruptController_Update req (csr, ic) =
      Inr ((), (csr\<lparr>csr_m_InterruptPending := ip\<rparr>, ic')) \<and>
    (let md = ucast (csr_m_MachineInterruptDelegation csr); sd = ucast (csr_m_SupervisorInterruptDelegation csr) in
     pending_after req md sd (csr_m_InterruptPending csr) ip \<and>
     (unat md < 2 ^ 8 \<and> unat sd < 2 ^ 6 \<longrightarrow>
       (\<forall>n \<in> {4, 5, 7}. bit ip n \<longleftrightarrow> req \<and> n = delegated_timer md sd))) \<and>
    (let pick = pick_interrupt (csr_m_InterruptEnable csr) ip in
     InterruptController_IsRequested ic' = (level_enable csr \<and> pick \<noteq> None) \<and>
     (level_enable csr \<longrightarrow> (\<forall>t. pick = Some t \<longrightarrow> GetInterruptType ic' = Inr t)))"
proof -
  obtain ip where u: "UpdateCsr req csr = Inr ((), csr\<lparr>csr_m_InterruptPending := ip\<rparr>)"
    and ip: "pending_after req (ucast (csr_m_MachineInterruptDelegation csr))
      (ucast (csr_m_SupervisorInterruptDelegation csr)) (csr_m_InterruptPending csr) ip"
    using UpdateCsr_eval by blast
  obtain st where st: "Csr_ReadStatus csr = Inr st"
    and e: "GetMember xstatus_MIE st = GetMember xstatus_MIE (csr_m_Status csr)"
    "GetMember xstatus_SIE st = GetMember xstatus_SIE (csr_m_Status csr)"
    "GetMember xstatus_UIE st = GetMember xstatus_UIE (csr_m_Status csr)"
    using ReadStatus_enable [OF assms] by blast
  have st': "Csr_ReadStatus (csr\<lparr>csr_m_InterruptPending := ip\<rparr>) = Inr st"
    unfolding st [symmetric] by (simp add: Csr_ReadStatus_def Let_def)
  have r: "csr_m_PrivilegeLevel csr \<noteq> Reserved" using assms by (simp add: csr_inv_def)
  have "InterruptController_Update req (csr, ic) =
      Inr ((), (csr\<lparr>csr_m_InterruptPending := ip\<rparr>, update_request csr ip ic))"
    by (rule Update_eval [OF u st' e r])
  moreover have "InterruptController_IsRequested (update_request csr ip ic) =
      (level_enable csr \<and> pick_interrupt (csr_m_InterruptEnable csr) ip \<noteq> None)"
    "\<forall>t. level_enable csr \<longrightarrow> pick_interrupt (csr_m_InterruptEnable csr) ip = Some t \<longrightarrow>
      GetInterruptType (update_request csr ip ic) = Inr t"
    by (cases "pick_interrupt (csr_m_InterruptEnable csr) ip"; simp add: update_request_def
        InterruptController_IsRequested_def GetInterruptType_def)+
  moreover have "bit ip n \<longleftrightarrow> req \<and> n = delegated_timer (ucast (csr_m_MachineInterruptDelegation csr))
      (ucast (csr_m_SupervisorInterruptDelegation csr))"
    if "unat (ucast (csr_m_MachineInterruptDelegation csr) :: u32) < 2 ^ 8"
      "unat (ucast (csr_m_SupervisorInterruptDelegation csr) :: u32) < 2 ^ 6" "n \<in> {4, 5, 7}" for n
    using that(3) spec [OF ip [unfolded pending_after_def], of n] timer_line_delegated [OF that(1,2)] by auto
  ultimately show ?thesis using ip unfolding Let_def by blast
qed

theorem interrupt_update_witness:
  "\<exists>csr ip ic'. csr_m_MachineInterruptDelegation csr = 0 \<and>
    InterruptController_Update True (csr, InterruptController_new UserSoftware) =
      Inr ((), (csr\<lparr>csr_m_InterruptPending := ip\<rparr>, ic')) \<and> bit ip 7 \<and> bit ip 11 \<and>
    GetInterruptType ic' = Inr MachineTimer"
proof -
  obtain csr0 where c: "Csr_new XLEN64 0x1000 = Inr csr0"
    by (simp add: Csr_new_def Csr_init_ISA_def)
  let ?csr = "csr0\<lparr>csr_m_Status := 8, csr_m_InterruptEnable := 0x80\<rparr>"
  have inv: "csr_inv ?csr" and d: "csr_m_MachineInterruptDelegation ?csr = 0"
    "csr_m_InterruptEnable ?csr = 0x80" "level_enable ?csr"
    using c csr_inv_init [OF c]
    by (auto simp: Csr_new_def Csr_init_ISA_def csr_inv_def mask_values level_enable_def)
  from interrupt_update [OF inv, of True "InterruptController_new UserSoftware"] obtain ip ic'
    where u: "InterruptController_Update True (?csr, InterruptController_new UserSoftware) =
      Inr ((), (?csr\<lparr>csr_m_InterruptPending := ip\<rparr>, ic'))"
    and q: "pending_after True (ucast (csr_m_MachineInterruptDelegation ?csr))
      (ucast (csr_m_SupervisorInterruptDelegation ?csr)) (csr_m_InterruptPending ?csr) ip"
    and t: "\<forall>t. pick_interrupt (csr_m_InterruptEnable ?csr) ip = Some t \<longrightarrow> GetInterruptType ic' = Inr t"
    using d(3) unfolding Let_def by blast
  have p: "bit ip 7" "bit ip 11"
    using spec [OF q [unfolded pending_after_def], of 7] spec [OF q [unfolded pending_after_def], of 11] d(1)
    by (simp_all add: timer_line_def external_line_def)
  from p have "pick_interrupt 0x80 ip = Some MachineTimer"
    by (simp add: pick_interrupt_def interrupt_priority_def InterruptType_value_def)
  with t u p d show ?thesis by (metis d(2))
qed

end
