(* ===== verification/Rafi_Bytes.thy ===== *)
theory Rafi_Bytes
  imports Rafi_Types
begin

text \<open>
  The byte representation behind every \<open>std::memcpy\<close> between an integer and a buffer: the
  program runs on little-endian hosts. A buffer is the list of its bytes and its size the
  length of the list.
\<close>

fun le_value :: "u8 list \<Rightarrow> 'a::len word" where
  "le_value [] = 0"
| "le_value (b # bs) = ucast b OR push_bit 8 (le_value bs)"

definition le_bytes :: "nat \<Rightarrow> 'a::len word \<Rightarrow> u8 list" where
  "le_bytes n v = map (\<lambda>i. ucast (drop_bit (8 * i) v)) [0..<n]"

lemma length_le_bytes [simp]: "length (le_bytes n v) = n"
  by (simp add: le_bytes_def)

lemma le_bytes_0 [simp]: "le_bytes 0 v = []"
  by (simp add: le_bytes_def)

lemma le_bytes_Suc: "le_bytes (Suc n) v = ucast v # le_bytes n (drop_bit 8 v)"
  by (simp add: le_bytes_def upt_rec [of 0] map_Suc_upt [symmetric] del: upt_Suc)
     (simp add: ac_simps)

lemma bit_le_value:
  "bit (le_value bs :: 'a::len word) n \<longleftrightarrow>
     n < LENGTH('a) \<and> n div 8 < length bs \<and> bit (bs ! (n div 8)) (n mod 8)"
proof (induction bs arbitrary: n)
  case (Cons b bs)
  show ?case
  proof (cases "n < 8")
    case True
    then show ?thesis by (auto simp: bit_simps)
  next
    case False
    then have "n div 8 = Suc ((n - 8) div 8)" "n mod 8 = (n - 8) mod 8"
      by (simp_all add: le_div_geq le_mod_geq)
    moreover have "\<not> bit b n" using False by (auto dest: bit_imp_le_length)
    moreover have "bit (le_value (b # bs) :: 'a word) n \<longleftrightarrow>
        bit b n \<and> n < LENGTH('a) \<or> 8 \<le> n \<and> n < LENGTH('a) \<and> bit (le_value bs :: 'a word) (n - 8)"
      by (simp add: bit_simps) blast
    ultimately show ?thesis using False by (simp add: Cons.IH) linarith
  qed
qed simp

lemma nth_le_bytes: "i < n \<Longrightarrow> le_bytes n v ! i = ucast (drop_bit (8 * i) v)"
  by (simp add: le_bytes_def)

lemma le_value_le_bytes: "le_value (le_bytes n v) = take_bit (8 * n) (v :: 'a::len word)"
proof (rule bit_word_eqI)
  fix k assume "k < LENGTH('a)"
  have "8 * (k div 8) + k mod 8 = k" by simp
  then show "bit (le_value (le_bytes n v) :: 'a word) k = bit (take_bit (8 * n) v) k"
    by (auto simp: bit_le_value nth_le_bytes bit_simps div_less_iff_less_mult mult.commute
        dest: bit_imp_le_length)
qed

lemma le_bytes_le_value:
  assumes "length bs * 8 \<le> LENGTH('a::len)"
  shows "le_bytes (length bs) (le_value bs :: 'a word) = bs"
proof (rule nth_equalityI)
  fix i assume "i < length (le_bytes (length bs) (le_value bs :: 'a word))"
  then have i: "i < length bs" by simp
  show "le_bytes (length bs) (le_value bs :: 'a word) ! i = bs ! i"
  proof (rule bit_word_eqI)
    fix k assume "k < LENGTH(8)"
    then have k: "k < 8" by simp
    then have "(8 * i + k) div 8 = i" "(8 * i + k) mod 8 = k" by simp_all
    moreover have "8 * i + k < LENGTH('a)" using i k assms by linarith
    ultimately show "bit (le_bytes (length bs) (le_value bs :: 'a word) ! i) k = bit (bs ! i) k"
      using i k by (simp add: nth_le_bytes bit_simps bit_le_value)
  qed
qed simp

lemma le_value_8 [simp]: "le_value (le_bytes 8 v) = (v :: u64)"
  by (simp add: le_value_le_bytes) (simp add: take_bit_word_eq_self)

lemma le_value_4 [simp]: "le_value (le_bytes 4 v) = (v :: u32)"
  by (simp add: le_value_le_bytes) (simp add: take_bit_word_eq_self)

lemma le_value_2 [simp]: "le_value (le_bytes 2 v) = (v :: u16)"
  by (simp add: le_value_le_bytes) (simp add: take_bit_word_eq_self)

lemma le_value_1 [simp]: "le_value (le_bytes 1 v) = (v :: u8)"
  by (simp add: le_value_le_bytes) (simp add: take_bit_word_eq_self)

text \<open>\<open>std::memcpy\<close> of a buffer over the lower bytes of an integer.\<close>

definition le_update :: "u8 list \<Rightarrow> 'a::len word \<Rightarrow> 'a word" where
  "le_update bs v = push_bit (8 * length bs) (drop_bit (8 * length bs) v) OR le_value bs"

lemma le_bytes_update:
  assumes "length bs * 8 \<le> LENGTH('a::len)"
  shows "le_bytes (length bs) (le_update bs (v :: 'a word)) = bs"
proof -
  have "le_bytes (length bs) (le_update bs v) = le_bytes (length bs) (le_value bs :: 'a word)"
    by (rule nth_equalityI)
       (auto simp: nth_le_bytes le_update_def intro!: bit_word_eqI simp: bit_simps)
  with assms show ?thesis by (simp add: le_bytes_le_value)
qed

section \<open>Byte arrays\<close>

text \<open>
  A memory body: a function from offsets to bytes, read and written by \<open>memcpy\<close>. Offsets
  are 64-bit and the accesses of the devices stay below the end of the body, so \<open>of_nat\<close>
  does not wrap.
\<close>

type_synonym body = "u64 \<Rightarrow> u8"

definition body_read :: "nat \<Rightarrow> u64 \<Rightarrow> body \<Rightarrow> u8 list" where
  "body_read n address b = map (\<lambda>i. b (address + of_nat i)) [0..<n]"

definition body_write :: "u8 list \<Rightarrow> u64 \<Rightarrow> body \<Rightarrow> body" where
  "body_write bs address b =
     (\<lambda>a. if unat (a - address) < length bs then bs ! unat (a - address) else b a)"

lemma length_body_read [simp]: "length (body_read n a b) = n"
  by (simp add: body_read_def)

text \<open>What a read sees of a write: the bytes where they overlap, and nothing elsewhere.\<close>

lemma body_read_write:
  assumes "length bs \<le> 2 ^ 64"
  shows "body_read (length bs) a (body_write bs a b) = bs"
proof (rule nth_equalityI)
  fix i assume "i < length (body_read (length bs) a (body_write bs a b))"
  then have i: "i < length bs" by simp
  with assms have "i < 2 ^ 64" by linarith
  then have "unat (of_nat i :: u64) = i" by (simp add: unat_of_nat take_bit_nat_eq_self)
  with i show "body_read (length bs) a (body_write bs a b) ! i = bs ! i"
    by (simp add: body_read_def body_write_def)
qed simp

lemma body_read_write_other:
  assumes "\<And>i. i < n \<Longrightarrow> length bs \<le> unat (c + of_nat i - a)"
  shows "body_read n c (body_write bs a b) = body_read n c b"
  using assms by (auto simp: body_read_def body_write_def not_less [symmetric])

end
