(* ===== verification/Rafi_Devices.thy ===== *)
theory Rafi_Devices
  imports Rafi_Bytes Rafi_Csr
begin

text \<open>
  The memories and devices behind the bus: \<^verbatim>\<open>src/rafi-emu/mem\<close> (\<open>Ram\<close>, \<open>Rom\<close>) and
  \<^verbatim>\<open>src/rafi-emu/io\<close> (\<open>Clint\<close>, \<open>Plic\<close>, \<open>Timer\<close>, \<open>Uart\<close>, \<open>Uart16550\<close>, \<open>VirtIo\<close>). A read
  gets the number of bytes and an address and answers the bytes; no read changes a state.
  A write gets the bytes. The Clint works on the processor's registers, which are part of
  its state here. The characters a device prints are the result of its \<open>ProcessCycle\<close>.
\<close>

text \<open>The condition of \<open>RAFI_EMU_CHECK_ACCESS\<close>, in wrapping 64-bit arithmetic.\<close>

abbreviation access_ok :: "u64 \<Rightarrow> nat \<Rightarrow> u64 \<Rightarrow> bool" where
  "access_ok address n capacity \<equiv> address + of_nat n - 1 < capacity"

section \<open>Memories\<close>

record Ram =
  ram_m_Capacity :: u64
  ram_m_pBody :: body

definition Ram_new :: "u64 \<Rightarrow> Ram" where
  "Ram_new capacity = \<lparr>ram_m_Capacity = capacity, ram_m_pBody = (\<lambda>_. 0)\<rparr>"

definition Ram_GetCapacity :: "Ram \<Rightarrow> u64" where
  "Ram_GetCapacity ram = ram_m_Capacity ram"

text \<open>
  \<open>LoadFile\<close> reads the host's file system: the content of the file, or \<open>None\<close> when it cannot
  be opened, is its argument.
\<close>

definition load_body :: "u8 list option \<Rightarrow> i32 \<Rightarrow> u64 \<Rightarrow> body \<Rightarrow> body result" where
  "load_body content offset capacity b =
     (if offset <s 0 \<or> capacity < scast offset then Inl EmuException
      else case content of None \<Rightarrow> Inl EmuException
        | Some bs \<Rightarrow> Inr (body_write (take (unat (capacity - scast offset)) bs) (scast offset) b))"

definition Ram_LoadFile :: "u8 list option \<Rightarrow> i32 \<Rightarrow> Ram \<Rightarrow> Ram result" where
  "Ram_LoadFile content offset ram =
     map_sum id (\<lambda>b. ram\<lparr>ram_m_pBody := b\<rparr>)
       (load_body content offset (Ram_GetCapacity ram) (ram_m_pBody ram))"

text \<open>
  The assertion adds in 64 bits; an access that passes it because the sum wrapped is undefined
  behaviour. That assertions are compiled in is an assumption: in a build with
  \<open>NDEBUG\<close> the \<open>memcpy\<close> of an access that fails here goes beyond the body.
\<close>

definition Ram_access :: "u64 \<Rightarrow> nat \<Rightarrow> Ram \<Rightarrow> 'a \<Rightarrow> 'a result" where
  "Ram_access address n ram x =
     (if \<not> address + of_nat n \<le> Ram_GetCapacity ram then Inl AssertionFailure
      else if unat address + n \<le> unat (ram_m_Capacity ram) then Inr x else Inl Undefined)"

definition Ram_Read :: "nat \<Rightarrow> u64 \<Rightarrow> Ram \<Rightarrow> u8 list result" where
  "Ram_Read n address ram = Ram_access address n ram (body_read n address (ram_m_pBody ram))"

definition Ram_Write :: "u8 list \<Rightarrow> u64 \<Rightarrow> Ram \<Rightarrow> Ram result" where
  "Ram_Write bs address ram = Ram_access address (length bs) ram
     (ram\<lparr>ram_m_pBody := body_write bs address (ram_m_pBody ram)\<rparr>)"

record Rom =
  rom_m_pBody :: body

definition Rom_Capacity :: u64 where "Rom_Capacity = 4 * 1024"

definition Rom_new :: Rom where "Rom_new = \<lparr>rom_m_pBody = (\<lambda>_. 0)\<rparr>"

definition Rom_GetCapacity :: "Rom \<Rightarrow> u64" where "Rom_GetCapacity rom = Rom_Capacity"

definition Rom_LoadFile :: "u8 list option \<Rightarrow> i32 \<Rightarrow> Rom \<Rightarrow> Rom result" where
  "Rom_LoadFile content offset rom =
     map_sum id (\<lambda>b. rom\<lparr>rom_m_pBody := b\<rparr>)
       (load_body content offset (Rom_GetCapacity rom) (rom_m_pBody rom))"

definition Rom_Read :: "nat \<Rightarrow> u64 \<Rightarrow> Rom \<Rightarrow> u8 list result" where
  "Rom_Read n address rom =
     (if access_ok address n (Rom_GetCapacity rom) then
        if unat address + n \<le> unat Rom_Capacity then Inr (body_read n address (rom_m_pBody rom))
        else Inl Undefined
      else Inl EmuException)"

definition Rom_Write :: "u8 list \<Rightarrow> u64 \<Rightarrow> Rom \<Rightarrow> Rom result" where
  "Rom_Write bs address rom = Inl EmuException"

section \<open>Clint\<close>

record Clint =
  clint_m_TimeCmp :: u64

definition Clint_new :: Clint where "Clint_new = \<lparr>clint_m_TimeCmp = 0\<rparr>"

definition Clint_GetSize :: u64 where "Clint_GetSize = 0x10000"

definition ADDR_MSIP :: u64 where "ADDR_MSIP = 0x0"
definition ADDR_MTIMECMP :: u64 where "ADDR_MTIMECMP = 0x4000"
definition ADDR_MTIME :: u64 where "ADDR_MTIME = 0xbff8"

definition Clint_ReadMsip :: "nat \<Rightarrow> Csr \<Rightarrow> u8 list result" where
  "Clint_ReadMsip n csr =
     (let value = ucast (GetMember xip_MSIP (Csr_ReadInterruptPending csr)) :: u32 in
      if n \<noteq> 4 then Inl EmuException else Inr (le_bytes n value))"

definition Clint_ReadTime :: "nat \<Rightarrow> Csr \<Rightarrow> u8 list result" where
  "Clint_ReadTime n csr =
     (let value = Csr_ReadTime csr in
      if n \<noteq> 8 then Inl EmuException else Inr (le_bytes n value))"

definition Clint_WriteMsip :: "u8 list \<Rightarrow> Csr \<Rightarrow> Csr result" where
  "Clint_WriteMsip bs csr =
     (if length bs \<noteq> 4 then Inl EmuException
      else let value = le_value bs :: u32;
               mip = Csr_ReadInterruptPending csr;
               mip = SetMember xip_MSIP (ucast (value AND 0x1)) mip in
           Inr (Csr_WriteInterruptPending mip csr))"

definition Clint_WriteTime :: "u8 list \<Rightarrow> Csr \<Rightarrow> Csr result" where
  "Clint_WriteTime bs csr =
     (if length bs \<noteq> 8 then Inl EmuException else Inr (Csr_WriteTime (le_value bs) csr))"

definition Clint_Read :: "nat \<Rightarrow> u64 \<Rightarrow> Csr \<times> Clint \<Rightarrow> u8 list result" where
  "Clint_Read n address = (\<lambda>(csr, clint).
     if \<not> access_ok address n Clint_GetSize then Inl EmuException
     else if address = ADDR_MSIP then Clint_ReadMsip n csr
     else if address = ADDR_MTIME then Clint_ReadTime n csr
     else if address = ADDR_MTIMECMP then
       (if n > 8 then Inl EmuException else Inr (le_bytes n (clint_m_TimeCmp clint)))
     else Inl EmuException)"

definition Clint_Write :: "u8 list \<Rightarrow> u64 \<Rightarrow> Csr \<times> Clint \<Rightarrow> (Csr \<times> Clint) result" where
  "Clint_Write bs address = (\<lambda>(csr, clint).
     if \<not> access_ok address (length bs) Clint_GetSize then Inl EmuException
     else if address = ADDR_MSIP then map_sum id (\<lambda>csr'. (csr', clint)) (Clint_WriteMsip bs csr)
     else if address = ADDR_MTIME then map_sum id (\<lambda>csr'. (csr', clint)) (Clint_WriteTime bs csr)
     else if address = ADDR_MTIMECMP then
       (if length bs > 8 then Inl EmuException
        else Inr (csr, clint\<lparr>clint_m_TimeCmp := le_update bs (clint_m_TimeCmp clint)\<rparr>))
     else Inl EmuException)"

definition Clint_IsInterruptRequested :: "Csr \<times> Clint \<Rightarrow> bool" where
  "Clint_IsInterruptRequested = (\<lambda>(csr, clint). clint_m_TimeCmp clint \<le> Csr_ReadTime csr)"

section \<open>Plic\<close>

record Plic =
  plic_m_Priorities :: "u32 list"
  plic_m_Pendings :: "u32 list"
  plic_m_MachineInterruptEnables :: "u32 list"
  plic_m_SupervisorInterruptEnables :: "u32 list"
  plic_m_MachineThreshold :: u32
  plic_m_SupervisorThreshold :: u32

text \<open>\<open>System\<close> value-initialises the member: every field is zero.\<close>

definition Plic_new :: Plic where
  "Plic_new = \<lparr>plic_m_Priorities = replicate 128 0, plic_m_Pendings = replicate 4 0,
     plic_m_MachineInterruptEnables = replicate 4 0,
     plic_m_SupervisorInterruptEnables = replicate 4 0,
     plic_m_MachineThreshold = 0, plic_m_SupervisorThreshold = 0\<rparr>"

definition Plic_GetSize :: u64 where "Plic_GetSize = 0x04000000"
definition PriorityMask :: u32 where "PriorityMask = 0x7"
definition ADDR_PRIORITY_BEGIN :: u64 where "ADDR_PRIORITY_BEGIN = 0x000000"
definition ADDR_PRIORITY_END :: u64 where "ADDR_PRIORITY_END = 0x000200"
definition ADDR_PENDING_BEGIN :: u64 where "ADDR_PENDING_BEGIN = 0x001000"
definition ADDR_PENDING_END :: u64 where "ADDR_PENDING_END = 0x001010"
definition ADDR_ENABLE_M_BEGIN :: u64 where "ADDR_ENABLE_M_BEGIN = 0x002000"
definition ADDR_ENABLE_M_END :: u64 where "ADDR_ENABLE_M_END = 0x002010"
definition ADDR_ENABLE_S_BEGIN :: u64 where "ADDR_ENABLE_S_BEGIN = 0x002080"
definition ADDR_ENABLE_S_END :: u64 where "ADDR_ENABLE_S_END = 0x002090"
definition ADDR_THRESHOLD_M :: u64 where "ADDR_THRESHOLD_M = 0x200000"
definition ADDR_THRESHOLD_S :: u64 where "ADDR_THRESHOLD_S = 0x201000"

definition plic_index :: "u64 \<Rightarrow> u64 \<Rightarrow> int" where
  "plic_index address begin_addr = int (unat ((address - begin_addr) div 4))"

definition Plic_ReadUInt32 :: "u64 \<Rightarrow> Plic \<Rightarrow> u32 result" where
  "Plic_ReadUInt32 address plic =
     (if ADDR_PRIORITY_BEGIN \<le> address \<and> address < ADDR_PRIORITY_END
        then array_get (plic_m_Priorities plic) (plic_index address ADDR_PRIORITY_BEGIN)
      else if ADDR_PENDING_BEGIN \<le> address \<and> address < ADDR_PENDING_END
        then array_get (plic_m_Pendings plic) (plic_index address ADDR_PENDING_BEGIN)
      else if ADDR_ENABLE_M_BEGIN \<le> address \<and> address < ADDR_ENABLE_M_END
        then array_get (plic_m_MachineInterruptEnables plic) (plic_index address ADDR_ENABLE_M_BEGIN)
      else if ADDR_ENABLE_S_BEGIN \<le> address \<and> address < ADDR_ENABLE_S_END
        then array_get (plic_m_SupervisorInterruptEnables plic) (plic_index address ADDR_ENABLE_S_BEGIN)
      else if address = ADDR_THRESHOLD_M then Inr (plic_m_MachineThreshold plic)
      else if address = ADDR_THRESHOLD_S then Inr (plic_m_SupervisorThreshold plic)
      else Inl EmuException)"

definition Plic_WriteUInt32 :: "u64 \<Rightarrow> u32 \<Rightarrow> Plic \<Rightarrow> Plic result" where
  "Plic_WriteUInt32 address value plic =
     (if ADDR_PRIORITY_BEGIN \<le> address \<and> address < ADDR_PRIORITY_END
        then map_sum id (\<lambda>xs. plic\<lparr>plic_m_Priorities := xs\<rparr>)
          (array_set (plic_m_Priorities plic) (plic_index address ADDR_PRIORITY_BEGIN)
             (value AND PriorityMask))
      else if ADDR_ENABLE_M_BEGIN \<le> address \<and> address < ADDR_ENABLE_M_END
        then map_sum id (\<lambda>xs. plic\<lparr>plic_m_MachineInterruptEnables := xs\<rparr>)
          (array_set (plic_m_MachineInterruptEnables plic)
             (plic_index address ADDR_ENABLE_M_BEGIN) value)
      else if ADDR_ENABLE_S_BEGIN \<le> address \<and> address < ADDR_ENABLE_S_END
        then map_sum id (\<lambda>xs. plic\<lparr>plic_m_SupervisorInterruptEnables := xs\<rparr>)
          (array_set (plic_m_SupervisorInterruptEnables plic)
             (plic_index address ADDR_ENABLE_S_BEGIN) value)
      else if address = ADDR_THRESHOLD_M
        then Inr (plic\<lparr>plic_m_MachineThreshold := value AND PriorityMask\<rparr>)
      else if address = ADDR_THRESHOLD_S
        then Inr (plic\<lparr>plic_m_SupervisorThreshold := value AND PriorityMask\<rparr>)
      else Inl EmuException)"

definition Plic_Read :: "nat \<Rightarrow> u64 \<Rightarrow> Plic \<Rightarrow> u8 list result" where
  "Plic_Read n address plic =
     (if \<not> access_ok address n Plic_GetSize then Inl EmuException
      else if n = 4 then map_sum id (le_bytes n) (Plic_ReadUInt32 address plic)
      else if n = 8 then
        case Plic_ReadUInt32 address plic of Inl e \<Rightarrow> Inl e
        | Inr low \<Rightarrow> (case Plic_ReadUInt32 (address + 4) plic of Inl e \<Rightarrow> Inl e
            | Inr high \<Rightarrow> Inr (le_bytes n (push_bit 32 (ucast high) OR ucast low :: u64)))
      else Inl EmuException)"

definition Plic_Write :: "u8 list \<Rightarrow> u64 \<Rightarrow> Plic \<Rightarrow> Plic result" where
  "Plic_Write bs address plic =
     (if \<not> access_ok address (length bs) Plic_GetSize then Inl EmuException
      else if length bs = 4 then Plic_WriteUInt32 address (le_value bs) plic
      else if length bs = 8 then
        let value = le_value bs :: u64 in
        case Plic_WriteUInt32 address (ucast value) plic of Inl e \<Rightarrow> Inl e
        | Inr plic' \<Rightarrow> Plic_WriteUInt32 (address + 4) (ucast (drop_bit 32 value)) plic'
      else Inl EmuException)"

definition Plic_IsInterruptRequested :: "Plic \<Rightarrow> bool" where
  "Plic_IsInterruptRequested plic = False"

section \<open>Timer\<close>

text \<open>\<open>System\<close> value-initialises the timer: both registers are zero.\<close>

record Timer =
  timer_m_Time :: u64
  timer_m_TimeCmp :: u64

definition Timer_new :: Timer where "Timer_new = \<lparr>timer_m_Time = 0, timer_m_TimeCmp = 0\<rparr>"

definition Timer_GetSize :: u64 where "Timer_GetSize = 16"

definition Timer_Read :: "nat \<Rightarrow> u64 \<Rightarrow> Timer \<Rightarrow> u8 list result" where
  "Timer_Read n address timer =
     (if \<not> access_ok address n Timer_GetSize then Inl EmuException
      else if n \<noteq> 4 then Inl EmuException
      else if address = 0 then Inr (le_bytes 4 (GetLow32 (timer_m_Time timer)))
      else if address = 4 then Inr (le_bytes 4 (GetHigh32 (timer_m_Time timer)))
      else if address = 8 then Inr (le_bytes 4 (GetLow32 (timer_m_TimeCmp timer)))
      else if address = 12 then Inr (le_bytes 4 (GetHigh32 (timer_m_TimeCmp timer)))
      else Inl EmuException)"

definition Timer_Write :: "u8 list \<Rightarrow> u64 \<Rightarrow> Timer \<Rightarrow> Timer result" where
  "Timer_Write bs address timer =
     (if \<not> access_ok address (length bs) Timer_GetSize then Inl EmuException
      else if length bs \<noteq> 4 then Inl EmuException
      else let value = le_value bs in
        if address = 0 then Inr (timer\<lparr>timer_m_Time := SetLow32 value (timer_m_Time timer)\<rparr>)
        else if address = 4 then Inr (timer\<lparr>timer_m_Time := SetHigh32 value (timer_m_Time timer)\<rparr>)
        else if address = 8
          then Inr (timer\<lparr>timer_m_TimeCmp := SetLow32 value (timer_m_TimeCmp timer)\<rparr>)
        else if address = 12
          then Inr (timer\<lparr>timer_m_TimeCmp := SetHigh32 value (timer_m_TimeCmp timer)\<rparr>)
        else Inl EmuException)"

definition Timer_IsInterruptRequested :: "Timer \<Rightarrow> bool" where
  "Timer_IsInterruptRequested timer = (timer_m_TimeCmp timer \<le> timer_m_Time timer)"

definition Timer_ProcessCycle :: "Timer \<Rightarrow> Timer" where
  "Timer_ProcessCycle timer = timer\<lparr>timer_m_Time := timer_m_Time timer + 1\<rparr>"

section \<open>Uart\<close>

text \<open>
  \<open>UpdateRx\<close>, whose only call is commented out, is not modelled; nothing else reads
  \<open>m_Cycle\<close>. \<open>char\<close> is signed.
\<close>

record Uart =
  uart_m_InterruptEnable :: u32
  uart_m_InterruptPending :: u32
  uart_m_TxChars :: "u8 list"
  uart_m_RxChar :: u8
  uart_m_Cycle :: i32
  uart_m_PrintCount :: nat

definition Uart_new :: Uart where
  "Uart_new = \<lparr>uart_m_InterruptEnable = 0, uart_m_InterruptPending = 0, uart_m_TxChars = [],
     uart_m_RxChar = 0, uart_m_Cycle = 0, uart_m_PrintCount = 0\<rparr>"

definition Uart_GetSize :: u64 where "Uart_GetSize = 32"

definition Uart_Read :: "nat \<Rightarrow> u64 \<Rightarrow> Uart \<Rightarrow> u8 list result" where
  "Uart_Read n address uart =
     (if \<not> access_ok address n Uart_GetSize then Inl EmuException
      else if n \<noteq> 4 then Inl EmuException
      else if address = 0 then Inr (le_bytes 4 (if uart_m_TxChars uart = [] then 0
        else scast (last (uart_m_TxChars uart)) :: u32))
      else if address = 4 then Inr (le_bytes 4 (scast (uart_m_RxChar uart) :: u32))
      else if address = 16 then Inr (le_bytes 4 (uart_m_InterruptEnable uart))
      else if address = 24 then Inr (le_bytes 4 (uart_m_InterruptPending uart))
      else Inl EmuException)"

definition Uart_Write :: "u8 list \<Rightarrow> u64 \<Rightarrow> Uart \<Rightarrow> Uart result" where
  "Uart_Write bs address uart =
     (if \<not> access_ok address (length bs) Uart_GetSize then Inl EmuException
      else if length bs \<noteq> 4 then Inl EmuException
      else let value = le_value bs :: u32 in
        if address = 0 then Inr (uart\<lparr>uart_m_TxChars := uart_m_TxChars uart @ [ucast value]\<rparr>)
        else if address = 4 then Inr uart
        else if address = 16 then Inr (uart\<lparr>uart_m_InterruptEnable := value\<rparr>)
        else if address = 24 then Inr (uart\<lparr>uart_m_InterruptPending := value\<rparr>)
        else Inl EmuException)"

definition Uart_IsInterruptRequested :: "Uart \<Rightarrow> bool" where
  "Uart_IsInterruptRequested uart = False"

text \<open>
  \<open>std::isprint\<close> in the C locale, which answers false for negative characters, and
  \<open>printf\<close> with \<open>%02x\<close> of the character promoted to \<open>int\<close>.
\<close>

definition is_print :: "u8 \<Rightarrow> bool" where "is_print c = (0x20 \<le> c \<and> c \<le> 0x7e)"

definition hex_digit :: "u32 \<Rightarrow> u8" where
  "hex_digit d = (if d < 10 then ucast d + 0x30 else ucast d + 0x57)"

definition print_02x :: "u32 \<Rightarrow> u8 list" where
  "print_02x v =
     (let ds = map (\<lambda>i. hex_digit (drop_bit (4 * i) v AND 0xf)) (rev [0..<8]) in
      dropWhile (\<lambda>d. d = 0x30) (take 6 ds) @ drop 6 ds)"

definition print_char :: "u8 \<Rightarrow> u8 list" where
  "print_char c =
     (if is_print c \<or> c = 0x0d \<or> c = 0x0a then [c] else [0x5c, 0x78] @ print_02x (scast c))"

definition Uart_PrintTx :: "Uart \<Rightarrow> u8 list \<times> Uart" where
  "Uart_PrintTx uart =
     (concat (map print_char (drop (uart_m_PrintCount uart) (uart_m_TxChars uart))),
      uart\<lparr>uart_m_PrintCount := length (uart_m_TxChars uart)\<rparr>)"

definition Uart_ProcessCycle :: "Uart \<Rightarrow> u8 list \<times> Uart" where
  "Uart_ProcessCycle uart =
     (let (out, uart) = Uart_PrintTx uart in (out, uart\<lparr>uart_m_Cycle := uart_m_Cycle uart + 1\<rparr>))"

section \<open>Uart16550\<close>

record Uart16550 =
  u16550_m_TxChar :: u8
  u16550_m_InterruptEnable :: u8
  u16550_m_InterruptIdent :: u8
  u16550_m_FifoControl :: u8
  u16550_m_LineControl :: u8
  u16550_m_LineStatus :: u8
  u16550_m_Scratch :: u8

definition Uart16550_new :: Uart16550 where
  "Uart16550_new = \<lparr>u16550_m_TxChar = 0, u16550_m_InterruptEnable = 0, u16550_m_InterruptIdent = 1,
     u16550_m_FifoControl = 0, u16550_m_LineControl = 0, u16550_m_LineStatus = 0x60,
     u16550_m_Scratch = 0\<rparr>"

definition Uart16550_GetSize :: u64 where "Uart16550_GetSize = 8"

definition Uart16550_Read :: "nat \<Rightarrow> u64 \<Rightarrow> Uart16550 \<Rightarrow> u8 list result" where
  "Uart16550_Read n address uart =
     (if \<not> access_ok address n Uart16550_GetSize then Inl EmuException
      else if n \<noteq> 1 then Inl EmuException
      else if address = 0 then Inr [0]
      else if address = 1 then Inr [u16550_m_InterruptEnable uart]
      else if address = 2 then Inr [u16550_m_FifoControl uart]
      else if address = 3 then Inr [u16550_m_LineControl uart]
      else if address = 4 then Inr [0]
      else if address = 5 then Inr [u16550_m_LineStatus uart]
      else if address = 6 then Inr [0]
      else if address = 7 then Inr [u16550_m_Scratch uart]
      else Inl EmuException)"

definition Uart16550_Write :: "u8 list \<Rightarrow> u64 \<Rightarrow> Uart16550 \<Rightarrow> Uart16550 result" where
  "Uart16550_Write bs address uart =
     (if \<not> access_ok address (length bs) Uart16550_GetSize then Inl EmuException
      else if length bs \<noteq> 1 then Inl EmuException
      else let value = le_value bs in
        if address = 0 then
          Inr (if u16550_m_LineControl uart AND 0x80 = 0 then uart\<lparr>u16550_m_TxChar := value\<rparr> else uart)
        else if address = 1 then
          Inr (if u16550_m_LineControl uart AND 0x80 = 0
               then uart\<lparr>u16550_m_InterruptEnable := value\<rparr> else uart)
        else if address = 2 then Inr (uart\<lparr>u16550_m_FifoControl := value\<rparr>)
        else if address = 3 then Inr (uart\<lparr>u16550_m_LineControl := value\<rparr>)
        else if address \<in> {4, 5, 6} then Inr uart
        else if address = 7 then Inr (uart\<lparr>u16550_m_Scratch := value\<rparr>)
        else Inl EmuException)"

definition Uart16550_IsInterruptRequested :: "Uart16550 \<Rightarrow> bool" where
  "Uart16550_IsInterruptRequested uart = False"

definition Uart16550_PrintTx :: "Uart16550 \<Rightarrow> u8 list \<times> Uart16550" where
  "Uart16550_PrintTx uart =
     (if u16550_m_TxChar uart \<noteq> 0 then [u16550_m_TxChar uart] else [],
      uart\<lparr>u16550_m_TxChar := 0\<rparr>)"

definition Uart16550_ProcessCycle :: "Uart16550 \<Rightarrow> u8 list \<times> Uart16550" where
  "Uart16550_ProcessCycle uart = Uart16550_PrintTx uart"

section \<open>VirtIo\<close>

text \<open>The device has no state.\<close>

definition VirtIo_GetSize :: u64 where "VirtIo_GetSize = 0x1000"

definition VirtIo_Read :: "nat \<Rightarrow> u64 \<Rightarrow> u8 list result" where
  "VirtIo_Read n address =
     (if \<not> access_ok address n VirtIo_GetSize then Inl EmuException
      else if n \<noteq> 4 then Inl EmuException
      else if address = 0x0 then Inr (le_bytes 4 (0x74726976 :: u32))
      else if address = 0x4 then Inr (le_bytes 4 (1 :: u32))
      else if address = 0xc then Inr (le_bytes 4 (0x49464152 :: u32))
      else Inr (le_bytes 4 (0 :: u32)))"

definition VirtIo_Write :: "u8 list \<Rightarrow> u64 \<Rightarrow> unit result" where
  "VirtIo_Write bs address =
     (if access_ok address (length bs) VirtIo_GetSize then Inr () else Inl EmuException)"

definition VirtIo_IsInterruptRequested :: bool where "VirtIo_IsInterruptRequested = False"

end
