(* ===== verification/Rafi_Devices_Ok.thy ===== *)
theory Rafi_Devices_Ok
  imports Rafi_Devices
begin

text \<open>
  The contracts the bus relies on: a readable and a writable memory, described by the bytes
  they hold, and an I/O device, whose accesses answer as many bytes as were asked for or raise
  the emulator's exception.
\<close>

section \<open>Memories\<close>

lemma unat_add_small: "unat (a :: u64) + n < 2 ^ 64 \<Longrightarrow> unat (a + of_nat n) = unat a + n"
  by (simp add: unat_word_ariths unat_of_nat take_bit_nat_eq_self)

lemma body_read_nat:
  "unat (a :: u64) + n \<le> 2 ^ 64 \<Longrightarrow>
   body_read n a b = map (\<lambda>i. b (of_nat (unat a + i))) [0..<n]"
  by (simp add: body_read_def)

locale readable_memory =
  fixes rd :: "nat \<Rightarrow> u64 \<Rightarrow> 's \<Rightarrow> u8 list result"
    and bytes :: "'s \<Rightarrow> nat \<Rightarrow> u8"
    and capacity :: "'s \<Rightarrow> nat"
  assumes capacity_64: "capacity s < 2 ^ 64"
    and rd_ok: "0 < n \<Longrightarrow> unat a + n \<le> capacity s \<Longrightarrow>
      rd n a s = Inr (map (\<lambda>i. bytes s (unat a + i)) [0..<n])"
    and rd_bad: "0 < n \<Longrightarrow> n \<le> 8 \<Longrightarrow> capacity s < unat a + n \<Longrightarrow> \<exists>e. rd n a s = Inl e"
begin

lemma rd_length: "0 < n \<Longrightarrow> unat a + n \<le> capacity s \<Longrightarrow> rd n a s = Inr bs \<Longrightarrow> length bs = n"
  by (auto simp: rd_ok)

text \<open>A wide read is the concatenation of narrower ones.\<close>

lemma rd_append:
  assumes "unat a + (n + m) \<le> capacity s" "0 < n" "0 < m"
  shows "\<exists>xs ys. rd n a s = Inr xs \<and> rd m (a + of_nat n) s = Inr ys \<and> rd (n + m) a s = Inr (xs @ ys)"
proof -
  have "unat a + n < 2 ^ 64" using assms capacity_64 [of s] by linarith
  then have "unat (a + of_nat n) = unat a + n" by (rule unat_add_small)
  moreover have "[0..<n + m] = [0..<n] @ map (\<lambda>i. i + n) [0..<m]"
    using upt_add_eq_append [of 0 n m] by (simp add: map_add_upt add.commute)
  ultimately show ?thesis
    using assms by (simp add: rd_ok o_def add.assoc add.commute add.left_commute)
qed

end

locale writable_memory = readable_memory +
  fixes wr :: "u8 list \<Rightarrow> u64 \<Rightarrow> 's \<Rightarrow> 's result"
  assumes wr_ok: "unat a + length xs \<le> capacity s \<Longrightarrow>
      \<exists>t. wr xs a s = Inr t \<and> capacity t = capacity s \<and>
        (\<forall>i < capacity s. bytes t i =
          (if unat a \<le> i \<and> i < unat a + length xs then xs ! (i - unat a) else bytes s i))"
begin

lemma read_own_write:
  assumes "unat a + length xs \<le> capacity s" "xs \<noteq> []"
  shows "\<exists>t. wr xs a s = Inr t \<and> capacity t = capacity s \<and> rd (length xs) a t = Inr xs"
proof -
  obtain t where t: "wr xs a s = Inr t" "capacity t = capacity s"
    "\<forall>i < capacity s. bytes t i =
      (if unat a \<le> i \<and> i < unat a + length xs then xs ! (i - unat a) else bytes s i)"
    using wr_ok [OF assms(1)] by blast
  with assms have "map (\<lambda>i. bytes t (unat a + i)) [0..<length xs] = xs"
    by (intro nth_equalityI) auto
  with t assms show ?thesis by (simp add: rd_ok)
qed

lemma read_other_write:
  assumes "unat a + length xs \<le> capacity s" "unat b + n \<le> capacity s" "0 < n"
    and "unat a + length xs \<le> unat b \<or> unat b + n \<le> unat a"
    and "wr xs a s = Inr t"
  shows "rd n b t = rd n b s"
proof -
  have t: "capacity t = capacity s"
    "\<forall>i < capacity s. bytes t i =
      (if unat a \<le> i \<and> i < unat a + length xs then xs ! (i - unat a) else bytes s i)"
    using wr_ok [OF assms(1)] assms(5) by auto
  then have "bytes t (unat b + i) = bytes s (unat b + i)" if "i < n" for i
    using that assms(2,4) by auto
  with t assms(2,3) show ?thesis by (simp add: rd_ok)
qed

end

interpretation ram: readable_memory Ram_Read "\<lambda>ram i. ram_m_pBody ram (of_nat i)"
  "\<lambda>ram. unat (ram_m_Capacity ram)"
proof
  fix ram :: Ram and a :: u64 and n :: nat
  show less: "unat (ram_m_Capacity ram) < 2 ^ 64"
    by (rule order.strict_trans2 [OF unsigned_less]) simp
  {
    assume le: "unat a + n \<le> unat (ram_m_Capacity ram)"
    with less have "unat (a + of_nat n) = unat a + n" by (intro unat_add_small) linarith
    with le show "Ram_Read n a ram = Inr (map (\<lambda>i. ram_m_pBody ram (of_nat (unat a + i))) [0..<n])"
      using less by (simp add: Ram_Read_def Ram_access_def Ram_GetCapacity_def body_read_nat word_le_nat_alt)
  }
  assume "unat (ram_m_Capacity ram) < unat a + n"
  then show "\<exists>e. Ram_Read n a ram = Inl e"
    by (simp add: Ram_Read_def Ram_access_def)
qed

interpretation ramw: writable_memory Ram_Read "\<lambda>ram i. ram_m_pBody ram (of_nat i)"
  "\<lambda>ram. unat (ram_m_Capacity ram)" Ram_Write
proof
  fix ram :: Ram and a :: u64 and xs :: "u8 list"
  assume le: "unat a + length xs \<le> unat (ram_m_Capacity ram)"
  have less: "unat (ram_m_Capacity ram) < 2 ^ 64" by (rule ram.capacity_64)
  with le have "unat (a + of_nat (length xs)) = unat a + length xs"
    by (intro unat_add_small) linarith
  moreover have "unat (of_nat i - a) = (if unat a \<le> i then i - unat a else 2 ^ 64 + i - unat a)"
    if "i < 2 ^ 64" for i
    using that unsigned_less [of a] by (auto simp: unat_sub_if' unat_of_nat take_bit_nat_eq_self)
  ultimately show "\<exists>t. Ram_Write xs a ram = Inr t \<and>
      unat (ram_m_Capacity t) = unat (ram_m_Capacity ram) \<and>
      (\<forall>i < unat (ram_m_Capacity ram). ram_m_pBody t (of_nat i) =
        (if unat a \<le> i \<and> i < unat a + length xs then xs ! (i - unat a)
         else ram_m_pBody ram (of_nat i)))"
    using le less
    by (auto simp: Ram_Write_def Ram_access_def Ram_GetCapacity_def body_write_def word_le_nat_alt)
qed


interpretation rom: readable_memory Rom_Read "\<lambda>rom i. rom_m_pBody rom (of_nat i)" "\<lambda>_. 4096"
proof
  fix rom :: Rom and a :: u64 and n :: nat
  show "(4096 :: nat) < 2 ^ 64" by simp
  {
    assume "0 < n" and le: "unat a + n \<le> 4096"
    show "Rom_Read n a rom = Inr (map (\<lambda>i. rom_m_pBody rom (of_nat (unat a + i))) [0..<n])"
    proof -
      obtain m where Suc: "n = Suc m" using \<open>0 < n\<close> by (cases n) auto
      with le have "unat (a + of_nat m) = unat a + m" by (intro unat_add_small) simp
      with le Suc have "a + of_nat n - 1 < 4096" by (simp add: word_less_nat_alt)
      with le show ?thesis
        by (simp add: Rom_Read_def Rom_GetCapacity_def Rom_Capacity_def body_read_nat)
    qed
  }
  assume "(4096 :: nat) < unat a + n"
  then show "\<exists>e. Rom_Read n a rom = Inl e"
    by (simp add: Rom_Read_def Rom_Capacity_def)
qed

section \<open>I/O devices\<close>

text \<open>A sequence of writes; the first failure ends it.\<close>

primrec device_writes ::
  "(u8 list \<Rightarrow> u64 \<Rightarrow> 's \<Rightarrow> 's result) \<Rightarrow> (u8 list \<times> u64) list \<Rightarrow> 's \<Rightarrow> 's result" where
  "device_writes wr [] s = Inr s"
| "device_writes wr (w # ws) s =
     (case wr (fst w) (snd w) s of Inl e \<Rightarrow> Inl e | Inr t \<Rightarrow> device_writes wr ws t)"

locale io_device =
  fixes rd :: "nat \<Rightarrow> u64 \<Rightarrow> 's \<Rightarrow> u8 list result"
    and wr :: "u8 list \<Rightarrow> u64 \<Rightarrow> 's \<Rightarrow> 's result"
    and wf :: "'s \<Rightarrow> bool"
    and sz :: u64
  assumes rd_answer: "wf s \<Longrightarrow> (case rd n a s of Inl e \<Rightarrow> e = EmuException | Inr bs \<Rightarrow> length bs = n)"
    and wr_answer: "wf s \<Longrightarrow> (case wr bs a s of Inl e \<Rightarrow> e = EmuException | Inr t \<Rightarrow> wf t)"
    and rd_range: "\<not> access_ok a n sz \<Longrightarrow> rd n a s = Inl EmuException"
    and wr_range: "\<not> access_ok a (length bs) sz \<Longrightarrow> wr bs a s = Inl EmuException"
begin

lemma writes_answer:
  "wf s \<Longrightarrow> (case device_writes wr ws s of Inl e \<Rightarrow> e = EmuException | Inr t \<Rightarrow> wf t)"
proof (induction ws arbitrary: s)
  case (Cons w ws)
  then show ?case using wr_answer [of s "fst w" "snd w"] by (cases "wr (fst w) (snd w) s") auto
qed simp

lemma rd_cases:
  assumes "wf s"
  obtains "rd n a s = Inl EmuException" | bs where "rd n a s = Inr bs" "length bs = n"
  using rd_answer [OF assms, of n a] by (cases "rd n a s") auto

lemma wr_cases:
  assumes "wf s"
  obtains "wr bs a s = Inl EmuException" | t where "wr bs a s = Inr t" "wf t"
  using wr_answer [OF assms, of bs a] by (cases "wr bs a s") auto

end

interpretation timer: io_device Timer_Read Timer_Write "\<lambda>_. True" Timer_GetSize
  by (rule io_device.intro) (simp_all add: Timer_Read_def Timer_Write_def Let_def del: not_less)

interpretation uart: io_device Uart_Read Uart_Write "\<lambda>_. True" Uart_GetSize
  by (rule io_device.intro) (simp_all add: Uart_Read_def Uart_Write_def Let_def del: not_less)

interpretation uart16550: io_device Uart16550_Read Uart16550_Write "\<lambda>_. True" Uart16550_GetSize
  by (rule io_device.intro) (simp_all add: Uart16550_Read_def Uart16550_Write_def Let_def del: not_less)

interpretation virtio: io_device "\<lambda>n a _. VirtIo_Read n a" "\<lambda>bs a _. VirtIo_Write bs a" "\<lambda>_. True"
  VirtIo_GetSize
  by (rule io_device.intro) (simp_all add: VirtIo_Read_def VirtIo_Write_def Let_def del: not_less)

interpretation clint: io_device Clint_Read Clint_Write "\<lambda>_. True" Clint_GetSize
  by unfold_locales
     (simp_all add: Clint_Read_def Clint_Write_def Clint_ReadMsip_def Clint_ReadTime_def
       Clint_WriteMsip_def Clint_WriteTime_def Let_def split: prod.splits)

definition Plic_wf :: "Plic \<Rightarrow> bool" where
  "Plic_wf plic \<longleftrightarrow> length (plic_m_Priorities plic) = 128 \<and> length (plic_m_Pendings plic) = 4 \<and>
     length (plic_m_MachineInterruptEnables plic) = 4 \<and>
     length (plic_m_SupervisorInterruptEnables plic) = 4"

lemma plic_index_less:
  assumes "b \<le> a" "a < b + of_nat (4 * k)" "unat b + 4 * k < 2 ^ 64"
  shows "0 \<le> plic_index a b" "nat (plic_index a b) < k"
proof -
  have "unat (b + of_nat (4 * k)) = unat b + 4 * k" using assms(3) by (intro unat_add_small)
  with assms have "unat (a - b) < 4 * k"
    by (simp add: unat_sub word_le_nat_alt word_less_nat_alt)
  then show "nat (plic_index a b) < k" by (simp add: plic_index_def unat_div)
  show "0 \<le> plic_index a b" by (simp add: plic_index_def)
qed

lemma array_access_ok:
  "0 \<le> i \<Longrightarrow> nat i < length xs \<Longrightarrow> array_get xs i = Inr (xs ! nat i)"
  "0 \<le> i \<Longrightarrow> nat i < length xs \<Longrightarrow> array_set xs i v = Inr (xs[nat i := v])"
  by (simp_all add: array_get_def array_set_def)

lemmas plic_addresses = ADDR_PRIORITY_BEGIN_def ADDR_PRIORITY_END_def ADDR_PENDING_BEGIN_def
  ADDR_PENDING_END_def ADDR_ENABLE_M_BEGIN_def ADDR_ENABLE_M_END_def ADDR_ENABLE_S_BEGIN_def
  ADDR_ENABLE_S_END_def

lemma plic_windows:
  "ADDR_PRIORITY_BEGIN \<le> a \<Longrightarrow> a < ADDR_PRIORITY_END \<Longrightarrow>
     0 \<le> plic_index a ADDR_PRIORITY_BEGIN \<and> nat (plic_index a ADDR_PRIORITY_BEGIN) < 128"
  "ADDR_PENDING_BEGIN \<le> a \<Longrightarrow> a < ADDR_PENDING_END \<Longrightarrow>
     0 \<le> plic_index a ADDR_PENDING_BEGIN \<and> nat (plic_index a ADDR_PENDING_BEGIN) < 4"
  "ADDR_ENABLE_M_BEGIN \<le> a \<Longrightarrow> a < ADDR_ENABLE_M_END \<Longrightarrow>
     0 \<le> plic_index a ADDR_ENABLE_M_BEGIN \<and> nat (plic_index a ADDR_ENABLE_M_BEGIN) < 4"
  "ADDR_ENABLE_S_BEGIN \<le> a \<Longrightarrow> a < ADDR_ENABLE_S_END \<Longrightarrow>
     0 \<le> plic_index a ADDR_ENABLE_S_BEGIN \<and> nat (plic_index a ADDR_ENABLE_S_BEGIN) < 4"
  using plic_index_less [of ADDR_PRIORITY_BEGIN a 128] plic_index_less [of ADDR_PENDING_BEGIN a 4]
    plic_index_less [of ADDR_ENABLE_M_BEGIN a 4] plic_index_less [of ADDR_ENABLE_S_BEGIN a 4]
  by (simp_all add: plic_addresses)

lemma Plic_ReadUInt32_ok:
  assumes "Plic_wf plic"
  shows "case Plic_ReadUInt32 a plic of Inl e \<Rightarrow> e = EmuException | Inr v \<Rightarrow> True"
  using assms plic_windows [of a]
  by (simp add: Plic_ReadUInt32_def Plic_wf_def array_access_ok)

lemma Plic_WriteUInt32_ok:
  assumes "Plic_wf plic"
  shows "case Plic_WriteUInt32 a v plic of Inl e \<Rightarrow> e = EmuException | Inr plic' \<Rightarrow> Plic_wf plic'"
  using assms plic_windows [of a]
  by (simp add: Plic_WriteUInt32_def Plic_wf_def array_access_ok)

interpretation plic: io_device Plic_Read Plic_Write Plic_wf Plic_GetSize
proof
  fix plic a n assume wf: "Plic_wf plic"
  show "case Plic_Read n a plic of Inl e \<Rightarrow> e = EmuException | Inr bs \<Rightarrow> length bs = n"
    using Plic_ReadUInt32_ok [OF wf, of a] Plic_ReadUInt32_ok [OF wf, of "a + 4"]
    by (auto simp: Plic_Read_def split: sum.splits)
next
  fix plic a bs assume wf: "Plic_wf plic"
  show "case Plic_Write bs a plic of Inl e \<Rightarrow> e = EmuException | Inr t \<Rightarrow> Plic_wf t"
    using Plic_WriteUInt32_ok [OF wf, of a] Plic_WriteUInt32_ok
    by (fastforce simp: Plic_Write_def Let_def split: sum.splits)
qed (simp_all add: Plic_Read_def Plic_Write_def)

end
