(* ===== verification/Rafi_State.thy ===== *)
theory Rafi_State
  imports Rafi_Devices Rafi_TrapProcessor Rafi_RegFile
begin

text \<open>
  The state of the whole machine and the way into each of its parts. The C++ objects point
  at one another (the memory access unit holds the bus and the control and status registers,
  the Clint holds the processor, the bus holds the devices); here the record \<open>System\<close> holds
  each object once, a pointer to a memory or a device is a value of \<open>memory_ref\<close> or
  \<open>io_ref\<close>, and a routine of an inner object is an action on that object, lifted to the
  \<open>System\<close> by one of the liftings below.
\<close>

section \<open>State\<close>

text \<open>\<open>MemoryAccessEvent\<close> and \<open>OpEvent\<close> of \<^verbatim>\<open>include/rafi/emu/Event.h\<close>.\<close>

record MemoryAccessEvent =
  mae_accessType :: MemoryAccessType
  mae_size :: u32
  mae_value :: u64
  mae_virtualAddress :: u64
  mae_physicalAddress :: paddr_t

record OpEvent =
  oe_opId :: u32
  oe_insn :: u32
  oe_privilegeLevel :: PrivilegeLevel
  oe_virtualPc :: vaddr_t
  oe_physicalPc :: paddr_t

datatype memory_ref = RamRef | RomRef

datatype io_ref = ClintRef | PlicRef | Uart16550Ref | VirtIoRef nat | UartRef | TimerRef

record MemoryInfo =
  mi_pMemory :: memory_ref
  mi_address :: paddr_t
  mi_size :: u64

record IoInfo =
  ii_pIo :: io_ref
  ii_address :: paddr_t
  ii_size :: u64

record Bus =
  bus_m_MemoryList :: "MemoryInfo list"
  bus_m_IoList :: "IoInfo list"

record MemoryAccessUnit =
  mau_m_XLEN :: XLEN
  mau_m_Events :: "MemoryAccessEvent list"

text \<open>\<open>m_Decoder\<close> is the width the decoder was built with, its only field.\<close>

record Processor =
  cpu_m_AtomicManager :: AtomicManager
  cpu_m_Csr :: Csr
  cpu_m_InterruptController :: InterruptController
  cpu_m_TrapProcessor :: TrapProcessor
  cpu_m_Decoder :: XLEN
  cpu_m_FpRegFile :: FpRegFile
  cpu_m_IntRegFile :: IntRegFile
  cpu_m_MemAccessUnit :: MemoryAccessUnit
  cpu_m_OpCount :: u32
  cpu_m_OpEventValid :: bool
  cpu_m_OpEvent :: OpEvent

text \<open>
  The last four fields are the process's: the two global variables of the floating-point
  library, the rounding mode of the host's floating-point unit (\<open>std::fegetround\<close>), and what
  has been printed on the standard output.
\<close>

datatype host_round = FE_TONEAREST | FE_TOWARDZERO | FE_DOWNWARD | FE_UPWARD

record System =
  sys_m_Bus :: Bus
  sys_m_Ram :: Ram
  sys_m_Rom :: Rom
  sys_m_Clint :: Clint
  sys_m_Plic :: Plic
  sys_m_Uart16550 :: Uart16550
  sys_m_Uart :: Uart
  sys_m_Timer :: Timer
  sys_m_Processor :: Processor
  sys_m_HostIoAddress :: u32
  softfloat_roundingMode :: u8
  softfloat_exceptionFlags :: u8
  host_rounding :: host_round
  standard_output :: "u8 list"

section \<open>Liftings\<close>

type_synonym 'a sys_act = "(System, 'a) act"

text \<open>A \<open>void\<close> routine that changes its object or fails.\<close>

definition updateM :: "('s \<Rightarrow> 's result) \<Rightarrow> ('s, unit) act" where
  "updateM f = (\<lambda>s. map_sum id (Pair ()) (f s))"

lemma updateM_Inr [act_simps]: "f s = Inr t \<Longrightarrow> updateM f s = Inr ((), t)"
  by (simp add: updateM_def)

lemma updateM_Inl [act_simps]: "f s = Inl e \<Longrightarrow> updateM f s = Inl e"
  by (simp add: updateM_def)

lemma updateM_eq_Inr: "updateM f s = Inr (x, t) \<longleftrightarrow> f s = Inr t"
  by (cases "f s") (auto simp: updateM_def)

lemma preserves_updateM: "(\<And>s t. I s \<Longrightarrow> f s = Inr t \<Longrightarrow> I t) \<Longrightarrow> preserves I (updateM f)"
  by (auto simp: preserves_def updateM_eq_Inr)

abbreviation sys_csr :: "System \<Rightarrow> Csr" where
  "sys_csr s \<equiv> cpu_m_Csr (sys_m_Processor s)"

abbreviation update_processor :: "(Processor \<Rightarrow> Processor) \<Rightarrow> System \<Rightarrow> System" where
  "update_processor f \<equiv> sys_m_Processor_update f"

definition on_Csr :: "(Csr, 'a) act \<Rightarrow> 'a sys_act" where
  "on_Csr = zoomM sys_csr (\<lambda>c. update_processor (cpu_m_Csr_update (\<lambda>_. c)))"

definition on_AtomicManager :: "(AtomicManager, 'a) act \<Rightarrow> 'a sys_act" where
  "on_AtomicManager = zoomM (\<lambda>s. cpu_m_AtomicManager (sys_m_Processor s))
     (\<lambda>c. update_processor (cpu_m_AtomicManager_update (\<lambda>_. c)))"

definition on_IntRegFile :: "(IntRegFile, 'a) act \<Rightarrow> 'a sys_act" where
  "on_IntRegFile = zoomM (\<lambda>s. cpu_m_IntRegFile (sys_m_Processor s))
     (\<lambda>c. update_processor (cpu_m_IntRegFile_update (\<lambda>_. c)))"

definition on_FpRegFile :: "(FpRegFile, 'a) act \<Rightarrow> 'a sys_act" where
  "on_FpRegFile = zoomM (\<lambda>s. cpu_m_FpRegFile (sys_m_Processor s))
     (\<lambda>c. update_processor (cpu_m_FpRegFile_update (\<lambda>_. c)))"

definition on_MemAccessUnit :: "(MemoryAccessUnit, 'a) act \<Rightarrow> 'a sys_act" where
  "on_MemAccessUnit = zoomM (\<lambda>s. cpu_m_MemAccessUnit (sys_m_Processor s))
     (\<lambda>c. update_processor (cpu_m_MemAccessUnit_update (\<lambda>_. c)))"

text \<open>The trap processor and the interrupt controller work on the registers as well.\<close>

definition on_TrapProcessor :: "(TrapProcessor, 'a) csr_act \<Rightarrow> 'a sys_act" where
  "on_TrapProcessor = zoomM (\<lambda>s. (sys_csr s, cpu_m_TrapProcessor (sys_m_Processor s)))
     (\<lambda>c. update_processor (\<lambda>p. p\<lparr>cpu_m_Csr := fst c, cpu_m_TrapProcessor := snd c\<rparr>))"

definition on_InterruptController :: "(InterruptController, 'a) csr_act \<Rightarrow> 'a sys_act" where
  "on_InterruptController = zoomM (\<lambda>s. (sys_csr s, cpu_m_InterruptController (sys_m_Processor s)))
     (\<lambda>c. update_processor (\<lambda>p. p\<lparr>cpu_m_Csr := fst c, cpu_m_InterruptController := snd c\<rparr>))"

section \<open>What a lifted action leaves alone\<close>

text \<open>
  The parts of the machine, seen from one object inside the processor: an action lifted from
  it keeps every property of the rest.
\<close>

lemmas liftings = on_Csr_def on_AtomicManager_def on_IntRegFile_def on_FpRegFile_def
  on_MemAccessUnit_def on_TrapProcessor_def on_InterruptController_def

lemma preserves_lifted:
  "(\<And>s c. I s \<Longrightarrow> I (put c s)) \<Longrightarrow> preserves I (zoomM get put m)"
  by (auto simp: preserves_def zoomM_eq_Inr)

locale processor_part =
  fixes get :: "System \<Rightarrow> 'c" and put :: "'c \<Rightarrow> System \<Rightarrow> System"
  assumes get_put: "get (put c s) = c"
    and put_get: "put (get s) s = s"
    and put_devices: "sys_m_Bus (put c s) = sys_m_Bus s" "sys_m_Ram (put c s) = sys_m_Ram s"
      "sys_m_Rom (put c s) = sys_m_Rom s" "sys_m_Clint (put c s) = sys_m_Clint s"
      "sys_m_Plic (put c s) = sys_m_Plic s" "sys_m_Uart16550 (put c s) = sys_m_Uart16550 s"
      "sys_m_Uart (put c s) = sys_m_Uart s" "sys_m_Timer (put c s) = sys_m_Timer s"
      "standard_output (put c s) = standard_output s"
begin

text \<open>A query of the part changes nothing, and what it saw is still there.\<close>

lemma lifted_query: "zoomM get put (queryM f) s = queryM (\<lambda>s. f (get s)) s"
  by (cases "f (get s)") (simp_all add: zoomM_def queryM_def put_get)

lemma lifted_get: "zoomM get put (getM f) s = getM (\<lambda>s. f (get s)) s"
  by (simp add: zoomM_def getM_def put_get)

lemma lifted_keeps_memory:
  assumes "zoomM get put m s = Inr (x, t)"
  shows "sys_m_Bus t = sys_m_Bus s" "sys_m_Ram t = sys_m_Ram s" "sys_m_Rom t = sys_m_Rom s"
  using assms by (auto simp: zoomM_eq_Inr put_devices)

end

interpretation csr_part: processor_part sys_csr
  "\<lambda>c. update_processor (cpu_m_Csr_update (\<lambda>_. c))"
  by unfold_locales simp_all

interpretation atomic_part: processor_part "\<lambda>s. cpu_m_AtomicManager (sys_m_Processor s)"
  "\<lambda>c. update_processor (cpu_m_AtomicManager_update (\<lambda>_. c))"
  by unfold_locales simp_all

interpretation intreg_part: processor_part "\<lambda>s. cpu_m_IntRegFile (sys_m_Processor s)"
  "\<lambda>c. update_processor (cpu_m_IntRegFile_update (\<lambda>_. c))"
  by unfold_locales simp_all

interpretation fpreg_part: processor_part "\<lambda>s. cpu_m_FpRegFile (sys_m_Processor s)"
  "\<lambda>c. update_processor (cpu_m_FpRegFile_update (\<lambda>_. c))"
  by unfold_locales simp_all

interpretation mau_part: processor_part "\<lambda>s. cpu_m_MemAccessUnit (sys_m_Processor s)"
  "\<lambda>c. update_processor (cpu_m_MemAccessUnit_update (\<lambda>_. c))"
  by unfold_locales simp_all

interpretation trap_part: processor_part
  "\<lambda>s. (sys_csr s, cpu_m_TrapProcessor (sys_m_Processor s))"
  "\<lambda>c. update_processor (\<lambda>p. p\<lparr>cpu_m_Csr := fst c, cpu_m_TrapProcessor := snd c\<rparr>)"
  by unfold_locales simp_all

interpretation interrupt_part: processor_part
  "\<lambda>s. (sys_csr s, cpu_m_InterruptController (sys_m_Processor s))"
  "\<lambda>c. update_processor (\<lambda>p. p\<lparr>cpu_m_Csr := fst c, cpu_m_InterruptController := snd c\<rparr>)"
  by unfold_locales simp_all

lemma on_Csr_query [simp]: "on_Csr (queryM f) s = queryM (\<lambda>s. f (sys_csr s)) s"
  by (simp add: on_Csr_def csr_part.lifted_query)

end
