(* ===== verification/Rafi_Bus.thy ===== *)
theory Rafi_Bus
  imports Rafi_State
begin

text \<open>
  \<^verbatim>\<open>src/rafi-emu/bus/Bus.cpp\<close>: the physical address space. The two location lists are searched
  in the order of registration; the offset within a location is an \<open>int\<close>, which the call of
  the memory or device widens with its sign.
\<close>

section \<open>Address decoding\<close>

definition Bus_RegisterMemory :: "memory_ref \<Rightarrow> paddr_t \<Rightarrow> u64 \<Rightarrow> Bus \<Rightarrow> Bus" where
  "Bus_RegisterMemory pMemory address sz bus = bus\<lparr>bus_m_MemoryList := bus_m_MemoryList bus @
     [\<lparr>mi_pMemory = pMemory, mi_address = address, mi_size = sz\<rparr>]\<rparr>"

definition Bus_RegisterIo :: "io_ref \<Rightarrow> paddr_t \<Rightarrow> u64 \<Rightarrow> Bus \<Rightarrow> Bus" where
  "Bus_RegisterIo pIo address sz bus = bus\<lparr>bus_m_IoList := bus_m_IoList bus @
     [\<lparr>ii_pIo = pIo, ii_address = address, ii_size = sz\<rparr>]\<rparr>"

definition Bus_IsMemoryAddress :: "paddr_t \<Rightarrow> u64 \<Rightarrow> Bus \<Rightarrow> bool" where
  "Bus_IsMemoryAddress address accessSize bus =
     (let low = address; high = address + accessSize - 1 in
      list_ex (\<lambda>l. mi_address l \<le> low \<and> high < mi_address l + mi_size l) (bus_m_MemoryList bus))"

definition Bus_IsIoAddress :: "paddr_t \<Rightarrow> u64 \<Rightarrow> Bus \<Rightarrow> bool" where
  "Bus_IsIoAddress address accessSize bus =
     (let low = address; high = address + accessSize - 1 in
      list_ex (\<lambda>l. ii_address l \<le> low \<and> high < ii_address l + ii_size l) (bus_m_IoList bus))"

definition Bus_IsValidAddress :: "paddr_t \<Rightarrow> u64 \<Rightarrow> Bus \<Rightarrow> bool" where
  "Bus_IsValidAddress address accessSize bus =
     (Bus_IsMemoryAddress address accessSize bus \<and> Bus_IsIoAddress address accessSize bus)"

definition Bus_ConvertToMemoryLocation :: "paddr_t \<Rightarrow> Bus \<Rightarrow> (memory_ref \<times> i32) result" where
  "Bus_ConvertToMemoryLocation address bus =
     (case find (\<lambda>l. mi_address l \<le> address \<and> address < mi_address l + mi_size l)
        (bus_m_MemoryList bus) of
        None \<Rightarrow> Inl EmuException
      | Some l \<Rightarrow> Inr (mi_pMemory l, ucast (address - mi_address l)))"

definition Bus_ConvertToIoLocation :: "paddr_t \<Rightarrow> Bus \<Rightarrow> (io_ref \<times> i32) result" where
  "Bus_ConvertToIoLocation address bus =
     (case find (\<lambda>l. ii_address l \<le> address \<and> address < ii_address l + ii_size l)
        (bus_m_IoList bus) of
        None \<Rightarrow> Inl EmuException
      | Some l \<Rightarrow> Inr (ii_pIo l, ucast (address - ii_address l)))"

section \<open>Dispatch to the memories and devices\<close>

text \<open>The virtual calls \<open>pMemory->Read\<close>, \<open>pMemory->Write\<close>, \<open>pIo->Read\<close>, \<open>pIo->Write\<close>.\<close>

definition memory_Read :: "memory_ref \<Rightarrow> nat \<Rightarrow> u64 \<Rightarrow> System \<Rightarrow> u8 list result" where
  "memory_Read pMemory n address s = (case pMemory of
     RamRef \<Rightarrow> Ram_Read n address (sys_m_Ram s)
   | RomRef \<Rightarrow> Rom_Read n address (sys_m_Rom s))"

definition memory_Write :: "memory_ref \<Rightarrow> u8 list \<Rightarrow> u64 \<Rightarrow> unit sys_act" where
  "memory_Write pMemory bs address = (case pMemory of
     RamRef \<Rightarrow> zoomM sys_m_Ram (\<lambda>c. sys_m_Ram_update (\<lambda>_. c)) (updateM (Ram_Write bs address))
   | RomRef \<Rightarrow> zoomM sys_m_Rom (\<lambda>c. sys_m_Rom_update (\<lambda>_. c)) (updateM (Rom_Write bs address)))"

definition io_Read :: "io_ref \<Rightarrow> nat \<Rightarrow> u64 \<Rightarrow> System \<Rightarrow> u8 list result" where
  "io_Read pIo n address s = (case pIo of
     ClintRef \<Rightarrow> Clint_Read n address (sys_csr s, sys_m_Clint s)
   | PlicRef \<Rightarrow> Plic_Read n address (sys_m_Plic s)
   | Uart16550Ref \<Rightarrow> Uart16550_Read n address (sys_m_Uart16550 s)
   | VirtIoRef k \<Rightarrow> VirtIo_Read n address
   | UartRef \<Rightarrow> Uart_Read n address (sys_m_Uart s)
   | TimerRef \<Rightarrow> Timer_Read n address (sys_m_Timer s))"

definition put_clint :: "Csr \<times> Clint \<Rightarrow> System \<Rightarrow> System" where
  "put_clint c s = (update_processor (cpu_m_Csr_update (\<lambda>_. fst c)) s)\<lparr>sys_m_Clint := snd c\<rparr>"

definition io_Write :: "io_ref \<Rightarrow> u8 list \<Rightarrow> u64 \<Rightarrow> unit sys_act" where
  "io_Write pIo bs address = (case pIo of
     ClintRef \<Rightarrow> zoomM (\<lambda>s. (sys_csr s, sys_m_Clint s)) put_clint (updateM (Clint_Write bs address))
   | PlicRef \<Rightarrow> zoomM sys_m_Plic (\<lambda>c. sys_m_Plic_update (\<lambda>_. c)) (updateM (Plic_Write bs address))
   | Uart16550Ref \<Rightarrow> zoomM sys_m_Uart16550 (\<lambda>c. sys_m_Uart16550_update (\<lambda>_. c))
       (updateM (Uart16550_Write bs address))
   | VirtIoRef k \<Rightarrow> liftM (VirtIo_Write bs address)
   | UartRef \<Rightarrow> zoomM sys_m_Uart (\<lambda>c. sys_m_Uart_update (\<lambda>_. c)) (updateM (Uart_Write bs address))
   | TimerRef \<Rightarrow> zoomM sys_m_Timer (\<lambda>c. sys_m_Timer_update (\<lambda>_. c))
       (updateM (Timer_Write bs address)))"

section \<open>Reads and writes\<close>

text \<open>
  \<open>Read\<close> asks for the whole range when it looks for a memory and for one byte when it looks
  for a device; \<open>Write\<close> asks for one byte in both places.
\<close>

definition Bus_Read :: "nat \<Rightarrow> paddr_t \<Rightarrow> System \<Rightarrow> u8 list result" where
  "Bus_Read n address s =
     (if Bus_IsMemoryAddress address (of_nat n) (sys_m_Bus s) then
        (case Bus_ConvertToMemoryLocation address (sys_m_Bus s) of
           Inl e \<Rightarrow> Inl e
         | Inr (pMemory, offset) \<Rightarrow> memory_Read pMemory n (scast offset) s)
      else if Bus_IsIoAddress address 1 (sys_m_Bus s) then
        (case Bus_ConvertToIoLocation address (sys_m_Bus s) of
           Inl e \<Rightarrow> Inl e
         | Inr (pIo, offset) \<Rightarrow> io_Read pIo n (scast offset) s)
      else Inl EmuException)"

definition Bus_Write :: "u8 list \<Rightarrow> paddr_t \<Rightarrow> unit sys_act" where
  "Bus_Write bs address = (\<lambda>s.
     (if Bus_IsMemoryAddress address 1 (sys_m_Bus s) then
        (case Bus_ConvertToMemoryLocation address (sys_m_Bus s) of
           Inl e \<Rightarrow> Inl e
         | Inr (pMemory, offset) \<Rightarrow> memory_Write pMemory bs (scast offset) s)
      else if Bus_IsIoAddress address 1 (sys_m_Bus s) then
        (case Bus_ConvertToIoLocation address (sys_m_Bus s) of
           Inl e \<Rightarrow> Inl e
         | Inr (pIo, offset) \<Rightarrow> io_Write pIo bs (scast offset) s)
      else Inl EmuException))"

definition Bus_ReadUInt8 :: "paddr_t \<Rightarrow> System \<Rightarrow> u8 result" where
  "Bus_ReadUInt8 address s = map_sum id le_value (Bus_Read 1 address s)"

definition Bus_ReadUInt16 :: "paddr_t \<Rightarrow> System \<Rightarrow> u16 result" where
  "Bus_ReadUInt16 address s = map_sum id le_value (Bus_Read 2 address s)"

definition Bus_ReadUInt32 :: "paddr_t \<Rightarrow> System \<Rightarrow> u32 result" where
  "Bus_ReadUInt32 address s = map_sum id le_value (Bus_Read 4 address s)"

definition Bus_ReadUInt64 :: "paddr_t \<Rightarrow> System \<Rightarrow> u64 result" where
  "Bus_ReadUInt64 address s = map_sum id le_value (Bus_Read 8 address s)"

definition Bus_WriteUInt8 :: "paddr_t \<Rightarrow> u8 \<Rightarrow> unit sys_act" where
  "Bus_WriteUInt8 address value = Bus_Write (le_bytes 1 value) address"

definition Bus_WriteUInt16 :: "paddr_t \<Rightarrow> u16 \<Rightarrow> unit sys_act" where
  "Bus_WriteUInt16 address value = Bus_Write (le_bytes 2 value) address"

definition Bus_WriteUInt32 :: "paddr_t \<Rightarrow> u32 \<Rightarrow> unit sys_act" where
  "Bus_WriteUInt32 address value = Bus_Write (le_bytes 4 value) address"

definition Bus_WriteUInt64 :: "paddr_t \<Rightarrow> u64 \<Rightarrow> unit sys_act" where
  "Bus_WriteUInt64 address value = Bus_Write (le_bytes 8 value) address"

section \<open>The address map of \<open>System\<close>\<close>

text \<open>\<^verbatim>\<open>src/rafi-emu/System.h\<close> and the constructor in \<^verbatim>\<open>System.cpp\<close>.\<close>

definition AddrRom :: paddr_t where "AddrRom = 0x00001000"
definition AddrRam :: paddr_t where "AddrRam = 0x80000000"
definition AddrClint :: paddr_t where "AddrClint = 0x02000000"
definition AddrPlic :: paddr_t where "AddrPlic = 0x0c000000"
definition AddrUart16550 :: paddr_t where "AddrUart16550 = 0x10000000"
definition AddrVirtIo1 :: paddr_t where "AddrVirtIo1 = 0x10001000"
definition AddrVirtIo2 :: paddr_t where "AddrVirtIo2 = 0x10002000"
definition AddrVirtIo3 :: paddr_t where "AddrVirtIo3 = 0x10003000"
definition AddrVirtIo4 :: paddr_t where "AddrVirtIo4 = 0x10004000"
definition AddrVirtIo5 :: paddr_t where "AddrVirtIo5 = 0x10005000"
definition AddrVirtIo6 :: paddr_t where "AddrVirtIo6 = 0x10006000"
definition AddrVirtIo7 :: paddr_t where "AddrVirtIo7 = 0x10007000"
definition AddrVirtIo8 :: paddr_t where "AddrVirtIo8 = 0x10008000"
definition AddrUart :: paddr_t where "AddrUart = 0x40002000"
definition AddrTimer :: paddr_t where "AddrTimer = 0x40000000"

definition System_bus :: "Ram \<Rightarrow> Rom \<Rightarrow> Bus" where
  "System_bus ram rom =
     (let bus = \<lparr>bus_m_MemoryList = [], bus_m_IoList = []\<rparr>;
          bus = Bus_RegisterMemory RamRef AddrRam (Ram_GetCapacity ram) bus;
          bus = Bus_RegisterMemory RomRef AddrRom (Rom_GetCapacity rom) bus;
          bus = Bus_RegisterIo ClintRef AddrClint Clint_GetSize bus;
          bus = Bus_RegisterIo PlicRef AddrPlic Plic_GetSize bus;
          bus = Bus_RegisterIo Uart16550Ref AddrUart16550 Uart16550_GetSize bus;
          bus = Bus_RegisterIo (VirtIoRef 1) AddrVirtIo1 VirtIo_GetSize bus;
          bus = Bus_RegisterIo (VirtIoRef 2) AddrVirtIo2 VirtIo_GetSize bus;
          bus = Bus_RegisterIo (VirtIoRef 3) AddrVirtIo3 VirtIo_GetSize bus;
          bus = Bus_RegisterIo (VirtIoRef 4) AddrVirtIo4 VirtIo_GetSize bus;
          bus = Bus_RegisterIo (VirtIoRef 5) AddrVirtIo5 VirtIo_GetSize bus;
          bus = Bus_RegisterIo (VirtIoRef 6) AddrVirtIo6 VirtIo_GetSize bus;
          bus = Bus_RegisterIo (VirtIoRef 7) AddrVirtIo7 VirtIo_GetSize bus;
          bus = Bus_RegisterIo (VirtIoRef 8) AddrVirtIo8 VirtIo_GetSize bus;
          bus = Bus_RegisterIo UartRef AddrUart Uart_GetSize bus;
          bus = Bus_RegisterIo TimerRef AddrTimer Timer_GetSize bus
      in bus)"

end
