(* ===== verification/Rafi_MemoryAccess.thy ===== *)
theory Rafi_MemoryAccess
  imports Rafi_Bus
begin

text \<open>
  \<^verbatim>\<open>src/rafi-emu/cpu/MemoryAccessUnit.cpp\<close> and \<^verbatim>\<open>MemoryAccessUnit.h\<close> with the layouts of
  \<^verbatim>\<open>include/rafi/common/RvPageTable.h\<close>: address translation, the check that runs before an
  instruction executes, and the accesses themselves. Every routine is an action on the
  \<open>System\<close>, because page tables live behind the bus.
\<close>

section \<open>RvPageTable.h\<close>

text \<open>The flag bits lie at the same place in the three kinds of page table entry.\<close>

definition PTE_V :: bit_member where [simp]: "PTE_V = (0, 0)"
definition PTE_R :: bit_member where [simp]: "PTE_R = (1, 1)"
definition PTE_W :: bit_member where [simp]: "PTE_W = (2, 2)"
definition PTE_E :: bit_member where [simp]: "PTE_E = (3, 3)"
definition PTE_U :: bit_member where [simp]: "PTE_U = (4, 4)"
definition PTE_A :: bit_member where [simp]: "PTE_A = (6, 6)"
definition PTE_D :: bit_member where [simp]: "PTE_D = (7, 7)"

definition PTE_Sv32_PPN0 :: bit_member where [simp]: "PTE_Sv32_PPN0 = (19, 10)"
definition PTE_Sv32_PPN1 :: bit_member where [simp]: "PTE_Sv32_PPN1 = (31, 20)"
definition PTE_Sv39_PPN0 :: bit_member where [simp]: "PTE_Sv39_PPN0 = (18, 10)"
definition PTE_Sv39_PPN1 :: bit_member where [simp]: "PTE_Sv39_PPN1 = (27, 19)"
definition PTE_Sv39_PPN2 :: bit_member where [simp]: "PTE_Sv39_PPN2 = (53, 28)"
definition PTE_Sv48_PPN0 :: bit_member where [simp]: "PTE_Sv48_PPN0 = (18, 10)"
definition PTE_Sv48_PPN1 :: bit_member where [simp]: "PTE_Sv48_PPN1 = (27, 19)"
definition PTE_Sv48_PPN2 :: bit_member where [simp]: "PTE_Sv48_PPN2 = (36, 28)"
definition PTE_Sv48_PPN3 :: bit_member where [simp]: "PTE_Sv48_PPN3 = (53, 37)"

definition VA_Offset :: bit_member where [simp]: "VA_Offset = (11, 0)"
definition VA_Sv32_VPN0 :: bit_member where [simp]: "VA_Sv32_VPN0 = (21, 12)"
definition VA_Sv32_VPN1 :: bit_member where [simp]: "VA_Sv32_VPN1 = (31, 22)"
definition VA_VPN0 :: bit_member where [simp]: "VA_VPN0 = (20, 12)"
definition VA_VPN1 :: bit_member where [simp]: "VA_VPN1 = (29, 21)"
definition VA_VPN2 :: bit_member where [simp]: "VA_VPN2 = (38, 30)"
definition VA_VPN3 :: bit_member where [simp]: "VA_VPN3 = (47, 39)"

text \<open>The constructors of the physical addresses, by their number of arguments.\<close>

definition PhysicalAddressSv32_2 :: "u64 \<Rightarrow> u64 \<Rightarrow> u64" where
  "PhysicalAddressSv32_2 ppn offset = SetMember (11, 0) offset (SetMember (33, 12) ppn 0)"

definition PhysicalAddressSv32_3 :: "u64 \<Rightarrow> u64 \<Rightarrow> u64 \<Rightarrow> u64" where
  "PhysicalAddressSv32_3 ppn1 ppn0 offset =
     SetMember (11, 0) offset (SetMember (21, 12) ppn0 (SetMember (33, 22) ppn1 0))"

definition PhysicalAddressSv39_2 :: "u64 \<Rightarrow> u64 \<Rightarrow> u64" where
  "PhysicalAddressSv39_2 ppn offset = SetMember (11, 0) offset (SetMember (55, 12) ppn 0)"

definition PhysicalAddressSv39_4 :: "u64 \<Rightarrow> u64 \<Rightarrow> u64 \<Rightarrow> u64 \<Rightarrow> u64" where
  "PhysicalAddressSv39_4 ppn2 ppn1 ppn0 offset =
     SetMember (11, 0) offset (SetMember (20, 12) ppn0 (SetMember (29, 21) ppn1
       (SetMember (55, 30) ppn2 0)))"

definition PhysicalAddressSv48_2 :: "u64 \<Rightarrow> u64 \<Rightarrow> u64" where
  "PhysicalAddressSv48_2 ppn offset = SetMember (11, 0) offset (SetMember (55, 12) ppn 0)"

definition PhysicalAddressSv48_5 :: "u64 \<Rightarrow> u64 \<Rightarrow> u64 \<Rightarrow> u64 \<Rightarrow> u64 \<Rightarrow> u64" where
  "PhysicalAddressSv48_5 ppn3 ppn2 ppn1 ppn0 offset =
     SetMember (11, 0) offset (SetMember (20, 12) ppn0 (SetMember (29, 21) ppn1
       (SetMember (38, 30) ppn2 (SetMember (55, 39) ppn3 0))))"

section \<open>The unit and its events\<close>

definition MemoryAccessUnit_new :: "XLEN \<Rightarrow> MemoryAccessUnit" where
  "MemoryAccessUnit_new xlen = \<lparr>mau_m_XLEN = xlen, mau_m_Events = []\<rparr>"

definition AddEvent :: "MemoryAccessType \<Rightarrow> i32 \<Rightarrow> u64 \<Rightarrow> vaddr_t \<Rightarrow> paddr_t \<Rightarrow> unit sys_act" where
  "AddEvent accessType sz value vaddr paddr = on_MemAccessUnit (modifyM (\<lambda>u.
     u\<lparr>mau_m_Events := mau_m_Events u @ [\<lparr>mae_accessType = accessType, mae_size = sz,
       mae_value = value, mae_virtualAddress = vaddr, mae_physicalAddress = paddr\<rparr>]\<rparr>))"

definition MemoryAccessUnit_ClearEvent :: "MemoryAccessUnit \<Rightarrow> MemoryAccessUnit" where
  "MemoryAccessUnit_ClearEvent u = u\<lparr>mau_m_Events := []\<rparr>"

definition CopyEvent :: "i32 \<Rightarrow> MemoryAccessUnit \<Rightarrow> MemoryAccessEvent result" where
  "CopyEvent index u = array_get (mau_m_Events u) (sint index)"

definition GetEventCount :: "MemoryAccessUnit \<Rightarrow> u64" where
  "GetEventCount u = of_nat (length (mau_m_Events u))"

section \<open>Privilege, mode and traps\<close>

definition GetEffectivePrivilegeLevel :: "MemoryAccessType \<Rightarrow> Csr \<Rightarrow> PrivilegeLevel result" where
  "GetEffectivePrivilegeLevel accessType csr = (case Csr_ReadStatus csr of
     Inl e \<Rightarrow> Inl e
   | Inr status \<Rightarrow>
       let mprv = GetMember xstatus_MPRV status \<noteq> 0 in
       if mprv \<and> accessType \<noteq> Instruction
       then Inr (PrivilegeLevel_of (GetMember xstatus_MPP status))
       else Inr (Csr_GetPrivilegeLevel csr))"

definition GetAddresssTranslationMode ::
  "MemoryAccessType \<Rightarrow> XLEN \<Rightarrow> Csr \<Rightarrow> AddressTranslationMode result" where
  "GetAddresssTranslationMode accessType xlen csr =
    (case GetEffectivePrivilegeLevel accessType csr of
       Inl e \<Rightarrow> Inl e
     | Inr level \<Rightarrow>
         if level = Machine then Inr Bare
         else let satp = Csr_ReadSatp csr in
           (case xlen of
              XLEN32 \<Rightarrow> Inr (AddressTranslationMode_of (GetMember satp_MODE_RV32 satp))
            | XLEN64 \<Rightarrow> Inr (AddressTranslationMode_of (GetMember satp_MODE_RV64 satp))
            | XLEN128 \<Rightarrow> Inl EmuException))"

definition MemoryAccessUnit_MakeTrap :: "MemoryAccessType \<Rightarrow> vaddr_t \<Rightarrow> vaddr_t \<Rightarrow> Trap" where
  "MemoryAccessUnit_MakeTrap accessType pc addr = (case accessType of
     Instruction \<Rightarrow> MakeInstructionPageFaultException pc addr
   | Load \<Rightarrow> MakeLoadPageFaultException pc addr
   | Store \<Rightarrow> MakeStorePageFaultException pc addr)"

definition CheckTrapForEntry ::
  "'a::len word \<Rightarrow> MemoryAccessType \<Rightarrow> vaddr_t \<Rightarrow> vaddr_t \<Rightarrow> Trap option" where
  "CheckTrapForEntry entry accessType pc addr =
     (if GetMember PTE_V entry = 0 \<or> (GetMember PTE_R entry = 0 \<and> GetMember PTE_W entry \<noteq> 0)
      then Some (MemoryAccessUnit_MakeTrap accessType pc addr) else None)"

definition CheckTrapForLeafEntry ::
  "'a::len word \<Rightarrow> MemoryAccessType \<Rightarrow> vaddr_t \<Rightarrow> vaddr_t \<Rightarrow> Csr \<Rightarrow> Trap option result" where
  "CheckTrapForLeafEntry entry accessType pc addr csr =
    (case GetEffectivePrivilegeLevel accessType csr of Inl e \<Rightarrow> Inl e | Inr privilegeLevel \<Rightarrow>
     case Csr_ReadStatus csr of Inl e \<Rightarrow> Inl e | Inr status \<Rightarrow>
     let sum_bit = GetMember xstatus_SUM status \<noteq> 0;
         mxr = GetMember xstatus_MXR status \<noteq> 0;
         fault = Inr (Some (MemoryAccessUnit_MakeTrap accessType pc addr)) in
     if (case privilegeLevel of
           Supervisor \<Rightarrow> \<not> sum_bit \<and> GetMember PTE_U entry \<noteq> 0
         | User \<Rightarrow> GetMember PTE_U entry = 0
         | _ \<Rightarrow> False) then fault
     else if (case accessType of
           Instruction \<Rightarrow> GetMember PTE_E entry = 0
         | Load \<Rightarrow> GetMember PTE_R entry = 0 \<and> \<not> (mxr \<and> GetMember PTE_E entry \<noteq> 0)
         | Store \<Rightarrow> GetMember PTE_W entry = 0) then fault
     else Inr None)"

definition IsLeafEntry :: "'a::len word \<Rightarrow> bool" where
  "IsLeafEntry entry = (GetMember PTE_R entry \<noteq> 0 \<or> GetMember PTE_E entry \<noteq> 0)"

text \<open>The template \<open>UpdateEntry\<close> for the two sizes of an entry.\<close>

definition touched :: "bool \<Rightarrow> 'a::len word \<Rightarrow> 'a word" where
  "touched isWrite entry =
     (let entry = SetMember PTE_A 1 entry in
      if isWrite then SetMember PTE_D 1 entry else entry)"

definition UpdateEntry32 :: "paddr_t \<Rightarrow> bool \<Rightarrow> unit sys_act" where
  "UpdateEntry32 entryAddress isWrite =
     bindM (queryM (Bus_ReadUInt32 entryAddress)) (\<lambda>entry.
     Bus_WriteUInt32 entryAddress (touched isWrite entry))"

definition UpdateEntry64 :: "paddr_t \<Rightarrow> bool \<Rightarrow> unit sys_act" where
  "UpdateEntry64 entryAddress isWrite =
     bindM (queryM (Bus_ReadUInt64 entryAddress)) (\<lambda>entry.
     Bus_WriteUInt64 entryAddress (touched isWrite entry))"

section \<open>The check before an access\<close>

abbreviation entry_check ::
  "'a::len word \<Rightarrow> MemoryAccessType \<Rightarrow> vaddr_t \<Rightarrow> vaddr_t \<Rightarrow> Trap option sys_act" where
  "entry_check entry accessType pc addr \<equiv> returnM (CheckTrapForEntry entry accessType pc addr)"

abbreviation leaf_check ::
  "'a::len word \<Rightarrow> MemoryAccessType \<Rightarrow> vaddr_t \<Rightarrow> vaddr_t \<Rightarrow> Trap option sys_act" where
  "leaf_check entry accessType pc addr \<equiv>
     queryM (\<lambda>s. CheckTrapForLeafEntry entry accessType pc addr (sys_csr s))"

abbreviation read_satp :: "u64 sys_act" where
  "read_satp \<equiv> getM (\<lambda>s. Csr_ReadSatp (sys_csr s))"

definition CheckTrapSv32 :: "MemoryAccessType \<Rightarrow> vaddr_t \<Rightarrow> vaddr_t \<Rightarrow> Trap option sys_act" where
  "CheckTrapSv32 accessType pc addr =
    (let vaddr = ucast addr :: u32;
         fault = returnM (Some (MemoryAccessUnit_MakeTrap accessType pc addr)) in
     bindM read_satp (\<lambda>satp.
     let entryAddr1 = PhysicalAddressSv32_2 (GetMember satp_PPN_RV32 satp)
           (4 * ucast (GetMember VA_Sv32_VPN1 vaddr)) in
     bindM (queryM (Bus_ReadUInt32 entryAddr1)) (\<lambda>entry1.
     return_if_trap (entry_check entry1 accessType pc addr)
     (if IsLeafEntry entry1 then
        return_if_trap (leaf_check entry1 accessType pc addr)
        (if GetMember PTE_Sv32_PPN0 entry1 \<noteq> 0 then fault else returnM None)
      else
        let entryAddr2 = PhysicalAddressSv32_3 (ucast (GetMember PTE_Sv32_PPN1 entry1))
              (ucast (GetMember PTE_Sv32_PPN0 entry1)) (4 * ucast (GetMember VA_Sv32_VPN0 vaddr)) in
        bindM (queryM (Bus_ReadUInt32 entryAddr2)) (\<lambda>entry2.
        return_if_trap (entry_check entry2 accessType pc addr)
        (leaf_check entry2 accessType pc addr))))))"

definition CheckTrapSv39 :: "MemoryAccessType \<Rightarrow> vaddr_t \<Rightarrow> vaddr_t \<Rightarrow> Trap option sys_act" where
  "CheckTrapSv39 accessType pc addr =
    (let vaddr = addr;
         fault = returnM (Some (MemoryAccessUnit_MakeTrap accessType pc addr)) in
     bindM read_satp (\<lambda>satp.
     let entryAddr1 = PhysicalAddressSv39_2 (GetMember satp_PPN_RV64 satp)
           (8 * GetMember VA_VPN2 vaddr) in
     bindM (queryM (Bus_ReadUInt64 entryAddr1)) (\<lambda>entry1.
     return_if_trap (entry_check entry1 accessType pc addr)
     (if IsLeafEntry entry1 then
        return_if_trap (leaf_check entry1 accessType pc addr)
        (if GetMember PTE_Sv39_PPN1 entry1 \<noteq> 0 \<or> GetMember PTE_Sv39_PPN0 entry1 \<noteq> 0
         then fault else returnM None)
      else
        let entryAddr2 = PhysicalAddressSv39_4 (GetMember PTE_Sv39_PPN2 entry1)
              (GetMember PTE_Sv39_PPN1 entry1) (GetMember PTE_Sv39_PPN0 entry1)
              (8 * GetMember VA_VPN1 vaddr) in
        bindM (queryM (Bus_ReadUInt64 entryAddr2)) (\<lambda>entry2.
        return_if_trap (entry_check entry2 accessType pc addr)
        (if IsLeafEntry entry2 then
           return_if_trap (leaf_check entry2 accessType pc addr)
           (if GetMember PTE_Sv39_PPN0 entry2 \<noteq> 0 then fault else returnM None)
         else
           let entryAddr3 = PhysicalAddressSv39_4 (GetMember PTE_Sv39_PPN2 entry2)
                 (GetMember PTE_Sv39_PPN1 entry2) (GetMember PTE_Sv39_PPN0 entry2)
                 (8 * GetMember VA_VPN0 vaddr) in
           bindM (queryM (Bus_ReadUInt64 entryAddr3)) (\<lambda>entry3.
           return_if_trap (entry_check entry3 accessType pc addr)
           (leaf_check entry3 accessType pc addr))))))))"

text \<open>The address of the last entry is made with \<open>VPN1\<close>, as in the source.\<close>

definition CheckTrapSv48 :: "MemoryAccessType \<Rightarrow> vaddr_t \<Rightarrow> vaddr_t \<Rightarrow> Trap option sys_act" where
  "CheckTrapSv48 accessType pc addr =
    (let vaddr = addr;
         fault = returnM (Some (MemoryAccessUnit_MakeTrap accessType pc addr)) in
     bindM read_satp (\<lambda>satp.
     let entryAddr1 = PhysicalAddressSv48_2 (GetMember satp_PPN_RV64 satp)
           (8 * GetMember VA_VPN3 vaddr) in
     bindM (queryM (Bus_ReadUInt64 entryAddr1)) (\<lambda>entry1.
     return_if_trap (entry_check entry1 accessType pc addr)
     (if IsLeafEntry entry1 then
        return_if_trap (leaf_check entry1 accessType pc addr)
        (if GetMember PTE_Sv48_PPN2 entry1 \<noteq> 0 \<or> GetMember PTE_Sv48_PPN1 entry1 \<noteq> 0 \<or>
            GetMember PTE_Sv48_PPN0 entry1 \<noteq> 0
         then fault else returnM None)
      else
        let entryAddr2 = PhysicalAddressSv48_5 (GetMember PTE_Sv48_PPN3 entry1)
              (GetMember PTE_Sv48_PPN2 entry1) (GetMember PTE_Sv48_PPN1 entry1)
              (GetMember PTE_Sv48_PPN0 entry1) (8 * GetMember VA_VPN2 vaddr) in
        bindM (queryM (Bus_ReadUInt64 entryAddr2)) (\<lambda>entry2.
        return_if_trap (entry_check entry2 accessType pc addr)
        (if IsLeafEntry entry2 then
           return_if_trap (leaf_check entry2 accessType pc addr)
           (if GetMember PTE_Sv48_PPN1 entry2 \<noteq> 0 \<or> GetMember PTE_Sv48_PPN0 entry2 \<noteq> 0
            then fault else returnM None)
         else
           let entryAddr3 = PhysicalAddressSv48_5 (GetMember PTE_Sv48_PPN3 entry2)
                 (GetMember PTE_Sv48_PPN2 entry2) (GetMember PTE_Sv48_PPN1 entry2)
                 (GetMember PTE_Sv48_PPN0 entry2) (8 * GetMember VA_VPN1 vaddr) in
           bindM (queryM (Bus_ReadUInt64 entryAddr3)) (\<lambda>entry3.
           return_if_trap (entry_check entry3 accessType pc addr)
           (if IsLeafEntry entry3 then
              return_if_trap (leaf_check entry3 accessType pc addr)
              (if GetMember PTE_Sv48_PPN0 entry3 \<noteq> 0 then fault else returnM None)
            else
              let entryAddr4 = PhysicalAddressSv48_5 (GetMember PTE_Sv48_PPN3 entry3)
                    (GetMember PTE_Sv48_PPN2 entry3) (GetMember PTE_Sv48_PPN1 entry3)
                    (GetMember PTE_Sv48_PPN0 entry3) (8 * GetMember VA_VPN1 vaddr) in
              bindM (queryM (Bus_ReadUInt64 entryAddr4)) (\<lambda>entry4.
              return_if_trap (entry_check entry4 accessType pc addr)
              (leaf_check entry4 accessType pc addr))))))))))"

definition CheckTrapSv57 :: "MemoryAccessType \<Rightarrow> vaddr_t \<Rightarrow> vaddr_t \<Rightarrow> Trap option sys_act" where
  "CheckTrapSv57 accessType pc addr = failM EmuException"

definition CheckTrapSv64 :: "MemoryAccessType \<Rightarrow> vaddr_t \<Rightarrow> vaddr_t \<Rightarrow> Trap option sys_act" where
  "CheckTrapSv64 accessType pc addr = failM EmuException"

definition translation_mode :: "MemoryAccessType \<Rightarrow> AddressTranslationMode sys_act" where
  "translation_mode accessType = queryM (\<lambda>s. GetAddresssTranslationMode accessType
     (mau_m_XLEN (cpu_m_MemAccessUnit (sys_m_Processor s))) (sys_csr s))"

definition MemoryAccessUnit_CheckTrap ::
  "MemoryAccessType \<Rightarrow> vaddr_t \<Rightarrow> vaddr_t \<Rightarrow> Trap option sys_act" where
  "MemoryAccessUnit_CheckTrap accessType pc addr =
    bindM (translation_mode accessType) (\<lambda>mode. case mode of
      Bare \<Rightarrow> returnM None
    | Sv32 \<Rightarrow> CheckTrapSv32 accessType pc addr
    | Sv39 \<Rightarrow> CheckTrapSv39 accessType pc addr
    | Sv48 \<Rightarrow> CheckTrapSv48 accessType pc addr
    | Sv57 \<Rightarrow> CheckTrapSv57 accessType pc addr
    | Sv64 \<Rightarrow> CheckTrapSv64 accessType pc addr
    | Mode_other v \<Rightarrow> failM EmuException)"

section \<open>Translation\<close>

text \<open>
  \<open>Translate\<close> answers a trap and leaves \<open>*pOutAddr\<close> unset, or answers \<open>std::nullopt\<close> with
  the address stored.
\<close>

datatype translation = Trapped Trap | Address paddr_t

definition trapped_or :: "Trap option sys_act \<Rightarrow> translation sys_act \<Rightarrow> translation sys_act" where
  "trapped_or m n = bindM m (\<lambda>t. case t of Some trap \<Rightarrow> returnM (Trapped trap) | None \<Rightarrow> n)"

definition TranslateSv32 :: "MemoryAccessType \<Rightarrow> vaddr_t \<Rightarrow> vaddr_t \<Rightarrow> translation sys_act" where
  "TranslateSv32 accessType addr pc =
    (let isWrite = (accessType = Store);
         vaddr = ucast addr :: u32;
         offset = ucast (GetMember VA_Offset vaddr) in
     bindM read_satp (\<lambda>satp.
     let entryAddr1 = PhysicalAddressSv32_2 (GetMember satp_PPN_RV32 satp)
           (4 * ucast (GetMember VA_Sv32_VPN1 vaddr)) in
     bindM (queryM (Bus_ReadUInt32 entryAddr1)) (\<lambda>entry1.
     trapped_or (entry_check entry1 accessType pc addr)
     (if IsLeafEntry entry1 then
        trapped_or (leaf_check entry1 accessType pc addr)
        (bindM (UpdateEntry32 entryAddr1 isWrite) (\<lambda>_.
         returnM (Address (ZeroExtend 32 (PhysicalAddressSv32_3
           (ucast (GetMember PTE_Sv32_PPN1 entry1)) (ucast (GetMember VA_Sv32_VPN0 vaddr))
           offset)))))
      else
        let entryAddr2 = PhysicalAddressSv32_3 (ucast (GetMember PTE_Sv32_PPN1 entry1))
              (ucast (GetMember PTE_Sv32_PPN0 entry1)) (4 * ucast (GetMember VA_Sv32_VPN0 vaddr)) in
        bindM (queryM (Bus_ReadUInt32 entryAddr2)) (\<lambda>entry2.
        trapped_or (entry_check entry2 accessType pc addr)
        (trapped_or (leaf_check entry2 accessType pc addr)
        (bindM (UpdateEntry32 entryAddr2 isWrite) (\<lambda>_.
         returnM (Address (ZeroExtend 32 (PhysicalAddressSv32_3
           (ucast (GetMember PTE_Sv32_PPN1 entry2)) (ucast (GetMember PTE_Sv32_PPN0 entry2))
           offset)))))))))))"

definition TranslateSv39 :: "MemoryAccessType \<Rightarrow> vaddr_t \<Rightarrow> vaddr_t \<Rightarrow> translation sys_act" where
  "TranslateSv39 accessType addr pc =
    (let isWrite = (accessType = Store);
         vaddr = addr;
         offset = GetMember VA_Offset vaddr in
     bindM read_satp (\<lambda>satp.
     let entryAddr1 = PhysicalAddressSv39_2 (GetMember satp_PPN_RV64 satp)
           (8 * GetMember VA_VPN2 vaddr) in
     bindM (queryM (Bus_ReadUInt64 entryAddr1)) (\<lambda>entry1.
     trapped_or (entry_check entry1 accessType pc addr)
     (if IsLeafEntry entry1 then
        trapped_or (leaf_check entry1 accessType pc addr)
        (bindM (UpdateEntry64 entryAddr1 isWrite) (\<lambda>_.
         returnM (Address (ZeroExtend 39 (PhysicalAddressSv39_4
           (GetMember PTE_Sv39_PPN2 entry1) (GetMember VA_VPN1 vaddr) (GetMember VA_VPN0 vaddr)
           offset)))))
      else
        let entryAddr2 = PhysicalAddressSv39_4 (GetMember PTE_Sv39_PPN2 entry1)
              (GetMember PTE_Sv39_PPN1 entry1) (GetMember PTE_Sv39_PPN0 entry1)
              (8 * GetMember VA_VPN1 vaddr) in
        bindM (queryM (Bus_ReadUInt64 entryAddr2)) (\<lambda>entry2.
        trapped_or (entry_check entry2 accessType pc addr)
        (if IsLeafEntry entry2 then
           trapped_or (leaf_check entry2 accessType pc addr)
           (bindM (UpdateEntry64 entryAddr2 isWrite) (\<lambda>_.
            returnM (Address (ZeroExtend 39 (PhysicalAddressSv39_4
              (GetMember PTE_Sv39_PPN2 entry2) (GetMember PTE_Sv39_PPN1 entry2)
              (GetMember VA_VPN0 vaddr) offset)))))
         else
           let entryAddr3 = PhysicalAddressSv39_4 (GetMember PTE_Sv39_PPN2 entry2)
                 (GetMember PTE_Sv39_PPN1 entry2) (GetMember PTE_Sv39_PPN0 entry2)
                 (8 * GetMember VA_VPN0 vaddr) in
           bindM (queryM (Bus_ReadUInt64 entryAddr3)) (\<lambda>entry3.
           trapped_or (entry_check entry3 accessType pc addr)
           (trapped_or (leaf_check entry3 accessType pc addr)
           (bindM (UpdateEntry64 entryAddr3 isWrite) (\<lambda>_.
            returnM (Address (ZeroExtend 39 (PhysicalAddressSv39_4
              (GetMember PTE_Sv39_PPN2 entry3) (GetMember PTE_Sv39_PPN1 entry3)
              (GetMember PTE_Sv39_PPN0 entry3) offset)))))))))))))"

definition TranslateSv48 :: "MemoryAccessType \<Rightarrow> vaddr_t \<Rightarrow> vaddr_t \<Rightarrow> translation sys_act" where
  "TranslateSv48 accessType addr pc =
    (let isWrite = (accessType = Store);
         vaddr = addr;
         offset = GetMember VA_Offset vaddr in
     bindM read_satp (\<lambda>satp.
     let entryAddr1 = PhysicalAddressSv48_2 (GetMember satp_PPN_RV64 satp)
           (8 * GetMember VA_VPN3 vaddr) in
     bindM (queryM (Bus_ReadUInt64 entryAddr1)) (\<lambda>entry1.
     trapped_or (entry_check entry1 accessType pc addr)
     (if IsLeafEntry entry1 then
        trapped_or (leaf_check entry1 accessType pc addr)
        (bindM (UpdateEntry64 entryAddr1 isWrite) (\<lambda>_.
         returnM (Address (ZeroExtend 48 (PhysicalAddressSv48_5
           (GetMember PTE_Sv48_PPN3 entry1) (GetMember VA_VPN2 vaddr) (GetMember VA_VPN1 vaddr)
           (GetMember VA_VPN0 vaddr) offset)))))
      else
        let entryAddr2 = PhysicalAddressSv48_5 (GetMember PTE_Sv48_PPN3 entry1)
              (GetMember PTE_Sv48_PPN2 entry1) (GetMember PTE_Sv48_PPN1 entry1)
              (GetMember PTE_Sv48_PPN0 entry1) (8 * GetMember VA_VPN2 vaddr) in
        bindM (queryM (Bus_ReadUInt64 entryAddr2)) (\<lambda>entry2.
        trapped_or (entry_check entry2 accessType pc addr)
        (if IsLeafEntry entry2 then
           trapped_or (leaf_check entry2 accessType pc addr)
           (bindM (UpdateEntry64 entryAddr2 isWrite) (\<lambda>_.
            returnM (Address (ZeroExtend 48 (PhysicalAddressSv48_5
              (GetMember PTE_Sv48_PPN3 entry2) (GetMember PTE_Sv48_PPN2 entry2)
              (GetMember VA_VPN1 vaddr) (GetMember VA_VPN0 vaddr) offset)))))
         else
           let entryAddr3 = PhysicalAddressSv48_5 (GetMember PTE_Sv48_PPN3 entry2)
                 (GetMember PTE_Sv48_PPN2 entry2) (GetMember PTE_Sv48_PPN1 entry2)
                 (GetMember PTE_Sv48_PPN0 entry2) (8 * GetMember VA_VPN1 vaddr) in
           bindM (queryM (Bus_ReadUInt64 entryAddr3)) (\<lambda>entry3.
           trapped_or (entry_check entry3 accessType pc addr)
           (if IsLeafEntry entry3 then
              trapped_or (leaf_check entry3 accessType pc addr)
              (bindM (UpdateEntry64 entryAddr3 isWrite) (\<lambda>_.
               returnM (Address (ZeroExtend 48 (PhysicalAddressSv48_5
                 (GetMember PTE_Sv48_PPN3 entry3) (GetMember PTE_Sv48_PPN2 entry3)
                 (GetMember PTE_Sv48_PPN1 entry3) (GetMember VA_VPN0 vaddr) offset)))))
            else
              let entryAddr4 = PhysicalAddressSv48_5 (GetMember PTE_Sv48_PPN3 entry3)
                    (GetMember PTE_Sv48_PPN2 entry3) (GetMember PTE_Sv48_PPN1 entry3)
                    (GetMember PTE_Sv48_PPN0 entry3) (8 * GetMember VA_VPN0 vaddr) in
              bindM (queryM (Bus_ReadUInt64 entryAddr4)) (\<lambda>entry4.
              trapped_or (entry_check entry4 accessType pc addr)
              (trapped_or (leaf_check entry4 accessType pc addr)
              (bindM (UpdateEntry64 entryAddr4 isWrite) (\<lambda>_.
               returnM (Address (ZeroExtend 48 (PhysicalAddressSv48_5
                 (GetMember PTE_Sv48_PPN3 entry4) (GetMember PTE_Sv48_PPN2 entry4)
                 (GetMember PTE_Sv48_PPN1 entry4) (GetMember PTE_Sv48_PPN0 entry4)
                 offset)))))))))))))))"

definition TranslateSv57 :: "MemoryAccessType \<Rightarrow> vaddr_t \<Rightarrow> vaddr_t \<Rightarrow> translation sys_act" where
  "TranslateSv57 accessType addr pc = failM EmuException"

definition TranslateSv64 :: "MemoryAccessType \<Rightarrow> vaddr_t \<Rightarrow> vaddr_t \<Rightarrow> translation sys_act" where
  "TranslateSv64 accessType addr pc = failM EmuException"

definition Translate :: "MemoryAccessType \<Rightarrow> vaddr_t \<Rightarrow> vaddr_t \<Rightarrow> translation sys_act" where
  "Translate accessType addr pc =
    bindM (translation_mode accessType) (\<lambda>mode. case mode of
      Bare \<Rightarrow> getM (\<lambda>s. Address
        (if mau_m_XLEN (cpu_m_MemAccessUnit (sys_m_Processor s)) = XLEN32
         then ZeroExtend 32 addr else addr))
    | Sv32 \<Rightarrow> TranslateSv32 accessType addr pc
    | Sv39 \<Rightarrow> TranslateSv39 accessType addr pc
    | Sv48 \<Rightarrow> TranslateSv48 accessType addr pc
    | Sv57 \<Rightarrow> TranslateSv57 accessType addr pc
    | Sv64 \<Rightarrow> TranslateSv64 accessType addr pc
    | Mode_other v \<Rightarrow> failM EmuException)"

section \<open>Accesses\<close>

text \<open>
  Loads and stores drop the trap \<open>Translate\<close> answers; the physical address is then
  indeterminate and its use undefined.
\<close>

definition access_address :: "MemoryAccessType \<Rightarrow> vaddr_t \<Rightarrow> paddr_t sys_act" where
  "access_address accessType addr =
    bindM (Translate accessType addr 0) (\<lambda>r. case r of
      Address paddr \<Rightarrow> returnM paddr
    | Trapped trap \<Rightarrow> failM Undefined)"

definition LoadUInt8 :: "vaddr_t \<Rightarrow> u8 sys_act" where
  "LoadUInt8 addr =
    bindM (access_address Load addr) (\<lambda>paddr.
    bindM (queryM (Bus_ReadUInt8 paddr)) (\<lambda>value.
    bindM (AddEvent Load 1 (ucast value) addr paddr) (\<lambda>_. returnM value)))"

definition LoadUInt16 :: "vaddr_t \<Rightarrow> u16 sys_act" where
  "LoadUInt16 addr =
    bindM (access_address Load addr) (\<lambda>paddr.
    bindM (queryM (Bus_ReadUInt16 paddr)) (\<lambda>value.
    bindM (AddEvent Load 2 (ucast value) addr paddr) (\<lambda>_. returnM value)))"

definition LoadUInt32 :: "vaddr_t \<Rightarrow> u32 sys_act" where
  "LoadUInt32 addr =
    bindM (access_address Load addr) (\<lambda>paddr.
    bindM (queryM (Bus_ReadUInt32 paddr)) (\<lambda>value.
    bindM (AddEvent Load 4 (ucast value) addr paddr) (\<lambda>_. returnM value)))"

definition LoadUInt64 :: "vaddr_t \<Rightarrow> u64 sys_act" where
  "LoadUInt64 addr =
    bindM (access_address Load addr) (\<lambda>paddr.
    bindM (queryM (Bus_ReadUInt64 paddr)) (\<lambda>value.
    bindM (AddEvent Load 8 value addr paddr) (\<lambda>_. returnM value)))"

definition StoreUInt8 :: "vaddr_t \<Rightarrow> u8 \<Rightarrow> unit sys_act" where
  "StoreUInt8 addr value =
    bindM (access_address Store addr) (\<lambda>paddr.
    bindM (Bus_WriteUInt8 paddr value) (\<lambda>_.
    AddEvent Store 1 (ucast value) addr paddr))"

definition StoreUInt16 :: "vaddr_t \<Rightarrow> u16 \<Rightarrow> unit sys_act" where
  "StoreUInt16 addr value =
    bindM (access_address Store addr) (\<lambda>paddr.
    bindM (Bus_WriteUInt16 paddr value) (\<lambda>_.
    AddEvent Store 2 (ucast value) addr paddr))"

definition StoreUInt32 :: "vaddr_t \<Rightarrow> u32 \<Rightarrow> unit sys_act" where
  "StoreUInt32 addr value =
    bindM (access_address Store addr) (\<lambda>paddr.
    bindM (Bus_WriteUInt32 paddr value) (\<lambda>_.
    AddEvent Store 4 (ucast value) addr paddr))"

definition StoreUInt64 :: "vaddr_t \<Rightarrow> u64 \<Rightarrow> unit sys_act" where
  "StoreUInt64 addr value =
    bindM (access_address Store addr) (\<lambda>paddr.
    bindM (Bus_WriteUInt64 paddr value) (\<lambda>_.
    AddEvent Store 8 value addr paddr))"

definition FetchUInt16 :: "vaddr_t \<Rightarrow> paddr_t \<Rightarrow> u16 sys_act" where
  "FetchUInt16 vaddr paddr =
    bindM (queryM (Bus_ReadUInt16 paddr)) (\<lambda>value.
    bindM (AddEvent Instruction 2 (ucast value) vaddr paddr) (\<lambda>_. returnM value))"

definition FetchUInt32 :: "vaddr_t \<Rightarrow> paddr_t \<Rightarrow> u32 sys_act" where
  "FetchUInt32 vaddr paddr =
    bindM (queryM (Bus_ReadUInt32 paddr)) (\<lambda>value.
    bindM (AddEvent Instruction 4 (ucast value) vaddr paddr) (\<lambda>_. returnM value))"

end
