(* ===== verification/Rafi_Fp.thy ===== *)
theory Rafi_Fp
  imports Rafi_State
begin

text \<open>
  \<^verbatim>\<open>src/librafi_fp/FpApi.cpp\<close>: the floating-point operations of the executor. A number is its
  bit pattern. The arithmetic itself is the Berkeley SoftFloat library, a submodule that is
  not part of the repository: the record \<open>Softfloat\<close> of its functions is a parameter. Each
  function gets the rounding mode the library has in a global variable and its operands, and
  answers its result and the exception flags it raises, which the library adds to another
  global variable.
\<close>

section \<open>The library\<close>

type_synonym ('a, 'b) sf1 = "u8 \<Rightarrow> 'a \<Rightarrow> 'b \<times> u8"
type_synonym ('a, 'b) sf2 = "u8 \<Rightarrow> 'a \<Rightarrow> 'a \<Rightarrow> 'b \<times> u8"
type_synonym ('a, 'b) sf_to = "'a \<Rightarrow> u8 \<Rightarrow> bool \<Rightarrow> 'b \<times> u8"

record Softfloat =
  f32_add :: "(u32, u32) sf2"
  f32_sub :: "(u32, u32) sf2"
  f32_mul :: "(u32, u32) sf2"
  f32_div :: "(u32, u32) sf2"
  f32_sqrt :: "(u32, u32) sf1"
  f32_eq :: "(u32, bool) sf2"
  f32_le :: "(u32, bool) sf2"
  f32_lt :: "(u32, bool) sf2"
  f32_le_quiet :: "(u32, bool) sf2"
  f64_add :: "(u64, u64) sf2"
  f64_sub :: "(u64, u64) sf2"
  f64_mul :: "(u64, u64) sf2"
  f64_div :: "(u64, u64) sf2"
  f64_sqrt :: "(u64, u64) sf1"
  f64_eq :: "(u64, bool) sf2"
  f64_le :: "(u64, bool) sf2"
  f64_lt :: "(u64, bool) sf2"
  f64_le_quiet :: "(u64, bool) sf2"
  f64_to_i32 :: "(u64, i32) sf_to"
  f64_to_i64 :: "(u64, i64) sf_to"
  f64_to_ui32 :: "(u64, u32) sf_to"
  f64_to_ui64 :: "(u64, u64) sf_to"
  f32_to_i32 :: "(u32, i32) sf_to"
  f32_to_i64 :: "(u32, i64) sf_to"
  f32_to_ui32 :: "(u32, u32) sf_to"
  f32_to_ui64 :: "(u32, u64) sf_to"
  i32_to_f64 :: "(i32, u64) sf1"
  i64_to_f64 :: "(i64, u64) sf1"
  ui32_to_f64 :: "(u32, u64) sf1"
  ui64_to_f64 :: "(u64, u64) sf1"
  i32_to_f32 :: "(i32, u32) sf1"
  i64_to_f32 :: "(i64, u32) sf1"
  ui32_to_f32 :: "(u32, u32) sf1"
  ui64_to_f32 :: "(u64, u32) sf1"
  f64_to_f32 :: "(u64, u32) sf1"
  f32_to_f64 :: "(u32, u64) sf1"

text \<open>A call: the global rounding mode in, the raised flags added to the global flags.\<close>

definition softfloat :: "(u8 \<Rightarrow> 'a \<times> u8) \<Rightarrow> 'a sys_act" where
  "softfloat f = (\<lambda>s. let (x, raised) = f (softfloat_roundingMode s) in
     Inr (x, s\<lparr>softfloat_exceptionFlags := softfloat_exceptionFlags s OR raised\<rparr>))"

definition clear_flags :: "unit sys_act" where
  "clear_flags = modifyM (\<lambda>s. s\<lparr>softfloat_exceptionFlags := 0\<rparr>)"

text \<open>The shape of most functions of the API: clear the flags, then one call.\<close>

definition fp_call :: "(u8 \<Rightarrow> 'a \<times> u8) \<Rightarrow> 'a sys_act" where
  "fp_call f = bindM clear_flags (\<lambda>_. softfloat f)"

section \<open>Bit patterns\<close>

text \<open>\<open>FpBase\<close> is a template over the widths of the exponent and the fraction.\<close>

type_synonym fp_format = "nat \<times> nat"

abbreviation Fp32 :: fp_format where "Fp32 \<equiv> (8, 23)"
abbreviation Fp64 :: fp_format where "Fp64 \<equiv> (11, 52)"

definition GetSign :: "fp_format \<Rightarrow> 'a::len word \<Rightarrow> 'a word" where
  "GetSign w x = GetMember (snd w + fst w, snd w + fst w) x"

definition GetExponent :: "fp_format \<Rightarrow> 'a::len word \<Rightarrow> 'a word" where
  "GetExponent w x = GetMember (snd w + fst w - 1, snd w) x"

definition GetFraction :: "fp_format \<Rightarrow> 'a::len word \<Rightarrow> 'a word" where
  "GetFraction w x = GetMember (snd w - 1, 0) x"

definition MaxExponent :: "fp_format \<Rightarrow> 'a::len word" where
  "MaxExponent w = push_bit (fst w) 1 - 1"

definition IsZero :: "fp_format \<Rightarrow> 'a::len word \<Rightarrow> bool" where
  "IsZero w x = (GetExponent w x = 0 \<and> GetFraction w x = 0)"

definition IsInf :: "fp_format \<Rightarrow> 'a::len word \<Rightarrow> bool" where
  "IsInf w x = (GetExponent w x = MaxExponent w \<and> GetFraction w x = 0)"

definition IsNormal :: "fp_format \<Rightarrow> 'a::len word \<Rightarrow> bool" where
  "IsNormal w x = (1 \<le> GetExponent w x \<and> GetExponent w x < MaxExponent w)"

definition IsSubNormal :: "fp_format \<Rightarrow> 'a::len word \<Rightarrow> bool" where
  "IsSubNormal w x = (GetExponent w x = 0 \<and> GetFraction w x \<noteq> 0)"

definition IsNan :: "fp_format \<Rightarrow> 'a::len word \<Rightarrow> bool" where
  "IsNan w x = (GetExponent w x = MaxExponent w \<and> GetFraction w x \<noteq> 0)"

definition IsQuietNan :: "fp_format \<Rightarrow> 'a::len word \<Rightarrow> bool" where
  "IsQuietNan w x = (IsNan w x \<and> GetMember (snd w - 1, snd w - 1) x \<noteq> 0)"

definition IsSignalingNan :: "fp_format \<Rightarrow> 'a::len word \<Rightarrow> bool" where
  "IsSignalingNan w x = (IsNan w x \<and> GetMember (snd w - 1, snd w - 1) x = 0)"

definition CanonicalQuietNan32 :: u32 where "CanonicalQuietNan32 = 0x7fc00000"
definition CanonicalSignalingNan32 :: u32 where "CanonicalSignalingNan32 = 0x7f800001"
definition CanonicalQuietNan64 :: u64 where "CanonicalQuietNan64 = 0x7ff8000000000000"
definition CanonicalSignalingNan64 :: u64 where "CanonicalSignalingNan64 = 0x7ff0000000000001"

definition Negate32 :: "u32 \<Rightarrow> u32" where "Negate32 value = value XOR push_bit 31 1"
definition Negate64 :: "u64 \<Rightarrow> u64" where "Negate64 value = value XOR push_bit 63 1"

section \<open>Minimum and maximum\<close>

text \<open>
  The comparison has been made, with its effect on the flags, before the cases are looked
  at. The first test of \<open>MinImpl\<close> asks for \<open>x\<close> twice.
\<close>

definition MinImpl ::
  "fp_format \<Rightarrow> 'a::len word \<Rightarrow> 'a word \<Rightarrow> bool \<Rightarrow> 'a word \<Rightarrow> 'a word \<Rightarrow> 'a word" where
  "MinImpl w signalingNan quietNan le x y =
     (let cmpResult = (if le then x else y) in
      if IsZero w x \<and> IsZero w x then
        (if GetSign w x = 1 \<and> GetSign w y = 0 then x else y)
      else if IsNan w x \<and> IsNan w y then
        (if IsSignalingNan w x \<or> IsSignalingNan w y then signalingNan else quietNan)
      else if \<not> IsNan w x \<and> IsNan w y then x
      else if IsNan w x \<and> \<not> IsNan w y then y
      else cmpResult)"

definition MaxImpl ::
  "fp_format \<Rightarrow> 'a::len word \<Rightarrow> 'a word \<Rightarrow> bool \<Rightarrow> 'a word \<Rightarrow> 'a word \<Rightarrow> 'a word" where
  "MaxImpl w signalingNan quietNan le x y =
     (let cmpResult = (if le then y else x) in
      if IsZero w x \<and> IsZero w y then
        (if GetSign w x = 0 \<and> GetSign w y = 1 then x else y)
      else if IsNan w x \<and> IsNan w y then
        (if IsSignalingNan w x \<or> IsSignalingNan w y then signalingNan else quietNan)
      else if \<not> IsNan w x \<and> IsNan w y then x
      else if IsNan w x \<and> \<not> IsNan w y then y
      else cmpResult)"

definition Min32 :: "Softfloat \<Rightarrow> u32 \<Rightarrow> u32 \<Rightarrow> u32 sys_act" where
  "Min32 sf x y = bindM (fp_call (\<lambda>r. f32_le_quiet sf r x y)) (\<lambda>le.
     returnM (MinImpl Fp32 CanonicalSignalingNan32 CanonicalQuietNan32 le x y))"

definition Min64 :: "Softfloat \<Rightarrow> u64 \<Rightarrow> u64 \<Rightarrow> u64 sys_act" where
  "Min64 sf x y = bindM (fp_call (\<lambda>r. f64_le_quiet sf r x y)) (\<lambda>le.
     returnM (MinImpl Fp64 CanonicalSignalingNan64 CanonicalQuietNan64 le x y))"

definition Max32 :: "Softfloat \<Rightarrow> u32 \<Rightarrow> u32 \<Rightarrow> u32 sys_act" where
  "Max32 sf x y = bindM (fp_call (\<lambda>r. f32_le_quiet sf r x y)) (\<lambda>le.
     returnM (MaxImpl Fp32 CanonicalSignalingNan32 CanonicalQuietNan32 le x y))"

definition Max64 :: "Softfloat \<Rightarrow> u64 \<Rightarrow> u64 \<Rightarrow> u64 sys_act" where
  "Max64 sf x y = bindM (fp_call (\<lambda>r. f64_le_quiet sf r x y)) (\<lambda>le.
     returnM (MaxImpl Fp64 CanonicalSignalingNan64 CanonicalQuietNan64 le x y))"

section \<open>Arithmetic and comparison\<close>

definition Add32 :: "Softfloat \<Rightarrow> u32 \<Rightarrow> u32 \<Rightarrow> u32 sys_act" where
  "Add32 sf x y = fp_call (\<lambda>r. f32_add sf r x y)"
definition Add64 :: "Softfloat \<Rightarrow> u64 \<Rightarrow> u64 \<Rightarrow> u64 sys_act" where
  "Add64 sf x y = fp_call (\<lambda>r. f64_add sf r x y)"
definition Sub32 :: "Softfloat \<Rightarrow> u32 \<Rightarrow> u32 \<Rightarrow> u32 sys_act" where
  "Sub32 sf x y = fp_call (\<lambda>r. f32_sub sf r x y)"
definition Sub64 :: "Softfloat \<Rightarrow> u64 \<Rightarrow> u64 \<Rightarrow> u64 sys_act" where
  "Sub64 sf x y = fp_call (\<lambda>r. f64_sub sf r x y)"
definition Mul32 :: "Softfloat \<Rightarrow> u32 \<Rightarrow> u32 \<Rightarrow> u32 sys_act" where
  "Mul32 sf x y = fp_call (\<lambda>r. f32_mul sf r x y)"
definition Mul64 :: "Softfloat \<Rightarrow> u64 \<Rightarrow> u64 \<Rightarrow> u64 sys_act" where
  "Mul64 sf x y = fp_call (\<lambda>r. f64_mul sf r x y)"
definition Div32 :: "Softfloat \<Rightarrow> u32 \<Rightarrow> u32 \<Rightarrow> u32 sys_act" where
  "Div32 sf x y = fp_call (\<lambda>r. f32_div sf r x y)"
definition Div64 :: "Softfloat \<Rightarrow> u64 \<Rightarrow> u64 \<Rightarrow> u64 sys_act" where
  "Div64 sf x y = fp_call (\<lambda>r. f64_div sf r x y)"
definition Sqrt32 :: "Softfloat \<Rightarrow> u32 \<Rightarrow> u32 sys_act" where
  "Sqrt32 sf x = fp_call (\<lambda>r. f32_sqrt sf r x)"
definition Sqrt64 :: "Softfloat \<Rightarrow> u64 \<Rightarrow> u64 sys_act" where
  "Sqrt64 sf x = fp_call (\<lambda>r. f64_sqrt sf r x)"
definition Eq32 :: "Softfloat \<Rightarrow> u32 \<Rightarrow> u32 \<Rightarrow> bool sys_act" where
  "Eq32 sf x y = fp_call (\<lambda>r. f32_eq sf r x y)"
definition Eq64 :: "Softfloat \<Rightarrow> u64 \<Rightarrow> u64 \<Rightarrow> bool sys_act" where
  "Eq64 sf x y = fp_call (\<lambda>r. f64_eq sf r x y)"
definition Le32 :: "Softfloat \<Rightarrow> u32 \<Rightarrow> u32 \<Rightarrow> bool sys_act" where
  "Le32 sf x y = fp_call (\<lambda>r. f32_le sf r x y)"
definition Le64 :: "Softfloat \<Rightarrow> u64 \<Rightarrow> u64 \<Rightarrow> bool sys_act" where
  "Le64 sf x y = fp_call (\<lambda>r. f64_le sf r x y)"
definition Lt32 :: "Softfloat \<Rightarrow> u32 \<Rightarrow> u32 \<Rightarrow> bool sys_act" where
  "Lt32 sf x y = fp_call (\<lambda>r. f32_lt sf r x y)"
definition Lt64 :: "Softfloat \<Rightarrow> u64 \<Rightarrow> u64 \<Rightarrow> bool sys_act" where
  "Lt64 sf x y = fp_call (\<lambda>r. f64_lt sf r x y)"

text \<open>The multiply-add family rounds twice, once for each of its two calls.\<close>

definition MulAdd32 :: "Softfloat \<Rightarrow> u32 \<Rightarrow> u32 \<Rightarrow> u32 \<Rightarrow> u32 sys_act" where
  "MulAdd32 sf x y z = bindM (fp_call (\<lambda>r. f32_mul sf r x y)) (\<lambda>p.
     softfloat (\<lambda>r. f32_add sf r p z))"
definition MulAdd64 :: "Softfloat \<Rightarrow> u64 \<Rightarrow> u64 \<Rightarrow> u64 \<Rightarrow> u64 sys_act" where
  "MulAdd64 sf x y z = bindM (fp_call (\<lambda>r. f64_mul sf r x y)) (\<lambda>p.
     softfloat (\<lambda>r. f64_add sf r p z))"
definition MulSub32 :: "Softfloat \<Rightarrow> u32 \<Rightarrow> u32 \<Rightarrow> u32 \<Rightarrow> u32 sys_act" where
  "MulSub32 sf x y z = bindM (fp_call (\<lambda>r. f32_mul sf r x y)) (\<lambda>p.
     softfloat (\<lambda>r. f32_sub sf r p z))"
definition MulSub64 :: "Softfloat \<Rightarrow> u64 \<Rightarrow> u64 \<Rightarrow> u64 \<Rightarrow> u64 sys_act" where
  "MulSub64 sf x y z = bindM (fp_call (\<lambda>r. f64_mul sf r x y)) (\<lambda>p.
     softfloat (\<lambda>r. f64_sub sf r p z))"
definition NegMulAdd32 :: "Softfloat \<Rightarrow> u32 \<Rightarrow> u32 \<Rightarrow> u32 \<Rightarrow> u32 sys_act" where
  "NegMulAdd32 sf x y z = bindM (fp_call (\<lambda>r. f32_mul sf r x y)) (\<lambda>p.
     softfloat (\<lambda>r. f32_sub sf r (Negate32 p) z))"
definition NegMulAdd64 :: "Softfloat \<Rightarrow> u64 \<Rightarrow> u64 \<Rightarrow> u64 \<Rightarrow> u64 sys_act" where
  "NegMulAdd64 sf x y z = bindM (fp_call (\<lambda>r. f64_mul sf r x y)) (\<lambda>p.
     softfloat (\<lambda>r. f64_sub sf r (Negate64 p) z))"
definition NegMulSub32 :: "Softfloat \<Rightarrow> u32 \<Rightarrow> u32 \<Rightarrow> u32 \<Rightarrow> u32 sys_act" where
  "NegMulSub32 sf x y z = bindM (fp_call (\<lambda>r. f32_mul sf r x y)) (\<lambda>p.
     softfloat (\<lambda>r. f32_add sf r (Negate32 p) z))"
definition NegMulSub64 :: "Softfloat \<Rightarrow> u64 \<Rightarrow> u64 \<Rightarrow> u64 \<Rightarrow> u64 sys_act" where
  "NegMulSub64 sf x y z = bindM (fp_call (\<lambda>r. f64_mul sf r x y)) (\<lambda>p.
     softfloat (\<lambda>r. f64_add sf r (Negate64 p) z))"

section \<open>Conversions\<close>

definition UnboxFloat :: "u64 \<Rightarrow> u32" where
  "UnboxFloat x =
     (let isUnboxed = (ucast (drop_bit 32 x) = (0xffffffff :: u32)) in
      if isUnboxed then ucast x else CanonicalQuietNan32)"

text \<open>The round mode is an \<open>int\<close>, the parameter of the library a byte.\<close>

definition DoubleToInt32 :: "Softfloat \<Rightarrow> u64 \<Rightarrow> i32 \<Rightarrow> i32 sys_act" where
  "DoubleToInt32 sf x roundMode = fp_call (\<lambda>_. f64_to_i32 sf x (ucast roundMode) True)"
definition DoubleToInt64 :: "Softfloat \<Rightarrow> u64 \<Rightarrow> i32 \<Rightarrow> i64 sys_act" where
  "DoubleToInt64 sf x roundMode = fp_call (\<lambda>_. f64_to_i64 sf x (ucast roundMode) True)"
definition DoubleToUInt32 :: "Softfloat \<Rightarrow> u64 \<Rightarrow> i32 \<Rightarrow> u32 sys_act" where
  "DoubleToUInt32 sf x roundMode = fp_call (\<lambda>_. f64_to_ui32 sf x (ucast roundMode) True)"
definition DoubleToUInt64 :: "Softfloat \<Rightarrow> u64 \<Rightarrow> i32 \<Rightarrow> u64 sys_act" where
  "DoubleToUInt64 sf x roundMode = fp_call (\<lambda>_. f64_to_ui64 sf x (ucast roundMode) True)"
definition FloatToInt32 :: "Softfloat \<Rightarrow> u32 \<Rightarrow> i32 \<Rightarrow> i32 sys_act" where
  "FloatToInt32 sf x roundMode = fp_call (\<lambda>_. f32_to_i32 sf x (ucast roundMode) True)"
definition FloatToInt64 :: "Softfloat \<Rightarrow> u32 \<Rightarrow> i32 \<Rightarrow> i64 sys_act" where
  "FloatToInt64 sf x roundMode = fp_call (\<lambda>_. f32_to_i64 sf x (ucast roundMode) True)"
definition FloatToUInt32 :: "Softfloat \<Rightarrow> u32 \<Rightarrow> i32 \<Rightarrow> u32 sys_act" where
  "FloatToUInt32 sf x roundMode = fp_call (\<lambda>_. f32_to_ui32 sf x (ucast roundMode) True)"
definition FloatToUInt64 :: "Softfloat \<Rightarrow> u32 \<Rightarrow> i32 \<Rightarrow> u64 sys_act" where
  "FloatToUInt64 sf x roundMode = fp_call (\<lambda>_. f32_to_ui64 sf x (ucast roundMode) True)"

definition Int32ToDouble :: "Softfloat \<Rightarrow> i32 \<Rightarrow> u64 sys_act" where
  "Int32ToDouble sf x = fp_call (\<lambda>r. i32_to_f64 sf r x)"
definition Int64ToDouble :: "Softfloat \<Rightarrow> i64 \<Rightarrow> u64 sys_act" where
  "Int64ToDouble sf x = fp_call (\<lambda>r. i64_to_f64 sf r x)"
definition UInt32ToDouble :: "Softfloat \<Rightarrow> u32 \<Rightarrow> u64 sys_act" where
  "UInt32ToDouble sf x = fp_call (\<lambda>r. ui32_to_f64 sf r x)"
definition UInt64ToDouble :: "Softfloat \<Rightarrow> u64 \<Rightarrow> u64 sys_act" where
  "UInt64ToDouble sf x = fp_call (\<lambda>r. ui64_to_f64 sf r x)"
definition Int32ToFloat :: "Softfloat \<Rightarrow> i32 \<Rightarrow> u32 sys_act" where
  "Int32ToFloat sf x = fp_call (\<lambda>r. i32_to_f32 sf r x)"
definition Int64ToFloat :: "Softfloat \<Rightarrow> i64 \<Rightarrow> u32 sys_act" where
  "Int64ToFloat sf x = fp_call (\<lambda>r. i64_to_f32 sf r x)"
definition UInt32ToFloat :: "Softfloat \<Rightarrow> u32 \<Rightarrow> u32 sys_act" where
  "UInt32ToFloat sf x = fp_call (\<lambda>r. ui32_to_f32 sf r x)"
definition UInt64ToFloat :: "Softfloat \<Rightarrow> u64 \<Rightarrow> u32 sys_act" where
  "UInt64ToFloat sf x = fp_call (\<lambda>r. ui64_to_f32 sf r x)"
definition DoubleToFloat :: "Softfloat \<Rightarrow> u64 \<Rightarrow> u32 sys_act" where
  "DoubleToFloat sf x = fp_call (\<lambda>r. f64_to_f32 sf r x)"
definition FloatToDouble :: "Softfloat \<Rightarrow> u32 \<Rightarrow> u64 sys_act" where
  "FloatToDouble sf x = fp_call (\<lambda>r. f32_to_f64 sf r x)"

section \<open>Classification, flags and rounding mode\<close>

definition ConvertToRvFpClassImpl :: "fp_format \<Rightarrow> 'a::len word \<Rightarrow> u32" where
  "ConvertToRvFpClassImpl w x =
     (if GetSign w x = 1 \<and> IsInf w x then push_bit 0 1
      else if GetSign w x = 1 \<and> IsNormal w x then push_bit 1 1
      else if GetSign w x = 1 \<and> IsSubNormal w x then push_bit 2 1
      else if GetSign w x = 1 \<and> IsZero w x then push_bit 3 1
      else if GetSign w x = 0 \<and> IsZero w x then push_bit 4 1
      else if GetSign w x = 0 \<and> IsSubNormal w x then push_bit 5 1
      else if GetSign w x = 0 \<and> IsNormal w x then push_bit 6 1
      else if GetSign w x = 0 \<and> IsInf w x then push_bit 7 1
      else if IsSignalingNan w x then push_bit 8 1
      else push_bit 9 1)"

definition ConvertToRvFpClass32 :: "u32 \<Rightarrow> u32" where
  "ConvertToRvFpClass32 x = ConvertToRvFpClassImpl Fp32 x"

definition ConvertToRvFpClass64 :: "u64 \<Rightarrow> u32" where
  "ConvertToRvFpClass64 x = ConvertToRvFpClassImpl Fp64 x"

definition GetRvExceptionFlags :: "System \<Rightarrow> i32" where
  "GetRvExceptionFlags s = ucast (softfloat_exceptionFlags s)"

definition SetRvExceptionFlags :: "i32 \<Rightarrow> System \<Rightarrow> System" where
  "SetRvExceptionFlags rvFlags s = s\<lparr>softfloat_exceptionFlags := ucast rvFlags\<rparr>"

definition GetRvRoundMode :: "System \<Rightarrow> i32" where
  "GetRvRoundMode s = ucast (softfloat_roundingMode s)"

definition SetRvRoundMode :: "i32 \<Rightarrow> System \<Rightarrow> System" where
  "SetRvRoundMode mode s = s\<lparr>softfloat_roundingMode := ucast mode\<rparr>"

text \<open>
  \<^verbatim>\<open>src/librafi_fp/ScopedFpRound.cpp\<close>: the constructor stores the host's rounding mode and sets
  another, the destructor restores it. An unknown mode ends the process. The mode of the
  floating-point library is another variable, which this class does not touch.
\<close>

definition ConvertToHostRoundingMode :: "i32 \<Rightarrow> host_round result" where
  "ConvertToHostRoundingMode rvRound =
     (if rvRound = 0 then Inr FE_TONEAREST
      else if rvRound = 1 then Inr FE_TOWARDZERO
      else if rvRound = 2 then Inr FE_DOWNWARD
      else if rvRound = 3 then Inr FE_UPWARD
      else if rvRound = 4 then Inr FE_TONEAREST
      else Inl ProcessExit)"

definition ScopedFpRound :: "i32 \<Rightarrow> 'a sys_act \<Rightarrow> 'a sys_act" where
  "ScopedFpRound rvRound body =
     bindM (getM host_rounding) (\<lambda>originalHostRound.
     bindM (liftM (ConvertToHostRoundingMode rvRound)) (\<lambda>hostRound.
     bindM (modifyM (\<lambda>s. s\<lparr>host_rounding := hostRound\<rparr>)) (\<lambda>_.
     bindM body (\<lambda>x.
     bindM (modifyM (\<lambda>s. s\<lparr>host_rounding := originalHostRound\<rparr>)) (\<lambda>_.
     returnM x)))))"

end
