(* ===== verification/Rafi_Exec_Base.thy ===== *)
theory Rafi_Exec_Base
  imports Rafi_MemoryAccess Rafi_Fp "HOL-Library.Signed_Division"
begin

text \<open>
  What the handlers of \<^verbatim>\<open>src/rafi-emu/cpu/Executor.cpp\<close> share: the \<open>switch\<close> on the operation,
  the access to the operand variant, to the registers and the reservation, the C++ shifts and
  divisions, and the small routines at the end of the file.
\<close>

section \<open>Control\<close>

text \<open>
  A \<open>switch\<close>: the first group of labels that holds the value, or the default.
\<close>

primrec switch :: "'k \<Rightarrow> ('k list \<times> 'a) list \<Rightarrow> 'a \<Rightarrow> 'a" where
  "switch k [] d = d"
| "switch k (c # cs) d = (if k \<in> set (fst c) then snd c else switch k cs d)"

lemma preserves_switch [preserves_intros]:
  "preserves I d \<Longrightarrow> preserves I (switch k [] d)"
  "preserves I m \<Longrightarrow> preserves I (switch k cs d) \<Longrightarrow> preserves I (switch k ((ks, m) # cs) d)"
  by simp_all

text \<open>\<open>std::get\<close> on the operand; another alternative throws \<open>std::bad_variant_access\<close>.\<close>

definition as_R :: "Op \<Rightarrow> (i32 \<Rightarrow> i32 \<Rightarrow> i32 \<Rightarrow> i32 \<Rightarrow> i32 \<Rightarrow> ('s, 'a) act) \<Rightarrow> ('s, 'a) act" where
  "as_R op f = (case op_operand op of OperandR rd rs1 rs2 funct3 funct7 \<Rightarrow> f rd rs1 rs2 funct3 funct7
     | _ \<Rightarrow> failM BadVariant)"

definition as_R4 ::
  "Op \<Rightarrow> (i32 \<Rightarrow> i32 \<Rightarrow> i32 \<Rightarrow> i32 \<Rightarrow> i32 \<Rightarrow> i32 \<Rightarrow> ('s, 'a) act) \<Rightarrow> ('s, 'a) act" where
  "as_R4 op f = (case op_operand op of
       OperandR4 rd rs1 rs2 rs3 funct3 funct2 \<Rightarrow> f rd rs1 rs2 rs3 funct3 funct2
     | _ \<Rightarrow> failM BadVariant)"

definition as_I :: "Op \<Rightarrow> (i64 \<Rightarrow> i32 \<Rightarrow> i32 \<Rightarrow> ('s, 'a) act) \<Rightarrow> ('s, 'a) act" where
  "as_I op f = (case op_operand op of OperandI imm rd rs1 funct3 \<Rightarrow> f imm rd rs1
     | _ \<Rightarrow> failM BadVariant)"

definition as_S :: "Op \<Rightarrow> (i64 \<Rightarrow> i32 \<Rightarrow> i32 \<Rightarrow> ('s, 'a) act) \<Rightarrow> ('s, 'a) act" where
  "as_S op f = (case op_operand op of OperandS imm rs1 rs2 funct3 \<Rightarrow> f imm rs1 rs2
     | _ \<Rightarrow> failM BadVariant)"

definition as_B :: "Op \<Rightarrow> (i64 \<Rightarrow> i32 \<Rightarrow> i32 \<Rightarrow> ('s, 'a) act) \<Rightarrow> ('s, 'a) act" where
  "as_B op f = (case op_operand op of OperandB imm rs1 rs2 funct3 \<Rightarrow> f imm rs1 rs2
     | _ \<Rightarrow> failM BadVariant)"

definition as_U :: "Op \<Rightarrow> (i64 \<Rightarrow> i32 \<Rightarrow> ('s, 'a) act) \<Rightarrow> ('s, 'a) act" where
  "as_U op f = (case op_operand op of OperandU imm rd \<Rightarrow> f imm rd | _ \<Rightarrow> failM BadVariant)"

definition as_J :: "Op \<Rightarrow> (i64 \<Rightarrow> i32 \<Rightarrow> ('s, 'a) act) \<Rightarrow> ('s, 'a) act" where
  "as_J op f = (case op_operand op of OperandJ imm rd \<Rightarrow> f imm rd | _ \<Rightarrow> failM BadVariant)"

definition as_ShiftImm :: "Op \<Rightarrow> (i32 \<Rightarrow> i32 \<Rightarrow> i32 \<Rightarrow> ('s, 'a) act) \<Rightarrow> ('s, 'a) act" where
  "as_ShiftImm op f = (case op_operand op of OperandShiftImm rd rs1 shamt \<Rightarrow> f rd rs1 shamt
     | _ \<Rightarrow> failM BadVariant)"

definition as_Csr :: "Op \<Rightarrow> (i32 \<Rightarrow> i32 \<Rightarrow> csr_addr_t \<Rightarrow> ('s, 'a) act) \<Rightarrow> ('s, 'a) act" where
  "as_Csr op f = (case op_operand op of OperandCsr rd rs1 csr \<Rightarrow> f rd rs1 csr
     | _ \<Rightarrow> failM BadVariant)"

definition as_CsrImm :: "Op \<Rightarrow> (i32 \<Rightarrow> i32 \<Rightarrow> csr_addr_t \<Rightarrow> ('s, 'a) act) \<Rightarrow> ('s, 'a) act" where
  "as_CsrImm op f = (case op_operand op of OperandCsrImm zimm rd csr \<Rightarrow> f zimm rd csr
     | _ \<Rightarrow> failM BadVariant)"

definition as_CR :: "Op \<Rightarrow> (i32 \<Rightarrow> i32 \<Rightarrow> i32 \<Rightarrow> ('s, 'a) act) \<Rightarrow> ('s, 'a) act" where
  "as_CR op f = (case op_operand op of OperandCR rd rs1 rs2 \<Rightarrow> f rd rs1 rs2
     | _ \<Rightarrow> failM BadVariant)"

definition as_CI :: "Op \<Rightarrow> (i64 \<Rightarrow> i32 \<Rightarrow> i32 \<Rightarrow> ('s, 'a) act) \<Rightarrow> ('s, 'a) act" where
  "as_CI op f = (case op_operand op of OperandCI imm rd rs1 \<Rightarrow> f imm rd rs1
     | _ \<Rightarrow> failM BadVariant)"

definition as_CSS :: "Op \<Rightarrow> (i64 \<Rightarrow> i32 \<Rightarrow> ('s, 'a) act) \<Rightarrow> ('s, 'a) act" where
  "as_CSS op f = (case op_operand op of OperandCSS imm rs2 \<Rightarrow> f imm rs2 | _ \<Rightarrow> failM BadVariant)"

definition as_CIW :: "Op \<Rightarrow> (i64 \<Rightarrow> i32 \<Rightarrow> ('s, 'a) act) \<Rightarrow> ('s, 'a) act" where
  "as_CIW op f = (case op_operand op of OperandCIW imm rd \<Rightarrow> f imm rd | _ \<Rightarrow> failM BadVariant)"

definition as_CL :: "Op \<Rightarrow> (i64 \<Rightarrow> i32 \<Rightarrow> i32 \<Rightarrow> ('s, 'a) act) \<Rightarrow> ('s, 'a) act" where
  "as_CL op f = (case op_operand op of OperandCL imm rd rs1 \<Rightarrow> f imm rd rs1
     | _ \<Rightarrow> failM BadVariant)"

definition as_CS :: "Op \<Rightarrow> (i64 \<Rightarrow> i32 \<Rightarrow> i32 \<Rightarrow> ('s, 'a) act) \<Rightarrow> ('s, 'a) act" where
  "as_CS op f = (case op_operand op of OperandCS imm rs1 rs2 \<Rightarrow> f imm rs1 rs2
     | _ \<Rightarrow> failM BadVariant)"

definition as_CB :: "Op \<Rightarrow> (i64 \<Rightarrow> i32 \<Rightarrow> ('s, 'a) act) \<Rightarrow> ('s, 'a) act" where
  "as_CB op f = (case op_operand op of OperandCB imm rs1 \<Rightarrow> f imm rs1 | _ \<Rightarrow> failM BadVariant)"

definition as_CJ :: "Op \<Rightarrow> (i64 \<Rightarrow> ('s, 'a) act) \<Rightarrow> ('s, 'a) act" where
  "as_CJ op f = (case op_operand op of OperandCJ imm \<Rightarrow> f imm | _ \<Rightarrow> failM BadVariant)"

lemmas as_operand_defs = as_R_def as_R4_def as_I_def as_S_def as_B_def as_U_def as_J_def
  as_ShiftImm_def as_Csr_def as_CsrImm_def as_CR_def as_CI_def as_CSS_def as_CIW_def as_CL_def
  as_CS_def as_CB_def as_CJ_def

lemma preserves_as_operand [preserves_intros]:
  "(\<And>a b c d e. preserves I (f5 a b c d e)) \<Longrightarrow> preserves I (as_R op f5)"
  "(\<And>a b c d e g. preserves I (f6 a b c d e g)) \<Longrightarrow> preserves I (as_R4 op f6)"
  "(\<And>a b c. preserves I (fi a b c)) \<Longrightarrow> preserves I (as_I op fi)"
  "(\<And>a b c. preserves I (fi a b c)) \<Longrightarrow> preserves I (as_S op fi)"
  "(\<And>a b c. preserves I (fi a b c)) \<Longrightarrow> preserves I (as_B op fi)"
  "(\<And>a b. preserves I (fu a b)) \<Longrightarrow> preserves I (as_U op fu)"
  "(\<And>a b. preserves I (fu a b)) \<Longrightarrow> preserves I (as_J op fu)"
  "(\<And>a b c. preserves I (fr a b c)) \<Longrightarrow> preserves I (as_ShiftImm op fr)"
  "(\<And>a b c. preserves I (fr a b c)) \<Longrightarrow> preserves I (as_Csr op fr)"
  "(\<And>a b c. preserves I (fr a b c)) \<Longrightarrow> preserves I (as_CsrImm op fr)"
  "(\<And>a b c. preserves I (fr a b c)) \<Longrightarrow> preserves I (as_CR op fr)"
  "(\<And>a b c. preserves I (fi a b c)) \<Longrightarrow> preserves I (as_CI op fi)"
  "(\<And>a b. preserves I (fu a b)) \<Longrightarrow> preserves I (as_CSS op fu)"
  "(\<And>a b. preserves I (fu a b)) \<Longrightarrow> preserves I (as_CIW op fu)"
  "(\<And>a b c. preserves I (fi a b c)) \<Longrightarrow> preserves I (as_CL op fi)"
  "(\<And>a b c. preserves I (fi a b c)) \<Longrightarrow> preserves I (as_CS op fi)"
  "(\<And>a b. preserves I (fu a b)) \<Longrightarrow> preserves I (as_CB op fu)"
  "(\<And>a. preserves I (fj a)) \<Longrightarrow> preserves I (as_CJ op fj)"
  by (simp_all add: as_operand_defs preserves_failM split: Operand.split)

section \<open>Registers and reservation\<close>

abbreviation x_ReadInt32 :: "i32 \<Rightarrow> i32 sys_act" where
  "x_ReadInt32 r \<equiv> on_IntRegFile (queryM (IntRegFile_ReadInt32 r))"
abbreviation x_ReadInt64 :: "i32 \<Rightarrow> i64 sys_act" where
  "x_ReadInt64 r \<equiv> on_IntRegFile (queryM (IntRegFile_ReadInt64 r))"
abbreviation x_ReadUInt32 :: "i32 \<Rightarrow> u32 sys_act" where
  "x_ReadUInt32 r \<equiv> on_IntRegFile (queryM (IntRegFile_ReadUInt32 r))"
abbreviation x_ReadUInt64 :: "i32 \<Rightarrow> u64 sys_act" where
  "x_ReadUInt64 r \<equiv> on_IntRegFile (queryM (IntRegFile_ReadUInt64 r))"
abbreviation x_WriteInt32 :: "i32 \<Rightarrow> i32 \<Rightarrow> unit sys_act" where
  "x_WriteInt32 r v \<equiv> on_IntRegFile (updateM (IntRegFile_WriteInt32 r v))"
abbreviation x_WriteInt64 :: "i32 \<Rightarrow> i64 \<Rightarrow> unit sys_act" where
  "x_WriteInt64 r v \<equiv> on_IntRegFile (updateM (IntRegFile_WriteInt64 r v))"
abbreviation x_WriteUInt32 :: "i32 \<Rightarrow> u32 \<Rightarrow> unit sys_act" where
  "x_WriteUInt32 r v \<equiv> on_IntRegFile (updateM (IntRegFile_WriteUInt32 r v))"
abbreviation x_WriteUInt64 :: "i32 \<Rightarrow> u64 \<Rightarrow> unit sys_act" where
  "x_WriteUInt64 r v \<equiv> on_IntRegFile (updateM (IntRegFile_WriteUInt64 r v))"
abbreviation f_ReadUInt32 :: "i32 \<Rightarrow> u32 sys_act" where
  "f_ReadUInt32 r \<equiv> on_FpRegFile (queryM (FpRegFile_ReadUInt32 r))"
abbreviation f_ReadUInt64 :: "i32 \<Rightarrow> u64 sys_act" where
  "f_ReadUInt64 r \<equiv> on_FpRegFile (queryM (FpRegFile_ReadUInt64 r))"
abbreviation f_WriteUInt32 :: "i32 \<Rightarrow> u32 \<Rightarrow> unit sys_act" where
  "f_WriteUInt32 r v \<equiv> on_FpRegFile (updateM (FpRegFile_WriteUInt32 r v))"
abbreviation f_WriteUInt64 :: "i32 \<Rightarrow> u64 \<Rightarrow> unit sys_act" where
  "f_WriteUInt64 r v \<equiv> on_FpRegFile (updateM (FpRegFile_WriteUInt64 r v))"
abbreviation Cancel :: "unit sys_act" where
  "Cancel \<equiv> on_AtomicManager (modifyM AtomicManager_Cancel)"
abbreviation Reserve :: "vaddr_t \<Rightarrow> unit sys_act" where
  "Reserve address \<equiv> on_AtomicManager (modifyM (AtomicManager_Reserve address))"
abbreviation SetProgramCounter :: "vaddr_t \<Rightarrow> unit sys_act" where
  "SetProgramCounter pc \<equiv> on_Csr (modifyM (Csr_SetProgramCounter pc))"

text \<open>\<open>Executor::Error\<close> prints the operation and exits.\<close>

definition Executor_Error :: "'a result" where "Executor_Error = Inl ProcessExit"

definition ReadStackPointer32 :: "u32 sys_act" where "ReadStackPointer32 = x_ReadUInt32 2"
definition ReadStackPointer64 :: "u64 sys_act" where "ReadStackPointer64 = x_ReadUInt64 2"
definition WriteLinkRegister32 :: "u32 \<Rightarrow> unit sys_act" where
  "WriteLinkRegister32 value = x_WriteUInt32 1 value"
definition WriteLinkRegister64 :: "u64 \<Rightarrow> unit sys_act" where
  "WriteLinkRegister64 value = x_WriteUInt64 1 value"

definition IsFpEnabled :: "bool sys_act" where
  "IsFpEnabled = bindM (on_Csr (queryM Csr_ReadStatus)) (\<lambda>status.
     returnM (GetMember xstatus_FS status \<noteq> 0))"

definition NotifyFpDirty :: "unit sys_act" where
  "NotifyFpDirty = bindM (on_Csr (queryM Csr_ReadStatus)) (\<lambda>status.
     on_Csr (modifyM (Csr_WriteStatus (SetMember xstatus_FS 3 status))))"

definition UpdateFpCsr :: "unit sys_act" where
  "UpdateFpCsr = bindM (on_Csr (getM Csr_ReadFpCsr)) (\<lambda>fpCsr.
     bindM (getM GetRvExceptionFlags) (\<lambda>flags.
     on_Csr (modifyM (Csr_WriteFpCsr (SetMember fcsr_AE flags fpCsr)))))"

section \<open>C++ arithmetic\<close>

text \<open>
  Shifts, with the amount as an integer; an amount outside the width of the (promoted) left
  operand is undefined. A left shift of a negative number wraps, a right shift of a signed
  number is arithmetic.
\<close>

definition shl :: "'a::len word \<Rightarrow> int \<Rightarrow> 'a word result" where
  "shl x n = (if 0 \<le> n \<and> n < int LENGTH('a) then Inr (push_bit (nat n) x) else Inl Undefined)"

definition shr :: "'a::len word \<Rightarrow> int \<Rightarrow> 'a word result" where
  "shr x n = (if 0 \<le> n \<and> n < int LENGTH('a) then Inr (drop_bit (nat n) x) else Inl Undefined)"

definition sar :: "'a::len word \<Rightarrow> int \<Rightarrow> 'a word result" where
  "sar x n =
     (if 0 \<le> n \<and> n < int LENGTH('a) then Inr (signed_drop_bit (nat n) x) else Inl Undefined)"

text \<open>Division and remainder truncate; by zero, or out of range, they are undefined.\<close>

definition sdiv_of :: "'a::len word \<Rightarrow> 'a word \<Rightarrow> 'a word result" where
  "sdiv_of x y =
     (if y = 0 \<or> (sint x = - (2 ^ (LENGTH('a) - 1)) \<and> sint y = - 1) then Inl Undefined
      else Inr (word_of_int (sint x sdiv sint y)))"

definition srem_of :: "'a::len word \<Rightarrow> 'a word \<Rightarrow> 'a word result" where
  "srem_of x y =
     (if y = 0 \<or> (sint x = - (2 ^ (LENGTH('a) - 1)) \<and> sint y = - 1) then Inl Undefined
      else Inr (word_of_int (sint x smod sint y)))"

definition udiv_of :: "'a::len word \<Rightarrow> 'a word \<Rightarrow> 'a word result" where
  "udiv_of x y = (if y = 0 then Inl Undefined else Inr (x div y))"

definition urem_of :: "'a::len word \<Rightarrow> 'a word \<Rightarrow> 'a word result" where
  "urem_of x y = (if y = 0 then Inl Undefined else Inr (x mod y))"

abbreviation of_bool_word :: "bool \<Rightarrow> 'a::len word" where
  "of_bool_word b \<equiv> (if b then 1 else 0)"

text \<open>\<open>std::max\<close> and \<open>std::min\<close>, signed and unsigned.\<close>

definition smax :: "'a::len word \<Rightarrow> 'a word \<Rightarrow> 'a word" where
  "smax x y = (if x <s y then y else x)"
definition smin :: "'a::len word \<Rightarrow> 'a word \<Rightarrow> 'a word" where
  "smin x y = (if y <s x then y else x)"
definition umax :: "'a::len word \<Rightarrow> 'a word \<Rightarrow> 'a word" where
  "umax x y = (if x < y then y else x)"
definition umin :: "'a::len word \<Rightarrow> 'a word \<Rightarrow> 'a word" where
  "umin x y = (if y < x then y else x)"

text \<open>
  The libraries the executor calls, as parameters: the floating-point library, and of the 128-bit
  integers of \<^verbatim>\<open>boost::multiprecision\<close> the multiplications of signed (\<open>s\<close>) and unsigned (\<open>u\<close>)
  numbers, the right shifts and the conversions to 64 bits. A number of the library is its value;
  the product of a signed and an unsigned number is taken to be signed.
\<close>

record Libraries =
  lib_softfloat :: Softfloat
  lib_mul_ss :: "int \<Rightarrow> int \<Rightarrow> int"
  lib_mul_su :: "int \<Rightarrow> int \<Rightarrow> int"
  lib_mul_uu :: "int \<Rightarrow> int \<Rightarrow> int"
  lib_shr_s :: "int \<Rightarrow> nat \<Rightarrow> int"
  lib_shr_u :: "int \<Rightarrow> nat \<Rightarrow> int"
  lib_to_int64 :: "int \<Rightarrow> i64"
  lib_to_uint64 :: "int \<Rightarrow> u64"

text \<open>A backward jump ends a reservation.\<close>

definition jump_to :: "bool \<Rightarrow> vaddr_t \<Rightarrow> i64 \<Rightarrow> unit sys_act" where
  "jump_to jump pc imm = whenM jump
     (bindM (SetProgramCounter (pc + imm)) (\<lambda>_. whenM (imm <s 0) Cancel))"

end
