(* ===== verification/Rafi_PreCheck.thy ===== *)
theory Rafi_PreCheck
  imports Rafi_Exec_Base
begin

text \<open>
  \<open>Executor::PreCheckTrap\<close> and \<open>PostCheckTrap\<close> of \<^verbatim>\<open>src/rafi-emu/cpu/Executor.cpp\<close> (lines 38 to
  700): the exceptions an operation raises before it runs (page faults of its accesses, access
  to a control and status register, privilege, disabled floating point) and after it.
\<close>

section \<open>Memory operations\<close>

definition PreCheckTrapRV32_Load :: "Op \<Rightarrow> vaddr_t \<Rightarrow> Trap option sys_act" where
  "PreCheckTrapRV32_Load op pc = as_I op (\<lambda>imm rd rs1.
     bindM (x_ReadUInt32 rs1) (\<lambda>src.
     MemoryAccessUnit_CheckTrap Load pc (ucast src + imm)))"

definition PreCheckTrapRV32_Store :: "Op \<Rightarrow> vaddr_t \<Rightarrow> Trap option sys_act" where
  "PreCheckTrapRV32_Store op pc = as_S op (\<lambda>imm rs1 rs2.
     bindM (x_ReadUInt32 rs1) (\<lambda>src.
     MemoryAccessUnit_CheckTrap Store pc (ucast src + imm)))"

definition PreCheckTrapRV32_LoadReserved :: "Op \<Rightarrow> vaddr_t \<Rightarrow> Trap option sys_act" where
  "PreCheckTrapRV32_LoadReserved op pc = as_R op (\<lambda>rd rs1 rs2 funct3 funct7.
     bindM (x_ReadUInt32 rs1) (\<lambda>src.
     MemoryAccessUnit_CheckTrap Load pc (ucast src)))"

definition PreCheckTrapRV32_StoreConditional :: "Op \<Rightarrow> vaddr_t \<Rightarrow> Trap option sys_act" where
  "PreCheckTrapRV32_StoreConditional op pc = as_R op (\<lambda>rd rs1 rs2 funct3 funct7.
     bindM (x_ReadUInt32 rs1) (\<lambda>src.
     MemoryAccessUnit_CheckTrap Store pc (ucast src)))"

definition PreCheckTrapRV32_Atomic :: "Op \<Rightarrow> vaddr_t \<Rightarrow> Trap option sys_act" where
  "PreCheckTrapRV32_Atomic op pc = as_R op (\<lambda>rd rs1 rs2 funct3 funct7.
     bindM (x_ReadUInt32 rs1) (\<lambda>src.
     let address = ucast src in
     return_if_trap (MemoryAccessUnit_CheckTrap Load pc address)
       (MemoryAccessUnit_CheckTrap Store pc address)))"

definition PreCheckTrapRV64_Load :: "Op \<Rightarrow> vaddr_t \<Rightarrow> Trap option sys_act" where
  "PreCheckTrapRV64_Load op pc = as_I op (\<lambda>imm rd rs1.
     bindM (x_ReadUInt64 rs1) (\<lambda>src.
     MemoryAccessUnit_CheckTrap Load pc (src + imm)))"

definition PreCheckTrapRV64_Store :: "Op \<Rightarrow> vaddr_t \<Rightarrow> Trap option sys_act" where
  "PreCheckTrapRV64_Store op pc = as_S op (\<lambda>imm rs1 rs2.
     bindM (x_ReadUInt64 rs1) (\<lambda>src.
     MemoryAccessUnit_CheckTrap Store pc (src + imm)))"

definition PreCheckTrapRV64_LoadReserved :: "Op \<Rightarrow> vaddr_t \<Rightarrow> Trap option sys_act" where
  "PreCheckTrapRV64_LoadReserved op pc = as_R op (\<lambda>rd rs1 rs2 funct3 funct7.
     bindM (x_ReadUInt64 rs1) (\<lambda>src.
     MemoryAccessUnit_CheckTrap Load pc src))"

definition PreCheckTrapRV64_StoreConditional :: "Op \<Rightarrow> vaddr_t \<Rightarrow> Trap option sys_act" where
  "PreCheckTrapRV64_StoreConditional op pc = as_R op (\<lambda>rd rs1 rs2 funct3 funct7.
     bindM (x_ReadUInt64 rs1) (\<lambda>src.
     MemoryAccessUnit_CheckTrap Store pc src))"

definition PreCheckTrapRV64_Atomic :: "Op \<Rightarrow> vaddr_t \<Rightarrow> Trap option sys_act" where
  "PreCheckTrapRV64_Atomic op pc = as_R op (\<lambda>rd rs1 rs2 funct3 funct7.
     bindM (x_ReadUInt64 rs1) (\<lambda>src.
     let address = src in
     return_if_trap (MemoryAccessUnit_CheckTrap Load pc address)
       (MemoryAccessUnit_CheckTrap Store pc address)))"

section \<open>Control and status registers, privilege\<close>

definition PreCheckTrap_Csr :: "Op \<Rightarrow> vaddr_t \<Rightarrow> u32 \<Rightarrow> Trap option sys_act" where
  "PreCheckTrap_Csr op pc insn = as_Csr op (\<lambda>rd rs1 csr.
     let write = (op_opCode op = OpI i_csrrs \<and> rs1 \<noteq> 0) \<or>
           (op_opCode op = OpI i_csrrc \<and> rs1 \<noteq> 0) \<or> op_opCode op = OpI i_csrrw in
     on_Csr (Csr_CheckTrap csr write pc insn))"

definition PreCheckTrap_CsrImm :: "Op \<Rightarrow> vaddr_t \<Rightarrow> u32 \<Rightarrow> Trap option sys_act" where
  "PreCheckTrap_CsrImm op pc insn = as_CsrImm op (\<lambda>zimm rd csr.
     let write = (op_opCode op = OpI i_csrrsi \<and> zimm \<noteq> 0) \<or>
           (op_opCode op = OpI i_csrrci \<and> zimm \<noteq> 0) \<or> op_opCode op = OpI i_csrrwi in
     on_Csr (Csr_CheckTrap csr write pc insn))"

definition PreCheckTrap_Wfi :: "vaddr_t \<Rightarrow> u32 \<Rightarrow> Trap option sys_act" where
  "PreCheckTrap_Wfi pc insn = 
    bindM (on_Csr (getM Csr_GetPrivilegeLevel)) (\<lambda>priv.
    bindM (on_Csr (queryM Csr_ReadStatus)) (\<lambda>status.
    if priv = User \<or> (priv = Supervisor \<and> GetMember xstatus_TW status \<noteq> 0)
    then returnM (Some (MakeIllegalInstructionException pc insn))
    else returnM None))"

definition PreCheckTrap_Fence :: "vaddr_t \<Rightarrow> u32 \<Rightarrow> Trap option sys_act" where
  "PreCheckTrap_Fence pc insn = 
    bindM (on_Csr (getM Csr_GetPrivilegeLevel)) (\<lambda>priv.
    bindM (on_Csr (queryM Csr_ReadStatus)) (\<lambda>status.
    if priv = User \<or> (priv = Supervisor \<and> GetMember xstatus_TVM status \<noteq> 0)
    then returnM (Some (MakeIllegalInstructionException pc insn))
    else returnM None))"

definition PreCheckTrap_Priv :: "Op \<Rightarrow> vaddr_t \<Rightarrow> u32 \<Rightarrow> Trap option sys_act" where
  "PreCheckTrap_Priv op pc insn = 
    bindM (on_Csr (getM Csr_GetPrivilegeLevel)) (\<lambda>priv.
    bindM (on_Csr (queryM Csr_ReadStatus)) (\<lambda>status.
    if op_opCode op = OpI i_mret \<and> (priv = User \<or> priv = Supervisor)
    then returnM (Some (MakeIllegalInstructionException pc insn))
    else if op_opCode op = OpI i_sret \<and>
      (priv = User \<or> (priv = Supervisor \<and> GetMember xstatus_TSR status \<noteq> 0))
    then returnM (Some (MakeIllegalInstructionException pc insn))
    else returnM None))"

section \<open>Compressed operations\<close>

definition PreCheckTrapRV32C_FLD :: "Op \<Rightarrow> vaddr_t \<Rightarrow> Trap option sys_act" where
  "PreCheckTrapRV32C_FLD op pc = as_CL op (\<lambda>imm rd rs1.
     bindM (x_ReadUInt32 rs1) (\<lambda>src.
     MemoryAccessUnit_CheckTrap Load pc (ucast src + imm)))"

definition PreCheckTrapRV32C_FLDSP :: "Op \<Rightarrow> vaddr_t \<Rightarrow> Trap option sys_act" where
  "PreCheckTrapRV32C_FLDSP op pc = as_CI op (\<lambda>imm rd rs1.
     bindM ReadStackPointer32 (\<lambda>src.
     MemoryAccessUnit_CheckTrap Load pc (ucast src + imm)))"

definition PreCheckTrapRV32C_FLW :: "Op \<Rightarrow> vaddr_t \<Rightarrow> Trap option sys_act" where
  "PreCheckTrapRV32C_FLW op pc = as_CL op (\<lambda>imm rd rs1.
     bindM (x_ReadUInt32 rs1) (\<lambda>src.
     MemoryAccessUnit_CheckTrap Load pc (ucast src + imm)))"

definition PreCheckTrapRV32C_FLWSP :: "Op \<Rightarrow> vaddr_t \<Rightarrow> Trap option sys_act" where
  "PreCheckTrapRV32C_FLWSP op pc = as_CI op (\<lambda>imm rd rs1.
     bindM ReadStackPointer32 (\<lambda>src.
     MemoryAccessUnit_CheckTrap Load pc (ucast src + imm)))"

definition PreCheckTrapRV32C_FSD :: "Op \<Rightarrow> vaddr_t \<Rightarrow> Trap option sys_act" where
  "PreCheckTrapRV32C_FSD op pc = as_CS op (\<lambda>imm rs1 rs2.
     bindM (x_ReadUInt32 rs1) (\<lambda>src.
     bindM (f_ReadUInt64 rs2) (\<lambda>value.
     MemoryAccessUnit_CheckTrap Store pc (ucast src + imm))))"

definition PreCheckTrapRV32C_FSDSP :: "Op \<Rightarrow> vaddr_t \<Rightarrow> Trap option sys_act" where
  "PreCheckTrapRV32C_FSDSP op pc = as_CSS op (\<lambda>imm rs2.
     bindM ReadStackPointer32 (\<lambda>src.
     bindM (f_ReadUInt64 rs2) (\<lambda>value.
     MemoryAccessUnit_CheckTrap Store pc (ucast src + imm))))"

definition PreCheckTrapRV32C_FSW :: "Op \<Rightarrow> vaddr_t \<Rightarrow> Trap option sys_act" where
  "PreCheckTrapRV32C_FSW op pc = as_CS op (\<lambda>imm rs1 rs2.
     bindM (x_ReadUInt32 rs1) (\<lambda>src.
     bindM (f_ReadUInt32 rs2) (\<lambda>value.
     MemoryAccessUnit_CheckTrap Store pc (ucast src + imm))))"

definition PreCheckTrapRV32C_FSWSP :: "Op \<Rightarrow> vaddr_t \<Rightarrow> Trap option sys_act" where
  "PreCheckTrapRV32C_FSWSP op pc = as_CSS op (\<lambda>imm rs2.
     bindM ReadStackPointer32 (\<lambda>src.
     bindM (f_ReadUInt32 rs2) (\<lambda>value.
     MemoryAccessUnit_CheckTrap Store pc (ucast src + imm))))"

definition PreCheckTrapRV32C_LW :: "Op \<Rightarrow> vaddr_t \<Rightarrow> Trap option sys_act" where
  "PreCheckTrapRV32C_LW op pc = as_CL op (\<lambda>imm rd rs1.
     bindM (x_ReadUInt32 rs1) (\<lambda>src.
     MemoryAccessUnit_CheckTrap Load pc (ucast src + imm)))"

definition PreCheckTrapRV32C_LWSP :: "Op \<Rightarrow> vaddr_t \<Rightarrow> Trap option sys_act" where
  "PreCheckTrapRV32C_LWSP op pc = as_CI op (\<lambda>imm rd rs1.
     bindM ReadStackPointer32 (\<lambda>src.
     MemoryAccessUnit_CheckTrap Load pc (ucast src + imm)))"

definition PreCheckTrapRV32C_SW :: "Op \<Rightarrow> vaddr_t \<Rightarrow> Trap option sys_act" where
  "PreCheckTrapRV32C_SW op pc = as_CS op (\<lambda>imm rs1 rs2.
     bindM (x_ReadUInt32 rs1) (\<lambda>src.
     MemoryAccessUnit_CheckTrap Store pc (ucast src + imm)))"

definition PreCheckTrapRV32C_SWSP :: "Op \<Rightarrow> vaddr_t \<Rightarrow> Trap option sys_act" where
  "PreCheckTrapRV32C_SWSP op pc = as_CSS op (\<lambda>imm rs2.
     bindM ReadStackPointer32 (\<lambda>src.
     MemoryAccessUnit_CheckTrap Store pc (ucast src + imm)))"

definition PreCheckTrapRV64C_FLD :: "Op \<Rightarrow> vaddr_t \<Rightarrow> Trap option sys_act" where
  "PreCheckTrapRV64C_FLD op pc = as_CL op (\<lambda>imm rd rs1.
     bindM (x_ReadUInt64 rs1) (\<lambda>src.
     MemoryAccessUnit_CheckTrap Load pc (src + imm)))"

definition PreCheckTrapRV64C_FLDSP :: "Op \<Rightarrow> vaddr_t \<Rightarrow> Trap option sys_act" where
  "PreCheckTrapRV64C_FLDSP op pc = as_CI op (\<lambda>imm rd rs1.
     bindM ReadStackPointer64 (\<lambda>src.
     MemoryAccessUnit_CheckTrap Load pc (src + imm)))"

definition PreCheckTrapRV64C_FSD :: "Op \<Rightarrow> vaddr_t \<Rightarrow> Trap option sys_act" where
  "PreCheckTrapRV64C_FSD op pc = as_CS op (\<lambda>imm rs1 rs2.
     bindM (x_ReadUInt64 rs1) (\<lambda>src.
     MemoryAccessUnit_CheckTrap Store pc (src + imm)))"

definition PreCheckTrapRV64C_FSDSP :: "Op \<Rightarrow> vaddr_t \<Rightarrow> Trap option sys_act" where
  "PreCheckTrapRV64C_FSDSP op pc = as_CSS op (\<lambda>imm rs2.
     bindM ReadStackPointer64 (\<lambda>src.
     MemoryAccessUnit_CheckTrap Store pc (src + imm)))"

definition PreCheckTrapRV64C_LD :: "Op \<Rightarrow> vaddr_t \<Rightarrow> Trap option sys_act" where
  "PreCheckTrapRV64C_LD op pc = as_CL op (\<lambda>imm rd rs1.
     bindM (x_ReadUInt64 rs1) (\<lambda>src.
     MemoryAccessUnit_CheckTrap Load pc (src + imm)))"

definition PreCheckTrapRV64C_LDSP :: "Op \<Rightarrow> vaddr_t \<Rightarrow> Trap option sys_act" where
  "PreCheckTrapRV64C_LDSP op pc = as_CI op (\<lambda>imm rd rs1.
     bindM ReadStackPointer64 (\<lambda>src.
     MemoryAccessUnit_CheckTrap Load pc (src + imm)))"

definition PreCheckTrapRV64C_LW :: "Op \<Rightarrow> vaddr_t \<Rightarrow> Trap option sys_act" where
  "PreCheckTrapRV64C_LW op pc = as_CL op (\<lambda>imm rd rs1.
     bindM (x_ReadUInt64 rs1) (\<lambda>src.
     MemoryAccessUnit_CheckTrap Load pc (src + imm)))"

definition PreCheckTrapRV64C_LWSP :: "Op \<Rightarrow> vaddr_t \<Rightarrow> Trap option sys_act" where
  "PreCheckTrapRV64C_LWSP op pc = as_CI op (\<lambda>imm rd rs1.
     bindM ReadStackPointer64 (\<lambda>src.
     MemoryAccessUnit_CheckTrap Load pc (src + imm)))"

definition PreCheckTrapRV64C_SD :: "Op \<Rightarrow> vaddr_t \<Rightarrow> Trap option sys_act" where
  "PreCheckTrapRV64C_SD op pc = as_CS op (\<lambda>imm rs1 rs2.
     bindM (x_ReadUInt64 rs1) (\<lambda>src.
     MemoryAccessUnit_CheckTrap Store pc (src + imm)))"

definition PreCheckTrapRV64C_SDSP :: "Op \<Rightarrow> vaddr_t \<Rightarrow> Trap option sys_act" where
  "PreCheckTrapRV64C_SDSP op pc = as_CSS op (\<lambda>imm rs2.
     bindM ReadStackPointer64 (\<lambda>src.
     MemoryAccessUnit_CheckTrap Store pc (src + imm)))"

definition PreCheckTrapRV64C_SW :: "Op \<Rightarrow> vaddr_t \<Rightarrow> Trap option sys_act" where
  "PreCheckTrapRV64C_SW op pc = as_CS op (\<lambda>imm rs1 rs2.
     bindM (x_ReadUInt64 rs1) (\<lambda>src.
     MemoryAccessUnit_CheckTrap Store pc (src + imm)))"

definition PreCheckTrapRV64C_SWSP :: "Op \<Rightarrow> vaddr_t \<Rightarrow> Trap option sys_act" where
  "PreCheckTrapRV64C_SWSP op pc = as_CSS op (\<lambda>imm rs2.
     bindM ReadStackPointer64 (\<lambda>src.
     MemoryAccessUnit_CheckTrap Store pc (src + imm)))"

definition PreCheckTrapRV32C :: "Op \<Rightarrow> vaddr_t \<Rightarrow> Trap option sys_act" where
  "PreCheckTrapRV32C op pc = switch (op_opCode op)
      [([OpC i_c_fld], PreCheckTrapRV32C_FLD op pc),
       ([OpC i_c_fldsp], PreCheckTrapRV32C_FLDSP op pc),
       ([OpC i_c_flw], PreCheckTrapRV32C_FLW op pc),
       ([OpC i_c_flwsp], PreCheckTrapRV32C_FLWSP op pc),
       ([OpC i_c_fsd], PreCheckTrapRV32C_FSD op pc),
       ([OpC i_c_fsdsp], PreCheckTrapRV32C_FSDSP op pc),
       ([OpC i_c_fsw], PreCheckTrapRV32C_FSW op pc),
       ([OpC i_c_fswsp], PreCheckTrapRV32C_FSWSP op pc),
       ([OpC i_c_lw], PreCheckTrapRV32C_LW op pc),
       ([OpC i_c_lwsp], PreCheckTrapRV32C_LWSP op pc),
       ([OpC i_c_sw], PreCheckTrapRV32C_SW op pc),
       ([OpC i_c_swsp], PreCheckTrapRV32C_SWSP op pc)]
      (returnM None)"

definition PreCheckTrapRV64C :: "Op \<Rightarrow> vaddr_t \<Rightarrow> Trap option sys_act" where
  "PreCheckTrapRV64C op pc = switch (op_opCode op)
      [([OpC i_c_fld], PreCheckTrapRV64C_FLD op pc),
       ([OpC i_c_fldsp], PreCheckTrapRV64C_FLDSP op pc),
       ([OpC i_c_fsd], PreCheckTrapRV64C_FSD op pc),
       ([OpC i_c_fsdsp], PreCheckTrapRV64C_FSDSP op pc),
       ([OpC i_c_ld], PreCheckTrapRV64C_LD op pc),
       ([OpC i_c_ldsp], PreCheckTrapRV64C_LDSP op pc),
       ([OpC i_c_lw], PreCheckTrapRV64C_LW op pc),
       ([OpC i_c_lwsp], PreCheckTrapRV64C_LWSP op pc),
       ([OpC i_c_sd], PreCheckTrapRV64C_SD op pc),
       ([OpC i_c_sdsp], PreCheckTrapRV64C_SDSP op pc),
       ([OpC i_c_sw], PreCheckTrapRV64C_SW op pc),
       ([OpC i_c_swsp], PreCheckTrapRV64C_SWSP op pc)]
      (returnM None)"

section \<open>Dispatch\<close>

text \<open>The three-way tests on the class of the operation.\<close>

definition by_class :: "Op \<Rightarrow> 'a sys_act \<Rightarrow> 'a sys_act \<Rightarrow> 'a sys_act" where
  "by_class op rv32 rv64 =
     (if IsRV32 (op_opClass op) then rv32 else if IsRV64 (op_opClass op) then rv64
      else failM ProcessExit)"

definition PreCheckTrap_opcode :: "Op \<Rightarrow> vaddr_t \<Rightarrow> u32 \<Rightarrow> Trap option sys_act" where
  "PreCheckTrap_opcode op pc insn = switch (op_opCode op)
     [([OpI i_lb, OpI i_lh, OpI i_lw, OpI i_lbu, OpI i_lhu, OpI i_lwu, OpI i_ld, OpF i_flw, OpD i_fld],
       by_class op (PreCheckTrapRV32_Load op pc) (PreCheckTrapRV64_Load op pc)),
      ([OpI i_sb, OpI i_sh, OpI i_sw, OpI i_sd, OpF i_fsw, OpD i_fsd],
       by_class op (PreCheckTrapRV32_Store op pc) (PreCheckTrapRV64_Store op pc)),
      ([OpI i_csrrw, OpI i_csrrs, OpI i_csrrc], PreCheckTrap_Csr op pc insn),
      ([OpI i_csrrwi, OpI i_csrrsi, OpI i_csrrci], PreCheckTrap_CsrImm op pc insn),
      ([OpI i_wfi], PreCheckTrap_Wfi pc insn),
      ([OpI i_sfence_vma], PreCheckTrap_Fence pc insn),
      ([OpI i_mret, OpI i_sret, OpI i_uret], PreCheckTrap_Priv op pc insn),
      ([OpA i_lr_d, OpA i_lr_w],
       by_class op (PreCheckTrapRV32_LoadReserved op pc) (PreCheckTrapRV64_LoadReserved op pc)),
      ([OpA i_sc_d, OpA i_sc_w],
       by_class op (PreCheckTrapRV32_StoreConditional op pc) (PreCheckTrapRV64_StoreConditional op pc)),
      ([OpA i_amoswap_d, OpA i_amoswap_w, OpA i_amoadd_d, OpA i_amoadd_w, OpA i_amoxor_d, OpA i_amoxor_w,
        OpA i_amoand_d, OpA i_amoand_w, OpA i_amoor_d, OpA i_amoor_w, OpA i_amomin_d, OpA i_amomin_w,
        OpA i_amomax_d, OpA i_amomax_w, OpA i_amominu_d, OpA i_amominu_w, OpA i_amomaxu_d, OpA i_amomaxu_w],
       by_class op (PreCheckTrapRV32_Atomic op pc) (PreCheckTrapRV64_Atomic op pc))]
     (returnM None)"

definition PreCheckTrap :: "Op \<Rightarrow> vaddr_t \<Rightarrow> u32 \<Rightarrow> Trap option sys_act" where
  "PreCheckTrap op pc insn = switch (op_opClass op)
     [([RV32C], PreCheckTrapRV32C op pc),
      ([RV64C], PreCheckTrapRV64C op pc),
      ([RV32F, RV32D, RV64F, RV64D],
       bindM IsFpEnabled (\<lambda>enabled.
       if \<not> enabled then returnM (Some (MakeIllegalInstructionException pc insn))
       else PreCheckTrap_opcode op pc insn))]
     (PreCheckTrap_opcode op pc insn)"

definition PostCheckTrapForEcall :: "vaddr_t \<Rightarrow> Trap option sys_act" where
  "PostCheckTrapForEcall pc =
     bindM (on_Csr (getM Csr_GetPrivilegeLevel)) (\<lambda>privilegeLevel. case privilegeLevel of
       Machine \<Rightarrow> returnM (Some (MakeEnvironmentCallFromMachineException pc))
     | Supervisor \<Rightarrow> returnM (Some (MakeEnvironmentCallFromSupervisorException pc))
     | User \<Rightarrow> returnM (Some (MakeEnvironmentCallFromUserException pc))
     | Reserved \<Rightarrow> failM EmuException)"

definition PostCheckTrap :: "Op \<Rightarrow> vaddr_t \<Rightarrow> Trap option sys_act" where
  "PostCheckTrap op pc = switch (op_opCode op)
     [([OpI i_ecall], PostCheckTrapForEcall pc),
      ([OpI i_ebreak], returnM (Some (MakeBreakpointException pc)))]
     (returnM None)"

end
