(* ===== verification/Rafi_Exec_RV32.thy ===== *)
theory Rafi_Exec_RV32
  imports Rafi_Exec_Base
begin

text \<open>
  The handlers of \<^verbatim>\<open>src/rafi-emu/cpu/Executor.cpp\<close> for the 32-bit operations: the base set, the
  multiplications and divisions, the atomic operations and the compressed ones. A signed and
  an unsigned read of one register give the same word; an \<open>int64_t\<close> immediate added to a 32-bit
  register makes a 64-bit address, which is not cut back to 32 bits.
\<close>

section \<open>RV32I\<close>

definition ProcessRV32I_Lui :: "Op \<Rightarrow> unit sys_act" where
  "ProcessRV32I_Lui op =
     as_U op (\<lambda>imm rd. x_WriteInt32 rd (ucast imm))"

definition ProcessRV32I_Auipc :: "Op \<Rightarrow> vaddr_t \<Rightarrow> unit sys_act" where
  "ProcessRV32I_Auipc op pc =
     as_U op (\<lambda>imm rd. x_WriteInt32 rd (ucast (pc + imm)))"

definition ProcessRV32I_Jal :: "Op \<Rightarrow> vaddr_t \<Rightarrow> unit sys_act" where
  "ProcessRV32I_Jal op pc =
     as_J op (\<lambda>imm rd.
     bindM (x_WriteInt32 rd (ucast (pc + 4))) (\<lambda>_.
     SetProgramCounter (pc + imm)))"

definition ProcessRV32I_Jalr :: "Op \<Rightarrow> vaddr_t \<Rightarrow> unit sys_act" where
  "ProcessRV32I_Jalr op pc =
     as_I op (\<lambda>imm rd rs1.
     bindM (x_ReadInt32 rs1) (\<lambda>src.
     let address = NOT 1 AND (scast src + imm) in
     bindM (x_WriteInt32 rd (ucast (pc + 4))) (\<lambda>_.
     SetProgramCounter address)))"

definition ProcessRV32I_Branch :: "Op \<Rightarrow> vaddr_t \<Rightarrow> unit sys_act" where
  "ProcessRV32I_Branch op pc =
     as_B op (\<lambda>imm rs1 rs2.
     bindM (x_ReadInt32 rs1) (\<lambda>src1.
     bindM (x_ReadInt32 rs2) (\<lambda>src2.
     bindM (x_ReadUInt32 rs1) (\<lambda>src1_u.
     bindM (x_ReadUInt32 rs2) (\<lambda>src2_u.
     bindM (liftM (switch (op_opCode op)
       [([OpI i_beq], Inr (src1 = src2)),
        ([OpI i_bne], Inr (src1 \<noteq> src2)),
        ([OpI i_blt], Inr (src1 <s src2)),
        ([OpI i_bge], Inr (src2 \<le>s src1)),
        ([OpI i_bltu], Inr (src1_u < src2_u)),
        ([OpI i_bgeu], Inr (src2_u \<le> src1_u))] Executor_Error)) (\<lambda>jump.
     jump_to jump pc imm))))))"

definition ProcessRV32I_Load :: "Op \<Rightarrow> unit sys_act" where
  "ProcessRV32I_Load op =
     bindM Cancel (\<lambda>_.
     as_I op (\<lambda>imm rd rs1.
     bindM (x_ReadUInt32 rs1) (\<lambda>src.
     let address = ucast src + imm in
     bindM (switch (op_opCode op)
       [([OpI i_lb], bindM (LoadUInt8 address) (\<lambda>v. returnM (scast v))),
        ([OpI i_lh], bindM (LoadUInt16 address) (\<lambda>v. returnM (scast v))),
        ([OpI i_lw], LoadUInt32 address),
        ([OpI i_lbu], bindM (LoadUInt8 address) (\<lambda>v. returnM (ucast v))),
        ([OpI i_lhu], bindM (LoadUInt16 address) (\<lambda>v. returnM (ucast v)))]
       (liftM Executor_Error)) (\<lambda>value.
     x_WriteUInt32 rd value))))"

definition ProcessRV32I_Store :: "Op \<Rightarrow> unit sys_act" where
  "ProcessRV32I_Store op =
     bindM Cancel (\<lambda>_.
     as_S op (\<lambda>imm rs1 rs2.
     bindM (x_ReadUInt32 rs1) (\<lambda>src.
     let address = ucast src + imm in
     bindM (x_ReadUInt32 rs2) (\<lambda>value.
     switch (op_opCode op)
       [([OpI i_sb], StoreUInt8 address (ucast value)),
        ([OpI i_sh], StoreUInt16 address (ucast value)),
        ([OpI i_sw], StoreUInt32 address value)]
       (liftM Executor_Error)))))"

definition ProcessRV32I_Alu :: "Op \<Rightarrow> unit sys_act" where
  "ProcessRV32I_Alu op =
     as_R op (\<lambda>rd rs1 rs2 funct3 funct7.
     bindM (x_ReadInt32 rs1) (\<lambda>src1.
     bindM (x_ReadInt32 rs2) (\<lambda>src2.
     bindM (x_ReadUInt32 rs1) (\<lambda>src1_u.
     bindM (x_ReadUInt32 rs2) (\<lambda>src2_u.
     bindM (liftM (switch (op_opCode op)
       [([OpI i_add], Inr (src1 + src2)),
        ([OpI i_sub], Inr (src1 - src2)),
        ([OpI i_slt], Inr (of_bool_word (src1 <s src2))),
        ([OpI i_sltu], Inr (of_bool_word (src1_u < src2_u))),
        ([OpI i_xor], Inr (src1 XOR src2)),
        ([OpI i_or], Inr (src1 OR src2)),
        ([OpI i_and], Inr (src1 AND src2))] Executor_Error)) (\<lambda>value.
     x_WriteInt32 rd value))))))"

definition ProcessRV32I_AluImm :: "Op \<Rightarrow> unit sys_act" where
  "ProcessRV32I_AluImm op =
     as_I op (\<lambda>operand_imm rd rs1.
     let imm = ucast operand_imm; imm_u = ucast operand_imm in
     bindM (x_ReadInt32 rs1) (\<lambda>src1.
     bindM (x_ReadUInt32 rs1) (\<lambda>src1_u.
     bindM (liftM (switch (op_opCode op)
       [([OpI i_addi], Inr (src1 + imm)),
        ([OpI i_slti], Inr (of_bool_word (src1 <s imm))),
        ([OpI i_sltiu], Inr (of_bool_word (src1_u < imm_u))),
        ([OpI i_xori], Inr (src1 XOR imm)),
        ([OpI i_ori], Inr (src1 OR imm)),
        ([OpI i_andi], Inr (src1 AND imm))] Executor_Error)) (\<lambda>value.
     x_WriteInt32 rd value))))"

text \<open>The amount is the whole register, without a mask.\<close>

definition ProcessRV32I_Shift :: "Op \<Rightarrow> unit sys_act" where
  "ProcessRV32I_Shift op =
     as_R op (\<lambda>rd rs1 rs2 funct3 funct7.
     bindM (x_ReadInt32 rs1) (\<lambda>src1.
     bindM (x_ReadInt32 rs2) (\<lambda>src2.
     bindM (x_ReadUInt32 rs1) (\<lambda>src1_u.
     bindM (liftM (switch (op_opCode op)
       [([OpI i_sll], shl src1 (sint src2)),
        ([OpI i_srl], shr src1_u (sint src2)),
        ([OpI i_sra], sar src1 (sint src2))] Executor_Error)) (\<lambda>value.
     x_WriteInt32 rd value)))))"

definition ProcessRV32I_ShiftImm :: "Op \<Rightarrow> unit sys_act" where
  "ProcessRV32I_ShiftImm op =
     as_ShiftImm op (\<lambda>rd rs1 shamt.
     bindM (x_ReadInt32 rs1) (\<lambda>src1.
     bindM (x_ReadUInt32 rs1) (\<lambda>src1_u.
     bindM (liftM (switch (op_opCode op)
       [([OpI i_slli], shl src1 (sint shamt)),
        ([OpI i_srli], shr src1_u (sint shamt)),
        ([OpI i_srai], sar src1 (sint shamt))] Executor_Error)) (\<lambda>value.
     x_WriteInt32 rd value))))"

definition ProcessRV32I_Priv :: "Op \<Rightarrow> unit sys_act" where
  "ProcessRV32I_Priv op =
     bindM Cancel (\<lambda>_.
     switch (op_opCode op)
       [([OpI i_ecall, OpI i_ebreak], returnM ()),
        ([OpI i_mret], on_TrapProcessor (ProcessTrapReturn Machine)),
        ([OpI i_sret], on_TrapProcessor (ProcessTrapReturn Supervisor)),
        ([OpI i_uret], on_TrapProcessor (ProcessTrapReturn User)),
        ([OpI i_wfi], returnM ())]
       (liftM Executor_Error))"

definition ProcessRV32I_Fence :: "unit sys_act" where "ProcessRV32I_Fence = Cancel"

text \<open>The writes of \<open>csrrs\<close> and \<open>csrrc\<close> happen for every source register, \<open>x0\<close> included.\<close>

definition ProcessRV32I_Csr :: "Op \<Rightarrow> unit sys_act" where
  "ProcessRV32I_Csr op =
     as_Csr op (\<lambda>rd rs1 csr.
     bindM (on_Csr (queryM (Csr_ReadUInt32 csr))) (\<lambda>srcCsr.
     bindM (x_ReadInt32 rs1) (\<lambda>srcIntReg.
     bindM (switch (op_opCode op)
       [([OpI i_csrrw], on_Csr (Csr_WriteUInt32 csr srcIntReg)),
        ([OpI i_csrrs], on_Csr (Csr_WriteUInt32 csr (srcCsr OR srcIntReg))),
        ([OpI i_csrrc], on_Csr (Csr_WriteUInt32 csr (srcCsr AND NOT srcIntReg)))]
       (liftM Executor_Error)) (\<lambda>_.
     x_WriteInt32 rd srcCsr))))"

definition ProcessRV32I_CsrImm :: "Op \<Rightarrow> unit sys_act" where
  "ProcessRV32I_CsrImm op =
     as_CsrImm op (\<lambda>zimm rd csr.
     bindM (on_Csr (queryM (Csr_ReadUInt32 csr))) (\<lambda>srcCsr.
     bindM (switch (op_opCode op)
       [([OpI i_csrrwi], on_Csr (Csr_WriteUInt32 csr zimm)),
        ([OpI i_csrrsi], on_Csr (Csr_WriteUInt32 csr (srcCsr OR zimm))),
        ([OpI i_csrrci], on_Csr (Csr_WriteUInt32 csr (srcCsr AND NOT zimm)))]
       (liftM Executor_Error)) (\<lambda>_.
     x_WriteInt32 rd srcCsr)))"

definition ProcessRV32I :: "Op \<Rightarrow> vaddr_t \<Rightarrow> unit sys_act" where
  "ProcessRV32I op pc =
     switch (op_opCode op)
       [([OpI i_lui],
         ProcessRV32I_Lui op),
        ([OpI i_auipc],
         ProcessRV32I_Auipc op pc),
        ([OpI i_jal],
         ProcessRV32I_Jal op pc),
        ([OpI i_jalr],
         ProcessRV32I_Jalr op pc),
        ([OpI i_beq, OpI i_bne, OpI i_blt, OpI i_bge, OpI i_bltu, OpI i_bgeu],
         ProcessRV32I_Branch op pc),
        ([OpI i_lb, OpI i_lh, OpI i_lw, OpI i_lbu, OpI i_lhu],
         ProcessRV32I_Load op),
        ([OpI i_sb, OpI i_sh, OpI i_sw],
         ProcessRV32I_Store op),
        ([OpI i_addi, OpI i_slti, OpI i_sltiu, OpI i_xori, OpI i_ori, OpI i_andi],
         ProcessRV32I_AluImm op),
        ([OpI i_sll, OpI i_srl, OpI i_sra],
         ProcessRV32I_Shift op),
        ([OpI i_slli, OpI i_srli, OpI i_srai],
         ProcessRV32I_ShiftImm op),
        ([OpI i_add, OpI i_sub, OpI i_slt, OpI i_sltu, OpI i_xor, OpI i_or, OpI i_and],
         ProcessRV32I_Alu op),
        ([OpI i_ecall, OpI i_ebreak, OpI i_mret, OpI i_sret, OpI i_uret, OpI i_wfi],
         ProcessRV32I_Priv op),
        ([OpI i_fence, OpI i_fence_i, OpI i_sfence_vma],
         ProcessRV32I_Fence),
        ([OpI i_csrrw, OpI i_csrrs, OpI i_csrrc],
         ProcessRV32I_Csr op),
        ([OpI i_csrrwi, OpI i_csrrsi, OpI i_csrrci],
         ProcessRV32I_CsrImm op)]
       (liftM Executor_Error)"

section \<open>RV32M\<close>

text \<open>The value of the \<open>switch\<close> on the operation.\<close>

definition rv32m_value :: "OpCode \<Rightarrow> i32 \<Rightarrow> i32 \<Rightarrow> i32 result" where
  "rv32m_value opCode src1 src2 =
    (let src1_u = src1; src2_u = src2 in
     switch opCode
       [([OpM i_mul], Inr (src1 * src2)),
        ([OpM i_mulh], Inr (ucast (signed_drop_bit 32 (scast src1 * scast src2 :: i64)))),
        ([OpM i_mulhsu], Inr (ucast (drop_bit 32 (scast src1 * ucast src2_u :: u64)))),
        ([OpM i_mulhu], Inr (ucast (drop_bit 32 (ucast src1_u * ucast src2_u :: u64)))),
        ([OpM i_div], if src1_u = 0x80000000 \<and> src2 = - 1 then Inr 0x80000000
           else if src2 = 0 then Inr (- 1) else sdiv_of src1 src2),
        ([OpM i_divu], if src2 = 0 then Inr (- 1) else udiv_of src1_u src2_u),
        ([OpM i_rem], if src1_u = 0x80000000 \<and> src2 = - 1 then Inr 0
           else if src2 = 0 then Inr src1 else srem_of src1 src2),
        ([OpM i_remu], if src2 = 0 then Inr src1 else urem_of src1_u src2_u)]
       Executor_Error)"

definition ProcessRV32M :: "Op \<Rightarrow> unit sys_act" where
  "ProcessRV32M op =
     bindM Cancel (\<lambda>_.
     as_R op (\<lambda>rd rs1 rs2 funct3 funct7.
     bindM (x_ReadInt32 rs1) (\<lambda>src1.
     bindM (x_ReadInt32 rs2) (\<lambda>src2.
     bindM (liftM (rv32m_value (op_opCode op) src1 src2)) (\<lambda>dst.
     x_WriteInt32 rd dst)))))"

section \<open>RV32A\<close>

definition ProcessRV32A_Atomic :: "Op \<Rightarrow> unit sys_act" where
  "ProcessRV32A_Atomic op =
     bindM Cancel (\<lambda>_.
     as_R op (\<lambda>rd rs1 rs2 funct3 funct7.
     bindM (x_ReadUInt32 rs1) (\<lambda>src1.
     bindM (x_ReadUInt32 rs2) (\<lambda>src2.
     let address = ucast src1 in
     bindM (LoadUInt32 address) (\<lambda>value.
     bindM (switch (op_opCode op)
       [([OpA i_amoswap_w], StoreUInt32 address (src2)),
        ([OpA i_amoadd_w], StoreUInt32 address (value + src2)),
        ([OpA i_amoxor_w], StoreUInt32 address (value XOR src2)),
        ([OpA i_amoand_w], StoreUInt32 address (value AND src2)),
        ([OpA i_amoor_w], StoreUInt32 address (value OR src2)),
        ([OpA i_amomax_w], StoreUInt32 address (smax value src2)),
        ([OpA i_amomin_w], StoreUInt32 address (smin value src2)),
        ([OpA i_amomaxu_w], StoreUInt32 address (umax value src2)),
        ([OpA i_amominu_w], StoreUInt32 address (umin value src2))]
       (liftM Executor_Error)) (\<lambda>_.
     x_WriteInt32 rd value))))))"

definition ProcessRV32A_Load :: "Op \<Rightarrow> unit sys_act" where
  "ProcessRV32A_Load op =
     as_R op (\<lambda>rd rs1 rs2 funct3 funct7.
     bindM (x_ReadUInt32 rs1) (\<lambda>src.
     let address = ucast src in
     bindM (Reserve address) (\<lambda>_.
     bindM (LoadUInt32 address) (\<lambda>value.
     x_WriteInt32 rd value))))"

definition ProcessRV32A_Store :: "Op \<Rightarrow> unit sys_act" where
  "ProcessRV32A_Store op =
     as_R op (\<lambda>rd rs1 rs2 funct3 funct7.
     bindM (x_ReadUInt32 rs1) (\<lambda>src.
     let address = ucast src in
     bindM (x_ReadUInt32 rs2) (\<lambda>value.
     bindM (on_AtomicManager (getM (\<lambda>a.
       AtomicManager_IsReserved a \<and> AtomicManager_GetReservedAddress a = address))) (\<lambda>reserved.
     bindM
       (if reserved then bindM (StoreUInt32 address value) (\<lambda>_. x_WriteUInt32 rd 0)
        else x_WriteUInt32 rd 1) (\<lambda>_.
     Cancel)))))"

definition ProcessRV32A :: "Op \<Rightarrow> unit sys_act" where
  "ProcessRV32A op =
     switch (op_opCode op)
       [([OpA i_lr_w], ProcessRV32A_Load op),
        ([OpA i_sc_w], ProcessRV32A_Store op),
        ([OpA i_amoswap_w, OpA i_amoadd_w, OpA i_amoxor_w, OpA i_amoand_w, OpA i_amoor_w,
          OpA i_amomax_w, OpA i_amomin_w, OpA i_amomaxu_w, OpA i_amominu_w],
         ProcessRV32A_Atomic op)]
       (liftM Executor_Error)"

section \<open>RV32C\<close>

definition ProcessRV32C_Alu :: "Op \<Rightarrow> unit sys_act" where
  "ProcessRV32C_Alu op =
     as_CR op (\<lambda>rd rs1 rs2.
     bindM (x_ReadInt32 rs1) (\<lambda>src1.
     bindM (x_ReadInt32 rs2) (\<lambda>src2.
     bindM (liftM (switch (op_opCode op)
       [([OpC i_c_mv], Inr (src2)),
        ([OpC i_c_add], Inr (src1 + src2)),
        ([OpC i_c_sub], Inr (src1 - src2)),
        ([OpC i_c_and], Inr (src1 AND src2)),
        ([OpC i_c_or], Inr (src1 OR src2)),
        ([OpC i_c_xor], Inr (src1 XOR src2))]
       Executor_Error)) (\<lambda>value.
     x_WriteInt32 rd value))))"

definition ProcessRV32C_AluImm :: "Op \<Rightarrow> unit sys_act" where
  "ProcessRV32C_AluImm op =
     as_CI op (\<lambda>imm rd rs1.
     bindM (x_ReadInt32 rs1) (\<lambda>src1.
     bindM (x_ReadUInt32 rs1) (\<lambda>src1_u.
     bindM (liftM (switch (op_opCode op)
       [([OpC i_c_li, OpC i_c_lui], Inr (ucast imm)),
        ([OpC i_c_addi], Inr (ucast (scast src1 + imm))),
        ([OpC i_c_andi], Inr (ucast (scast src1 AND imm))),
        ([OpC i_c_srli], shr src1_u (sint imm)),
        ([OpC i_c_srai], sar src1 (sint imm)),
        ([OpC i_c_slli], shl src1 (sint imm))]
       Executor_Error)) (\<lambda>value.
     x_WriteInt32 rd value))))"

definition ProcessRV32C_Branch :: "Op \<Rightarrow> vaddr_t \<Rightarrow> unit sys_act" where
  "ProcessRV32C_Branch op pc =
     as_CB op (\<lambda>imm rs1.
     bindM (x_ReadInt32 rs1) (\<lambda>src1.
     bindM (liftM (switch (op_opCode op)
       [([OpC i_c_beqz], Inr (src1 = 0)),
        ([OpC i_c_bnez], Inr (src1 \<noteq> 0))] Executor_Error)) (\<lambda>cond.
     jump_to cond pc imm)))"

definition ProcessRV32C_ADDI4SPN :: "Op \<Rightarrow> unit sys_act" where
  "ProcessRV32C_ADDI4SPN op =
     as_CIW op (\<lambda>imm rd.
     bindM ReadStackPointer32 (\<lambda>src.
     x_WriteUInt32 rd (ucast (ucast src + imm))))"

definition ProcessRV32C_ADDI16SP :: "Op \<Rightarrow> unit sys_act" where
  "ProcessRV32C_ADDI16SP op =
     as_CI op (\<lambda>imm rd rs1.
     bindM ReadStackPointer32 (\<lambda>src.
     x_WriteUInt32 rd (ucast (ucast src + imm))))"

definition ProcessRV32C_FLD :: "Op \<Rightarrow> unit sys_act" where
  "ProcessRV32C_FLD op =
     as_CL op (\<lambda>imm rd rs1.
     bindM (x_ReadUInt32 rs1) (\<lambda>src.
     let address = ucast src + imm in
     bindM (LoadUInt64 address) (\<lambda>value.
     bindM (f_WriteUInt64 rd value) (\<lambda>_.
     Cancel))))"

definition ProcessRV32C_FLDSP :: "Op \<Rightarrow> unit sys_act" where
  "ProcessRV32C_FLDSP op =
     as_CI op (\<lambda>imm rd rs1.
     bindM ReadStackPointer32 (\<lambda>src.
     let address = ucast src + imm in
     bindM (LoadUInt64 address) (\<lambda>value.
     bindM (f_WriteUInt64 rd value) (\<lambda>_.
     Cancel))))"

definition ProcessRV32C_FLW :: "Op \<Rightarrow> unit sys_act" where
  "ProcessRV32C_FLW op =
     as_CL op (\<lambda>imm rd rs1.
     bindM (x_ReadUInt32 rs1) (\<lambda>src.
     let address = ucast src + imm in
     bindM (LoadUInt32 address) (\<lambda>value.
     bindM (f_WriteUInt32 rd value) (\<lambda>_.
     Cancel))))"

definition ProcessRV32C_FLWSP :: "Op \<Rightarrow> unit sys_act" where
  "ProcessRV32C_FLWSP op =
     as_CI op (\<lambda>imm rd rs1.
     bindM ReadStackPointer32 (\<lambda>src.
     let address = ucast src + imm in
     bindM (LoadUInt32 address) (\<lambda>value.
     bindM (f_WriteUInt32 rd value) (\<lambda>_.
     Cancel))))"

definition ProcessRV32C_FSD :: "Op \<Rightarrow> unit sys_act" where
  "ProcessRV32C_FSD op =
     as_CS op (\<lambda>imm rs1 rs2.
     bindM (x_ReadUInt32 rs1) (\<lambda>src.
     let address = ucast src + imm in
     bindM (f_ReadUInt64 rs2) (\<lambda>value.
     bindM (StoreUInt64 address value) (\<lambda>_.
     Cancel))))"

definition ProcessRV32C_FSDSP :: "Op \<Rightarrow> unit sys_act" where
  "ProcessRV32C_FSDSP op =
     as_CSS op (\<lambda>imm rs2.
     bindM ReadStackPointer32 (\<lambda>src.
     let address = ucast src + imm in
     bindM (f_ReadUInt64 rs2) (\<lambda>value.
     bindM (StoreUInt64 address value) (\<lambda>_.
     Cancel))))"

definition ProcessRV32C_FSW :: "Op \<Rightarrow> unit sys_act" where
  "ProcessRV32C_FSW op =
     as_CS op (\<lambda>imm rs1 rs2.
     bindM (x_ReadUInt32 rs1) (\<lambda>src.
     let address = ucast src + imm in
     bindM (f_ReadUInt32 rs2) (\<lambda>value.
     bindM (StoreUInt32 address value) (\<lambda>_.
     Cancel))))"

definition ProcessRV32C_FSWSP :: "Op \<Rightarrow> unit sys_act" where
  "ProcessRV32C_FSWSP op =
     as_CSS op (\<lambda>imm rs2.
     bindM ReadStackPointer32 (\<lambda>src.
     let address = ucast src + imm in
     bindM (f_ReadUInt32 rs2) (\<lambda>value.
     bindM (StoreUInt32 address value) (\<lambda>_.
     Cancel))))"

definition ProcessRV32C_J :: "Op \<Rightarrow> vaddr_t \<Rightarrow> unit sys_act" where
  "ProcessRV32C_J op pc =
     as_CJ op (\<lambda>imm.
     bindM (SetProgramCounter (pc + imm)) (\<lambda>_.
     whenM (imm <s 0) Cancel))"

definition ProcessRV32C_JAL :: "Op \<Rightarrow> vaddr_t \<Rightarrow> unit sys_act" where
  "ProcessRV32C_JAL op pc =
     as_CJ op (\<lambda>imm.
     bindM (SetProgramCounter (pc + imm)) (\<lambda>_.
     bindM (WriteLinkRegister32 (ucast (pc + 2))) (\<lambda>_.
     whenM (imm <s 0) Cancel)))"

definition ProcessRV32C_JR :: "Op \<Rightarrow> vaddr_t \<Rightarrow> unit sys_act" where
  "ProcessRV32C_JR op pc =
     as_CR op (\<lambda>rd rs1 rs2.
     bindM (x_ReadUInt32 rs1) (\<lambda>src.
     let address = ucast (NOT 1 AND src) in
     bindM (SetProgramCounter address) (\<lambda>_.
     whenM (address < pc) Cancel)))"

definition ProcessRV32C_JALR :: "Op \<Rightarrow> vaddr_t \<Rightarrow> unit sys_act" where
  "ProcessRV32C_JALR op pc =
     as_CR op (\<lambda>rd rs1 rs2.
     bindM (x_ReadUInt32 rs1) (\<lambda>src.
     let address = ucast (NOT 1 AND src) in
     bindM (SetProgramCounter address) (\<lambda>_.
     bindM (WriteLinkRegister32 (ucast (pc + 2))) (\<lambda>_.
     whenM (address < pc) Cancel))))"

definition ProcessRV32C_LW :: "Op \<Rightarrow> unit sys_act" where
  "ProcessRV32C_LW op =
     as_CL op (\<lambda>imm rd rs1.
     bindM (x_ReadUInt32 rs1) (\<lambda>src.
     let address = ucast src + imm in
     bindM (LoadUInt32 address) (\<lambda>value.
     bindM (x_WriteUInt32 rd value) (\<lambda>_.
     Cancel))))"

definition ProcessRV32C_LWSP :: "Op \<Rightarrow> unit sys_act" where
  "ProcessRV32C_LWSP op =
     as_CI op (\<lambda>imm rd rs1.
     bindM ReadStackPointer32 (\<lambda>src.
     let address = ucast src + imm in
     bindM (LoadUInt32 address) (\<lambda>value.
     bindM (x_WriteUInt32 rd value) (\<lambda>_.
     Cancel))))"

definition ProcessRV32C_SW :: "Op \<Rightarrow> unit sys_act" where
  "ProcessRV32C_SW op =
     as_CS op (\<lambda>imm rs1 rs2.
     bindM (x_ReadUInt32 rs1) (\<lambda>src.
     let address = ucast src + imm in
     bindM (x_ReadUInt32 rs2) (\<lambda>value.
     bindM (StoreUInt32 address value) (\<lambda>_.
     Cancel))))"

definition ProcessRV32C_SWSP :: "Op \<Rightarrow> unit sys_act" where
  "ProcessRV32C_SWSP op =
     as_CSS op (\<lambda>imm rs2.
     bindM ReadStackPointer32 (\<lambda>src.
     let address = ucast src + imm in
     bindM (x_ReadUInt32 rs2) (\<lambda>value.
     bindM (StoreUInt32 address value) (\<lambda>_.
     Cancel))))"

definition ProcessRV32C :: "Op \<Rightarrow> vaddr_t \<Rightarrow> unit sys_act" where
  "ProcessRV32C op pc =
     bindM Cancel (\<lambda>_.
     switch (op_opCode op)
       [([OpC i_c_nop], returnM ()),
        ([OpC i_c_mv, OpC i_c_add, OpC i_c_sub, OpC i_c_and, OpC i_c_or, OpC i_c_xor], ProcessRV32C_Alu op),
        ([OpC i_c_li, OpC i_c_lui, OpC i_c_addi, OpC i_c_andi, OpC i_c_srli, OpC i_c_srai, OpC i_c_slli], ProcessRV32C_AluImm op),
        ([OpC i_c_beqz, OpC i_c_bnez], ProcessRV32C_Branch op pc),
        ([OpC i_c_addi4spn], ProcessRV32C_ADDI4SPN op),
        ([OpC i_c_addi16sp], ProcessRV32C_ADDI16SP op),
        ([OpC i_c_fld], ProcessRV32C_FLD op),
        ([OpC i_c_fldsp], ProcessRV32C_FLDSP op),
        ([OpC i_c_flw], ProcessRV32C_FLW op),
        ([OpC i_c_flwsp], ProcessRV32C_FLWSP op),
        ([OpC i_c_fsd], ProcessRV32C_FSD op),
        ([OpC i_c_fsdsp], ProcessRV32C_FSDSP op),
        ([OpC i_c_fsw], ProcessRV32C_FSW op),
        ([OpC i_c_fswsp], ProcessRV32C_FSWSP op),
        ([OpC i_c_j], ProcessRV32C_J op pc),
        ([OpC i_c_jal], ProcessRV32C_JAL op pc),
        ([OpC i_c_jr], ProcessRV32C_JR op pc),
        ([OpC i_c_jalr], ProcessRV32C_JALR op pc),
        ([OpC i_c_lw], ProcessRV32C_LW op),
        ([OpC i_c_lwsp], ProcessRV32C_LWSP op),
        ([OpC i_c_sw], ProcessRV32C_SW op),
        ([OpC i_c_swsp], ProcessRV32C_SWSP op)]
       (liftM Executor_Error))"

end
