(* ===== verification/Rafi_Exec_RV64.thy ===== *)
theory Rafi_Exec_RV64
  imports Rafi_Exec_Base
begin

text \<open>
  The handlers of \<^verbatim>\<open>src/rafi-emu/cpu/Executor.cpp\<close> for the 64-bit operations: the base set, the
  multiplications and divisions, the atomic operations and the compressed ones. The 32-bit
  variants work on the lower half of a register and sign-extend their result.
\<close>

section \<open>RV64I\<close>

definition ProcessRV64I_Lui :: "Op \<Rightarrow> unit sys_act" where
  "ProcessRV64I_Lui op =
     as_U op (\<lambda>imm rd. x_WriteInt64 rd imm)"

definition ProcessRV64I_Auipc :: "Op \<Rightarrow> vaddr_t \<Rightarrow> unit sys_act" where
  "ProcessRV64I_Auipc op pc =
     as_U op (\<lambda>imm rd. x_WriteInt64 rd (pc + imm))"

definition ProcessRV64I_Jal :: "Op \<Rightarrow> vaddr_t \<Rightarrow> unit sys_act" where
  "ProcessRV64I_Jal op pc =
     as_J op (\<lambda>imm rd.
     bindM (x_WriteInt64 rd (pc + 4)) (\<lambda>_.
     SetProgramCounter (pc + imm)))"

definition ProcessRV64I_Jalr :: "Op \<Rightarrow> vaddr_t \<Rightarrow> unit sys_act" where
  "ProcessRV64I_Jalr op pc =
     as_I op (\<lambda>imm rd rs1.
     bindM (x_ReadInt64 rs1) (\<lambda>src.
     let address = NOT 1 AND (src + imm) in
     bindM (x_WriteInt64 rd (pc + 4)) (\<lambda>_.
     SetProgramCounter address)))"

definition ProcessRV64I_Branch :: "Op \<Rightarrow> vaddr_t \<Rightarrow> unit sys_act" where
  "ProcessRV64I_Branch op pc =
     as_B op (\<lambda>imm rs1 rs2.
     bindM (x_ReadInt64 rs1) (\<lambda>src1.
     bindM (x_ReadInt64 rs2) (\<lambda>src2.
     bindM (x_ReadUInt64 rs1) (\<lambda>src1_u.
     bindM (x_ReadUInt64 rs2) (\<lambda>src2_u.
     bindM (liftM (switch (op_opCode op)
       [([OpI i_beq], Inr (src1 = src2)),
        ([OpI i_bne], Inr (src1 \<noteq> src2)),
        ([OpI i_blt], Inr (src1 <s src2)),
        ([OpI i_bge], Inr (src2 \<le>s src1)),
        ([OpI i_bltu], Inr (src1_u < src2_u)),
        ([OpI i_bgeu], Inr (src2_u \<le> src1_u))] Executor_Error)) (\<lambda>jump.
     jump_to jump pc imm))))))"

definition ProcessRV64I_Load :: "Op \<Rightarrow> unit sys_act" where
  "ProcessRV64I_Load op =
     as_I op (\<lambda>imm rd rs1.
     bindM (x_ReadUInt64 rs1) (\<lambda>src.
     let address = src + imm in
     bindM (switch (op_opCode op)
       [([OpI i_lb], bindM (LoadUInt8 address) (\<lambda>v. returnM (SignExtend 8 (ucast v)))),
        ([OpI i_lh], bindM (LoadUInt16 address) (\<lambda>v. returnM (SignExtend 16 (ucast v)))),
        ([OpI i_lw], bindM (LoadUInt32 address) (\<lambda>v. returnM (SignExtend 32 (ucast v)))),
        ([OpI i_ld], bindM (LoadUInt64 address) (\<lambda>v. returnM (SignExtend 64 v))),
        ([OpI i_lbu], bindM (LoadUInt8 address) (\<lambda>v. returnM (ZeroExtend 8 (ucast v)))),
        ([OpI i_lhu], bindM (LoadUInt16 address) (\<lambda>v. returnM (ZeroExtend 16 (ucast v)))),
        ([OpI i_lwu], bindM (LoadUInt32 address) (\<lambda>v. returnM (ZeroExtend 32 (ucast v))))]
       (liftM Executor_Error)) (\<lambda>value.
     x_WriteUInt64 rd value)))"

definition ProcessRV64I_Store :: "Op \<Rightarrow> unit sys_act" where
  "ProcessRV64I_Store op =
     as_S op (\<lambda>imm rs1 rs2.
     bindM (x_ReadUInt64 rs1) (\<lambda>src.
     let address = src + imm in
     bindM (x_ReadUInt64 rs2) (\<lambda>value.
     switch (op_opCode op)
       [([OpI i_sb], StoreUInt8 address (ucast value)),
        ([OpI i_sh], StoreUInt16 address (ucast value)),
        ([OpI i_sw], StoreUInt32 address (ucast value)),
        ([OpI i_sd], StoreUInt64 address value)]
       (liftM Executor_Error))))"

text \<open>The value of the \<open>switch\<close>, from the 64-bit sources and their lower halves.\<close>

definition rv64i_alu_value :: "OpCode \<Rightarrow> i64 \<Rightarrow> i64 \<Rightarrow> i64 result" where
  "rv64i_alu_value opCode src1 src2 =
    (let src1_u = src1; src2_u = src2; src1_s32 = ucast src1 :: i32; src2_s32 = ucast src2 :: i32 in
     switch opCode
       [([OpI i_add], Inr (src1 + src2)),
        ([OpI i_addw], Inr (SignExtend 32 (scast (src1_s32 + src2_s32)))),
        ([OpI i_sub], Inr (src1 - src2)),
        ([OpI i_subw], Inr (SignExtend 32 (scast (src1_s32 - src2_s32)))),
        ([OpI i_slt], Inr (of_bool_word (src1 <s src2))),
        ([OpI i_sltu], Inr (of_bool_word (src1_u < src2_u))),
        ([OpI i_xor], Inr (src1 XOR src2)),
        ([OpI i_or], Inr (src1 OR src2)),
        ([OpI i_and], Inr (src1 AND src2))] Executor_Error)"

definition ProcessRV64I_Alu :: "Op \<Rightarrow> unit sys_act" where
  "ProcessRV64I_Alu op =
     as_R op (\<lambda>rd rs1 rs2 funct3 funct7.
     bindM (x_ReadInt64 rs1) (\<lambda>src1.
     bindM (x_ReadInt64 rs2) (\<lambda>src2.
     bindM (liftM (rv64i_alu_value (op_opCode op) src1 src2)) (\<lambda>value.
     x_WriteInt64 rd value))))"

definition ProcessRV64I_AluImm :: "Op \<Rightarrow> unit sys_act" where
  "ProcessRV64I_AluImm op =
     as_I op (\<lambda>operand_imm rd rs1.
     let imm = operand_imm; imm_u = operand_imm; imm_s32 = ucast operand_imm :: i32 in
     bindM (x_ReadInt64 rs1) (\<lambda>src1.
     bindM (x_ReadUInt64 rs1) (\<lambda>src1_u.
     bindM (x_ReadInt32 rs1) (\<lambda>src1_s32.
     bindM (liftM (switch (op_opCode op)
       [([OpI i_addi], Inr (src1 + imm)),
        ([OpI i_addiw], Inr (SignExtend 32 (scast (src1_s32 + imm_s32)))),
        ([OpI i_slti], Inr (of_bool_word (src1 <s imm))),
        ([OpI i_sltiu], Inr (of_bool_word (src1_u < imm_u))),
        ([OpI i_xori], Inr (src1 XOR imm)),
        ([OpI i_ori], Inr (src1 OR imm)),
        ([OpI i_andi], Inr (src1 AND imm))] Executor_Error)) (\<lambda>value.
     x_WriteInt64 rd value)))))"

text \<open>One mask of six bits for the shifts of both widths.\<close>

definition rv64i_shift_value :: "OpCode \<Rightarrow> i64 \<Rightarrow> i32 \<Rightarrow> i64 result" where
  "rv64i_shift_value opCode src1 shamt =
    (let src1_u = src1; src1_s32 = ucast src1 :: i32; src1_u32 = ucast src1 :: u32 in
     switch opCode
       [([OpI i_sll], shl src1 (sint shamt)),
        ([OpI i_sllw], map_sum id (\<lambda>v. SignExtend 32 (scast v)) (shl src1_s32 (sint shamt))),
        ([OpI i_srl], shr src1_u (sint shamt)),
        ([OpI i_srlw], map_sum id (\<lambda>v. SignExtend 32 (ucast v)) (shr src1_u32 (sint shamt))),
        ([OpI i_sra], sar src1 (sint shamt)),
        ([OpI i_sraw], map_sum id (\<lambda>v. SignExtend 32 (scast v)) (sar src1_s32 (sint shamt)))]
       Executor_Error)"

definition ProcessRV64I_Shift :: "Op \<Rightarrow> unit sys_act" where
  "ProcessRV64I_Shift op =
     as_R op (\<lambda>rd rs1 rs2 funct3 funct7.
     bindM (x_ReadInt64 rs1) (\<lambda>src1.
     bindM (x_ReadInt64 rs2) (\<lambda>src2.
     let shamt = ucast (src2 AND 0x3f) :: i32 in
     bindM (liftM (rv64i_shift_value (op_opCode op) src1 shamt)) (\<lambda>value.
     x_WriteInt64 rd value))))"

definition ProcessRV64I_ShiftImm :: "Op \<Rightarrow> unit sys_act" where
  "ProcessRV64I_ShiftImm op =
     as_ShiftImm op (\<lambda>rd rs1 shamt.
     let shamt_s32 = sint shamt; shamt_u32 = uint shamt; shamt_s64 = sint (scast shamt :: i64);
         shamt_u64 = uint (scast shamt :: u64) in
     bindM (x_ReadInt64 rs1) (\<lambda>src1.
     bindM (x_ReadUInt64 rs1) (\<lambda>src1_u.
     bindM (x_ReadInt32 rs1) (\<lambda>src1_s32.
     bindM (x_ReadUInt32 rs1) (\<lambda>src1_u32.
     bindM (liftM (switch (op_opCode op)
       [([OpI i_slli], shl src1 shamt_s64),
        ([OpI i_slliw], map_sum id (\<lambda>v. SignExtend 32 (scast v)) (shl src1_s32 shamt_s32)),
        ([OpI i_srli], shr src1_u shamt_u64),
        ([OpI i_srliw], map_sum id (\<lambda>v. SignExtend 32 (ucast v)) (shr src1_u32 shamt_u32)),
        ([OpI i_srai], sar src1 shamt_s64),
        ([OpI i_sraiw], map_sum id (\<lambda>v. SignExtend 32 (scast v)) (sar src1_s32 shamt_s32))]
       Executor_Error)) (\<lambda>value.
     x_WriteInt64 rd value))))))"

definition ProcessRV64I_Priv :: "Op \<Rightarrow> unit sys_act" where
  "ProcessRV64I_Priv op =
     bindM Cancel (\<lambda>_.
     switch (op_opCode op)
       [([OpI i_ecall, OpI i_ebreak], returnM ()),
        ([OpI i_mret], on_TrapProcessor (ProcessTrapReturn Machine)),
        ([OpI i_sret], on_TrapProcessor (ProcessTrapReturn Supervisor)),
        ([OpI i_uret], on_TrapProcessor (ProcessTrapReturn User)),
        ([OpI i_wfi], returnM ())]
       (liftM Executor_Error))"

definition ProcessRV64I_Fence :: "unit sys_act" where "ProcessRV64I_Fence = Cancel"

definition ProcessRV64I_Csr :: "Op \<Rightarrow> unit sys_act" where
  "ProcessRV64I_Csr op =
     bindM Cancel (\<lambda>_.
     as_Csr op (\<lambda>rd rs1 csr.
     bindM (on_Csr (queryM (Csr_ReadUInt64 csr))) (\<lambda>srcCsr.
     bindM (x_ReadInt64 rs1) (\<lambda>srcIntReg.
     bindM (switch (op_opCode op)
       [([OpI i_csrrw], on_Csr (Csr_WriteUInt64 csr srcIntReg)),
        ([OpI i_csrrs], on_Csr (Csr_WriteUInt64 csr (srcCsr OR srcIntReg))),
        ([OpI i_csrrc], on_Csr (Csr_WriteUInt64 csr (srcCsr AND NOT srcIntReg)))]
       (liftM Executor_Error)) (\<lambda>_.
     x_WriteInt64 rd srcCsr)))))"

text \<open>The immediate is an \<open>int\<close>, complemented before it is widened.\<close>

definition ProcessRV64I_CsrImm :: "Op \<Rightarrow> unit sys_act" where
  "ProcessRV64I_CsrImm op =
     bindM Cancel (\<lambda>_.
     as_CsrImm op (\<lambda>zimm rd csr.
     bindM (on_Csr (queryM (Csr_ReadUInt64 csr))) (\<lambda>srcCsr.
     bindM (switch (op_opCode op)
       [([OpI i_csrrwi], on_Csr (Csr_WriteUInt64 csr (scast zimm))),
        ([OpI i_csrrsi], on_Csr (Csr_WriteUInt64 csr (srcCsr OR scast zimm))),
        ([OpI i_csrrci], on_Csr (Csr_WriteUInt64 csr (srcCsr AND scast (NOT zimm))))]
       (liftM Executor_Error)) (\<lambda>_.
     x_WriteInt64 rd srcCsr))))"

definition ProcessRV64I :: "Op \<Rightarrow> vaddr_t \<Rightarrow> unit sys_act" where
  "ProcessRV64I op pc =
     switch (op_opCode op)
       [([OpI i_lui],
         ProcessRV64I_Lui op),
        ([OpI i_auipc],
         ProcessRV64I_Auipc op pc),
        ([OpI i_jal],
         ProcessRV64I_Jal op pc),
        ([OpI i_jalr],
         ProcessRV64I_Jalr op pc),
        ([OpI i_beq, OpI i_bne, OpI i_blt, OpI i_bge, OpI i_bltu, OpI i_bgeu],
         ProcessRV64I_Branch op pc),
        ([OpI i_lb, OpI i_lh, OpI i_lw, OpI i_ld, OpI i_lbu, OpI i_lhu, OpI i_lwu],
         ProcessRV64I_Load op),
        ([OpI i_sb, OpI i_sh, OpI i_sw, OpI i_sd],
         ProcessRV64I_Store op),
        ([OpI i_addi, OpI i_addiw, OpI i_slti, OpI i_sltiu, OpI i_xori, OpI i_ori, OpI i_andi],
         ProcessRV64I_AluImm op),
        ([OpI i_sll, OpI i_sllw, OpI i_srl, OpI i_srlw, OpI i_sra, OpI i_sraw],
         ProcessRV64I_Shift op),
        ([OpI i_slli, OpI i_slliw, OpI i_srli, OpI i_srliw, OpI i_srai, OpI i_sraiw],
         ProcessRV64I_ShiftImm op),
        ([OpI i_add, OpI i_addw, OpI i_sub, OpI i_subw, OpI i_slt, OpI i_sltu, OpI i_xor, OpI i_or, OpI i_and],
         ProcessRV64I_Alu op),
        ([OpI i_ecall, OpI i_ebreak, OpI i_mret, OpI i_sret, OpI i_uret, OpI i_wfi],
         ProcessRV64I_Priv op),
        ([OpI i_fence, OpI i_fence_i, OpI i_sfence_vma],
         ProcessRV64I_Fence),
        ([OpI i_csrrw, OpI i_csrrs, OpI i_csrrc],
         ProcessRV64I_Csr op),
        ([OpI i_csrrwi, OpI i_csrrsi, OpI i_csrrci],
         ProcessRV64I_CsrImm op)]
       (liftM Executor_Error)"

section \<open>RV64M\<close>

text \<open>The divisor of \<open>divw\<close> is tested as a 64-bit number and used as a 32-bit one.\<close>

definition rv64m_value :: "Libraries \<Rightarrow> OpCode \<Rightarrow> i64 \<Rightarrow> i64 \<Rightarrow> i64 result" where
  "rv64m_value libs opCode src1 src2 =
    (let src1_u32 = ucast src1 :: u32; src2_u32 = ucast src2 :: u32;
         src1_s32 = ucast src1 :: i32; src2_s32 = ucast src2 :: i32;
         src1_s64 = src1; src2_s64 = src2; src1_u64 = src1; src2_u64 = src2;
         src1_s128 = sint src1_s64; src2_s128 = sint src2_s64;
         src1_u128 = uint src1_u64; src2_u128 = uint src2_u64 in
     switch opCode
       [([OpM i_mul], Inr (src1_s64 * src2_s64)),
        ([OpM i_mulh], Inr (lib_to_int64 libs (lib_shr_s libs (lib_mul_ss libs src1_s128 src2_s128) 64))),
        ([OpM i_mulhsu], Inr (lib_to_int64 libs (lib_shr_s libs (lib_mul_su libs src1_s128 src2_u128) 64))),
        ([OpM i_mulhu], Inr (lib_to_uint64 libs (lib_shr_u libs (lib_mul_uu libs src1_u128 src2_u128) 64))),
        ([OpM i_mulw], Inr (SignExtend 32 (scast (src1_s32 * src2_s32)))),
        ([OpM i_div], if src1_u64 = push_bit 63 1 \<and> src2_s64 = - 1 then Inr (push_bit 63 1)
           else if src2_s64 = 0 then Inr (- 1) else sdiv_of src1_s64 src2_s64),
        ([OpM i_divu], if src2_s64 = 0 then Inr (- 1) else udiv_of src1_u64 src2_u64),
        ([OpM i_divuw], if src2_u32 = 0 then Inr (- 1)
           else map_sum id (\<lambda>v. SignExtend 32 (ucast v)) (udiv_of src1_u32 src2_u32)),
        ([OpM i_divw],
           if src1_u32 = push_bit 31 1 \<and> src2_s32 = - 1 then Inr (SignExtend 32 (push_bit 31 1))
           else if src2_s64 = 0 then Inr (- 1)
           else map_sum id (\<lambda>v. SignExtend 32 (scast v)) (sdiv_of src1_s32 src2_s32)),
        ([OpM i_rem], if src1_u64 = push_bit 63 1 \<and> src2_s64 = - 1 then Inr 0
           else if src2_s64 = 0 then Inr src1_s64 else srem_of src1_s64 src2_s64),
        ([OpM i_remu], if src2_s64 = 0 then Inr src1_s64 else urem_of src1_u64 src2_u64),
        ([OpM i_remuw], if src2_u32 = 0 then Inr (SignExtend 32 (scast src1_s32))
           else map_sum id (\<lambda>v. SignExtend 32 (ucast v)) (urem_of src1_u32 src2_u32)),
        ([OpM i_remw], if src1_u32 = push_bit 31 1 \<and> src2_s32 = - 1 then Inr 0
           else if src2_s32 = 0 then Inr (SignExtend 32 (scast src1_s32))
           else map_sum id (\<lambda>v. SignExtend 32 (scast v)) (srem_of src1_s32 src2_s32))]
       Executor_Error)"

definition ProcessRV64M :: "Libraries \<Rightarrow> Op \<Rightarrow> unit sys_act" where
  "ProcessRV64M libs op =
     bindM Cancel (\<lambda>_.
     as_R op (\<lambda>rd rs1 rs2 funct3 funct7.
     bindM (x_ReadInt64 rs1) (\<lambda>src1.
     bindM (x_ReadInt64 rs2) (\<lambda>src2.
     bindM (liftM (rv64m_value libs (op_opCode op) src1 src2)) (\<lambda>value.
     x_WriteInt64 rd value)))))"

section \<open>RV64A\<close>

definition ProcessRV64A_Atomic32 :: "Op \<Rightarrow> unit sys_act" where
  "ProcessRV64A_Atomic32 op =
     bindM Cancel (\<lambda>_.
     as_R op (\<lambda>rd rs1 rs2 funct3 funct7.
     bindM (x_ReadUInt64 rs1) (\<lambda>address.
     bindM (x_ReadUInt32 rs2) (\<lambda>src2.
     bindM (LoadUInt32 address) (\<lambda>value.
     bindM (switch (op_opCode op)
       [([OpA i_amoswap_w], StoreUInt32 address (src2)),
        ([OpA i_amoadd_w], StoreUInt32 address (value + src2)),
        ([OpA i_amoxor_w], StoreUInt32 address (value XOR src2)),
        ([OpA i_amoand_w], StoreUInt32 address (value AND src2)),
        ([OpA i_amoor_w], StoreUInt32 address (value OR src2)),
        ([OpA i_amomax_w], StoreUInt32 address (smax value src2)),
        ([OpA i_amomin_w], StoreUInt32 address (smin value src2)),
        ([OpA i_amomaxu_w], StoreUInt32 address (umax value src2)),
        ([OpA i_amominu_w], StoreUInt32 address (umin value src2))]
       (liftM Executor_Error)) (\<lambda>_.
     x_WriteInt64 rd (SignExtend 32 (ucast value))))))))"

definition ProcessRV64A_Atomic64 :: "Op \<Rightarrow> unit sys_act" where
  "ProcessRV64A_Atomic64 op =
     bindM Cancel (\<lambda>_.
     as_R op (\<lambda>rd rs1 rs2 funct3 funct7.
     bindM (x_ReadUInt64 rs1) (\<lambda>address.
     bindM (x_ReadUInt64 rs2) (\<lambda>src2.
     bindM (LoadUInt64 address) (\<lambda>value.
     bindM (switch (op_opCode op)
       [([OpA i_amoswap_d], StoreUInt64 address (src2)),
        ([OpA i_amoadd_d], StoreUInt64 address (value + src2)),
        ([OpA i_amoxor_d], StoreUInt64 address (value XOR src2)),
        ([OpA i_amoand_d], StoreUInt64 address (value AND src2)),
        ([OpA i_amoor_d], StoreUInt64 address (value OR src2)),
        ([OpA i_amomax_d], StoreUInt64 address (smax value src2)),
        ([OpA i_amomin_d], StoreUInt64 address (smin value src2)),
        ([OpA i_amomaxu_d], StoreUInt64 address (umax value src2)),
        ([OpA i_amominu_d], StoreUInt64 address (umin value src2))]
       (liftM Executor_Error)) (\<lambda>_.
     x_WriteUInt64 rd value))))))"

definition ProcessRV64A_Load32 :: "Op \<Rightarrow> unit sys_act" where
  "ProcessRV64A_Load32 op =
     as_R op (\<lambda>rd rs1 rs2 funct3 funct7.
     bindM (x_ReadUInt64 rs1) (\<lambda>address.
     bindM (Reserve address) (\<lambda>_.
     bindM (LoadUInt32 address) (\<lambda>value.
     x_WriteInt64 rd (SignExtend 32 (ucast value))))))"

definition ProcessRV64A_Load64 :: "Op \<Rightarrow> unit sys_act" where
  "ProcessRV64A_Load64 op =
     bindM Cancel (\<lambda>_.
     as_R op (\<lambda>rd rs1 rs2 funct3 funct7.
     bindM (x_ReadUInt64 rs1) (\<lambda>address.
     bindM (Reserve address) (\<lambda>_.
     bindM (LoadUInt64 address) (\<lambda>value.
     x_WriteInt64 rd value)))))"

definition ProcessRV64A_Store32 :: "Op \<Rightarrow> unit sys_act" where
  "ProcessRV64A_Store32 op =
     as_R op (\<lambda>rd rs1 rs2 funct3 funct7.
     bindM (x_ReadUInt64 rs1) (\<lambda>address.
     bindM (x_ReadUInt32 rs2) (\<lambda>value.
     bindM (on_AtomicManager (getM (\<lambda>a.
       AtomicManager_IsReserved a \<and> AtomicManager_GetReservedAddress a = address))) (\<lambda>reserved.
     bindM
       (if reserved then bindM (StoreUInt32 address value) (\<lambda>_. x_WriteUInt64 rd 0)
        else x_WriteUInt64 rd 1) (\<lambda>_.
     Cancel)))))"

definition ProcessRV64A_Store64 :: "Op \<Rightarrow> unit sys_act" where
  "ProcessRV64A_Store64 op =
     as_R op (\<lambda>rd rs1 rs2 funct3 funct7.
     bindM (x_ReadUInt64 rs1) (\<lambda>address.
     bindM (x_ReadUInt64 rs2) (\<lambda>value.
     bindM (on_AtomicManager (getM (\<lambda>a.
       AtomicManager_IsReserved a \<and> AtomicManager_GetReservedAddress a = address))) (\<lambda>reserved.
     bindM
       (if reserved then bindM (StoreUInt64 address value) (\<lambda>_. x_WriteUInt64 rd 0)
        else x_WriteUInt64 rd 1) (\<lambda>_.
     Cancel)))))"

definition ProcessRV64A :: "Op \<Rightarrow> unit sys_act" where
  "ProcessRV64A op =
     switch (op_opCode op)
       [([OpA i_lr_w], ProcessRV64A_Load32 op),
        ([OpA i_lr_d], ProcessRV64A_Load64 op),
        ([OpA i_sc_w], ProcessRV64A_Store32 op),
        ([OpA i_sc_d], ProcessRV64A_Store64 op),
        ([OpA i_amoswap_w, OpA i_amoadd_w, OpA i_amoxor_w, OpA i_amoand_w, OpA i_amoor_w,
          OpA i_amomax_w, OpA i_amomin_w, OpA i_amomaxu_w, OpA i_amominu_w],
         ProcessRV64A_Atomic32 op),
        ([OpA i_amoswap_d, OpA i_amoadd_d, OpA i_amoxor_d, OpA i_amoand_d, OpA i_amoor_d,
          OpA i_amomax_d, OpA i_amomin_d, OpA i_amomaxu_d, OpA i_amominu_d],
         ProcessRV64A_Atomic64 op)]
       (liftM Executor_Error)"

section \<open>RV64C\<close>

definition ProcessRV64C_Alu :: "Op \<Rightarrow> unit sys_act" where
  "ProcessRV64C_Alu op =
     as_CR op (\<lambda>rd rs1 rs2.
     bindM (x_ReadInt64 rs1) (\<lambda>src1.
     bindM (x_ReadInt64 rs2) (\<lambda>src2.
     bindM (x_ReadInt32 rs1) (\<lambda>src1_s32.
     bindM (x_ReadInt32 rs2) (\<lambda>src2_s32.
     bindM (liftM (switch (op_opCode op)
       [([OpC i_c_mv], Inr (src2)),
        ([OpC i_c_add], Inr (src1 + src2)),
        ([OpC i_c_addw], Inr (SignExtend 32 (scast (src1_s32 + src2_s32)))),
        ([OpC i_c_sub], Inr (src1 - src2)),
        ([OpC i_c_subw], Inr (SignExtend 32 (scast (src1_s32 - src2_s32)))),
        ([OpC i_c_and], Inr (src1 AND src2)),
        ([OpC i_c_or], Inr (src1 OR src2)),
        ([OpC i_c_xor], Inr (src1 XOR src2))]
       Executor_Error)) (\<lambda>value.
     x_WriteInt64 rd value))))))"

definition ProcessRV64C_AluImm :: "Op \<Rightarrow> unit sys_act" where
  "ProcessRV64C_AluImm op =
     as_CI op (\<lambda>imm rd rs1.
     bindM (x_ReadInt64 rs1) (\<lambda>src1.
     bindM (x_ReadUInt64 rs1) (\<lambda>src1_u.
     bindM (x_ReadInt32 rs1) (\<lambda>src1_s32.
     bindM (liftM (switch (op_opCode op)
       [([OpC i_c_li, OpC i_c_lui], Inr imm),
        ([OpC i_c_addi], Inr (src1 + imm)),
        ([OpC i_c_addiw], Inr (SignExtend 32 (scast src1_s32 + imm))),
        ([OpC i_c_andi], Inr (src1 AND imm)),
        ([OpC i_c_srli], shr src1_u (sint imm)),
        ([OpC i_c_srai], sar src1 (sint imm)),
        ([OpC i_c_slli], shl src1 (sint imm))]
       Executor_Error)) (\<lambda>value.
     x_WriteInt64 rd value)))))"

definition ProcessRV64C_Branch :: "Op \<Rightarrow> vaddr_t \<Rightarrow> unit sys_act" where
  "ProcessRV64C_Branch op pc =
     as_CB op (\<lambda>imm rs1.
     bindM (x_ReadInt64 rs1) (\<lambda>src1.
     bindM (liftM (switch (op_opCode op)
       [([OpC i_c_beqz], Inr (src1 = 0)),
        ([OpC i_c_bnez], Inr (src1 \<noteq> 0))] Executor_Error)) (\<lambda>cond.
     jump_to cond pc imm)))"

definition ProcessRV64C_ADDI4SPN :: "Op \<Rightarrow> unit sys_act" where
  "ProcessRV64C_ADDI4SPN op =
     as_CIW op (\<lambda>imm rd.
     bindM ReadStackPointer64 (\<lambda>src.
     x_WriteUInt64 rd (src + imm)))"

definition ProcessRV64C_ADDI16SP :: "Op \<Rightarrow> unit sys_act" where
  "ProcessRV64C_ADDI16SP op =
     as_CI op (\<lambda>imm rd rs1.
     bindM ReadStackPointer64 (\<lambda>src.
     x_WriteUInt64 rd (src + imm)))"

definition ProcessRV64C_FLD :: "Op \<Rightarrow> unit sys_act" where
  "ProcessRV64C_FLD op =
     as_CL op (\<lambda>imm rd rs1.
     bindM (x_ReadUInt64 rs1) (\<lambda>src.
     let address = src + imm in
     bindM (LoadUInt64 address) (\<lambda>value.
     bindM (f_WriteUInt64 rd value) (\<lambda>_.
     Cancel))))"

definition ProcessRV64C_FLDSP :: "Op \<Rightarrow> unit sys_act" where
  "ProcessRV64C_FLDSP op =
     as_CI op (\<lambda>imm rd rs1.
     bindM ReadStackPointer64 (\<lambda>src.
     let address = src + imm in
     bindM (LoadUInt64 address) (\<lambda>value.
     bindM (f_WriteUInt64 rd value) (\<lambda>_.
     Cancel))))"

definition ProcessRV64C_FSD :: "Op \<Rightarrow> unit sys_act" where
  "ProcessRV64C_FSD op =
     as_CS op (\<lambda>imm rs1 rs2.
     bindM (x_ReadUInt64 rs1) (\<lambda>src.
     let address = src + imm in
     bindM (f_ReadUInt64 rs2) (\<lambda>value.
     bindM (StoreUInt64 address value) (\<lambda>_.
     Cancel))))"

definition ProcessRV64C_FSDSP :: "Op \<Rightarrow> unit sys_act" where
  "ProcessRV64C_FSDSP op =
     as_CSS op (\<lambda>imm rs2.
     bindM ReadStackPointer64 (\<lambda>src.
     let address = src + imm in
     bindM (f_ReadUInt64 rs2) (\<lambda>value.
     bindM (StoreUInt64 address value) (\<lambda>_.
     Cancel))))"

definition ProcessRV64C_J :: "Op \<Rightarrow> vaddr_t \<Rightarrow> unit sys_act" where
  "ProcessRV64C_J op pc =
     as_CJ op (\<lambda>imm.
     bindM (SetProgramCounter (pc + imm)) (\<lambda>_.
     whenM (imm <s 0) Cancel))"

definition ProcessRV64C_JR :: "Op \<Rightarrow> vaddr_t \<Rightarrow> unit sys_act" where
  "ProcessRV64C_JR op pc =
     as_CR op (\<lambda>rd rs1 rs2.
     bindM (x_ReadUInt64 rs1) (\<lambda>src.
     let address = NOT 1 AND src in
     bindM (SetProgramCounter address) (\<lambda>_.
     whenM (address < pc) Cancel)))"

definition ProcessRV64C_JALR :: "Op \<Rightarrow> vaddr_t \<Rightarrow> unit sys_act" where
  "ProcessRV64C_JALR op pc =
     as_CR op (\<lambda>rd rs1 rs2.
     bindM (x_ReadUInt64 rs1) (\<lambda>src.
     let address = NOT 1 AND src in
     bindM (SetProgramCounter address) (\<lambda>_.
     bindM (WriteLinkRegister64 (pc + 2)) (\<lambda>_.
     whenM (address < pc) Cancel))))"

definition ProcessRV64C_LD :: "Op \<Rightarrow> unit sys_act" where
  "ProcessRV64C_LD op =
     as_CL op (\<lambda>imm rd rs1.
     bindM (x_ReadUInt64 rs1) (\<lambda>src.
     let address = src + imm in
     bindM (LoadUInt64 address) (\<lambda>value.
     bindM (x_WriteUInt64 rd value) (\<lambda>_.
     Cancel))))"

definition ProcessRV64C_LDSP :: "Op \<Rightarrow> unit sys_act" where
  "ProcessRV64C_LDSP op =
     as_CI op (\<lambda>imm rd rs1.
     bindM ReadStackPointer64 (\<lambda>src.
     let address = src + imm in
     bindM (LoadUInt64 address) (\<lambda>value.
     bindM (x_WriteUInt64 rd value) (\<lambda>_.
     Cancel))))"

definition ProcessRV64C_LW :: "Op \<Rightarrow> unit sys_act" where
  "ProcessRV64C_LW op =
     as_CL op (\<lambda>imm rd rs1.
     bindM (x_ReadUInt64 rs1) (\<lambda>src.
     let address = src + imm in
     bindM (LoadUInt32 address) (\<lambda>value.
     bindM (x_WriteUInt64 rd (SignExtend 32 (ucast value))) (\<lambda>_.
     Cancel))))"

definition ProcessRV64C_LWSP :: "Op \<Rightarrow> unit sys_act" where
  "ProcessRV64C_LWSP op =
     as_CI op (\<lambda>imm rd rs1.
     bindM ReadStackPointer64 (\<lambda>src.
     let address = src + imm in
     bindM (LoadUInt32 address) (\<lambda>value.
     bindM (x_WriteUInt64 rd (SignExtend 32 (ucast value))) (\<lambda>_.
     Cancel))))"

definition ProcessRV64C_SD :: "Op \<Rightarrow> unit sys_act" where
  "ProcessRV64C_SD op =
     as_CS op (\<lambda>imm rs1 rs2.
     bindM (x_ReadUInt64 rs1) (\<lambda>src.
     let address = src + imm in
     bindM (x_ReadUInt64 rs2) (\<lambda>value.
     bindM (StoreUInt64 address value) (\<lambda>_.
     Cancel))))"

definition ProcessRV64C_SDSP :: "Op \<Rightarrow> unit sys_act" where
  "ProcessRV64C_SDSP op =
     as_CSS op (\<lambda>imm rs2.
     bindM ReadStackPointer64 (\<lambda>src.
     let address = src + imm in
     bindM (x_ReadUInt64 rs2) (\<lambda>value.
     bindM (StoreUInt64 address value) (\<lambda>_.
     Cancel))))"

definition ProcessRV64C_SW :: "Op \<Rightarrow> unit sys_act" where
  "ProcessRV64C_SW op =
     as_CS op (\<lambda>imm rs1 rs2.
     bindM (x_ReadUInt64 rs1) (\<lambda>src.
     let address = src + imm in
     bindM (x_ReadUInt32 rs2) (\<lambda>value.
     bindM (StoreUInt32 address value) (\<lambda>_.
     Cancel))))"

definition ProcessRV64C_SWSP :: "Op \<Rightarrow> unit sys_act" where
  "ProcessRV64C_SWSP op =
     as_CSS op (\<lambda>imm rs2.
     bindM ReadStackPointer64 (\<lambda>src.
     let address = src + imm in
     bindM (x_ReadUInt32 rs2) (\<lambda>value.
     bindM (StoreUInt32 address value) (\<lambda>_.
     Cancel))))"

definition ProcessRV64C :: "Op \<Rightarrow> vaddr_t \<Rightarrow> unit sys_act" where
  "ProcessRV64C op pc =
     switch (op_opCode op)
       [([OpC i_c_nop], returnM ()),
        ([OpC i_c_mv, OpC i_c_add, OpC i_c_addw, OpC i_c_sub, OpC i_c_subw, OpC i_c_and, OpC i_c_or, OpC i_c_xor], ProcessRV64C_Alu op),
        ([OpC i_c_li, OpC i_c_lui, OpC i_c_addi, OpC i_c_addiw, OpC i_c_andi, OpC i_c_srli, OpC i_c_srai, OpC i_c_slli], ProcessRV64C_AluImm op),
        ([OpC i_c_beqz, OpC i_c_bnez], ProcessRV64C_Branch op pc),
        ([OpC i_c_addi4spn], ProcessRV64C_ADDI4SPN op),
        ([OpC i_c_addi16sp], ProcessRV64C_ADDI16SP op),
        ([OpC i_c_fld], ProcessRV64C_FLD op),
        ([OpC i_c_fldsp], ProcessRV64C_FLDSP op),
        ([OpC i_c_fsd], ProcessRV64C_FSD op),
        ([OpC i_c_fsdsp], ProcessRV64C_FSDSP op),
        ([OpC i_c_j], ProcessRV64C_J op pc),
        ([OpC i_c_jr], ProcessRV64C_JR op pc),
        ([OpC i_c_jalr], ProcessRV64C_JALR op pc),
        ([OpC i_c_ld], ProcessRV64C_LD op),
        ([OpC i_c_ldsp], ProcessRV64C_LDSP op),
        ([OpC i_c_lw], ProcessRV64C_LW op),
        ([OpC i_c_lwsp], ProcessRV64C_LWSP op),
        ([OpC i_c_sd], ProcessRV64C_SD op),
        ([OpC i_c_sdsp], ProcessRV64C_SDSP op),
        ([OpC i_c_sw], ProcessRV64C_SW op),
        ([OpC i_c_swsp], ProcessRV64C_SWSP op)]
       (liftM Executor_Error)"

end
