(* ===== verification/Rafi_Exec_Fp.thy ===== *)
theory Rafi_Exec_Fp
  imports Rafi_Exec_Base
begin

text \<open>
  The floating-point handlers of \<^verbatim>\<open>src/rafi-emu/cpu/Executor.cpp\<close>. The arithmetic is that of the
  library parameter; a single-precision source of a computation is unboxed, the other
  single-precision reads take the lower half of the register.
\<close>

section \<open>Rounding mode\<close>

text \<open>\<open>int roundMode = operand.funct3\<close>, replaced by the dynamic mode when it is 7.\<close>

definition round_mode :: "i32 \<Rightarrow> i32 sys_act" where
  "round_mode funct3 =
     (if funct3 = 7
      then bindM (on_Csr (getM Csr_ReadFpCsr)) (\<lambda>fpCsr. returnM (GetMember fcsr_RM fpCsr))
      else returnM funct3)"

section \<open>RVF (single precision)\<close>

definition ProcessRVF_MulAdd :: "Softfloat \<Rightarrow> Op \<Rightarrow> unit sys_act" where
  "ProcessRVF_MulAdd sf op =
     as_R4 op (\<lambda>rd rs1 rs2 rs3 funct3 funct2.
     bindM (f_ReadUInt64 rs1) (\<lambda>src1_boxed.
     let src1 = UnboxFloat src1_boxed in
     bindM (f_ReadUInt64 rs2) (\<lambda>src2_boxed.
     let src2 = UnboxFloat src2_boxed in
     bindM (f_ReadUInt64 rs3) (\<lambda>src3_boxed.
     let src3 = UnboxFloat src3_boxed in
     bindM (round_mode funct3) (\<lambda>roundMode.
     ScopedFpRound roundMode
      (bindM (switch (op_opCode op)
         [([OpF i_fmadd_s], MulAdd32 sf src1 src2 src3),
          ([OpF i_fmsub_s], MulSub32 sf src1 src2 src3),
          ([OpF i_fnmadd_s], NegMulAdd32 sf src1 src2 src3),
          ([OpF i_fnmsub_s], NegMulSub32 sf src1 src2 src3)]
         (liftM Executor_Error)) (\<lambda>result.
       bindM UpdateFpCsr (\<lambda>_.
       bindM NotifyFpDirty (\<lambda>_.
       f_WriteUInt32 rd result)))))))))"

definition ProcessRVF_Compute :: "Softfloat \<Rightarrow> Op \<Rightarrow> unit sys_act" where
  "ProcessRVF_Compute sf op =
     as_R op (\<lambda>rd rs1 rs2 funct3 funct7.
     bindM (f_ReadUInt64 rs1) (\<lambda>src1_boxed.
     let src1 = UnboxFloat src1_boxed in
     bindM (f_ReadUInt64 rs2) (\<lambda>src2_boxed.
     let src2 = UnboxFloat src2_boxed in
     bindM (x_ReadInt32 rs1) (\<lambda>src_s32.
     bindM (x_ReadInt64 rs1) (\<lambda>src_s64.
     bindM (x_ReadUInt32 rs1) (\<lambda>src_u32.
     bindM (x_ReadUInt64 rs1) (\<lambda>src_u64.
     bindM (round_mode funct3) (\<lambda>roundMode.
     ScopedFpRound roundMode
      (bindM (switch (op_opCode op)
         [([OpF i_fadd_s], Add32 sf src1 src2),
          ([OpF i_fsub_s], Sub32 sf src1 src2),
          ([OpF i_fmul_s], Mul32 sf src1 src2),
          ([OpF i_fdiv_s], Div32 sf src1 src2),
          ([OpF i_fsqrt_s], Sqrt32 sf src1),
          ([OpF i_fmin_s], Min32 sf src1 src2),
          ([OpF i_fmax_s], Max32 sf src1 src2),
          ([OpF i_fcvt_s_w], Int32ToFloat sf src_s32),
          ([OpF i_fcvt_s_wu], UInt32ToFloat sf src_u32),
          ([OpF i_fcvt_s_l], Int64ToFloat sf src_s64),
          ([OpF i_fcvt_s_lu], UInt64ToFloat sf src_u64)]
         (liftM Executor_Error)) (\<lambda>value.
       bindM UpdateFpCsr (\<lambda>_.
       bindM NotifyFpDirty (\<lambda>_.
       f_WriteUInt32 rd value))))))))))))"

definition ProcessRVF_Compare :: "Softfloat \<Rightarrow> Op \<Rightarrow> unit sys_act" where
  "ProcessRVF_Compare sf op =
     as_R op (\<lambda>rd rs1 rs2 funct3 funct7.
     bindM (f_ReadUInt64 rs1) (\<lambda>src1_boxed.
     let src1 = UnboxFloat src1_boxed in
     bindM (f_ReadUInt64 rs2) (\<lambda>src2_boxed.
     let src2 = UnboxFloat src2_boxed in
     bindM (switch (op_opCode op)
       [([OpF i_feq_s], Eq32 sf src1 src2),
        ([OpF i_flt_s], Lt32 sf src1 src2),
        ([OpF i_fle_s], Le32 sf src1 src2)]
       (liftM Executor_Error)) (\<lambda>holds.
     bindM UpdateFpCsr (\<lambda>_.
     x_WriteInt64 rd (of_bool_word holds))))))"

definition ProcessRVF_Class :: "Op \<Rightarrow> unit sys_act" where
  "ProcessRVF_Class op =
     as_R op (\<lambda>rd rs1 rs2 funct3 funct7.
     bindM (f_ReadUInt32 rs1) (\<lambda>src.
     x_WriteUInt64 rd (ucast (ConvertToRvFpClass32 src))))"

definition ProcessRVF_MoveToInt :: "Op \<Rightarrow> unit sys_act" where
  "ProcessRVF_MoveToInt op =
     as_R op (\<lambda>rd rs1 rs2 funct3 funct7.
     bindM (f_ReadUInt32 rs1) (\<lambda>src.
     x_WriteInt64 rd (SignExtend 32 (ucast src))))"

definition ProcessRVF_MoveToFp :: "Op \<Rightarrow> unit sys_act" where
  "ProcessRVF_MoveToFp op =
     as_R op (\<lambda>rd rs1 rs2 funct3 funct7.
     bindM (x_ReadUInt32 rs1) (\<lambda>value.
     bindM NotifyFpDirty (\<lambda>_.
     f_WriteUInt32 rd value)))"

definition ProcessRVF_ConvertToInt32 :: "Softfloat \<Rightarrow> Op \<Rightarrow> unit sys_act" where
  "ProcessRVF_ConvertToInt32 sf op =
     as_R op (\<lambda>rd rs1 rs2 funct3 funct7.
     bindM (f_ReadUInt32 rs1) (\<lambda>src.
     bindM (round_mode funct3) (\<lambda>roundMode.
     bindM (switch (op_opCode op)
       [([OpF i_fcvt_w_s],
         bindM (FloatToInt32 sf src roundMode) (\<lambda>v. returnM (SignExtend 32 (scast v)))),
        ([OpF i_fcvt_wu_s],
         bindM (FloatToUInt32 sf src roundMode) (\<lambda>v. returnM (SignExtend 32 (ucast v))))]
       (liftM Executor_Error)) (\<lambda>value.
     bindM UpdateFpCsr (\<lambda>_.
     x_WriteInt64 rd value)))))"

definition ProcessRVF_ConvertToInt64 :: "Softfloat \<Rightarrow> Op \<Rightarrow> unit sys_act" where
  "ProcessRVF_ConvertToInt64 sf op =
     as_R op (\<lambda>rd rs1 rs2 funct3 funct7.
     bindM (f_ReadUInt64 rs1) (\<lambda>src.
     bindM (round_mode funct3) (\<lambda>roundMode.
     bindM (switch (op_opCode op)
       [([OpF i_fcvt_l_s], FloatToInt64 sf (ucast src) roundMode),
        ([OpF i_fcvt_lu_s], FloatToUInt64 sf (ucast src) roundMode)]
       (liftM Executor_Error)) (\<lambda>value.
     bindM UpdateFpCsr (\<lambda>_.
     x_WriteInt64 rd value)))))"

definition ProcessRVF_ConvertSign :: "Op \<Rightarrow> unit sys_act" where
  "ProcessRVF_ConvertSign op =
     as_R op (\<lambda>rd rs1 rs2 funct3 funct7.
     bindM (f_ReadUInt64 rs1) (\<lambda>src1_boxed.
     let src1 = UnboxFloat src1_boxed in
     bindM (f_ReadUInt64 rs2) (\<lambda>src2_boxed.
     let src2 = UnboxFloat src2_boxed in
     bindM (liftM (switch (op_opCode op)
       [([OpF i_fsgnj_s], Inr ((src1 AND 0x7fffffff) OR (src2 AND 0x80000000))),
        ([OpF i_fsgnjn_s], Inr ((src1 AND 0x7fffffff) OR (NOT src2 AND 0x80000000))),
        ([OpF i_fsgnjx_s], Inr (src1 XOR (src2 AND 0x80000000)))]
       Executor_Error)) (\<lambda>value.
     bindM UpdateFpCsr (\<lambda>_.
     bindM NotifyFpDirty (\<lambda>_.
     f_WriteUInt32 rd value))))))"

definition ProcessRV32F_Load :: "Op \<Rightarrow> unit sys_act" where
  "ProcessRV32F_Load op =
     as_I op (\<lambda>imm rd rs1.
     bindM (x_ReadUInt32 rs1) (\<lambda>src.
     let address = ucast src + imm in
     bindM (LoadUInt32 address) (\<lambda>value.
     bindM NotifyFpDirty (\<lambda>_.
     f_WriteUInt32 rd value))))"

definition ProcessRV32F_Store :: "Op \<Rightarrow> unit sys_act" where
  "ProcessRV32F_Store op =
     as_S op (\<lambda>imm rs1 rs2.
     bindM (x_ReadUInt32 rs1) (\<lambda>src.
     let address = ucast src + imm in
     bindM (f_ReadUInt32 rs2) (\<lambda>value.
     StoreUInt32 address value)))"

definition ProcessRV64F_Load :: "Op \<Rightarrow> unit sys_act" where
  "ProcessRV64F_Load op =
     as_I op (\<lambda>imm rd rs1.
     bindM (x_ReadUInt64 rs1) (\<lambda>src.
     let address = src + imm in
     bindM (LoadUInt32 address) (\<lambda>value.
     bindM NotifyFpDirty (\<lambda>_.
     f_WriteUInt32 rd value))))"

definition ProcessRV64F_Store :: "Op \<Rightarrow> unit sys_act" where
  "ProcessRV64F_Store op =
     as_S op (\<lambda>imm rs1 rs2.
     bindM (x_ReadUInt64 rs1) (\<lambda>src.
     let address = src + imm in
     bindM (f_ReadUInt32 rs2) (\<lambda>value.
     StoreUInt32 address value)))"

definition ProcessRVF :: "Softfloat \<Rightarrow> Op \<Rightarrow> unit sys_act" where
  "ProcessRVF sf op =
     bindM Cancel (\<lambda>_.
     switch (op_opCode op)
       [([OpF i_flw],
         if op_opClass op = RV32F then ProcessRV32F_Load op
           else if op_opClass op = RV64F then ProcessRV64F_Load op
           else failM EmuException),
        ([OpF i_fsw],
         if op_opClass op = RV32F then ProcessRV32F_Store op
           else if op_opClass op = RV64F then ProcessRV64F_Store op
           else failM EmuException),
        ([OpF i_fmadd_s, OpF i_fmsub_s, OpF i_fnmadd_s, OpF i_fnmsub_s],
         ProcessRVF_MulAdd sf op),
        ([OpF i_fadd_s, OpF i_fsub_s, OpF i_fmul_s, OpF i_fdiv_s, OpF i_fsqrt_s, OpF i_fmin_s, OpF i_fmax_s,
         OpF i_fcvt_s_w, OpF i_fcvt_s_wu, OpF i_fcvt_s_l, OpF i_fcvt_s_lu],
         ProcessRVF_Compute sf op),
        ([OpF i_feq_s, OpF i_flt_s, OpF i_fle_s],
         ProcessRVF_Compare sf op),
        ([OpF i_fclass_s], ProcessRVF_Class op),
        ([OpF i_fmv_x_w], ProcessRVF_MoveToInt op),
        ([OpF i_fmv_w_x], ProcessRVF_MoveToFp op),
        ([OpF i_fcvt_w_s, OpF i_fcvt_wu_s], ProcessRVF_ConvertToInt32 sf op),
        ([OpF i_fcvt_l_s, OpF i_fcvt_lu_s], ProcessRVF_ConvertToInt64 sf op),
        ([OpF i_fsgnj_s, OpF i_fsgnjn_s, OpF i_fsgnjx_s], ProcessRVF_ConvertSign op)]
       (liftM Executor_Error))"

section \<open>RVD (double precision)\<close>

definition ProcessRVD_MulAdd :: "Softfloat \<Rightarrow> Op \<Rightarrow> unit sys_act" where
  "ProcessRVD_MulAdd sf op =
     as_R4 op (\<lambda>rd rs1 rs2 rs3 funct3 funct2.
     bindM (f_ReadUInt64 rs1) (\<lambda>src1.
     bindM (f_ReadUInt64 rs2) (\<lambda>src2.
     bindM (f_ReadUInt64 rs3) (\<lambda>src3.
     bindM (round_mode funct3) (\<lambda>roundMode.
     ScopedFpRound roundMode
      (bindM (switch (op_opCode op)
         [([OpD i_fmadd_d], MulAdd64 sf src1 src2 src3),
          ([OpD i_fmsub_d], MulSub64 sf src1 src2 src3),
          ([OpD i_fnmadd_d], NegMulAdd64 sf src1 src2 src3),
          ([OpD i_fnmsub_d], NegMulSub64 sf src1 src2 src3)]
         (liftM Executor_Error)) (\<lambda>result.
       bindM UpdateFpCsr (\<lambda>_.
       bindM NotifyFpDirty (\<lambda>_.
       f_WriteUInt64 rd result)))))))))"

definition ProcessRVD_Compute :: "Softfloat \<Rightarrow> Op \<Rightarrow> unit sys_act" where
  "ProcessRVD_Compute sf op =
     as_R op (\<lambda>rd rs1 rs2 funct3 funct7.
     bindM (f_ReadUInt64 rs1) (\<lambda>src1.
     bindM (f_ReadUInt64 rs2) (\<lambda>src2.
     bindM (x_ReadInt32 rs1) (\<lambda>src_s32.
     bindM (x_ReadInt64 rs1) (\<lambda>src_s64.
     bindM (x_ReadUInt32 rs1) (\<lambda>src_u32.
     bindM (x_ReadUInt64 rs1) (\<lambda>src_u64.
     bindM (round_mode funct3) (\<lambda>roundMode.
     ScopedFpRound roundMode
      (bindM (switch (op_opCode op)
         [([OpD i_fadd_d], Add64 sf src1 src2),
          ([OpD i_fsub_d], Sub64 sf src1 src2),
          ([OpD i_fmul_d], Mul64 sf src1 src2),
          ([OpD i_fdiv_d], Div64 sf src1 src2),
          ([OpD i_fsqrt_d], Sqrt64 sf src1),
          ([OpD i_fmin_d], Min64 sf src1 src2),
          ([OpD i_fmax_d], Max64 sf src1 src2),
          ([OpD i_fcvt_d_w], Int32ToDouble sf src_s32),
          ([OpD i_fcvt_d_wu], UInt32ToDouble sf src_u32),
          ([OpD i_fcvt_d_l], Int64ToDouble sf src_s64),
          ([OpD i_fcvt_d_lu], UInt64ToDouble sf src_u64)]
         (liftM Executor_Error)) (\<lambda>value.
       bindM UpdateFpCsr (\<lambda>_.
       bindM NotifyFpDirty (\<lambda>_.
       f_WriteUInt64 rd value))))))))))))"

definition ProcessRVD_Compare :: "Softfloat \<Rightarrow> Op \<Rightarrow> unit sys_act" where
  "ProcessRVD_Compare sf op =
     as_R op (\<lambda>rd rs1 rs2 funct3 funct7.
     bindM (f_ReadUInt64 rs1) (\<lambda>src1.
     bindM (f_ReadUInt64 rs2) (\<lambda>src2.
     bindM (switch (op_opCode op)
       [([OpD i_feq_d], Eq64 sf src1 src2),
        ([OpD i_flt_d], Lt64 sf src1 src2),
        ([OpD i_fle_d], Le64 sf src1 src2)]
       (liftM Executor_Error)) (\<lambda>holds.
     bindM UpdateFpCsr (\<lambda>_.
     x_WriteUInt64 rd (of_bool_word holds))))))"

definition ProcessRVD_Class :: "Op \<Rightarrow> unit sys_act" where
  "ProcessRVD_Class op =
     as_R op (\<lambda>rd rs1 rs2 funct3 funct7.
     bindM (f_ReadUInt64 rs1) (\<lambda>src.
     x_WriteUInt64 rd (ucast (ConvertToRvFpClass64 src))))"

definition ProcessRVD_MoveToInt :: "Op \<Rightarrow> unit sys_act" where
  "ProcessRVD_MoveToInt op =
     as_R op (\<lambda>rd rs1 rs2 funct3 funct7.
     bindM (f_ReadUInt64 rs1) (\<lambda>value.
     x_WriteUInt64 rd value))"

definition ProcessRVD_MoveToFp :: "Op \<Rightarrow> unit sys_act" where
  "ProcessRVD_MoveToFp op =
     as_R op (\<lambda>rd rs1 rs2 funct3 funct7.
     bindM (x_ReadUInt64 rs1) (\<lambda>value.
     bindM NotifyFpDirty (\<lambda>_.
     f_WriteUInt64 rd value)))"

definition ProcessRVD_ConvertToInt32 :: "Softfloat \<Rightarrow> Op \<Rightarrow> unit sys_act" where
  "ProcessRVD_ConvertToInt32 sf op =
     as_R op (\<lambda>rd rs1 rs2 funct3 funct7.
     bindM (f_ReadUInt64 rs1) (\<lambda>src.
     bindM (round_mode funct3) (\<lambda>roundMode.
     bindM (switch (op_opCode op)
       [([OpD i_fcvt_w_d],
         bindM (DoubleToInt32 sf src roundMode) (\<lambda>v. returnM (SignExtend 32 (scast v)))),
        ([OpD i_fcvt_wu_d],
         bindM (DoubleToUInt32 sf src roundMode) (\<lambda>v. returnM (SignExtend 32 (ucast v))))]
       (liftM Executor_Error)) (\<lambda>value.
     bindM UpdateFpCsr (\<lambda>_.
     x_WriteInt64 rd value)))))"

definition ProcessRVD_ConvertToInt64 :: "Softfloat \<Rightarrow> Op \<Rightarrow> unit sys_act" where
  "ProcessRVD_ConvertToInt64 sf op =
     as_R op (\<lambda>rd rs1 rs2 funct3 funct7.
     bindM (f_ReadUInt64 rs1) (\<lambda>src.
     bindM (round_mode funct3) (\<lambda>roundMode.
     bindM (switch (op_opCode op)
       [([OpD i_fcvt_l_d], DoubleToInt64 sf src roundMode),
        ([OpD i_fcvt_lu_d], DoubleToUInt64 sf src roundMode)]
       (liftM Executor_Error)) (\<lambda>value.
     bindM UpdateFpCsr (\<lambda>_.
     x_WriteInt64 rd value)))))"

definition ProcessRVD_ConvertFp32ToFp64 :: "Softfloat \<Rightarrow> Op \<Rightarrow> unit sys_act" where
  "ProcessRVD_ConvertFp32ToFp64 sf op =
     as_R op (\<lambda>rd rs1 rs2 funct3 funct7.
     bindM (f_ReadUInt32 rs1) (\<lambda>src.
     bindM (FloatToDouble sf src) (\<lambda>value.
     bindM UpdateFpCsr (\<lambda>_.
     bindM NotifyFpDirty (\<lambda>_.
     f_WriteUInt64 rd value)))))"

definition ProcessRVD_ConvertFp64ToFp32 :: "Softfloat \<Rightarrow> Op \<Rightarrow> unit sys_act" where
  "ProcessRVD_ConvertFp64ToFp32 sf op =
     as_R op (\<lambda>rd rs1 rs2 funct3 funct7.
     bindM (f_ReadUInt64 rs1) (\<lambda>src.
     bindM (DoubleToFloat sf src) (\<lambda>value.
     bindM UpdateFpCsr (\<lambda>_.
     bindM NotifyFpDirty (\<lambda>_.
     f_WriteUInt32 rd value)))))"

definition ProcessRVD_ConvertSign :: "Op \<Rightarrow> unit sys_act" where
  "ProcessRVD_ConvertSign op =
     as_R op (\<lambda>rd rs1 rs2 funct3 funct7.
     bindM (f_ReadUInt64 rs1) (\<lambda>src1.
     bindM (f_ReadUInt64 rs2) (\<lambda>src2.
     bindM (liftM (switch (op_opCode op)
       [([OpD i_fsgnj_d], Inr ((src1 AND (push_bit 63 1 - 1)) OR (src2 AND push_bit 63 1))),
        ([OpD i_fsgnjn_d], Inr ((src1 AND (push_bit 63 1 - 1)) OR (NOT src2 AND push_bit 63 1))),
        ([OpD i_fsgnjx_d], Inr (src1 XOR (src2 AND push_bit 63 1)))]
       Executor_Error)) (\<lambda>value.
     bindM UpdateFpCsr (\<lambda>_.
     bindM NotifyFpDirty (\<lambda>_.
     f_WriteUInt64 rd value))))))"

definition ProcessRV32D_Load :: "Op \<Rightarrow> unit sys_act" where
  "ProcessRV32D_Load op =
     as_I op (\<lambda>imm rd rs1.
     bindM (x_ReadUInt32 rs1) (\<lambda>src.
     let address = ucast src + imm in
     bindM (LoadUInt64 address) (\<lambda>value.
     bindM NotifyFpDirty (\<lambda>_.
     f_WriteUInt64 rd value))))"

definition ProcessRV32D_Store :: "Op \<Rightarrow> unit sys_act" where
  "ProcessRV32D_Store op =
     as_S op (\<lambda>imm rs1 rs2.
     bindM (x_ReadUInt32 rs1) (\<lambda>src.
     let address = ucast src + imm in
     bindM (f_ReadUInt64 rs2) (\<lambda>value.
     StoreUInt64 address value)))"

definition ProcessRV64D_Load :: "Op \<Rightarrow> unit sys_act" where
  "ProcessRV64D_Load op =
     as_I op (\<lambda>imm rd rs1.
     bindM (x_ReadUInt64 rs1) (\<lambda>src.
     let address = src + imm in
     bindM (LoadUInt64 address) (\<lambda>value.
     bindM NotifyFpDirty (\<lambda>_.
     f_WriteUInt64 rd value))))"

definition ProcessRV64D_Store :: "Op \<Rightarrow> unit sys_act" where
  "ProcessRV64D_Store op =
     as_S op (\<lambda>imm rs1 rs2.
     bindM (x_ReadUInt64 rs1) (\<lambda>src.
     let address = src + imm in
     bindM (f_ReadUInt64 rs2) (\<lambda>value.
     StoreUInt64 address value)))"

definition ProcessRVD :: "Softfloat \<Rightarrow> Op \<Rightarrow> unit sys_act" where
  "ProcessRVD sf op =
     bindM Cancel (\<lambda>_.
     switch (op_opCode op)
       [([OpD i_fld],
         if op_opClass op = RV32D then ProcessRV32D_Load op
           else if op_opClass op = RV64D then ProcessRV64D_Load op
           else failM EmuException),
        ([OpD i_fsd],
         if op_opClass op = RV32D then ProcessRV32D_Store op
           else if op_opClass op = RV64D then ProcessRV64D_Store op
           else failM EmuException),
        ([OpD i_fmadd_d, OpD i_fmsub_d, OpD i_fnmadd_d, OpD i_fnmsub_d],
         ProcessRVD_MulAdd sf op),
        ([OpD i_fadd_d, OpD i_fsub_d, OpD i_fmul_d, OpD i_fdiv_d, OpD i_fsqrt_d, OpD i_fmin_d, OpD i_fmax_d,
         OpD i_fcvt_d_w, OpD i_fcvt_d_wu, OpD i_fcvt_d_l, OpD i_fcvt_d_lu],
         ProcessRVD_Compute sf op),
        ([OpD i_feq_d, OpD i_flt_d, OpD i_fle_d],
         ProcessRVD_Compare sf op),
        ([OpD i_fclass_d], ProcessRVD_Class op),
        ([OpD i_fmv_x_d], ProcessRVD_MoveToInt op),
        ([OpD i_fmv_d_x], ProcessRVD_MoveToFp op),
        ([OpD i_fcvt_w_d, OpD i_fcvt_wu_d], ProcessRVD_ConvertToInt32 sf op),
        ([OpD i_fcvt_l_d, OpD i_fcvt_lu_d], ProcessRVD_ConvertToInt64 sf op),
        ([OpD i_fcvt_s_d], ProcessRVD_ConvertFp64ToFp32 sf op),
        ([OpD i_fcvt_d_s], ProcessRVD_ConvertFp32ToFp64 sf op),
        ([OpD i_fsgnj_d, OpD i_fsgnjn_d, OpD i_fsgnjx_d], ProcessRVD_ConvertSign op)]
       (liftM Executor_Error))"

end
