(* ===== verification/Rafi_Executor.thy ===== *)
theory Rafi_Executor
  imports Rafi_PreCheck Rafi_Exec_RV32 Rafi_Exec_RV64 Rafi_Exec_Fp
begin

text \<open>
  \<open>Executor::ProcessOp\<close>: the dispatch on the class of the operation.
\<close>

definition ProcessOp :: "Libraries \<Rightarrow> Op \<Rightarrow> vaddr_t \<Rightarrow> unit sys_act" where
  "ProcessOp libs op pc =
     switch (op_opClass op)
       [([RV32I], ProcessRV32I op pc),
        ([RV32M], ProcessRV32M op),
        ([RV32C], ProcessRV32C op pc),
        ([RV64I], ProcessRV64I op pc),
        ([RV64M], ProcessRV64M libs op),
        ([RV64C], ProcessRV64C op pc),
        ([RV32A], ProcessRV32A op),
        ([RV64A], ProcessRV64A op),
        ([RV32F, RV64F], ProcessRVF (lib_softfloat libs) op),
        ([RV32D, RV64D], ProcessRVD (lib_softfloat libs) op)]
       (liftM Executor_Error)"

end
