(* ===== verification/Rafi_Processor.thy ===== *)
theory Rafi_Processor
  imports Rafi_Decoder Rafi_Executor
begin

text \<open>
  \<^verbatim>\<open>src/rafi-emu/cpu/Processor.cpp\<close>, \<^verbatim>\<open>src/rafi-emu/System.cpp\<close> and the loop of
  \<^verbatim>\<open>src/rafi-emu/Emulator.cpp\<close>: one cycle of the processor (interrupt, fetch, decode, check,
  execute), one cycle of the machine, and the run of the emulator until its stop condition.
\<close>

section \<open>Processor\<close>

text \<open>
  The fields the constructors leave indeterminate are arguments; none is read before it is
  written.
\<close>

definition Processor_new ::
  "XLEN \<Rightarrow> vaddr_t \<Rightarrow> InterruptType \<Rightarrow> TrapEvent \<Rightarrow> OpEvent \<Rightarrow> Processor result" where
  "Processor_new xlen initialPc anyInterrupt anyTrapEvent anyOpEvent =
     map_sum id (\<lambda>csr. \<lparr>cpu_m_AtomicManager = AtomicManager_new, cpu_m_Csr = csr,
         cpu_m_InterruptController = InterruptController_new anyInterrupt,
         cpu_m_TrapProcessor = TrapProcessor_new xlen anyTrapEvent,
         cpu_m_Decoder = xlen, cpu_m_FpRegFile = FpRegFile_new, cpu_m_IntRegFile = IntRegFile_new,
         cpu_m_MemAccessUnit = MemoryAccessUnit_new xlen, cpu_m_OpCount = 0,
         cpu_m_OpEventValid = False, cpu_m_OpEvent = anyOpEvent\<rparr>)
       (Csr_new xlen initialPc)"

definition Processor_SetIntReg :: "i32 \<Rightarrow> u32 \<Rightarrow> unit sys_act" where
  "Processor_SetIntReg regId regValue = x_WriteUInt32 regId regValue"

definition Processor_GetPc :: "Processor \<Rightarrow> vaddr_t" where
  "Processor_GetPc p = Csr_GetProgramCounter (cpu_m_Csr p)"

definition Processor_ReadInterruptPending :: "Processor \<Rightarrow> u64" where
  "Processor_ReadInterruptPending p = Csr_ReadInterruptPending (cpu_m_Csr p)"
definition Processor_WriteInterruptPending :: "u64 \<Rightarrow> Processor \<Rightarrow> Processor" where
  "Processor_WriteInterruptPending value p =
     p\<lparr>cpu_m_Csr := Csr_WriteInterruptPending value (cpu_m_Csr p)\<rparr>"
definition Processor_ReadTime :: "Processor \<Rightarrow> u64" where
  "Processor_ReadTime p = Csr_ReadTime (cpu_m_Csr p)"
definition Processor_WriteTime :: "u64 \<Rightarrow> Processor \<Rightarrow> Processor" where
  "Processor_WriteTime value p = p\<lparr>cpu_m_Csr := Csr_WriteTime value (cpu_m_Csr p)\<rparr>"

definition Processor_GetMemoryAccessEventCount :: "Processor \<Rightarrow> u64" where
  "Processor_GetMemoryAccessEventCount p = GetEventCount (cpu_m_MemAccessUnit p)"
definition Processor_CopyOpEvent :: "Processor \<Rightarrow> OpEvent" where
  "Processor_CopyOpEvent p = cpu_m_OpEvent p"
definition Processor_CopyMemoryAccessEvent :: "i32 \<Rightarrow> Processor \<Rightarrow> MemoryAccessEvent result" where
  "Processor_CopyMemoryAccessEvent index p = CopyEvent index (cpu_m_MemAccessUnit p)"
definition Processor_CopyTrapEvent :: "Processor \<Rightarrow> TrapEvent" where
  "Processor_CopyTrapEvent p = trap_m_TrapEvent (cpu_m_TrapProcessor p)"
definition Processor_IsOpEventExist :: "Processor \<Rightarrow> bool" where
  "Processor_IsOpEventExist p = cpu_m_OpEventValid p"
definition Processor_IsTrapEventExist :: "Processor \<Rightarrow> bool" where
  "Processor_IsTrapEventExist p = trap_m_TrapEventValid (cpu_m_TrapProcessor p)"

definition ClearOpEvent :: "Processor \<Rightarrow> Processor" where
  "ClearOpEvent p = p\<lparr>cpu_m_OpEventValid := False\<rparr>"

definition InvalidValue :: vaddr_t where "InvalidValue = 0xffffffffffffffff"

definition SetOpEvent_full :: "vaddr_t \<Rightarrow> paddr_t \<Rightarrow> u32 \<Rightarrow> PrivilegeLevel \<Rightarrow> Processor \<Rightarrow> Processor"
where
  "SetOpEvent_full virtualPc physicalPc insn privilegeLevel p =
     p\<lparr>cpu_m_OpEvent := \<lparr>oe_opId = cpu_m_OpCount p, oe_insn = insn,
           oe_privilegeLevel = privilegeLevel, oe_virtualPc = virtualPc, oe_physicalPc = physicalPc\<rparr>,
       cpu_m_OpEventValid := True, cpu_m_OpCount := cpu_m_OpCount p + 1\<rparr>"

definition SetOpEvent :: "vaddr_t \<Rightarrow> PrivilegeLevel \<Rightarrow> Processor \<Rightarrow> Processor" where
  "SetOpEvent virtualPc privilegeLevel =
     SetOpEvent_full virtualPc InvalidValue (ucast InvalidValue) privilegeLevel"

text \<open>\<open>Fetch\<close> answers a trap, or the instruction in its out parameter.\<close>

datatype fetched = FetchTrap Trap | Insn u32

definition fetch_at :: "vaddr_t \<Rightarrow> vaddr_t \<Rightarrow> (paddr_t \<Rightarrow> fetched sys_act) \<Rightarrow> fetched sys_act" where
  "fetch_at vaddr pc f = bindM (Translate Instruction vaddr pc) (\<lambda>r. case r of
     Trapped trap \<Rightarrow> returnM (FetchTrap trap) | Address paddr \<Rightarrow> f paddr)"

definition Processor_Fetch :: "vaddr_t \<Rightarrow> fetched sys_act" where
  "Processor_Fetch pc =
    (if pc mod 0x1000 = 0xffe then
       let vaddrLow = pc; vaddrHigh = pc + 2 in
       fetch_at vaddrLow pc (\<lambda>paddrLow.
       bindM (FetchUInt16 vaddrLow paddrLow) (\<lambda>insnLow.
       if IsCompressedInstruction16 insnLow then returnM (Insn (ucast insnLow))
       else
         fetch_at vaddrHigh pc (\<lambda>paddrHigh.
         bindM (FetchUInt16 vaddrHigh paddrHigh) (\<lambda>insnHigh.
         returnM (Insn (push_bit 16 (ucast insnHigh) OR ucast insnLow))))))
     else
       fetch_at pc pc (\<lambda>paddr.
       bindM (FetchUInt32 pc paddr) (\<lambda>insn. returnM (Insn insn))))"

section \<open>One cycle\<close>

abbreviation on_Processor :: "(Processor \<Rightarrow> Processor) \<Rightarrow> unit sys_act" where
  "on_Processor f \<equiv> modifyM (update_processor f)"

abbreviation raise_trap :: "Trap \<Rightarrow> unit sys_act" where
  "raise_trap trap \<equiv> on_TrapProcessor (ProcessException trap)"

text \<open>Decode, check, execute: the second half of \<open>ProcessCycle\<close>.\<close>

definition execute_insn :: "Libraries \<Rightarrow> vaddr_t \<Rightarrow> u32 \<Rightarrow> unit sys_act" where
  "execute_insn libs pc insn =
    bindM (getM (\<lambda>s. cpu_m_Decoder (sys_m_Processor s))) (\<lambda>xlen.
    bindM (liftM (Decode xlen insn)) (\<lambda>op.
    if op_opCode op = Op_unknown then raise_trap (MakeIllegalInstructionException pc insn)
    else
      bindM (PreCheckTrap op pc insn) (\<lambda>preExecuteTrap. case preExecuteTrap of
        Some trap \<Rightarrow> raise_trap trap
      | None \<Rightarrow>
          bindM (SetProgramCounter (if IsCompressedInstruction insn then pc + 2 else pc + 4)) (\<lambda>_.
          bindM (ProcessOp libs op pc) (\<lambda>_.
          bindM (PostCheckTrap op pc) (\<lambda>postExecuteTrap. case postExecuteTrap of
            Some trap \<Rightarrow> raise_trap trap
          | None \<Rightarrow> returnM ()))))))"

text \<open>The preparation of a cycle and the interrupt controller's update; the timer source is the Clint.\<close>

definition begin_cycle :: "unit sys_act" where
  "begin_cycle =
    bindM (on_Processor ClearOpEvent) (\<lambda>_.
    bindM (on_Processor (cpu_m_TrapProcessor_update TrapProcessor_ClearEvent)) (\<lambda>_.
    bindM (on_Processor (cpu_m_MemAccessUnit_update MemoryAccessUnit_ClearEvent)) (\<lambda>_.
    on_Csr (modifyM Csr_ProcessCycle))))"

definition timer_requested :: "System \<Rightarrow> bool" where
  "timer_requested s = Clint_IsInterruptRequested (sys_csr s, sys_m_Clint s)"

definition Processor_ProcessCycle :: "Libraries \<Rightarrow> unit sys_act" where
  "Processor_ProcessCycle libs =
    bindM begin_cycle (\<lambda>_.
    bindM (on_Csr (getM Csr_GetPrivilegeLevel)) (\<lambda>privilegeLevel.
    bindM (on_Csr (getM Csr_GetProgramCounter)) (\<lambda>pc.
    bindM (getM timer_requested) (\<lambda>requested.
    bindM (on_InterruptController (InterruptController_Update requested)) (\<lambda>_.
    bindM (getM (\<lambda>s. InterruptController_IsRequested
        (cpu_m_InterruptController (sys_m_Processor s)))) (\<lambda>isRequested.
    if isRequested then
      bindM (queryM (\<lambda>s. GetInterruptType (cpu_m_InterruptController (sys_m_Processor s))))
        (\<lambda>interruptType.
      bindM (on_TrapProcessor (ProcessInterrupt interruptType pc)) (\<lambda>_.
      on_Processor (SetOpEvent pc privilegeLevel)))
    else
      bindM (Processor_Fetch pc) (\<lambda>r. case r of
        FetchTrap trap \<Rightarrow>
          bindM (raise_trap trap) (\<lambda>_. on_Processor (SetOpEvent pc privilegeLevel))
      | Insn insn \<Rightarrow> execute_insn libs pc insn)))))))"

section \<open>System\<close>

definition System_new ::
  "XLEN \<Rightarrow> vaddr_t \<Rightarrow> u64 \<Rightarrow> InterruptType \<Rightarrow> TrapEvent \<Rightarrow> OpEvent \<Rightarrow> System result" where
  "System_new xlen pc ramSize anyInterrupt anyTrapEvent anyOpEvent =
    (let ram = Ram_new ramSize; rom = Rom_new in
     map_sum id (\<lambda>cpu. \<lparr>sys_m_Bus = System_bus ram rom, sys_m_Ram = ram, sys_m_Rom = rom,
         sys_m_Clint = Clint_new, sys_m_Plic = Plic_new, sys_m_Uart16550 = Uart16550_new,
         sys_m_Uart = Uart_new, sys_m_Timer = Timer_new, sys_m_Processor = cpu,
         sys_m_HostIoAddress = 0, softfloat_roundingMode = 0, softfloat_exceptionFlags = 0,
         host_rounding = FE_TONEAREST, standard_output = []\<rparr>)
       (Processor_new xlen pc anyInterrupt anyTrapEvent anyOpEvent))"

definition memory_LoadFile :: "memory_ref \<Rightarrow> u8 list option \<Rightarrow> i32 \<Rightarrow> unit sys_act" where
  "memory_LoadFile pMemory content offset = (case pMemory of
     RamRef \<Rightarrow> zoomM sys_m_Ram (\<lambda>c. sys_m_Ram_update (\<lambda>_. c)) (updateM (Ram_LoadFile content offset))
   | RomRef \<Rightarrow> zoomM sys_m_Rom (\<lambda>c. sys_m_Rom_update (\<lambda>_. c)) (updateM (Rom_LoadFile content offset)))"

definition System_LoadFileToMemory :: "u8 list option \<Rightarrow> paddr_t \<Rightarrow> unit sys_act" where
  "System_LoadFileToMemory content address =
    bindM (queryM (\<lambda>s. Bus_ConvertToMemoryLocation address (sys_m_Bus s))) (\<lambda>location.
    memory_LoadFile (fst location) content (snd location))"

definition System_SetDtbAddress :: "vaddr_t \<Rightarrow> unit sys_act" where
  "System_SetDtbAddress address = Processor_SetIntReg 11 (ucast address)"

definition System_SetHostIoAddress :: "vaddr_t \<Rightarrow> System \<Rightarrow> System" where
  "System_SetHostIoAddress address s = s\<lparr>sys_m_HostIoAddress := ucast address\<rparr>"

definition System_ProcessCycle :: "Libraries \<Rightarrow> unit sys_act" where
  "System_ProcessCycle libs =
    bindM (modifyM (\<lambda>s. let (out, uart) = Uart16550_ProcessCycle (sys_m_Uart16550 s) in
      s\<lparr>sys_m_Uart16550 := uart, standard_output := standard_output s @ out\<rparr>)) (\<lambda>_.
    bindM (modifyM (\<lambda>s. let (out, uart) = Uart_ProcessCycle (sys_m_Uart s) in
      s\<lparr>sys_m_Uart := uart, standard_output := standard_output s @ out\<rparr>)) (\<lambda>_.
    bindM (modifyM (\<lambda>s. s\<lparr>sys_m_Timer := Timer_ProcessCycle (sys_m_Timer s)\<rparr>)) (\<lambda>_.
    Processor_ProcessCycle libs)))"

definition System_IsValidMemory :: "paddr_t \<Rightarrow> u64 \<Rightarrow> System \<Rightarrow> bool" where
  "System_IsValidMemory addr sz s = Bus_IsValidAddress addr sz (sys_m_Bus s)"

definition System_ReadMemory :: "nat \<Rightarrow> paddr_t \<Rightarrow> System \<Rightarrow> u8 list result" where
  "System_ReadMemory bufferSize addr = Bus_Read bufferSize addr"

definition System_WriteMemory :: "u8 list \<Rightarrow> paddr_t \<Rightarrow> unit sys_act" where
  "System_WriteMemory buffer addr = Bus_Write buffer addr"

definition System_GetRamSize :: "System \<Rightarrow> u64" where
  "System_GetRamSize s = Ram_GetCapacity (sys_m_Ram s)"

definition System_GetMemoryAccessEventCount :: "System \<Rightarrow> u64" where
  "System_GetMemoryAccessEventCount s = Processor_GetMemoryAccessEventCount (sys_m_Processor s)"

text \<open>The read goes to the RAM, whichever memory the address lies in.\<close>

definition System_GetHostIoValue :: "System \<Rightarrow> u32 result" where
  "System_GetHostIoValue s =
    (case Bus_ConvertToMemoryLocation (ucast (sys_m_HostIoAddress s)) (sys_m_Bus s) of
       Inl e \<Rightarrow> Inl e
     | Inr location \<Rightarrow> map_sum id le_value (Ram_Read 4 (scast (snd location)) (sys_m_Ram s)))"

definition System_GetPc :: "System \<Rightarrow> vaddr_t" where
  "System_GetPc s = Processor_GetPc (sys_m_Processor s)"

definition System_IsTrapEventExist :: "System \<Rightarrow> bool" where
  "System_IsTrapEventExist s = Processor_IsTrapEventExist (sys_m_Processor s)"

definition System_CopyTrapEvent :: "System \<Rightarrow> TrapEvent" where
  "System_CopyTrapEvent s = Processor_CopyTrapEvent (sys_m_Processor s)"

section \<open>Emulator\<close>

text \<open>
  The trace logger, which only reads the machine, is left out. A stop condition is the \<open>int\<close>
  of the flags \<open>HostIo\<close> (1) and \<open>Breakpoint\<close> (2); \<open>m_Cycle\<close> is an \<open>int\<close>.
\<close>

record Emulator =
  emu_m_System :: System
  emu_m_Cycle :: i32

definition EmulationStop_None :: i32 where "EmulationStop_None = 0"
definition EmulationStop_HostIo :: i32 where "EmulationStop_HostIo = 1"
definition EmulationStop_Breakpoint :: i32 where "EmulationStop_Breakpoint = 2"
definition CycleForever :: i32 where "CycleForever = - 1"

definition Emulator_new ::
  "System \<Rightarrow> vaddr_t option \<Rightarrow> vaddr_t \<Rightarrow> Emulator result" where
  "Emulator_new system hostIoAddress dtbAddress =
    (let system = (case hostIoAddress of None \<Rightarrow> system
       | Some address \<Rightarrow> System_SetHostIoAddress address system) in
     map_sum id (\<lambda>r. \<lparr>emu_m_System = snd r, emu_m_Cycle = 0\<rparr>)
       (System_SetDtbAddress dtbAddress system))"

definition IsStopConditionFilledPre :: "i32 \<Rightarrow> System \<Rightarrow> bool result" where
  "IsStopConditionFilledPre condition s =
    (if condition AND EmulationStop_HostIo \<noteq> 0 then
       map_sum id (\<lambda>value. value \<noteq> 0) (System_GetHostIoValue s)
     else Inr False)"

definition IsStopConditionFilledPost :: "i32 \<Rightarrow> System \<Rightarrow> bool" where
  "IsStopConditionFilledPost condition s =
    (condition AND EmulationStop_Breakpoint \<noteq> 0 \<and> System_IsTrapEventExist s \<and>
     (let trapEvent = System_CopyTrapEvent s in
      te_trapType trapEvent = Exception \<and>
      te_trapCause trapEvent = ExceptionType_value Breakpoint))"

text \<open>
  The loop; \<open>Some (Inl e)\<close> is a run that a failure ends. A run that nothing stops has no result: it is
  \<open>None\<close>, and so is a run from the increment on that overflows \<open>m_Cycle\<close>, which only a run with
  \<open>CycleForever\<close> reaches and after which nothing is defined. An overflow never ends a run.
\<close>

partial_function (option) Emulator_Process ::
  "Libraries \<Rightarrow> i32 \<Rightarrow> i32 \<Rightarrow> Emulator \<Rightarrow> (Emulator result) option" where
  "Emulator_Process libs condition cycle e =
    (if emu_m_Cycle e <s cycle \<or> cycle = CycleForever then
       (case IsStopConditionFilledPre condition (emu_m_System e) of
          Inl f \<Rightarrow> Some (Inl f)
        | Inr stop \<Rightarrow>
            if stop then Some (Inr e)
            else (case System_ProcessCycle libs (emu_m_System e) of
                Inl f \<Rightarrow> Some (Inl f)
              | Inr r \<Rightarrow>
                  if IsStopConditionFilledPost condition (snd r)
                  then Some (Inr (e\<lparr>emu_m_System := snd r\<rparr>))
                  else if emu_m_Cycle e = 0x7fffffff then None
                  else Emulator_Process libs condition cycle
                    (e\<lparr>emu_m_System := snd r, emu_m_Cycle := emu_m_Cycle e + 1\<rparr>)))
     else Some (Inr e))"

end
