(* ===== verification/Rafi_System_Ok.thy ===== *)
theory Rafi_System_Ok
  imports Rafi_Processor Rafi_Devices_Ok Rafi_Csr_Ok
begin

text \<open>
  The invariant of the machine: what every cycle, from any state whatever the program in
  memory does, leaves as the constructors made it.
\<close>

lemma map_sum_eq_Inr: "map_sum id f r = Inr y \<longleftrightarrow> (\<exists>x. r = Inr x \<and> y = f x)"
  by (cases r) auto

lemma map_sum_eq_Inl: "map_sum id f r = Inl e \<longleftrightarrow> r = Inl e"
  by (cases r) auto

section \<open>Control and status registers\<close>

text \<open>The register invariant without the privilege level, which a trap return can set to any value.\<close>

definition csr_wf :: "XLEN \<Rightarrow> Csr \<Rightarrow> bool" where
  "csr_wf x csr \<longleftrightarrow> csr_m_XLEN csr = x \<and> x \<noteq> XLEN128 \<and>
     csr_m_Status csr AND xstatus_WriteMask = csr_m_Status csr \<and>
     csr_m_InterruptEnable csr AND xie_MachineMask = csr_m_InterruptEnable csr \<and>
     csr_m_InterruptPending csr AND xip_MachineMask = csr_m_InterruptPending csr"

lemma csr_inv_wf: "csr_inv csr \<longleftrightarrow> csr_wf (csr_m_XLEN csr) csr \<and> csr_m_PrivilegeLevel csr \<noteq> Reserved"
  by (auto simp: csr_inv_def csr_wf_def)

lemma csr_wf_other [simp]:
  "csr_wf x (csr\<lparr>csr_m_MachineTrapVector := v\<rparr>) = csr_wf x csr"
  "csr_wf x (csr\<lparr>csr_m_SupervisorTrapVector := v\<rparr>) = csr_wf x csr"
  "csr_wf x (csr\<lparr>csr_m_UserTrapVector := v\<rparr>) = csr_wf x csr"
  "csr_wf x (csr\<lparr>csr_m_MachineExceptionDelegation := v\<rparr>) = csr_wf x csr"
  "csr_wf x (csr\<lparr>csr_m_SupervisorExceptionDelegation := v\<rparr>) = csr_wf x csr"
  "csr_wf x (csr\<lparr>csr_m_MachineInterruptDelegation := v\<rparr>) = csr_wf x csr"
  "csr_wf x (csr\<lparr>csr_m_SupervisorInterruptDelegation := v\<rparr>) = csr_wf x csr"
  "csr_wf x (csr\<lparr>csr_m_MachineCounterEnable := v\<rparr>) = csr_wf x csr"
  "csr_wf x (csr\<lparr>csr_m_SupervisorCounterEnable := v\<rparr>) = csr_wf x csr"
  "csr_wf x (csr\<lparr>csr_m_MachineScratch := v\<rparr>) = csr_wf x csr"
  "csr_wf x (csr\<lparr>csr_m_SupervisorScratch := v\<rparr>) = csr_wf x csr"
  "csr_wf x (csr\<lparr>csr_m_UserScratch := v\<rparr>) = csr_wf x csr"
  "csr_wf x (csr\<lparr>csr_m_MachineExceptionProgramCounter := v\<rparr>) = csr_wf x csr"
  "csr_wf x (csr\<lparr>csr_m_SupervisorExceptionProgramCounter := v\<rparr>) = csr_wf x csr"
  "csr_wf x (csr\<lparr>csr_m_UserExceptionProgramCounter := v\<rparr>) = csr_wf x csr"
  "csr_wf x (csr\<lparr>csr_m_MachineCause := v\<rparr>) = csr_wf x csr"
  "csr_wf x (csr\<lparr>csr_m_SupervisorCause := v\<rparr>) = csr_wf x csr"
  "csr_wf x (csr\<lparr>csr_m_UserCause := v\<rparr>) = csr_wf x csr"
  "csr_wf x (csr\<lparr>csr_m_MachineTrapValue := v\<rparr>) = csr_wf x csr"
  "csr_wf x (csr\<lparr>csr_m_SupervisorTrapValue := v\<rparr>) = csr_wf x csr"
  "csr_wf x (csr\<lparr>csr_m_UserTrapValue := v\<rparr>) = csr_wf x csr"
  "csr_wf x (csr\<lparr>csr_m_SupervisorAddressTranslationProtection := v\<rparr>) = csr_wf x csr"
  "csr_wf x (csr\<lparr>csr_m_CycleCounter := v\<rparr>) = csr_wf x csr"
  "csr_wf x (csr\<lparr>csr_m_TimeCounter := v\<rparr>) = csr_wf x csr"
  "csr_wf x (csr\<lparr>csr_m_InstructionRetiredCounter := v\<rparr>) = csr_wf x csr"
  "csr_wf x (csr\<lparr>csr_m_ProgramCounter := v\<rparr>) = csr_wf x csr"
  "csr_wf x (csr\<lparr>csr_m_FpCsr := f\<rparr>) = csr_wf x csr"
  "csr_wf x (csr\<lparr>csr_m_PrivilegeLevel := p\<rparr>) = csr_wf x csr"
  by (simp_all add: csr_wf_def)

lemma csr_wf_fields:
  assumes "csr_wf x csr"
  shows "csr_wf x (csr\<lparr>csr_m_Status := SetWithMask v xstatus_WriteMask (csr_m_Status csr)\<rparr>)"
    and "n AND xie_MachineMask = n \<Longrightarrow>
      csr_wf x (csr\<lparr>csr_m_InterruptEnable := SetWithMask v n (csr_m_InterruptEnable csr)\<rparr>)"
    and "n AND xip_MachineMask = n \<Longrightarrow>
      csr_wf x (csr\<lparr>csr_m_InterruptPending := SetWithMask v n (csr_m_InterruptPending csr)\<rparr>)"
  using assms by (simp_all add: csr_wf_def masked_SetWithMask)

lemma csr_wf_Write:
  assumes "csr_wf x csr"
  shows "csr_wf x (WriteMachineModeRegister addr v csr)"
    and "csr_wf x (WriteUserModeRegister addr v csr)"
    and "WriteSupervisorModeRegister addr v csr = Inr csr' \<Longrightarrow> csr_wf x csr'"
proof -
  have nx: "csr_m_XLEN csr \<noteq> XLEN128" using assms by (auto simp: csr_wf_def)
  note upd = assms csr_wf_fields [OF assms] mask_in_mask Csr_WriteStatus_def
  show "csr_wf x (WriteMachineModeRegister addr v csr)"
    unfolding WriteMachineModeRegister_def by (simp add: upd)
  show "csr_wf x (WriteUserModeRegister addr v csr)"
    unfolding WriteUserModeRegister_def by (simp add: upd)
  have "\<exists>c. WriteSupervisorModeRegister addr v csr = Inr c \<and> csr_wf x c"
    using nx unfolding WriteSupervisorModeRegister_def
    by (cases "csr_m_XLEN csr") (simp_all add: upd)
  then show "WriteSupervisorModeRegister addr v csr = Inr csr' \<Longrightarrow> csr_wf x csr'" by auto
qed

lemma preserves_Csr_Write [preserves_intros]:
  "preserves (csr_wf x) (Csr_WriteUInt64 addr v)" "preserves (csr_wf x) (Csr_WriteUInt32 addr w)"
proof -
  show "preserves (csr_wf x) (Csr_WriteUInt64 addr v)" for v
    by (rule preservesI)
       (auto simp: Csr_WriteUInt64_def map_sum_eq_Inr dest: csr_wf_Write split: if_splits)
  then show "preserves (csr_wf x) (Csr_WriteUInt32 addr w)" by (simp add: Csr_WriteUInt32_def)
qed

lemma masked_pending:
  fixes p :: u64
  assumes "p AND xip_MachineMask = p" "bit xip_MachineMask n"
  shows "SetMember (n, n) v p AND xip_MachineMask = SetMember (n, n) v p"
    and "SetMember (n, n) 0 p AND xip_MachineMask = SetMember (n, n) 0 p"
proof -
  have "bit p k \<Longrightarrow> bit xip_MachineMask k" for k
    using assms(1) by (metis bit_and_iff)
  with assms(2) show "SetMember (n, n) v p AND xip_MachineMask = SetMember (n, n) v p" for v
    by (intro bit_word_eqI) (auto simp: bit_simps not_less_eq_eq)
  from this [of 0] show "SetMember (n, n) 0 p AND xip_MachineMask = SetMember (n, n) 0 p" .
qed

definition pending_ok :: "u64 \<Rightarrow> bool" where
  "pending_ok p \<longleftrightarrow> p AND xip_MachineMask = p"

lemma pending_ok_SetMember [simp]:
  "pending_ok p \<Longrightarrow> n \<in> {0, 1, 3, 4, 5, 7, 8, 9, 11} \<Longrightarrow> pending_ok (SetMember (n, n) v p)"
  unfolding pending_ok_def by (rule masked_pending) (auto simp: mask_values)

lemma csr_wf_pending:
  "csr_wf x csr \<Longrightarrow> pending_ok (csr_m_InterruptPending csr)"
  "csr_wf x csr \<Longrightarrow> pending_ok p \<Longrightarrow> csr_wf x (Csr_WriteInterruptPending p csr)"
  by (simp_all add: csr_wf_def pending_ok_def Csr_WriteInterruptPending_def)

lemma preserves_UpdateCsr: "preserves (csr_wf x) (UpdateCsr req)"
proof (rule preservesI)
  fix csr u t assume wf: "csr_wf x csr" and "UpdateCsr req csr = Inr (u, t)"
  then obtain p where "t = Csr_WriteInterruptPending p csr" "pending_ok p"
    using csr_wf_pending(1) [OF wf]
    by (auto simp: UpdateCsr_def bindM_eq_Inr queryM_eq_Inr getM_def modifyM_def Let_def
        pending_bit_def Csr_ReadInterruptPending_def)
  with wf show "csr_wf x t" by (simp add: csr_wf_pending)
qed

section \<open>Register files\<close>

lemma IntRegFile_update_wf:
  assumes "intreg_wf f" "IntRegFile_update r g f = Inr f'"
  shows "intreg_wf f'"
proof -
  have "sint r = 0 \<Longrightarrow> r = 0" by (metis signed_eq_0_iff)
  then have "nat (sint r) = 0 \<Longrightarrow> 0 \<le> sint r \<Longrightarrow> r = 0" by simp
  with assms show ?thesis
    by (auto simp: IntRegFile_update_def array_get_def array_set_def intreg_wf_def map_sum_eq_Inr
        nth_list_update split: if_splits sum.splits)
qed

lemma preserves_x_Write [preserves_intros]:
  "preserves intreg_wf (updateM (IntRegFile_WriteUInt64 r v))"
  "preserves intreg_wf (updateM (IntRegFile_WriteInt64 r v))"
  "preserves intreg_wf (updateM (IntRegFile_WriteUInt32 r w))"
  "preserves intreg_wf (updateM (IntRegFile_WriteInt32 r w))"
  by (auto intro!: preserves_updateM dest: IntRegFile_update_wf
      simp: IntRegFile_WriteUInt64_def IntRegFile_WriteInt64_def IntRegFile_WriteUInt32_def
        IntRegFile_WriteInt32_def)

lemma preserves_f_Write [preserves_intros]:
  "preserves fpreg_wf (updateM (FpRegFile_WriteUInt64 r v))"
  "preserves fpreg_wf (updateM (FpRegFile_WriteUInt32 r w))"
  by (auto intro!: preserves_updateM simp: FpRegFile_WriteUInt64_def FpRegFile_WriteUInt32_def
      array_set_def fpreg_wf_def map_sum_eq_Inr split: if_splits)

section \<open>The invariant\<close>

definition sys_inv :: "XLEN \<Rightarrow> u64 \<Rightarrow> System \<Rightarrow> bool" where
  "sys_inv x ramSize s \<longleftrightarrow>
     sys_m_Bus s = System_bus (Ram_new ramSize) Rom_new \<and> ram_m_Capacity (sys_m_Ram s) = ramSize \<and>
     Plic_wf (sys_m_Plic s) \<and> csr_wf x (sys_csr s) \<and>
     intreg_wf (cpu_m_IntRegFile (sys_m_Processor s)) \<and>
     fpreg_wf (cpu_m_FpRegFile (sys_m_Processor s)) \<and>
     trap_m_XLEN (cpu_m_TrapProcessor (sys_m_Processor s)) = x \<and>
     mau_m_XLEN (cpu_m_MemAccessUnit (sys_m_Processor s)) = x \<and>
     cpu_m_Decoder (sys_m_Processor s) = x"

text \<open>The registers and the trap processor, as the trap routines see them.\<close>

definition trap_wf :: "XLEN \<Rightarrow> Csr \<times> TrapProcessor \<Rightarrow> bool" where
  "trap_wf x p \<longleftrightarrow> csr_wf x (fst p) \<and> trap_m_XLEN (snd p) = x"

definition intc_wf :: "XLEN \<Rightarrow> Csr \<times> InterruptController \<Rightarrow> bool" where
  "intc_wf x p \<longleftrightarrow> csr_wf x (fst p)"

lemma preserves_liftings [preserves_intros]:
  "preserves (csr_wf x) c \<Longrightarrow> preserves (sys_inv x n) (on_Csr c)"
  "preserves (sys_inv x n) (on_AtomicManager a)"
  "preserves intreg_wf i \<Longrightarrow> preserves (sys_inv x n) (on_IntRegFile i)"
  "preserves fpreg_wf f \<Longrightarrow> preserves (sys_inv x n) (on_FpRegFile f)"
  "preserves (\<lambda>u. mau_m_XLEN u = x) u \<Longrightarrow> preserves (sys_inv x n) (on_MemAccessUnit u)"
  "preserves (trap_wf x) t \<Longrightarrow> preserves (sys_inv x n) (on_TrapProcessor t)"
  "preserves (intc_wf x) ic \<Longrightarrow> preserves (sys_inv x n) (on_InterruptController ic)"
  unfolding liftings
  by (rule preserves_zoomM preserves_lifted, assumption?,
      simp_all add: sys_inv_def trap_wf_def intc_wf_def)+

lemma preserves_on_csr [preserves_intros]:
  "preserves (csr_wf x) c \<Longrightarrow> preserves (trap_wf x) (on_csr c)"
  "preserves (csr_wf x) c \<Longrightarrow> preserves (intc_wf x) (on_csr c)"
  unfolding on_csr_def
  by (rule preserves_zoomM, assumption, simp_all add: trap_wf_def intc_wf_def)+

lemma preserves_case_sum [preserves_intros]:
  "(\<And>a. preserves I (f a)) \<Longrightarrow> (\<And>b. preserves I (g b)) \<Longrightarrow>
   preserves I (case r of Inl a \<Rightarrow> f a | Inr b \<Rightarrow> g b)"
  by (cases r) auto

lemma preserves_case_level [preserves_intros]:
  "preserves I a \<Longrightarrow> preserves I b \<Longrightarrow> preserves I c \<Longrightarrow> preserves I d \<Longrightarrow>
   preserves I (case l of User \<Rightarrow> a | Supervisor \<Rightarrow> b | Reserved \<Rightarrow> c | Machine \<Rightarrow> d)"
  by (cases l) auto

lemma preserves_csr_modify [preserves_intros]:
  "preserves (csr_wf x) (modifyM (Csr_SetProgramCounter pc))"
  "preserves (csr_wf x) (modifyM (Csr_SetPrivilegeLevel p))"
  "preserves (csr_wf x) (modifyM (Csr_WriteFpCsr f))"
  "preserves (csr_wf x) (modifyM (Csr_WriteStatus v))"
  "preserves (csr_wf x) (modifyM Csr_ProcessCycle)"
  by (simp_all add: preserves_modifyM Csr_SetProgramCounter_def Csr_SetPrivilegeLevel_def
      Csr_WriteFpCsr_def Csr_WriteStatus_def Csr_ProcessCycle_def csr_wf_fields)

lemma preserves_trap_routines [preserves_intros]:
  "preserves (trap_wf x) (ProcessException trap)"
  "preserves (trap_wf x) (ProcessInterrupt ty pc)"
  "preserves (trap_wf x) (ProcessTrapReturn level)"
  unfolding ProcessException_def ProcessInterrupt_def ProcessTrapReturn_def ProcessTrapEnter_def
    delegate_level_def trap_save_def trap_restore_def read_csr_def write_csr_def Let_def
  by (intro preserves_intros preserves_modifyM; simp add: trap_wf_def)+

lemma preserves_Update [preserves_intros]:
  "preserves (intc_wf x) (InterruptController_Update req)"
  unfolding InterruptController_Update_def Let_def
  by (intro preserves_intros preserves_modifyM preserves_UpdateCsr; simp add: intc_wf_def)

section \<open>Memory\<close>

lemma clint_write_wf:
  assumes "csr_wf x csr" "Clint_Write bs a (csr, clint) = Inr (csr', clint')"
  shows "csr_wf x csr'"
  using assms
  by (auto simp: Clint_Write_def Clint_WriteMsip_def Clint_WriteTime_def map_sum_eq_Inr Let_def
      Csr_WriteTime_def Csr_ReadInterruptPending_def csr_wf_pending split: if_splits)

lemma preserves_device_Write [preserves_intros]:
  "preserves (sys_inv x n) (memory_Write m bs a)"
  "preserves (sys_inv x n) (io_Write io bs a)"
proof -
  show "preserves (sys_inv x n) (memory_Write m bs a)"
    by (cases m; rule preservesI)
       (auto simp: memory_Write_def zoomM_eq_Inr updateM_eq_Inr sys_inv_def Ram_Write_def
         Ram_access_def Rom_Write_def split: if_splits)
  have plic: "Plic_Write bs a plic = Inr plic' \<Longrightarrow> Plic_wf plic \<Longrightarrow> Plic_wf plic'" for plic plic'
    using plic.wr_answer [of plic bs a] by auto
  show "preserves (sys_inv x n) (io_Write io bs a)"
    by (cases io; rule preservesI)
       (auto simp: io_Write_def zoomM_eq_Inr updateM_eq_Inr sys_inv_def put_clint_def liftM_eq_Inr
         dest: clint_write_wf plic)
qed

lemma preserves_bus [preserves_intros]:
  "preserves (sys_inv x n) (Bus_Write bs a)"
  "preserves (sys_inv x n) (Bus_WriteUInt8 a v8)"
  "preserves (sys_inv x n) (Bus_WriteUInt16 a v16)"
  "preserves (sys_inv x n) (Bus_WriteUInt32 a v32)"
  "preserves (sys_inv x n) (Bus_WriteUInt64 a v64)"
proof -
  show *: "preserves (sys_inv x n) (Bus_Write bs a)" for bs
  proof (rule preservesI)
    fix s u t assume inv: "sys_inv x n s" and "Bus_Write bs a s = Inr (u, t)"
    then show "sys_inv x n t"
      by (auto simp: Bus_Write_def dest: preservesD [OF preserves_device_Write(1) inv]
          preservesD [OF preserves_device_Write(2) inv] split: if_splits sum.splits)
  qed
  show "preserves (sys_inv x n) (Bus_WriteUInt8 a v8)" "preserves (sys_inv x n) (Bus_WriteUInt16 a v16)"
    "preserves (sys_inv x n) (Bus_WriteUInt32 a v32)" "preserves (sys_inv x n) (Bus_WriteUInt64 a v64)"
    unfolding Bus_WriteUInt8_def Bus_WriteUInt16_def Bus_WriteUInt32_def Bus_WriteUInt64_def
    by (rule *)+
qed

lemma preserves_AddEvent [preserves_intros]: "preserves (sys_inv x n) (AddEvent ty sz v va pa)"
  unfolding AddEvent_def by (intro preserves_intros preserves_modifyM) simp

lemma preserves_trapped_or [preserves_intros]:
  "preserves I m \<Longrightarrow> preserves I k \<Longrightarrow> preserves I (trapped_or m k)"
  unfolding trapped_or_def by (intro preserves_intros)

lemma preserves_case_translation [preserves_intros]:
  "(\<And>t. preserves I (f t)) \<Longrightarrow> (\<And>p. preserves I (g p)) \<Longrightarrow>
   preserves I (case r of Trapped t \<Rightarrow> f t | Address p \<Rightarrow> g p)"
  by (cases r) auto

lemma preserves_case_mode [preserves_intros]:
  "preserves I a \<Longrightarrow> preserves I b \<Longrightarrow> preserves I c \<Longrightarrow> preserves I d \<Longrightarrow> preserves I e \<Longrightarrow>
   preserves I f \<Longrightarrow> (\<And>v. preserves I (g v)) \<Longrightarrow>
   preserves I (case m of Bare \<Rightarrow> a | Sv32 \<Rightarrow> b | Sv39 \<Rightarrow> c | Sv48 \<Rightarrow> d | Sv57 \<Rightarrow> e | Sv64 \<Rightarrow> f
     | Mode_other v \<Rightarrow> g v)"
  by (cases m) auto

lemma preserves_CheckTrap [preserves_intros]:
  "preserves I (MemoryAccessUnit_CheckTrap ty pc a)"
  unfolding MemoryAccessUnit_CheckTrap_def CheckTrapSv32_def CheckTrapSv39_def CheckTrapSv48_def
    CheckTrapSv57_def CheckTrapSv64_def translation_mode_def Let_def
  by (intro preserves_intros)

lemma preserves_Translate [preserves_intros]: "preserves (sys_inv x n) (Translate ty a pc)"
  unfolding Translate_def TranslateSv32_def TranslateSv39_def TranslateSv48_def
    TranslateSv57_def TranslateSv64_def translation_mode_def UpdateEntry32_def UpdateEntry64_def
    Let_def
  by (intro preserves_intros)

lemma preserves_access [preserves_intros]:
  "preserves (sys_inv x n) (LoadUInt8 a)" "preserves (sys_inv x n) (LoadUInt16 a)"
  "preserves (sys_inv x n) (LoadUInt32 a)" "preserves (sys_inv x n) (LoadUInt64 a)"
  "preserves (sys_inv x n) (StoreUInt8 a v8)" "preserves (sys_inv x n) (StoreUInt16 a v16)"
  "preserves (sys_inv x n) (StoreUInt32 a v32)" "preserves (sys_inv x n) (StoreUInt64 a v64)"
  "preserves (sys_inv x n) (FetchUInt16 a p)" "preserves (sys_inv x n) (FetchUInt32 a p)"
  unfolding LoadUInt8_def LoadUInt16_def LoadUInt32_def LoadUInt64_def StoreUInt8_def
    StoreUInt16_def StoreUInt32_def StoreUInt64_def FetchUInt16_def FetchUInt32_def
    access_address_def
  by (intro preserves_intros)+

section \<open>Execution\<close>

lemma preserves_softfloat [preserves_intros]:
  "preserves (sys_inv x n) (fp_call f)" "preserves (sys_inv x n) (softfloat f)"
proof -
  show *: "preserves (sys_inv x n) (softfloat f)" for f :: "u8 \<Rightarrow> 'a \<times> u8"
    by (rule preservesI) (auto simp: softfloat_def sys_inv_def split: prod.splits)
  have "preserves (sys_inv x n) clear_flags"
    unfolding clear_flags_def by (rule preserves_modifyM) (simp add: sys_inv_def)
  then show "preserves (sys_inv x n) (fp_call f)"
    unfolding fp_call_def by (intro preserves_bindM *)
qed

lemma preserves_ScopedFpRound [preserves_intros]:
  "preserves (sys_inv x n) m \<Longrightarrow> preserves (sys_inv x n) (ScopedFpRound r m)"
  unfolding ScopedFpRound_def by (intro preserves_intros preserves_modifyM; simp add: sys_inv_def)

lemma preserves_executor_base [preserves_intros]:
  "preserves (sys_inv x n) (ReadStackPointer32)"
  "preserves (sys_inv x n) (ReadStackPointer64)"
  "preserves (sys_inv x n) (WriteLinkRegister32 v)"
  "preserves (sys_inv x n) (WriteLinkRegister64 w)"
  "preserves (sys_inv x n) (NotifyFpDirty)"
  "preserves (sys_inv x n) (UpdateFpCsr)"
  "preserves (sys_inv x n) (jump_to j pc imm)"
  "preserves (sys_inv x n) (round_mode r)"
  unfolding
    ReadStackPointer32_def ReadStackPointer64_def WriteLinkRegister32_def WriteLinkRegister64_def
    NotifyFpDirty_def UpdateFpCsr_def jump_to_def round_mode_def
  by (intro preserves_intros)+

lemma preserves_RV32I [preserves_intros]:
  "preserves (sys_inv x n) (ProcessRV32I op pc)"
  unfolding
    ProcessRV32I_Lui_def ProcessRV32I_Auipc_def ProcessRV32I_Jal_def ProcessRV32I_Jalr_def
    ProcessRV32I_Branch_def ProcessRV32I_Load_def ProcessRV32I_Store_def ProcessRV32I_Alu_def
    ProcessRV32I_AluImm_def ProcessRV32I_Shift_def ProcessRV32I_ShiftImm_def
    ProcessRV32I_Priv_def ProcessRV32I_Fence_def ProcessRV32I_Csr_def ProcessRV32I_CsrImm_def
    ProcessRV32I_def Let_def
  by (intro preserves_intros)+

lemma preserves_RV32M [preserves_intros]:
  "preserves (sys_inv x n) (ProcessRV32M op)"
  unfolding
    ProcessRV32M_def Let_def
  by (intro preserves_intros)+

lemma preserves_RV32A [preserves_intros]:
  "preserves (sys_inv x n) (ProcessRV32A op)"
  unfolding
    ProcessRV32A_Atomic_def ProcessRV32A_Load_def ProcessRV32A_Store_def ProcessRV32A_def Let_def
  by (intro preserves_intros)+

lemma preserves_RV32C [preserves_intros]:
  "preserves (sys_inv x n) (ProcessRV32C op pc)"
  unfolding
    ProcessRV32C_Alu_def ProcessRV32C_AluImm_def ProcessRV32C_Branch_def
    ProcessRV32C_ADDI4SPN_def ProcessRV32C_ADDI16SP_def ProcessRV32C_FLD_def
    ProcessRV32C_FLDSP_def ProcessRV32C_FLW_def ProcessRV32C_FLWSP_def ProcessRV32C_FSD_def
    ProcessRV32C_FSDSP_def ProcessRV32C_FSW_def ProcessRV32C_FSWSP_def ProcessRV32C_J_def
    ProcessRV32C_JAL_def ProcessRV32C_JR_def ProcessRV32C_JALR_def ProcessRV32C_LW_def
    ProcessRV32C_LWSP_def ProcessRV32C_SW_def ProcessRV32C_SWSP_def ProcessRV32C_def Let_def
  by (intro preserves_intros)+

lemma preserves_RV64I [preserves_intros]:
  "preserves (sys_inv x n) (ProcessRV64I op pc)"
  unfolding
    ProcessRV64I_Lui_def ProcessRV64I_Auipc_def ProcessRV64I_Jal_def ProcessRV64I_Jalr_def
    ProcessRV64I_Branch_def ProcessRV64I_Load_def ProcessRV64I_Store_def ProcessRV64I_Alu_def
    ProcessRV64I_AluImm_def ProcessRV64I_Shift_def ProcessRV64I_ShiftImm_def
    ProcessRV64I_Priv_def ProcessRV64I_Fence_def ProcessRV64I_Csr_def ProcessRV64I_CsrImm_def
    ProcessRV64I_def Let_def
  by (intro preserves_intros)+

lemma preserves_RV64M [preserves_intros]:
  "preserves (sys_inv x n) (ProcessRV64M libs op)"
  unfolding
    ProcessRV64M_def Let_def
  by (intro preserves_intros)+

lemma preserves_RV64A [preserves_intros]:
  "preserves (sys_inv x n) (ProcessRV64A op)"
  unfolding
    ProcessRV64A_Atomic32_def ProcessRV64A_Atomic64_def ProcessRV64A_Load32_def
    ProcessRV64A_Load64_def ProcessRV64A_Store32_def ProcessRV64A_Store64_def ProcessRV64A_def
    Let_def
  by (intro preserves_intros)+

lemma preserves_RV64C [preserves_intros]:
  "preserves (sys_inv x n) (ProcessRV64C op pc)"
  unfolding
    ProcessRV64C_Alu_def ProcessRV64C_AluImm_def ProcessRV64C_Branch_def
    ProcessRV64C_ADDI4SPN_def ProcessRV64C_ADDI16SP_def ProcessRV64C_FLD_def
    ProcessRV64C_FLDSP_def ProcessRV64C_FSD_def ProcessRV64C_FSDSP_def ProcessRV64C_J_def
    ProcessRV64C_JR_def ProcessRV64C_JALR_def ProcessRV64C_LD_def ProcessRV64C_LDSP_def
    ProcessRV64C_LW_def ProcessRV64C_LWSP_def ProcessRV64C_SD_def ProcessRV64C_SDSP_def
    ProcessRV64C_SW_def ProcessRV64C_SWSP_def ProcessRV64C_def Let_def
  by (intro preserves_intros)+

lemma preserves_fp_api [preserves_intros]:
  "preserves (sys_inv x n) (Min32 sf va_0 va_1)"
  "preserves (sys_inv x n) (Min64 sf vb_0 vb_1)"
  "preserves (sys_inv x n) (Max32 sf va_0 va_1)"
  "preserves (sys_inv x n) (Max64 sf vb_0 vb_1)"
  "preserves (sys_inv x n) (Add32 sf va_0 va_1)"
  "preserves (sys_inv x n) (Add64 sf vb_0 vb_1)"
  "preserves (sys_inv x n) (Sub32 sf va_0 va_1)"
  "preserves (sys_inv x n) (Sub64 sf vb_0 vb_1)"
  "preserves (sys_inv x n) (Mul32 sf va_0 va_1)"
  "preserves (sys_inv x n) (Mul64 sf vb_0 vb_1)"
  "preserves (sys_inv x n) (Div32 sf va_0 va_1)"
  "preserves (sys_inv x n) (Div64 sf vb_0 vb_1)"
  "preserves (sys_inv x n) (Sqrt32 sf va_0)"
  "preserves (sys_inv x n) (Sqrt64 sf vb_0)"
  "preserves (sys_inv x n) (Eq32 sf va_0 va_1)"
  "preserves (sys_inv x n) (Eq64 sf vb_0 vb_1)"
  "preserves (sys_inv x n) (Le32 sf va_0 va_1)"
  "preserves (sys_inv x n) (Le64 sf vb_0 vb_1)"
  "preserves (sys_inv x n) (Lt32 sf va_0 va_1)"
  "preserves (sys_inv x n) (Lt64 sf vb_0 vb_1)"
  "preserves (sys_inv x n) (MulAdd32 sf va_0 va_1 va_2)"
  "preserves (sys_inv x n) (MulAdd64 sf vb_0 vb_1 vb_2)"
  "preserves (sys_inv x n) (MulSub32 sf va_0 va_1 va_2)"
  "preserves (sys_inv x n) (MulSub64 sf vb_0 vb_1 vb_2)"
  "preserves (sys_inv x n) (NegMulAdd32 sf va_0 va_1 va_2)"
  "preserves (sys_inv x n) (NegMulAdd64 sf vb_0 vb_1 vb_2)"
  "preserves (sys_inv x n) (NegMulSub32 sf va_0 va_1 va_2)"
  "preserves (sys_inv x n) (NegMulSub64 sf vb_0 vb_1 vb_2)"
  "preserves (sys_inv x n) (DoubleToInt32 sf vb_0 vc_1)"
  "preserves (sys_inv x n) (DoubleToInt64 sf vb_0 vc_1)"
  "preserves (sys_inv x n) (DoubleToUInt32 sf vb_0 vc_1)"
  "preserves (sys_inv x n) (DoubleToUInt64 sf vb_0 vc_1)"
  "preserves (sys_inv x n) (FloatToInt32 sf va_0 vc_1)"
  "preserves (sys_inv x n) (FloatToInt64 sf va_0 vc_1)"
  "preserves (sys_inv x n) (FloatToUInt32 sf va_0 vc_1)"
  "preserves (sys_inv x n) (FloatToUInt64 sf va_0 vc_1)"
  "preserves (sys_inv x n) (Int32ToDouble sf vc_0)"
  "preserves (sys_inv x n) (Int64ToDouble sf vd_0)"
  "preserves (sys_inv x n) (UInt32ToDouble sf va_0)"
  "preserves (sys_inv x n) (UInt64ToDouble sf vb_0)"
  "preserves (sys_inv x n) (Int32ToFloat sf vc_0)"
  "preserves (sys_inv x n) (Int64ToFloat sf vd_0)"
  "preserves (sys_inv x n) (UInt32ToFloat sf va_0)"
  "preserves (sys_inv x n) (UInt64ToFloat sf vb_0)"
  "preserves (sys_inv x n) (DoubleToFloat sf vb_0)"
  "preserves (sys_inv x n) (FloatToDouble sf va_0)"
  unfolding
    Min32_def Min64_def Max32_def Max64_def Add32_def Add64_def Sub32_def Sub64_def Mul32_def
    Mul64_def Div32_def Div64_def Sqrt32_def Sqrt64_def Eq32_def Eq64_def Le32_def Le64_def
    Lt32_def Lt64_def MulAdd32_def MulAdd64_def MulSub32_def MulSub64_def NegMulAdd32_def
    NegMulAdd64_def NegMulSub32_def NegMulSub64_def DoubleToInt32_def DoubleToInt64_def
    DoubleToUInt32_def DoubleToUInt64_def FloatToInt32_def FloatToInt64_def FloatToUInt32_def
    FloatToUInt64_def Int32ToDouble_def Int64ToDouble_def UInt32ToDouble_def UInt64ToDouble_def
    Int32ToFloat_def Int64ToFloat_def UInt32ToFloat_def UInt64ToFloat_def DoubleToFloat_def
    FloatToDouble_def
  by (intro preserves_intros)+

lemma preserves_RVF [preserves_intros]:
  "preserves (sys_inv x n) (ProcessRVF sf op)"
  unfolding
    ProcessRVF_MulAdd_def ProcessRVF_Compute_def ProcessRVF_Compare_def ProcessRVF_Class_def
    ProcessRVF_MoveToInt_def ProcessRVF_MoveToFp_def ProcessRVF_ConvertToInt32_def
    ProcessRVF_ConvertToInt64_def ProcessRVF_ConvertSign_def ProcessRV32F_Load_def
    ProcessRV32F_Store_def ProcessRV64F_Load_def ProcessRV64F_Store_def ProcessRVF_def Let_def
  by (intro preserves_intros)+

lemma preserves_RVD [preserves_intros]:
  "preserves (sys_inv x n) (ProcessRVD sf op)"
  unfolding
    ProcessRVD_MulAdd_def ProcessRVD_Compute_def ProcessRVD_Compare_def ProcessRVD_Class_def
    ProcessRVD_MoveToInt_def ProcessRVD_MoveToFp_def ProcessRVD_ConvertToInt32_def
    ProcessRVD_ConvertToInt64_def ProcessRVD_ConvertFp32ToFp64_def
    ProcessRVD_ConvertFp64ToFp32_def ProcessRVD_ConvertSign_def ProcessRV32D_Load_def
    ProcessRV32D_Store_def ProcessRV64D_Load_def ProcessRV64D_Store_def ProcessRVD_def Let_def
  by (intro preserves_intros)+

lemma preserves_ProcessOp [preserves_intros]: "preserves (sys_inv x n) (ProcessOp libs op pc)"
  unfolding ProcessOp_def by (intro preserves_intros)

section \<open>Cycles\<close>

lemma preserves_checks [preserves_intros]:
  "preserves (sys_inv x n) (PreCheckTrap op pc insn)" "preserves (sys_inv x n) (PostCheckTrap op pc)"
proof -
  have csr: "preserves (csr_wf x) (Csr_CheckTrap addr w p i)" for addr w p i
    unfolding Csr_CheckTrap_def Let_def
    by (rule preservesI, erule (1) preservesD [rotated]) (intro preserves_intros)
  show "preserves (sys_inv x n) (PreCheckTrap op pc insn)" "preserves (sys_inv x n) (PostCheckTrap op pc)"
    unfolding
    PreCheckTrapRV32_Load_def PreCheckTrapRV32_Store_def PreCheckTrapRV32_LoadReserved_def
    PreCheckTrapRV32_StoreConditional_def PreCheckTrapRV32_Atomic_def PreCheckTrapRV64_Load_def
    PreCheckTrapRV64_Store_def PreCheckTrapRV64_LoadReserved_def
    PreCheckTrapRV64_StoreConditional_def PreCheckTrapRV64_Atomic_def PreCheckTrap_Csr_def
    PreCheckTrap_CsrImm_def PreCheckTrap_Wfi_def PreCheckTrap_Fence_def PreCheckTrap_Priv_def
    PreCheckTrapRV32C_FLD_def PreCheckTrapRV32C_FLDSP_def PreCheckTrapRV32C_FLW_def
    PreCheckTrapRV32C_FLWSP_def PreCheckTrapRV32C_FSD_def PreCheckTrapRV32C_FSDSP_def
    PreCheckTrapRV32C_FSW_def PreCheckTrapRV32C_FSWSP_def PreCheckTrapRV32C_LW_def
    PreCheckTrapRV32C_LWSP_def PreCheckTrapRV32C_SW_def PreCheckTrapRV32C_SWSP_def
    PreCheckTrapRV64C_FLD_def PreCheckTrapRV64C_FLDSP_def PreCheckTrapRV64C_FSD_def
    PreCheckTrapRV64C_FSDSP_def PreCheckTrapRV64C_LD_def PreCheckTrapRV64C_LDSP_def
    PreCheckTrapRV64C_LW_def PreCheckTrapRV64C_LWSP_def PreCheckTrapRV64C_SD_def
    PreCheckTrapRV64C_SDSP_def PreCheckTrapRV64C_SW_def PreCheckTrapRV64C_SWSP_def
    PreCheckTrapRV32C_def PreCheckTrapRV64C_def by_class_def PreCheckTrap_opcode_def
    PreCheckTrap_def PostCheckTrapForEcall_def PostCheckTrap_def IsFpEnabled_def Let_def
    by (intro preserves_intros csr)+
qed

lemma preserves_case_fetched [preserves_intros]:
  "(\<And>t. preserves I (f t)) \<Longrightarrow> (\<And>i. preserves I (g i)) \<Longrightarrow>
   preserves I (case r of FetchTrap t \<Rightarrow> f t | Insn i \<Rightarrow> g i)"
  by (cases r) auto

lemma preserves_Processor_modify [preserves_intros]:
  "preserves (sys_inv x n) (on_Processor ClearOpEvent)"
  "preserves (sys_inv x n) (on_Processor (cpu_m_TrapProcessor_update TrapProcessor_ClearEvent))"
  "preserves (sys_inv x n) (on_Processor (cpu_m_MemAccessUnit_update MemoryAccessUnit_ClearEvent))"
  "preserves (sys_inv x n) (on_Processor (SetOpEvent pc level))"
  by (rule preserves_modifyM, simp add: sys_inv_def ClearOpEvent_def TrapProcessor_ClearEvent_def
      MemoryAccessUnit_ClearEvent_def SetOpEvent_def SetOpEvent_full_def)+

lemma preserves_Processor_ProcessCycle:
  "preserves (sys_inv x n) (Processor_ProcessCycle libs)"
  unfolding Processor_ProcessCycle_def begin_cycle_def execute_insn_def Processor_Fetch_def
    fetch_at_def Let_def
  by (intro preserves_intros)

lemma preserves_System_ProcessCycle: "preserves (sys_inv x n) (System_ProcessCycle libs)"
  unfolding System_ProcessCycle_def
  by (intro preserves_bindM preserves_Processor_ProcessCycle preserves_modifyM)
     (simp_all add: sys_inv_def split: prod.splits)

section \<open>Reachable states\<close>

text \<open>
  The states of a machine built by the constructor, after any number of cycles and of the
  operations its owner has: loading files, setting the addresses, writing memory.
\<close>

inductive reachable :: "Libraries \<Rightarrow> XLEN \<Rightarrow> vaddr_t \<Rightarrow> u64 \<Rightarrow> System \<Rightarrow> bool"
  for libs xlen pc ramSize where
  start: "System_new xlen pc ramSize anyInterrupt anyTrapEvent anyOpEvent = Inr s \<Longrightarrow>
    reachable libs xlen pc ramSize s"
| cycle: "reachable libs xlen pc ramSize s \<Longrightarrow> System_ProcessCycle libs s = Inr ((), t) \<Longrightarrow>
    reachable libs xlen pc ramSize t"
| load_file: "reachable libs xlen pc ramSize s \<Longrightarrow>
    System_LoadFileToMemory content address s = Inr ((), t) \<Longrightarrow> reachable libs xlen pc ramSize t"
| set_dtb: "reachable libs xlen pc ramSize s \<Longrightarrow> System_SetDtbAddress address s = Inr ((), t) \<Longrightarrow>
    reachable libs xlen pc ramSize t"
| set_host_io: "reachable libs xlen pc ramSize s \<Longrightarrow>
    reachable libs xlen pc ramSize (System_SetHostIoAddress address s)"
| write_memory: "reachable libs xlen pc ramSize s \<Longrightarrow> System_WriteMemory bs address s = Inr ((), t) \<Longrightarrow>
    reachable libs xlen pc ramSize t"

lemma Plic_wf_new [simp]: "Plic_wf Plic_new"
  by (simp add: Plic_wf_def Plic_new_def)

lemma System_new_inv:
  assumes "System_new xlen pc ramSize i t e = Inr s"
  shows "sys_inv xlen ramSize s"
proof -
  obtain csr where csr: "Csr_new xlen pc = Inr csr"
    using assms by (auto simp: System_new_def Processor_new_def map_sum_eq_Inr Let_def)
  have "csr_inv csr" "csr_m_XLEN csr = xlen"
    using csr csr_inv_init by (auto simp: Csr_new_def map_sum_eq_Inr)
  with assms csr show ?thesis
    by (auto simp: System_new_def Processor_new_def Let_def sys_inv_def csr_inv_wf
        intreg_wf_new fpreg_wf_new TrapProcessor_new_def MemoryAccessUnit_new_def Ram_new_def)
qed

lemma preserves_owner:
  "preserves (sys_inv x n) (System_LoadFileToMemory content a)"
  "preserves (sys_inv x n) (System_SetDtbAddress b)"
  "preserves (sys_inv x n) (System_WriteMemory bs a)"
proof -
  have "preserves (sys_inv x n) (memory_LoadFile m content off)" for m off
    by (cases m; rule preservesI)
       (auto simp: memory_LoadFile_def zoomM_eq_Inr updateM_eq_Inr sys_inv_def Ram_LoadFile_def
         map_sum_eq_Inr)
  then show "preserves (sys_inv x n) (System_LoadFileToMemory content a)"
    unfolding System_LoadFileToMemory_def by (intro preserves_intros)
qed (unfold System_SetDtbAddress_def Processor_SetIntReg_def System_WriteMemory_def,
    (intro preserves_intros)+)

lemma reachable_inv:
  assumes "reachable libs xlen pc ramSize s"
  shows "sys_inv xlen ramSize s"
  using assms
proof (induction rule: reachable.induct)
  case start then show ?case by (rule System_new_inv)
next
  case cycle then show ?case by (blast dest: preservesD [OF preserves_System_ProcessCycle])
next
  case load_file then show ?case by (blast dest: preservesD [OF preserves_owner(1)])
next
  case set_dtb then show ?case by (blast dest: preservesD [OF preserves_owner(2)])
next
  case set_host_io then show ?case by (simp add: sys_inv_def System_SetHostIoAddress_def)
next
  case write_memory then show ?case by (blast dest: preservesD [OF preserves_owner(3)])
qed

lemma reachable_exists: "\<exists>s. reachable libs XLEN64 0x1000 0x4000000 s"
proof -
  obtain s where "System_new XLEN64 0x1000 0x4000000 UserSoftware zero_TrapEvent
      \<lparr>oe_opId = 0, oe_insn = 0, oe_privilegeLevel = User, oe_virtualPc = 0, oe_physicalPc = 0\<rparr> = Inr s"
    by (simp add: System_new_def Processor_new_def Csr_new_def Csr_init_ISA_def Let_def)
  then show ?thesis by (blast intro: reachable.start)
qed

lemma reachable_width: "reachable libs xlen pc n s \<Longrightarrow> xlen \<noteq> XLEN128"
  by (induction rule: reachable.induct)
     (auto simp: System_new_def Processor_new_def Csr_new_def Csr_init_ISA_def Let_def)

text \<open>
  C4: the invariant of the machine. In every state that a machine can reach, running any
  program under any combination of owner operations, the bus still has the address map and the
  RAM the size of the constructor, \<open>x0\<close> holds zero and both register files have their 32
  registers, the masked control and status registers hold no bit outside their masks, the
  arrays of the Plic have their sizes, and the width that the registers, the trap processor,
  the memory access unit and the decoder each store is the one the machine was built with.
\<close>

theorem machine_invariant:
  assumes "reachable libs xlen pc ramSize s"
  shows "sys_inv xlen ramSize s"
  using assms by (rule reachable_inv)

theorem machine_invariant_witness:
  "\<exists>libs s. reachable libs XLEN64 0x1000 0x4000000 s \<and> sys_inv XLEN64 0x4000000 s"
  using reachable_exists machine_invariant by blast

end
