(* ===== verification/Rafi_Failures_Ok.thy ===== *)
theory Rafi_Failures_Ok
  imports Rafi_System_Ok Rafi_Decoder_Ok
begin

text \<open>
  Which exceptions a cycle cannot end with. Every handler of the executor takes the operands of
  its instruction with \<open>std::get\<close>, which throws \<open>std::bad_variant_access\<close> when the decoder has
  stored another variant (\<open>BadVariant\<close> in the model). The decoder and the executor are two
  files that agree on nothing but a convention; this theory shows that they agree on every
  instruction. The judgement \<open>avoids E m\<close> says that the action \<open>m\<close> never fails with a member
  of \<open>E\<close>; its rules follow the operators of the actions, so the handlers are checked by
  unfolding them, and each use of \<open>std::get\<close> asks for the format of the opcodes its
  \<open>switch\<close> case lists.
\<close>

section \<open>Actions that avoid a failure\<close>

definition avoids :: "failure set \<Rightarrow> ('s, 'a) act \<Rightarrow> bool" where
  "avoids E m \<longleftrightarrow> (\<forall>s e. m s = Inl e \<longrightarrow> e \<notin> E)"

named_theorems avoids_intros "actions that do not fail in certain ways"

lemma avoidsI: "(\<And>s e. m s = Inl e \<Longrightarrow> e \<notin> E) \<Longrightarrow> avoids E m"
  by (simp add: avoids_def)

lemma avoidsD: "avoids E m \<Longrightarrow> m s = Inl e \<Longrightarrow> e \<notin> E"
  by (simp add: avoids_def)

lemma avoids_basic [avoids_intros]:
  "avoids E (returnM x)" "e \<notin> E \<Longrightarrow> avoids E (failM e)" "avoids E (getM f)" "avoids E (modifyM g)"
  by (simp_all add: avoids_def returnM_def failM_def getM_def modifyM_def)

lemma avoids_liftM: "(\<And>e. r = Inl e \<Longrightarrow> e \<notin> E) \<Longrightarrow> avoids E (liftM r)"
  by (cases r) (auto simp: avoids_def liftM_def)

lemma avoids_queryM: "(\<And>s e. f s = Inl e \<Longrightarrow> e \<notin> E) \<Longrightarrow> avoids E (queryM f)"
  by (auto simp: avoids_def queryM_def split: sum.splits)

lemma avoids_updateM: "(\<And>s e. f s = Inl e \<Longrightarrow> e \<notin> E) \<Longrightarrow> avoids E (updateM f)"
  by (auto simp: avoids_def updateM_def map_sum_eq_Inl)

lemma avoids_zoomM: "avoids E m \<Longrightarrow> avoids E (zoomM get put m)"
  by (auto simp: avoids_def zoomM_def split: sum.splits)

lemma avoids_bindM [avoids_intros]:
  "avoids E m \<Longrightarrow> (\<And>x. avoids E (f x)) \<Longrightarrow> avoids E (bindM m f)"
  by (auto simp: avoids_def bindM_eq_Inl)

lemma avoids_control [avoids_intros]:
  "avoids E u \<Longrightarrow> avoids E (whenM b u)"
  "avoids E m \<Longrightarrow> avoids E k \<Longrightarrow> avoids E (if b then m else k)"
  "avoids E (g y) \<Longrightarrow> avoids E (Let y g)"
  "avoids E d \<Longrightarrow> avoids E (switch k0 [] d)"
  "(k0 \<in> set ks \<Longrightarrow> avoids E m) \<Longrightarrow> avoids E (switch k0 cs d) \<Longrightarrow> avoids E (switch k0 ((ks, m) # cs) d)"
  by (simp_all add: whenM_def avoids_basic)

lemma avoids_case [avoids_intros]:
  "avoids E m \<Longrightarrow> (\<And>z. avoids E (h z)) \<Longrightarrow> avoids E (case opt of None \<Rightarrow> m | Some z \<Rightarrow> h z)"
  "(\<And>t. avoids E (f t)) \<Longrightarrow> (\<And>p. avoids E (g p)) \<Longrightarrow>
   avoids E (case r of Trapped t \<Rightarrow> f t | Address p \<Rightarrow> g p)"
  "(\<And>t. avoids E (f t)) \<Longrightarrow> (\<And>i. avoids E (k i)) \<Longrightarrow>
   avoids E (case ft of FetchTrap t \<Rightarrow> f t | Insn i \<Rightarrow> k i)"
  "avoids E a \<Longrightarrow> avoids E b \<Longrightarrow> avoids E c \<Longrightarrow> avoids E d \<Longrightarrow>
   avoids E (case l of User \<Rightarrow> a | Supervisor \<Rightarrow> b | Reserved \<Rightarrow> c | Machine \<Rightarrow> d)"
  "avoids E a \<Longrightarrow> avoids E b \<Longrightarrow> avoids E c \<Longrightarrow> avoids E d \<Longrightarrow> avoids E e1 \<Longrightarrow>
   avoids E e2 \<Longrightarrow> (\<And>v. avoids E (q v)) \<Longrightarrow>
   avoids E (case md of Bare \<Rightarrow> a | Sv32 \<Rightarrow> b | Sv39 \<Rightarrow> c | Sv48 \<Rightarrow> d | Sv57 \<Rightarrow> e1 | Sv64 \<Rightarrow> e2
     | Mode_other v \<Rightarrow> q v)"
  by (cases opt, simp, simp) (cases r, simp, simp, cases ft, simp, simp, cases l, simp, simp, simp, simp, cases md, simp_all)

lemma avoids_lifted [avoids_intros]:
  "avoids E c \<Longrightarrow> avoids E (on_Csr c)" "avoids E a \<Longrightarrow> avoids E (on_AtomicManager a)"
  "avoids E i \<Longrightarrow> avoids E (on_IntRegFile i)" "avoids E f \<Longrightarrow> avoids E (on_FpRegFile f)"
  "avoids E u \<Longrightarrow> avoids E (on_MemAccessUnit u)" "avoids E t \<Longrightarrow> avoids E (on_TrapProcessor t)"
  "avoids E ic \<Longrightarrow> avoids E (on_InterruptController ic)" "avoids E c \<Longrightarrow> avoids E (on_csr c)"
  unfolding liftings on_csr_def by (rule avoids_zoomM, assumption)+

lemma avoids_if_trap [avoids_intros]:
  "avoids E m \<Longrightarrow> avoids E k \<Longrightarrow> avoids E (return_if_trap m k)"
  "avoids E m \<Longrightarrow> avoids E k2 \<Longrightarrow> avoids E (trapped_or m k2)"
  unfolding return_if_trap_def trapped_or_def by (intro avoids_intros, assumption+)+

section \<open>What the components can fail with\<close>

text \<open>Everything but the exception of \<open>std::get\<close>.\<close>

lemma Csr_failures:
  "Csr_ReadStatus c = Inl e \<Longrightarrow> e \<noteq> BadVariant"
  "Csr_ReadUInt64 addr c = Inl e \<Longrightarrow> e \<noteq> BadVariant"
  "Csr_ReadUInt32 addr c = Inl e \<Longrightarrow> e \<noteq> BadVariant"
  "Csr_WriteUInt64 addr v c = Inl e \<Longrightarrow> e \<noteq> BadVariant"
  "Csr_WriteUInt32 addr w c = Inl e \<Longrightarrow> e \<noteq> BadVariant"
proof -
  show s: "Csr_ReadStatus c = Inl e \<Longrightarrow> e \<noteq> BadVariant" for e
    by (cases "csr_m_XLEN c") (auto simp: Csr_ReadStatus_def Let_def split: if_splits)
  show r: "Csr_ReadUInt64 addr c = Inl e \<Longrightarrow> e \<noteq> BadVariant" for e
    using s by (cases "csr_m_XLEN c")
      (auto simp: Csr_ReadUInt64_def ReadMachineModeRegister_def ReadSupervisorModeRegister_def
        ReadUserModeRegister_def map_sum_eq_Inl split: if_splits)
  then show "Csr_ReadUInt32 addr c = Inl e \<Longrightarrow> e \<noteq> BadVariant"
    by (auto simp: Csr_ReadUInt32_def map_sum_eq_Inl)
  show w: "Csr_WriteUInt64 addr v c = Inl e \<Longrightarrow> e \<noteq> BadVariant" for v
    by (cases "csr_m_XLEN c")
      (auto simp: Csr_WriteUInt64_def WriteSupervisorModeRegister_def map_sum_eq_Inl split: if_splits)
  then show "Csr_WriteUInt32 addr w c = Inl e \<Longrightarrow> e \<noteq> BadVariant"
    by (simp add: Csr_WriteUInt32_def)
qed

lemma register_failures:
  "IntRegFile_entry r f = Inl e \<Longrightarrow> e \<noteq> BadVariant"
  "IntRegFile_update r g f = Inl e \<Longrightarrow> e \<noteq> BadVariant"
  "FpRegFile_ReadUInt64 r h = Inl e \<Longrightarrow> e \<noteq> BadVariant"
  "FpRegFile_WriteUInt64 r v h = Inl e \<Longrightarrow> e \<noteq> BadVariant"
  by (auto simp: IntRegFile_entry_def IntRegFile_update_def FpRegFile_ReadUInt64_def
      FpRegFile_WriteUInt64_def array_get_def array_set_def map_sum_eq_Inl split: if_splits sum.splits)

lemma avoids_registers [avoids_intros]:
  "avoids {BadVariant} (queryM (IntRegFile_ReadInt32 r))"
  "avoids {BadVariant} (queryM (IntRegFile_ReadInt64 r))"
  "avoids {BadVariant} (queryM (IntRegFile_ReadUInt32 r))"
  "avoids {BadVariant} (queryM (IntRegFile_ReadUInt64 r))"
  "avoids {BadVariant} (updateM (IntRegFile_WriteInt32 r w))"
  "avoids {BadVariant} (updateM (IntRegFile_WriteInt64 r v))"
  "avoids {BadVariant} (updateM (IntRegFile_WriteUInt32 r w))"
  "avoids {BadVariant} (updateM (IntRegFile_WriteUInt64 r v))"
  "avoids {BadVariant} (queryM (FpRegFile_ReadUInt32 r))"
  "avoids {BadVariant} (queryM (FpRegFile_ReadUInt64 r))"
  "avoids {BadVariant} (updateM (FpRegFile_WriteUInt32 r w))"
  "avoids {BadVariant} (updateM (FpRegFile_WriteUInt64 r v))"
  unfolding IntRegFile_ReadInt32_def IntRegFile_ReadInt64_def IntRegFile_ReadUInt32_def
    IntRegFile_ReadUInt64_def IntRegFile_WriteInt32_def IntRegFile_WriteInt64_def
    IntRegFile_WriteUInt32_def IntRegFile_WriteUInt64_def FpRegFile_ReadUInt32_def
    FpRegFile_WriteUInt32_def
  by (auto intro!: avoids_queryM avoids_updateM dest: register_failures simp: map_sum_eq_Inl)

lemma avoids_csr [avoids_intros]:
  "avoids {BadVariant} (queryM Csr_ReadStatus)"
  "avoids {BadVariant} (queryM (Csr_ReadUInt64 addr))"
  "avoids {BadVariant} (queryM (Csr_ReadUInt32 addr))"
  "avoids {BadVariant} (Csr_WriteUInt64 addr v)"
  "avoids {BadVariant} (Csr_WriteUInt32 addr w)"
      apply (auto intro!: avoids_queryM dest: Csr_failures)[3]
   apply (auto intro!: avoidsI dest: Csr_failures)[2]
  done

lemma avoids_Csr_CheckTrap [avoids_intros]: "avoids {BadVariant} (Csr_CheckTrap addr w pc insn)"
proof -
  have "GetPerformanceCounterIndex a = Inl e \<Longrightarrow> e \<noteq> BadVariant" for a e
    by (auto simp: GetPerformanceCounterIndex_def split: if_splits)
  then show ?thesis
    by (auto simp: avoids_def Csr_CheckTrap_def Let_def bindM_eq_Inl check_range_def returnM_def
        failM_def liftM_def split: if_splits sum.splits)
qed

lemma avoids_trap_routines [avoids_intros]:
  "avoids {BadVariant} (ProcessException trap)"
  "avoids {BadVariant} (ProcessInterrupt ty pc)"
  "avoids {BadVariant} (ProcessTrapReturn level)"
  "avoids {BadVariant} (InterruptController_Update req)"
  unfolding ProcessException_def ProcessInterrupt_def ProcessTrapReturn_def ProcessTrapEnter_def
    delegate_level_def trap_save_def trap_restore_def trap_cause_def trap_base_def read_csr_def
    write_csr_def InterruptController_Update_def UpdateCsr_def Let_def
  by ((intro avoids_intros); auto split: XLEN.splits)+

section \<open>Memory\<close>

lemma device_failures:
  "memory_Read m n a s = Inl e \<Longrightarrow> e \<noteq> BadVariant"
  "io_Read io n a s = Inl e \<Longrightarrow> e \<noteq> BadVariant"
proof -
  have p: "Plic_ReadUInt32 x p = Inl e \<Longrightarrow> e \<noteq> BadVariant" for x p e
    by (auto simp: Plic_ReadUInt32_def array_get_def split: if_splits)
  have "Plic_Read n a p = Inl e \<Longrightarrow> e \<noteq> BadVariant" for p
    using p by (auto simp: Plic_Read_def map_sum_eq_Inl split: if_splits sum.splits)
  then show "io_Read io n a s = Inl e \<Longrightarrow> e \<noteq> BadVariant"
    by (cases io) (auto simp: io_Read_def Clint_Read_def Clint_ReadMsip_def Clint_ReadTime_def
        Uart16550_Read_def VirtIo_Read_def Uart_Read_def Timer_Read_def Let_def split: if_splits)
  show "memory_Read m n a s = Inl e \<Longrightarrow> e \<noteq> BadVariant"
    by (cases m) (auto simp: memory_Read_def Ram_Read_def Ram_access_def Rom_Read_def split: if_splits)
qed

lemma avoids_device_Write:
  "avoids {BadVariant} (memory_Write m bs a)" "avoids {BadVariant} (io_Write io bs a)"
proof -
  have "Ram_Write bs a r = Inl e \<Longrightarrow> e \<noteq> BadVariant" "Rom_Write bs a ro = Inl e \<Longrightarrow> e \<noteq> BadVariant" for r ro e
    by (auto simp: Ram_Write_def Ram_access_def Rom_Write_def split: if_splits)
  then show "avoids {BadVariant} (memory_Write m bs a)"
    unfolding memory_Write_def by (cases m) (auto intro!: avoids_zoomM avoids_updateM)
  have p: "Plic_WriteUInt32 x v p = Inl e \<Longrightarrow> e \<noteq> BadVariant" for x v p e
    by (auto simp: Plic_WriteUInt32_def array_set_def map_sum_eq_Inl split: if_splits)
  have "Plic_Write bs a p = Inl e \<Longrightarrow> e \<noteq> BadVariant" for p e
    using p by (auto simp: Plic_Write_def Let_def split: if_splits sum.splits)
  moreover have "Clint_Write bs a c = Inl e \<Longrightarrow> e \<noteq> BadVariant" for c e
    by (cases c) (auto simp: Clint_Write_def Clint_WriteMsip_def Clint_WriteTime_def
        map_sum_eq_Inl Let_def split: if_splits)
  moreover have "Uart16550_Write bs a u = Inl e \<Longrightarrow> e \<noteq> BadVariant"
    "Uart_Write bs a ua = Inl e \<Longrightarrow> e \<noteq> BadVariant" "Timer_Write bs a t = Inl e \<Longrightarrow> e \<noteq> BadVariant"
    "VirtIo_Write bs a = Inl e \<Longrightarrow> e \<noteq> BadVariant" for u ua t e
    by (auto simp: Uart16550_Write_def Uart_Write_def Timer_Write_def VirtIo_Write_def Let_def
        split: if_splits)
  ultimately show "avoids {BadVariant} (io_Write io bs a)"
    unfolding io_Write_def by (cases io; fastforce intro!: avoids_zoomM avoids_updateM avoids_liftM)
qed

lemma Bus_failures: "Bus_Read n a s = Inl e \<Longrightarrow> e \<noteq> BadVariant"
  by (auto simp: Bus_Read_def Bus_ConvertToMemoryLocation_def Bus_ConvertToIoLocation_def
      dest: device_failures split: if_splits sum.splits option.splits)

lemma avoids_bus [avoids_intros]:
  "avoids {BadVariant} (queryM (Bus_ReadUInt8 a))" "avoids {BadVariant} (queryM (Bus_ReadUInt16 a))"
  "avoids {BadVariant} (queryM (Bus_ReadUInt32 a))" "avoids {BadVariant} (queryM (Bus_ReadUInt64 a))"
  "avoids {BadVariant} (Bus_Write bs a)"
proof -
  show "avoids {BadVariant} (Bus_Write bs a)"
  proof (rule avoidsI)
    fix s e assume "Bus_Write bs a s = Inl e"
    then show "e \<notin> {BadVariant}"
      by (auto simp: Bus_Write_def Bus_ConvertToMemoryLocation_def Bus_ConvertToIoLocation_def
          dest: avoidsD [OF avoids_device_Write(1)] avoidsD [OF avoids_device_Write(2)]
          split: if_splits sum.splits option.splits)
  qed
qed (auto intro!: avoids_queryM dest: Bus_failures
    simp: Bus_ReadUInt8_def Bus_ReadUInt16_def Bus_ReadUInt32_def Bus_ReadUInt64_def map_sum_eq_Inl)

lemma avoids_leaf_check [avoids_intros]:
  "avoids {BadVariant} (queryM (\<lambda>s. CheckTrapForLeafEntry entry ty pc a (sys_csr s)))"
  "avoids {BadVariant} (translation_mode ty)"
proof -
  have l: "GetEffectivePrivilegeLevel ty c = Inl e \<Longrightarrow> e \<noteq> BadVariant" for c e
    by (auto simp: GetEffectivePrivilegeLevel_def Let_def dest: Csr_failures split: sum.splits if_splits)
  show "avoids {BadVariant} (queryM (\<lambda>s. CheckTrapForLeafEntry entry ty pc a (sys_csr s)))"
    by (auto intro!: avoids_queryM simp: CheckTrapForLeafEntry_def Let_def dest: l Csr_failures
        split: sum.splits if_splits)
  show "avoids {BadVariant} (translation_mode ty)"
    unfolding translation_mode_def
    by (auto intro!: avoids_queryM simp: GetAddresssTranslationMode_def Let_def dest: l
        split: sum.splits if_splits XLEN.splits)
qed

lemma avoids_memory_unit [avoids_intros]:
  "avoids {BadVariant} (MemoryAccessUnit_CheckTrap ty pc a)"
  "avoids {BadVariant} (Translate ty a pc)"
  unfolding MemoryAccessUnit_CheckTrap_def CheckTrapSv32_def CheckTrapSv39_def CheckTrapSv48_def
    CheckTrapSv57_def CheckTrapSv64_def Translate_def TranslateSv32_def TranslateSv39_def
    TranslateSv48_def TranslateSv57_def TranslateSv64_def UpdateEntry32_def UpdateEntry64_def
    Bus_WriteUInt32_def Bus_WriteUInt64_def
  by ((intro avoids_intros); simp)+

lemma avoids_access [avoids_intros]:
  "avoids {BadVariant} (LoadUInt8 a)" "avoids {BadVariant} (LoadUInt16 a)"
  "avoids {BadVariant} (LoadUInt32 a)" "avoids {BadVariant} (LoadUInt64 a)"
  "avoids {BadVariant} (StoreUInt8 a v8)" "avoids {BadVariant} (StoreUInt16 a v16)"
  "avoids {BadVariant} (StoreUInt32 a v32)" "avoids {BadVariant} (StoreUInt64 a v64)"
  "avoids {BadVariant} (FetchUInt16 a p)" "avoids {BadVariant} (FetchUInt32 a p)"
  unfolding LoadUInt8_def LoadUInt16_def LoadUInt32_def LoadUInt64_def StoreUInt8_def
    StoreUInt16_def StoreUInt32_def StoreUInt64_def FetchUInt16_def FetchUInt32_def AddEvent_def
    access_address_def Bus_WriteUInt8_def Bus_WriteUInt16_def Bus_WriteUInt32_def
    Bus_WriteUInt64_def
  by ((intro avoids_intros); simp)+

section \<open>Operations\<close>

text \<open>\<open>std::get\<close> succeeds when the operand has the format the operation calls for.\<close>

abbreviation operand_fits :: "Op \<Rightarrow> bool" where
  "operand_fits op \<equiv> operand_in (format_of (op_opCode op)) (op_operand op)"

lemma avoids_operand [avoids_intros]:
  "operand_fits op \<Longrightarrow> format_of (op_opCode op) = Fmt_R \<Longrightarrow> (\<And>a b c d e. avoids E (gR a b c d e)) \<Longrightarrow>
    avoids E (as_R op gR)"
  "operand_fits op \<Longrightarrow> format_of (op_opCode op) = Fmt_R4 \<Longrightarrow> (\<And>a b c d e g. avoids E (gR4 a b c d e g)) \<Longrightarrow>
    avoids E (as_R4 op gR4)"
  "operand_fits op \<Longrightarrow> format_of (op_opCode op) = Fmt_I \<Longrightarrow> (\<And>a b c. avoids E (gI a b c)) \<Longrightarrow>
    avoids E (as_I op gI)"
  "operand_fits op \<Longrightarrow> format_of (op_opCode op) = Fmt_S \<Longrightarrow> (\<And>a b c. avoids E (gS a b c)) \<Longrightarrow>
    avoids E (as_S op gS)"
  "operand_fits op \<Longrightarrow> format_of (op_opCode op) = Fmt_B \<Longrightarrow> (\<And>a b c. avoids E (gB a b c)) \<Longrightarrow>
    avoids E (as_B op gB)"
  "operand_fits op \<Longrightarrow> format_of (op_opCode op) = Fmt_U \<Longrightarrow> (\<And>a b. avoids E (gU a b)) \<Longrightarrow>
    avoids E (as_U op gU)"
  "operand_fits op \<Longrightarrow> format_of (op_opCode op) = Fmt_J \<Longrightarrow> (\<And>a b. avoids E (gJ a b)) \<Longrightarrow>
    avoids E (as_J op gJ)"
  "operand_fits op \<Longrightarrow> format_of (op_opCode op) = Fmt_Shift \<Longrightarrow> (\<And>a b c. avoids E (gShiftImm a b c)) \<Longrightarrow>
    avoids E (as_ShiftImm op gShiftImm)"
  "operand_fits op \<Longrightarrow> format_of (op_opCode op) = Fmt_Csr \<Longrightarrow> (\<And>a b c. avoids E (gCsr a b c)) \<Longrightarrow>
    avoids E (as_Csr op gCsr)"
  "operand_fits op \<Longrightarrow> format_of (op_opCode op) = Fmt_CsrImm \<Longrightarrow> (\<And>a b c. avoids E (gCsrImm a b c)) \<Longrightarrow>
    avoids E (as_CsrImm op gCsrImm)"
  "operand_fits op \<Longrightarrow> format_of (op_opCode op) = Fmt_CR \<Longrightarrow> (\<And>a b c. avoids E (gCR a b c)) \<Longrightarrow>
    avoids E (as_CR op gCR)"
  "operand_fits op \<Longrightarrow> format_of (op_opCode op) = Fmt_CI \<Longrightarrow> (\<And>a b c. avoids E (gCI a b c)) \<Longrightarrow>
    avoids E (as_CI op gCI)"
  "operand_fits op \<Longrightarrow> format_of (op_opCode op) = Fmt_CSS \<Longrightarrow> (\<And>a b. avoids E (gCSS a b)) \<Longrightarrow>
    avoids E (as_CSS op gCSS)"
  "operand_fits op \<Longrightarrow> format_of (op_opCode op) = Fmt_CIW \<Longrightarrow> (\<And>a b. avoids E (gCIW a b)) \<Longrightarrow>
    avoids E (as_CIW op gCIW)"
  "operand_fits op \<Longrightarrow> format_of (op_opCode op) = Fmt_CL \<Longrightarrow> (\<And>a b c. avoids E (gCL a b c)) \<Longrightarrow>
    avoids E (as_CL op gCL)"
  "operand_fits op \<Longrightarrow> format_of (op_opCode op) = Fmt_CS \<Longrightarrow> (\<And>a b c. avoids E (gCS a b c)) \<Longrightarrow>
    avoids E (as_CS op gCS)"
  "operand_fits op \<Longrightarrow> format_of (op_opCode op) = Fmt_CB \<Longrightarrow> (\<And>a b. avoids E (gCB a b)) \<Longrightarrow>
    avoids E (as_CB op gCB)"
  "operand_fits op \<Longrightarrow> format_of (op_opCode op) = Fmt_CJ \<Longrightarrow> (\<And>a. avoids E (gCJ a)) \<Longrightarrow>
    avoids E (as_CJ op gCJ)"
  by (cases op; cases "op_operand op"; simp add: as_operand_defs operand_in_def)+

lemma avoids_results [avoids_intros]:
  "avoids E (liftM (Inr x))" "Undefined \<notin> E \<Longrightarrow> avoids E (liftM (Inl Undefined))"
  "ProcessExit \<notin> E \<Longrightarrow> avoids E (liftM Executor_Error)"
  "avoids E (liftM r) \<Longrightarrow> avoids E (liftM (map_sum id f r))"
  "avoids E (liftM r1) \<Longrightarrow> avoids E (liftM r2) \<Longrightarrow> avoids E (liftM (if b then r1 else r2))"
  "avoids E (liftM d) \<Longrightarrow> avoids E (liftM (switch k0 [] d))"
  "avoids E (liftM r) \<Longrightarrow> avoids E (liftM (switch k0 cs d)) \<Longrightarrow>
   avoids E (liftM (switch k0 ((ks, r) # cs) d))"
  "avoids E (liftM (g y)) \<Longrightarrow> avoids E (liftM (Let y g))"
  by (auto simp: avoids_def liftM_def Executor_Error_def map_sum_eq_Inl split: sum.splits)

lemma avoids_arith [avoids_intros]:
  "Undefined \<notin> E \<Longrightarrow> avoids E (liftM (shl x n))" "Undefined \<notin> E \<Longrightarrow> avoids E (liftM (shr x n))"
  "Undefined \<notin> E \<Longrightarrow> avoids E (liftM (sar x n))" "Undefined \<notin> E \<Longrightarrow> avoids E (liftM (sdiv_of x y))"
  "Undefined \<notin> E \<Longrightarrow> avoids E (liftM (srem_of x y))" "Undefined \<notin> E \<Longrightarrow> avoids E (liftM (udiv_of x y))"
  "Undefined \<notin> E \<Longrightarrow> avoids E (liftM (urem_of x y))"
  unfolding shl_def shr_def sar_def sdiv_of_def srem_of_def udiv_of_def urem_of_def
  by (intro avoids_intros, assumption)+

lemma avoids_fp_call [avoids_intros]: "avoids E (softfloat f)" "avoids E (fp_call f)"
  by (auto simp: avoids_def fp_call_def clear_flags_def modifyM_def bindM_eq_Inl softfloat_def
      split: prod.splits)

lemma avoids_ScopedFpRound [avoids_intros]:
  "ProcessExit \<notin> E \<Longrightarrow> avoids E m \<Longrightarrow> avoids E (ScopedFpRound r m)"
  unfolding ScopedFpRound_def ConvertToHostRoundingMode_def
  by (intro avoids_intros) (simp_all add: avoids_basic)

lemma avoids_fp_api [avoids_intros]:
  "avoids E (Min32 sf va_0 va_1)"
  "avoids E (Min64 sf vb_0 vb_1)"
  "avoids E (Max32 sf va_0 va_1)"
  "avoids E (Max64 sf vb_0 vb_1)"
  "avoids E (Add32 sf va_0 va_1)"
  "avoids E (Add64 sf vb_0 vb_1)"
  "avoids E (Sub32 sf va_0 va_1)"
  "avoids E (Sub64 sf vb_0 vb_1)"
  "avoids E (Mul32 sf va_0 va_1)"
  "avoids E (Mul64 sf vb_0 vb_1)"
  "avoids E (Div32 sf va_0 va_1)"
  "avoids E (Div64 sf vb_0 vb_1)"
  "avoids E (Sqrt32 sf va_0)"
  "avoids E (Sqrt64 sf vb_0)"
  "avoids E (Eq32 sf va_0 va_1)"
  "avoids E (Eq64 sf vb_0 vb_1)"
  "avoids E (Le32 sf va_0 va_1)"
  "avoids E (Le64 sf vb_0 vb_1)"
  "avoids E (Lt32 sf va_0 va_1)"
  "avoids E (Lt64 sf vb_0 vb_1)"
  "avoids E (MulAdd32 sf va_0 va_1 va_2)"
  "avoids E (MulAdd64 sf vb_0 vb_1 vb_2)"
  "avoids E (MulSub32 sf va_0 va_1 va_2)"
  "avoids E (MulSub64 sf vb_0 vb_1 vb_2)"
  "avoids E (NegMulAdd32 sf va_0 va_1 va_2)"
  "avoids E (NegMulAdd64 sf vb_0 vb_1 vb_2)"
  "avoids E (NegMulSub32 sf va_0 va_1 va_2)"
  "avoids E (NegMulSub64 sf vb_0 vb_1 vb_2)"
  "avoids E (DoubleToInt32 sf vb_0 vc_1)"
  "avoids E (DoubleToInt64 sf vb_0 vc_1)"
  "avoids E (DoubleToUInt32 sf vb_0 vc_1)"
  "avoids E (DoubleToUInt64 sf vb_0 vc_1)"
  "avoids E (FloatToInt32 sf va_0 vc_1)"
  "avoids E (FloatToInt64 sf va_0 vc_1)"
  "avoids E (FloatToUInt32 sf va_0 vc_1)"
  "avoids E (FloatToUInt64 sf va_0 vc_1)"
  "avoids E (Int32ToDouble sf vc_0)"
  "avoids E (Int64ToDouble sf vd_0)"
  "avoids E (UInt32ToDouble sf va_0)"
  "avoids E (UInt64ToDouble sf vb_0)"
  "avoids E (Int32ToFloat sf vc_0)"
  "avoids E (Int64ToFloat sf vd_0)"
  "avoids E (UInt32ToFloat sf va_0)"
  "avoids E (UInt64ToFloat sf vb_0)"
  "avoids E (DoubleToFloat sf vb_0)"
  "avoids E (FloatToDouble sf va_0)"
  unfolding
    Min32_def Min64_def Max32_def Max64_def Add32_def Add64_def Sub32_def Sub64_def Mul32_def
    Mul64_def Div32_def Div64_def Sqrt32_def Sqrt64_def Eq32_def Eq64_def Le32_def Le64_def
    Lt32_def Lt64_def MulAdd32_def MulAdd64_def MulSub32_def MulSub64_def NegMulAdd32_def
    NegMulAdd64_def NegMulSub32_def NegMulSub64_def DoubleToInt32_def DoubleToInt64_def
    DoubleToUInt32_def DoubleToUInt64_def FloatToInt32_def FloatToInt64_def FloatToUInt32_def
    FloatToUInt64_def Int32ToDouble_def Int64ToDouble_def UInt32ToDouble_def UInt64ToDouble_def
    Int32ToFloat_def Int64ToFloat_def UInt32ToFloat_def UInt64ToFloat_def DoubleToFloat_def
    FloatToDouble_def
  by (intro avoids_intros)+

lemma avoids_executor_base [avoids_intros]:
  "avoids {BadVariant} (ReadStackPointer32)"
  "avoids {BadVariant} (ReadStackPointer64)"
  "avoids {BadVariant} (WriteLinkRegister32 v)"
  "avoids {BadVariant} (WriteLinkRegister64 w)"
  "avoids {BadVariant} (NotifyFpDirty)"
  "avoids {BadVariant} (UpdateFpCsr)"
  "avoids {BadVariant} (IsFpEnabled)"
  "avoids {BadVariant} (jump_to j pc imm)"
  "avoids {BadVariant} (round_mode r)"
  unfolding
    ReadStackPointer32_def ReadStackPointer64_def WriteLinkRegister32_def WriteLinkRegister64_def
    NotifyFpDirty_def UpdateFpCsr_def jump_to_def round_mode_def IsFpEnabled_def
  by ((intro avoids_intros)+)

lemmas format_simps = format_of_def format_I_def format_F_def format_D_def format_C_def

lemma avoids_RV32I [avoids_intros]:
  "operand_fits op \<Longrightarrow> avoids {BadVariant} (ProcessRV32I op pc)"
  unfolding
    ProcessRV32I_Lui_def ProcessRV32I_Auipc_def ProcessRV32I_Jal_def ProcessRV32I_Jalr_def
    ProcessRV32I_Branch_def ProcessRV32I_Load_def ProcessRV32I_Store_def ProcessRV32I_Alu_def
    ProcessRV32I_AluImm_def ProcessRV32I_Shift_def ProcessRV32I_ShiftImm_def
    ProcessRV32I_Priv_def ProcessRV32I_Fence_def ProcessRV32I_Csr_def ProcessRV32I_CsrImm_def
    ProcessRV32I_def
  by (intro avoids_intros; auto simp: format_simps)

lemma avoids_RV32M [avoids_intros]:
  "operand_fits op \<Longrightarrow> format_of (op_opCode op) = Fmt_R \<Longrightarrow> avoids {BadVariant} (ProcessRV32M op)"
  unfolding
    rv32m_value_def ProcessRV32M_def
  by (intro avoids_intros; simp)

lemma avoids_RV32A [avoids_intros]:
  "operand_fits op \<Longrightarrow> avoids {BadVariant} (ProcessRV32A op)"
  unfolding
    ProcessRV32A_Atomic_def ProcessRV32A_Load_def ProcessRV32A_Store_def ProcessRV32A_def
  by (intro avoids_intros; auto simp: format_simps)

lemma avoids_RV32C [avoids_intros]:
  "operand_fits op \<Longrightarrow> avoids {BadVariant} (ProcessRV32C op pc)"
  unfolding
    ProcessRV32C_Alu_def ProcessRV32C_AluImm_def ProcessRV32C_Branch_def
    ProcessRV32C_ADDI4SPN_def ProcessRV32C_ADDI16SP_def ProcessRV32C_FLD_def
    ProcessRV32C_FLDSP_def ProcessRV32C_FLW_def ProcessRV32C_FLWSP_def ProcessRV32C_FSD_def
    ProcessRV32C_FSDSP_def ProcessRV32C_FSW_def ProcessRV32C_FSWSP_def ProcessRV32C_J_def
    ProcessRV32C_JAL_def ProcessRV32C_JR_def ProcessRV32C_JALR_def ProcessRV32C_LW_def
    ProcessRV32C_LWSP_def ProcessRV32C_SW_def ProcessRV32C_SWSP_def ProcessRV32C_def
  by (intro avoids_intros; auto simp: format_simps)

lemma avoids_RV64I [avoids_intros]:
  "operand_fits op \<Longrightarrow> avoids {BadVariant} (ProcessRV64I op pc)"
  unfolding
    ProcessRV64I_Lui_def ProcessRV64I_Auipc_def ProcessRV64I_Jal_def ProcessRV64I_Jalr_def
    ProcessRV64I_Branch_def ProcessRV64I_Load_def ProcessRV64I_Store_def rv64i_alu_value_def
    ProcessRV64I_Alu_def ProcessRV64I_AluImm_def rv64i_shift_value_def ProcessRV64I_Shift_def
    ProcessRV64I_ShiftImm_def ProcessRV64I_Priv_def ProcessRV64I_Fence_def ProcessRV64I_Csr_def
    ProcessRV64I_CsrImm_def ProcessRV64I_def
  by (intro avoids_intros; auto simp: format_simps)

lemma avoids_RV64M [avoids_intros]:
  "operand_fits op \<Longrightarrow> format_of (op_opCode op) = Fmt_R \<Longrightarrow> avoids {BadVariant} (ProcessRV64M libs op)"
  unfolding
    rv64m_value_def ProcessRV64M_def
  by (intro avoids_intros; simp)

lemma avoids_RV64A [avoids_intros]:
  "operand_fits op \<Longrightarrow> avoids {BadVariant} (ProcessRV64A op)"
  unfolding
    ProcessRV64A_Atomic32_def ProcessRV64A_Atomic64_def ProcessRV64A_Load32_def
    ProcessRV64A_Load64_def ProcessRV64A_Store32_def ProcessRV64A_Store64_def ProcessRV64A_def
  by (intro avoids_intros; auto simp: format_simps)

lemma avoids_RV64C [avoids_intros]:
  "operand_fits op \<Longrightarrow> avoids {BadVariant} (ProcessRV64C op pc)"
  unfolding
    ProcessRV64C_Alu_def ProcessRV64C_AluImm_def ProcessRV64C_Branch_def
    ProcessRV64C_ADDI4SPN_def ProcessRV64C_ADDI16SP_def ProcessRV64C_FLD_def
    ProcessRV64C_FLDSP_def ProcessRV64C_FSD_def ProcessRV64C_FSDSP_def ProcessRV64C_J_def
    ProcessRV64C_JR_def ProcessRV64C_JALR_def ProcessRV64C_LD_def ProcessRV64C_LDSP_def
    ProcessRV64C_LW_def ProcessRV64C_LWSP_def ProcessRV64C_SD_def ProcessRV64C_SDSP_def
    ProcessRV64C_SW_def ProcessRV64C_SWSP_def ProcessRV64C_def
  by (intro avoids_intros; auto simp: format_simps)

lemma avoids_RVF [avoids_intros]:
  "operand_fits op \<Longrightarrow> avoids {BadVariant} (ProcessRVF sf op)"
  unfolding
    ProcessRVF_MulAdd_def ProcessRVF_Compute_def ProcessRVF_Compare_def ProcessRVF_Class_def
    ProcessRVF_MoveToInt_def ProcessRVF_MoveToFp_def ProcessRVF_ConvertToInt32_def
    ProcessRVF_ConvertToInt64_def ProcessRVF_ConvertSign_def ProcessRV32F_Load_def
    ProcessRV32F_Store_def ProcessRV64F_Load_def ProcessRV64F_Store_def ProcessRVF_def
  by (intro avoids_intros; auto simp: format_simps)

lemma avoids_RVD [avoids_intros]:
  "operand_fits op \<Longrightarrow> avoids {BadVariant} (ProcessRVD sf op)"
  unfolding
    ProcessRVD_MulAdd_def ProcessRVD_Compute_def ProcessRVD_Compare_def ProcessRVD_Class_def
    ProcessRVD_MoveToInt_def ProcessRVD_MoveToFp_def ProcessRVD_ConvertToInt32_def
    ProcessRVD_ConvertToInt64_def ProcessRVD_ConvertFp32ToFp64_def
    ProcessRVD_ConvertFp64ToFp32_def ProcessRVD_ConvertSign_def ProcessRV32D_Load_def
    ProcessRV32D_Store_def ProcessRV64D_Load_def ProcessRV64D_Store_def ProcessRVD_def
  by (intro avoids_intros; auto simp: format_simps)

lemma avoids_ProcessOp [avoids_intros]:
  assumes "operand_fits op" "group_ok (op_opClass op) (op_opCode op)" "op_opCode op \<noteq> Op_unknown"
  shows "avoids {BadVariant} (ProcessOp libs op pc)"
proof -
  have "op_opClass op \<in> {RV32M, RV64M} \<Longrightarrow> format_of (op_opCode op) = Fmt_R"
    using assms(2,3) by (auto simp: group_ok_def format_of_def split: OpCode.splits)
  with assms(1) show ?thesis
    unfolding ProcessOp_def by (intro avoids_intros; simp)
qed

lemma avoids_by_class [avoids_intros]:
  "avoids {BadVariant} m \<Longrightarrow> avoids {BadVariant} k \<Longrightarrow> avoids {BadVariant} (by_class op m k)"
  unfolding by_class_def by (intro avoids_intros; simp)

lemma avoids_checks [avoids_intros]:
  assumes "operand_fits op"
  shows "avoids {BadVariant} (PreCheckTrap op pc insn)" "avoids {BadVariant} (PostCheckTrap op pc)"
  using assms unfolding
    PreCheckTrapRV32_Load_def PreCheckTrapRV32_Store_def PreCheckTrapRV32_LoadReserved_def
    PreCheckTrapRV32_StoreConditional_def PreCheckTrapRV32_Atomic_def PreCheckTrapRV64_Load_def
    PreCheckTrapRV64_Store_def PreCheckTrapRV64_LoadReserved_def
    PreCheckTrapRV64_StoreConditional_def PreCheckTrapRV64_Atomic_def PreCheckTrap_Csr_def
    PreCheckTrap_CsrImm_def PreCheckTrap_Wfi_def PreCheckTrap_Fence_def PreCheckTrap_Priv_def
    PreCheckTrapRV32C_FLD_def PreCheckTrapRV32C_FLDSP_def PreCheckTrapRV32C_FLW_def
    PreCheckTrapRV32C_FLWSP_def PreCheckTrapRV32C_FSD_def PreCheckTrapRV32C_FSDSP_def
    PreCheckTrapRV32C_FSW_def PreCheckTrapRV32C_FSWSP_def PreCheckTrapRV32C_LW_def
    PreCheckTrapRV32C_LWSP_def PreCheckTrapRV32C_SW_def PreCheckTrapRV32C_SWSP_def
    PreCheckTrapRV64C_FLD_def PreCheckTrapRV64C_FLDSP_def PreCheckTrapRV64C_FSD_def
    PreCheckTrapRV64C_FSDSP_def PreCheckTrapRV64C_LD_def PreCheckTrapRV64C_LDSP_def
    PreCheckTrapRV64C_LW_def PreCheckTrapRV64C_LWSP_def PreCheckTrapRV64C_SD_def
    PreCheckTrapRV64C_SDSP_def PreCheckTrapRV64C_SW_def PreCheckTrapRV64C_SWSP_def
    PreCheckTrapRV32C_def PreCheckTrapRV64C_def PreCheckTrap_opcode_def
    PreCheckTrap_def PostCheckTrapForEcall_def PostCheckTrap_def Let_def
  by (intro avoids_intros; auto simp: format_simps)+

section \<open>Cycles\<close>

text \<open>Failures from the states of the invariant only.\<close>

definition avoids_from :: "('s \<Rightarrow> bool) \<Rightarrow> failure set \<Rightarrow> ('s, 'a) act \<Rightarrow> bool" where
  "avoids_from I E m \<longleftrightarrow> (\<forall>s e. I s \<longrightarrow> m s = Inl e \<longrightarrow> e \<notin> E)"

lemma avoids_from: "avoids E m \<Longrightarrow> avoids_from I E m"
  by (simp add: avoids_def avoids_from_def)

lemma avoids_from_bindM:
  "preserves I m \<Longrightarrow> avoids_from I E m \<Longrightarrow> (\<And>x. avoids_from I E (f x)) \<Longrightarrow> avoids_from I E (bindM m f)"
  by (fastforce simp: avoids_from_def bindM_eq_Inl dest: preservesD)

lemma avoids_from_if:
  "avoids_from I E m \<Longrightarrow> avoids_from I E k \<Longrightarrow> avoids_from I E (if b then m else k)"
  by simp

lemma avoids_from_fetched:
  "(\<And>t. avoids_from I E (f t)) \<Longrightarrow> (\<And>i. avoids_from I E (k i)) \<Longrightarrow>
   avoids_from I E (case ft of FetchTrap t \<Rightarrow> f t | Insn i \<Rightarrow> k i)"
  by (cases ft) simp_all

lemmas avoids_from_intros = avoids_from_bindM avoids_from_if avoids_from_fetched

lemma avoids_execute_insn:
  assumes "xlen \<noteq> XLEN128"
  shows "avoids_from (sys_inv xlen n) {BadVariant} (execute_insn libs pc insn)"
  unfolding avoids_from_def
proof (intro allI impI)
  fix s e assume s: "sys_inv xlen n s" and e: "execute_insn libs pc insn s = Inl e"
  obtain op where op: "Decode xlen insn = Inr op" "operand_fits op"
      "group_ok (op_opClass op) (op_opCode op)"
    using decoded_for_Decode [OF assms, of insn]
    by (auto simp: decoded_for_def decoded_def op_ok_def)
  define rest where "rest = (if op_opCode op = Op_unknown
      then raise_trap (MakeIllegalInstructionException pc insn)
      else bindM (PreCheckTrap op pc insn) (\<lambda>preExecuteTrap. case preExecuteTrap of
        Some trap \<Rightarrow> raise_trap trap
      | None \<Rightarrow>
          bindM (SetProgramCounter (if IsCompressedInstruction insn then pc + 2 else pc + 4)) (\<lambda>_.
          bindM (ProcessOp libs op pc) (\<lambda>_.
          bindM (PostCheckTrap op pc) (\<lambda>postExecuteTrap. case postExecuteTrap of
            Some trap \<Rightarrow> raise_trap trap
          | None \<Rightarrow> returnM ())))))"
  have "avoids {BadVariant} rest"
  proof (cases "op_opCode op = Op_unknown")
    case True then show ?thesis unfolding rest_def by (simp add: avoids_intros)
  next
    case False
    with op show ?thesis unfolding rest_def if_not_P [OF False] by (intro avoids_intros)
  qed
  moreover have dec: "cpu_m_Decoder (sys_m_Processor s) = xlen"
    using s by (simp add: sys_inv_def)
  then have "rest s = Inl e"
    using e unfolding execute_insn_def rest_def
    by (simp only: bindM_getM dec op(1) liftM_Inr bindM_returnM)
  ultimately show "e \<notin> {BadVariant}" by (rule avoidsD)
qed

lemma avoids_Fetch: "avoids {BadVariant} (Processor_Fetch pc)"
  unfolding Processor_Fetch_def fetch_at_def by (intro avoids_intros)

lemma GetInterruptType_failure: "GetInterruptType ic = Inl e \<Longrightarrow> e \<noteq> BadVariant"
  by (auto simp: GetInterruptType_def split: if_splits)

lemma avoids_interrupt_type [avoids_intros]:
  "avoids {BadVariant} (queryM (\<lambda>s. GetInterruptType (cpu_m_InterruptController (sys_m_Processor s))))"
  by (rule avoids_queryM) (auto dest: GetInterruptType_failure)

lemma preserves_cycle_parts:
  "preserves (sys_inv x n) begin_cycle" "preserves (sys_inv x n) (Processor_Fetch pc)"
  unfolding begin_cycle_def Processor_Fetch_def fetch_at_def Let_def by (intro preserves_intros)+

lemma avoids_Processor_ProcessCycle:
  assumes "xlen \<noteq> XLEN128"
  shows "avoids_from (sys_inv xlen n) {BadVariant} (Processor_ProcessCycle libs)"
  unfolding Processor_ProcessCycle_def
  by (intro avoids_from_intros avoids_execute_insn assms preserves_cycle_parts preserves_intros;
      rule avoids_from; (unfold begin_cycle_def)?; intro avoids_intros avoids_Fetch)

lemma avoids_System_ProcessCycle:
  assumes "xlen \<noteq> XLEN128"
  shows "avoids_from (sys_inv xlen n) {BadVariant} (System_ProcessCycle libs)"
  unfolding System_ProcessCycle_def
  by (intro avoids_from_bindM avoids_Processor_ProcessCycle assms preserves_modifyM)
     (simp_all add: sys_inv_def avoids_from avoids_basic split: prod.splits)

section \<open>The property\<close>

text \<open>
  C14: no cycle ends with \<open>std::bad_variant_access\<close>. In every state a machine can reach, and
  whatever the bytes at the program counter are, the operand that the decoder stores is the
  variant that every check and every handler of the executor takes it as.
\<close>

theorem cycle_never_bad_variant:
  assumes "reachable libs xlen pc ramSize s"
  shows "System_ProcessCycle libs s \<noteq> Inl BadVariant"
  using avoids_System_ProcessCycle [OF reachable_width [OF assms]] reachable_inv [OF assms]
  by (auto simp: avoids_from_def)

theorem cycle_never_bad_variant_witness:
  "\<exists>libs s. reachable libs XLEN64 0x1000 0x4000000 s \<and> System_ProcessCycle libs s \<noteq> Inl BadVariant"
  using reachable_exists cycle_never_bad_variant by blast

end
