(* ===== verification/Rafi_Emulator_Ok.thy ===== *)
theory Rafi_Emulator_Ok
  imports Rafi_System_Ok
begin

text \<open>
  The emulator's loop. \<open>cycles libs n\<close> is the machine alone, stepped \<open>n\<close> times; the loop is
  compared with it: where it stops, why, and when it has a result at all.
\<close>

section \<open>Iterated cycles\<close>

primrec cycles :: "Libraries \<Rightarrow> nat \<Rightarrow> unit sys_act" where
  "cycles libs 0 = returnM ()"
| "cycles libs (Suc n) = bindM (System_ProcessCycle libs) (\<lambda>_. cycles libs n)"

text \<open>The loop goes on after the cycle from \<open>s\<close> to \<open>t\<close>.\<close>

definition continues :: "i32 \<Rightarrow> System \<Rightarrow> System \<Rightarrow> bool" where
  "continues condition s t \<longleftrightarrow>
     IsStopConditionFilledPre condition s = Inr False \<and> \<not> IsStopConditionFilledPost condition t"

text \<open>\<open>undisturbed libs condition n s\<close>: the first \<open>n\<close> cycles return and none of them stops the loop.\<close>

primrec undisturbed :: "Libraries \<Rightarrow> i32 \<Rightarrow> nat \<Rightarrow> System \<Rightarrow> bool" where
  "undisturbed libs condition 0 s = True"
| "undisturbed libs condition (Suc n) s = (case System_ProcessCycle libs s of Inl _ \<Rightarrow> False
     | Inr r \<Rightarrow> continues condition s (snd r) \<and> undisturbed libs condition n (snd r))"

lemma undisturbed_less: "undisturbed libs condition n s \<Longrightarrow> m \<le> n \<Longrightarrow> undisturbed libs condition m s"
proof (induction n arbitrary: m s)
  case (Suc n)
  then show ?case by (cases m) (auto split: sum.splits)
qed simp

definition in_bound :: "i32 \<Rightarrow> i32 \<Rightarrow> bool" where
  "in_bound cycle c \<longleftrightarrow> c <s cycle \<or> cycle = CycleForever"

lemma sint_inc:
  fixes c :: i32
  assumes "c \<noteq> 0x7fffffff"
  shows "sint (c + 1) = sint c + 1"
proof -
  have lt: "sint c < 2 ^ 31" using sint_lt [of c] by simp
  have "sint c \<noteq> 2 ^ 31 - 1"
  proof
    assume "sint c = 2 ^ 31 - 1"
    moreover have "word_of_int (sint c) = c" by simp
    ultimately have "c = word_of_int (2 ^ 31 - 1)" by metis
    with assms show False by simp
  qed
  with lt have "sint c + 1 < 2 ^ 31" by simp
  moreover have "- (2 ^ 31) \<le> sint c" using sint_ge [of c] by simp
  ultimately show ?thesis by (simp add: sint_word_ariths signed_take_bit_int_eq_self)
qed

lemma in_bound_not_max: "c <s cycle \<Longrightarrow> c \<noteq> (0x7fffffff :: i32)"
  using sint_lt [of cycle] by (auto simp: word_sless_alt)

section \<open>One turn of the loop\<close>

lemma Process_out: "\<not> in_bound cycle (emu_m_Cycle e) \<Longrightarrow> Emulator_Process libs condition cycle e = Some (Inr e)"
  by (subst Emulator_Process.simps) (simp add: in_bound_def)

lemma Process_pre_stop:
  "in_bound cycle (emu_m_Cycle e) \<Longrightarrow> IsStopConditionFilledPre condition (emu_m_System e) = Inr True \<Longrightarrow>
   Emulator_Process libs condition cycle e = Some (Inr e)"
  by (subst Emulator_Process.simps) (simp add: in_bound_def)

lemma Process_step:
  assumes "in_bound cycle (emu_m_Cycle e)" "System_ProcessCycle libs (emu_m_System e) = Inr ((), t)"
    "continues condition (emu_m_System e) t" "emu_m_Cycle e \<noteq> 0x7fffffff"
  shows "Emulator_Process libs condition cycle e =
    Emulator_Process libs condition cycle (e\<lparr>emu_m_System := t, emu_m_Cycle := emu_m_Cycle e + 1\<rparr>)"
  using assms by (subst Emulator_Process.simps) (simp add: in_bound_def continues_def)

text \<open>The way a turn of the loop can go.\<close>

lemma Process_turn:
  obtains (out) "\<not> in_bound cycle (emu_m_Cycle e)" "Emulator_Process libs condition cycle e = Some (Inr e)"
  | (fail) f where "in_bound cycle (emu_m_Cycle e)" "Emulator_Process libs condition cycle e = Some (Inl f)"
      "\<not> undisturbed libs condition 1 (emu_m_System e)"
  | (pre) "in_bound cycle (emu_m_Cycle e)" "IsStopConditionFilledPre condition (emu_m_System e) = Inr True"
      "Emulator_Process libs condition cycle e = Some (Inr e)"
  | (post) t where "in_bound cycle (emu_m_Cycle e)" "System_ProcessCycle libs (emu_m_System e) = Inr ((), t)"
      "IsStopConditionFilledPre condition (emu_m_System e) = Inr False"
      "IsStopConditionFilledPost condition t"
      "Emulator_Process libs condition cycle e = Some (Inr (e\<lparr>emu_m_System := t\<rparr>))"
  | (go_on) t where "in_bound cycle (emu_m_Cycle e)" "System_ProcessCycle libs (emu_m_System e) = Inr ((), t)"
      "continues condition (emu_m_System e) t" "emu_m_Cycle e \<noteq> 0x7fffffff"
  | (overflow) "cycle = CycleForever" "undisturbed libs condition 1 (emu_m_System e)" "emu_m_Cycle e = 0x7fffffff"
      "Emulator_Process libs condition cycle e = None"
proof (cases "in_bound cycle (emu_m_Cycle e)")
  case False then show ?thesis using Process_out out by blast
next
  case inb: True
  note unf = Emulator_Process.simps [of libs condition cycle e, folded in_bound_def]
  show ?thesis
  proof (cases "IsStopConditionFilledPre condition (emu_m_System e)")
    case (Inl f)
    then show ?thesis using inb unf by (intro fail) (simp_all add: continues_def split: sum.split)
  next
    case pre_stop: (Inr b)
    show ?thesis
    proof (cases b)
      case True then show ?thesis using inb pre_stop by (intro pre Process_pre_stop) simp_all
    next
      case b: False
      show ?thesis
      proof (cases "System_ProcessCycle libs (emu_m_System e)")
        case (Inl f) then show ?thesis using inb unf pre_stop b by (intro fail) simp_all
      next
        case (Inr r)
        obtain t where r: "r = ((), t)" by (metis old.unit.exhaust surj_pair)
        show ?thesis
        proof (cases "IsStopConditionFilledPost condition t")
          case True then show ?thesis using inb unf pre_stop b Inr r by (intro post) simp_all
        next
          case False
          show ?thesis
          proof (cases "emu_m_Cycle e = 0x7fffffff")
            case True
            then have "cycle = CycleForever" using inb in_bound_not_max by (auto simp: in_bound_def)
            then show ?thesis
              using inb unf pre_stop b Inr r False True by (intro overflow) (simp_all add: continues_def)
          next
            case ne: False then show ?thesis
              using inb pre_stop b Inr r False by (intro go_on) (simp_all add: continues_def)
          qed
        qed
      qed
    qed
  qed
qed

text \<open>The number of turns that the counter has left, and what a turn that goes on takes of it.\<close>

definition turns_left :: "Emulator \<Rightarrow> nat" where
  "turns_left e = nat (2 ^ 31 - sint (emu_m_Cycle e))"

lemma turns_left_pos: "0 < turns_left e"
  using sint_lt [of "emu_m_Cycle e"] by (simp add: turns_left_def)

lemma turns_left_step:
  "emu_m_Cycle e \<noteq> 0x7fffffff \<Longrightarrow>
   turns_left e = Suc (turns_left (e\<lparr>emu_m_System := t, emu_m_Cycle := emu_m_Cycle e + 1\<rparr>))"
  using sint_inc [of "emu_m_Cycle e"] sint_lt [of "emu_m_Cycle e + 1"] by (simp add: turns_left_def)

lemma turns_left_max: "emu_m_Cycle e = 0x7fffffff \<Longrightarrow> turns_left e = 1"
  by (simp add: turns_left_def)

section \<open>Termination and result\<close>

text \<open>Why and where the loop returned.\<close>

definition stopped_at :: "Libraries \<Rightarrow> i32 \<Rightarrow> i32 \<Rightarrow> nat \<Rightarrow> Emulator \<Rightarrow> Emulator \<Rightarrow> bool" where
  "stopped_at libs condition cycle n e e' \<longleftrightarrow>
     undisturbed libs condition n (emu_m_System e) \<and>
     sint (emu_m_Cycle e') = sint (emu_m_Cycle e) + int n \<and>
     (cycle = CycleForever \<or> n = 0 \<or> sint (emu_m_Cycle e) + int n \<le> sint cycle) \<and>
     (\<exists>t. cycles libs n (emu_m_System e) = Inr ((), t) \<and>
       (\<not> in_bound cycle (emu_m_Cycle e') \<and> emu_m_System e' = t
        \<or> IsStopConditionFilledPre condition t = Inr True \<and> emu_m_System e' = t
        \<or> IsStopConditionFilledPre condition t = Inr False \<and>
          System_ProcessCycle libs t = Inr ((), emu_m_System e') \<and>
          IsStopConditionFilledPost condition (emu_m_System e')))"

lemma stopped_at_step:
  assumes "in_bound cycle (emu_m_Cycle e)" "System_ProcessCycle libs (emu_m_System e) = Inr ((), t)"
    "continues condition (emu_m_System e) t" "emu_m_Cycle e \<noteq> 0x7fffffff"
    "stopped_at libs condition cycle n (e\<lparr>emu_m_System := t, emu_m_Cycle := emu_m_Cycle e + 1\<rparr>) e'"
  shows "stopped_at libs condition cycle (Suc n) e e'"
  using assms sint_inc [OF assms(4)]
  by (auto simp: stopped_at_def bindM_eq_Inr in_bound_def word_sless_alt)

text \<open>
  The loop has no result exactly when it has no bound and nothing stops it in all the turns that its
  counter has left; a failure is that of a turn; a state that it returns is one where it stopped.
\<close>

lemma stopped_at_0:
  assumes "e' = e" "\<not> in_bound cycle (emu_m_Cycle e) \<or> IsStopConditionFilledPre condition (emu_m_System e) = Inr True"
  shows "stopped_at libs condition cycle 0 e e'"
  using assms by (auto simp: stopped_at_def returnM_def)

lemma Process_outcome:
  "case Emulator_Process libs condition cycle e of
     None \<Rightarrow> cycle = CycleForever \<and> undisturbed libs condition (turns_left e) (emu_m_System e)
   | Some (Inl f) \<Rightarrow> \<exists>n < turns_left e. \<not> undisturbed libs condition (Suc n) (emu_m_System e)
   | Some (Inr e') \<Rightarrow> \<exists>n. stopped_at libs condition cycle n e e'"
proof (induction "turns_left e" arbitrary: e rule: less_induct)
  case less
  show ?case
  proof (rule Process_turn [of cycle e libs condition])
    fix f
    assume "Emulator_Process libs condition cycle e = Some (Inl f)" "\<not> undisturbed libs condition 1 (emu_m_System e)"
    then show ?thesis using turns_left_pos [of e] by (auto intro!: exI [of _ 0])
  next
    fix t
    assume "System_ProcessCycle libs (emu_m_System e) = Inr ((), t)"
      "IsStopConditionFilledPre condition (emu_m_System e) = Inr False"
      "IsStopConditionFilledPost condition t"
      "Emulator_Process libs condition cycle e = Some (Inr (e\<lparr>emu_m_System := t\<rparr>))"
    then show ?thesis by (auto simp: stopped_at_def returnM_def intro!: exI [of _ 0])
  next
    fix t
    assume go: "in_bound cycle (emu_m_Cycle e)" "System_ProcessCycle libs (emu_m_System e) = Inr ((), t)"
      "continues condition (emu_m_System e) t" "emu_m_Cycle e \<noteq> 0x7fffffff"
    let ?e = "e\<lparr>emu_m_System := t, emu_m_Cycle := emu_m_Cycle e + 1\<rparr>"
    note left = turns_left_step [OF go(4), of t]
    have same: "undisturbed libs condition (Suc n) (emu_m_System e) = undisturbed libs condition n t" for n
      using go(2,3) by simp
    have IH: "case Emulator_Process libs condition cycle ?e of
        None \<Rightarrow> cycle = CycleForever \<and> undisturbed libs condition (turns_left ?e) t
      | Some (Inl f) \<Rightarrow> \<exists>n < turns_left ?e. \<not> undisturbed libs condition (Suc n) t
      | Some (Inr e') \<Rightarrow> \<exists>n. stopped_at libs condition cycle n ?e e'"
      using less(1) [of ?e] left by (simp cong: option.case_cong sum.case_cong)
    show ?thesis
    proof (cases "Emulator_Process libs condition cycle ?e")
      case None
      then show ?thesis using IH Process_step [OF go] left same by simp
    next
      case (Some r)
      show ?thesis
      proof (cases r)
        case (Inl f)
        then obtain n where "n < turns_left ?e" "\<not> undisturbed libs condition (Suc n) t" using IH Some by auto
        then show ?thesis
          using Inl Some Process_step [OF go] left same
          by (auto simp del: undisturbed.simps intro!: exI [of _ "Suc n"])
      next
        case (Inr e')
        then show ?thesis
          using IH Some Process_step [OF go] stopped_at_step [OF go] by auto
      qed
    qed
  qed (auto simp: turns_left_max simp del: undisturbed.simps intro: stopped_at_0)
qed

lemma Process_stopped:
  "Emulator_Process libs condition cycle e = Some (Inr e') \<Longrightarrow> \<exists>n. stopped_at libs condition cycle n e e'"
  using Process_outcome [where libs = libs and condition = condition and cycle = cycle and e = e] by simp

lemma stopped_disturbed:
  assumes "stopped_at libs condition CycleForever n e e'"
  shows "n < turns_left e" "\<not> undisturbed libs condition (Suc n) (emu_m_System e)"
proof -
  have n: "sint (emu_m_Cycle e') = sint (emu_m_Cycle e) + int n" using assms by (simp add: stopped_at_def)
  then show "n < turns_left e" using sint_lt [of "emu_m_Cycle e'"] by (simp add: turns_left_def)
  obtain t where t: "cycles libs n (emu_m_System e) = Inr ((), t)" "\<not> undisturbed libs condition 1 t"
    using assms by (auto simp: stopped_at_def in_bound_def continues_def split: sum.splits)
  have "undisturbed libs condition (Suc n) s \<Longrightarrow> cycles libs n s = Inr ((), t) \<Longrightarrow> undisturbed libs condition 1 t" for s
  proof (induction n arbitrary: s)
    case 0 then show ?case by (auto simp: returnM_def)
  next
    case (Suc n)
    obtain v where v: "System_ProcessCycle libs s = Inr ((), v)" "undisturbed libs condition (Suc n) v"
      using Suc.prems(1) by (auto split: sum.splits)
    with Suc show ?case by (simp add: bindM_eq_Inr del: undisturbed.simps)
  qed
  with t show "\<not> undisturbed libs condition (Suc n) (emu_m_System e)" by blast
qed

lemma Process_has_result:
  "(\<exists>r. Emulator_Process libs condition cycle e = Some r) \<longleftrightarrow>
     cycle \<noteq> CycleForever \<or> (\<exists>n < turns_left e. \<not> undisturbed libs condition (Suc n) (emu_m_System e))"
proof (cases "Emulator_Process libs condition cycle e")
  case None
  then have "cycle = CycleForever" "undisturbed libs condition (turns_left e) (emu_m_System e)"
    using Process_outcome [where libs = libs and condition = condition and cycle = cycle and e = e] by simp_all
  then show ?thesis using None undisturbed_less [of libs condition "turns_left e"] by (simp add: Suc_leI del: undisturbed.simps)
next
  case (Some r)
  show ?thesis
  proof (cases r)
    case (Inl f)
    then show ?thesis using Some Process_outcome [where libs = libs and condition = condition and cycle = cycle and e = e] by simp
  next
    case (Inr e')
    then obtain n where "stopped_at libs condition cycle n e e'" using Some Process_stopped by blast
    then show ?thesis using Some stopped_disturbed by blast
  qed
qed

text \<open>As long as nothing stops it, the loop is the iteration of the machine.\<close>

lemma Process_undisturbed:
  assumes "undisturbed libs condition n (emu_m_System e)"
    and "cycle = CycleForever \<and> sint (emu_m_Cycle e) + int n < 2 ^ 31 \<or>
      sint (emu_m_Cycle e) + int n \<le> sint cycle"
  shows "\<exists>e'. cycles libs n (emu_m_System e) = Inr ((), emu_m_System e') \<and>
    sint (emu_m_Cycle e') = sint (emu_m_Cycle e) + int n \<and>
    Emulator_Process libs condition cycle e = Emulator_Process libs condition cycle e'"
  using assms
proof (induction n arbitrary: e)
  case 0 then show ?case by (auto simp: returnM_def)
next
  case (Suc n)
  then obtain t where t: "System_ProcessCycle libs (emu_m_System e) = Inr ((), t)"
      "continues condition (emu_m_System e) t" "undisturbed libs condition n t"
    by (auto split: sum.splits)
  have below: "sint (emu_m_Cycle e) < 2 ^ 31 - 1"
    using Suc.prems(2) sint_lt [of cycle] by auto
  then have ne: "emu_m_Cycle e \<noteq> 0x7fffffff" by auto
  have inb: "in_bound cycle (emu_m_Cycle e)"
    using Suc.prems(2) by (auto simp: in_bound_def word_sless_alt)
  let ?e = "e\<lparr>emu_m_System := t, emu_m_Cycle := emu_m_Cycle e + 1\<rparr>"
  obtain e' where "cycles libs n (emu_m_System ?e) = Inr ((), emu_m_System e')"
      "sint (emu_m_Cycle e') = sint (emu_m_Cycle ?e) + int n"
      "Emulator_Process libs condition cycle ?e = Emulator_Process libs condition cycle e'"
    using Suc.IH [of ?e] t(3) Suc.prems(2) sint_inc [OF ne] by auto
  then show ?case
    using Process_step [OF inb t(1,2) ne] t(1) sint_inc [OF ne]
    by (intro exI [of _ e']) (simp add: bindM_eq_Inr)
qed

end
