(* ===== verification/Rafi_Memory_Ok.thy ===== *)
theory Rafi_Memory_Ok
  imports Rafi_System_Ok
begin

text \<open>
  The RAM behind the bus: which accesses of the physical address space reach it, what they
  answer, what a store changes, and what happens at its end.
\<close>

section \<open>Address decoding\<close>

abbreviation the_bus :: "u64 \<Rightarrow> Bus" where
  "the_bus ramSize \<equiv> System_bus (Ram_new ramSize) Rom_new"

lemma the_bus_memories: "bus_m_MemoryList (the_bus ramSize) =
   [\<lparr>mi_pMemory = RamRef, mi_address = 0x80000000, mi_size = ramSize\<rparr>,
    \<lparr>mi_pMemory = RomRef, mi_address = 0x1000, mi_size = 0x1000\<rparr>]"
  by (simp add: System_bus_def Let_def Bus_RegisterMemory_def Bus_RegisterIo_def AddrRam_def
      AddrRom_def Ram_GetCapacity_def Ram_new_def Rom_GetCapacity_def Rom_Capacity_def)

lemma the_bus_devices: "map (\<lambda>l. (ii_address l, ii_size l)) (bus_m_IoList (the_bus ramSize)) =
   [(0x02000000, 0x10000), (0x0c000000, 0x4000000), (0x10000000, 8),
    (0x10001000, 0x1000), (0x10002000, 0x1000), (0x10003000, 0x1000), (0x10004000, 0x1000),
    (0x10005000, 0x1000), (0x10006000, 0x1000), (0x10007000, 0x1000), (0x10008000, 0x1000),
    (0x40002000, 32), (0x40000000, 16)]"
  by (simp add: System_bus_def Let_def Bus_RegisterMemory_def Bus_RegisterIo_def AddrClint_def
      AddrPlic_def AddrUart16550_def AddrVirtIo1_def AddrVirtIo2_def AddrVirtIo3_def
      AddrVirtIo4_def AddrVirtIo5_def AddrVirtIo6_def AddrVirtIo7_def AddrVirtIo8_def AddrUart_def
      AddrTimer_def Clint_GetSize_def Plic_GetSize_def Uart16550_GetSize_def VirtIo_GetSize_def
      Uart_GetSize_def Timer_GetSize_def)

text \<open>The access of \<open>n\<close> bytes at \<open>a\<close> lies in a RAM of \<open>ramSize\<close> bytes.\<close>

definition in_ram :: "u64 \<Rightarrow> u64 \<Rightarrow> nat \<Rightarrow> bool" where
  "in_ram ramSize a n \<longleftrightarrow> ramSize \<le> 0x80000000 \<and> 0x80000000 \<le> unat a \<and> 0 < n \<and>
     unat a + n \<le> 0x80000000 + unat ramSize"

definition ram_offset :: "u64 \<Rightarrow> u64" where "ram_offset a = a - 0x80000000"

lemma unat_take_bit_eq: "unat (take_bit n w) = take_bit n (unat w)" for w :: "'a::len word"
  by (simp add: unsigned_take_bit_eq)

lemma unat_ram_offset: "0x80000000 \<le> unat a \<Longrightarrow> unat (ram_offset a) = unat a - 0x80000000"
  by (simp add: ram_offset_def unat_sub_if')

lemma in_ram_arith:
  assumes "in_ram ramSize a n"
  shows "unat ramSize \<le> 0x80000000" "unat (ram_offset a) + n \<le> unat ramSize"
    "unat (ram_offset a) < 0x80000000" "a + of_nat n - 1 < 0x80000000 + ramSize"
    "0x80000000 \<le> a" "a < 0x80000000 + ramSize"
proof -
  show u: "unat ramSize \<le> 0x80000000" using assms by (simp add: in_ram_def word_le_nat_alt)
  show "unat (ram_offset a) + n \<le> unat ramSize" "unat (ram_offset a) < 0x80000000"
    using assms u by (auto simp: in_ram_def unat_ram_offset)
  have s: "unat (0x80000000 + ramSize) = 0x80000000 + unat ramSize"
    using u by (simp add: unat_word_ariths)
  have "unat (a + of_nat n) = unat a + n"
    using assms u by (intro unat_add_small) (simp add: in_ram_def)
  moreover have "a + of_nat n \<noteq> 0" using calculation assms by (auto simp: in_ram_def)
  ultimately have "unat (a + of_nat n - 1) = unat a + n - 1"
    by (metis unat_minus_one)
  then show "a + of_nat n - 1 < 0x80000000 + ramSize" "0x80000000 \<le> a" "a < 0x80000000 + ramSize"
    using assms s by (auto simp: in_ram_def word_less_nat_alt word_le_nat_alt)
qed

lemma ram_decode:
  assumes "in_ram ramSize a n"
  shows "Bus_IsMemoryAddress a (of_nat n) (the_bus ramSize)"
    "Bus_IsMemoryAddress a 1 (the_bus ramSize)"
    "Bus_ConvertToMemoryLocation a (the_bus ramSize) = Inr (RamRef, ucast (ram_offset a))"
    "scast (ucast (ram_offset a) :: i32) = ram_offset a"
proof -
  note ar = in_ram_arith [OF assms]
  show "Bus_IsMemoryAddress a (of_nat n) (the_bus ramSize)"
    "Bus_IsMemoryAddress a 1 (the_bus ramSize)"
    "Bus_ConvertToMemoryLocation a (the_bus ramSize) = Inr (RamRef, ucast (ram_offset a))"
    using ar(4-6) by (simp_all add: Bus_IsMemoryAddress_def Bus_ConvertToMemoryLocation_def
        the_bus_memories ram_offset_def)
  have "take_bit 31 (unat (ram_offset a)) = unat (ram_offset a)"
    using ar(3) by (simp add: take_bit_nat_eq_self)
  then have "take_bit 31 (ram_offset a) = ram_offset a"
    by (metis unat_take_bit_eq word_unat_eq_iff)
  then have "\<not> bit (ram_offset a) i" if "31 \<le> i" for i
    using that by (metis bit_take_bit_iff not_less)
  then show "scast (ucast (ram_offset a) :: i32) = ram_offset a"
    by (intro bit_word_eqI) (auto simp: bit_simps min_def)
qed


section \<open>Accesses\<close>

text \<open>A machine as built and run by \<open>System\<close>; only the bus and the size of the RAM matter here.\<close>

definition wired :: "u64 \<Rightarrow> System \<Rightarrow> bool" where
  "wired ramSize s \<longleftrightarrow> sys_m_Bus s = the_bus ramSize \<and> ram_m_Capacity (sys_m_Ram s) = ramSize"

lemma sys_inv_wired: "sys_inv x ramSize s \<Longrightarrow> wired ramSize s"
  by (simp add: sys_inv_def wired_def)

definition ram_bytes :: "nat \<Rightarrow> u64 \<Rightarrow> System \<Rightarrow> u8 list" where
  "ram_bytes n a s = body_read n (ram_offset a) (ram_m_pBody (sys_m_Ram s))"

definition put_ram :: "u8 list \<Rightarrow> u64 \<Rightarrow> System \<Rightarrow> System" where
  "put_ram bs a s = s\<lparr>sys_m_Ram :=
     (sys_m_Ram s)\<lparr>ram_m_pBody := body_write bs (ram_offset a) (ram_m_pBody (sys_m_Ram s))\<rparr>\<rparr>"

lemma Ram_access_in:
  assumes "in_ram ramSize a n" "ram_m_Capacity ram = ramSize"
  shows "Ram_access (ram_offset a) n ram x = Inr x"
proof -
  note ar = in_ram_arith [OF assms(1)]
  have "unat (ram_offset a + of_nat n) = unat (ram_offset a) + n"
    using ar(1,2) by (intro unat_add_small) simp
  then show ?thesis
    using ar(2) assms(2) by (simp add: Ram_access_def Ram_GetCapacity_def word_le_nat_alt)
qed

lemma Bus_Read_ram:
  assumes "wired ramSize s" "in_ram ramSize a n"
  shows "Bus_Read n a s = Inr (ram_bytes n a s)"
  using assms(1) ram_decode [OF assms(2)] Ram_access_in [OF assms(2), of "sys_m_Ram s"]
  by (auto simp: Bus_Read_def wired_def memory_Read_def Ram_Read_def ram_bytes_def)

lemma Bus_Write_ram:
  assumes "wired ramSize s" "in_ram ramSize a (length bs)"
  shows "Bus_Write bs a s = Inr ((), put_ram bs a s)"
  using assms(1) ram_decode [OF assms(2)]
  by (auto simp: Ram_access_in [OF assms(2)] Bus_Write_def wired_def memory_Write_def Ram_Write_def put_ram_def zoomM_def
      updateM_def)

lemma wired_put_ram [simp]: "wired ramSize (put_ram bs a s) = wired ramSize s"
  by (simp add: wired_def put_ram_def)

lemma ram_bytes_own:
  "in_ram ramSize a (length bs) \<Longrightarrow> ram_bytes (length bs) a (put_ram bs a s) = bs"
  using in_ram_arith(1,2) [of ramSize a "length bs"]
  by (simp add: ram_bytes_def put_ram_def body_read_write)

lemma ram_bytes_other:
  assumes "in_ram ramSize a (length bs)" "in_ram ramSize c n"
    and "unat c + n \<le> unat a \<or> unat a + length bs \<le> unat c"
  shows "ram_bytes n c (put_ram bs a s) = ram_bytes n c s"
  unfolding ram_bytes_def put_ram_def
proof (simp, rule body_read_write_other)
  fix i assume i: "i < n"
  note ar = in_ram_arith [OF assms(1)] in_ram_arith [OF assms(2)]
  have o: "unat (ram_offset a) = unat a - 0x80000000" "unat (ram_offset c) = unat c - 0x80000000"
    using assms(1,2) by (auto simp: in_ram_def unat_ram_offset)
  have "unat (ram_offset c + of_nat i) = unat (ram_offset c) + i"
    using ar i by (intro unat_add_small) simp
  then show "length bs \<le> unat (ram_offset c + of_nat i - ram_offset a)"
    using ar assms i o by (auto simp: unat_sub_if' in_ram_def)
qed

section \<open>Properties\<close>

text \<open>
  C24: the RAM behind the bus is a memory. A store of bytes that lies in the RAM returns; a load
  of the same range afterwards answers these bytes, a load of any range of the RAM that does not
  overlap answers what it answered before, and nothing of the machine but the bytes of the RAM
  has changed.
\<close>

theorem bus_ram_store_load:
  assumes "sys_inv x ramSize s" "in_ram ramSize a (length bs)"
  shows "\<exists>t. Bus_Write bs a s = Inr ((), t) \<and> Bus_Read (length bs) a t = Inr bs \<and>
    (\<forall>c n. in_ram ramSize c n \<and> (unat c + n \<le> unat a \<or> unat a + length bs \<le> unat c) \<longrightarrow>
      Bus_Read n c t = Bus_Read n c s) \<and>
    t\<lparr>sys_m_Ram := sys_m_Ram s\<rparr> = s"
proof (intro exI conjI allI impI)
  note w = sys_inv_wired [OF assms(1)]
  then have w': "wired ramSize (put_ram bs a s)" by simp
  show "Bus_Write bs a s = Inr ((), put_ram bs a s)" by (rule Bus_Write_ram [OF w assms(2)])
  show "Bus_Read (length bs) a (put_ram bs a s) = Inr bs"
    using Bus_Read_ram [OF w' assms(2)] ram_bytes_own [OF assms(2)] by simp
  show "Bus_Read n c (put_ram bs a s) = Bus_Read n c s"
    if "in_ram ramSize c n \<and> (unat c + n \<le> unat a \<or> unat a + length bs \<le> unat c)" for c n
    using that Bus_Read_ram [OF w] Bus_Read_ram [OF w'] ram_bytes_other [OF assms(2)] by simp
  show "(put_ram bs a s)\<lparr>sys_m_Ram := sys_m_Ram s\<rparr> = s" by (simp add: put_ram_def)
qed

theorem bus_ram_store_load_witness:
  "\<exists>libs s t. reachable libs XLEN64 0x1000 0x4000000 s \<and>
    Bus_Write [1, 2, 3, 4] 0x80001000 s = Inr ((), t) \<and> Bus_Read 4 0x80001000 t = Inr [1, 2, 3, 4]"
proof -
  obtain libs s where s: "reachable libs XLEN64 0x1000 0x4000000 s" using reachable_exists by blast
  have r: "in_ram 0x4000000 0x80001000 (length [1, 2, 3, 4 :: u8])" by (simp add: in_ram_def)
  obtain t where "Bus_Write [1, 2, 3, 4] 0x80001000 s = Inr ((), t)"
      "Bus_Read (length [1, 2, 3, 4 :: u8]) 0x80001000 t = Inr [1, 2, 3, 4]"
    using bus_ram_store_load [OF reachable_inv [OF s] r] by blast
  with s show ?thesis by (auto simp: numeral_eq_Suc)
qed

text \<open>Past the memories there are no devices, and inside the Rom there are none either.\<close>

lemma io_address_iff: "Bus_IsIoAddress a n (the_bus ramSize) \<longleftrightarrow>
   (\<exists>(b, z) \<in> set (map (\<lambda>l. (ii_address l, ii_size l)) (bus_m_IoList (the_bus ramSize))).
     b \<le> a \<and> a + n - 1 < b + z)"
  by (auto simp: Bus_IsIoAddress_def list_ex_iff)

lemma unat_last:
  fixes a n :: u64
  assumes "0 < n" "unat a + unat n \<le> 2 ^ 64"
  shows "unat (a + n - 1) = unat a + unat n - 1" "a \<le> a + n - 1"
proof -
  have p: "unat (n - 1) = unat n - 1" "0 < unat n"
    using assms(1) by (simp_all add: unat_minus_one word_neq_0_conv unat_gt_0)
  then have "unat (a + (n - 1)) = unat a + (unat n - 1)"
    using assms(2) by (simp add: unat_word_ariths)
  then show "unat (a + n - 1) = unat a + unat n - 1" using p by (simp add: algebra_simps)
  then show "a \<le> a + n - 1" using p by (simp add: word_le_nat_alt)
qed

lemma not_device:
  assumes "a \<le> a + n - 1" "0x80000000 \<le> a \<or> a < 0x2000000"
  shows "\<not> Bus_IsIoAddress a n (the_bus ramSize)"
  using assms unfolding io_address_iff the_bus_devices
  by (auto simp: word_le_nat_alt word_less_nat_alt)

text \<open>
  C34: the end of the RAM. An access that begins in the RAM and runs past its end is refused, but
  not in the same way: a read throws the emulator's exception, a write, whose range the bus tests
  for its first byte only, reaches the RAM, and only the assertion of \<open>Ram::Write\<close> stops it: its
  last byte lies behind the body of the RAM. The assertion is the one of a build with assertions.
\<close>

theorem bus_ram_end:
  assumes "sys_inv x ramSize s" "in_ram ramSize a 1" "\<not> in_ram ramSize a (length bs)"
    and "bs \<noteq> []" "length bs \<le> 8"
  shows "Bus_Read (length bs) a s = Inl EmuException \<and> Bus_Write bs a s = Inl AssertionFailure \<and>
    unat (ram_m_Capacity (sys_m_Ram s)) < unat (ram_offset a) + length bs"
proof -
  let ?n = "of_nat (length bs) :: u64"
  note w = sys_inv_wired [OF assms(1)]
  note d = ram_decode [OF assms(2)] and ar = in_ram_arith [OF assms(2)]
  have n: "unat ?n = length bs" using assms(5) by (simp add: unat_of_nat take_bit_nat_eq_self)
  have past: "unat ramSize < unat (ram_offset a) + length bs" "0x80000000 \<le> unat a"
    using assms(2,3,4) by (auto simp: in_ram_def unat_ram_offset)
  have last: "unat (a + ?n - 1) = unat a + length bs - 1" "a \<le> a + ?n - 1"
    using unat_last [of ?n a] n assms(4,5) ar(1,2) past
    by (auto simp: unat_ram_offset word_less_nat_alt)
  have "\<not> Bus_IsMemoryAddress a ?n (the_bus ramSize)"
    using last past ar(1) by (auto simp: Bus_IsMemoryAddress_def the_bus_memories word_less_nat_alt
        unat_ram_offset unat_word_ariths)
  moreover have "\<not> Bus_IsIoAddress a 1 (the_bus ramSize)"
    using ar(5) by (intro not_device) simp_all
  ultimately have "Bus_Read (length bs) a s = Inl EmuException"
    using w by (simp add: Bus_Read_def wired_def)
  moreover have "unat (ram_offset a + ?n) = unat (ram_offset a) + length bs"
    using ar(1,2) assms(5) by (intro unat_add_small) simp
  then have "Ram_Write bs (ram_offset a) (sys_m_Ram s) = Inl AssertionFailure"
    using past w by (simp add: Ram_Write_def Ram_access_def Ram_GetCapacity_def wired_def word_le_nat_alt)
  then have "Bus_Write bs a s = Inl AssertionFailure"
    using w d by (simp add: Bus_Write_def wired_def memory_Write_def zoomM_def updateM_def)
  moreover have "unat (ram_m_Capacity (sys_m_Ram s)) < unat (ram_offset a) + length bs"
    using past w by (simp add: wired_def)
  ultimately show ?thesis by blast
qed

theorem bus_ram_end_witness:
  "\<exists>libs s. reachable libs XLEN64 0x1000 0x4000000 s \<and>
    Bus_Read 2 0x83ffffff s = Inl EmuException \<and> Bus_Write [7, 8] 0x83ffffff s = Inl AssertionFailure \<and>
    unat (ram_m_Capacity (sys_m_Ram s)) < 0x4000001"
proof -
  obtain libs s where s: "reachable libs XLEN64 0x1000 0x4000000 s" using reachable_exists by blast
  have "Bus_Read (length [7, 8 :: u8]) 0x83ffffff s = Inl EmuException \<and>
      Bus_Write [7, 8] 0x83ffffff s = Inl AssertionFailure \<and>
      unat (ram_m_Capacity (sys_m_Ram s)) < unat (ram_offset 0x83ffffff) + length [7, 8 :: u8]"
    by (rule bus_ram_end [OF reachable_inv [OF s]]) (simp_all add: in_ram_def)
  moreover have "unat (ram_offset 0x83ffffff) = 0x3ffffff" by (simp add: ram_offset_def)
  ultimately show ?thesis using s by (auto simp: numeral_2_eq_2)
qed

text \<open>
  \<open>Bus::IsValidAddress\<close> asks that the range lies in a memory and in a device at once, so it holds
  for no range that does not wrap around the address space.
\<close>

lemma no_valid_memory:
  assumes "sys_inv x ramSize s" "ramSize \<le> 0x80000000" "0 < sz" "unat addr + unat sz \<le> 2 ^ 64"
  shows "\<not> System_IsValidMemory addr sz s"
proof
  assume v: "System_IsValidMemory addr sz s"
  have b: "sys_m_Bus s = the_bus ramSize" using assms(1) by (simp add: sys_inv_def)
  note l = unat_last [OF assms(3,4)]
  have "0x80000000 \<le> addr \<or> addr < 0x2000000"
    using v l b by (auto simp: System_IsValidMemory_def Bus_IsValidAddress_def Bus_IsMemoryAddress_def
        the_bus_memories word_less_nat_alt)
  from not_device [OF l(2) this] v b show False
    by (simp add: System_IsValidMemory_def Bus_IsValidAddress_def)
qed

end
