(* ===== verification/Rafi_Isa.thy ===== *)
theory Rafi_Isa
  imports Rafi_Formats Rafi_System_Ok
begin

text \<open>
  An abstract RV64IM machine, written from the instruction set's own description: a program
  counter, 32 registers, and one function that gives the effect of an instruction on them. It
  covers the integer computations, the jumps and the branches; the instructions are abstract
  syntax, and \<open>encode\<close> is the assembler. The executor is compared with it in \<open>Rafi_Isa_Ok\<close>.
\<close>

section \<open>Instructions\<close>

datatype reg_op = ADD | SUB | SLL | SLT | SLTU | XORR | SRL | SRA | ORR | ANDD
  | ADDW | SUBW | SLLW | SRLW | SRAW
  | MUL | MULH | MULHSU | MULHU | DIV | DIVU | REM | REMU
  | MULW | DIVW | DIVUW | REMW | REMUW

datatype imm_op = ADDI | SLTI | SLTIU | XORI | ORI | ANDI | ADDIW

datatype shift_op = SLLI | SRLI | SRAI | SLLIW | SRLIW | SRAIW

datatype branch_op = BEQ | BNE | BLT | BGE | BLTU | BGEU

type_synonym reg = "5 word"

datatype insn =
    Reg reg_op reg reg reg
  | Imm imm_op reg reg "12 word"
  | Shift shift_op reg reg "6 word"
  | Lui reg "20 word"
  | Auipc reg "20 word"
  | Jal reg "20 word"
  | Jalr reg reg "12 word"
  | Branch branch_op reg reg "12 word"

text \<open>A shift of 32-bit numbers has five bits of shift amount.\<close>

fun valid_insn :: "insn \<Rightarrow> bool" where
  "valid_insn (Shift op rd rs1 shamt) = (op \<in> {SLLI, SRLI, SRAI} \<or> \<not> bit shamt 5)"
| "valid_insn _ = True"

section \<open>The assembler\<close>

primrec reg_fields :: "reg_op \<Rightarrow> 7 word \<times> 3 word \<times> 7 word" where
  "reg_fields ADD = (0x33, 0, 0)"
| "reg_fields SUB = (0x33, 0, 0x20)"
| "reg_fields SLL = (0x33, 1, 0)"
| "reg_fields SLT = (0x33, 2, 0)"
| "reg_fields SLTU = (0x33, 3, 0)"
| "reg_fields XORR = (0x33, 4, 0)"
| "reg_fields SRL = (0x33, 5, 0)"
| "reg_fields SRA = (0x33, 5, 0x20)"
| "reg_fields ORR = (0x33, 6, 0)"
| "reg_fields ANDD = (0x33, 7, 0)"
| "reg_fields ADDW = (0x3b, 0, 0)"
| "reg_fields SUBW = (0x3b, 0, 0x20)"
| "reg_fields SLLW = (0x3b, 1, 0)"
| "reg_fields SRLW = (0x3b, 5, 0)"
| "reg_fields SRAW = (0x3b, 5, 0x20)"
| "reg_fields MUL = (0x33, 0, 1)"
| "reg_fields MULH = (0x33, 1, 1)"
| "reg_fields MULHSU = (0x33, 2, 1)"
| "reg_fields MULHU = (0x33, 3, 1)"
| "reg_fields DIV = (0x33, 4, 1)"
| "reg_fields DIVU = (0x33, 5, 1)"
| "reg_fields REM = (0x33, 6, 1)"
| "reg_fields REMU = (0x33, 7, 1)"
| "reg_fields MULW = (0x3b, 0, 1)"
| "reg_fields DIVW = (0x3b, 4, 1)"
| "reg_fields DIVUW = (0x3b, 5, 1)"
| "reg_fields REMW = (0x3b, 6, 1)"
| "reg_fields REMUW = (0x3b, 7, 1)"

primrec imm_fields :: "imm_op \<Rightarrow> 7 word \<times> 3 word" where
  "imm_fields ADDI = (0x13, 0)"
| "imm_fields SLTI = (0x13, 2)"
| "imm_fields SLTIU = (0x13, 3)"
| "imm_fields XORI = (0x13, 4)"
| "imm_fields ORI = (0x13, 6)"
| "imm_fields ANDI = (0x13, 7)"
| "imm_fields ADDIW = (0x1b, 0)"

primrec shift_fields :: "shift_op \<Rightarrow> 7 word \<times> 3 word \<times> 6 word" where
  "shift_fields SLLI = (0x13, 1, 0)"
| "shift_fields SRLI = (0x13, 5, 0)"
| "shift_fields SRAI = (0x13, 5, 0x10)"
| "shift_fields SLLIW = (0x1b, 1, 0)"
| "shift_fields SRLIW = (0x1b, 5, 0)"
| "shift_fields SRAIW = (0x1b, 5, 0x10)"

primrec branch_funct3 :: "branch_op \<Rightarrow> 3 word" where
  "branch_funct3 BEQ = 0"
| "branch_funct3 BNE = 1"
| "branch_funct3 BLT = 4"
| "branch_funct3 BGE = 5"
| "branch_funct3 BLTU = 6"
| "branch_funct3 BGEU = 7"

primrec encode :: "insn \<Rightarrow> u32" where
  "encode (Reg op rd rs1 rs2) =
     (case reg_fields op of (opc, f3, f7) \<Rightarrow> asm_R opc f3 f7 rd rs1 rs2)"
| "encode (Imm op rd rs1 imm) = (case imm_fields op of (opc, f3) \<Rightarrow> asm_I opc f3 rd rs1 imm)"
| "encode (Shift op rd rs1 shamt) =
     (case shift_fields op of (opc, f3, f6) \<Rightarrow> asm_Sh opc f3 f6 rd rs1 shamt)"
| "encode (Lui rd imm) = asm_U 0x37 rd imm"
| "encode (Auipc rd imm) = asm_U 0x17 rd imm"
| "encode (Jal rd offset) = asm_J 0x6f rd offset"
| "encode (Jalr rd rs1 imm) = asm_I 0x67 0 rd rs1 imm"
| "encode (Branch op rs1 rs2 offset) = asm_B 0x63 (branch_funct3 op) rs1 rs2 offset"

section \<open>Values\<close>

text \<open>The operations of the M extension at any width, with their answers for a zero divisor.\<close>

definition isa_div :: "'a::len word \<Rightarrow> 'a word \<Rightarrow> 'a word" where
  "isa_div a b = (if b = 0 then - 1 else word_of_int (sint a sdiv sint b))"

definition isa_divu :: "'a::len word \<Rightarrow> 'a word \<Rightarrow> 'a word" where
  "isa_divu a b = (if b = 0 then - 1 else a div b)"

definition isa_rem :: "'a::len word \<Rightarrow> 'a word \<Rightarrow> 'a word" where
  "isa_rem a b = (if b = 0 then a else word_of_int (sint a smod sint b))"

definition isa_remu :: "'a::len word \<Rightarrow> 'a word \<Rightarrow> 'a word" where
  "isa_remu a b = (if b = 0 then a else a mod b)"

text \<open>A 32-bit operation on the lower halves; its result is sign-extended.\<close>

definition on_words :: "(u32 \<Rightarrow> u32 \<Rightarrow> u32) \<Rightarrow> u64 \<Rightarrow> u64 \<Rightarrow> u64" where
  "on_words f a b = scast (f (ucast a) (ucast b))"

primrec reg_value :: "reg_op \<Rightarrow> u64 \<Rightarrow> u64 \<Rightarrow> u64" where
  "reg_value ADD a b = a + b"
| "reg_value SUB a b = a - b"
| "reg_value SLL a b = push_bit (unat (take_bit 6 b)) a"
| "reg_value SLT a b = of_bool (sint a < sint b)"
| "reg_value SLTU a b = of_bool (uint a < uint b)"
| "reg_value XORR a b = a XOR b"
| "reg_value SRL a b = drop_bit (unat (take_bit 6 b)) a"
| "reg_value SRA a b = signed_drop_bit (unat (take_bit 6 b)) a"
| "reg_value ORR a b = a OR b"
| "reg_value ANDD a b = a AND b"
| "reg_value ADDW a b = on_words (+) a b"
| "reg_value SUBW a b = on_words (-) a b"
| "reg_value SLLW a b = on_words (\<lambda>x y. push_bit (unat (take_bit 5 y)) x) a b"
| "reg_value SRLW a b = on_words (\<lambda>x y. drop_bit (unat (take_bit 5 y)) x) a b"
| "reg_value SRAW a b = on_words (\<lambda>x y. signed_drop_bit (unat (take_bit 5 y)) x) a b"
| "reg_value MUL a b = a * b"
| "reg_value MULH a b = word_of_int (sint a * sint b div 2 ^ 64)"
| "reg_value MULHSU a b = word_of_int (sint a * uint b div 2 ^ 64)"
| "reg_value MULHU a b = word_of_int (uint a * uint b div 2 ^ 64)"
| "reg_value DIV a b = isa_div a b"
| "reg_value DIVU a b = isa_divu a b"
| "reg_value REM a b = isa_rem a b"
| "reg_value REMU a b = isa_remu a b"
| "reg_value MULW a b = on_words (*) a b"
| "reg_value DIVW a b = on_words isa_div a b"
| "reg_value DIVUW a b = on_words isa_divu a b"
| "reg_value REMW a b = on_words isa_rem a b"
| "reg_value REMUW a b = on_words isa_remu a b"

text \<open>An immediate operation is the register operation with the sign-extended immediate.\<close>

primrec imm_reg_op :: "imm_op \<Rightarrow> reg_op" where
  "imm_reg_op ADDI = ADD"
| "imm_reg_op SLTI = SLT"
| "imm_reg_op SLTIU = SLTU"
| "imm_reg_op XORI = XORR"
| "imm_reg_op ORI = ORR"
| "imm_reg_op ANDI = ANDD"
| "imm_reg_op ADDIW = ADDW"

primrec shift_reg_op :: "shift_op \<Rightarrow> reg_op" where
  "shift_reg_op SLLI = SLL"
| "shift_reg_op SRLI = SRL"
| "shift_reg_op SRAI = SRA"
| "shift_reg_op SLLIW = SLLW"
| "shift_reg_op SRLIW = SRLW"
| "shift_reg_op SRAIW = SRAW"

primrec branch_taken :: "branch_op \<Rightarrow> u64 \<Rightarrow> u64 \<Rightarrow> bool" where
  "branch_taken BEQ a b = (a = b)"
| "branch_taken BNE a b = (a \<noteq> b)"
| "branch_taken BLT a b = (sint a < sint b)"
| "branch_taken BGE a b = (sint b \<le> sint a)"
| "branch_taken BLTU a b = (uint a < uint b)"
| "branch_taken BGEU a b = (uint b \<le> uint a)"

section \<open>The machine\<close>

record isa =
  isa_pc :: u64
  isa_x :: "reg \<Rightarrow> u64"

definition write_x :: "reg \<Rightarrow> u64 \<Rightarrow> (reg \<Rightarrow> u64) \<Rightarrow> reg \<Rightarrow> u64" where
  "write_x rd v x = (if rd = 0 then x else x(rd := v))"

text \<open>The offsets of jumps and branches count half-words; that of \<open>lui\<close> is the upper 20 bits.\<close>

definition jump_offset :: "20 word \<Rightarrow> u64" where
  "jump_offset offset = scast (push_bit 1 (ucast offset) :: 21 word)"

definition branch_offset :: "12 word \<Rightarrow> u64" where
  "branch_offset offset = scast (push_bit 1 (ucast offset) :: 13 word)"

definition upper :: "20 word \<Rightarrow> u64" where
  "upper imm = scast (push_bit 12 (ucast imm) :: u32)"

primrec isa_step :: "insn \<Rightarrow> isa \<Rightarrow> isa" where
  "isa_step (Reg op rd rs1 rs2) m = m\<lparr>isa_pc := isa_pc m + 4,
     isa_x := write_x rd (reg_value op (isa_x m rs1) (isa_x m rs2)) (isa_x m)\<rparr>"
| "isa_step (Imm op rd rs1 imm) m = m\<lparr>isa_pc := isa_pc m + 4,
     isa_x := write_x rd (reg_value (imm_reg_op op) (isa_x m rs1) (scast imm)) (isa_x m)\<rparr>"
| "isa_step (Shift op rd rs1 shamt) m = m\<lparr>isa_pc := isa_pc m + 4,
     isa_x := write_x rd (reg_value (shift_reg_op op) (isa_x m rs1) (ucast shamt)) (isa_x m)\<rparr>"
| "isa_step (Lui rd imm) m = m\<lparr>isa_pc := isa_pc m + 4, isa_x := write_x rd (upper imm) (isa_x m)\<rparr>"
| "isa_step (Auipc rd imm) m =
     m\<lparr>isa_pc := isa_pc m + 4, isa_x := write_x rd (isa_pc m + upper imm) (isa_x m)\<rparr>"
| "isa_step (Jal rd offset) m = m\<lparr>isa_pc := isa_pc m + jump_offset offset,
     isa_x := write_x rd (isa_pc m + 4) (isa_x m)\<rparr>"
| "isa_step (Jalr rd rs1 imm) m = m\<lparr>isa_pc := (isa_x m rs1 + scast imm) AND NOT 1,
     isa_x := write_x rd (isa_pc m + 4) (isa_x m)\<rparr>"
| "isa_step (Branch op rs1 rs2 offset) m = m\<lparr>isa_pc :=
     isa_pc m + (if branch_taken op (isa_x m rs1) (isa_x m rs2) then branch_offset offset else 4)\<rparr>"

end
