(* ===== verification/Rafi_Isa_Ok.thy ===== *)
theory Rafi_Isa_Ok
  imports Rafi_Isa Rafi_Encoding
begin

text \<open>
  The executor refines the abstract machine of \<open>Rafi_Isa\<close>: the decoder inverts the assembler,
  every handler computes the value of the instruction set's description, writes it where the
  abstract machine does and changes nothing else. Where the code has undefined behaviour, the
  theorems say exactly for which operands.
\<close>

section \<open>Fields of assembled words\<close>

lemma Pick_asm_R:
  "Pick (asm_R opc f3 f7 rd rs1 rs2) 0 7 = ucast opc"
  "Pick (asm_R opc f3 f7 rd rs1 rs2) 12 3 = ucast f3"
  "Pick (asm_R opc f3 f7 rd rs1 rs2) 25 7 = ucast f7"
  by (rule word32_eqI; simp add: asm_R_def place_simps)+

lemma Pick_asm_I:
  "Pick (asm_I opc f3 rd rs1 imm) 0 7 = ucast opc"
  "Pick (asm_I opc f3 rd rs1 imm) 12 3 = ucast f3"
  by (rule word32_eqI; simp add: asm_I_def place_simps)+

lemma Pick_asm_Sh:
  "Pick (asm_Sh opc f3 f6 rd rs1 shamt) 0 7 = ucast opc"
  "Pick (asm_Sh opc f3 f6 rd rs1 shamt) 12 3 = ucast f3"
  "Pick (asm_Sh opc f3 f6 rd rs1 shamt) 26 6 = ucast f6"
  "Pick (asm_Sh opc f3 f6 rd rs1 shamt) 7 5 = ucast rd"
  "Pick (asm_Sh opc f3 f6 rd rs1 shamt) 15 5 = ucast rs1"
  by (rule word32_eqI; simp add: asm_Sh_def place_simps)+

lemma Pick_asm_Sh_word:
  assumes "\<not> bit shamt 5"
  shows "Pick (asm_Sh opc f3 0 rd rs1 shamt) 25 7 = 0"
    and "Pick (asm_Sh opc f3 0x10 rd rs1 shamt) 25 7 = 0x20"
    and "Pick (asm_Sh opc f3 f6 rd rs1 shamt) 20 5 = ucast shamt"
  using assms by (intro word32_eqI; simp add: asm_Sh_def place_simps)+

lemma Pick_asm_U:
  "Pick (asm_U opc rd imm) 0 7 = ucast opc"
  by (rule word32_eqI; simp add: asm_U_def place_simps)

lemma Pick_asm_J:
  "Pick (asm_J opc rd imm) 0 7 = ucast opc"
  by (rule word32_eqI; simp add: asm_J_def place_simps)

lemma Pick_asm_B:
  "Pick (asm_B opc f3 rs1 rs2 imm) 0 7 = ucast opc"
  "Pick (asm_B opc f3 rs1 rs2 imm) 12 3 = ucast f3"
  by (rule word32_eqI; simp add: asm_B_def place_simps)+


section \<open>The decoder inverts the assembler\<close>

primrec reg_code :: "reg_op \<Rightarrow> OpCode" where
  "reg_code ADD = OpI i_add" | "reg_code SUB = OpI i_sub" | "reg_code SLL = OpI i_sll"
| "reg_code SLT = OpI i_slt" | "reg_code SLTU = OpI i_sltu" | "reg_code XORR = OpI i_xor"
| "reg_code SRL = OpI i_srl" | "reg_code SRA = OpI i_sra" | "reg_code ORR = OpI i_or"
| "reg_code ANDD = OpI i_and" | "reg_code ADDW = OpI i_addw" | "reg_code SUBW = OpI i_subw"
| "reg_code SLLW = OpI i_sllw" | "reg_code SRLW = OpI i_srlw" | "reg_code SRAW = OpI i_sraw"
| "reg_code MUL = OpM i_mul" | "reg_code MULH = OpM i_mulh" | "reg_code MULHSU = OpM i_mulhsu"
| "reg_code MULHU = OpM i_mulhu" | "reg_code DIV = OpM i_div" | "reg_code DIVU = OpM i_divu"
| "reg_code REM = OpM i_rem" | "reg_code REMU = OpM i_remu" | "reg_code MULW = OpM i_mulw"
| "reg_code DIVW = OpM i_divw" | "reg_code DIVUW = OpM i_divuw" | "reg_code REMW = OpM i_remw"
| "reg_code REMUW = OpM i_remuw"

primrec imm_code :: "imm_op \<Rightarrow> OpCode" where
  "imm_code ADDI = OpI i_addi" | "imm_code SLTI = OpI i_slti" | "imm_code SLTIU = OpI i_sltiu"
| "imm_code XORI = OpI i_xori" | "imm_code ORI = OpI i_ori" | "imm_code ANDI = OpI i_andi"
| "imm_code ADDIW = OpI i_addiw"

primrec shift_code :: "shift_op \<Rightarrow> OpCode" where
  "shift_code SLLI = OpI i_slli" | "shift_code SRLI = OpI i_srli" | "shift_code SRAI = OpI i_srai"
| "shift_code SLLIW = OpI i_slliw" | "shift_code SRLIW = OpI i_srliw"
| "shift_code SRAIW = OpI i_sraiw"

primrec branch_code :: "branch_op \<Rightarrow> OpCode" where
  "branch_code BEQ = OpI i_beq" | "branch_code BNE = OpI i_bne" | "branch_code BLT = OpI i_blt"
| "branch_code BGE = OpI i_bge" | "branch_code BLTU = OpI i_bltu" | "branch_code BGEU = OpI i_bgeu"

text \<open>The decoded form of an instruction.\<close>

definition class_of :: "OpCode \<Rightarrow> OpClass" where
  "class_of code = (case code of OpM _ \<Rightarrow> RV64M | _ \<Rightarrow> RV64I)"

primrec op_of :: "insn \<Rightarrow> Op" where
  "op_of (Reg op rd rs1 rs2) = Op (class_of (reg_code op)) (reg_code op)
     (DecodeOperandR (encode (Reg op rd rs1 rs2)))"
| "op_of (Imm op rd rs1 imm) = Op RV64I (imm_code op) (DecodeOperandI (encode (Imm op rd rs1 imm)))"
| "op_of (Shift op rd rs1 shamt) =
     Op RV64I (shift_code op) (OperandShiftImm (ucast rd) (ucast rs1) (ucast shamt))"
| "op_of (Lui rd imm) = Op RV64I (OpI i_lui) (DecodeOperandU (encode (Lui rd imm)))"
| "op_of (Auipc rd imm) = Op RV64I (OpI i_auipc) (DecodeOperandU (encode (Auipc rd imm)))"
| "op_of (Jal rd offset) = Op RV64I (OpI i_jal) (DecodeOperandJ (encode (Jal rd offset)))"
| "op_of (Jalr rd rs1 imm) = Op RV64I (OpI i_jalr) (DecodeOperandI (encode (Jalr rd rs1 imm)))"
| "op_of (Branch op rs1 rs2 offset) =
     Op RV64I (branch_code op) (DecodeOperandB (encode (Branch op rs1 rs2 offset)))"

lemmas decode_simps = Decode_def not_compressed DecodeI_def DecodeM_def opClass_I_def opClass_M_def
  DecodeI_op_def DecodeI_op_32_def DecodeI_op_imm_def DecodeI_op_imm_32_def DecodeI_branch_def
  DecodeM_op_def DecodeM_op_32_def

lemma decode_reg: "Decode XLEN64 (encode (Reg op rd rs1 rs2)) = Inr (op_of (Reg op rd rs1 rs2))"
  by (cases op; simp add: decode_simps Pick_asm_R class_of_def)

lemma decode_imm: "Decode XLEN64 (encode (Imm op rd rs1 imm)) = Inr (op_of (Imm op rd rs1 imm))"
  by (cases op; simp add: decode_simps Pick_asm_I)

lemma decode_branch:
  "Decode XLEN64 (encode (Branch op rs1 rs2 off)) = Inr (op_of (Branch op rs1 rs2 off))"
  by (cases op; simp add: decode_simps Pick_asm_B)

lemma decode_jumps:
  "Decode XLEN64 (encode (Lui rd imm)) = Inr (op_of (Lui rd imm))"
  "Decode XLEN64 (encode (Auipc rd imm)) = Inr (op_of (Auipc rd imm))"
  "Decode XLEN64 (encode (Jal rd imm)) = Inr (op_of (Jal rd imm))"
  "Decode XLEN64 (encode (Jalr rd rs1 imm12)) = Inr (op_of (Jalr rd rs1 imm12))"
  by (simp_all add: decode_simps Pick_asm_U Pick_asm_J Pick_asm_I)

lemma decode_shift:
  "valid_insn (Shift op rd rs1 shamt) \<Longrightarrow>
   Decode XLEN64 (encode (Shift op rd rs1 shamt)) = Inr (op_of (Shift op rd rs1 shamt))"
  by (cases op; simp add: decode_simps Pick_asm_Sh Pick_asm_Sh_word place_def operand_Shift
      DecodeOperandShiftImm_32_def)

section \<open>Values\<close>

definition reg_defined :: "reg_op \<Rightarrow> u64 \<Rightarrow> bool" where
  "reg_defined op b = (if op \<in> {SLLW, SRLW, SRAW} then \<not> bit b 5
     else if op = DIVW then b = 0 \<or> ucast b \<noteq> (0 :: u32) else True)"

lemma sless_sint: "a <s b \<longleftrightarrow> sint a < sint b" "a \<le>s b \<longleftrightarrow> sint a \<le> sint b" for a b :: u64
  by (simp_all add: word_sless_alt word_sle_eq)

lemma alu_value:
  "op \<in> {ADD, SUB, SLT, SLTU, XORR, ORR, ANDD, ADDW, SUBW} \<Longrightarrow>
   rv64i_alu_value (reg_code op) a b = Inr (reg_value op a b)"
  by (auto simp: rv64i_alu_value_def on_words_def sless_sint word_less_def SignExtend_32_scast)

lemma sint_small_word:
  fixes w :: i32
  assumes "unat w < 2 ^ 31"
  shows "sint w = int (unat w)"
proof -
  have "uint w < 2 ^ 31" using assms by (metis of_nat_less_iff of_nat_numeral of_nat_power uint_nat)
  then have "signed_take_bit 31 (uint w) = uint w"
    by (intro signed_take_bit_int_eq_self) (simp_all add: order_trans [of _ 0])
  then show ?thesis by (simp add: sint_uint)
qed

lemma unat_take_bit: "unat (take_bit n w) = take_bit n (unat w)" for w :: "'a::len word"
  by (simp add: unsigned_take_bit_eq)

lemma shift_amount:
  fixes b :: u64
  shows "sint (ucast (b AND 0x3f) :: i32) = int (unat (take_bit 6 b))"
proof -
  have m: "b AND 0x3f = take_bit 6 b" by (simp add: take_bit_eq_mask mask_eq_exp_minus_1)
  have lt: "unat (take_bit 6 b) < 64"
    using take_bit_nat_less_exp [of 6 "unat b"] by (simp add: unat_take_bit)
  then have u: "unat (ucast (take_bit 6 b) :: i32) = unat (take_bit 6 b)"
    by (simp add: unsigned_ucast_eq take_bit_nat_eq_self)
  then have "sint (ucast (take_bit 6 b) :: i32) = int (unat (ucast (take_bit 6 b) :: i32))"
    using lt by (intro sint_small_word) simp
  then show ?thesis unfolding m u .
qed

lemma take_bit_5_6:
  fixes b :: u64
  shows "unat (take_bit 6 b) < 32 \<longleftrightarrow> \<not> bit b 5"
    and "\<not> bit b 5 \<Longrightarrow> unat (take_bit 6 b) = unat (take_bit 5 (ucast b :: u32))"
proof -
  have e: "unat (take_bit 6 b) = 32 * of_bool (bit b 5) + take_bit 5 (unat b)"
    using take_bit_Suc_from_most [of 5 "unat b"] by (simp add: unat_take_bit bit_unsigned_iff)
  moreover have "take_bit 5 (unat b) < 32" using take_bit_nat_less_exp [of 5 "unat b"] by simp
  ultimately show "unat (take_bit 6 b) < 32 \<longleftrightarrow> \<not> bit b 5" by auto
  have "unat (take_bit 5 (ucast b :: u32)) = take_bit 5 (unat b)"
    by (simp add: unat_take_bit unsigned_ucast_eq)
  then show "\<not> bit b 5 \<Longrightarrow> unat (take_bit 6 b) = unat (take_bit 5 (ucast b :: u32))"
    using e by simp
qed

lemma shift_value:
  assumes "op \<in> {SLL, SRL, SRA, SLLW, SRLW, SRAW}"
  shows "rv64i_shift_value (reg_code op) a (ucast (b AND 0x3f)) =
    (if reg_defined op b then Inr (reg_value op a b) else Inl Undefined)"
proof -
  obtain n where n: "unat (take_bit 6 b) = n" by blast
  have "n < 64"
    using take_bit_nat_less_exp [of 6 "unat b"] by (simp add: unat_take_bit flip: n)
  moreover have "n < 32 \<longleftrightarrow> \<not> bit b 5" "\<not> bit b 5 \<Longrightarrow> unat (take_bit 5 (ucast b :: u32)) = n"
    using take_bit_5_6 [of b] n by simp_all
  moreover have "sint (ucast (b AND 0x3f) :: i32) = int n" using shift_amount [of b] n by simp
  ultimately show ?thesis
    using assms
    by (auto simp: rv64i_shift_value_def n shl_def shr_def sar_def reg_defined_def
        on_words_def SignExtend_32_ucast SignExtend_32_scast)
qed

lemma mul_values:
  "op \<in> {MUL, MULW} \<Longrightarrow> rv64m_value libs (reg_code op) a b = Inr (reg_value op a b)"
  by (auto simp: rv64m_value_def on_words_def SignExtend_32_scast)

text \<open>
  The 128-bit integers of the library compute what their operations mean, wherever the result is a
  128-bit number: multiplication, the arithmetic right shift, and the conversion of a number that
  the target type holds.
\<close>

definition multiplies :: "Libraries \<Rightarrow> bool" where
  "multiplies libs \<longleftrightarrow>
     (\<forall>x y. \<bar>x * y\<bar> < 2 ^ 127 \<longrightarrow> lib_mul_ss libs x y = x * y \<and> lib_mul_su libs x y = x * y) \<and>
     (\<forall>x y. 0 \<le> x \<and> 0 \<le> y \<and> x * y < 2 ^ 128 \<longrightarrow> lib_mul_uu libs x y = x * y) \<and>
     (\<forall>x n. \<bar>x\<bar> < 2 ^ 127 \<longrightarrow> lib_shr_s libs x n = x div 2 ^ n) \<and>
     (\<forall>x n. 0 \<le> x \<and> x < 2 ^ 128 \<longrightarrow> lib_shr_u libs x n = x div 2 ^ n) \<and>
     (\<forall>x. - (2 ^ 63) \<le> x \<and> x < 2 ^ 63 \<longrightarrow> lib_to_int64 libs x = word_of_int x) \<and>
     (\<forall>x. 0 \<le> x \<and> x < 2 ^ 64 \<longrightarrow> lib_to_uint64 libs x = word_of_int x)"

lemma product_bounds:
  fixes a b :: "64 word"
  shows "\<bar>sint a * sint b\<bar> < 2 ^ 127" "\<bar>sint a * uint b\<bar> < 2 ^ 127" "uint a * uint b < 2 ^ 128"
proof -
  have s: "\<bar>sint w\<bar> \<le> 2 ^ 63" for w :: "64 word" using sint_lt [of w] sint_ge [of w] by simp
  have u: "0 \<le> uint w \<and> uint w \<le> 2 ^ 64 - 1" for w :: "64 word" using uint_lt2p [of w] by simp
  have "\<bar>sint a * sint b\<bar> \<le> 2 ^ 63 * 2 ^ 63"
    unfolding abs_mult by (intro mult_mono s) simp_all
  then show "\<bar>sint a * sint b\<bar> < 2 ^ 127" by simp
  have "\<bar>sint a * uint b\<bar> \<le> 2 ^ 63 * (2 ^ 64 - 1)"
    unfolding abs_mult using u [of b] by (intro mult_mono s) simp_all
  then show "\<bar>sint a * uint b\<bar> < 2 ^ 127" by simp
  have "uint a * uint b \<le> (2 ^ 64 - 1) * (2 ^ 64 - 1)" using u [of a] u [of b] by (intro mult_mono) simp_all
  then show "uint a * uint b < 2 ^ 128" by simp
qed

lemma upper_half_bounds:
  fixes x :: int
  shows "\<bar>x\<bar> < 2 ^ 127 \<Longrightarrow> - (2 ^ 63) \<le> x div 2 ^ 64 \<and> x div 2 ^ 64 < 2 ^ 63"
    "0 \<le> x \<Longrightarrow> x < 2 ^ 128 \<Longrightarrow> 0 \<le> x div 2 ^ 64 \<and> x div 2 ^ 64 < 2 ^ 64"
  by (auto simp: abs_if split: if_splits)

text \<open>The upper half of the product, as the code obtains it from them.\<close>

lemma multiplies_upper_half:
  fixes a b :: "64 word"
  assumes "multiplies libs"
  shows "lib_to_int64 libs (lib_shr_s libs (lib_mul_ss libs (sint a) (sint b)) 64) = word_of_int (sint a * sint b div 2 ^ 64)"
    "lib_to_int64 libs (lib_shr_s libs (lib_mul_su libs (sint a) (uint b)) 64) = word_of_int (sint a * uint b div 2 ^ 64)"
    "lib_to_uint64 libs (lib_shr_u libs (lib_mul_uu libs (uint a) (uint b)) 64) = word_of_int (uint a * uint b div 2 ^ 64)"
  using assms [unfolded multiplies_def] product_bounds [of a b] upper_half_bounds(1) [of "sint a * sint b"]
    upper_half_bounds(1) [of "sint a * uint b"] upper_half_bounds(2) [of "uint a * uint b"]
  by simp_all

lemma mulh_of:
  "rv64m_value libs (OpM i_mulh) a b = Inr (lib_to_int64 libs (lib_shr_s libs (lib_mul_ss libs (sint a) (sint b)) 64))"
  "rv64m_value libs (OpM i_mulhsu) a b = Inr (lib_to_int64 libs (lib_shr_s libs (lib_mul_su libs (sint a) (uint b)) 64))"
  "rv64m_value libs (OpM i_mulhu) a b = Inr (lib_to_uint64 libs (lib_shr_u libs (lib_mul_uu libs (uint a) (uint b)) 64))"
  unfolding rv64m_value_def Let_def by simp_all

lemma mulh_values:
  "multiplies libs \<Longrightarrow> op \<in> {MULH, MULHSU, MULHU} \<Longrightarrow>
   rv64m_value libs (reg_code op) a b = Inr (reg_value op a b)"
  by (elim insertE emptyE) (simp_all only: reg_code.simps mulh_of multiplies_upper_half reg_value.simps)

lemma sint_min_iff:
  "sint (w :: 32 word) = - (2 ^ 31) \<longleftrightarrow> w = 0x80000000"
  "sint (v :: 64 word) = - (2 ^ 63) \<longleftrightarrow> v = 0x8000000000000000"
  "sint (x :: 'a::len word) = - 1 \<longleftrightarrow> x = - 1"
proof -
  have "sint (0x80000000 :: 32 word) = - (2 ^ 31)" "sint (0x8000000000000000 :: 64 word) = - (2 ^ 63)"
    by simp_all
  then show "sint w = - (2 ^ 31) \<longleftrightarrow> w = 0x80000000" "sint v = - (2 ^ 63) \<longleftrightarrow> v = 0x8000000000000000"
    by (metis signed_word_eqI)+
  show "sint x = - 1 \<longleftrightarrow> x = - 1" by (metis sint_n1 signed_word_eqI)
qed

lemma sdivision_of:
  fixes a b :: u32 and c d :: u64
  shows "b \<noteq> 0 \<Longrightarrow> \<not> (a = 0x80000000 \<and> b = - 1) \<Longrightarrow> sdiv_of a b = Inr (isa_div a b)"
    "b \<noteq> 0 \<Longrightarrow> \<not> (a = 0x80000000 \<and> b = - 1) \<Longrightarrow> srem_of a b = Inr (isa_rem a b)"
    "d \<noteq> 0 \<Longrightarrow> \<not> (c = 0x8000000000000000 \<and> d = - 1) \<Longrightarrow> sdiv_of c d = Inr (isa_div c d)"
    "d \<noteq> 0 \<Longrightarrow> \<not> (c = 0x8000000000000000 \<and> d = - 1) \<Longrightarrow> srem_of c d = Inr (isa_rem c d)"
  using sint_min_iff(1) [of a] sint_min_iff(2) [of c] sint_min_iff(3) [of b] sint_min_iff(3) [of d]
  by (auto simp: sdiv_of_def srem_of_def isa_div_def isa_rem_def)

lemma isa_overflow:
  "isa_div (0x80000000 :: u32) (- 1) = 0x80000000" "isa_rem (0x80000000 :: u32) (- 1) = 0"
  "isa_div (0x8000000000000000 :: u64) (- 1) = 0x8000000000000000"
  "isa_rem (0x8000000000000000 :: u64) (- 1) = 0"
  by (simp_all add: isa_div_def isa_rem_def signed_divide_int_def signed_modulo_int_def)

lemma isa_zero: "isa_div a 0 = - 1" "isa_divu a 0 = - 1" "isa_rem a 0 = a" "isa_remu a 0 = a"
  by (simp_all add: isa_div_def isa_divu_def isa_rem_def isa_remu_def)

lemma udivision_of:
  "b \<noteq> 0 \<Longrightarrow> udiv_of a b = Inr (isa_divu a b)" "b \<noteq> 0 \<Longrightarrow> urem_of a b = Inr (isa_remu a b)"
  by (simp_all add: udiv_of_def urem_of_def isa_divu_def isa_remu_def)

lemma SignExtend_min: "SignExtend 32 (0x80000000 :: u64) = - 0x80000000"
  using SignExtend_32_ucast [of "0x80000000"] by simp

lemma div_values:
  assumes "op \<in> {DIV, DIVU, REM, REMU}"
  shows "rv64m_value libs (reg_code op) a b = Inr (reg_value op a b)"
proof (cases "b = 0")
  case True
  with assms show ?thesis by (auto simp: rv64m_value_def isa_zero)
next
  case False
  with assms show ?thesis
    by (cases "a = 0x8000000000000000 \<and> b = - 1")
       (auto simp: rv64m_value_def sdivision_of udivision_of isa_overflow push_bit_of_1)
qed

text \<open>On the lower halves \<open>x\<close> and \<open>y\<close> the result is that of the 32-bit operation.\<close>

lemma word_division:
  fixes x y :: u32
  shows "(if y = 0 then Inr (- 1) else map_sum id (\<lambda>v. scast v) (udiv_of x y)) =
      (Inr (scast (isa_divu x y)) :: u64 result)"
    and "(if y = 0 then Inr (scast x) else map_sum id (\<lambda>v. scast v) (urem_of x y)) =
      (Inr (scast (isa_remu x y)) :: u64 result)"
    and "(if x = 0x80000000 \<and> y = - 1 then Inr 0 else if y = 0 then Inr (scast x)
      else map_sum id (\<lambda>v. scast v) (srem_of x y)) = (Inr (scast (isa_rem x y)) :: u64 result)"
    and "y \<noteq> 0 \<Longrightarrow> (if x = 0x80000000 \<and> y = - 1 then Inr (- 0x80000000)
      else map_sum id (\<lambda>v. scast v) (sdiv_of x y)) = (Inr (scast (isa_div x y)) :: u64 result)"
  by (auto simp: udivision_of sdivision_of isa_zero isa_overflow)

lemma divw_values:
  "rv64m_value libs (OpM i_divuw) a b = Inr (reg_value DIVUW a b)"
  "rv64m_value libs (OpM i_remuw) a b = Inr (reg_value REMUW a b)"
  "rv64m_value libs (OpM i_remw) a b = Inr (reg_value REMW a b)"
  unfolding reg_value.simps on_words_def
  by (subst word_division [symmetric], simp add: rv64m_value_def Let_def SignExtend_32_scast
      SignExtend_32_ucast push_bit_of_1)+

lemma divw_value:
  "rv64m_value libs (OpM i_divw) a b =
   (if reg_defined DIVW b then Inr (reg_value DIVW a b) else Inl Undefined)"
proof (cases "(ucast b :: u32) = 0")
  case True
  then show ?thesis
    by (simp add: rv64m_value_def Let_def reg_defined_def on_words_def isa_zero sdiv_of_def)
next
  case False
  then have "b \<noteq> 0" by auto
  with False show ?thesis
    unfolding reg_value.simps on_words_def
    by (subst word_division(4) [symmetric])
       (simp_all add: rv64m_value_def Let_def reg_defined_def SignExtend_32_scast SignExtend_min push_bit_of_1)
qed

section \<open>The abstraction\<close>

abbreviation sys_intreg :: "System \<Rightarrow> IntRegFile" where
  "sys_intreg s \<equiv> cpu_m_IntRegFile (sys_m_Processor s)"

definition xreg :: "System \<Rightarrow> reg \<Rightarrow> u64" where
  "xreg s r = intreg_m_Entries (sys_intreg s) ! unat r"

definition isa_of :: "System \<Rightarrow> isa" where
  "isa_of s = \<lparr>isa_pc = csr_m_ProgramCounter (sys_csr s), isa_x = xreg s\<rparr>"

text \<open>The state after an instruction that writes \<open>v\<close> to \<open>rd\<close>, or sets the program counter.\<close>

definition put_x :: "reg \<Rightarrow> u64 \<Rightarrow> System \<Rightarrow> System" where
  "put_x rd v s = update_processor (cpu_m_IntRegFile_update (\<lambda>_. if rd = 0 then sys_intreg s
     else (sys_intreg s)\<lparr>intreg_m_Entries := (intreg_m_Entries (sys_intreg s))[unat rd := v]\<rparr>)) s"

definition put_pc :: "u64 \<Rightarrow> System \<Rightarrow> System" where
  "put_pc pc s = update_processor (cpu_m_Csr_update (\<lambda>_. Csr_SetProgramCounter pc (sys_csr s))) s"

definition put_cancel :: "System \<Rightarrow> System" where
  "put_cancel s = update_processor
     (cpu_m_AtomicManager_update (\<lambda>_. AtomicManager_Cancel (cpu_m_AtomicManager (sys_m_Processor s)))) s"

text \<open>
  Two states that agree on everything but registers, program counter and reservation; the
  reservation may have been cancelled.
\<close>

definition forget_registers :: "System \<Rightarrow> System" where
  "forget_registers s = s\<lparr>sys_m_Processor := (sys_m_Processor s)\<lparr>cpu_m_IntRegFile := IntRegFile_new,
     cpu_m_Csr := (sys_csr s)\<lparr>csr_m_ProgramCounter := 0\<rparr>, cpu_m_AtomicManager := AtomicManager_new\<rparr>\<rparr>"

definition same_but_registers :: "System \<Rightarrow> System \<Rightarrow> bool" where
  "same_but_registers s t \<longleftrightarrow> forget_registers t = forget_registers s \<and>
     cpu_m_AtomicManager (sys_m_Processor t) \<in> {cpu_m_AtomicManager (sys_m_Processor s),
       AtomicManager_Cancel (cpu_m_AtomicManager (sys_m_Processor s))}"

abbreviation regs_wf :: "System \<Rightarrow> bool" where
  "regs_wf s \<equiv> intreg_wf (sys_intreg s)"

lemma reg_small: "(ucast (r :: reg) :: i32) < 32" "unat (ucast r :: i32) = unat r" "unat r < 32"
proof -
  show "unat r < 32" using unsigned_less [of r] by simp
  then show "(ucast r :: i32) < 32" "unat (ucast r :: i32) = unat r"
    by (simp_all add: word_less_nat_alt unsigned_ucast_eq take_bit_nat_eq_self)
qed

lemma reg_zero: "(ucast (r :: reg) :: i32) = 0 \<longleftrightarrow> r = 0"
  by (metis reg_small(2) unat_eq_zero)

lemma regs_wf_put [simp]: "regs_wf (put_x rd v s) = regs_wf s"
  "regs_wf (put_pc pc s) = regs_wf s" "regs_wf (put_cancel s) = regs_wf s"
  by (auto simp: put_x_def put_pc_def put_cancel_def intreg_wf_def nth_list_update unat_eq_zero)

lemma xreg_put [simp]:
  "xreg (put_pc pc s) = xreg s" "xreg (put_cancel s) = xreg s"
  "regs_wf s \<Longrightarrow> xreg (put_x rd v s) = write_x rd v (xreg s)"
  using reg_small(3) [of rd]
  by (auto simp: xreg_def put_pc_def put_cancel_def put_x_def write_x_def intreg_wf_def
      nth_list_update word_unat_eq_iff fun_eq_iff)

lemma pc_put [simp]:
  "csr_m_ProgramCounter (sys_csr (put_pc pc s)) = pc"
  "csr_m_ProgramCounter (sys_csr (put_x rd v s)) = csr_m_ProgramCounter (sys_csr s)"
  "csr_m_ProgramCounter (sys_csr (put_cancel s)) = csr_m_ProgramCounter (sys_csr s)"
  by (simp_all add: put_pc_def put_x_def put_cancel_def Csr_SetProgramCounter_def)

lemma forget_put [simp]:
  "forget_registers (put_pc pc s) = forget_registers s"
  "forget_registers (put_x rd v s) = forget_registers s"
  "forget_registers (put_cancel s) = forget_registers s"
  by (simp_all add: forget_registers_def put_pc_def put_x_def put_cancel_def Csr_SetProgramCounter_def)

section \<open>Evaluation\<close>

named_theorems eval_simps "running a handler on registers, program counter and reservation"

lemma eval_reads [eval_simps]:
  assumes "regs_wf s"
  shows "bindM (x_ReadInt64 (ucast (r :: reg))) f s = f (xreg s r) s"
    "bindM (x_ReadUInt64 (ucast r)) f s = f (xreg s r) s"
    "bindM (x_ReadInt32 (ucast r)) g s = g (ucast (xreg s r)) s"
    "bindM (x_ReadUInt32 (ucast r)) g s = g (ucast (xreg s r)) s"
  using assms reg_small [of r]
  by (simp_all add: on_IntRegFile_def zoomM_def intreg_part.put_get xreg_def intreg_simps
      IntRegFile_ReadInt64_def IntRegFile_ReadInt32_def bindM_def queryM_def)

lemma eval_write [eval_simps]:
  assumes "regs_wf s"
  shows "x_WriteInt64 (ucast (rd :: reg)) v s = Inr ((), put_x rd v s)"
    "bindM (x_WriteInt64 (ucast (rd :: reg)) v) f s = f () (put_x rd v s)"
  using assms reg_small [of rd]
  by (auto simp: on_IntRegFile_def zoomM_def updateM_def IntRegFile_WriteInt64_def intreg_simps
      put_x_def reg_zero bindM_def)

lemma eval_set_pc [eval_simps]:
  "SetProgramCounter pc s = Inr ((), put_pc pc s)"
  "bindM (SetProgramCounter pc) f s = f () (put_pc pc s)"
  by (simp_all add: on_Csr_def zoomM_def modifyM_def put_pc_def bindM_def)

lemma eval_cancel [eval_simps]:
  "Cancel s = Inr ((), put_cancel s)" "bindM Cancel f s = f () (put_cancel s)"
  by (simp_all add: on_AtomicManager_def zoomM_def modifyM_def put_cancel_def bindM_def)

lemma eval_basic [eval_simps]:
  "returnM x s = Inr (x, s)" "failM e s = Inl e"
  "bindM (if b then m else k) f s = (if b then bindM m f s else bindM k f s)"
  "bindM (liftM (if b then r1 else r2)) f s = (if b then bindM (liftM r1) f s else bindM (liftM r2) f s)"
  by (simp_all add: returnM_def failM_def)

section \<open>The executor on a decoded instruction\<close>

lemma PreCheck_none:
  "op_opClass (op_of i) \<in> {RV64I, RV64M}"
  "PreCheckTrap (op_of i) pc insn = returnM None"
  "PostCheckTrap (op_of i) pc = returnM None"
proof -
  note defs = PreCheckTrap_def PreCheckTrap_opcode_def PostCheckTrap_def class_of_def
  show "op_opClass (op_of i) \<in> {RV64I, RV64M}"
    by (cases i) (auto simp: class_of_def split: OpCode.splits)
  have r: "PreCheckTrap (op_of (Reg op rd rs1 rs2)) pc insn = returnM None \<and>
      PostCheckTrap (op_of (Reg op rd rs1 rs2)) pc = returnM None" for op rd rs1 rs2
    by (cases op; simp add: defs)
  have im: "PreCheckTrap (op_of (Imm op rd rs1 imm)) pc insn = returnM None \<and>
      PostCheckTrap (op_of (Imm op rd rs1 imm)) pc = returnM None" for op rd rs1 imm
    by (cases op; simp add: defs)
  have sh: "PreCheckTrap (op_of (Shift op rd rs1 shamt)) pc insn = returnM None \<and>
      PostCheckTrap (op_of (Shift op rd rs1 shamt)) pc = returnM None" for op rd rs1 shamt
    by (cases op; simp add: defs)
  have br: "PreCheckTrap (op_of (Branch op rs1 rs2 off)) pc insn = returnM None \<and>
      PostCheckTrap (op_of (Branch op rs1 rs2 off)) pc = returnM None" for op rs1 rs2 off
    by (cases op; simp add: defs)
  show "PreCheckTrap (op_of i) pc insn = returnM None" "PostCheckTrap (op_of i) pc = returnM None"
    using r im sh br by (cases i; simp add: defs)+
qed

text \<open>The effect of the handlers: the value, where it goes, and the jump.\<close>

lemma exec_alu:
  assumes "regs_wf s" "op \<in> {ADD, SUB, SLT, SLTU, XORR, ORR, ANDD, ADDW, SUBW}"
  shows "ProcessOp libs (op_of (Reg op rd rs1 rs2)) pc s =
    Inr ((), put_x rd (reg_value op (xreg s rs1) (xreg s rs2)) s)"
proof -
  have "ProcessOp libs (op_of (Reg op rd rs1 rs2)) pc = ProcessRV64I_Alu (op_of (Reg op rd rs1 rs2))"
    using assms(2) by (cases op; simp add: ProcessOp_def ProcessRV64I_def class_of_def)
  then show ?thesis
    using assms alu_value [OF assms(2)]
    by (simp add: ProcessRV64I_Alu_def as_R_def operand_R eval_simps split: prod.split)
qed

lemma exec_shift_reg:
  assumes "regs_wf s" "op \<in> {SLL, SRL, SRA, SLLW, SRLW, SRAW}"
  shows "ProcessOp libs (op_of (Reg op rd rs1 rs2)) pc s =
    (if reg_defined op (xreg s rs2)
     then Inr ((), put_x rd (reg_value op (xreg s rs1) (xreg s rs2)) s) else Inl Undefined)"
proof -
  have "ProcessOp libs (op_of (Reg op rd rs1 rs2)) pc = ProcessRV64I_Shift (op_of (Reg op rd rs1 rs2))"
    using assms(2) by (cases op; simp add: ProcessOp_def ProcessRV64I_def class_of_def)
  then show ?thesis
    using assms shift_value [OF assms(2)]
    by (simp add: ProcessRV64I_Shift_def as_R_def operand_R eval_simps split: prod.split)
qed

lemma exec_mul:
  assumes "regs_wf s" "multiplies libs" "class_of (reg_code op) = RV64M"
  shows "ProcessOp libs (op_of (Reg op rd rs1 rs2)) pc s =
    (if reg_defined op (xreg s rs2)
     then Inr ((), put_x rd (reg_value op (xreg s rs1) (xreg s rs2)) (put_cancel s)) else Inl Undefined)"
proof -
  have "ProcessOp libs (op_of (Reg op rd rs1 rs2)) pc = ProcessRV64M libs (op_of (Reg op rd rs1 rs2))"
    using assms(3) by (simp add: ProcessOp_def)
  moreover have "rv64m_value libs (reg_code op) a b =
      (if reg_defined op b then Inr (reg_value op a b) else Inl Undefined)" for a b
    using assms(3) mulh_values [OF assms(2), of op] mul_values [of op] div_values [of op]
      divw_values [of libs] divw_value
    by (cases op) (simp_all add: class_of_def reg_defined_def)
  ultimately show ?thesis
    using assms
    by (simp add: ProcessRV64M_def as_R_def operand_R eval_simps split: prod.split)
qed

lemma exec_imm:
  assumes "regs_wf s"
  shows "ProcessOp libs (op_of (Imm op rd rs1 imm)) pc s =
    Inr ((), put_x rd (reg_value (imm_reg_op op) (xreg s rs1) (scast imm)) s)"
proof -
  have "ProcessOp libs (op_of (Imm op rd rs1 imm)) pc = ProcessRV64I_AluImm (op_of (Imm op rd rs1 imm))"
    by (cases op; simp add: ProcessOp_def ProcessRV64I_def)
  then show ?thesis
    using assms
    by (cases op; simp add: ProcessRV64I_AluImm_def as_I_def operand_I eval_simps on_words_def
        SignExtend_32_scast sless_sint word_less_def Let_def)
qed

lemma shift_imm_amount:
  fixes shamt :: "6 word"
  shows "sint (ucast shamt :: i32) = int (unat shamt)" "uint (ucast shamt :: u32) = int (unat shamt)"
    "sint (scast (ucast shamt :: i32) :: i64) = int (unat shamt)"
    "uint (scast (ucast shamt :: i32) :: u64) = int (unat shamt)"
    "unat (take_bit 6 (ucast shamt :: u64)) = unat shamt"
    "\<not> bit shamt 5 \<Longrightarrow> unat (take_bit 5 (ucast (ucast shamt :: u64) :: u32)) = unat shamt"
    "unat shamt < 64" "\<not> bit shamt 5 \<Longrightarrow> unat shamt < 32"
proof -
  show lt: "unat shamt < 64" using unsigned_less [of shamt] by simp
  then have u: "unat (ucast shamt :: i32) = unat shamt" "unat (ucast shamt :: u64) = unat shamt"
    by (simp_all add: unsigned_ucast_eq take_bit_nat_eq_self)
  show s32: "sint (ucast shamt :: i32) = int (unat shamt)"
    using lt sint_small_word [of "ucast shamt"] u by simp
  have bnd: "uint shamt < 64" "0 \<le> uint shamt" using unsigned_less [of shamt] by simp_all
  then have u': "uint (ucast shamt :: i32) = uint shamt" "uint (ucast shamt :: u64) = uint shamt"
    by (simp_all add: unsigned_ucast_eq take_bit_int_eq_self)
  then show "uint (ucast shamt :: u32) = int (unat shamt)" by simp
  have "(scast (ucast shamt :: i32) :: i64) = ucast shamt"
    by (rule bit_word_eqI) (auto simp: bit_simps min_def dest: bit_imp_le_length)
  moreover have "sint (ucast shamt :: i64) = int (unat shamt)"
  proof -
    have "signed_take_bit 63 (uint shamt) = uint shamt"
      using bnd by (intro signed_take_bit_int_eq_self) (simp_all add: order_trans [of _ 0])
    then show ?thesis using u'(2) by (simp add: sint_uint)
  qed
  ultimately show "sint (scast (ucast shamt :: i32) :: i64) = int (unat shamt)"
    "uint (scast (ucast shamt :: i32) :: u64) = int (unat shamt)"
    using u'(2) by simp_all
  show "unat (take_bit 6 (ucast shamt :: u64)) = unat shamt"
    using lt u(2) by (simp add: unat_take_bit take_bit_nat_eq_self)
  assume b: "\<not> bit shamt 5"
  have "take_bit 6 (unat shamt) = 32 * of_bool (bit shamt 5) + take_bit 5 (unat shamt)"
    using take_bit_Suc_from_most [of 5 "unat shamt"] by (simp add: bit_unsigned_iff)
  then have t: "take_bit 5 (unat shamt) = unat shamt" using lt b by (simp add: take_bit_nat_eq_self)
  then show "unat shamt < 32" using take_bit_nat_less_exp [of 5 "unat shamt"] by simp
  show "unat (take_bit 5 (ucast (ucast shamt :: u64) :: u32)) = unat shamt"
    using t u by (simp add: unat_take_bit unsigned_ucast_eq take_bit_nat_eq_self)
qed

lemma exec_shift_imm:
  assumes "regs_wf s" "valid_insn (Shift op rd rs1 shamt)"
  shows "ProcessOp libs (op_of (Shift op rd rs1 shamt)) pc s =
    Inr ((), put_x rd (reg_value (shift_reg_op op) (xreg s rs1) (ucast shamt)) s)"
proof -
  have "ProcessOp libs (op_of (Shift op rd rs1 shamt)) pc =
      ProcessRV64I_ShiftImm (op_of (Shift op rd rs1 shamt))"
    by (cases op; simp add: ProcessOp_def ProcessRV64I_def)
  then show ?thesis
    using assms
    by (cases op; simp add: ProcessRV64I_ShiftImm_def as_ShiftImm_def eval_simps on_words_def
        SignExtend_32_scast SignExtend_32_ucast Let_def shift_imm_amount shl_def shr_def sar_def
        del: uint_nat of_nat_unat)
qed

lemma exec_upper:
  assumes "regs_wf s"
  shows "ProcessOp libs (op_of (Lui rd imm)) pc s = Inr ((), put_x rd (upper imm) s)"
    "ProcessOp libs (op_of (Auipc rd imm)) pc s = Inr ((), put_x rd (pc + upper imm) s)"
  using assms
  by (simp_all add: ProcessOp_def ProcessRV64I_def ProcessRV64I_Lui_def ProcessRV64I_Auipc_def
      as_U_def operand_U eval_simps upper_def)

lemma exec_jumps:
  assumes "regs_wf s"
  shows "ProcessOp libs (op_of (Jal rd off)) pc s =
      Inr ((), put_pc (pc + jump_offset off) (put_x rd (pc + 4) s))"
    "ProcessOp libs (op_of (Jalr rd rs1 imm)) pc s =
      Inr ((), put_pc ((xreg s rs1 + scast imm) AND NOT 1) (put_x rd (pc + 4) s))"
  using assms
  by (simp_all add: ProcessOp_def ProcessRV64I_def ProcessRV64I_Jal_def ProcessRV64I_Jalr_def
      as_J_def as_I_def operand_J operand_I eval_simps jump_offset_def and.commute)

lemma exec_branch:
  assumes "regs_wf s"
  shows "ProcessOp libs (op_of (Branch op rs1 rs2 off)) pc s =
    Inr ((), if branch_taken op (xreg s rs1) (xreg s rs2)
      then (if branch_offset off <s 0 then put_cancel else id) (put_pc (pc + branch_offset off) s) else s)"
proof -
  have "ProcessOp libs (op_of (Branch op rs1 rs2 off)) pc =
      ProcessRV64I_Branch (op_of (Branch op rs1 rs2 off)) pc"
    by (cases op; simp add: ProcessOp_def ProcessRV64I_def)
  then show ?thesis
    using assms
    by (cases op; simp add: ProcessRV64I_Branch_def as_B_def operand_B eval_simps jump_to_def
        whenM_def branch_offset_def sless_sint word_less_def word_le_def)
qed

section \<open>Refinement\<close>

text \<open>What the executor does not define: see the findings on the 32-bit shifts and \<open>divw\<close>.\<close>

primrec insn_defined :: "insn \<Rightarrow> isa \<Rightarrow> bool" where
  "insn_defined (Reg op rd rs1 rs2) m = reg_defined op (isa_x m rs2)"
| "insn_defined (Imm op rd rs1 imm) m = True"
| "insn_defined (Shift op rd rs1 shamt) m = True"
| "insn_defined (Lui rd imm) m = True"
| "insn_defined (Auipc rd imm) m = True"
| "insn_defined (Jal rd offset) m = True"
| "insn_defined (Jalr rd rs1 imm) m = True"
| "insn_defined (Branch op rs1 rs2 offset) m = True"

lemma decode_encode: "valid_insn i \<Longrightarrow> Decode XLEN64 (encode i) = Inr (op_of i)"
  by (cases i) (simp_all only: decode_reg decode_imm decode_shift decode_jumps decode_branch)

lemma encode_not_compressed: "\<not> IsCompressedInstruction (encode i)"
proof -
  have "\<not> IsCompressedInstruction (encode (Reg op rd rs1 rs2))" for op rd rs1 rs2
    by (cases op; simp add: not_compressed Pick_asm_R)
  moreover have "\<not> IsCompressedInstruction (encode (Imm op rd rs1 imm))" for op rd rs1 imm
    by (cases op; simp add: not_compressed Pick_asm_I)
  moreover have "\<not> IsCompressedInstruction (encode (Shift op rd rs1 shamt))" for op rd rs1 shamt
    by (cases op; simp add: not_compressed Pick_asm_Sh)
  ultimately show ?thesis
    by (cases i) (simp_all only: encode.simps not_compressed Pick_asm_U Pick_asm_J Pick_asm_I
        Pick_asm_B, simp_all)
qed

lemma op_of_known: "op_opCode (op_of i) \<noteq> Op_unknown"
proof (cases i)
  case (Reg op rd rs1 rs2) then show ?thesis by (cases op; simp)
next
  case (Imm op rd rs1 imm) then show ?thesis by (cases op; simp)
next
  case (Shift op rd rs1 shamt) then show ?thesis by (cases op; simp)
next
  case (Branch op rs1 rs2 off) then show ?thesis by (cases op; simp)
qed simp_all

text \<open>Decoding, checking and the program counter out of the way.\<close>

lemma execute_insn_eval:
  assumes "valid_insn i" "cpu_m_Decoder (sys_m_Processor s) = XLEN64"
  shows "execute_insn libs pc (encode i) s = ProcessOp libs (op_of i) pc (put_pc (pc + 4) s)"
proof -
  have "bindM m (\<lambda>_. returnM ()) = m" for m :: "unit sys_act"
    by (rule ext) (simp add: bindM_def returnM_def split: sum.splits)
  then show ?thesis
    using assms
    by (simp add: execute_insn_def bindM_getM decode_encode op_of_known PreCheck_none
        encode_not_compressed eval_set_pc del: encode.simps op_of.simps)
qed

lemma same_but_registers_put:
  "same_but_registers s s"
  "same_but_registers s t \<Longrightarrow> same_but_registers s (put_pc pc t)"
  "same_but_registers s t \<Longrightarrow> same_but_registers s (put_x rd v t)"
  "same_but_registers s t \<Longrightarrow> same_but_registers s (put_cancel t)"
  by (auto simp: same_but_registers_def) (auto simp: put_pc_def put_x_def put_cancel_def
      Csr_SetProgramCounter_def AtomicManager_Cancel_def)

lemma isa_of_put:
  "regs_wf s \<Longrightarrow> isa_of (put_x rd v s) = (isa_of s)\<lparr>isa_x := write_x rd v (isa_x (isa_of s))\<rparr>"
  "isa_of (put_pc pc s) = (isa_of s)\<lparr>isa_pc := pc\<rparr>" "isa_of (put_cancel s) = isa_of s"
  by (simp_all add: isa_of_def)

definition simulated :: "insn \<Rightarrow> System \<Rightarrow> unit sys_act \<Rightarrow> bool" where
  "simulated i s m \<longleftrightarrow> (if insn_defined i (isa_of s)
     then \<exists>t. m s = Inr ((), t) \<and> isa_of t = isa_step i (isa_of s) \<and> same_but_registers s t
     else m s = Inl Undefined)"

lemmas simulated_simps = simulated_def isa_of_put same_but_registers_put

lemma simulated_reg:
  assumes "regs_wf s" "multiplies libs" "cpu_m_Decoder (sys_m_Processor s) = XLEN64"
    "pc = csr_m_ProgramCounter (sys_csr s)" "i = Reg op rd rs1 rs2"
  shows "simulated i s (execute_insn libs pc (encode i))"
proof -
  let ?s = "put_pc (pc + 4) s"
  consider "op \<in> {ADD, SUB, SLT, SLTU, XORR, ORR, ANDD, ADDW, SUBW}"
    | "op \<in> {SLL, SRL, SRA, SLLW, SRLW, SRAW}" | "class_of (reg_code op) = RV64M"
    by (cases op) (auto simp: class_of_def)
  then have "ProcessOp libs (op_of i) pc ?s =
      (if reg_defined op (xreg s rs2) then Inr ((), put_x rd (reg_value op (xreg s rs1) (xreg s rs2))
        (if class_of (reg_code op) = RV64M then put_cancel ?s else ?s)) else Inl Undefined)"
  proof cases
    case 1 then show ?thesis using assms exec_alu [of ?s op libs rd rs1 rs2 pc]
      by (auto simp: reg_defined_def class_of_def)
  next
    case 2 then show ?thesis using assms exec_shift_reg [of ?s op libs rd rs1 rs2 pc]
      by (auto simp: class_of_def)
  next
    case 3 then show ?thesis using assms exec_mul [of ?s libs op rd rs1 rs2 pc] by auto
  qed
  then show ?thesis
    using assms
    by (auto simp: execute_insn_eval simulated_simps isa_of_def simp del: encode.simps op_of.simps)
qed

lemma simulated_all:
  assumes "regs_wf s" "multiplies libs" "cpu_m_Decoder (sys_m_Processor s) = XLEN64"
    "pc = csr_m_ProgramCounter (sys_csr s)" "valid_insn i"
  shows "simulated i s (execute_insn libs pc (encode i))"
proof (cases i)
  case (Reg op rd rs1 rs2) then show ?thesis using simulated_reg assms(1-4) by blast
next
  case (Imm op rd rs1 imm)
  then show ?thesis
    using assms exec_imm [of "put_pc (pc + 4) s" libs op rd rs1 imm pc]
    by (simp add: execute_insn_eval simulated_simps isa_of_def del: encode.simps op_of.simps)
next
  case (Shift op rd rs1 shamt)
  then show ?thesis
    using assms exec_shift_imm [of "put_pc (pc + 4) s" op rd rs1 shamt libs pc]
    by (simp add: execute_insn_eval simulated_simps isa_of_def del: encode.simps op_of.simps valid_insn.simps)
next
  case (Branch op rs1 rs2 off)
  then show ?thesis
    using assms exec_branch [of "put_pc (pc + 4) s" libs op rs1 rs2 off pc]
    by (simp add: execute_insn_eval simulated_simps isa_of_def del: encode.simps op_of.simps)
qed (use assms exec_upper [of "put_pc (pc + 4) s" libs] exec_jumps [of "put_pc (pc + 4) s" libs] in
    \<open>simp_all add: execute_insn_eval simulated_simps isa_of_def del: encode.simps op_of.simps\<close>)

end
