(* ===== verification/Rafi_Isa_Mem.thy ===== *)
theory Rafi_Isa_Mem
  imports Rafi_Isa_Ok
begin

text \<open>
  The abstract machine with its memory: the loads and stores of RV64I beside the instructions of
  \<open>Rafi_Isa\<close>, a memory that is a partial function from addresses to bytes, and runs that
  read the instructions they execute from that memory.
\<close>

section \<open>Instructions\<close>

datatype load_op = LB | LH | LW | LD | LBU | LHU | LWU

datatype store_op = SB | SH | SW | SD

datatype minsn =
    Calc insn
  | Ld load_op reg reg "12 word"
  | St store_op reg reg "12 word"

primrec load_funct3 :: "load_op \<Rightarrow> 3 word" where
  "load_funct3 LB = 0" | "load_funct3 LH = 1" | "load_funct3 LW = 2" | "load_funct3 LD = 3"
| "load_funct3 LBU = 4" | "load_funct3 LHU = 5" | "load_funct3 LWU = 6"

primrec store_funct3 :: "store_op \<Rightarrow> 3 word" where
  "store_funct3 SB = 0" | "store_funct3 SH = 1" | "store_funct3 SW = 2" | "store_funct3 SD = 3"

primrec mencode :: "minsn \<Rightarrow> u32" where
  "mencode (Calc i) = encode i"
| "mencode (Ld op rd rs1 imm) = asm_I 0x03 (load_funct3 op) rd rs1 imm"
| "mencode (St op rs1 rs2 imm) = asm_S 0x23 (store_funct3 op) rs1 rs2 imm"

primrec valid_minsn :: "minsn \<Rightarrow> bool" where
  "valid_minsn (Calc i) = valid_insn i"
| "valid_minsn (Ld op rd rs1 imm) = True"
| "valid_minsn (St op rs1 rs2 imm) = True"

section \<open>Memory\<close>

type_synonym mem = "u64 \<Rightarrow> u8 option"

text \<open>\<open>n\<close> bytes from \<open>a\<close>, if the memory has them all.\<close>

definition mem_read :: "nat \<Rightarrow> u64 \<Rightarrow> mem \<Rightarrow> u8 list option" where
  "mem_read n a mem = those (map (\<lambda>i. mem (a + of_nat i)) [0..<n])"

definition mem_write :: "u8 list \<Rightarrow> u64 \<Rightarrow> mem \<Rightarrow> mem" where
  "mem_write bs a mem = (\<lambda>b. if unat (b - a) < length bs then Some (bs ! unat (b - a)) else mem b)"

primrec load_width :: "load_op \<Rightarrow> nat" where
  "load_width LB = 1" | "load_width LH = 2" | "load_width LW = 4" | "load_width LD = 8"
| "load_width LBU = 1" | "load_width LHU = 2" | "load_width LWU = 4"

primrec store_width :: "store_op \<Rightarrow> nat" where
  "store_width SB = 1" | "store_width SH = 2" | "store_width SW = 4" | "store_width SD = 8"

primrec load_value :: "load_op \<Rightarrow> u8 list \<Rightarrow> u64" where
  "load_value LB bs = scast (le_value bs :: u8)"
| "load_value LH bs = scast (le_value bs :: u16)"
| "load_value LW bs = scast (le_value bs :: u32)"
| "load_value LD bs = le_value bs"
| "load_value LBU bs = ucast (le_value bs :: u8)"
| "load_value LHU bs = ucast (le_value bs :: u16)"
| "load_value LWU bs = ucast (le_value bs :: u32)"

section \<open>The machine\<close>

record misa =
  misa_core :: isa
  misa_mem :: mem

text \<open>The step; \<open>None\<close> where an access leaves the memory or the code has no defined result.\<close>

primrec mstep :: "minsn \<Rightarrow> misa \<Rightarrow> misa option" where
  "mstep (Calc i) m = (if insn_defined i (misa_core m)
     then Some (m\<lparr>misa_core := isa_step i (misa_core m)\<rparr>) else None)"
| "mstep (Ld op rd rs1 imm) m = (let c = misa_core m in
     case mem_read (load_width op) (isa_x c rs1 + scast imm) (misa_mem m) of
       None \<Rightarrow> None
     | Some bs \<Rightarrow> Some (m\<lparr>misa_core := \<lparr>isa_pc = isa_pc c + 4,
         isa_x = write_x rd (load_value op bs) (isa_x c)\<rparr>\<rparr>))"
| "mstep (St op rs1 rs2 imm) m = (let c = misa_core m; a = isa_x c rs1 + scast imm in
     case mem_read (store_width op) a (misa_mem m) of
       None \<Rightarrow> None
     | Some _ \<Rightarrow> Some \<lparr>misa_core = c\<lparr>isa_pc := isa_pc c + 4\<rparr>,
         misa_mem = mem_write (le_bytes (store_width op) (isa_x c rs2)) a (misa_mem m)\<rparr>)"

text \<open>\<open>fetches i m\<close>: the word at the program counter is that of the instruction \<open>i\<close>.\<close>

definition fetches :: "minsn \<Rightarrow> misa \<Rightarrow> bool" where
  "fetches i m = (case mem_read 4 (isa_pc (misa_core m)) (misa_mem m) of
     None \<Rightarrow> False | Some bs \<Rightarrow> le_value bs = mencode i \<and> valid_minsn i)"

text \<open>
  A run of \<open>n\<close> instructions that ends in the given state; \<open>P\<close> holds in every state before an
  instruction.
\<close>

inductive mrun :: "(misa \<Rightarrow> bool) \<Rightarrow> misa \<Rightarrow> nat \<Rightarrow> misa \<Rightarrow> bool"
  for P where
  mrun_0: "mrun P m 0 m"
| mrun_Suc: "P m \<Longrightarrow> fetches i m \<Longrightarrow> mstep i m = Some m' \<Longrightarrow> mrun P m' n m'' \<Longrightarrow> mrun P m (Suc n) m''"

inductive_simps mrun_0_iff [simp]: "mrun P m 0 m''"

inductive_cases mrun_SucE: "mrun P m (Suc n) m''"

lemma mrun_append: "mrun P m n m' \<Longrightarrow> mrun P m' k m'' \<Longrightarrow> mrun P m (n + k) m''"
  by (induction rule: mrun.induct) (auto intro: mrun_Suc)

lemma mrun_weaken: "mrun P m n m' \<Longrightarrow> (\<And>m. P m \<Longrightarrow> Q m) \<Longrightarrow> mrun Q m n m'"
  by (induction rule: mrun.induct) (auto intro: mrun.intros)

section \<open>The assembler and the decoder\<close>

lemma Pick_asm_S:
  "Pick (asm_S opc f3 rs1 rs2 imm) 0 7 = ucast opc"
  "Pick (asm_S opc f3 rs1 rs2 imm) 12 3 = ucast f3"
  by (rule word32_eqI; simp add: asm_S_def place_simps)+

primrec load_code :: "load_op \<Rightarrow> OpCode" where
  "load_code LB = OpI i_lb" | "load_code LH = OpI i_lh" | "load_code LW = OpI i_lw"
| "load_code LD = OpI i_ld" | "load_code LBU = OpI i_lbu" | "load_code LHU = OpI i_lhu"
| "load_code LWU = OpI i_lwu"

primrec store_code :: "store_op \<Rightarrow> OpCode" where
  "store_code SB = OpI i_sb" | "store_code SH = OpI i_sh" | "store_code SW = OpI i_sw"
| "store_code SD = OpI i_sd"

lemma decode_load: "Decode XLEN64 (mencode (Ld op rd rs1 imm)) =
    Inr (Op RV64I (load_code op) (OperandI (scast imm) (ucast rd) (ucast rs1) (ucast (load_funct3 op))))"
  by (cases op; simp add: decode_simps DecodeI_load_def Pick_asm_I operand_I)

lemma decode_store: "Decode XLEN64 (mencode (St op rs1 rs2 imm)) =
    Inr (Op RV64I (store_code op) (OperandS (scast imm) (ucast rs1) (ucast rs2) (ucast (store_funct3 op))))"
  by (cases op; simp add: decode_simps DecodeI_store_def Pick_asm_S operand_S)

lemma mencode_not_compressed: "\<not> IsCompressedInstruction (mencode i)"
proof (cases i)
  case (Calc j) then show ?thesis using encode_not_compressed by simp
qed (simp_all add: not_compressed Pick_asm_I Pick_asm_S)

end
