(* ===== verification/Rafi_Cycle_Ok.thy ===== *)
theory Rafi_Cycle_Ok
  imports Rafi_Isa_Ok Rafi_Memory_Ok Rafi_Emulator_Ok Rafi_Trap_Ok
begin

text \<open>
  A whole cycle of \<open>System\<close>, from the devices to the executed instruction, against one step of
  the abstract machine. The machine is in machine mode with its interrupts disabled, the state in which it
  boots, so that fetches are not translated and no interrupt is taken.
\<close>

section \<open>The view of a cycle\<close>

definition quiet :: "System \<Rightarrow> bool" where
  "quiet s \<longleftrightarrow> csr_m_PrivilegeLevel (sys_csr s) = Machine \<and> \<not> bit (csr_m_Status (sys_csr s)) 3"

abbreviation trap_flag :: "System \<Rightarrow> bool" where
  "trap_flag s \<equiv> trap_m_TrapEventValid (cpu_m_TrapProcessor (sys_m_Processor s))"

text \<open>What the abstract machine and the fetch see of a state; no trap is recorded in between.\<close>

definition same_view :: "System \<Rightarrow> System \<Rightarrow> bool" where
  "same_view s t \<longleftrightarrow> csr_m_PrivilegeLevel (sys_csr t) = csr_m_PrivilegeLevel (sys_csr s) \<and>
     csr_m_Status (sys_csr t) = csr_m_Status (sys_csr s) \<and> sys_m_Ram t = sys_m_Ram s \<and>
     sys_m_HostIoAddress t = sys_m_HostIoAddress s \<and> (trap_flag t \<longrightarrow> trap_flag s)"

lemma same_view_refl [simp]: "same_view s s"
  by (simp add: same_view_def)

lemma same_view_trans: "same_view s t \<Longrightarrow> same_view t u \<Longrightarrow> same_view s u"
  by (simp add: same_view_def)

lemma same_view_quiet: "same_view s t \<Longrightarrow> quiet s \<Longrightarrow> quiet t"
  by (simp add: same_view_def quiet_def)

lemma same_view_ram: "same_view s t \<Longrightarrow> ram_bytes n a t = ram_bytes n a s"
  by (simp add: same_view_def ram_bytes_def)

text \<open>\<open>unseen s t\<close>: neither the abstract machine nor the fetch tells \<open>t\<close> from \<open>s\<close>.\<close>

definition unseen :: "System \<Rightarrow> System \<Rightarrow> bool" where
  "unseen s t \<longleftrightarrow> same_view s t \<and> isa_of t = isa_of s"

lemma unseen_trans: "unseen s t \<Longrightarrow> unseen t u \<Longrightarrow> unseen s u"
  by (auto simp: unseen_def intro: same_view_trans)

section \<open>The parts of a cycle\<close>

lemma begin_cycle_unseen: "\<exists>t. begin_cycle s = Inr ((), t) \<and> unseen s t \<and> \<not> trap_flag t"
  by (simp add: begin_cycle_def bindM_modifyM on_Csr_def zoomM_def modifyM_def ClearOpEvent_def
      TrapProcessor_ClearEvent_def Csr_ProcessCycle_def unseen_def same_view_def isa_of_def
      xreg_def fun_eq_iff bindM_def)

lemma Update_unseen:
  assumes "sys_inv x ramSize s" "quiet s"
  shows "\<exists>t. on_InterruptController (InterruptController_Update req) s = Inr ((), t) \<and> unseen s t \<and>
    \<not> InterruptController_IsRequested (cpu_m_InterruptController (sys_m_Processor t))"
proof -
  let ?csr = "sys_csr s"
  have inv: "csr_inv ?csr"
    using assms by (auto simp: sys_inv_def csr_inv_wf csr_wf_def quiet_def)
  obtain ip where u: "UpdateCsr req ?csr = Inr ((), ?csr\<lparr>csr_m_InterruptPending := ip\<rparr>)"
    using UpdateCsr_eval by blast
  obtain st where st: "Csr_ReadStatus ?csr = Inr st"
    and e: "GetMember xstatus_MIE st = GetMember xstatus_MIE (csr_m_Status ?csr)"
    "GetMember xstatus_SIE st = GetMember xstatus_SIE (csr_m_Status ?csr)"
    "GetMember xstatus_UIE st = GetMember xstatus_UIE (csr_m_Status ?csr)"
    using ReadStatus_enable [OF inv] by blast
  have st': "Csr_ReadStatus (?csr\<lparr>csr_m_InterruptPending := ip\<rparr>) = Inr st"
    unfolding st [symmetric] by (simp add: Csr_ReadStatus_def Let_def)
  have r: "csr_m_PrivilegeLevel ?csr \<noteq> Reserved" using inv by (simp add: csr_inv_def)
  have "\<not> level_enable ?csr" using assms(2) by (simp add: level_enable_def quiet_def)
  with Update_eval [OF u st' e r, of "cpu_m_InterruptController (sys_m_Processor s)"] show ?thesis
    by (simp add: on_InterruptController_def zoomM_def update_request_def unseen_def same_view_def
        isa_of_def xreg_def fun_eq_iff InterruptController_IsRequested_def)
qed

lemma Translate_quiet:
  assumes "sys_inv XLEN64 ramSize s" "quiet s"
  shows "Translate Instruction a pc s = Inr (Address a, s)"
proof -
  have inv: "csr_inv (sys_csr s)"
    using assms by (auto simp: sys_inv_def csr_inv_wf csr_wf_def quiet_def)
  obtain st where "Csr_ReadStatus (sys_csr s) = Inr st" using ReadStatus_enable [OF inv] by blast
  then have "translation_mode Instruction s = Inr (Bare, s)"
    using assms by (simp add: translation_mode_def queryM_def GetAddresssTranslationMode_def
        GetEffectivePrivilegeLevel_def Csr_GetPrivilegeLevel_def quiet_def)
  then show ?thesis
    using assms by (simp add: Translate_def bindM_def getM_def sys_inv_def)
qed

lemma AddEvent_unseen: "\<exists>t. AddEvent ty sz v va pa s = Inr ((), t) \<and> unseen s t"
  by (simp add: AddEvent_def on_MemAccessUnit_def zoomM_def modifyM_def unseen_def same_view_def
      isa_of_def xreg_def fun_eq_iff)


section \<open>The fetch\<close>

lemma Bus_ReadUInt_ram:
  assumes "wired ramSize s"
  shows "in_ram ramSize a 2 \<Longrightarrow> Bus_ReadUInt16 a s = Inr (le_value (ram_bytes 2 a s))"
    and "in_ram ramSize a 4 \<Longrightarrow> Bus_ReadUInt32 a s = Inr (le_value (ram_bytes 4 a s))"
  using assms by (simp_all add: Bus_ReadUInt16_def Bus_ReadUInt32_def Bus_Read_ram)

lemma fetch_one:
  assumes "sys_inv XLEN64 ramSize s" "in_ram ramSize a 2"
  shows "\<exists>t. FetchUInt16 v a s = Inr (le_value (ram_bytes 2 a s), t) \<and> unseen s t \<and> sys_inv XLEN64 ramSize t"
    and "in_ram ramSize a 4 \<Longrightarrow>
      \<exists>t. FetchUInt32 v a s = Inr (le_value (ram_bytes 4 a s), t) \<and> unseen s t \<and> sys_inv XLEN64 ramSize t"
proof -
  note rd = Bus_ReadUInt_ram [OF sys_inv_wired [OF assms(1)]]
  obtain t where t: "AddEvent Instruction 2 (ucast (le_value (ram_bytes 2 a s) :: u16)) v a s = Inr ((), t)"
    "unseen s t" using AddEvent_unseen by blast
  then show "\<exists>t. FetchUInt16 v a s = Inr (le_value (ram_bytes 2 a s), t) \<and> unseen s t \<and> sys_inv XLEN64 ramSize t"
    using rd(1) [OF assms(2)] preservesD [OF preserves_AddEvent assms(1) t(1)]
    by (simp add: FetchUInt16_def bindM_def queryM_def returnM_def)
  assume a4: "in_ram ramSize a 4"
  obtain t where t: "AddEvent Instruction 4 (ucast (le_value (ram_bytes 4 a s) :: u32)) v a s = Inr ((), t)"
    "unseen s t" using AddEvent_unseen by blast
  then show "\<exists>t. FetchUInt32 v a s = Inr (le_value (ram_bytes 4 a s), t) \<and> unseen s t \<and> sys_inv XLEN64 ramSize t"
    using rd(2) [OF a4] preservesD [OF preserves_AddEvent assms(1) t(1)]
    by (simp add: FetchUInt32_def bindM_def queryM_def returnM_def)
qed

text \<open>The two halves of an instruction that crosses a page.\<close>

lemma halves:
  fixes a :: u64
  shows "ram_bytes 4 a s = ram_bytes 2 a s @ ram_bytes 2 (a + 2) s"
  by (simp add: ram_bytes_def body_read_def ram_offset_def numeral_eq_Suc algebra_simps)

lemma le_value_halves:
  assumes "length xs = 2" "length ys = 2"
  shows "push_bit 16 (ucast (le_value ys :: u16)) OR ucast (le_value xs :: u16) = (le_value (xs @ ys) :: u32)"
proof -
  obtain b0 b1 b2 b3 where "xs = [b0, b1]" "ys = [b2, b3]"
    using assms by (auto simp: length_Suc_conv numeral_2_eq_2)
  then show ?thesis
    by (intro bit_word_eqI) (auto simp: bit_simps dest: bit_imp_le_length)
qed

lemma low_half_compressed:
  "IsCompressedInstruction16 (ucast insn) = IsCompressedInstruction insn" for insn :: u32
proof -
  have m: "w AND 3 = take_bit 2 w" for w :: u16
    by (simp add: take_bit_eq_mask [of 2] mask_eq_exp_minus_1)
  have "ucast insn AND (3 :: u16) = ucast (take_bit 2 insn)"
    unfolding m by (rule bit_word_eqI) (auto simp: bit_simps)
  moreover have "insn AND 3 = take_bit 2 insn"
    by (simp add: take_bit_eq_mask [of 2] mask_eq_exp_minus_1)
  moreover have "(ucast (take_bit 2 insn) :: u16) = 3 \<longleftrightarrow> take_bit 2 insn = 3"
  proof
    assume "(ucast (take_bit 2 insn) :: u16) = 3"
    then have "(ucast (ucast (take_bit 2 insn) :: u16) :: u32) = 3" by simp
    moreover have "(ucast (ucast (take_bit 2 insn) :: u16) :: u32) = take_bit 2 insn"
      by (rule bit_word_eqI) (auto simp: bit_simps)
    ultimately show "take_bit 2 insn = 3" by simp
  qed simp
  ultimately show ?thesis by (simp add: IsCompressedInstruction16_def IsCompressedInstruction_def)
qed

lemma length_ram_bytes [simp]: "length (ram_bytes n a s) = n"
  by (simp add: ram_bytes_def)

lemma Fetch_quiet:
  assumes "sys_inv XLEN64 ramSize s" "quiet s" "in_ram ramSize pc 4"
    "le_value (ram_bytes 4 pc s) = insn" "\<not> IsCompressedInstruction insn"
  shows "\<exists>t. Processor_Fetch pc s = Inr (Insn insn, t) \<and> unseen s t \<and> sys_inv XLEN64 ramSize t"
proof (cases "pc mod 0x1000 = 0xffe")
  case False
  have "in_ram ramSize pc 2" using assms(3) by (simp add: in_ram_def)
  with fetch_one(2) [OF assms(1) _ assms(3)] assms(4) obtain t
    where "FetchUInt32 pc pc s = Inr (insn, t)" "unseen s t" "sys_inv XLEN64 ramSize t" by blast
  then show ?thesis
    using False Translate_quiet [OF assms(1,2)]
    by (simp add: Processor_Fetch_def fetch_at_def bindM_def returnM_def)
next
  case True
  have r: "in_ram ramSize pc 2" "in_ram ramSize (pc + 2) 2"
    using assms(3) unat_add_small [of pc 2] by (auto simp: in_ram_def word_le_nat_alt)
  obtain t where t: "FetchUInt16 pc pc s = Inr (le_value (ram_bytes 2 pc s), t)" "unseen s t"
      "sys_inv XLEN64 ramSize t"
    using fetch_one(1) [OF assms(1) r(1)] by blast
  then have qt: "quiet t" using assms(2) same_view_quiet unseen_def by blast
  obtain u where u: "FetchUInt16 (pc + 2) (pc + 2) t = Inr (le_value (ram_bytes 2 (pc + 2) t), u)"
      "unseen t u" "sys_inv XLEN64 ramSize u"
    using fetch_one(1) [OF t(3) r(2)] by blast
  have b: "ram_bytes 2 (pc + 2) t = ram_bytes 2 (pc + 2) s"
    using t(2) same_view_ram unseen_def by blast
  have i: "push_bit 16 (ucast (le_value (ram_bytes 2 (pc + 2) s) :: u16)) OR
      ucast (le_value (ram_bytes 2 pc s) :: u16) = insn"
    using assms(4) by (simp add: halves le_value_halves)
  then have "ucast insn = (le_value (ram_bytes 2 pc s) :: u16)"
    by (intro bit_word_eqI) (auto simp: bit_simps)
  then have "\<not> IsCompressedInstruction16 (le_value (ram_bytes 2 pc s))"
    using assms(5) low_half_compressed by metis
  then show ?thesis
    using True Translate_quiet [OF assms(1,2)] Translate_quiet [OF t(3) qt] t u b i unseen_trans
    by (auto simp: Processor_Fetch_def fetch_at_def bindM_def returnM_def Let_def)
qed


section \<open>A cycle\<close>

lemma same_but_registers_view:
  assumes "same_but_registers s t"
  shows "same_view s t"
proof -
  have f: "forget_registers t = forget_registers s" using assms by (simp add: same_but_registers_def)
  have "csr_m_PrivilegeLevel (sys_csr (forget_registers u)) = csr_m_PrivilegeLevel (sys_csr u)"
    "csr_m_Status (sys_csr (forget_registers u)) = csr_m_Status (sys_csr u)"
    "sys_m_Ram (forget_registers u) = sys_m_Ram u"
    "sys_m_HostIoAddress (forget_registers u) = sys_m_HostIoAddress u"
    "trap_flag (forget_registers u) = trap_flag u" for u
    by (simp_all add: forget_registers_def)
  with f show ?thesis unfolding same_view_def by metis
qed

lemma unseen_quiet: "unseen s t \<Longrightarrow> quiet s \<Longrightarrow> quiet t"
  using same_view_quiet unseen_def by blast

text \<open>The devices' part of a cycle.\<close>

definition uart16550_cycle :: "System \<Rightarrow> System" where
  "uart16550_cycle s = (let (out, uart) = Uart16550_ProcessCycle (sys_m_Uart16550 s) in
     s\<lparr>sys_m_Uart16550 := uart, standard_output := standard_output s @ out\<rparr>)"

definition uart_cycle :: "System \<Rightarrow> System" where
  "uart_cycle s = (let (out, uart) = Uart_ProcessCycle (sys_m_Uart s) in
     s\<lparr>sys_m_Uart := uart, standard_output := standard_output s @ out\<rparr>)"

definition timer_cycle :: "System \<Rightarrow> System" where
  "timer_cycle s = s\<lparr>sys_m_Timer := Timer_ProcessCycle (sys_m_Timer s)\<rparr>"

definition devices_cycle :: "System \<Rightarrow> System" where
  "devices_cycle s = timer_cycle (uart_cycle (uart16550_cycle s))"

lemma System_ProcessCycle_devices:
  "System_ProcessCycle libs s = Processor_ProcessCycle libs (devices_cycle s)"
  by (simp only: System_ProcessCycle_def bindM_modifyM devices_cycle_def timer_cycle_def
      uart_cycle_def uart16550_cycle_def)

lemma device_updates_unseen:
  "unseen s (uart16550_cycle s)" "unseen s (uart_cycle s)" "unseen s (timer_cycle s)"
  "sys_inv x n (uart16550_cycle s) = sys_inv x n s" "sys_inv x n (uart_cycle s) = sys_inv x n s"
  "sys_inv x n (timer_cycle s) = sys_inv x n s"
  by (simp_all add: uart16550_cycle_def uart_cycle_def timer_cycle_def split_def Let_def unseen_def
      same_view_def isa_of_def xreg_def fun_eq_iff sys_inv_def)

lemma devices_cycle_unseen:
  "unseen s (devices_cycle s)" "sys_inv x n (devices_cycle s) = sys_inv x n s"
  unfolding devices_cycle_def by (blast intro: unseen_trans device_updates_unseen)
    (simp only: device_updates_unseen)

text \<open>The devices, the preparation and the interrupt controller, up to the fetch.\<close>

lemma before_fetch:
  assumes "sys_inv XLEN64 ramSize s" "quiet s"
  shows "\<exists>t. unseen s t \<and> sys_inv XLEN64 ramSize t \<and> \<not> trap_flag t \<and>
    System_ProcessCycle libs s = bindM (Processor_Fetch (csr_m_ProgramCounter (sys_csr s)))
      (\<lambda>r. case r of
        FetchTrap trap \<Rightarrow> bindM (raise_trap trap) (\<lambda>_. on_Processor
          (SetOpEvent (csr_m_ProgramCounter (sys_csr s)) (csr_m_PrivilegeLevel (sys_csr s))))
      | Insn insn \<Rightarrow> execute_insn libs (csr_m_ProgramCounter (sys_csr s)) insn) t"
proof -
  let ?d = "devices_cycle s"
  have d: "unseen s ?d" "sys_inv XLEN64 ramSize ?d"
    using devices_cycle_unseen assms(1) by simp_all
  obtain b where b: "begin_cycle ?d = Inr ((), b)" "unseen ?d b" and nb: "\<not> trap_flag b"
    using begin_cycle_unseen by blast
  have "preserves (sys_inv XLEN64 ramSize) begin_cycle"
    unfolding begin_cycle_def by (intro preserves_intros)
  then have ib: "sys_inv XLEN64 ramSize b" using d(2) b(1) by (rule preservesD)
  have qb: "quiet b" using b(2) d(1) assms(2) unseen_quiet by blast
  let ?update = "on_InterruptController (InterruptController_Update (timer_requested b))"
  obtain u where u: "?update b = Inr ((), u)"
      "unseen b u" "\<not> InterruptController_IsRequested (cpu_m_InterruptController (sys_m_Processor u))"
    using Update_unseen [OF ib qb] by blast
  have "preserves (sys_inv XLEN64 ramSize) ?update" by (intro preserves_intros)
  then have iu: "sys_inv XLEN64 ramSize u" using ib u(1) by (rule preservesD)
  have sb: "unseen s b" using d(1) b(2) unseen_trans by blast
  have reads: "on_Csr (getM Csr_GetPrivilegeLevel) b = Inr (csr_m_PrivilegeLevel (sys_csr s), b)"
    "on_Csr (getM Csr_GetProgramCounter) b = Inr (csr_m_ProgramCounter (sys_csr s), b)"
    using sb by (simp_all add: unseen_def same_view_def isa_of_def on_Csr_def zoomM_def getM_def
        Csr_GetPrivilegeLevel_def Csr_GetProgramCounter_def)
  have "System_ProcessCycle libs s = bindM (Processor_Fetch (csr_m_ProgramCounter (sys_csr s)))
      (\<lambda>r. case r of
        FetchTrap trap \<Rightarrow> bindM (raise_trap trap) (\<lambda>_. on_Processor
          (SetOpEvent (csr_m_ProgramCounter (sys_csr s)) (csr_m_PrivilegeLevel (sys_csr s))))
      | Insn insn \<Rightarrow> execute_insn libs (csr_m_ProgramCounter (sys_csr s)) insn) u"
    by (simp only: System_ProcessCycle_devices Processor_ProcessCycle_def bindM_Inr [where m = begin_cycle, OF b(1)]
        bindM_Inr [where m = "on_Csr (getM Csr_GetPrivilegeLevel)", OF reads(1)]
        bindM_Inr [where m = "on_Csr (getM Csr_GetProgramCounter)", OF reads(2)] bindM_getM
        bindM_Inr [where m = ?update, OF u(1)] u(3) if_False)
  moreover have "\<not> trap_flag u" using nb u(2) by (auto simp: unseen_def same_view_def)
  ultimately show ?thesis using unseen_trans [OF sb u(2)] iu by blast
qed

definition insn_at :: "u64 \<Rightarrow> u64 \<Rightarrow> insn \<Rightarrow> System \<Rightarrow> bool" where
  "insn_at ramSize a i s \<longleftrightarrow> in_ram ramSize a 4 \<and> le_value (ram_bytes 4 a s) = encode i"

text \<open>With an instruction of full length in the RAM at the program counter, a cycle executes it.\<close>

lemma cycle_executes:
  assumes "sys_inv XLEN64 ramSize s" "quiet s" "pc = isa_pc (isa_of s)" "in_ram ramSize pc 4"
    "le_value (ram_bytes 4 pc s) = insn" "\<not> IsCompressedInstruction insn"
  shows "\<exists>u. unseen s u \<and> sys_inv XLEN64 ramSize u \<and> \<not> trap_flag u \<and>
    System_ProcessCycle libs s = execute_insn libs pc insn u"
proof -
  have pc: "csr_m_ProgramCounter (sys_csr s) = pc" using assms(3) by (simp add: isa_of_def)
  obtain t where nt: "\<not> trap_flag t" and t: "unseen s t" "sys_inv XLEN64 ramSize t"
      "System_ProcessCycle libs s = bindM (Processor_Fetch pc) (\<lambda>r. case r of
        FetchTrap trap \<Rightarrow> bindM (raise_trap trap) (\<lambda>_. on_Processor
          (SetOpEvent pc (csr_m_PrivilegeLevel (sys_csr s))))
      | Insn insn \<Rightarrow> execute_insn libs pc insn) t"
    using before_fetch [OF assms(1,2)] unfolding pc by blast
  have at: "le_value (ram_bytes 4 pc t) = insn"
    using assms(5) t(1) same_view_ram [of s t 4 pc] by (simp add: unseen_def)
  obtain u where u: "Processor_Fetch pc t = Inr (Insn insn, u)" "unseen t u" "sys_inv XLEN64 ramSize u"
    using Fetch_quiet [OF t(2) unseen_quiet [OF t(1) assms(2)] assms(4) at assms(6)] by blast
  moreover have "\<not> trap_flag u" using nt u(2) by (auto simp: unseen_def same_view_def)
  ultimately show ?thesis
    using t(1,3) unseen_trans by (auto simp: bindM_Inr [where m = "Processor_Fetch pc", OF u(1)])
qed

lemma cycle_simulated:
  assumes "sys_inv XLEN64 ramSize s" "quiet s" "multiplies libs" "valid_insn i"
    "insn_at ramSize (isa_pc (isa_of s)) i s"
  shows "if insn_defined i (isa_of s)
    then \<exists>t. System_ProcessCycle libs s = Inr ((), t) \<and> isa_of t = isa_step i (isa_of s) \<and> same_view s t
    else System_ProcessCycle libs s = Inl Undefined"
proof -
  let ?pc = "isa_pc (isa_of s)"
  obtain u where u: "unseen s u" "sys_inv XLEN64 ramSize u"
      "System_ProcessCycle libs s = execute_insn libs ?pc (encode i) u"
    using cycle_executes [OF assms(1,2) refl, of "encode i" libs] assms(5) encode_not_compressed
    by (auto simp: insn_at_def)
  have m: "isa_of u = isa_of s" using u(1) by (simp add: unseen_def)
  have "simulated i u (execute_insn libs ?pc (encode i))"
    by (rule simulated_all) (use u(2) assms(3,4) m in \<open>simp_all add: sys_inv_def isa_of_def\<close>)
  then show ?thesis
    using u(1) m same_but_registers_view same_view_trans
    by (auto simp: u(3) simulated_def unseen_def split: if_splits)
qed

end
