(* ===== verification/Rafi_Isa_Mem_Ok.thy ===== *)
theory Rafi_Isa_Mem_Ok
  imports Rafi_Isa_Mem Rafi_Cycle_Ok
begin

text \<open>
  Loads and stores: the system refines the abstract machine with memory. The abstraction of a
  state is its registers, its program counter and the bytes of its RAM; a run of the abstract
  machine, which fetches from its own memory, is a run of the system.
\<close>

section \<open>The memory of a state\<close>

definition memory_of :: "u64 \<Rightarrow> System \<Rightarrow> mem" where
  "memory_of ramSize s = (\<lambda>a. if in_ram ramSize a 1
     then Some (ram_m_pBody (sys_m_Ram s) (ram_offset a)) else None)"

definition misa_of :: "u64 \<Rightarrow> System \<Rightarrow> misa" where
  "misa_of ramSize s = \<lparr>misa_core = isa_of s, misa_mem = memory_of ramSize s\<rparr>"

lemma those_map: "those (map g xs) =
    (if \<forall>x\<in>set xs. g x \<noteq> None then Some (map (\<lambda>x. the (g x)) xs) else None)"
  by (induction xs) (auto split: option.splits)

lemma in_ram_bytes:
  assumes "0 < n" "n \<le> 8"
  shows "in_ram ramSize a n \<longleftrightarrow> (\<forall>i<n. in_ram ramSize (a + of_nat i) 1)"
proof
  assume r: "in_ram ramSize a n"
  have u: "unat ramSize \<le> 0x80000000" using in_ram_arith(1) [OF r] .
  show "\<forall>i<n. in_ram ramSize (a + of_nat i) 1"
  proof (intro allI impI)
    fix i assume i: "i < n"
    then have "unat (a + of_nat i) = unat a + i"
      using r u by (intro unat_add_small) (simp add: in_ram_def)
    then show "in_ram ramSize (a + of_nat i) 1" using r i by (simp add: in_ram_def)
  qed
next
  assume all: "\<forall>i<n. in_ram ramSize (a + of_nat i) 1"
  have first: "in_ram ramSize a 1" using all assms(1) by force
  have last: "in_ram ramSize (a + of_nat (n - 1)) 1" using all [rule_format, of "n - 1"] assms(1) by simp
  have "unat ramSize \<le> 0x80000000" using in_ram_arith(1) [OF first] .
  then have "unat (a + of_nat (n - 1)) = unat a + (n - 1)"
    using first assms by (intro unat_add_small) (auto simp: in_ram_def)
  then show "in_ram ramSize a n" using first last assms(1) by (simp add: in_ram_def)
qed

lemma mem_read_memory:
  assumes "0 < n" "n \<le> 8"
  shows "mem_read n a (memory_of ramSize s) = (if in_ram ramSize a n then Some (ram_bytes n a s) else None)"
proof -
  have "ram_offset (a + of_nat i) = ram_offset a + of_nat i" for i
    by (simp add: ram_offset_def)
  then show ?thesis
    unfolding mem_read_def those_map in_ram_bytes [OF assms]
    by (auto simp: memory_of_def ram_bytes_def body_read_def)
qed

lemma memory_put_ram:
  assumes "in_ram ramSize a (length bs)" "length bs \<le> 8"
  shows "memory_of ramSize (put_ram bs a s) = mem_write bs a (memory_of ramSize s)"
proof
  fix b
  have n: "0 < length bs" using assms(1) by (simp add: in_ram_def)
  have d: "ram_offset b - ram_offset a = b - a" by (simp add: ram_offset_def)
  have "in_ram ramSize b 1" if "unat (b - a) < length bs"
    using in_ram_bytes [OF n assms(2), of ramSize a] assms(1) that by (auto dest!: spec [of _ "unat (b - a)"])
  then show "memory_of ramSize (put_ram bs a s) b = mem_write bs a (memory_of ramSize s) b"
    by (auto simp: memory_of_def mem_write_def put_ram_def body_write_def d)
qed

lemma memory_same_view: "same_view s t \<Longrightarrow> memory_of ramSize t = memory_of ramSize s"
  by (simp add: same_view_def memory_of_def fun_eq_iff)

lemma memory_put [simp]:
  "memory_of ramSize (put_x rd v s) = memory_of ramSize s"
  "memory_of ramSize (put_pc pc s) = memory_of ramSize s"
  by (simp_all add: memory_of_def put_x_def put_pc_def fun_eq_iff)

section \<open>Untranslated data accesses\<close>

text \<open>Machine mode with interrupts disabled and without the privilege of another mode (MPRV).\<close>

definition quiet_data :: "System \<Rightarrow> bool" where
  "quiet_data s \<longleftrightarrow> quiet s \<and> \<not> bit (csr_m_Status (sys_csr s)) 17"

definition same_mode :: "System \<Rightarrow> System \<Rightarrow> bool" where
  "same_mode s t \<longleftrightarrow> csr_m_PrivilegeLevel (sys_csr t) = csr_m_PrivilegeLevel (sys_csr s) \<and>
     csr_m_Status (sys_csr t) = csr_m_Status (sys_csr s) \<and>
     sys_m_HostIoAddress t = sys_m_HostIoAddress s \<and> (trap_flag t \<longrightarrow> trap_flag s)"

lemma same_mode_quiet: "same_mode s t \<Longrightarrow> quiet_data s \<Longrightarrow> quiet_data t"
  by (simp add: same_mode_def quiet_data_def quiet_def)

lemma same_mode_view: "same_view s t \<Longrightarrow> same_mode s t"
  by (simp add: same_mode_def same_view_def)

lemma same_mode_trans: "same_mode s t \<Longrightarrow> same_mode t u \<Longrightarrow> same_mode s u"
  by (simp add: same_mode_def)

lemma same_mode_put [simp]: "same_mode s (put_x rd v s)" "same_mode s (put_pc pc s)"
    "same_mode s (put_ram bs a s)" "same_mode (put_pc pc s) t = same_mode s t"
    "same_mode (put_ram bs a s) t = same_mode s t"
  by (simp_all add: same_mode_def put_x_def put_pc_def put_ram_def Csr_SetProgramCounter_def)

lemma mode_bare:
  assumes "sys_inv XLEN64 ramSize s" "quiet_data s"
  shows "translation_mode ty s = Inr (Bare, s)"
proof -
  have x: "csr_m_XLEN (sys_csr s) = XLEN64"
    using assms(1) by (auto simp: sys_inv_def csr_wf_def)
  have "\<not> bit (csr_m_Status (sys_csr s)) 17" "csr_m_PrivilegeLevel (sys_csr s) = Machine"
    using assms(2) by (simp_all add: quiet_data_def quiet_def)
  with x show ?thesis
    by (simp add: translation_mode_def queryM_def GetAddresssTranslationMode_def
        GetEffectivePrivilegeLevel_def Csr_ReadStatus_def Let_def GetMember_single bit_SetMember
        Csr_GetPrivilegeLevel_def)
qed

lemma data_access:
  assumes "sys_inv XLEN64 ramSize s" "quiet_data s"
  shows "access_address ty a s = Inr (a, s)" "MemoryAccessUnit_CheckTrap ty pc a s = Inr (None, s)"
proof -
  have w: "mau_m_XLEN (cpu_m_MemAccessUnit (sys_m_Processor s)) = XLEN64"
    using assms(1) by (simp add: sys_inv_def)
  have "Translate ty a 0 s = Inr (Address a, s)"
    using w by (simp add: Translate_def bindM_def getM_def mode_bare [OF assms])
  then show "access_address ty a s = Inr (a, s)"
    by (simp add: access_address_def bindM_def returnM_def)
  show "MemoryAccessUnit_CheckTrap ty pc a s = Inr (None, s)"
    by (simp add: MemoryAccessUnit_CheckTrap_def bindM_def returnM_def mode_bare [OF assms])
qed

section \<open>Loads and stores of the memory access unit\<close>

text \<open>\<open>keeps ramSize s t\<close>: the abstract machine sees no difference between \<open>s\<close> and \<open>t\<close>.\<close>

definition keeps :: "u64 \<Rightarrow> System \<Rightarrow> System \<Rightarrow> bool" where
  "keeps ramSize s t \<longleftrightarrow> same_mode s t \<and> misa_of ramSize t = misa_of ramSize s \<and> sys_inv XLEN64 ramSize t"

lemma AddEvent_keeps:
  assumes "sys_inv XLEN64 ramSize s"
  shows "\<exists>t. AddEvent ty sz v va pa s = Inr ((), t) \<and> keeps ramSize s t"
proof -
  obtain t where t: "AddEvent ty sz v va pa s = Inr ((), t)" "unseen s t" using AddEvent_unseen by blast
  moreover have "sys_inv XLEN64 ramSize t"
    using assms t(1) by (rule preservesD [OF preserves_AddEvent])
  ultimately show ?thesis
    using same_mode_view memory_same_view by (auto simp: keeps_def unseen_def misa_of_def)
qed

lemma load_keeps:
  assumes "sys_inv XLEN64 ramSize s" "quiet_data s"
  shows "in_ram ramSize a 1 \<Longrightarrow> \<exists>t. LoadUInt8 a s = Inr (le_value (ram_bytes 1 a s), t) \<and> keeps ramSize s t"
    "in_ram ramSize a 2 \<Longrightarrow> \<exists>t. LoadUInt16 a s = Inr (le_value (ram_bytes 2 a s), t) \<and> keeps ramSize s t"
    "in_ram ramSize a 4 \<Longrightarrow> \<exists>t. LoadUInt32 a s = Inr (le_value (ram_bytes 4 a s), t) \<and> keeps ramSize s t"
    "in_ram ramSize a 8 \<Longrightarrow> \<exists>t. LoadUInt64 a s = Inr (le_value (ram_bytes 8 a s), t) \<and> keeps ramSize s t"
proof -
  have load: "\<exists>t. bindM (access_address Load a) (\<lambda>p. bindM (queryM (f p)) (\<lambda>v.
      bindM (AddEvent Load n (g v) a p) (\<lambda>_. returnM v))) s = Inr (x, t) \<and> keeps ramSize s t"
    if "f a s = Inr x" for f :: "u64 \<Rightarrow> System \<Rightarrow> 'z result" and n g x
  proof -
    obtain t where "AddEvent Load n (g x) a a s = Inr ((), t)" "keeps ramSize s t"
      using AddEvent_keeps [OF assms(1)] by blast
    then show ?thesis
      using that by (simp add: bindM_def queryM_def returnM_def data_access(1) [OF assms])
  qed
  note defs = Bus_ReadUInt8_def Bus_ReadUInt16_def Bus_ReadUInt32_def Bus_ReadUInt64_def
    Bus_Read_ram [OF sys_inv_wired [OF assms(1)]]
  show "in_ram ramSize a 1 \<Longrightarrow> \<exists>t. LoadUInt8 a s = Inr (le_value (ram_bytes 1 a s), t) \<and> keeps ramSize s t"
    unfolding LoadUInt8_def by (rule load) (simp add: defs del: One_nat_def)
  show "in_ram ramSize a 2 \<Longrightarrow> \<exists>t. LoadUInt16 a s = Inr (le_value (ram_bytes 2 a s), t) \<and> keeps ramSize s t"
    unfolding LoadUInt16_def by (rule load) (simp add: defs)
  show "in_ram ramSize a 4 \<Longrightarrow> \<exists>t. LoadUInt32 a s = Inr (le_value (ram_bytes 4 a s), t) \<and> keeps ramSize s t"
    unfolding LoadUInt32_def by (rule load) (simp add: defs)
  show "in_ram ramSize a 8 \<Longrightarrow> \<exists>t. LoadUInt64 a s = Inr (le_value (ram_bytes 8 a s), t) \<and> keeps ramSize s t"
    unfolding LoadUInt64_def by (rule load) (simp add: defs)
qed

lemma le_bytes_ucast:
  fixes v :: u64
  assumes "8 * n \<le> LENGTH('a)"
  shows "le_bytes n (ucast v :: 'a::len word) = le_bytes n v"
  unfolding le_bytes_def
proof (rule map_cong [OF refl])
  fix i assume "i \<in> set [0..<n]"
  then have "8 * i + 8 \<le> LENGTH('a)" using assms by auto
  then show "(ucast (drop_bit (8 * i) (ucast v :: 'a word)) :: u8) = ucast (drop_bit (8 * i) v)"
    by (intro bit_word_eqI) (auto simp: bit_simps)
qed

lemma sys_inv_put_ram: "sys_inv x ramSize (put_ram bs a s) = sys_inv x ramSize s"
  by (simp add: sys_inv_def put_ram_def)

lemma store_keeps:
  assumes "sys_inv XLEN64 ramSize s" "quiet_data s"
  shows "in_ram ramSize a 1 \<Longrightarrow> \<exists>t. StoreUInt8 a (ucast v) s = Inr ((), t) \<and> keeps ramSize (put_ram (le_bytes 1 v) a s) t"
    "in_ram ramSize a 2 \<Longrightarrow> \<exists>t. StoreUInt16 a (ucast v) s = Inr ((), t) \<and> keeps ramSize (put_ram (le_bytes 2 v) a s) t"
    "in_ram ramSize a 4 \<Longrightarrow> \<exists>t. StoreUInt32 a (ucast v) s = Inr ((), t) \<and> keeps ramSize (put_ram (le_bytes 4 v) a s) t"
    "in_ram ramSize a 8 \<Longrightarrow> \<exists>t. StoreUInt64 a v s = Inr ((), t) \<and> keeps ramSize (put_ram (le_bytes 8 v) a s) t"
proof -
  have store: "\<exists>t. bindM (access_address Store a) (\<lambda>p. bindM (f p) (\<lambda>_. AddEvent Store n w a p)) s =
      Inr ((), t) \<and> keeps ramSize (put_ram bs a s) t"
    if "f a s = Inr ((), put_ram bs a s)" for f n w bs
  proof -
    obtain t where "AddEvent Store n w a a (put_ram bs a s) = Inr ((), t)" "keeps ramSize (put_ram bs a s) t"
      using AddEvent_keeps sys_inv_put_ram assms(1) by blast
    then show ?thesis
      using that by (simp add: bindM_def data_access(1) [OF assms])
  qed
  have wr: "Bus_Write (le_bytes n v) a s = Inr ((), put_ram (le_bytes n v) a s)" if "in_ram ramSize a n" for n
    using Bus_Write_ram [OF sys_inv_wired [OF assms(1)]] that by simp
  note defs = Bus_WriteUInt8_def Bus_WriteUInt16_def Bus_WriteUInt32_def Bus_WriteUInt64_def
    wr le_bytes_ucast
  show "in_ram ramSize a 1 \<Longrightarrow> \<exists>t. StoreUInt8 a (ucast v) s = Inr ((), t) \<and> keeps ramSize (put_ram (le_bytes 1 v) a s) t"
    unfolding StoreUInt8_def by (rule store) (simp add: defs del: One_nat_def)
  show "in_ram ramSize a 2 \<Longrightarrow> \<exists>t. StoreUInt16 a (ucast v) s = Inr ((), t) \<and> keeps ramSize (put_ram (le_bytes 2 v) a s) t"
    unfolding StoreUInt16_def by (rule store) (simp add: defs)
  show "in_ram ramSize a 4 \<Longrightarrow> \<exists>t. StoreUInt32 a (ucast v) s = Inr ((), t) \<and> keeps ramSize (put_ram (le_bytes 4 v) a s) t"
    unfolding StoreUInt32_def by (rule store) (simp add: defs)
  show "in_ram ramSize a 8 \<Longrightarrow> \<exists>t. StoreUInt64 a v s = Inr ((), t) \<and> keeps ramSize (put_ram (le_bytes 8 v) a s) t"
    unfolding StoreUInt64_def by (rule store) (simp add: defs)
qed

section \<open>Executing loads and stores\<close>

lemma bit_tops: "bit b n \<Longrightarrow> 7 \<le> n \<Longrightarrow> bit b 7" "bit h n \<Longrightarrow> 15 \<le> n \<Longrightarrow> bit h 15"
    "bit d n \<Longrightarrow> 63 \<le> n \<Longrightarrow> bit d 63"
  for b :: u8 and h :: u16 and d :: u64
  using bit_top [of b n] bit_top [of h n] bit_top [of d n] by simp_all

lemma extend_values:
  "SignExtend 8 (ucast (b :: u8) :: u64) = scast b" "SignExtend 16 (ucast (h :: u16) :: u64) = scast h"
  "SignExtend 32 (ucast (w :: u32) :: u64) = scast w" "SignExtend 64 (d :: u64) = d"
  "ZeroExtend 8 (ucast b :: u64) = ucast b" "ZeroExtend 16 (ucast h :: u64) = ucast h"
  "ZeroExtend 32 (ucast w :: u64) = ucast w"
proof -
  show "SignExtend 64 d = d"
  proof (rule bit_word_eqI)
    fix n assume "n < LENGTH(64)"
    then have "63 \<le> n \<longleftrightarrow> n = 63" by auto
    then show "bit (SignExtend 64 d) n = bit d n" by (auto simp: bit_SignExtend dest: bit_imp_le_length)
  qed
qed (rule bit_word_eqI; auto simp: bit_SignExtend bit_simps min_def SignExtend_32_ucast
    dest: bit_imp_le_length bit_tops)+

lemma sys_inv_put_pc:
  assumes "sys_inv x ramSize s"
  shows "sys_inv x ramSize (put_pc pc s)"
proof -
  have "preserves (sys_inv x ramSize) (SetProgramCounter pc)" by (intro preserves_intros)
  then show ?thesis using assms eval_set_pc(1) by (rule preservesD)
qed

lemma sys_inv_put_x:
  assumes "sys_inv x ramSize s"
  shows "sys_inv x ramSize (put_x rd v s)"
proof -
  have "preserves (sys_inv x ramSize) (x_WriteUInt64 (ucast rd) v)" by (intro preserves_intros)
  moreover have "x_WriteUInt64 (ucast rd) v s = Inr ((), put_x rd v s)"
    using eval_write(1) [of s rd v] assms
    by (simp add: sys_inv_def IntRegFile_WriteInt64_def)
  ultimately show ?thesis using assms by (auto dest: preservesD)
qed

text \<open>The checks of a load or a store pass, and the handler runs after the program counter is set.\<close>

lemma execute_load_store:
  assumes "sys_inv XLEN64 ramSize s" "quiet_data s"
  shows "execute_insn libs pc (mencode (Ld op rd rs1 imm)) s =
      ProcessRV64I_Load (Op RV64I (load_code op)
        (OperandI (scast imm) (ucast rd) (ucast rs1) (ucast (load_funct3 op)))) (put_pc (pc + 4) s)"
    "execute_insn libs pc (mencode (St sop rs1 rs2 imm)) s =
      ProcessRV64I_Store (Op RV64I (store_code sop)
        (OperandS (scast imm) (ucast rs1) (ucast rs2) (ucast (store_funct3 sop)))) (put_pc (pc + 4) s)"
proof -
  have r: "bindM m returnM = m" for m :: "unit sys_act"
    by (rule ext) (simp add: bindM_def returnM_def split: sum.splits)
  have wf: "regs_wf s" and dec: "cpu_m_Decoder (sys_m_Processor s) = XLEN64"
    using assms(1) by (simp_all add: sys_inv_def)
  have chk: "bindM (MemoryAccessUnit_CheckTrap ty p a) f s = f None s" for ty p a f
    by (simp add: bindM_def data_access(2) [OF assms])
  let ?l = "Op RV64I (load_code op) (OperandI (scast imm) (ucast rd) (ucast rs1) (ucast (load_funct3 op)))"
  have l: "load_code op \<noteq> Op_unknown" by (cases op; simp)
  have l1: "PreCheckTrap ?l pc insn = PreCheckTrapRV64_Load ?l pc" for insn
    by (cases op; simp add: PreCheckTrap_def PreCheckTrap_opcode_def by_class_def IsRV32_def IsRV64_def)
  have l2: "PostCheckTrap ?l pc = returnM None" by (cases op; simp add: PostCheckTrap_def)
  have l3: "ProcessOp libs ?l pc = ProcessRV64I_Load ?l"
    by (cases op; simp add: ProcessOp_def ProcessRV64I_def)
  show "execute_insn libs pc (mencode (Ld op rd rs1 imm)) s = ProcessRV64I_Load ?l (put_pc (pc + 4) s)"
    using wf dec
    by (simp add: execute_insn_def bindM_getM decode_load l l1 l2 l3 mencode_not_compressed r
        PreCheckTrapRV64_Load_def as_I_def bindM_assoc eval_reads chk eval_set_pc del: mencode.simps)
  let ?s = "Op RV64I (store_code sop) (OperandS (scast imm) (ucast rs1) (ucast rs2) (ucast (store_funct3 sop)))"
  have st: "store_code sop \<noteq> Op_unknown" by (cases sop; simp)
  have st1: "PreCheckTrap ?s pc insn = PreCheckTrapRV64_Store ?s pc" for insn
    by (cases sop; simp add: PreCheckTrap_def PreCheckTrap_opcode_def by_class_def IsRV32_def IsRV64_def)
  have st2: "PostCheckTrap ?s pc = returnM None" by (cases sop; simp add: PostCheckTrap_def)
  have st3: "ProcessOp libs ?s pc = ProcessRV64I_Store ?s"
    by (cases sop; simp add: ProcessOp_def ProcessRV64I_def)
  show "execute_insn libs pc (mencode (St sop rs1 rs2 imm)) s = ProcessRV64I_Store ?s (put_pc (pc + 4) s)"
    using wf dec
    by (simp add: execute_insn_def bindM_getM decode_store st st1 st2 st3 mencode_not_compressed r
        PreCheckTrapRV64_Store_def as_S_def bindM_assoc eval_reads chk eval_set_pc del: mencode.simps)
qed

text \<open>What a load or a store does to the state.\<close>

lemma load_runs:
  assumes "sys_inv XLEN64 ramSize s" "quiet_data s" "in_ram ramSize (xreg s rs1 + scast imm) (load_width op)"
  shows "\<exists>t. ProcessRV64I_Load (Op RV64I (load_code op) (OperandI (scast imm) (ucast rd) (ucast rs1) f)) s =
      Inr ((), put_x rd (load_value op (ram_bytes (load_width op) (xreg s rs1 + scast imm) s)) t) \<and>
    keeps ramSize s t"
proof -
  let ?a = "xreg s rs1 + scast imm"
  have wf: "regs_wf s" using assms(1) by (simp add: sys_inv_def)
  have wf': "regs_wf t" if "keeps ramSize s t" for t using that by (simp add: keeps_def sys_inv_def)
  have w: "x_WriteUInt64 (ucast rd) v t = Inr ((), put_x rd v t)" if "keeps ramSize s t" for v t
    using eval_write(1) [OF wf' [OF that], of rd v] by (simp add: IntRegFile_WriteInt64_def)
  have run: "\<exists>t. bindM (bindM m (\<lambda>v. returnM (g v))) (x_WriteUInt64 (ucast rd)) s =
      Inr ((), put_x rd (g v) t) \<and> keeps ramSize s t"
    if "\<exists>t. m s = Inr (v, t) \<and> keeps ramSize s t" for m :: "'z sys_act" and g v
    using that w by (auto simp: bindM_def returnM_def)
  note ld = load_keeps [OF assms(1,2), of ?a]
  note defs = ProcessRV64I_Load_def as_I_def eval_reads [OF wf] Let_def extend_values
  show ?thesis
  proof (cases op)
    case LB
    then show ?thesis using run [of "LoadUInt8 ?a" _ "\<lambda>v. SignExtend 8 (ucast v)", OF ld(1)] assms(3)
      by (simp add: defs)
  next
    case LH
    then show ?thesis using run [of "LoadUInt16 ?a" _ "\<lambda>v. SignExtend 16 (ucast v)", OF ld(2)] assms(3)
      by (simp add: defs)
  next
    case LW
    then show ?thesis using run [of "LoadUInt32 ?a" _ "\<lambda>v. SignExtend 32 (ucast v)", OF ld(3)] assms(3)
      by (simp add: defs)
  next
    case LD
    then show ?thesis using run [of "LoadUInt64 ?a" _ "\<lambda>v. SignExtend 64 v", OF ld(4)] assms(3)
      by (simp add: defs)
  next
    case LBU
    then show ?thesis using run [of "LoadUInt8 ?a" _ "\<lambda>v. ZeroExtend 8 (ucast v)", OF ld(1)] assms(3)
      by (simp add: defs)
  next
    case LHU
    then show ?thesis using run [of "LoadUInt16 ?a" _ "\<lambda>v. ZeroExtend 16 (ucast v)", OF ld(2)] assms(3)
      by (simp add: defs)
  next
    case LWU
    then show ?thesis using run [of "LoadUInt32 ?a" _ "\<lambda>v. ZeroExtend 32 (ucast v)", OF ld(3)] assms(3)
      by (simp add: defs)
  qed
qed

lemma store_runs:
  assumes "sys_inv XLEN64 ramSize s" "quiet_data s" "in_ram ramSize (xreg s rs1 + scast imm) (store_width op)"
  shows "\<exists>t. ProcessRV64I_Store (Op RV64I (store_code op) (OperandS (scast imm) (ucast rs1) (ucast rs2) f)) s =
      Inr ((), t) \<and>
    keeps ramSize (put_ram (le_bytes (store_width op) (xreg s rs2)) (xreg s rs1 + scast imm) s) t"
proof -
  let ?a = "xreg s rs1 + scast imm"
  have wf: "regs_wf s" using assms(1) by (simp add: sys_inv_def)
  note st = store_keeps [OF assms(1,2), of ?a "xreg s rs2"]
  show ?thesis
    using assms(3) st
    by (cases op; simp add: ProcessRV64I_Store_def as_S_def eval_reads [OF wf] Let_def)
qed

section \<open>A cycle and a run\<close>

lemma widths: "0 < load_width op \<and> load_width op \<le> 8" "0 < store_width st \<and> store_width st \<le> 8"
  by (cases op; simp) (cases st; simp)

lemma execute_mstep:
  assumes "sys_inv XLEN64 ramSize s" "quiet_data s" "multiplies libs" "valid_minsn i"
    "mstep i (misa_of ramSize s) = Some m"
  shows "\<exists>t. execute_insn libs (isa_pc (isa_of s)) (mencode i) s = Inr ((), t) \<and>
    misa_of ramSize t = m \<and> same_mode s t"
proof (cases i)
  case (Calc j)
  have "simulated j s (execute_insn libs (isa_pc (isa_of s)) (encode j))"
    by (rule simulated_all) (use assms Calc in \<open>simp_all add: sys_inv_def isa_of_def\<close>)
  then obtain t where "execute_insn libs (isa_pc (isa_of s)) (encode j) s = Inr ((), t)"
      "isa_of t = isa_step j (isa_of s)" "same_view s t"
    using assms(5) Calc same_but_registers_view by (auto simp: simulated_def misa_of_def split: if_splits)
  then show ?thesis
    using assms(5) Calc same_mode_view memory_same_view
    by (auto simp: misa_of_def split: if_splits)
next
  case (Ld op rd rs1 imm)
  let ?s = "put_pc (isa_pc (isa_of s) + 4) s" and ?a = "xreg s rs1 + scast imm"
  have s: "sys_inv XLEN64 ramSize ?s" using assms(1) by (rule sys_inv_put_pc)
  have q: "quiet_data ?s" using assms(2) same_mode_put(2) same_mode_quiet by blast
  have r: "in_ram ramSize ?a (load_width op)"
      "m = \<lparr>misa_core = \<lparr>isa_pc = isa_pc (isa_of s) + 4, isa_x = write_x rd
        (load_value op (ram_bytes (load_width op) ?a s)) (xreg s)\<rparr>, misa_mem = memory_of ramSize s\<rparr>"
    using assms(5) Ld by (auto simp: misa_of_def isa_of_def mem_read_memory widths Let_def split: if_splits)
  obtain t where t: "ProcessRV64I_Load (Op RV64I (load_code op)
        (OperandI (scast imm) (ucast rd) (ucast rs1) (ucast (load_funct3 op)))) ?s =
        Inr ((), put_x rd (load_value op (ram_bytes (load_width op) ?a ?s)) t)" "keeps ramSize ?s t"
    using load_runs [OF s q, of rs1 imm op rd] r(1) by auto
  have wf: "regs_wf t" using t(2) by (simp add: keeps_def sys_inv_def)
  have b: "ram_bytes n a (put_pc p s) = ram_bytes n a s" for n a p by (simp add: ram_bytes_def put_pc_def)
  have "same_mode s t"
    using t(2) by (simp add: keeps_def)
  moreover have "misa_of ramSize t = misa_of ramSize ?s" using t(2) by (simp add: keeps_def)
  ultimately show ?thesis
    using execute_load_store(1) [OF assms(1,2), of libs _ op rd rs1 imm] t(1) r(2) Ld
      isa_of_put(1) [OF wf] same_mode_trans [OF _ same_mode_put(1)]
    by (auto simp: misa_of_def isa_of_put b isa_of_def)
next
  case (St op rs1 rs2 imm)
  let ?s = "put_pc (isa_pc (isa_of s) + 4) s" and ?a = "xreg s rs1 + scast imm"
  let ?p = "put_ram (le_bytes (store_width op) (xreg s rs2)) ?a ?s"
  have s: "sys_inv XLEN64 ramSize ?s" using assms(1) by (rule sys_inv_put_pc)
  have q: "quiet_data ?s" using assms(2) same_mode_put(2) same_mode_quiet by blast
  have r: "in_ram ramSize ?a (store_width op)"
      "m = \<lparr>misa_core = (isa_of s)\<lparr>isa_pc := isa_pc (isa_of s) + 4\<rparr>, misa_mem = mem_write
        (le_bytes (store_width op) (xreg s rs2)) ?a (memory_of ramSize s)\<rparr>"
    using assms(5) St by (auto simp: misa_of_def isa_of_def mem_read_memory widths Let_def split: if_splits)
  obtain t where t: "ProcessRV64I_Store (Op RV64I (store_code op)
        (OperandS (scast imm) (ucast rs1) (ucast rs2) (ucast (store_funct3 op)))) ?s = Inr ((), t)"
      "keeps ramSize ?p t"
    using store_runs [OF s q, of rs1 imm op rs2] r(1) by auto
  have "same_mode s t"
    using t(2) by (simp add: keeps_def)
  moreover have "memory_of ramSize ?p = misa_mem m"
    using r memory_put_ram [of ramSize ?a "le_bytes (store_width op) (xreg s rs2)" ?s] widths(2) [of op] by simp
  moreover have "isa_of ?p = misa_core m" using r(2) by (simp add: isa_of_def put_ram_def xreg_def fun_eq_iff put_pc_def Csr_SetProgramCounter_def)
  ultimately show ?thesis
    using execute_load_store(2) [OF assms(1,2), of libs _ op rs1 rs2 imm] t St
    by (auto simp: misa_of_def keeps_def)
qed

lemma cycle_mstep:
  assumes "sys_inv XLEN64 ramSize s" "quiet_data s" "multiplies libs" "fetches i (misa_of ramSize s)"
    "mstep i (misa_of ramSize s) = Some m"
  shows "\<exists>t. System_ProcessCycle libs s = Inr ((), t) \<and> misa_of ramSize t = m \<and> same_mode s t \<and>
    sys_inv XLEN64 ramSize t \<and> \<not> trap_flag t"
proof -
  let ?pc = "isa_pc (isa_of s)"
  have f: "valid_minsn i" "in_ram ramSize ?pc 4" "le_value (ram_bytes 4 ?pc s) = mencode i"
    using assms(4) by (auto simp: fetches_def misa_of_def mem_read_memory split: if_splits)
  have q: "quiet s" using assms(2) by (simp add: quiet_data_def)
  obtain u where nu: "\<not> trap_flag u" and u: "unseen s u" "sys_inv XLEN64 ramSize u"
      "System_ProcessCycle libs s = execute_insn libs ?pc (mencode i) u"
    using cycle_executes [OF assms(1) q refl f(2,3) mencode_not_compressed] by blast
  have v: "same_mode s u" "misa_of ramSize u = misa_of ramSize s" "isa_of u = isa_of s"
    using u(1) same_mode_view memory_same_view by (auto simp: unseen_def misa_of_def)
  have "mstep i (misa_of ramSize u) = Some m" using assms(5) v(2) by simp
  then obtain t where t: "execute_insn libs ?pc (mencode i) u = Inr ((), t)" "misa_of ramSize t = m" "same_mode u t"
    using execute_mstep [OF u(2) same_mode_quiet [OF v(1) assms(2)] assms(3) f(1)] unfolding v(3) by blast
  have "sys_inv XLEN64 ramSize t"
    using preserves_System_ProcessCycle assms(1) u(3) [unfolded t(1)] by (rule preservesD)
  moreover have "\<not> trap_flag t" using nu t(3) by (auto simp: same_mode_def)
  ultimately show ?thesis using t(1,2) u(3) same_mode_trans [OF v(1) t(3)] by auto
qed

text \<open>The states of a run satisfy \<open>P\<close>, the cycles return, and the last state is that of the run.\<close>

primrec cycles_on :: "Libraries \<Rightarrow> (System \<Rightarrow> bool) \<Rightarrow> nat \<Rightarrow> System \<Rightarrow> System \<Rightarrow> bool" where
  "cycles_on libs P 0 s t \<longleftrightarrow> s = t"
| "cycles_on libs P (Suc n) s t \<longleftrightarrow> P s \<and> (\<exists>u. System_ProcessCycle libs s = Inr ((), u) \<and> cycles_on libs P n u t)"

lemma cycles_on_cycles: "cycles_on libs P n s t \<Longrightarrow> cycles libs n s = Inr ((), t)"
  by (induction n arbitrary: s) (auto simp: returnM_def bindM_eq_Inr)

lemma cycles_on_weaken: "cycles_on libs P n s t \<Longrightarrow> (\<And>u. P u \<Longrightarrow> Q u) \<Longrightarrow> cycles_on libs Q n s t"
  by (induction n arbitrary: s) auto

lemma run_mrun:
  assumes "mrun P m n m'" "m = misa_of ramSize s" "sys_inv XLEN64 ramSize s" "quiet_data s" "multiplies libs"
  shows "\<exists>t. cycles_on libs (\<lambda>u. P (misa_of ramSize u) \<and> same_mode s u \<and> sys_inv XLEN64 ramSize u) n s t \<and>
    undisturbed libs EmulationStop_Breakpoint n s \<and>
    misa_of ramSize t = m' \<and> same_mode s t \<and> sys_inv XLEN64 ramSize t"
  using assms
proof (induction arbitrary: s rule: mrun.induct)
  case (mrun_0 m) then show ?case by (auto simp: same_mode_def)
next
  case (mrun_Suc m i m' n m'')
  obtain t where t: "System_ProcessCycle libs s = Inr ((), t)" "misa_of ramSize t = m'" "same_mode s t"
      "sys_inv XLEN64 ramSize t" "\<not> trap_flag t"
    using cycle_mstep [OF mrun_Suc.prems(2,3,4)] mrun_Suc.hyps(2,3) mrun_Suc.prems(1) by blast
  obtain u where u: "cycles_on libs (\<lambda>u. P (misa_of ramSize u) \<and> same_mode t u \<and> sys_inv XLEN64 ramSize u) n t u"
      "undisturbed libs EmulationStop_Breakpoint n t"
      "misa_of ramSize u = m''" "same_mode t u" "sys_inv XLEN64 ramSize u"
    using mrun_Suc.IH [OF t(2) [symmetric] t(4) same_mode_quiet [OF t(3) mrun_Suc.prems(3)] mrun_Suc.prems(4)] by blast
  have on: "cycles_on libs (\<lambda>u. P (misa_of ramSize u) \<and> same_mode s u \<and> sys_inv XLEN64 ramSize u) n t u"
    using u(1) by (rule cycles_on_weaken) (use same_mode_trans [OF t(3)] in blast)
  have "continues EmulationStop_Breakpoint s t"
    using t(5) by (simp add: continues_def IsStopConditionFilledPre_def IsStopConditionFilledPost_def
        EmulationStop_Breakpoint_def EmulationStop_HostIo_def System_IsTrapEventExist_def
        Processor_IsTrapEventExist_def)
  with on u(2-) t same_mode_trans [OF t(3) u(4)] mrun_Suc.hyps(1) mrun_Suc.prems(1,2) show ?case
    by (auto simp: same_mode_def)
qed

end
