(* ===== verification/Rafi_Run_Ok.thy ===== *)
theory Rafi_Run_Ok
  imports Rafi_Isa_Mem_Ok
begin

text \<open>
  The emulator as a whole: why its loop ends, and what it computes when the program in the RAM is
  one of the abstract machine.
\<close>

section \<open>Undisturbed runs\<close>

lemma cycles_undisturbed:
  "cycles libs n s = Inr ((), t) \<Longrightarrow> undisturbed libs EmulationStop_None n s"
  by (induction n arbitrary: s)
     (auto simp: bindM_eq_Inr continues_def IsStopConditionFilledPre_def
       IsStopConditionFilledPost_def EmulationStop_None_def)

lemma sint_of_nat: "n < 2 ^ 31 \<Longrightarrow> sint (of_nat n :: i32) = int n"
  by (simp add: signed_of_nat signed_take_bit_int_eq_self)

lemma in_bound_iff: "in_bound cycle c \<longleftrightarrow> sint c < sint cycle \<or> cycle = CycleForever"
  by (auto simp: in_bound_def word_sless_alt)

text \<open>What the host reads at its port.\<close>

definition port_value :: "u64 \<Rightarrow> misa \<Rightarrow> u32 option" where
  "port_value a m = map_option le_value (mem_read 4 a (misa_mem m))"

lemma host_port_value:
  assumes "sys_inv XLEN64 ramSize s" "port_value (ucast (sys_m_HostIoAddress s)) (misa_of ramSize s) = Some v"
  shows "System_GetHostIoValue s = Inr v"
proof -
  let ?a = "ucast (sys_m_HostIoAddress s) :: u64"
  have r: "in_ram ramSize ?a 4" "le_value (ram_bytes 4 ?a s) = v"
    using assms(2) by (auto simp: port_value_def misa_of_def mem_read_memory split: if_splits)
  then show ?thesis
    using sys_inv_wired [OF assms(1)] ram_decode [OF r(1)]
    by (simp add: Ram_access_in [OF r(1)] System_GetHostIoValue_def wired_def Ram_Read_def ram_bytes_def)
qed

text \<open>While the port reads zero, a run is not disturbed by the test of the port.\<close>

lemma cycles_on_undisturbed:
  "cycles_on libs (\<lambda>u. System_GetHostIoValue u = Inr 0) n s t \<Longrightarrow> undisturbed libs EmulationStop_HostIo n s"
  by (induction n arbitrary: s)
     (auto simp: continues_def IsStopConditionFilledPre_def IsStopConditionFilledPost_def
       EmulationStop_HostIo_def EmulationStop_Breakpoint_def)

text \<open>Without a stop condition the loop is the run of the abstract machine.\<close>

lemma Process_runs_program:
  assumes "sys_inv XLEN64 ramSize (emu_m_System e)" "quiet_data (emu_m_System e)" "multiplies libs"
    and "mrun P (misa_of ramSize (emu_m_System e)) n m" "emu_m_Cycle e = 0" "n < 2 ^ 31"
  shows "\<exists>e'. Emulator_Process libs EmulationStop_None (of_nat n) e = Some (Inr e') \<and>
    misa_of ramSize (emu_m_System e') = m \<and> emu_m_Cycle e' = of_nat n"
proof -
  obtain t where t: "cycles libs n (emu_m_System e) = Inr ((), t)" "misa_of ramSize t = m"
    using run_mrun [OF assms(4) refl assms(1-3)] cycles_on_cycles by blast
  have n: "sint (of_nat n :: i32) = int n" using assms(6) by (rule sint_of_nat)
  obtain e' where e': "emu_m_System e' = t" "sint (emu_m_Cycle e') = int n"
      "Emulator_Process libs EmulationStop_None (of_nat n) e =
       Emulator_Process libs EmulationStop_None (of_nat n) e'"
    using Process_undisturbed [OF cycles_undisturbed [OF t(1)], of "of_nat n"] assms(5) t(1) n by force
  have "sint (of_nat n :: i32) \<noteq> sint CycleForever" using n by (simp add: CycleForever_def)
  then have "\<not> in_bound (of_nat n) (emu_m_Cycle e')"
    using e'(2) n by (auto simp: in_bound_iff)
  moreover have "emu_m_Cycle e' = of_nat n" using e'(2) n by (metis signed_word_eqI)
  ultimately show ?thesis
    using e'(1,3) t(2) Process_out [where condition = EmulationStop_None and libs = libs] by force
qed

text \<open>A program that writes its result to the port.\<close>

lemma Process_reports:
  assumes "sys_inv XLEN64 ramSize (emu_m_System e)" "quiet_data (emu_m_System e)" "multiplies libs"
    and "mrun (\<lambda>m. port_value a m = Some 0) (misa_of ramSize (emu_m_System e)) n m"
    and "a = ucast (sys_m_HostIoAddress (emu_m_System e))" "port_value a m = Some v" "v \<noteq> 0"
    and "emu_m_Cycle e = 0" "n < 2 ^ 31"
  shows "\<exists>e'. Emulator_Process libs EmulationStop_HostIo CycleForever e = Some (Inr e') \<and>
    misa_of ramSize (emu_m_System e') = m \<and> emu_m_Cycle e' = of_nat n \<and>
    undisturbed libs EmulationStop_HostIo n (emu_m_System e) \<and>
    cycles libs n (emu_m_System e) = Inr ((), emu_m_System e') \<and>
    System_GetHostIoValue (emu_m_System e') = Inr v"
proof -
  let ?s = "emu_m_System e"
  obtain t where t: "cycles_on libs (\<lambda>u. port_value a (misa_of ramSize u) = Some 0 \<and> same_mode ?s u \<and>
        sys_inv XLEN64 ramSize u) n ?s t" "misa_of ramSize t = m" "same_mode ?s t" "sys_inv XLEN64 ramSize t"
    using run_mrun [OF assms(4) refl assms(1-3)] by blast
  have a: "ucast (sys_m_HostIoAddress u) = a" if "same_mode ?s u" for u
    using that assms(5) by (simp add: same_mode_def)
  have c: "cycles libs n ?s = Inr ((), t)" using t(1) by (rule cycles_on_cycles)
  have "cycles_on libs (\<lambda>u. System_GetHostIoValue u = Inr 0) n ?s t"
    using t(1) by (rule cycles_on_weaken) (use a host_port_value in force)
  then have u: "undisturbed libs EmulationStop_HostIo n ?s" by (rule cycles_on_undisturbed)
  have v: "System_GetHostIoValue t = Inr v"
    using t(2,4) assms(6) a [OF t(3)] host_port_value by force
  obtain e' where e': "emu_m_System e' = t" "sint (emu_m_Cycle e') = int n"
      "Emulator_Process libs EmulationStop_HostIo CycleForever e =
       Emulator_Process libs EmulationStop_HostIo CycleForever e'"
    using Process_undisturbed [OF u, of CycleForever] assms(8,9) c by force
  have "IsStopConditionFilledPre EmulationStop_HostIo (emu_m_System e') = Inr True"
    using v assms(7) e'(1) by (simp add: IsStopConditionFilledPre_def EmulationStop_HostIo_def)
  then have "Emulator_Process libs EmulationStop_HostIo CycleForever e' = Some (Inr e')"
    by (intro Process_pre_stop) (simp_all add: in_bound_def)
  moreover have "emu_m_Cycle e' = of_nat n"
    using e'(2) sint_of_nat [OF assms(9)] by (metis signed_word_eqI)
  ultimately show ?thesis using e' t(2) u v c by auto
qed

section \<open>A program\<close>

text \<open>
  It multiplies two numbers and stores the product at the host port, behind the program, which
  ends with a breakpoint.
\<close>

definition product_program :: "minsn list" where
  "product_program = [Calc (Auipc 3 0), Calc (Imm ADDI 1 0 6), Calc (Imm ADDI 2 0 7),
     Calc (Reg MUL 1 1 2), St SW 3 1 0x18]"

definition product_bytes :: "u8 list" where
  "product_bytes = concat (map (\<lambda>i. le_bytes 4 (mencode i)) product_program) @ [0x73, 0, 0x10, 0]"

definition word_libs :: "Libraries \<Rightarrow> Libraries" where
  "word_libs libs = libs\<lparr>lib_mul_ss := (*), lib_mul_su := (*), lib_mul_uu := (*),
     lib_shr_s := (\<lambda>x n. x div 2 ^ n), lib_shr_u := (\<lambda>x n. x div 2 ^ n),
     lib_to_int64 := word_of_int, lib_to_uint64 := word_of_int\<rparr>"

lemma multiplies_word_libs: "multiplies (word_libs libs)"
  by (simp add: multiplies_def word_libs_def)

lemma le_bytes_4: "le_bytes 4 w = [ucast w, ucast (drop_bit 8 w), ucast (drop_bit 16 w), ucast (drop_bit 24 w)]"
  by (simp add: le_bytes_def upt_rec)

lemma product_words: "map mencode product_program = [0x00000197, 0x00600093, 0x00700113, 0x022080b3,
    0x0011ac23]"
  by (simp add: product_program_def asm_R_def asm_I_def asm_S_def asm_U_def place_def)

lemma product_bytes_eq: "product_bytes = [0x97, 1, 0, 0, 0x93, 0, 0x60, 0, 0x13, 1, 0x70, 0,
    0xb3, 0x80, 0x20, 2, 0x23, 0xac, 0x11, 0, 0x73, 0, 0x10, 0]"
proof -
  have "product_bytes = concat (map (le_bytes 4) (map mencode product_program)) @ [0x73, 0, 0x10, 0]"
    by (simp add: product_bytes_def comp_def)
  also have "\<dots> = [0x97, 1, 0, 0, 0x93, 0, 0x60, 0, 0x13, 1, 0x70, 0,
    0xb3, 0x80, 0x20, 2, 0x23, 0xac, 0x11, 0, 0x73, 0, 0x10, 0]"
    by (simp only: product_words) (simp add: le_bytes_4)
  finally show ?thesis .
qed

definition product_mem :: mem where
  "product_mem = (\<lambda>a. if 0x80000000 \<le> a \<and> a < 0x80000020 then
     (if unat (a - 0x80000000) < length product_bytes then Some (product_bytes ! unat (a - 0x80000000))
      else Some 0) else None)"

definition product_start :: misa where
  "product_start = \<lparr>misa_core = \<lparr>isa_pc = 0x80000000, isa_x = (\<lambda>_. 0)\<rparr>, misa_mem = product_mem\<rparr>"

definition product_end :: misa where
  "product_end = \<lparr>misa_core = \<lparr>isa_pc = 0x80000014,
       isa_x = ((\<lambda>_. 0)(3 := 0x80000000))(2 := 7, 1 := 42)\<rparr>,
     misa_mem = mem_write [42, 0, 0, 0] 0x80000018 product_mem\<rparr>"

lemma mem_read_4: "mem_read 4 a mem = those [mem a, mem (a + 1), mem (a + 2), mem (a + 3)]"
  by (simp add: mem_read_def upt_rec)

lemma product_fetch:
  "mem_read 4 0x80000000 product_mem = Some [0x97, 1, 0, 0]"
  "mem_read 4 0x80000004 product_mem = Some [0x93, 0, 0x60, 0]"
  "mem_read 4 0x80000008 product_mem = Some [0x13, 1, 0x70, 0]"
  "mem_read 4 0x8000000c product_mem = Some [0xb3, 0x80, 0x20, 2]"
  "mem_read 4 0x80000010 product_mem = Some [0x23, 0xac, 0x11, 0]"
  "mem_read 4 0x80000018 product_mem = Some [0, 0, 0, 0]"
  by (simp_all add: mem_read_4 product_mem_def product_bytes_eq)

lemma product_port:
  "port_value 0x80000018 \<lparr>misa_core = c, misa_mem = product_mem\<rparr> = Some 0"
  "port_value 0x80000018 product_end = Some 42"
  by (simp add: port_value_def product_fetch)
    (simp add: port_value_def product_end_def mem_read_4 mem_write_def)

lemma product_step:
  assumes "mem_read 4 (isa_pc c) product_mem = Some bs" "le_value bs = mencode i" "valid_minsn i"
    and "mstep i \<lparr>misa_core = c, misa_mem = product_mem\<rparr> = Some m" "mrun P m n m'"
    and "P = (\<lambda>m. port_value 0x80000018 m = Some 0)"
  shows "mrun P \<lparr>misa_core = c, misa_mem = product_mem\<rparr> (Suc n) m'"
  by (rule mrun_Suc [of _ _ i]) (use assms product_port(1) in \<open>simp_all add: fetches_def\<close>)

lemma product_run: "mrun (\<lambda>m. port_value 0x80000018 m = Some 0) product_start 5 product_end"
proof -
  note enc = product_words [unfolded product_program_def]
  let ?P = "\<lambda>m. port_value 0x80000018 m = Some 0"
  let ?st = "\<lambda>pc x. \<lparr>misa_core = \<lparr>isa_pc = pc, isa_x = x\<rparr>, misa_mem = product_mem\<rparr>"
  let ?x1 = "(\<lambda>_. 0)(3 := 0x80000000) :: reg \<Rightarrow> u64"
  have "mrun ?P product_end 0 product_end" by simp
  then have "mrun ?P (?st 0x80000010 (?x1(2 := 7, 1 := 42))) (Suc 0) product_end"
    by (intro product_step [where i = "St SW 3 1 0x18" and bs = "[0x23, 0xac, 0x11, 0]"])
       (use enc in \<open>simp_all add: product_fetch product_end_def le_bytes_4 mem_read_4 product_mem_def product_bytes_eq\<close>)
  then have "mrun ?P (?st 0x8000000c (?x1(1 := 6, 2 := 7))) (Suc (Suc 0)) product_end"
    by (intro product_step [where i = "Calc (Reg MUL 1 1 2)" and bs = "[0xb3, 0x80, 0x20, 2]"])
       (use enc in \<open>simp_all add: product_fetch reg_defined_def write_x_def\<close>)
  then have "mrun ?P (?st 0x80000008 (?x1(1 := 6))) (Suc (Suc (Suc 0))) product_end"
    by (intro product_step [where i = "Calc (Imm ADDI 2 0 7)" and bs = "[0x13, 1, 0x70, 0]"])
       (use enc in \<open>simp_all add: product_fetch write_x_def\<close>)
  then have "mrun ?P (?st 0x80000004 ?x1) (Suc (Suc (Suc (Suc 0)))) product_end"
    by (intro product_step [where i = "Calc (Imm ADDI 1 0 6)" and bs = "[0x93, 0, 0x60, 0]"])
       (use enc in \<open>simp_all add: product_fetch write_x_def\<close>)
  then have "mrun ?P product_start (Suc (Suc (Suc (Suc (Suc 0))))) product_end"
    unfolding product_start_def
    by (intro product_step [where i = "Calc (Auipc 3 0)" and bs = "[0x97, 1, 0, 0]"])
       (use enc in \<open>simp_all add: product_fetch write_x_def upper_def\<close>)
  then show ?thesis by (simp add: numeral_eq_Suc)
qed


text \<open>The product program in a machine of 32 bytes of RAM, with the port behind it.\<close>

lemma product_state:
  "\<exists>s. reachable libs XLEN64 0x80000000 32 s \<and> sys_inv XLEN64 32 s \<and> quiet_data s \<and>
    misa_of 32 s = product_start \<and> sys_m_HostIoAddress s = 0x80000018"
proof -
  obtain s where s: "System_new XLEN64 0x80000000 32 UserSoftware zero_TrapEvent
      \<lparr>oe_opId = 0, oe_insn = 0, oe_privilegeLevel = User, oe_virtualPc = 0, oe_physicalPc = 0\<rparr> = Inr s"
    by (simp add: System_new_def Processor_new_def Csr_new_def Csr_init_ISA_def Let_def)
  then have r: "reachable libs XLEN64 0x80000000 32 s" by (rule reachable.start)
  let ?t = "put_ram product_bytes 0x80000000 s" and ?u = "System_SetHostIoAddress 0x80000018"
  have len: "length product_bytes = 24" by (simp add: product_bytes_eq)
  have ram: "in_ram 32 0x80000000 (length product_bytes)" by (simp add: in_ram_def len)
  have "System_WriteMemory product_bytes 0x80000000 s = Inr ((), ?t)"
    unfolding System_WriteMemory_def by (rule Bus_Write_ram [OF sys_inv_wired [OF reachable_inv [OF r]] ram])
  then have t: "reachable libs XLEN64 0x80000000 32 (?u ?t)"
    using r reachable.write_memory reachable.set_host_io by blast
  have body: "ram_m_pBody (sys_m_Ram s) = (\<lambda>_. 0)"
    using s by (auto simp: System_new_def Processor_new_def Csr_new_def Csr_init_ISA_def Let_def Ram_new_def)
  have "quiet_data (?u ?t)" "isa_of (?u ?t) = \<lparr>isa_pc = 0x80000000, isa_x = (\<lambda>_. 0)\<rparr>"
    using s by (auto simp: quiet_data_def quiet_def isa_of_def put_ram_def xreg_def System_new_def Processor_new_def
        Csr_new_def Csr_init_ISA_def Let_def IntRegFile_new_def IntRegCount_def reg_small fun_eq_iff
        System_SetHostIoAddress_def)
  moreover have "memory_of 32 (?u ?t) a = product_mem a" for a
  proof (cases "in_ram 32 a 1")
    case True
    then have "0x80000000 \<le> a" "a < 0x80000020"
      by (auto simp: in_ram_def word_le_nat_alt word_less_nat_alt)
    then show ?thesis
      using True by (simp add: memory_of_def product_mem_def System_SetHostIoAddress_def put_ram_def
          body_write_def body ram_offset_def)
  next
    case False
    then have "\<not> (0x80000000 \<le> a \<and> a < 0x80000020)"
      by (auto simp: in_ram_def word_le_nat_alt word_less_nat_alt)
    then show ?thesis using False by (simp add: memory_of_def product_mem_def)
  qed
  ultimately have "misa_of 32 (?u ?t) = product_start" "quiet_data (?u ?t)"
    by (auto simp: misa_of_def product_start_def)
  with t reachable_inv show ?thesis by (fastforce simp: System_SetHostIoAddress_def)
qed

lemma product_emulator:
  obtains libs and e :: Emulator where "reachable libs XLEN64 0x80000000 32 (emu_m_System e)" "emu_m_Cycle e = 0"
    "sys_inv XLEN64 32 (emu_m_System e)" "quiet_data (emu_m_System e)" "multiplies libs"
    "misa_of 32 (emu_m_System e) = product_start" "sys_m_HostIoAddress (emu_m_System e) = 0x80000018"
proof -
  obtain libs :: Libraries where True by blast
  obtain s where "reachable (word_libs libs) XLEN64 0x80000000 32 s" "sys_inv XLEN64 32 s" "quiet_data s"
      "misa_of 32 s = product_start" "sys_m_HostIoAddress s = 0x80000018"
    using product_state by blast
  with multiplies_word_libs show ?thesis
    by (intro that [of "word_libs libs" "\<lparr>emu_m_System = s, emu_m_Cycle = 0\<rparr>"]) simp_all
qed

lemma product_end_values: "isa_x (misa_core product_end) 1 = 42"
  by (simp add: product_end_def)

text \<open>What the emulator does on it, for the witnesses of the loop.\<close>

lemma product_reports:
  obtains libs e e' where "reachable libs XLEN64 0x80000000 32 (emu_m_System e)" "emu_m_Cycle e = 0"
    "Emulator_Process libs EmulationStop_HostIo CycleForever e = Some (Inr e')"
    "sint (emu_m_Cycle e') = 5"
    "undisturbed libs EmulationStop_HostIo 5 (emu_m_System e)"
    "cycles libs 5 (emu_m_System e) = Inr ((), emu_m_System e')"
    "System_GetHostIoValue (emu_m_System e') = Inr 42"
proof -
  obtain libs and e :: Emulator where e: "reachable libs XLEN64 0x80000000 32 (emu_m_System e)" "emu_m_Cycle e = 0"
    "sys_inv XLEN64 32 (emu_m_System e)" "quiet_data (emu_m_System e)" "multiplies libs"
    "misa_of 32 (emu_m_System e) = product_start" "sys_m_HostIoAddress (emu_m_System e) = 0x80000018"
    by (rule product_emulator)
  have "\<exists>e'. Emulator_Process libs EmulationStop_HostIo CycleForever e = Some (Inr e') \<and>
    misa_of 32 (emu_m_System e') = product_end \<and> emu_m_Cycle e' = of_nat 5 \<and>
    undisturbed libs EmulationStop_HostIo 5 (emu_m_System e) \<and>
    cycles libs 5 (emu_m_System e) = Inr ((), emu_m_System e') \<and>
    System_GetHostIoValue (emu_m_System e') = Inr 42"
    by (rule Process_reports [OF e(3,4,5) _ _ product_port(2)])
      (use product_run e(2,6,7) in simp_all)
  then obtain e' where "Emulator_Process libs EmulationStop_HostIo CycleForever e = Some (Inr e')"
      "emu_m_Cycle e' = of_nat 5" "undisturbed libs EmulationStop_HostIo 5 (emu_m_System e)"
      "cycles libs 5 (emu_m_System e) = Inr ((), emu_m_System e')"
      "System_GetHostIoValue (emu_m_System e') = Inr 42"
    by blast
  with e(1,2) show ?thesis by (intro that [of libs e e']) simp_all
qed

section \<open>The properties\<close>

text \<open>
  C2: a program reports its result. When the RAM holds a program that the abstract machine, which
  fetches from its own memory, runs for \<open>n\<close> instructions, the host port reading zero before each
  of them and a nonzero value after them, then \<open>Emulator::Process\<close> with the host condition and no
  bound terminates with exactly the registers, program counter and memory of the abstract machine,
  after \<open>n\<close> cycles.
\<close>

theorem emulator_reports_result:
  assumes "sys_inv XLEN64 ramSize (emu_m_System e)" "quiet_data (emu_m_System e)" "multiplies libs"
    and "mrun (\<lambda>m. port_value a m = Some 0) (misa_of ramSize (emu_m_System e)) n m"
    and "a = ucast (sys_m_HostIoAddress (emu_m_System e))" "port_value a m = Some v" "v \<noteq> 0"
    and "emu_m_Cycle e = 0" "n < 2 ^ 31"
  shows "\<exists>e'. Emulator_Process libs EmulationStop_HostIo CycleForever e = Some (Inr e') \<and>
    misa_of ramSize (emu_m_System e') = m \<and> emu_m_Cycle e' = of_nat n \<and>
    System_GetHostIoValue (emu_m_System e') = Inr v"
  using Process_reports [OF assms] by blast

theorem emulator_reports_result_witness:
  "\<exists>libs e e'. reachable libs XLEN64 0x80000000 32 (emu_m_System e) \<and>
    Emulator_Process libs EmulationStop_HostIo CycleForever e = Some (Inr e') \<and>
    System_GetHostIoValue (emu_m_System e') = Inr 42"
proof -
  obtain libs and e :: Emulator where e: "reachable libs XLEN64 0x80000000 32 (emu_m_System e)" "emu_m_Cycle e = 0"
    "sys_inv XLEN64 32 (emu_m_System e)" "quiet_data (emu_m_System e)" "multiplies libs"
    "misa_of 32 (emu_m_System e) = product_start" "sys_m_HostIoAddress (emu_m_System e) = 0x80000018"
    by (rule product_emulator)
  have "\<exists>e'. Emulator_Process libs EmulationStop_HostIo CycleForever e = Some (Inr e') \<and>
    misa_of 32 (emu_m_System e') = product_end \<and> emu_m_Cycle e' = of_nat 5 \<and>
    System_GetHostIoValue (emu_m_System e') = Inr 42"
    by (rule emulator_reports_result [OF e(3,4,5) _ _ product_port(2)])
      (use product_run e(2,6,7) in simp_all)
  with e(1) show ?thesis by blast
qed

text \<open>
  C3: the emulator runs programs. When the abstract machine runs \<open>n\<close> instructions from the state of
  the system, \<open>Emulator::Process\<close> without a stop condition and bounded by \<open>n\<close> cycles returns, the
  registers, the program counter and the RAM are those of the abstract machine, and the counter
  says \<open>n\<close>.
\<close>

theorem emulator_runs_program:
  assumes "sys_inv XLEN64 ramSize (emu_m_System e)" "quiet_data (emu_m_System e)" "multiplies libs"
    and "mrun P (misa_of ramSize (emu_m_System e)) n m" "emu_m_Cycle e = 0" "n < 2 ^ 31"
  shows "\<exists>e'. Emulator_Process libs EmulationStop_None (of_nat n) e = Some (Inr e') \<and>
    misa_of ramSize (emu_m_System e') = m \<and> emu_m_Cycle e' = of_nat n"
  using assms by (rule Process_runs_program)

theorem emulator_runs_program_witness:
  "\<exists>libs e e'. reachable libs XLEN64 0x80000000 32 (emu_m_System e) \<and>
    Emulator_Process libs EmulationStop_None 5 e = Some (Inr e') \<and>
    isa_x (misa_core (misa_of 32 (emu_m_System e'))) 1 = 42"
proof -
  obtain libs and e :: Emulator where e: "reachable libs XLEN64 0x80000000 32 (emu_m_System e)" "emu_m_Cycle e = 0"
    "sys_inv XLEN64 32 (emu_m_System e)" "quiet_data (emu_m_System e)" "multiplies libs"
    "misa_of 32 (emu_m_System e) = product_start"
    by (rule product_emulator)
  have "\<exists>e'. Emulator_Process libs EmulationStop_None (of_nat 5) e = Some (Inr e') \<and>
      misa_of 32 (emu_m_System e') = product_end \<and> emu_m_Cycle e' = of_nat 5"
    by (rule emulator_runs_program [OF e(3-5) _ e(2)]) (use product_run e(6) in simp_all)
  with e(1) product_end_values show ?thesis by force
qed

text \<open>
  A run of the system implements a run of the instruction set. Whatever holds before each of the
  \<open>n\<close> instructions of a run of the abstract machine holds, of the abstraction, before each of \<open>n\<close>
  cycles of the system; the cycles return, and end in the state of the run.
\<close>

lemma run_refines_isa:
  assumes "mrun P (misa_of ramSize s) n m" "sys_inv XLEN64 ramSize s" "quiet_data s" "multiplies libs"
  shows "\<exists>t. cycles_on libs (\<lambda>u. P (misa_of ramSize u)) n s t \<and> cycles libs n s = Inr ((), t) \<and>
    misa_of ramSize t = m \<and> quiet_data t"
proof -
  obtain t where t: "cycles_on libs (\<lambda>u. P (misa_of ramSize u) \<and> same_mode s u \<and> sys_inv XLEN64 ramSize u) n s t"
      "misa_of ramSize t = m" "same_mode s t"
    using run_mrun [OF assms(1) refl assms(2-4)] by blast
  have "cycles_on libs (\<lambda>u. P (misa_of ramSize u)) n s t"
    using t(1) by (rule cycles_on_weaken) simp
  moreover have "cycles libs n s = Inr ((), t)" using t(1) by (rule cycles_on_cycles)
  moreover have "quiet_data t" using t(3) assms(3) by (rule same_mode_quiet)
  ultimately show ?thesis using t(2) by blast
qed

lemma run_refines_isa_witness:
  "\<exists>libs s t. reachable libs XLEN64 0x80000000 32 s \<and> cycles libs 5 s = Inr ((), t) \<and>
    misa_of 32 t = product_end"
proof -
  obtain libs :: Libraries where True by blast
  obtain s where s: "reachable (word_libs libs) XLEN64 0x80000000 32 s" "sys_inv XLEN64 32 s" "quiet_data s"
      "misa_of 32 s = product_start"
    using product_state by blast
  have "mrun (\<lambda>m. port_value 0x80000018 m = Some 0) (misa_of 32 s) 5 product_end"
    using product_run s(4) by simp
  from run_refines_isa [OF this s(2,3) multiplies_word_libs] s(1) show ?thesis by blast
qed

text \<open>
  C5: a cycle of the whole system implements a step of the instruction set. In machine mode with
  interrupts disabled, when the word at the program counter in the RAM is that of an instruction
  of RV64IM, a cycle of \<open>System\<close>, the devices, the interrupt controller, the fetch, in two halves
  at the end of a page, the decoder, the checks, the executor and the memory access together,
  takes the abstract machine's step on registers, program counter and memory; where a
  computation has no defined result, the cycle has none either.
\<close>

theorem cycle_refines_isa:
  assumes "sys_inv XLEN64 ramSize s" "quiet_data s" "multiplies libs" "fetches i (misa_of ramSize s)"
  shows "case mstep i (misa_of ramSize s) of
      Some m \<Rightarrow> \<exists>t. System_ProcessCycle libs s = Inr ((), t) \<and> misa_of ramSize t = m \<and> quiet_data t
    | None \<Rightarrow> (\<exists>j. i = Calc j) \<longrightarrow> System_ProcessCycle libs s = Inl Undefined"
proof (cases "mstep i (misa_of ramSize s)")
  case (Some m)
  then show ?thesis
    using cycle_mstep [OF assms Some] same_mode_quiet [OF _ assms(2)] by auto
next
  case None
  have "System_ProcessCycle libs s = Inl Undefined" if "i = Calc j" for j
  proof -
    have "valid_insn j" "insn_at ramSize (isa_pc (isa_of s)) j s" "\<not> insn_defined j (isa_of s)"
      using assms(4) None that
      by (auto simp: fetches_def misa_of_def mem_read_memory insn_at_def split: if_splits)
    then show ?thesis using cycle_simulated [OF assms(1) _ assms(3)] assms(2) by (auto simp: quiet_data_def)
  qed
  with None show ?thesis by auto
qed

lemma product_first: "fetches (Calc (Auipc 3 0)) product_start"
  "mstep (Calc (Auipc 3 0)) product_start = Some (product_start\<lparr>misa_core :=
     \<lparr>isa_pc = 0x80000004, isa_x = (\<lambda>_. 0)(3 := 0x80000000)\<rparr>\<rparr>)"
  using product_words by (simp_all add: fetches_def product_start_def product_fetch product_program_def
      write_x_def upper_def)

theorem cycle_refines_isa_witness:
  "\<exists>libs s t. reachable libs XLEN64 0x80000000 32 s \<and> System_ProcessCycle libs s = Inr ((), t) \<and>
    misa_core (misa_of 32 t) = \<lparr>isa_pc = 0x80000004, isa_x = (\<lambda>_. 0)(3 := 0x80000000)\<rparr>"
proof -
  obtain libs :: Libraries where True by blast
  obtain s where s: "reachable (word_libs libs) XLEN64 0x80000000 32 s" "sys_inv XLEN64 32 s" "quiet_data s"
      "misa_of 32 s = product_start"
    using product_state by blast
  have "fetches (Calc (Auipc 3 0)) (misa_of 32 s)" using s(4) product_first(1) by simp
  from cycle_refines_isa [OF s(2,3) multiplies_word_libs this, of libs] s(1,4) product_first(2)
  show ?thesis by force
qed

text \<open>
  C7: the executor implements the instruction set. In every state with the invariant, whatever
  the privilege level and the address translation, executing the word of an RV64IM
  register, immediate, shift, upper-immediate, jump or branch instruction changes the registers
  and the program counter exactly as the abstract machine does, and nothing else but the
  reservation, which it may cancel; if a result of the instruction is not defined in the
  language, a shift of a 32-bit number by 32 or more or a word division by a number whose lower
  half only is zero, it is the only outcome.
\<close>

theorem executor_refines_isa:
  assumes "sys_inv XLEN64 ramSize s" "multiplies libs" "valid_insn i"
  shows "if insn_defined i (isa_of s)
    then \<exists>t. execute_insn libs (isa_pc (isa_of s)) (encode i) s = Inr ((), t) \<and>
      isa_of t = isa_step i (isa_of s) \<and> same_but_registers s t
    else execute_insn libs (isa_pc (isa_of s)) (encode i) s = Inl Undefined"
proof -
  have "simulated i s (execute_insn libs (isa_pc (isa_of s)) (encode i))"
    by (rule simulated_all) (use assms in \<open>simp_all add: sys_inv_def isa_of_def\<close>)
  then show ?thesis by (simp add: simulated_def)
qed

theorem executor_refines_isa_witness:
  "\<exists>libs s t. reachable libs XLEN64 0x80000000 32 s \<and>
    execute_insn libs 0x80000000 (encode (Imm ADDI 1 0 6)) s = Inr ((), t) \<and>
    isa_of t = \<lparr>isa_pc = 0x80000004, isa_x = (\<lambda>_. 0)(1 := 6)\<rparr> \<and> same_but_registers s t"
proof -
  obtain libs :: Libraries where True by blast
  obtain s where s: "reachable (word_libs libs) XLEN64 0x80000000 32 s" "sys_inv XLEN64 32 s"
      "misa_of 32 s = product_start"
    using product_state by blast
  have m: "isa_of s = \<lparr>isa_pc = 0x80000000, isa_x = (\<lambda>_. 0)\<rparr>"
    using s(3) by (simp add: misa_of_def product_start_def)
  have "isa_step (Imm ADDI 1 0 6) (isa_of s) = \<lparr>isa_pc = 0x80000004, isa_x = (\<lambda>_. 0)(1 := 6)\<rparr>"
    by (simp add: m write_x_def)
  then show ?thesis
    using executor_refines_isa [OF s(2) multiplies_word_libs [of libs], of "Imm ADDI 1 0 6"] s(1) m
    by (fastforce simp del: encode.simps isa_step.simps)
qed

text \<open>
  C18: when the loop ends. It ends, returning or failing, exactly when it has a bound or one of the
  cycles that the counter, an \<open>int\<close>, can still number stops it: a stop condition holds before or
  after that cycle, or the cycle fails. An unbounded program that nothing stops does not end: it
  reaches the overflow of the counter, after which nothing is defined. When the loop returns, the
  counter has not gone back and has not passed the bound it was given.
\<close>

theorem emulator_loop_terminates:
  "((\<exists>r. Emulator_Process libs condition cycle e = Some r) \<longleftrightarrow>
      cycle \<noteq> CycleForever \<or>
      (\<exists>n. sint (emu_m_Cycle e) + int n < 2 ^ 31 \<and> \<not> undisturbed libs condition (Suc n) (emu_m_System e))) \<and>
   (\<forall>e'. Emulator_Process libs condition cycle e = Some (Inr e') \<longrightarrow>
      sint (emu_m_Cycle e) \<le> sint (emu_m_Cycle e') \<and>
      (cycle \<noteq> CycleForever \<and> sint (emu_m_Cycle e) \<le> sint cycle \<longrightarrow>
        sint (emu_m_Cycle e') \<le> sint cycle))"
proof -
  have "n < turns_left e \<longleftrightarrow> sint (emu_m_Cycle e) + int n < 2 ^ 31" for n
    by (auto simp: turns_left_def)
  then have "(\<exists>r. Emulator_Process libs condition cycle e = Some r) \<longleftrightarrow>
      cycle \<noteq> CycleForever \<or>
      (\<exists>n. sint (emu_m_Cycle e) + int n < 2 ^ 31 \<and> \<not> undisturbed libs condition (Suc n) (emu_m_System e))"
    using Process_has_result [of libs condition cycle e] by blast
  moreover have "sint (emu_m_Cycle e) \<le> sint (emu_m_Cycle e') \<and>
      (cycle \<noteq> CycleForever \<and> sint (emu_m_Cycle e) \<le> sint cycle \<longrightarrow>
        sint (emu_m_Cycle e') \<le> sint cycle)"
    if "Emulator_Process libs condition cycle e = Some (Inr e')" for e'
    using Process_stopped [OF that] by (auto simp: stopped_at_def)
  ultimately show ?thesis by blast
qed

theorem emulator_loop_terminates_witness:
  "\<exists>libs e e'. reachable libs XLEN64 0x80000000 32 (emu_m_System e) \<and>
    Emulator_Process libs EmulationStop_HostIo CycleForever e = Some (Inr e') \<and>
    0 \<le> sint (emu_m_Cycle e') \<and> (\<exists>n. \<not> undisturbed libs EmulationStop_HostIo (Suc n) (emu_m_System e))"
proof -
  obtain libs e e' where e: "reachable libs XLEN64 0x80000000 32 (emu_m_System e)" "emu_m_Cycle e = 0"
    "Emulator_Process libs EmulationStop_HostIo CycleForever e = Some (Inr e')"
    by (rule product_reports)
  note t = emulator_loop_terminates [of libs EmulationStop_HostIo CycleForever e]
  have "\<exists>n. \<not> undisturbed libs EmulationStop_HostIo (Suc n) (emu_m_System e)"
    using conjunct1 [OF t] e(3) by blast
  moreover have "0 \<le> sint (emu_m_Cycle e')" using conjunct2 [OF t] e(2,3) by force
  ultimately show ?thesis using e(1,3) by blast
qed

text \<open>
  C17: why the loop returns. A run that returns has stepped the machine some number \<open>n\<close> of
  cycles and counted them, no stop condition held before, and it ended because the bound was
  reached, because the host port is nonzero, or because one more cycle, which is not counted,
  raised a breakpoint exception.
\<close>

theorem emulator_loop_result:
  assumes "Emulator_Process libs condition cycle e = Some (Inr e')"
  shows "\<exists>n. stopped_at libs condition cycle n e e'"
  using assms by (rule Process_stopped)

theorem emulator_loop_result_witness:
  "\<exists>libs e e' n. reachable libs XLEN64 0x80000000 32 (emu_m_System e) \<and>
    Emulator_Process libs EmulationStop_HostIo CycleForever e = Some (Inr e') \<and>
    stopped_at libs EmulationStop_HostIo CycleForever n e e'"
proof -
  obtain libs e e' where "reachable libs XLEN64 0x80000000 32 (emu_m_System e)"
    "Emulator_Process libs EmulationStop_HostIo CycleForever e = Some (Inr e')"
    by (rule product_reports)
  then show ?thesis using emulator_loop_result by blast
qed

text \<open>
  C29: the loop notices the host. If the program writes a nonzero value to the host port in its
  \<open>n\<close>-th cycle, the cycles before return and do not stop the loop, and the bound leaves room for
  them, then the loop returns exactly the state after those \<open>n\<close> cycles.
\<close>

theorem emulator_loop_stops_on_host_io:
  assumes "undisturbed libs condition n (emu_m_System e)"
    and "cycles libs n (emu_m_System e) = Inr ((), t)"
    and "condition AND EmulationStop_HostIo \<noteq> 0"
    and "System_GetHostIoValue t = Inr v" "v \<noteq> 0"
    and "cycle = CycleForever \<and> sint (emu_m_Cycle e) + int n < 2 ^ 31 \<or>
      sint (emu_m_Cycle e) + int n < sint cycle"
  shows "\<exists>e'. Emulator_Process libs condition cycle e = Some (Inr e') \<and> emu_m_System e' = t \<and>
    sint (emu_m_Cycle e') = sint (emu_m_Cycle e) + int n"
proof -
  obtain e' where e': "emu_m_System e' = t" "sint (emu_m_Cycle e') = sint (emu_m_Cycle e) + int n"
      "Emulator_Process libs condition cycle e = Emulator_Process libs condition cycle e'"
    using Process_undisturbed [OF assms(1), of cycle] assms(2,6) by force
  moreover have "in_bound cycle (emu_m_Cycle e')"
    using assms(6) e'(2) by (auto simp: in_bound_def word_sless_alt)
  moreover have "IsStopConditionFilledPre condition (emu_m_System e') = Inr True"
    using assms(3-5) e'(1) by (simp add: IsStopConditionFilledPre_def)
  ultimately show ?thesis using Process_pre_stop by metis
qed

theorem emulator_loop_stops_on_host_io_witness:
  "\<exists>libs e e'. reachable libs XLEN64 0x80000000 32 (emu_m_System e) \<and>
    Emulator_Process libs EmulationStop_HostIo CycleForever e = Some (Inr e') \<and>
    cycles libs 5 (emu_m_System e) = Inr ((), emu_m_System e')"
proof -
  obtain libs and e e1 :: Emulator where e: "reachable libs XLEN64 0x80000000 32 (emu_m_System e)" "emu_m_Cycle e = 0"
    "undisturbed libs EmulationStop_HostIo 5 (emu_m_System e)"
    "cycles libs 5 (emu_m_System e) = Inr ((), emu_m_System e1)"
    "System_GetHostIoValue (emu_m_System e1) = Inr 42"
    by (rule product_reports)
  have "\<exists>e'. Emulator_Process libs EmulationStop_HostIo CycleForever e = Some (Inr e') \<and>
      emu_m_System e' = emu_m_System e1 \<and> sint (emu_m_Cycle e') = sint (emu_m_Cycle e) + int 5"
    by (rule emulator_loop_stops_on_host_io [OF e(3,4) _ e(5)])
       (simp_all add: e(2) EmulationStop_HostIo_def)
  then obtain e' where "Emulator_Process libs EmulationStop_HostIo CycleForever e = Some (Inr e')"
      "emu_m_System e' = emu_m_System e1"
    by blast
  moreover from this(2) e(4) have "cycles libs 5 (emu_m_System e) = Inr ((), emu_m_System e')" by simp
  ultimately show ?thesis using e(1) by blast
qed

end
