(* ===== verification/Rafi_Emulator.thy ===== *)
theory Rafi_Emulator
  imports Rafi_Processor
begin

text \<open>
  The interface that the emulator offers to its owners, the debugger and the trace logger
  (\<^verbatim>\<open>src/rafi-emu/Emulator.cpp\<close> and the functions it forwards to): stepping, running without a
  bound, physical memory, and copies of the register files. A copied register file is the list of
  the \<open>regs\<close> of the trace node it is copied to.
\<close>

section \<open>Copies of the register files\<close>

definition IntRegFile_Copy32 :: "IntRegFile \<Rightarrow> u32 list" where
  "IntRegFile_Copy32 r = map (\<lambda>i. ucast (intreg_m_Entries r ! i)) [0..<nat IntRegCount]"

definition IntRegFile_Copy64 :: "IntRegFile \<Rightarrow> u64 list" where
  "IntRegFile_Copy64 r = map (\<lambda>i. intreg_m_Entries r ! i) [0..<nat IntRegCount]"

text \<open>\<open>Copy\<close> of the floating-point registers asserts the size of its destination in bytes.\<close>

definition FpRegFile_Copy :: "nat \<Rightarrow> FpRegFile \<Rightarrow> u64 list result" where
  "FpRegFile_Copy sz r =
     (if sz = 8 * nat FpRegCount then Inr (fpreg_m_Entries r) else Inl AssertionFailure)"

definition Processor_CopyIntReg32 :: "Processor \<Rightarrow> u32 list" where
  "Processor_CopyIntReg32 p = IntRegFile_Copy32 (cpu_m_IntRegFile p)"

definition Processor_CopyIntReg64 :: "Processor \<Rightarrow> u64 list" where
  "Processor_CopyIntReg64 p = IntRegFile_Copy64 (cpu_m_IntRegFile p)"

definition Processor_CopyFpReg :: "nat \<Rightarrow> Processor \<Rightarrow> u64 list result" where
  "Processor_CopyFpReg sz p = FpRegFile_Copy sz (cpu_m_FpRegFile p)"

definition System_CopyIntReg32 :: "System \<Rightarrow> u32 list" where
  "System_CopyIntReg32 s = Processor_CopyIntReg32 (sys_m_Processor s)"

definition System_CopyIntReg64 :: "System \<Rightarrow> u64 list" where
  "System_CopyIntReg64 s = Processor_CopyIntReg64 (sys_m_Processor s)"

definition System_CopyFpReg :: "nat \<Rightarrow> System \<Rightarrow> u64 list result" where
  "System_CopyFpReg sz s = Processor_CopyFpReg sz (sys_m_Processor s)"

definition System_CopyOpEvent :: "System \<Rightarrow> OpEvent" where
  "System_CopyOpEvent s = Processor_CopyOpEvent (sys_m_Processor s)"

definition System_CopyMemoryAccessEvent :: "i32 \<Rightarrow> System \<Rightarrow> MemoryAccessEvent result" where
  "System_CopyMemoryAccessEvent index s = Processor_CopyMemoryAccessEvent index (sys_m_Processor s)"

definition System_IsOpEventExist :: "System \<Rightarrow> bool" where
  "System_IsOpEventExist s = Processor_IsOpEventExist (sys_m_Processor s)"

section \<open>The emulator's interface\<close>

type_synonym 'a emu_act = "(Emulator, 'a) act"

abbreviation on_System :: "'a sys_act \<Rightarrow> 'a emu_act" where
  "on_System m \<equiv> zoomM emu_m_System (\<lambda>s. emu_m_System_update (\<lambda>_. s)) m"

definition Emulator_LoadFileToMemory :: "u8 list option \<Rightarrow> paddr_t \<Rightarrow> unit emu_act" where
  "Emulator_LoadFileToMemory content address = on_System (System_LoadFileToMemory content address)"

definition Emulator_GetCycle :: "Emulator \<Rightarrow> i32" where
  "Emulator_GetCycle e = emu_m_Cycle e"

text \<open>\<open>Process\<close> without a bound; \<open>None\<close> is a run that never ends.\<close>

definition Emulator_ProcessForever :: "Libraries \<Rightarrow> i32 \<Rightarrow> Emulator \<Rightarrow> (Emulator result) option" where
  "Emulator_ProcessForever libs condition e = Emulator_Process libs condition CycleForever e"

definition Emulator_ProcessCycle :: "Libraries \<Rightarrow> unit emu_act" where
  "Emulator_ProcessCycle libs = on_System (System_ProcessCycle libs)"

definition Emulator_IsValidMemory :: "paddr_t \<Rightarrow> u64 \<Rightarrow> Emulator \<Rightarrow> bool" where
  "Emulator_IsValidMemory addr sz e = System_IsValidMemory addr sz (emu_m_System e)"

definition Emulator_ReadMemory :: "nat \<Rightarrow> paddr_t \<Rightarrow> Emulator \<Rightarrow> u8 list result" where
  "Emulator_ReadMemory bufferSize addr e = System_ReadMemory bufferSize addr (emu_m_System e)"

definition Emulator_WriteMemory :: "u8 list \<Rightarrow> paddr_t \<Rightarrow> unit emu_act" where
  "Emulator_WriteMemory buffer addr = on_System (System_WriteMemory buffer addr)"

definition Emulator_GetPc :: "Emulator \<Rightarrow> vaddr_t" where
  "Emulator_GetPc e = System_GetPc (emu_m_System e)"

definition Emulator_CopyIntReg32 :: "Emulator \<Rightarrow> u32 list" where
  "Emulator_CopyIntReg32 e = System_CopyIntReg32 (emu_m_System e)"

definition Emulator_CopyIntReg64 :: "Emulator \<Rightarrow> u64 list" where
  "Emulator_CopyIntReg64 e = System_CopyIntReg64 (emu_m_System e)"

end
