(* ===== verification/Rafi_Gdb.thy ===== *)
theory Rafi_Gdb
  imports Rafi_Emulator
begin

text \<open>
  The remote debugging protocol (\<^verbatim>\<open>src/rafi-emu/gdb/\<close>): hexadecimal text, the commands and their
  parser, the values saved under breakpoints, and the session with packets, acknowledgements and
  checksums. A \<open>char\<close> is a HOL character, whose numbers from 128 on are the negative values of
  the C type. \<open>RAFI_NOT_IMPLEMENTED\<close> exits the process.
\<close>

section \<open>Hexadecimal text\<close>

definition DigitToHexChar :: "nat \<Rightarrow> char result" where
  "DigitToHexChar value = (if value < 16
     then Inr (if value < 10 then char_of (48 + value) else char_of (97 + (value - 10)))
     else Inl AssertionFailure)"

text \<open>The loop of \<open>BinaryToHex\<close>: the bytes from the lowest on, each with its high digit first.\<close>

primrec BinaryToHex_loop :: "nat \<Rightarrow> 'a::len word \<Rightarrow> string result" where
  "BinaryToHex_loop 0 tmp = Inr []"
| "BinaryToHex_loop (Suc n) tmp =
    (case DigitToHexChar ((unat tmp mod 0x100) div 0x10) of Inl e \<Rightarrow> Inl e | Inr high \<Rightarrow>
     case DigitToHexChar (unat tmp mod 0x10) of Inl e \<Rightarrow> Inl e | Inr low \<Rightarrow>
     map_sum id (\<lambda>response. high # low # response) (BinaryToHex_loop n (drop_bit 8 tmp)))"

definition BinaryToHex :: "'a::len word \<Rightarrow> string result" where
  "BinaryToHex value = BinaryToHex_loop (LENGTH('a) div 8) value"

text \<open>Texts appended one after the other.\<close>

primrec append_all :: "string result list \<Rightarrow> string result" where
  "append_all [] = Inr []"
| "append_all (r # rs) = (case r of Inl e \<Rightarrow> Inl e | Inr s \<Rightarrow> map_sum id (\<lambda>t. s @ t) (append_all rs))"

definition StringToHex :: "string \<Rightarrow> string result" where
  "StringToHex str = append_all (map (\<lambda>c. BinaryToHex (of_char c :: u8)) str)"

definition HexCharToUInt8 :: "char \<Rightarrow> u8 result" where
  "HexCharToUInt8 c = (let n = of_char c :: nat in
     if 48 \<le> n \<and> n \<le> 57 then Inr (of_nat (n - 48))
     else if 97 \<le> n \<and> n \<le> 102 then Inr (of_nat (n - 97 + 10))
     else Inl ProcessExit)"

primrec HexToUInt64_loop :: "u64 \<Rightarrow> string \<Rightarrow> u64 result" where
  "HexToUInt64_loop acc [] = Inr acc"
| "HexToUInt64_loop acc (c # str) = (case HexCharToUInt8 c of Inl e \<Rightarrow> Inl e
     | Inr d \<Rightarrow> HexToUInt64_loop (push_bit 4 acc + ucast d) str)"

definition HexToUInt64 :: "string \<Rightarrow> u64 result" where
  "HexToUInt64 str = HexToUInt64_loop 0 str"

definition HexToUInt8 :: "string \<Rightarrow> u8 result" where
  "HexToUInt8 str = map_sum id ucast (HexToUInt64 str)"

text \<open>The conversion \<open>%x\<close> of \<open>sprintf\<close>.\<close>

definition lower_hex :: "nat \<Rightarrow> char" where
  "lower_hex n = (if n < 10 then char_of (48 + n) else char_of (87 + n))"

fun print_hex :: "nat \<Rightarrow> string" where
  "print_hex n = (if n < 16 then [lower_hex n] else print_hex (n div 16) @ [lower_hex (n mod 16)])"

declare print_hex.simps [simp del]

section \<open>Saved memory values\<close>

record GdbData =
  gdb_m_MemoryValues :: "paddr_t \<Rightarrow> u64 option"

text \<open>\<open>emplace\<close> keeps an entry that is already there; \<open>operator[]\<close> makes a missing one zero.\<close>

definition PushMemoryValue :: "paddr_t \<Rightarrow> u64 \<Rightarrow> GdbData \<Rightarrow> GdbData" where
  "PushMemoryValue addr value d = (case gdb_m_MemoryValues d addr of
     Some _ \<Rightarrow> d
   | None \<Rightarrow> d\<lparr>gdb_m_MemoryValues := (gdb_m_MemoryValues d)(addr \<mapsto> value)\<rparr>)"

definition PopMemoryValue :: "paddr_t \<Rightarrow> GdbData \<Rightarrow> u64 \<times> GdbData" where
  "PopMemoryValue addr d = (case gdb_m_MemoryValues d addr of Some v \<Rightarrow> v | None \<Rightarrow> 0,
     d\<lparr>gdb_m_MemoryValues := (gdb_m_MemoryValues d)(addr := None)\<rparr>)"

section \<open>Commands\<close>

definition GdbCommandBufferSize :: nat where "GdbCommandBufferSize = 256"

datatype GdbCommand =
    GdbCommandInvalid
  | GdbCommandReadReg XLEN
  | GdbCommandReadMemory paddr_t u64
  | GdbCommandInsertBreakPoint paddr_t u64
  | GdbCommandRemoveBreakPoint paddr_t u64
  | GdbCommandContinue
  | GdbCommandStep
  | GdbCommandSetThread
  | GdbCommandStopReason
  | GdbCommandQuery string
  | GdbCommandContinueQuery

definition BreakInsn :: u32 where "BreakInsn = 0x100073"
definition ShortBreakInsn :: u16 where "ShortBreakInsn = 0x9002"

text \<open>\<open>find\<close> from a position on, and \<open>substr\<close>; the positions passed are never past the end.\<close>

definition string_find :: "char \<Rightarrow> nat \<Rightarrow> string \<Rightarrow> nat option" where
  "string_find c pos s =
     (let n = length (takeWhile (\<lambda>x. x \<noteq> c) (drop pos s)) in
      if pos + n < length s then Some (pos + n) else None)"

definition string_substr :: "nat \<Rightarrow> nat \<Rightarrow> string \<Rightarrow> string" where
  "string_substr pos n s = take n (drop pos s)"

text \<open>The two numbers of a command; the constructors of the three commands that have them.\<close>

definition hex_pair :: "string \<Rightarrow> string \<Rightarrow> (paddr_t \<times> u64) result" where
  "hex_pair addr sz = (case HexToUInt64 addr of Inl e \<Rightarrow> Inl e | Inr a \<Rightarrow>
     map_sum id (Pair a) (HexToUInt64 sz))"

definition GdbCommandReadMemory_new :: "string \<Rightarrow> GdbCommand result" where
  "GdbCommandReadMemory_new cmd = (case string_find (CHR '','') 0 cmd of
     None \<Rightarrow> Inl ProcessExit
   | Some comma \<Rightarrow>
       map_sum id (\<lambda>(addr, sz). GdbCommandReadMemory addr sz)
         (hex_pair (string_substr 1 (comma - 1) cmd) (drop (comma + 1) cmd)))"

definition break_point_arguments :: "string \<Rightarrow> (paddr_t \<times> u64) result" where
  "break_point_arguments cmd = (case string_find (CHR '','') 0 cmd of
     None \<Rightarrow> Inl ProcessExit
   | Some comma0 \<Rightarrow> (case string_find (CHR '','') (comma0 + 1) cmd of
       None \<Rightarrow> Inl ProcessExit
     | Some comma1 \<Rightarrow>
         hex_pair (string_substr (comma0 + 1) (comma1 - (comma0 + 1)) cmd) (drop (comma1 + 1) cmd)))"

definition GdbCommandInsertBreakPoint_new :: "string \<Rightarrow> GdbCommand result" where
  "GdbCommandInsertBreakPoint_new cmd =
     map_sum id (\<lambda>(addr, sz). GdbCommandInsertBreakPoint addr sz) (break_point_arguments cmd)"

definition GdbCommandRemoveBreakPoint_new :: "string \<Rightarrow> GdbCommand result" where
  "GdbCommandRemoveBreakPoint_new cmd =
     map_sum id (\<lambda>(addr, sz). GdbCommandRemoveBreakPoint addr sz) (break_point_arguments cmd)"

definition ParseLongCommand :: "string \<Rightarrow> GdbCommand result" where
  "ParseLongCommand cmd =
     (if cmd = ''vMustReplyEmpty'' then Inr GdbCommandInvalid
      else if cmd = ''vCont?'' then Inr GdbCommandContinueQuery
      else Inl ProcessExit)"

definition Gdb_Parse :: "XLEN \<Rightarrow> string \<Rightarrow> GdbCommand result" where
  "Gdb_Parse xlen cmd = (case cmd of
     [] \<Rightarrow> Inr GdbCommandInvalid
   | c # _ \<Rightarrow>
       if c = CHR ''?'' then Inr GdbCommandStopReason
       else if c = CHR ''H'' then Inr GdbCommandSetThread
       else if c = CHR ''Z'' then GdbCommandInsertBreakPoint_new cmd
       else if c = CHR ''c'' then Inr GdbCommandContinue
       else if c = CHR ''g'' then Inr (GdbCommandReadReg xlen)
       else if c = CHR ''m'' then GdbCommandReadMemory_new cmd
       else if c = CHR ''q'' then Inr (GdbCommandQuery cmd)
       else if c = CHR ''s'' then Inr GdbCommandStep
       else if c = CHR ''v'' then ParseLongCommand cmd
       else if c = CHR ''z'' then GdbCommandRemoveBreakPoint_new cmd
       else Inl ProcessExit)"

section \<open>Processing commands\<close>

record GdbState =
  gdb_emulator :: Emulator
  gdb_data :: GdbData

type_synonym 'a gdb_act = "(GdbState, 'a) act"

abbreviation on_Emulator :: "'a emu_act \<Rightarrow> 'a gdb_act" where
  "on_Emulator m \<equiv> zoomM gdb_emulator (\<lambda>e. gdb_emulator_update (\<lambda>_. e)) m"

definition ReadReg_Process32 :: "Emulator \<Rightarrow> string result" where
  "ReadReg_Process32 e = append_all (map BinaryToHex (Emulator_CopyIntReg32 e) @
     [BinaryToHex (ucast (Emulator_GetPc e) :: u32)])"

definition ReadReg_Process64 :: "Emulator \<Rightarrow> string result" where
  "ReadReg_Process64 e = append_all (map BinaryToHex (Emulator_CopyIntReg64 e) @
     [BinaryToHex (Emulator_GetPc e)])"

definition ReadReg_Process :: "XLEN \<Rightarrow> Emulator \<Rightarrow> string result" where
  "ReadReg_Process xlen e = (case xlen of
     XLEN32 \<Rightarrow> ReadReg_Process32 e | XLEN64 \<Rightarrow> ReadReg_Process64 e | XLEN128 \<Rightarrow> Inl EmuException)"

text \<open>Only the exception of the emulator is caught.\<close>

definition ReadMemory_Process :: "paddr_t \<Rightarrow> u64 \<Rightarrow> Emulator \<Rightarrow> string result" where
  "ReadMemory_Process addr sz e =
    (if Emulator_IsValidMemory addr sz e then
       (case Emulator_ReadMemory (unat sz) addr e of
          Inl EmuException \<Rightarrow> Inr ''E08''
        | Inl f \<Rightarrow> Inl f
        | Inr bytes \<Rightarrow> append_all (map BinaryToHex bytes))
     else Inr (concat (replicate (unat sz) ''cd'')))"

text \<open>One width of a breakpoint: \<open>n\<close> bytes are saved and overwritten, or restored.\<close>

definition insert_break_point :: "nat \<Rightarrow> u8 list \<Rightarrow> paddr_t \<Rightarrow> string gdb_act" where
  "insert_break_point n insn addr =
     bindM (on_Emulator (queryM (Emulator_ReadMemory n addr))) (\<lambda>value.
     bindM (modifyM (gdb_data_update (PushMemoryValue addr (le_value value)))) (\<lambda>_.
     bindM (on_Emulator (Emulator_WriteMemory insn addr)) (\<lambda>_.
     returnM ''OK'')))"

definition remove_break_point :: "nat \<Rightarrow> paddr_t \<Rightarrow> string gdb_act" where
  "remove_break_point n addr =
     bindM (getM (\<lambda>g. fst (PopMemoryValue addr (gdb_data g)))) (\<lambda>value.
     bindM (modifyM (gdb_data_update (\<lambda>d. snd (PopMemoryValue addr d)))) (\<lambda>_.
     bindM (on_Emulator (Emulator_WriteMemory (le_bytes n value) addr)) (\<lambda>_.
     returnM ''OK'')))"

definition InsertBreakPoint_Process :: "paddr_t \<Rightarrow> u64 \<Rightarrow> string gdb_act" where
  "InsertBreakPoint_Process addr sz =
    (if sz = 2 then insert_break_point 2 (le_bytes 2 ShortBreakInsn) addr
     else if sz = 4 then insert_break_point 4 (le_bytes 4 BreakInsn) addr
     else failM ProcessExit)"

definition RemoveBreakPoint_Process :: "paddr_t \<Rightarrow> u64 \<Rightarrow> string gdb_act" where
  "RemoveBreakPoint_Process addr sz =
    (if sz = 2 then remove_break_point 2 addr
     else if sz = 4 then remove_break_point 4 addr
     else failM ProcessExit)"

definition Query_Process :: "string \<Rightarrow> string result" where
  "Query_Process command =
    (let name = takeWhile (\<lambda>c. c \<noteq> CHR '';'') command in
     if name = ''qThreadExtraInfo'' then StringToHex ''Breaked.''
     else
       let name = takeWhile (\<lambda>c. c \<noteq> CHR '':'') command in
       if name = ''qSupported'' then Inr (''PacketSize='' @ print_hex GdbCommandBufferSize)
       else if name = ''qfThreadInfo'' then Inr ''mp01.01''
       else if name = ''qsThreadInfo'' then Inr ''l''
       else if name = ''qC'' then Inr ''QCp01.01''
       else if name = ''qAttached'' then Inr ''1''
       else Inr [])"

text \<open>\<open>Process\<close> of each command; \<open>None\<close> is a \<open>continue\<close> that never stops.\<close>

primrec GdbCommand_Process ::
  "Libraries \<Rightarrow> GdbCommand \<Rightarrow> GdbState \<Rightarrow> ((string \<times> GdbState) result) option" where
  "GdbCommand_Process libs GdbCommandInvalid g = Some (returnM [] g)"
| "GdbCommand_Process libs (GdbCommandReadReg xlen) g =
     Some (on_Emulator (queryM (ReadReg_Process xlen)) g)"
| "GdbCommand_Process libs (GdbCommandReadMemory addr sz) g =
     Some (on_Emulator (queryM (ReadMemory_Process addr sz)) g)"
| "GdbCommand_Process libs (GdbCommandInsertBreakPoint addr sz) g =
     Some (InsertBreakPoint_Process addr sz g)"
| "GdbCommand_Process libs (GdbCommandRemoveBreakPoint addr sz) g =
     Some (RemoveBreakPoint_Process addr sz g)"
| "GdbCommand_Process libs GdbCommandContinue g =
     map_option (map_sum id (\<lambda>e. (''S05'', g\<lparr>gdb_emulator := e\<rparr>)))
       (Emulator_ProcessForever libs EmulationStop_Breakpoint (gdb_emulator g))"
| "GdbCommand_Process libs GdbCommandStep g =
     Some (bindM (on_Emulator (Emulator_ProcessCycle libs)) (\<lambda>_. returnM ''T05'') g)"
| "GdbCommand_Process libs GdbCommandSetThread g = Some (returnM ''OK'' g)"
| "GdbCommand_Process libs GdbCommandStopReason g = Some (returnM ''S05'' g)"
| "GdbCommand_Process libs (GdbCommandQuery command) g = Some (liftM (Query_Process command) g)"
| "GdbCommand_Process libs GdbCommandContinueQuery g = Some (returnM ''vCont;c;s'' g)"

section \<open>The session\<close>

text \<open>
  The connection is the text the client sends until it closes, and the text sent to it; a
  \<open>recv\<close> gets what it asks for if the client sends it.
\<close>

fun receive_start :: "string \<Rightarrow> string option" where
  "receive_start [] = None"
| "receive_start (c # input) =
    (if c = CHR ''$'' then Some input
     else if c \<noteq> CHR ''+'' then None
     else receive_start input)"

text \<open>The loop over the buffer: the text before \<open>#\<close>, if there is one within the buffer.\<close>

fun receive_body :: "nat \<Rightarrow> string \<Rightarrow> (string \<times> string) option" where
  "receive_body 0 input = None"
| "receive_body (Suc n) [] = None"
| "receive_body (Suc n) (c # input) =
    (if 128 \<le> (of_char c :: nat) \<or> (of_char c :: nat) = 127 then None
     else if c = CHR ''#'' then Some ([], input)
     else map_option (\<lambda>(body, rest). (c # body, rest)) (receive_body n input))"

definition checksum_char_ok :: "char \<Rightarrow> bool" where
  "checksum_char_ok c \<longleftrightarrow> 48 \<le> (of_char c :: nat) \<and> (of_char c :: nat) \<le> 102"

definition checksum :: "string \<Rightarrow> u8" where
  "checksum s = of_nat (sum_list (map of_char s))"

text \<open>The command in the buffer, which as a C string ends at its first null, and the rest.\<close>

definition ReceiveCommand :: "nat \<Rightarrow> string \<Rightarrow> ((string \<times> string) option) result" where
  "ReceiveCommand bufferSize input = (case receive_start input of
     None \<Rightarrow> Inr None
   | Some input \<Rightarrow> (case receive_body bufferSize input of
       None \<Rightarrow> Inr None
     | Some (buffer, input) \<Rightarrow> (case input of
         c0 # c1 # rest \<Rightarrow>
           if \<not> checksum_char_ok c0 \<or> \<not> checksum_char_ok c1 then Inr None
           else (case HexToUInt8 [c0, c1] of
               Inl e \<Rightarrow> Inl e
             | Inr checksumValue \<Rightarrow>
                 if checksum buffer \<noteq> checksumValue then Inr None
                 else Inr (Some (takeWhile (\<lambda>c. (of_char c :: nat) \<noteq> 0) buffer, rest)))
       | _ \<Rightarrow> Inr None)))"

definition SendAck :: string where "SendAck = ''+''"

definition SendResponse :: "string \<Rightarrow> string" where
  "SendResponse command = CHR ''$'' # command @ CHR ''#'' #
     [lower_hex (unat (checksum command) div 16), lower_hex (unat (checksum command) mod 16)]"

lemma receive_start_shorter: "receive_start input = Some rest \<Longrightarrow> length rest < length input"
  by (induction input rule: receive_start.induct) (auto split: if_splits)

lemma receive_body_shorter: "receive_body n input = Some (body, rest) \<Longrightarrow> length rest < length input"
  by (induction n input arbitrary: body rest rule: receive_body.induct) (auto split: if_splits)

lemma ReceiveCommand_shorter:
  "ReceiveCommand n input = Inr (Some (cmd, rest)) \<Longrightarrow> length rest < length input"
  by (auto simp: ReceiveCommand_def split: option.splits list.splits sum.splits if_splits
      dest!: receive_start_shorter receive_body_shorter)

text \<open>
  \<open>ProcessSession\<close>, until a command cannot be received: the text sent, and the state, or the
  failure that ends the program.
\<close>

function ProcessSession ::
  "Libraries \<Rightarrow> XLEN \<Rightarrow> string \<Rightarrow> GdbState \<Rightarrow> ((string \<times> GdbState) result) option" where
  "ProcessSession libs xlen input g = (case ReceiveCommand GdbCommandBufferSize input of
     Inl e \<Rightarrow> Some (Inl e)
   | Inr None \<Rightarrow> Some (Inr ([], g))
   | Inr (Some (cmd, rest)) \<Rightarrow> (case Gdb_Parse xlen cmd of
       Inl e \<Rightarrow> Some (Inl e)
     | Inr command \<Rightarrow> (case GdbCommand_Process libs command g of
         None \<Rightarrow> None
       | Some (Inl e) \<Rightarrow> Some (Inl e)
       | Some (Inr (response, g')) \<Rightarrow>
           map_option (map_sum id (map_prod (\<lambda>out. SendAck @ SendResponse response @ out) id))
             (ProcessSession libs xlen rest g'))))"
  by pat_completeness auto

termination
  by (relation "measure (\<lambda>(libs, xlen, input, g). length input)")
     (auto dest: ReceiveCommand_shorter)

declare ProcessSession.simps [simp del]

end
