(* ===== verification/Rafi_Gdb_Ok.thy ===== *)
theory Rafi_Gdb_Ok
  imports Rafi_Gdb Rafi_Memory_Ok Rafi_Emulator_Ok
begin

text \<open>
  The debugger's protocol: which packets are accepted, that the server's packets are among them,
  that the numbers of a command are read back as they were printed, that a session answers its
  packets one after the other, and what the memory and breakpoint commands do to the machine.
\<close>

section \<open>Hexadecimal digits and numbers\<close>

lemma of_char_nat_char_of [simp]: "n < 256 \<Longrightarrow> (of_char (char_of n :: char) :: nat) = n"
  by (simp add: of_char_of)

lemma hex_digit_code:
  "n < 10 \<Longrightarrow> (of_char (lower_hex n) :: nat) = 48 + n"
  "10 \<le> n \<Longrightarrow> n < 16 \<Longrightarrow> (of_char (lower_hex n) :: nat) = 87 + n"
  by (simp_all add: lower_hex_def)

lemma HexChar_hex_digit [simp]: "n < 16 \<Longrightarrow> HexCharToUInt8 (lower_hex n) = Inr (of_nat n)"
  by (cases "n < 10") (simp_all add: HexCharToUInt8_def hex_digit_code Let_def)

lemma checksum_char_hex_digit [simp]: "n < 16 \<Longrightarrow> checksum_char_ok (lower_hex n)"
  by (cases "n < 10") (simp_all add: checksum_char_ok_def hex_digit_code)

lemma hex_digit_not [simp]: "n < 16 \<Longrightarrow> lower_hex n \<noteq> CHR '',''"
  by (cases "n < 10") (auto dest!: arg_cong [of _ _ "of_char :: char \<Rightarrow> nat"] simp: hex_digit_code)

lemma DigitToHexChar_hex_digit [simp]: "n < 16 \<Longrightarrow> DigitToHexChar n = Inr (lower_hex n)"
  by (simp add: DigitToHexChar_def lower_hex_def)

lemma HexToUInt64_loop_append:
  "HexToUInt64_loop acc (s @ t) =
     (case HexToUInt64_loop acc s of Inl e \<Rightarrow> Inl e | Inr a \<Rightarrow> HexToUInt64_loop a t)"
  by (induction s arbitrary: acc) (auto split: sum.splits)

lemma ucast_nibble [simp]: "n < 16 \<Longrightarrow> ucast (of_nat n :: u8) = (of_nat n :: u64)"
  by (rule word_unat_eq_iff [THEN iffD2]) (simp add: unat_of_nat take_bit_nat_eq_self unsigned_ucast_eq)

lemma word_of_nat_two: "of_nat a * 16 + of_nat b = (of_nat (16 * a + b) :: 'a::len word)"
  by simp

lemma word_of_nat_digits: "of_nat (n div 16) * 16 + of_nat (n mod 16) = (of_nat n :: 'a::len word)"
  unfolding word_of_nat_two by simp

lemma HexToUInt64_print_hex: "HexToUInt64 (print_hex n) = Inr (of_nat n)"
  unfolding HexToUInt64_def
proof (induction n rule: print_hex.induct)
  case (1 n)
  show ?case
  proof (cases "n < 16")
    case True
    then show ?thesis by (subst print_hex.simps) simp
  next
    case False
    have "push_bit 4 (of_nat (n div 16) :: u64) + of_nat (n mod 16) = of_nat n"
      using word_of_nat_digits [of n, where ?'a = 64] by (simp only: push_bit_eq_mult) simp
    then show ?thesis using 1 [OF False]
      by (subst print_hex.simps) (simp add: False HexToUInt64_loop_append)
  qed
qed

lemma comma_print_hex [simp]: "CHR '','' \<notin> set (print_hex n)"
proof (induction n rule: print_hex.induct)
  case (1 n)
  then show ?case
    using hex_digit_not [of n] hex_digit_not [of "n mod 16"]
    by (subst print_hex.simps) (auto simp del: hex_digit_not)
qed

lemma HexToUInt8_digits [simp]:
  assumes "h < 16" "l < 16"
  shows "HexToUInt8 [lower_hex h, lower_hex l] = Inr (of_nat (16 * h + l))"
proof -
  have "push_bit 4 (of_nat h :: u64) + of_nat l = of_nat (16 * h + l)"
    by (simp only: push_bit_eq_mult word_of_nat_two [symmetric]) simp
  moreover have "ucast (of_nat (16 * h + l) :: u64) = (of_nat (16 * h + l) :: u8)"
    using assms by (intro word_unat_eq_iff [THEN iffD2])
      (simp add: unsigned_ucast_eq unat_of_nat take_bit_nat_eq_self del: of_nat_add of_nat_mult)
  ultimately show ?thesis using assms by (simp add: HexToUInt8_def HexToUInt64_def del: of_nat_add of_nat_mult)
qed

lemma takeWhile_up_to [simp]: "c \<notin> set s \<Longrightarrow> takeWhile (\<lambda>x. x \<noteq> c) (s @ c # t) = s"
  by (induction s) auto

section \<open>Commands\<close>

text \<open>
  The numbers of a command. The commands that read memory and that insert or remove a
  breakpoint, with the address and the size printed in hexadecimal, are parsed back to exactly that
  address and size, for all 64-bit numbers.
\<close>

theorem gdb_command_roundtrip:
  "Gdb_Parse xlen (''m'' @ print_hex (unat addr) @ '','' @ print_hex (unat sz)) =
     Inr (GdbCommandReadMemory addr sz)
   \<and> Gdb_Parse xlen (''Z0,'' @ print_hex (unat addr) @ '','' @ print_hex (unat sz)) =
     Inr (GdbCommandInsertBreakPoint addr sz)
   \<and> Gdb_Parse xlen (''z0,'' @ print_hex (unat addr) @ '','' @ print_hex (unat sz)) =
     Inr (GdbCommandRemoveBreakPoint addr sz)"
proof -
  let ?a = "print_hex (unat addr)" and ?s = "print_hex (unat sz)"
  have "string_find (CHR '','') 0 (''m'' @ ?a @ '','' @ ?s) = Some (1 + length ?a)"
    by (simp add: string_find_def takeWhile_append2)
  then have "Gdb_Parse xlen (''m'' @ ?a @ '','' @ ?s) = Inr (GdbCommandReadMemory addr sz)"
    by (simp add: Gdb_Parse_def GdbCommandReadMemory_new_def string_substr_def hex_pair_def
        HexToUInt64_print_hex)
  moreover have "break_point_arguments (p # ''0,'' @ ?a @ '','' @ ?s) = Inr (addr, sz)"
    if "p \<noteq> CHR '',''" for p
  proof -
    have "string_find (CHR '','') 0 (p # ''0,'' @ ?a @ '','' @ ?s) = Some 2"
      using that by (simp add: string_find_def)
    moreover have "string_find (CHR '','') 3 (p # ''0,'' @ ?a @ '','' @ ?s) = Some (3 + length ?a)"
      by (simp add: string_find_def takeWhile_append2)
    moreover have "drop (4 + length ?a) (p # ''0,'' @ ?a @ '','' @ ?s) = ?s"
      by (simp add: numeral_eq_Suc)
    ultimately show ?thesis
      by (simp add: break_point_arguments_def string_substr_def hex_pair_def HexToUInt64_print_hex
          del: drop_append)
  qed
  ultimately show ?thesis
    by (simp add: Gdb_Parse_def GdbCommandInsertBreakPoint_new_def GdbCommandRemoveBreakPoint_new_def)
qed

section \<open>Packets\<close>

definition packet_char :: "char \<Rightarrow> bool" where
  "packet_char c \<longleftrightarrow> c \<noteq> CHR ''#'' \<and> (of_char c :: nat) < 127"

definition null_char :: "char \<Rightarrow> bool" where
  "null_char c \<longleftrightarrow> (of_char c :: nat) = 0"

lemma receive_start_iff:
  "receive_start input = Some rest \<longleftrightarrow> (\<exists>n. input = replicate n (CHR ''+'') @ CHR ''$'' # rest)"
proof (induction input rule: receive_start.induct)
  case 1 show ?case by simp
next
  case (2 c input)
  have "(\<exists>n. c # input = replicate n (CHR ''+'') @ CHR ''$'' # rest) \<longleftrightarrow>
      c = CHR ''$'' \<and> input = rest \<or>
      c = CHR ''+'' \<and> (\<exists>n. input = replicate n (CHR ''+'') @ CHR ''$'' # rest)"
    (is "?l \<longleftrightarrow> ?r")
  proof
    assume ?l
    then obtain n where "c # input = replicate n (CHR ''+'') @ CHR ''$'' # rest" by blast
    then show ?r by (cases n) auto
  next
    assume ?r
    then show ?l
    proof
      assume "c = CHR ''$'' \<and> input = rest" then show ?l by (intro exI [of _ 0]) simp
    next
      assume "c = CHR ''+'' \<and> (\<exists>n. input = replicate n (CHR ''+'') @ CHR ''$'' # rest)"
      then obtain n where "c = CHR ''+''" "input = replicate n (CHR ''+'') @ CHR ''$'' # rest" by blast
      then show ?l by (intro exI [of _ "Suc n"]) simp
    qed
  qed
  with 2 show ?case by auto
qed

lemma receive_body_iff:
  "receive_body n input = Some (body, rest) \<longleftrightarrow>
     input = body @ CHR ''#'' # rest \<and> length body < n \<and> list_all packet_char body"
proof (induction n input arbitrary: body rule: receive_body.induct)
  case (3 n c input)
  show ?case
  proof (cases "c = CHR ''#''")
    case True
    then show ?thesis by (cases body) (simp_all add: packet_char_def)
  next
    case False
    show ?thesis
    proof (cases "128 \<le> (of_char c :: nat) \<or> (of_char c :: nat) = 127")
      case bad: True
      then have "\<not> packet_char c" by (auto simp: packet_char_def)
      with bad False show ?thesis by (cases body) auto
    next
      case ok: False
      then have "packet_char c" using False by (simp add: packet_char_def)
      with ok False show ?thesis
        by (cases body) (auto simp: 3 [OF ok False])
    qed
  qed
qed simp_all


lemma ReceiveCommand_iff:
  "ReceiveCommand bufferSize input = Inr (Some (cmd, rest)) \<longleftrightarrow>
     (\<exists>n body c0 c1.
        input = replicate n (CHR ''+'') @ CHR ''$'' # body @ CHR ''#'' # c0 # c1 # rest
        \<and> length body < bufferSize \<and> list_all packet_char body
        \<and> checksum_char_ok c0 \<and> checksum_char_ok c1
        \<and> HexToUInt8 [c0, c1] = Inr (checksum body)
        \<and> cmd = takeWhile (\<lambda>c. \<not> null_char c) body)"
    (is "?l \<longleftrightarrow> ?r")
proof
  assume ?l
  then show ?r
    by (force simp: ReceiveCommand_def receive_start_iff receive_body_iff null_char_def
        split: option.splits list.splits sum.splits if_splits)
next
  assume ?r
  then obtain n body c0 c1 where
    input: "input = replicate n (CHR ''+'') @ CHR ''$'' # body @ CHR ''#'' # c0 # c1 # rest"
    and body: "length body < bufferSize" "list_all packet_char body"
    and sum: "checksum_char_ok c0" "checksum_char_ok c1" "HexToUInt8 [c0, c1] = Inr (checksum body)"
    and cmd: "cmd = takeWhile (\<lambda>c. \<not> null_char c) body" by blast
  have "receive_start input = Some (body @ CHR ''#'' # c0 # c1 # rest)"
    unfolding receive_start_iff using input by blast
  moreover have "receive_body bufferSize (body @ CHR ''#'' # c0 # c1 # rest) =
      Some (body, c0 # c1 # rest)"
    unfolding receive_body_iff using body by blast
  ultimately show ?l using sum by (simp add: ReceiveCommand_def cmd null_char_def)
qed

text \<open>
  C27: which packets are accepted. A command is received exactly when the input is any number of
  acknowledgements, a \<open>$\<close>, a body of 7-bit characters without delete and shorter than the buffer,
  a \<open>#\<close> and two hexadecimal digits that say the sum of the body modulo 256; the command is the body
  up to its first null, and the rest of the input is left.
\<close>

theorem gdb_receive_command:
  "ReceiveCommand bufferSize input = Inr (Some (cmd, rest)) \<longleftrightarrow>
     (\<exists>n body c0 c1.
        input = replicate n (CHR ''+'') @ CHR ''$'' # body @ CHR ''#'' # c0 # c1 # rest
        \<and> length body < bufferSize \<and> list_all packet_char body
        \<and> checksum_char_ok c0 \<and> checksum_char_ok c1
        \<and> HexToUInt8 [c0, c1] = Inr (checksum body)
        \<and> cmd = takeWhile (\<lambda>c. \<not> null_char c) body)"
  by (rule ReceiveCommand_iff)

text \<open>Messages that a packet can carry whole.\<close>

definition message :: "string \<Rightarrow> bool" where
  "message msg \<longleftrightarrow> length msg < GdbCommandBufferSize \<and>
     list_all (\<lambda>c. packet_char c \<and> \<not> null_char c) msg"

lemma ReceiveCommand_SendResponse:
  assumes "message msg"
  shows "ReceiveCommand GdbCommandBufferSize (SendResponse msg @ rest) = Inr (Some (msg, rest))"
proof -
  let ?k = "unat (checksum msg)"
  have k: "?k div 16 < 16" "?k mod 16 < 16" using unsigned_less [of "checksum msg"] by (simp_all add: div_less_iff_less_mult)
  have "HexToUInt8 [lower_hex (?k div 16), lower_hex (?k mod 16)] = Inr (checksum msg)"
    using HexToUInt8_digits [OF k] by simp
  moreover have "takeWhile (\<lambda>c. \<not> null_char c) msg = msg"
    using assms by (simp add: message_def list_all_iff takeWhile_eq_all_conv)
  moreover have "SendResponse msg @ rest = replicate 0 (CHR ''+'') @ CHR ''$'' # msg @ CHR ''#'' #
      lower_hex (?k div 16) # lower_hex (?k mod 16) # rest"
    by (simp add: SendResponse_def)
  ultimately show ?thesis
    using assms k unfolding ReceiveCommand_iff
    by (metis (no_types, lifting) checksum_char_hex_digit message_def list.pred_mono_strong)
qed


section \<open>Sessions\<close>

text \<open>
  The protocol without its text: a list of commands is answered by the list of their replies. A
  side of the connection sends each of its messages after an acknowledgement of the other's.
\<close>

primrec gdb_serve ::
  "Libraries \<Rightarrow> XLEN \<Rightarrow> string list \<Rightarrow> GdbState \<Rightarrow> ((string list \<times> GdbState) result) option" where
  "gdb_serve libs xlen [] g = Some (Inr ([], g))"
| "gdb_serve libs xlen (cmd # cmds) g = (case Gdb_Parse xlen cmd of
     Inl e \<Rightarrow> Some (Inl e)
   | Inr command \<Rightarrow> (case GdbCommand_Process libs command g of
       None \<Rightarrow> None
     | Some (Inl e) \<Rightarrow> Some (Inl e)
     | Some (Inr (response, g')) \<Rightarrow>
         map_option (map_sum id (map_prod (Cons response) id)) (gdb_serve libs xlen cmds g')))"

definition gdb_stream :: "string list \<Rightarrow> string" where
  "gdb_stream msgs = concat (map (\<lambda>msg. SendAck @ SendResponse msg) msgs)"

lemma gdb_stream_Nil [simp]: "gdb_stream [] = []"
  by (simp add: gdb_stream_def)

lemma gdb_stream_Cons [simp]: "gdb_stream (msg # msgs) = SendAck @ SendResponse msg @ gdb_stream msgs"
  by (simp add: gdb_stream_def)

lemma ReceiveCommand_ack: "ReceiveCommand n (SendAck @ input) = ReceiveCommand n input"
  by (simp add: ReceiveCommand_def SendAck_def)

lemma ProcessSession_serves:
  assumes "list_all message cmds"
  shows "ProcessSession libs xlen (gdb_stream cmds) g =
    map_option (map_sum id (map_prod gdb_stream id)) (gdb_serve libs xlen cmds g)"
  using assms
proof (induction cmds arbitrary: g)
  case Nil
  then show ?case by (subst ProcessSession.simps) (simp add: ReceiveCommand_def)
next
  case (Cons cmd cmds)
  then have "ReceiveCommand GdbCommandBufferSize (gdb_stream (cmd # cmds)) = Inr (Some (cmd, gdb_stream cmds))"
    by (simp add: ReceiveCommand_ack ReceiveCommand_SendResponse)
  with Cons show ?case
    by (subst ProcessSession.simps)
       (auto simp: option.map_comp sum.map_comp o_def map_prod_def split_beta
         split: sum.splits option.splits prod.splits
         intro!: arg_cong [where f = "\<lambda>f. map_option f _"] ext arg_cong [where f = "\<lambda>f. map_sum id f _"])
qed

text \<open>
  C16: a session answers its commands. For commands that fit into a packet, the server's side of
  the connection is the stream of the replies, in the order of the commands, each acknowledged,
  framed and summed as the client's commands are; a command that fails ends the program.
\<close>

theorem gdb_session_serves:
  assumes "list_all message cmds"
  shows "ProcessSession libs xlen (gdb_stream cmds) g =
    map_option (map_sum id (map_prod gdb_stream id)) (gdb_serve libs xlen cmds g)"
  using assms by (rule ProcessSession_serves)

theorem gdb_session_serves_witness:
  "\<forall>libs g. ProcessSession libs XLEN64 (gdb_stream [''?'', ''qC'', ''Hg0'']) g =
    Some (Inr (gdb_stream [''S05'', ''QCp01.01'', ''OK''], g))"
proof -
  have "list_all message [''?'', ''qC'', ''Hg0'']" by code_simp
  note gdb_session_serves [OF this]
  then show ?thesis by (simp add: Gdb_Parse_def Query_Process_def returnM_def)
qed

section \<open>The machine under a debugger\<close>

abbreviation gdb_system :: "GdbState \<Rightarrow> System" where
  "gdb_system g \<equiv> emu_m_System (gdb_emulator g)"

abbreviation gdb_reachable :: "Libraries \<Rightarrow> XLEN \<Rightarrow> vaddr_t \<Rightarrow> u64 \<Rightarrow> GdbState \<Rightarrow> bool" where
  "gdb_reachable libs xlen pc ramSize \<equiv> (\<lambda>g. reachable libs xlen pc ramSize (gdb_system g))"

lemma cycles_reachable:
  "cycles libs n s = Inr ((), t) \<Longrightarrow> reachable libs xlen pc ramSize s \<Longrightarrow> reachable libs xlen pc ramSize t"
  by (induction n arbitrary: s) (auto simp: returnM_def bindM_eq_Inr intro: reachable.cycle)

lemma Process_reachable:
  assumes "Emulator_Process libs condition cycle e = Some (Inr e')"
    and "reachable libs xlen pc ramSize (emu_m_System e)"
  shows "reachable libs xlen pc ramSize (emu_m_System e')"
proof -
  obtain n t where "cycles libs n (emu_m_System e) = Inr ((), t)"
    and "emu_m_System e' = t \<or> System_ProcessCycle libs t = Inr ((), emu_m_System e')"
    using Process_stopped [OF assms(1)] by (auto simp: stopped_at_def)
  then show ?thesis using cycles_reachable assms(2) by (metis reachable.cycle)
qed

lemma preserves_on_Emulator:
  "preserves (reachable libs xlen pc ramSize) m \<Longrightarrow>
   preserves (gdb_reachable libs xlen pc ramSize) (on_Emulator (on_System m))"
  by (intro preserves_zoomM) simp_all

lemma preserves_gdb_write:
  "preserves (gdb_reachable libs xlen pc ramSize) (on_Emulator (Emulator_WriteMemory bs a))"
  "preserves (gdb_reachable libs xlen pc ramSize) (on_Emulator (Emulator_ProcessCycle libs))"
  unfolding Emulator_WriteMemory_def Emulator_ProcessCycle_def
  by (intro preserves_on_Emulator preservesI; auto intro: reachable.write_memory reachable.cycle)+

lemma preserves_gdb_query:
  "preserves (gdb_reachable libs xlen pc ramSize) (on_Emulator (queryM q))"
  by (rule preservesI) (auto simp: zoomM_eq_Inr queryM_eq_Inr)

lemma preserves_break_points:
  "preserves (gdb_reachable libs xlen pc ramSize) (InsertBreakPoint_Process a sz)"
  "preserves (gdb_reachable libs xlen pc ramSize) (RemoveBreakPoint_Process a sz)"
  unfolding InsertBreakPoint_Process_def RemoveBreakPoint_Process_def insert_break_point_def
    remove_break_point_def
  by (intro preserves_intros preserves_gdb_write preserves_gdb_query preserves_modifyM; simp)+

lemma GdbCommand_Process_reachable:
  assumes "GdbCommand_Process libs command g = Some (Inr (response, g'))"
    and "gdb_reachable libs xlen pc ramSize g"
  shows "gdb_reachable libs xlen pc ramSize g'"
proof (cases command)
  case (GdbCommandReadReg w)
  then show ?thesis using assms by (auto dest: preservesD [OF preserves_gdb_query assms(2)])
next
  case (GdbCommandReadMemory a sz)
  then show ?thesis using assms by (auto dest: preservesD [OF preserves_gdb_query assms(2)])
next
  case (GdbCommandInsertBreakPoint a sz)
  then show ?thesis using assms by (auto dest: preservesD [OF preserves_break_points(1) assms(2)])
next
  case (GdbCommandRemoveBreakPoint a sz)
  then show ?thesis using assms by (auto dest: preservesD [OF preserves_break_points(2) assms(2)])
next
  case GdbCommandContinue
  then show ?thesis using assms
    by (auto simp: Emulator_ProcessForever_def map_sum_eq_Inr intro: Process_reachable)
next
  case GdbCommandStep
  then show ?thesis using assms
    by (auto simp: bindM_eq_Inr returnM_def dest: preservesD [OF preserves_gdb_write(2) assms(2)])
qed (use assms in \<open>auto simp: returnM_def liftM_eq_Inr\<close>)

text \<open>
  The machine that a session leaves is one that cycles and memory writes reach, so that it has the
  invariant of the machine.
\<close>

lemma session_reachable:
  assumes "ProcessSession libs xlen' input g = Some (Inr (out, g'))"
    and "reachable libs xlen pc ramSize (gdb_system g)"
  shows "reachable libs xlen pc ramSize (gdb_system g')"
  using assms
proof (induction libs xlen' input g arbitrary: out rule: ProcessSession.induct)
  case (1 libs xlen' input g)
  note reach = 1(3)
  consider "g' = g"
  | cmd rest command response g1 out1 where
      "ReceiveCommand GdbCommandBufferSize input = Inr (Some (cmd, rest))"
      "Gdb_Parse xlen' cmd = Inr command"
      "GdbCommand_Process libs command g = Some (Inr (response, g1))"
      "ProcessSession libs xlen' rest g1 = Some (Inr (out1, g'))"
    using 1(2) unfolding ProcessSession.simps [of libs xlen' input g]
    by (auto simp: map_sum_eq_Inr split: sum.splits option.splits prod.splits)
  then show ?case
  proof cases
    case 1
    with reach show ?thesis by simp
  next
    case (2 cmd rest command response g1 out1)
    then show ?thesis
      using "1.IH" [OF 2(1) refl refl 2(2) 2(3) refl refl 2(4)] reach
        GdbCommand_Process_reachable [OF 2(3)] by blast
  qed
qed

section \<open>Memory and breakpoints\<close>

lemma body_write_back:
  assumes "length bs = n" "n \<le> 2 ^ 64"
  shows "body_write (body_read n a b) a (body_write bs a b) = b"
proof
  fix i
  have "a + of_nat (unat (i - a)) = i" by simp
  then show "body_write (body_read n a b) a (body_write bs a b) i = b i"
    using assms by (simp add: body_write_def body_read_def)
qed

lemma put_ram_back:
  "in_ram ramSize a n \<Longrightarrow> length bs = n \<Longrightarrow> put_ram (ram_bytes n a s) a (put_ram bs a s) = s"
  using in_ram_arith(1,2) [of ramSize a n]
  by (simp add: put_ram_def ram_bytes_def body_write_back)

abbreviation gdb_put_ram :: "u8 list \<Rightarrow> paddr_t \<Rightarrow> GdbState \<Rightarrow> GdbState" where
  "gdb_put_ram bs a \<equiv> gdb_emulator_update (emu_m_System_update (put_ram bs a))"

lemma emulator_memory:
  assumes "wired ramSize (gdb_system g)"
  shows "in_ram ramSize a n \<Longrightarrow>
      on_Emulator (queryM (Emulator_ReadMemory n a)) g = Inr (ram_bytes n a (gdb_system g), g)"
    and "in_ram ramSize a (length bs) \<Longrightarrow>
      on_Emulator (Emulator_WriteMemory bs a) g = Inr ((), gdb_put_ram bs a g)"
  using Bus_Read_ram [OF assms] Bus_Write_ram [OF assms]
  by (simp_all add: zoomM_def queryM_def Emulator_ReadMemory_def System_ReadMemory_def
      Emulator_WriteMemory_def System_WriteMemory_def)

text \<open>The machine with a breakpoint, and with the saved value of one.\<close>

definition break_point_insn :: "nat \<Rightarrow> u8 list" where
  "break_point_insn n = (if n = 2 then le_bytes 2 ShortBreakInsn else le_bytes 4 BreakInsn)"

lemma insert_break_point_ram:
  assumes "wired ramSize (gdb_system g)" "in_ram ramSize a (length insn)" "length insn = n"
    "gdb_m_MemoryValues (gdb_data g) a = None"
  shows "insert_break_point n insn a g = Inr (''OK'', gdb_put_ram insn a
    (g\<lparr>gdb_data := \<lparr>gdb_m_MemoryValues =
       (gdb_m_MemoryValues (gdb_data g))(a \<mapsto> le_value (ram_bytes n a (gdb_system g)))\<rparr>\<rparr>))"
proof -
  let ?g = "g\<lparr>gdb_data := \<lparr>gdb_m_MemoryValues =
       (gdb_m_MemoryValues (gdb_data g))(a \<mapsto> le_value (ram_bytes n a (gdb_system g)))\<rparr>\<rparr>"
  have "gdb_data_update (PushMemoryValue a (le_value (ram_bytes n a (gdb_system g)))) g = ?g"
    using assms(4) by (cases g) (simp add: PushMemoryValue_def)
  moreover have "wired ramSize (gdb_system ?g)" using assms(1) by simp
  note emulator_memory(2) [OF this assms(2)]
  ultimately show ?thesis
    using assms emulator_memory(1) [OF assms(1), of a n]
    by (simp add: insert_break_point_def act_simps)
qed

lemma remove_break_point_ram:
  assumes "wired ramSize (gdb_system g)" "in_ram ramSize a n"
  shows "remove_break_point n a g = Inr (''OK'', gdb_put_ram
      (le_bytes n (case gdb_m_MemoryValues (gdb_data g) a of Some v \<Rightarrow> v | None \<Rightarrow> 0)) a
    (g\<lparr>gdb_data := \<lparr>gdb_m_MemoryValues = (gdb_m_MemoryValues (gdb_data g))(a := None)\<rparr>\<rparr>))"
proof -
  let ?g = "g\<lparr>gdb_data := \<lparr>gdb_m_MemoryValues = (gdb_m_MemoryValues (gdb_data g))(a := None)\<rparr>\<rparr>"
  have "gdb_data_update (\<lambda>d. snd (PopMemoryValue a d)) g = ?g"
    by (cases g) (simp add: PopMemoryValue_def)
  moreover have fst_Pop: "fst (PopMemoryValue a d) = (case gdb_m_MemoryValues d a of Some v \<Rightarrow> v | None \<Rightarrow> 0)" for d
    by (simp add: PopMemoryValue_def)
  moreover have "wired ramSize (gdb_system ?g)" using assms(1) by simp
  then have "on_Emulator (Emulator_WriteMemory (le_bytes n v) a) ?g = Inr ((), gdb_put_ram (le_bytes n v) a ?g)"
    for v :: u64
    using assms(2) by (intro emulator_memory(2)) simp_all
  ultimately show ?thesis
    by (simp only: remove_break_point_def bindM_getM bindM_modifyM fst_Pop bindM_Inr returnM_def)
qed

text \<open>
  C22: a breakpoint. Inserting one of 2 or 4 bytes in the RAM answers OK, puts the breakpoint
  instruction at its address and changes no other byte; removing it then answers OK and restores
  the machine and the table of saved values exactly.
\<close>

theorem gdb_break_point_restores:
  assumes "reachable libs xlen pc ramSize (gdb_system g)"
    and "n = 2 \<or> n = 4" "in_ram ramSize a n" "gdb_m_MemoryValues (gdb_data g) a = None"
  shows "\<exists>t. InsertBreakPoint_Process a (of_nat n) g = Inr (''OK'', t) \<and>
    System_ReadMemory n a (gdb_system t) = Inr (break_point_insn n) \<and>
    (\<forall>c m. in_ram ramSize c m \<longrightarrow> unat c + m \<le> unat a \<or> unat a + n \<le> unat c \<longrightarrow>
      System_ReadMemory m c (gdb_system t) = System_ReadMemory m c (gdb_system g)) \<and>
    RemoveBreakPoint_Process a (of_nat n) t = Inr (''OK'', g)"
proof -
  note w = sys_inv_wired [OF reachable_inv [OF assms(1)]]
  let ?insn = "break_point_insn n" and ?old = "ram_bytes n a (gdb_system g)"
  let ?t = "gdb_put_ram ?insn a (g\<lparr>gdb_data := \<lparr>gdb_m_MemoryValues =
       (gdb_m_MemoryValues (gdb_data g))(a \<mapsto> le_value ?old)\<rparr>\<rparr>)"
  have l [simp]: "length ?insn = n" using assms(2) by (auto simp: break_point_insn_def)
  have wt: "wired ramSize (gdb_system ?t)" using w by simp
  have "InsertBreakPoint_Process a (of_nat n) g = Inr (''OK'', ?t)"
    using assms(2) insert_break_point_ram [OF w _ l assms(4)] assms(3)
    by (auto simp: InsertBreakPoint_Process_def break_point_insn_def)
  moreover have "System_ReadMemory n a (gdb_system ?t) = Inr ?insn"
    using Bus_Read_ram [OF wt assms(3)] ram_bytes_own [of ramSize a ?insn] assms(3)
    by (simp add: System_ReadMemory_def)
  moreover have "System_ReadMemory m c (gdb_system ?t) = System_ReadMemory m c (gdb_system g)"
    if "in_ram ramSize c m" "unat c + m \<le> unat a \<or> unat a + n \<le> unat c" for c m
    using Bus_Read_ram [OF wt that(1)] Bus_Read_ram [OF w that(1)] that assms(3)
      ram_bytes_other [of ramSize a ?insn c m]
    by (simp add: System_ReadMemory_def)
  moreover have "RemoveBreakPoint_Process a (of_nat n) ?t = Inr (''OK'', g)"
  proof -
    have "le_bytes n (le_value ?old :: u64) = ?old"
      using assms(2) le_bytes_le_value [of ?old, where ?'a = 64]
      by (auto simp: ram_bytes_def)
    moreover have "(gdb_m_MemoryValues (gdb_data g))(a := None) = gdb_m_MemoryValues (gdb_data g)"
      using assms(4) by auto
    ultimately have "remove_break_point n a ?t = Inr (''OK'', g)"
      using remove_break_point_ram [OF wt assms(3)] put_ram_back [OF assms(3) l]
      by (cases g; cases "gdb_emulator g"; cases "gdb_data g") simp
    then show ?thesis using assms(2) by (auto simp: RemoveBreakPoint_Process_def)
  qed
  ultimately show ?thesis by blast
qed

theorem gdb_break_point_restores_witness:
  "\<exists>libs g t. reachable libs XLEN64 0x1000 0x4000000 (gdb_system g) \<and>
    InsertBreakPoint_Process 0x80000010 4 g = Inr (''OK'', t) \<and>
    System_ReadMemory 4 0x80000010 (gdb_system t) = Inr [0x73, 0, 0x10, 0] \<and>
    RemoveBreakPoint_Process 0x80000010 4 t = Inr (''OK'', g)"
proof -
  obtain libs s where s: "reachable libs XLEN64 0x1000 0x4000000 s" using reachable_exists by blast
  let ?g = "\<lparr>gdb_emulator = \<lparr>emu_m_System = s, emu_m_Cycle = 0\<rparr>, gdb_data = \<lparr>gdb_m_MemoryValues = Map.empty\<rparr>\<rparr>"
  have r: "in_ram 0x4000000 0x80000010 4" by (simp add: in_ram_def)
  have b: "break_point_insn 4 = [0x73, 0, 0x10, 0]"
    by (simp add: break_point_insn_def le_bytes_def BreakInsn_def upt_rec)
  obtain t where "InsertBreakPoint_Process 0x80000010 (of_nat 4) ?g = Inr (''OK'', t)"
      "System_ReadMemory 4 0x80000010 (gdb_system t) = Inr (break_point_insn 4)"
      "RemoveBreakPoint_Process 0x80000010 (of_nat 4) t = Inr (''OK'', ?g)"
    using gdb_break_point_restores [of libs XLEN64 "0x1000" "0x4000000" ?g 4 "0x80000010"] s r
    by (auto simp del: replicate.simps)
  then show ?thesis
    using s unfolding b by (intro exI [of _ libs] exI [of _ ?g] exI [of _ t]) simp
qed

text \<open>
  C23: removing a breakpoint that is not set. The command answers OK although there is nothing to
  remove, overwrites the RAM at the address with zeros, and changes nothing else: neither another
  byte nor the saved values.
\<close>

theorem gdb_break_point_unset:
  assumes "reachable libs xlen pc ramSize (gdb_system g)"
    and "n = 2 \<or> n = 4" "in_ram ramSize a n" "gdb_m_MemoryValues (gdb_data g) a = None"
  shows "RemoveBreakPoint_Process a (of_nat n) g = Inr (''OK'', gdb_put_ram (replicate n 0) a g) \<and>
    System_ReadMemory n a (gdb_system (gdb_put_ram (replicate n 0) a g)) = Inr (replicate n 0)"
proof -
  note w = sys_inv_wired [OF reachable_inv [OF assms(1)]]
  have z: "le_bytes n (0 :: u64) = replicate n 0"
    by (simp add: le_bytes_def map_replicate_const)
  have "g\<lparr>gdb_data := \<lparr>gdb_m_MemoryValues = (gdb_m_MemoryValues (gdb_data g))(a := None)\<rparr>\<rparr> = g"
    using assms(4) by (cases g; cases "gdb_data g") (simp add: fun_upd_idem)
  then have "remove_break_point n a g = Inr (''OK'', gdb_put_ram (replicate n 0) a g)"
    using remove_break_point_ram [OF w assms(3)] assms(4) z by simp
  then have "RemoveBreakPoint_Process a (of_nat n) g = Inr (''OK'', gdb_put_ram (replicate n 0) a g)"
    using assms(2) by (auto simp: RemoveBreakPoint_Process_def)
  moreover have "System_ReadMemory n a (gdb_system (gdb_put_ram (replicate n 0) a g)) = Inr (replicate n 0)"
    using Bus_Read_ram [of ramSize "gdb_system (gdb_put_ram (replicate n 0) a g)", OF _ assms(3)] w assms(3)
      ram_bytes_own [of ramSize a "replicate n 0"]
    by (simp add: System_ReadMemory_def)
  ultimately show ?thesis by blast
qed

theorem gdb_break_point_unset_witness:
  "\<exists>libs g t. reachable libs XLEN64 0x1000 0x4000000 (gdb_system g) \<and>
    RemoveBreakPoint_Process 0x80000010 4 g = Inr (''OK'', t) \<and>
    System_ReadMemory 4 0x80000010 (gdb_system t) = Inr (replicate 4 0)"
proof -
  obtain libs s where s: "reachable libs XLEN64 0x1000 0x4000000 s" using reachable_exists by blast
  let ?g = "\<lparr>gdb_emulator = \<lparr>emu_m_System = s, emu_m_Cycle = 0\<rparr>, gdb_data = \<lparr>gdb_m_MemoryValues = Map.empty\<rparr>\<rparr>"
  have r: "in_ram 0x4000000 0x80000010 4" by (simp add: in_ram_def)
  let ?t = "gdb_put_ram (replicate 4 0) 0x80000010 ?g"
  have "RemoveBreakPoint_Process 0x80000010 (of_nat 4) ?g = Inr (''OK'', ?t)"
      "System_ReadMemory 4 0x80000010 (gdb_system ?t) = Inr (replicate 4 0)"
    using gdb_break_point_unset [of libs XLEN64 "0x1000" "0x4000000" ?g 4 "0x80000010"] s r
    by (auto simp del: replicate.simps)
  then show ?thesis
    using s by (intro exI [of _ libs] exI [of _ ?g] exI [of _ ?t]) simp
qed

text \<open>
  The memory command. On every reachable machine it answers the filler \<open>cd\<close> for each byte,
  whatever the address, also inside the RAM, because the test of the address always fails.
\<close>

theorem gdb_read_memory:
  assumes "reachable libs xlen pc ramSize (gdb_system g)" "ramSize \<le> 0x80000000"
    and "0 < sz" "unat addr + unat sz \<le> 2 ^ 64"
  shows "GdbCommand_Process libs (GdbCommandReadMemory addr sz) g =
    Some (Inr (concat (replicate (unat sz) ''cd''), g))"
  using no_valid_memory [OF reachable_inv [OF assms(1)] assms(2-4)]
  by (simp add: zoomM_def queryM_def ReadMemory_Process_def Emulator_IsValidMemory_def)

theorem gdb_read_memory_witness:
  "\<exists>libs g. reachable libs XLEN64 0x1000 0x4000000 (gdb_system g) \<and>
    GdbCommand_Process libs (GdbCommandReadMemory 0x80000000 3) g = Some (Inr (''cdcdcd'', g))"
proof -
  obtain libs s where s: "reachable libs XLEN64 0x1000 0x4000000 s" using reachable_exists by blast
  let ?g = "\<lparr>gdb_emulator = \<lparr>emu_m_System = s, emu_m_Cycle = 0\<rparr>, gdb_data = \<lparr>gdb_m_MemoryValues = Map.empty\<rparr>\<rparr>"
  have "GdbCommand_Process libs (GdbCommandReadMemory 0x80000000 3) ?g =
      Some (Inr (concat (replicate (unat (3 :: u64)) ''cd''), ?g))"
    by (rule gdb_read_memory [where xlen = XLEN64 and pc = "0x1000" and ramSize = "0x4000000"]) (use s in simp_all)
  moreover have "concat (replicate (unat (3 :: u64)) ''cd'') = ''cdcdcd''" by code_simp
  ultimately show ?thesis using s by (intro exI [of _ libs] exI [of _ ?g]) simp
qed

end
