(* ===== verification/Rafi_Gdb_Run_Ok.thy ===== *)
theory Rafi_Gdb_Run_Ok
  imports Rafi_Gdb_Ok Rafi_Run_Ok
begin

text \<open>
  The debugger with the running machine: what the instruction that a breakpoint puts into the
  memory does, and where \<open>continue\<close> and \<open>step\<close> leave the machine.
\<close>

section \<open>The breakpoint instruction\<close>

lemma decode_ebreak: "Decode XLEN64 BreakInsn = Inr (Op RV64I (OpI i_ebreak) OperandNone)"
  by code_simp

lemma break_not_compressed: "\<not> IsCompressedInstruction BreakInsn"
  by code_simp

lemma execute_ebreak:
  assumes "cpu_m_Decoder (sys_m_Processor s) = XLEN64"
  shows "execute_insn libs pc BreakInsn s =
    raise_trap (MakeBreakpointException pc) (put_cancel (put_pc (pc + 4) s))"
  using assms
  by (simp add: execute_insn_def bindM_getM decode_ebreak break_not_compressed PreCheckTrap_def
      PreCheckTrap_opcode_def ProcessOp_def ProcessRV64I_def ProcessRV64I_Priv_def PostCheckTrap_def
      bindM_assoc eval_set_pc eval_cancel)

text \<open>The breakpoint exception, seen from the loop of the emulator.\<close>

lemma raise_breakpoint:
  assumes "sys_inv XLEN64 ramSize s" "csr_inv (sys_csr s)"
  shows "\<exists>t. raise_trap (MakeBreakpointException pc) s = Inr ((), t) \<and>
    IsStopConditionFilledPost EmulationStop_Breakpoint t \<and>
    trap_taken False 3 pc pc (deleg_target (csr_m_MachineExceptionDelegation (sys_csr s))
      (csr_m_SupervisorExceptionDelegation (sys_csr s)) 3) (sys_csr s) (sys_csr t)"
proof -
  let ?trap = "MakeBreakpointException pc" and ?p = "cpu_m_TrapProcessor (sys_m_Processor s)"
  have "trap_m_XLEN ?p = csr_m_XLEN (sys_csr s)"
    using assms(1) by (simp add: sys_inv_def csr_wf_def)
  from ProcessException_event [OF assms(2) this, of ?trap] obtain csr' p' where
    "ProcessException ?trap (sys_csr s, ?p) = Inr ((), (csr', p'))"
    "trap_m_TrapEventValid p'" "te_trapType (trap_m_TrapEvent p') = Exception"
    "te_trapCause (trap_m_TrapEvent p') = 3"
    "trap_taken False 3 pc pc (deleg_target (csr_m_MachineExceptionDelegation (sys_csr s))
      (csr_m_SupervisorExceptionDelegation (sys_csr s)) 3) (sys_csr s) csr'"
    by (auto simp: MakeBreakpointException_def mk_Trap_def ExceptionType_value_def)
  then show ?thesis
    by (simp add: on_TrapProcessor_def zoomM_def IsStopConditionFilledPost_def
        EmulationStop_Breakpoint_def System_IsTrapEventExist_def System_CopyTrapEvent_def
        ExceptionType_value_def Processor_IsTrapEventExist_def Processor_CopyTrapEvent_def Let_def)
qed


text \<open>A cycle at a breakpoint: the exception, with the registers and the memory as they were.\<close>

lemma cycle_breakpoint:
  assumes "sys_inv XLEN64 ramSize s" "quiet_data s"
    and "mem_read 4 (isa_pc (isa_of s)) (memory_of ramSize s) = Some (break_point_insn 4)"
  shows "\<exists>t level. System_ProcessCycle libs s = Inr ((), t) \<and>
    IsStopConditionFilledPost EmulationStop_Breakpoint t \<and>
    isa_x (isa_of t) = isa_x (isa_of s) \<and> memory_of ramSize t = memory_of ramSize s \<and>
    csr_m_PrivilegeLevel (sys_csr t) = level \<and> level_epc level (sys_csr t) = isa_pc (isa_of s) \<and>
    level_cause level (sys_csr t) = cause_word XLEN64 False 3"
proof -
  let ?pc = "isa_pc (isa_of s)"
  have f: "in_ram ramSize ?pc 4" "le_value (ram_bytes 4 ?pc s) = BreakInsn"
    using assms(3) by (auto simp: mem_read_memory break_point_insn_def split: if_splits)
  have q: "quiet s" using assms(2) by (simp add: quiet_data_def)
  obtain u where u: "unseen s u" "sys_inv XLEN64 ramSize u"
      "System_ProcessCycle libs s = execute_insn libs ?pc BreakInsn u"
    using cycle_executes [OF assms(1) q refl f break_not_compressed] by blast
  let ?v = "put_cancel (put_pc (?pc + 4) u)"
  have v: "sys_inv XLEN64 ramSize ?v" "memory_of ramSize ?v = memory_of ramSize u"
      "isa_x (isa_of ?v) = isa_x (isa_of u)" "quiet u"
    using u(2) unseen_quiet [OF u(1) q]
    by (simp_all add: sys_inv_def put_cancel_def put_pc_def memory_of_def Csr_SetProgramCounter_def
        isa_of_def xreg_def fun_eq_iff)
  have inv: "csr_inv (sys_csr ?v)"
    using v(1) v(4) by (auto simp: sys_inv_def csr_inv_wf csr_wf_def quiet_def put_cancel_def put_pc_def
        Csr_SetProgramCounter_def)
  obtain t where t: "raise_trap (MakeBreakpointException ?pc) ?v = Inr ((), t)"
      "IsStopConditionFilledPost EmulationStop_Breakpoint t"
      "trap_taken False 3 ?pc ?pc (deleg_target (csr_m_MachineExceptionDelegation (sys_csr ?v))
        (csr_m_SupervisorExceptionDelegation (sys_csr ?v)) 3) (sys_csr ?v) (sys_csr t)"
    using raise_breakpoint [OF v(1) inv, of ?pc] by blast
  have "System_ProcessCycle libs s = Inr ((), t)"
    using u(2,3) t(1) by (simp add: execute_ebreak sys_inv_def)
  moreover have "isa_x (isa_of t) = isa_x (isa_of ?v)" "memory_of ramSize t = memory_of ramSize ?v"
    using t(1) by (auto simp: on_TrapProcessor_def zoomM_eq_Inr isa_of_def xreg_def memory_of_def fun_eq_iff
        put_cancel_def put_pc_def Csr_SetProgramCounter_def)
  moreover have "csr_m_XLEN (sys_csr ?v) = XLEN64" using v(1) by (simp add: sys_inv_def csr_wf_def)
  ultimately show ?thesis
    using t(2,3) v(2,3) u(1) memory_same_view
    by (auto simp: trap_taken_def unseen_def)
qed

text \<open>
  C11: \<open>continue\<close> up to a breakpoint. When the abstract RV64IM machine runs the program in the RAM for
  \<open>n\<close> steps and is then at an instruction that a breakpoint has replaced, the command answers
  \<open>S05\<close>, the machine has exactly the registers and the memory of the abstract machine at the
  breakpoint, the exception program counter and the cause of the privilege level that takes the trap
  are the address of the breakpoint and the cause 3, and the saved values are unchanged.
\<close>

theorem gdb_continue_to_break_point:
  assumes "sys_inv XLEN64 ramSize (gdb_system g)" "quiet_data (gdb_system g)" "multiplies libs"
    and "mrun P (misa_of ramSize (gdb_system g)) n m"
    and "mem_read 4 (isa_pc (misa_core m)) (misa_mem m) = Some (break_point_insn 4)"
    and "sint (emu_m_Cycle (gdb_emulator g)) + int n < 2 ^ 31"
  shows "\<exists>t level. GdbCommand_Process libs GdbCommandContinue g = Some (Inr (''S05'', t)) \<and>
    isa_x (isa_of (gdb_system t)) = isa_x (misa_core m) \<and>
    memory_of ramSize (gdb_system t) = misa_mem m \<and>
    csr_m_PrivilegeLevel (sys_csr (gdb_system t)) = level \<and>
    level_epc level (sys_csr (gdb_system t)) = isa_pc (misa_core m) \<and>
    level_cause level (sys_csr (gdb_system t)) = cause_word XLEN64 False 3 \<and>
    gdb_data t = gdb_data g"
proof -
  let ?e = "gdb_emulator g"
  obtain s where s: "cycles_on libs (\<lambda>u. P (misa_of ramSize u) \<and> same_mode (emu_m_System ?e) u \<and>
        sys_inv XLEN64 ramSize u) n (emu_m_System ?e) s"
      "undisturbed libs EmulationStop_Breakpoint n (emu_m_System ?e)"
      "misa_of ramSize s = m" "same_mode (emu_m_System ?e) s" "sys_inv XLEN64 ramSize s"
    using run_mrun [OF assms(4) refl assms(1-3)] by blast
  obtain e where e: "emu_m_System e = s" "Emulator_Process libs EmulationStop_Breakpoint CycleForever ?e =
      Emulator_Process libs EmulationStop_Breakpoint CycleForever e"
    using Process_undisturbed [OF s(2), of CycleForever] assms(6) cycles_on_cycles [OF s(1)] by force
  have m: "isa_of s = misa_core m" "memory_of ramSize s = misa_mem m"
    using s(3) by (auto simp: misa_of_def)
  obtain t level where t: "System_ProcessCycle libs s = Inr ((), t)"
      "IsStopConditionFilledPost EmulationStop_Breakpoint t"
      "isa_x (isa_of t) = isa_x (misa_core m)" "memory_of ramSize t = misa_mem m"
      "csr_m_PrivilegeLevel (sys_csr t) = level" "level_epc level (sys_csr t) = isa_pc (misa_core m)"
      "level_cause level (sys_csr t) = cause_word XLEN64 False 3"
    using cycle_breakpoint [OF s(5) same_mode_quiet [OF s(4) assms(2)]] assms(5) unfolding m by blast
  have "Emulator_Process libs EmulationStop_Breakpoint CycleForever e = Some (Inr (e\<lparr>emu_m_System := t\<rparr>))"
    using t(1,2) e(1) by (subst Emulator_Process.simps)
      (simp add: IsStopConditionFilledPre_def EmulationStop_Breakpoint_def EmulationStop_HostIo_def)
  with e(2) t(3-) show ?thesis
    by (intro exI [of _ "g\<lparr>gdb_emulator := e\<lparr>emu_m_System := t\<rparr>\<rparr>"] exI [of _ level])
       (simp add: Emulator_ProcessForever_def)
qed

theorem gdb_continue_to_break_point_witness:
  "\<exists>libs g t. reachable libs XLEN64 0x80000000 32 (gdb_system g) \<and>
    GdbCommand_Process libs GdbCommandContinue g = Some (Inr (''S05'', t)) \<and>
    isa_x (isa_of (gdb_system t)) 1 = 42"
proof -
  obtain libs and e :: Emulator where e: "reachable libs XLEN64 0x80000000 32 (emu_m_System e)" "emu_m_Cycle e = 0"
    "sys_inv XLEN64 32 (emu_m_System e)" "quiet_data (emu_m_System e)" "multiplies libs"
    "misa_of 32 (emu_m_System e) = product_start"
    by (rule product_emulator)
  let ?g = "\<lparr>gdb_emulator = e, gdb_data = \<lparr>gdb_m_MemoryValues = Map.empty\<rparr>\<rparr>"
  have "mem_read 4 (isa_pc (misa_core product_end)) (misa_mem product_end) = Some (break_point_insn 4)"
    by (simp add: product_end_def mem_read_4 mem_write_def product_mem_def product_bytes_eq
        break_point_insn_def le_bytes_4 BreakInsn_def unsigned_minus_1_eq_mask mask_eq_exp_minus_1)
  moreover have "mrun (\<lambda>m. port_value 0x80000018 m = Some 0) (misa_of 32 (gdb_system ?g)) 5 product_end"
    using product_run e(6) by simp
  ultimately obtain t where "GdbCommand_Process libs GdbCommandContinue ?g = Some (Inr (''S05'', t))"
      "isa_x (isa_of (gdb_system t)) = isa_x (misa_core product_end)"
    using gdb_continue_to_break_point [where g = ?g and m = product_end and n = 5 and ramSize = 32 and libs = libs] e(2-5)
    by (simp del: GdbCommand_Process.simps) blast
  then show ?thesis using e(1) product_end_values by (intro exI [of _ libs] exI [of _ ?g] exI [of _ t]) simp
qed

end
