(* ===== verification/Rafi_Trace.thy ===== *)
theory Rafi_Trace
  imports Rafi_Bytes
begin

text \<open>
  The binary trace of \<^verbatim>\<open>src/librafi_trace/\<close>: the nodes of a cycle (\<^verbatim>\<open>include/rafi/trace/CycleTypes.h\<close>),
  the logger that lays them out (\<open>BinaryCycleLoggerImpl\<close>), the parser of a cycle (\<open>BinaryCycle\<close>) and
  the reader and the writer of cycles in memory. An enumeration in a node is its 32-bit value,
  which need not be an enumerator in a trace that was read. A pointer into a buffer is the part of
  the buffer from there on; reading past its end, or through a null pointer, is undefined.
\<close>

section \<open>Nodes\<close>

record NodeBasic =
  nb_cycle :: u32
  nb_xlen :: u32
  nb_pc :: u64

record NodeIo =
  ni_hostIo :: u32
  ni_reserved :: u32

record NodeOpEvent =
  no_insn :: u32
  no_priv :: u32

record NodeTrapEvent =
  nt_trapType :: u32
  nt_from :: u32
  nt_to :: u32
  nt_cause :: u32
  nt_trapValue :: u64

record NodeMemoryEvent =
  nm_accessType :: u32
  nm_size :: u32
  nm_value :: u64
  nm_vaddr :: u64
  nm_paddr :: u64

text \<open>The nodes a cycle logger takes: the overloads of \<open>Add\<close>. The arrays have 32 elements.\<close>

datatype node =
    NodeIntReg32 "u32 list"
  | NodeIntReg64 "u64 list"
  | NodeFpReg "u64 list"
  | Node_Io NodeIo
  | Node_OpEvent NodeOpEvent
  | Node_TrapEvent NodeTrapEvent
  | Node_MemoryEvent NodeMemoryEvent

definition NodeId_BA :: u16 where "NodeId_BA = 0x4142"
definition NodeId_BR :: u16 where "NodeId_BR = 0x5242"
definition NodeId_IN :: u16 where "NodeId_IN = 0x4e49"
definition NodeId_FP :: u16 where "NodeId_FP = 0x5046"
definition NodeId_IO :: u16 where "NodeId_IO = 0x4f49"
definition NodeId_OP :: u16 where "NodeId_OP = 0x504f"
definition NodeId_TR :: u16 where "NodeId_TR = 0x5254"
definition NodeId_MA :: u16 where "NodeId_MA = 0x414d"

text \<open>The bytes of the structures, which have no padding.\<close>

definition NodeHeader_bytes :: "u16 \<Rightarrow> u32 \<Rightarrow> u8 list" where
  "NodeHeader_bytes nodeId nodeSize = le_bytes 2 nodeId @ le_bytes 2 (0 :: u16) @ le_bytes 4 nodeSize"

definition NodeBasic_bytes :: "NodeBasic \<Rightarrow> u8 list" where
  "NodeBasic_bytes n = le_bytes 4 (nb_cycle n) @ le_bytes 4 (nb_xlen n) @ le_bytes 8 (nb_pc n)"

definition NodeIo_bytes :: "NodeIo \<Rightarrow> u8 list" where
  "NodeIo_bytes n = le_bytes 4 (ni_hostIo n) @ le_bytes 4 (ni_reserved n)"

definition NodeOpEvent_bytes :: "NodeOpEvent \<Rightarrow> u8 list" where
  "NodeOpEvent_bytes n = le_bytes 4 (no_insn n) @ le_bytes 4 (no_priv n)"

definition NodeTrapEvent_bytes :: "NodeTrapEvent \<Rightarrow> u8 list" where
  "NodeTrapEvent_bytes n = le_bytes 4 (nt_trapType n) @ le_bytes 4 (nt_from n) @
     le_bytes 4 (nt_to n) @ le_bytes 4 (nt_cause n) @ le_bytes 8 (nt_trapValue n)"

definition NodeMemoryEvent_bytes :: "NodeMemoryEvent \<Rightarrow> u8 list" where
  "NodeMemoryEvent_bytes n = le_bytes 4 (nm_accessType n) @ le_bytes 4 (nm_size n) @
     le_bytes 8 (nm_value n) @ le_bytes 8 (nm_vaddr n) @ le_bytes 8 (nm_paddr n)"

section \<open>The logger of a cycle\<close>

definition DefaultBufferSize :: nat where "DefaultBufferSize = 4096"

text \<open>The logger is the part of its buffer that is filled.\<close>

type_synonym BinaryCycleLogger = "u8 list"

definition Logger_AddData :: "u16 \<Rightarrow> u8 list \<Rightarrow> BinaryCycleLogger \<Rightarrow> BinaryCycleLogger result" where
  "Logger_AddData nodeId node logger =
    (if length logger + 8 + length node > DefaultBufferSize then Inl TraceException
     else if length node > 0xffffffff then Inl TraceException
     else Inr (logger @ NodeHeader_bytes nodeId (of_nat (length node)) @ node))"

primrec Logger_Add :: "node \<Rightarrow> BinaryCycleLogger \<Rightarrow> BinaryCycleLogger result" where
  "Logger_Add (NodeIntReg32 regs) = Logger_AddData NodeId_IN (concat (map (le_bytes 4) regs))"
| "Logger_Add (NodeIntReg64 regs) = Logger_AddData NodeId_IN (concat (map (le_bytes 8) regs))"
| "Logger_Add (NodeFpReg regs) = Logger_AddData NodeId_FP (concat (map (le_bytes 8) regs))"
| "Logger_Add (Node_Io n) = Logger_AddData NodeId_IO (NodeIo_bytes n)"
| "Logger_Add (Node_OpEvent n) = Logger_AddData NodeId_OP (NodeOpEvent_bytes n)"
| "Logger_Add (Node_TrapEvent n) = Logger_AddData NodeId_TR (NodeTrapEvent_bytes n)"
| "Logger_Add (Node_MemoryEvent n) = Logger_AddData NodeId_MA (NodeMemoryEvent_bytes n)"

definition BinaryCycleLogger_new :: "u32 \<Rightarrow> XLEN \<Rightarrow> u64 \<Rightarrow> BinaryCycleLogger result" where
  "BinaryCycleLogger_new cycle xlen pc = Logger_AddData NodeId_BA
     (NodeBasic_bytes \<lparr>nb_cycle = cycle, nb_xlen = XLEN_value xlen, nb_pc = pc\<rparr>) []"

definition Logger_Break :: "BinaryCycleLogger \<Rightarrow> BinaryCycleLogger result" where
  "Logger_Break = Logger_AddData NodeId_BR []"

section \<open>The parser of a cycle\<close>

type_synonym pointer = "u8 list"

definition peek :: "nat \<Rightarrow> nat \<Rightarrow> pointer \<Rightarrow> 'a::len word result" where
  "peek n offset p = (if offset + n \<le> length p then Inr (le_value (take n (drop offset p)))
     else Inl Undefined)"

definition deref :: "pointer option \<Rightarrow> (pointer \<Rightarrow> 'a result) \<Rightarrow> 'a result" where
  "deref p f = (case p of None \<Rightarrow> Inl Undefined | Some b \<Rightarrow> f b)"

record BinaryCycle =
  bc_m_Size :: nat
  bc_m_pNodeBasic :: "pointer option"
  bc_m_pNodeIntReg32 :: "pointer option"
  bc_m_pNodeIntReg64 :: "pointer option"
  bc_m_pNodeFpReg :: "pointer option"
  bc_m_pNodeIo :: "pointer option"
  bc_m_OpEvents :: "pointer list"
  bc_m_MemoryEvents :: "pointer list"
  bc_m_TrapEvents :: "pointer list"
  bc_m_Break :: bool

definition BinaryCycle_new :: BinaryCycle where
  "BinaryCycle_new = \<lparr>bc_m_Size = 0, bc_m_pNodeBasic = None, bc_m_pNodeIntReg32 = None,
     bc_m_pNodeIntReg64 = None, bc_m_pNodeFpReg = None, bc_m_pNodeIo = None, bc_m_OpEvents = [],
     bc_m_MemoryEvents = [], bc_m_TrapEvents = [], bc_m_Break = False\<rparr>"

text \<open>The \<open>switch\<close> of \<open>ParseNode\<close>; \<open>p\<close> points behind the header.\<close>

definition ParseNode_id :: "u16 \<Rightarrow> pointer \<Rightarrow> BinaryCycle \<Rightarrow> BinaryCycle result" where
  "ParseNode_id nodeId p c =
    (if nodeId = NodeId_BA then Inr (c\<lparr>bc_m_pNodeBasic := Some p\<rparr>)
     else if nodeId = NodeId_BR then Inr (c\<lparr>bc_m_Break := True\<rparr>)
     else if nodeId = NodeId_FP then Inr (c\<lparr>bc_m_pNodeFpReg := Some p\<rparr>)
     else if nodeId = NodeId_IN then
       (case bc_m_pNodeBasic c of
          None \<Rightarrow> Inl TraceException
        | Some basic \<Rightarrow> (case peek 4 4 basic of
            Inl e \<Rightarrow> Inl e
          | Inr xlen \<Rightarrow>
              if (xlen :: u32) = XLEN_value XLEN32 then Inr (c\<lparr>bc_m_pNodeIntReg32 := Some p\<rparr>)
              else if xlen = XLEN_value XLEN64 then Inr (c\<lparr>bc_m_pNodeIntReg64 := Some p\<rparr>)
              else Inl ProcessExit))
     else if nodeId = NodeId_IO then Inr (c\<lparr>bc_m_pNodeIo := Some p\<rparr>)
     else if nodeId = NodeId_MA then Inr (c\<lparr>bc_m_MemoryEvents := bc_m_MemoryEvents c @ [p]\<rparr>)
     else if nodeId = NodeId_OP then Inr (c\<lparr>bc_m_OpEvents := bc_m_OpEvents c @ [p]\<rparr>)
     else if nodeId = NodeId_TR then Inr (c\<lparr>bc_m_TrapEvents := bc_m_TrapEvents c @ [p]\<rparr>)
     else Inl TraceException)"

definition ParseNode :: "u8 list \<Rightarrow> BinaryCycle \<Rightarrow> (nat \<times> BinaryCycle) result" where
  "ParseNode buffer c =
    (if length buffer < 8 then Inl TraceException
     else
       let nodeId = le_value (take 2 buffer) :: u16;
           sz = 8 + unat (le_value (take 4 (drop 4 buffer)) :: u32) in
       if length buffer < sz then Inl TraceException
       else map_sum id (Pair sz) (ParseNode_id nodeId (drop 8 buffer) c))"

lemma ParseNode_size: "ParseNode buffer c = Inr (sz, c') \<Longrightarrow> 8 \<le> sz \<and> sz \<le> length buffer"
  by (cases "ParseNode_id (le_value (take 2 buffer)) (drop 8 buffer) c")
     (auto simp: ParseNode_def Let_def split: if_splits)

function Parse_loop :: "u8 list \<Rightarrow> BinaryCycle \<Rightarrow> BinaryCycle result" where
  "Parse_loop buffer c =
    (if bc_m_Break c then Inr c
     else (case ParseNode buffer c of
         Inl e \<Rightarrow> Inl e
       | Inr (sz, c') \<Rightarrow> Parse_loop (drop sz buffer) (c'\<lparr>bc_m_Size := bc_m_Size c' + sz\<rparr>)))"
  by pat_completeness auto

termination
  by (relation "measure (\<lambda>(buffer, c). length buffer)") (fastforce dest: ParseNode_size)+

declare Parse_loop.simps [simp del]

definition BinaryCycle_Parse :: "u8 list \<Rightarrow> BinaryCycle result" where
  "BinaryCycle_Parse buffer = Parse_loop buffer BinaryCycle_new"

section \<open>What a parsed cycle answers\<close>

definition BinaryCycle_GetCycle :: "BinaryCycle \<Rightarrow> u32 result" where
  "BinaryCycle_GetCycle c = deref (bc_m_pNodeBasic c) (peek 4 0)"

definition BinaryCycle_GetXLEN :: "BinaryCycle \<Rightarrow> u32 result" where
  "BinaryCycle_GetXLEN c = deref (bc_m_pNodeBasic c) (peek 4 4)"

definition BinaryCycle_GetPc :: "BinaryCycle \<Rightarrow> u64 result" where
  "BinaryCycle_GetPc c = deref (bc_m_pNodeBasic c) (peek 8 8)"

definition BinaryCycle_IsIntRegExist :: "BinaryCycle \<Rightarrow> bool" where
  "BinaryCycle_IsIntRegExist c \<longleftrightarrow> bc_m_pNodeIntReg32 c \<noteq> None \<or> bc_m_pNodeIntReg64 c \<noteq> None"

definition BinaryCycle_IsFpRegExist :: "BinaryCycle \<Rightarrow> bool" where
  "BinaryCycle_IsFpRegExist c \<longleftrightarrow> bc_m_pNodeFpReg c \<noteq> None"

definition BinaryCycle_IsIoExist :: "BinaryCycle \<Rightarrow> bool" where
  "BinaryCycle_IsIoExist c \<longleftrightarrow> bc_m_pNodeIo c \<noteq> None"

definition BinaryCycle_GetOpEventCount :: "BinaryCycle \<Rightarrow> nat" where
  "BinaryCycle_GetOpEventCount c = length (bc_m_OpEvents c)"

definition BinaryCycle_GetMemoryEventCount :: "BinaryCycle \<Rightarrow> nat" where
  "BinaryCycle_GetMemoryEventCount c = length (bc_m_MemoryEvents c)"

definition BinaryCycle_GetTrapEventCount :: "BinaryCycle \<Rightarrow> nat" where
  "BinaryCycle_GetTrapEventCount c = length (bc_m_TrapEvents c)"

text \<open>An index past the end of a register array or of a vector of events is undefined.\<close>

definition reg_at :: "nat \<Rightarrow> nat \<Rightarrow> pointer \<Rightarrow> 'a::len word result" where
  "reg_at n i p = (if i < 32 then peek n (n * i) p else Inl Undefined)"

definition BinaryCycle_GetIntReg :: "nat \<Rightarrow> BinaryCycle \<Rightarrow> u64 result" where
  "BinaryCycle_GetIntReg i c = (case bc_m_pNodeIntReg32 c of
     Some p \<Rightarrow> map_sum id ucast (reg_at 4 i p :: u32 result)
   | None \<Rightarrow> (case bc_m_pNodeIntReg64 c of
       Some p \<Rightarrow> reg_at 8 i p
     | None \<Rightarrow> Inl ProcessExit))"

definition BinaryCycle_GetFpReg :: "nat \<Rightarrow> BinaryCycle \<Rightarrow> u64 result" where
  "BinaryCycle_GetFpReg i c = deref (bc_m_pNodeFpReg c) (reg_at 8 i)"

text \<open>Fields read one after the other.\<close>

definition with_field :: "nat \<Rightarrow> nat \<Rightarrow> pointer \<Rightarrow> ('a::len word \<Rightarrow> 'b result) \<Rightarrow> 'b result" where
  "with_field n offset p f = (case peek n offset p of Inl e \<Rightarrow> Inl e | Inr v \<Rightarrow> f v)"

definition BinaryCycle_CopyIo :: "BinaryCycle \<Rightarrow> NodeIo result" where
  "BinaryCycle_CopyIo c = deref (bc_m_pNodeIo c) (\<lambda>p.
     with_field 4 0 p (\<lambda>hostIo. with_field 4 4 p (\<lambda>reserved.
     Inr \<lparr>ni_hostIo = hostIo, ni_reserved = reserved\<rparr>)))"

definition event_at :: "pointer list \<Rightarrow> nat \<Rightarrow> pointer option" where
  "event_at events i = (if i < length events then Some (events ! i) else None)"

definition BinaryCycle_CopyOpEvent :: "nat \<Rightarrow> BinaryCycle \<Rightarrow> NodeOpEvent result" where
  "BinaryCycle_CopyOpEvent i c = deref (event_at (bc_m_OpEvents c) i) (\<lambda>p.
     with_field 4 0 p (\<lambda>insn. with_field 4 4 p (\<lambda>priv.
     Inr \<lparr>no_insn = insn, no_priv = priv\<rparr>)))"

definition BinaryCycle_CopyMemoryEvent :: "nat \<Rightarrow> BinaryCycle \<Rightarrow> NodeMemoryEvent result" where
  "BinaryCycle_CopyMemoryEvent i c = deref (event_at (bc_m_MemoryEvents c) i) (\<lambda>p.
     with_field 4 0 p (\<lambda>accessType. with_field 4 4 p (\<lambda>sz. with_field 8 8 p (\<lambda>value.
     with_field 8 16 p (\<lambda>vaddr. with_field 8 24 p (\<lambda>paddr.
     Inr \<lparr>nm_accessType = accessType, nm_size = sz, nm_value = value, nm_vaddr = vaddr,
       nm_paddr = paddr\<rparr>))))))"

definition BinaryCycle_CopyTrapEvent :: "nat \<Rightarrow> BinaryCycle \<Rightarrow> NodeTrapEvent result" where
  "BinaryCycle_CopyTrapEvent i c = deref (event_at (bc_m_TrapEvents c) i) (\<lambda>p.
     with_field 4 0 p (\<lambda>trapType. with_field 4 4 p (\<lambda>from. with_field 4 8 p (\<lambda>to.
     with_field 4 12 p (\<lambda>cause. with_field 8 16 p (\<lambda>trapValue.
     Inr \<lparr>nt_trapType = trapType, nt_from = from, nt_to = to, nt_cause = cause,
       nt_trapValue = trapValue\<rparr>))))))"

definition BinaryCycle_GetSize :: "BinaryCycle \<Rightarrow> nat" where
  "BinaryCycle_GetSize c = bc_m_Size c"

section \<open>Traces in memory\<close>

text \<open>\<open>m_pBuffer\<close> is a buffer of \<open>m_BufferSize\<close> bytes.\<close>

record TraceBinaryMemoryWriter =
  tmw_m_pBuffer :: "u8 list"
  tmw_m_CurrentOffset :: u64

definition MemoryWriter_new :: "u8 list \<Rightarrow> TraceBinaryMemoryWriter" where
  "MemoryWriter_new buffer = \<lparr>tmw_m_pBuffer = buffer, tmw_m_CurrentOffset = 0\<rparr>"

text \<open>
  The sizes are \<open>int64_t\<close>; \<open>size < SIZE_MAX\<close> compares in \<open>size_t\<close>. The source has the \<open>size\<close> bytes
  of \<open>data\<close>.
\<close>

definition MemoryWriter_Write ::
  "u8 list \<Rightarrow> TraceBinaryMemoryWriter \<Rightarrow> TraceBinaryMemoryWriter result" where
  "MemoryWriter_Write data w =
    (let sz = of_nat (length data) :: u64; bufferSize = of_nat (length (tmw_m_pBuffer w)) :: u64;
         offset = unat (tmw_m_CurrentOffset w) in
     if bufferSize <s tmw_m_CurrentOffset w + sz then Inl TraceException
     else if \<not> (0 \<le>s sz \<and> sz < 0xffffffffffffffff) then Inl TraceException
     else if length (tmw_m_pBuffer w) < offset + length data then Inl Undefined
     else Inr \<lparr>tmw_m_pBuffer = take offset (tmw_m_pBuffer w) @ data @
           drop (offset + length data) (tmw_m_pBuffer w),
         tmw_m_CurrentOffset = tmw_m_CurrentOffset w + sz\<rparr>)"

record TraceBinaryMemoryReader =
  tmr_m_pBuffer :: "u8 list"
  tmr_m_Offset :: nat
  tmr_m_pCycle :: "BinaryCycle option"

definition MemoryReader_new :: "u8 list \<Rightarrow> TraceBinaryMemoryReader result" where
  "MemoryReader_new buffer =
    (if length buffer < 8 then Inl TraceException
     else map_sum id (\<lambda>c. \<lparr>tmr_m_pBuffer = buffer, tmr_m_Offset = 0, tmr_m_pCycle = Some c\<rparr>)
       (BinaryCycle_Parse buffer))"

definition MemoryReader_GetCycle :: "TraceBinaryMemoryReader \<Rightarrow> BinaryCycle option" where
  "MemoryReader_GetCycle r = tmr_m_pCycle r"

definition MemoryReader_IsEnd :: "TraceBinaryMemoryReader \<Rightarrow> bool" where
  "MemoryReader_IsEnd r \<longleftrightarrow> tmr_m_Offset r = length (tmr_m_pBuffer r)"

text \<open>\<open>Next\<close> asks the current cycle for its size; behind the last cycle there is none.\<close>

definition MemoryReader_Next :: "TraceBinaryMemoryReader \<Rightarrow> TraceBinaryMemoryReader result" where
  "MemoryReader_Next r = (case tmr_m_pCycle r of
     None \<Rightarrow> Inl Undefined
   | Some c \<Rightarrow>
       let offset = tmr_m_Offset r + BinaryCycle_GetSize c in
       if \<not> offset \<le> length (tmr_m_pBuffer r) then Inl TraceException
       else if offset \<noteq> length (tmr_m_pBuffer r) then
         map_sum id (\<lambda>c. r\<lparr>tmr_m_Offset := offset, tmr_m_pCycle := Some c\<rparr>)
           (BinaryCycle_Parse (drop offset (tmr_m_pBuffer r)))
       else Inr (r\<lparr>tmr_m_Offset := offset, tmr_m_pCycle := None\<rparr>))"

end
