(* ===== verification/Rafi_Trace_Ok.thy ===== *)
theory Rafi_Trace_Ok
  imports Rafi_Trace
begin

text \<open>
  The binary trace: a cycle that was logged is parsed back, field by field, and a trace in memory is
  read back cycle by cycle.
\<close>

section \<open>The bytes of a cycle\<close>

primrec node_id :: "node \<Rightarrow> u16" where
  "node_id (NodeIntReg32 regs) = NodeId_IN"
| "node_id (NodeIntReg64 regs) = NodeId_IN"
| "node_id (NodeFpReg regs) = NodeId_FP"
| "node_id (Node_Io n) = NodeId_IO"
| "node_id (Node_OpEvent n) = NodeId_OP"
| "node_id (Node_TrapEvent n) = NodeId_TR"
| "node_id (Node_MemoryEvent n) = NodeId_MA"

primrec node_bytes :: "node \<Rightarrow> u8 list" where
  "node_bytes (NodeIntReg32 regs) = concat (map (le_bytes 4) regs)"
| "node_bytes (NodeIntReg64 regs) = concat (map (le_bytes 8) regs)"
| "node_bytes (NodeFpReg regs) = concat (map (le_bytes 8) regs)"
| "node_bytes (Node_Io n) = NodeIo_bytes n"
| "node_bytes (Node_OpEvent n) = NodeOpEvent_bytes n"
| "node_bytes (Node_TrapEvent n) = NodeTrapEvent_bytes n"
| "node_bytes (Node_MemoryEvent n) = NodeMemoryEvent_bytes n"

lemma Logger_Add_node: "Logger_Add n = Logger_AddData (node_id n) (node_bytes n)"
  by (cases n) simp_all

text \<open>A header with its node, as \<open>AddData\<close> appends them.\<close>

definition chunk :: "u16 \<Rightarrow> u8 list \<Rightarrow> u8 list" where
  "chunk nodeId node = NodeHeader_bytes nodeId (of_nat (length node)) @ node"

lemma AddData_chunk: "Logger_AddData nodeId node b = Inr b' \<Longrightarrow> b' = b @ chunk nodeId node \<and> length b' \<le> DefaultBufferSize"
  by (auto simp: Logger_AddData_def chunk_def NodeHeader_bytes_def split: if_splits)

primrec Logger_AddAll :: "node list \<Rightarrow> BinaryCycleLogger \<Rightarrow> BinaryCycleLogger result" where
  "Logger_AddAll [] logger = Inr logger"
| "Logger_AddAll (n # ns) logger = (case Logger_Add n logger of
     Inl e \<Rightarrow> Inl e | Inr logger' \<Rightarrow> Logger_AddAll ns logger')"

text \<open>A whole cycle: the constructor, the nodes, the break.\<close>

definition log_cycle :: "u32 \<Rightarrow> XLEN \<Rightarrow> u64 \<Rightarrow> node list \<Rightarrow> u8 list result" where
  "log_cycle cycle xlen pc nodes = (case BinaryCycleLogger_new cycle xlen pc of
     Inl e \<Rightarrow> Inl e
   | Inr logger \<Rightarrow> (case Logger_AddAll nodes logger of
       Inl e \<Rightarrow> Inl e | Inr logger \<Rightarrow> Logger_Break logger))"

definition basic_bytes :: "u32 \<Rightarrow> XLEN \<Rightarrow> u64 \<Rightarrow> u8 list" where
  "basic_bytes cycle xlen pc =
     NodeBasic_bytes \<lparr>nb_cycle = cycle, nb_xlen = XLEN_value xlen, nb_pc = pc\<rparr>"

definition cycle_bytes :: "u32 \<Rightarrow> XLEN \<Rightarrow> u64 \<Rightarrow> node list \<Rightarrow> u8 list" where
  "cycle_bytes cycle xlen pc nodes = chunk NodeId_BA (basic_bytes cycle xlen pc) @
     concat (map (\<lambda>n. chunk (node_id n) (node_bytes n)) nodes) @ chunk NodeId_BR []"

lemma AddAll_chunks:
  "Logger_AddAll ns b = Inr b' \<Longrightarrow> b' = b @ concat (map (\<lambda>n. chunk (node_id n) (node_bytes n)) ns)"
proof (induction ns arbitrary: b)
  case (Cons n ns)
  then obtain b1 where b1: "Logger_Add n b = Inr b1" "Logger_AddAll ns b1 = Inr b'"
    by (auto split: sum.splits)
  with Cons.IH [OF b1(2)] AddData_chunk [OF b1(1) [unfolded Logger_Add_node]] show ?case by simp
qed simp

lemma log_cycle_bytes:
  assumes "log_cycle cycle xlen pc nodes = Inr bs"
  shows "bs = cycle_bytes cycle xlen pc nodes" "length bs \<le> DefaultBufferSize"
  using assms
  by (auto simp: log_cycle_def BinaryCycleLogger_new_def Logger_Break_def cycle_bytes_def basic_bytes_def
      split: sum.splits dest!: AddData_chunk AddAll_chunks)

text \<open>How many bytes a cycle takes, and that it is logged when they fit.\<close>

lemma length_chunk [simp]: "length (chunk i node) = 8 + length node"
  by (simp add: chunk_def NodeHeader_bytes_def)

lemma AddData_fits:
  "length b + 8 + length node \<le> DefaultBufferSize \<Longrightarrow> Logger_AddData i node b = Inr (b @ chunk i node)"
  by (simp add: Logger_AddData_def chunk_def DefaultBufferSize_def)

lemma AddAll_fits:
  "length b + length (concat (map (\<lambda>n. chunk (node_id n) (node_bytes n)) ns)) \<le> DefaultBufferSize \<Longrightarrow>
   Logger_AddAll ns b = Inr (b @ concat (map (\<lambda>n. chunk (node_id n) (node_bytes n)) ns))"
  by (induction ns arbitrary: b) (simp_all add: Logger_Add_node AddData_fits)

lemma log_cycle_fits:
  assumes "length (cycle_bytes cycle xlen pc nodes) \<le> DefaultBufferSize"
  shows "log_cycle cycle xlen pc nodes = Inr (cycle_bytes cycle xlen pc nodes)"
  using assms
  by (simp add: log_cycle_def BinaryCycleLogger_new_def Logger_Break_def cycle_bytes_def
      basic_bytes_def [symmetric] AddData_fits AddAll_fits)

text \<open>There is no other error than the buffer being full.\<close>

lemma AddData_error: "Logger_AddData i node b = Inl e \<Longrightarrow> e = TraceException"
  by (auto simp: Logger_AddData_def split: if_splits)

lemma AddAll_error: "Logger_AddAll ns b = Inl e \<Longrightarrow> e = TraceException"
  by (induction ns arbitrary: b) (auto simp: Logger_Add_node dest: AddData_error split: sum.splits)

lemma trace_logger_bytes:
  "log_cycle cycle xlen pc nodes =
    (if length (cycle_bytes cycle xlen pc nodes) \<le> 4096 then Inr (cycle_bytes cycle xlen pc nodes)
     else Inl TraceException)"
proof (cases "log_cycle cycle xlen pc nodes")
  case (Inl e)
  then have "e = TraceException"
    by (auto simp: log_cycle_def BinaryCycleLogger_new_def Logger_Break_def
        dest: AddData_error AddAll_error split: sum.splits)
  then show ?thesis using Inl log_cycle_fits [of cycle xlen pc nodes] by (auto simp: DefaultBufferSize_def)
next
  case (Inr bytes)
  then show ?thesis using log_cycle_bytes [OF Inr] by (simp add: DefaultBufferSize_def)
qed

section \<open>Parsing\<close>

lemma ParseNode_chunk:
  assumes "length node < 2 ^ 32"
  shows "ParseNode (chunk nodeId node @ rest) c =
    map_sum id (Pair (8 + length node)) (ParseNode_id nodeId (node @ rest) c)"
proof -
  have "unat (of_nat (length node) :: u32) = length node"
    using assms by (simp add: unat_of_nat take_bit_nat_eq_self)
  then show ?thesis
    by (simp add: ParseNode_def chunk_def NodeHeader_bytes_def Let_def numeral_2_eq_2 [symmetric])
qed

lemma peek_here [simp]:
  "peek 4 0 (le_bytes 4 (v :: u32) @ p) = Inr v" "peek 8 0 (le_bytes 8 (w :: u64) @ p) = Inr w"
  by (simp_all add: peek_def)

lemma peek_skip [simp]: "length xs \<le> offset \<Longrightarrow> peek n offset (xs @ p) = peek n (offset - length xs) p"
  by (auto simp: peek_def)

lemma regs_split:
  fixes regs :: "'w::len word list"
  assumes "i < length regs"
  shows "concat (map (le_bytes n) regs) = concat (map (le_bytes n) (take i regs)) @ le_bytes n (regs ! i) @
      concat (map (le_bytes n) (drop (Suc i) regs))"
    and "length (concat (map (le_bytes n) (take i regs))) = n * i"
proof -
  show "concat (map (le_bytes n) regs) = concat (map (le_bytes n) (take i regs)) @ le_bytes n (regs ! i) @
      concat (map (le_bytes n) (drop (Suc i) regs))"
    using id_take_nth_drop [OF assms]
    by (metis (no_types, lifting) concat.simps(2) concat_append list.simps(9) map_append)
  show "length (concat (map (le_bytes n) (take i regs))) = n * i"
    using assms by (simp add: length_concat comp_def sum_list_triv min_def)
qed

lemma reg_at_regs:
  "i < 32 \<Longrightarrow> length regs = 32 \<Longrightarrow> reg_at 4 i (concat (map (le_bytes 4) regs) @ p) = Inr (regs ! i :: u32)"
  "i < 32 \<Longrightarrow> length qregs = 32 \<Longrightarrow> reg_at 8 i (concat (map (le_bytes 8) qregs) @ p) = Inr (qregs ! i :: u64)"
  using regs_split(1) [of i regs 4] regs_split(2) [of i regs 4] regs_split(1) [of i qregs 8]
    regs_split(2) [of i qregs 8]
  by (simp_all add: reg_at_def)

text \<open>The nodes of each kind. The width of the registers is that of the cycle.\<close>

definition int32s :: "node list \<Rightarrow> u32 list list" where
  "int32s ns = [regs. NodeIntReg32 regs \<leftarrow> ns]"

definition int64s :: "node list \<Rightarrow> u64 list list" where
  "int64s ns = [regs. NodeIntReg64 regs \<leftarrow> ns]"

definition fps :: "node list \<Rightarrow> u64 list list" where
  "fps ns = [regs. NodeFpReg regs \<leftarrow> ns]"

definition ios :: "node list \<Rightarrow> NodeIo list" where
  "ios ns = [n. Node_Io n \<leftarrow> ns]"

definition ops :: "node list \<Rightarrow> NodeOpEvent list" where
  "ops ns = [n. Node_OpEvent n \<leftarrow> ns]"

definition traps :: "node list \<Rightarrow> NodeTrapEvent list" where
  "traps ns = [n. Node_TrapEvent n \<leftarrow> ns]"

definition memories :: "node list \<Rightarrow> NodeMemoryEvent list" where
  "memories ns = [n. Node_MemoryEvent n \<leftarrow> ns]"

lemmas node_kinds = int32s_def int64s_def fps_def ios_def ops_def traps_def memories_def

definition node_ok :: "XLEN \<Rightarrow> node \<Rightarrow> bool" where
  "node_ok xlen n = (case n of
     NodeIntReg32 regs \<Rightarrow> xlen = XLEN32 \<and> length regs = 32
   | NodeIntReg64 regs \<Rightarrow> xlen = XLEN64 \<and> length regs = 32
   | NodeFpReg regs \<Rightarrow> length regs = 32
   | _ \<Rightarrow> True)"

definition points :: "u8 list \<Rightarrow> pointer \<Rightarrow> bool" where
  "points bs p \<longleftrightarrow> (\<exists>rest. p = bs @ rest)"

definition last_points :: "u8 list list \<Rightarrow> pointer option \<Rightarrow> bool" where
  "last_points nodes p \<longleftrightarrow> (case p of None \<Rightarrow> nodes = [] | Some p \<Rightarrow> nodes \<noteq> [] \<and> points (last nodes) p)"

lemma points_append [simp]: "points bs (bs @ rest)"
  by (auto simp: points_def)

lemma last_points_append [simp]: "last_points (nodes @ [bs]) (Some (bs @ rest))"
  by (simp add: last_points_def)

text \<open>What the parser holds after the nodes \<open>ns\<close>.\<close>

definition parsed :: "u32 \<Rightarrow> XLEN \<Rightarrow> u64 \<Rightarrow> node list \<Rightarrow> BinaryCycle \<Rightarrow> bool" where
  "parsed cycle xlen pc ns c \<longleftrightarrow>
     last_points [basic_bytes cycle xlen pc] (bc_m_pNodeBasic c) \<and>
     last_points (map (\<lambda>regs. concat (map (le_bytes 4) regs)) (int32s ns)) (bc_m_pNodeIntReg32 c) \<and>
     last_points (map (\<lambda>regs. concat (map (le_bytes 8) regs)) (int64s ns)) (bc_m_pNodeIntReg64 c) \<and>
     last_points (map (\<lambda>regs. concat (map (le_bytes 8) regs)) (fps ns)) (bc_m_pNodeFpReg c) \<and>
     last_points (map NodeIo_bytes (ios ns)) (bc_m_pNodeIo c) \<and>
     list_all2 points (map NodeOpEvent_bytes (ops ns)) (bc_m_OpEvents c) \<and>
     list_all2 points (map NodeTrapEvent_bytes (traps ns)) (bc_m_TrapEvents c) \<and>
     list_all2 points (map NodeMemoryEvent_bytes (memories ns)) (bc_m_MemoryEvents c)"

lemmas node_ids = NodeId_BA_def NodeId_BR_def NodeId_IN_def NodeId_FP_def NodeId_IO_def
  NodeId_OP_def NodeId_TR_def NodeId_MA_def

lemma basic_xlen:
  assumes "last_points [basic_bytes cycle xlen pc] p"
  shows "\<exists>b. p = Some b \<and> peek 4 0 b = Inr cycle \<and> peek 4 4 b = Inr (XLEN_value xlen) \<and> peek 8 8 b = Inr pc"
  using assms by (auto simp: last_points_def points_def basic_bytes_def NodeBasic_bytes_def split: option.splits)

lemma parse_one:
  assumes "parsed cycle xlen pc ns c" "node_ok xlen n"
  shows "\<exists>c'. ParseNode_id (node_id n) (node_bytes n @ rest) c = Inr c' \<and>
    parsed cycle xlen pc (ns @ [n]) c' \<and> bc_m_Break c' = bc_m_Break c \<and> bc_m_Size c' = bc_m_Size c"
proof -
  obtain b where b: "bc_m_pNodeBasic c = Some b" "peek 4 4 b = Inr (XLEN_value xlen)"
    using basic_xlen assms(1) unfolding parsed_def by blast
  show ?thesis
    using assms b
    by (cases n) (simp_all add: ParseNode_id_def node_ids node_ok_def parsed_def node_kinds XLEN_value_def
        list_all2_appendI)
qed

lemma node_small: "node_ok xlen n \<Longrightarrow> length (node_bytes n) < 2 ^ 32"
  by (cases n) (simp_all add: node_ok_def length_concat comp_def sum_list_triv NodeIo_bytes_def
      NodeOpEvent_bytes_def NodeTrapEvent_bytes_def NodeMemoryEvent_bytes_def)

lemma parsed_size [simp]: "parsed cycle xlen pc ns (c\<lparr>bc_m_Size := z\<rparr>) = parsed cycle xlen pc ns c"
  by (simp add: parsed_def)

lemma parsed_break [simp]: "parsed cycle xlen pc ns (c\<lparr>bc_m_Break := z\<rparr>) = parsed cycle xlen pc ns c"
  by (simp add: parsed_def)

definition chunks :: "node list \<Rightarrow> u8 list" where
  "chunks ns = concat (map (\<lambda>n. chunk (node_id n) (node_bytes n)) ns)"

lemma parse_break:
  "\<not> bc_m_Break c \<Longrightarrow> Parse_loop (chunk NodeId_BR [] @ rest) c =
     Inr (c\<lparr>bc_m_Break := True, bc_m_Size := bc_m_Size c + 8\<rparr>)"
  by (subst Parse_loop.simps, subst ParseNode_chunk)
     (simp_all add: ParseNode_id_def node_ids Parse_loop.simps)

lemma parse_chunks:
  assumes "parsed cycle xlen pc ms c" "list_all (node_ok xlen) ns" "\<not> bc_m_Break c"
  shows "\<exists>c'. Parse_loop (chunks ns @ chunk NodeId_BR [] @ rest) c = Inr c' \<and>
    parsed cycle xlen pc (ms @ ns) c' \<and> bc_m_Size c' = bc_m_Size c + length (chunks ns) + 8"
  using assms
proof (induction ns arbitrary: ms c)
  case Nil
  then show ?case by (simp add: chunks_def parse_break)
next
  case (Cons n ns)
  let ?tail = "chunks ns @ chunk NodeId_BR [] @ rest"
  have n: "node_ok xlen n" "list_all (node_ok xlen) ns" using Cons.prems(2) by simp_all
  obtain c1 where c1: "ParseNode_id (node_id n) (node_bytes n @ ?tail) c = Inr c1"
      "parsed cycle xlen pc (ms @ [n]) c1" "bc_m_Break c1 = bc_m_Break c" "bc_m_Size c1 = bc_m_Size c"
    using parse_one [OF Cons.prems(1) n(1)] by blast
  let ?z = "8 + length (node_bytes n)"
  have "Parse_loop (chunks (n # ns) @ chunk NodeId_BR [] @ rest) c =
      Parse_loop ?tail (c1\<lparr>bc_m_Size := bc_m_Size c + ?z\<rparr>)"
    using Cons.prems(3) c1(1,4) ParseNode_chunk [OF node_small [OF n(1)], of "node_id n" ?tail c]
    by (subst Parse_loop.simps) (simp add: chunks_def)
  moreover obtain c' where "Parse_loop ?tail (c1\<lparr>bc_m_Size := bc_m_Size c + ?z\<rparr>) = Inr c'"
      "parsed cycle xlen pc ((ms @ [n]) @ ns) c'"
      "bc_m_Size c' = bc_m_Size c + ?z + length (chunks ns) + 8"
    using Cons.IH [of "ms @ [n]" "c1\<lparr>bc_m_Size := bc_m_Size c + ?z\<rparr>"] c1(2,3) Cons.prems(3) n(2) by auto
  ultimately show ?case by (simp add: chunks_def)
qed

lemma Parse_cycle_bytes:
  assumes "list_all (node_ok xlen) nodes"
  shows "\<exists>c. BinaryCycle_Parse (cycle_bytes cycle xlen pc nodes @ rest) = Inr c \<and>
    parsed cycle xlen pc nodes c \<and> BinaryCycle_GetSize c = length (cycle_bytes cycle xlen pc nodes)"
proof -
  let ?tail = "chunks nodes @ chunk NodeId_BR [] @ rest" and ?b = "basic_bytes cycle xlen pc"
  let ?c = "BinaryCycle_new\<lparr>bc_m_pNodeBasic := Some (?b @ ?tail), bc_m_Size := 24\<rparr>"
  have l: "length ?b = 16" by (simp add: basic_bytes_def NodeBasic_bytes_def)
  have id: "ParseNode_id NodeId_BA (?b @ ?tail) BinaryCycle_new =
      Inr (BinaryCycle_new\<lparr>bc_m_pNodeBasic := Some (?b @ ?tail)\<rparr>)"
    by (simp add: ParseNode_id_def)
  have "BinaryCycle_Parse (cycle_bytes cycle xlen pc nodes @ rest) = Parse_loop ?tail ?c"
    unfolding BinaryCycle_Parse_def
    by (subst Parse_loop.simps) (simp add: cycle_bytes_def chunks_def [symmetric] ParseNode_chunk l id,
      simp add: BinaryCycle_new_def)
  moreover have "parsed cycle xlen pc [] ?c"
    by (simp add: parsed_def BinaryCycle_new_def node_kinds last_points_def points_def)
  moreover have "\<not> bc_m_Break ?c" by (simp add: BinaryCycle_new_def)
  ultimately show ?thesis
    using parse_chunks [of cycle xlen pc "[]" ?c nodes rest] assms
    by (fastforce simp: BinaryCycle_GetSize_def cycle_bytes_def chunks_def [symmetric] l)
qed

section \<open>The answers\<close>

definition cycle_shows :: "u32 \<Rightarrow> XLEN \<Rightarrow> u64 \<Rightarrow> node list \<Rightarrow> BinaryCycle \<Rightarrow> bool" where
  "cycle_shows cycle xlen pc nodes c \<longleftrightarrow>
     BinaryCycle_GetCycle c = Inr cycle \<and> BinaryCycle_GetXLEN c = Inr (XLEN_value xlen) \<and>
     BinaryCycle_GetPc c = Inr pc \<and>
     (BinaryCycle_IsIntRegExist c \<longleftrightarrow> int32s nodes \<noteq> [] \<or> int64s nodes \<noteq> []) \<and>
     (\<forall>i < 32. BinaryCycle_GetIntReg i c =
        (if int32s nodes \<noteq> [] then Inr (ucast (last (int32s nodes) ! i))
         else if int64s nodes \<noteq> [] then Inr (last (int64s nodes) ! i) else Inl ProcessExit)) \<and>
     (BinaryCycle_IsFpRegExist c \<longleftrightarrow> fps nodes \<noteq> []) \<and>
     (\<forall>i < 32. fps nodes \<noteq> [] \<longrightarrow> BinaryCycle_GetFpReg i c = Inr (last (fps nodes) ! i)) \<and>
     (BinaryCycle_IsIoExist c \<longleftrightarrow> ios nodes \<noteq> []) \<and>
     (ios nodes \<noteq> [] \<longrightarrow> BinaryCycle_CopyIo c = Inr (last (ios nodes))) \<and>
     BinaryCycle_GetOpEventCount c = length (ops nodes) \<and>
     (\<forall>i < length (ops nodes). BinaryCycle_CopyOpEvent i c = Inr (ops nodes ! i)) \<and>
     BinaryCycle_GetTrapEventCount c = length (traps nodes) \<and>
     (\<forall>i < length (traps nodes). BinaryCycle_CopyTrapEvent i c = Inr (traps nodes ! i)) \<and>
     BinaryCycle_GetMemoryEventCount c = length (memories nodes) \<and>
     (\<forall>i < length (memories nodes). BinaryCycle_CopyMemoryEvent i c = Inr (memories nodes ! i))"

lemma last_points_cases:
  assumes "last_points (map f xs) p"
  shows "xs = [] \<and> p = None \<or> xs \<noteq> [] \<and> (\<exists>rest. p = Some (f (last xs) @ rest))"
  using assms by (auto simp: last_points_def points_def last_map split: option.splits)

lemma event_points:
  assumes "list_all2 points (map f xs) ps"
  shows "length ps = length xs" "i < length xs \<Longrightarrow> \<exists>rest. event_at ps i = Some (f (xs ! i) @ rest)"
  using assms list_all2_nthD [OF assms, of i]
  by (auto simp: event_at_def points_def dest: list_all2_lengthD)

lemmas event_reads = deref_def with_field_def peek_def

lemma parsed_events:
  assumes "parsed cycle xlen pc nodes c"
  shows "\<forall>i < length (ops nodes). BinaryCycle_CopyOpEvent i c = Inr (ops nodes ! i)"
    "\<forall>i < length (traps nodes). BinaryCycle_CopyTrapEvent i c = Inr (traps nodes ! i)"
    "\<forall>i < length (memories nodes). BinaryCycle_CopyMemoryEvent i c = Inr (memories nodes ! i)"
proof -
  have l: "list_all2 points (map NodeOpEvent_bytes (ops nodes)) (bc_m_OpEvents c)"
    "list_all2 points (map NodeTrapEvent_bytes (traps nodes)) (bc_m_TrapEvents c)"
    "list_all2 points (map NodeMemoryEvent_bytes (memories nodes)) (bc_m_MemoryEvents c)"
    using assms by (simp_all add: parsed_def)
  show "\<forall>i < length (ops nodes). BinaryCycle_CopyOpEvent i c = Inr (ops nodes ! i)"
  proof (intro allI impI)
    fix i assume "i < length (ops nodes)"
    then obtain rest where "event_at (bc_m_OpEvents c) i = Some (NodeOpEvent_bytes (ops nodes ! i) @ rest)"
      using event_points(2) [OF l(1)] by blast
    then show "BinaryCycle_CopyOpEvent i c = Inr (ops nodes ! i)"
      by (simp add: BinaryCycle_CopyOpEvent_def event_reads NodeOpEvent_bytes_def)
  qed
  show "\<forall>i < length (traps nodes). BinaryCycle_CopyTrapEvent i c = Inr (traps nodes ! i)"
  proof (intro allI impI)
    fix i assume "i < length (traps nodes)"
    then obtain rest where "event_at (bc_m_TrapEvents c) i = Some (NodeTrapEvent_bytes (traps nodes ! i) @ rest)"
      using event_points(2) [OF l(2)] by blast
    then show "BinaryCycle_CopyTrapEvent i c = Inr (traps nodes ! i)"
      by (simp add: BinaryCycle_CopyTrapEvent_def event_reads NodeTrapEvent_bytes_def)
  qed
  show "\<forall>i < length (memories nodes). BinaryCycle_CopyMemoryEvent i c = Inr (memories nodes ! i)"
  proof (intro allI impI)
    fix i assume "i < length (memories nodes)"
    then obtain rest where "event_at (bc_m_MemoryEvents c) i = Some (NodeMemoryEvent_bytes (memories nodes ! i) @ rest)"
      using event_points(2) [OF l(3)] by blast
    then show "BinaryCycle_CopyMemoryEvent i c = Inr (memories nodes ! i)"
      by (simp add: BinaryCycle_CopyMemoryEvent_def event_reads NodeMemoryEvent_bytes_def)
  qed
qed

lemma parsed_shows:
  assumes "parsed cycle xlen pc nodes c" "list_all (node_ok xlen) nodes"
  shows "cycle_shows cycle xlen pc nodes c"
proof -
  have regs: "regs \<in> set (int32s nodes) \<Longrightarrow> length regs = 32" "qregs \<in> set (int64s nodes) \<Longrightarrow> length qregs = 32"
    "qregs \<in> set (fps nodes) \<Longrightarrow> length qregs = 32" for regs qregs
    using assms(2) by (auto simp: node_kinds list_all_iff node_ok_def split: node.splits)
  have regs: "int32s nodes \<noteq> [] \<Longrightarrow> length (last (int32s nodes)) = 32"
    "int64s nodes \<noteq> [] \<Longrightarrow> length (last (int64s nodes)) = 32"
    "fps nodes \<noteq> [] \<Longrightarrow> length (last (fps nodes)) = 32"
    by (simp_all add: regs)
  note p = assms(1) [unfolded parsed_def]
  have i32: "last_points (map (\<lambda>regs. concat (map (le_bytes 4) regs)) (int32s nodes)) (bc_m_pNodeIntReg32 c)"
    and i64: "last_points (map (\<lambda>regs. concat (map (le_bytes 8) regs)) (int64s nodes)) (bc_m_pNodeIntReg64 c)"
    and fp: "last_points (map (\<lambda>regs. concat (map (le_bytes 8) regs)) (fps nodes)) (bc_m_pNodeFpReg c)"
    using p by simp_all
  have "BinaryCycle_GetCycle c = Inr cycle \<and> BinaryCycle_GetXLEN c = Inr (XLEN_value xlen) \<and>
      BinaryCycle_GetPc c = Inr pc"
    using basic_xlen [of cycle xlen pc "bc_m_pNodeBasic c"] p
    by (auto simp: BinaryCycle_GetCycle_def BinaryCycle_GetXLEN_def BinaryCycle_GetPc_def deref_def)
  moreover have "BinaryCycle_IsIntRegExist c \<longleftrightarrow> int32s nodes \<noteq> [] \<or> int64s nodes \<noteq> []"
    "\<forall>i < 32. BinaryCycle_GetIntReg i c =
        (if int32s nodes \<noteq> [] then Inr (ucast (last (int32s nodes) ! i))
         else if int64s nodes \<noteq> [] then Inr (last (int64s nodes) ! i) else Inl ProcessExit)"
    using last_points_cases [OF i32] last_points_cases [OF i64] regs(1,2)
    by (auto simp: BinaryCycle_IsIntRegExist_def BinaryCycle_GetIntReg_def reg_at_regs)
  moreover have "BinaryCycle_IsFpRegExist c \<longleftrightarrow> fps nodes \<noteq> []"
    "\<forall>i < 32. fps nodes \<noteq> [] \<longrightarrow> BinaryCycle_GetFpReg i c = Inr (last (fps nodes) ! i)"
    using last_points_cases [OF fp] regs(3)
    by (auto simp: BinaryCycle_IsFpRegExist_def BinaryCycle_GetFpReg_def deref_def reg_at_regs)
  moreover have "BinaryCycle_IsIoExist c \<longleftrightarrow> ios nodes \<noteq> []"
    "ios nodes \<noteq> [] \<longrightarrow> BinaryCycle_CopyIo c = Inr (last (ios nodes))"
    using last_points_cases [of NodeIo_bytes "ios nodes" "bc_m_pNodeIo c"] p
    by (auto simp: BinaryCycle_IsIoExist_def BinaryCycle_CopyIo_def deref_def with_field_def NodeIo_bytes_def)
  moreover have "BinaryCycle_GetOpEventCount c = length (ops nodes)"
    using event_points(1) [of NodeOpEvent_bytes "ops nodes" "bc_m_OpEvents c"] p
    by (simp add: BinaryCycle_GetOpEventCount_def)
  moreover have "BinaryCycle_GetTrapEventCount c = length (traps nodes)"
    using event_points(1) [of NodeTrapEvent_bytes "traps nodes" "bc_m_TrapEvents c"] p
    by (simp add: BinaryCycle_GetTrapEventCount_def)
  moreover have "BinaryCycle_GetMemoryEventCount c = length (memories nodes)"
    using event_points(1) [of NodeMemoryEvent_bytes "memories nodes" "bc_m_MemoryEvents c"] p
    by (simp add: BinaryCycle_GetMemoryEventCount_def)
  ultimately show ?thesis using parsed_events [OF assms(1)] unfolding cycle_shows_def by blast
qed

text \<open>
  C26: a cycle that was logged is parsed back, whatever follows it in the buffer: the parser consumes
  exactly its bytes, and the parsed cycle answers the cycle number, the register width, the program
  counter, the registers and the i/o node that were logged last, which of them exist, and every
  operation, trap and memory event with its number and in the order it was logged.
\<close>

theorem trace_cycle_roundtrip:
  assumes "log_cycle cycle xlen pc nodes = Inr bytes" "list_all (node_ok xlen) nodes"
  shows "\<exists>c. BinaryCycle_Parse (bytes @ rest) = Inr c \<and> BinaryCycle_GetSize c = length bytes \<and>
    cycle_shows cycle xlen pc nodes c"
  using Parse_cycle_bytes [OF assms(2), of cycle pc rest] parsed_shows [OF _ assms(2)]
    log_cycle_bytes(1) [OF assms(1)] by auto

theorem trace_cycle_roundtrip_witness:
  "\<exists>bytes c. log_cycle 7 XLEN64 0x80000000 [NodeIntReg64 (replicate 32 5), Node_Io \<lparr>ni_hostIo = 1, ni_reserved = 0\<rparr>]
      = Inr bytes \<and> BinaryCycle_Parse bytes = Inr c \<and> BinaryCycle_GetIntReg 31 c = Inr 5"
proof -
  let ?ns = "[NodeIntReg64 (replicate 32 5), Node_Io \<lparr>ni_hostIo = 1, ni_reserved = 0\<rparr>]"
  have "length (cycle_bytes 7 XLEN64 0x80000000 ?ns) \<le> DefaultBufferSize"
    by (simp add: cycle_bytes_def basic_bytes_def NodeBasic_bytes_def NodeIo_bytes_def DefaultBufferSize_def
        length_concat comp_def sum_list_triv sum_list_replicate)
  then obtain bytes where b: "log_cycle 7 XLEN64 0x80000000 ?ns = Inr bytes" using log_cycle_fits by blast
  obtain c where "BinaryCycle_Parse (bytes @ []) = Inr c" "cycle_shows 7 XLEN64 0x80000000 ?ns c"
    using trace_cycle_roundtrip [OF b, of "[]"] by (auto simp: node_ok_def)
  with b show ?thesis by (auto simp: cycle_shows_def node_kinds)
qed

section \<open>Traces in memory\<close>

text \<open>What a reader of traces answers, cycle by cycle, until its end.\<close>

inductive reads :: "('r \<Rightarrow> bool) \<Rightarrow> ('r \<Rightarrow> 'c option result) \<Rightarrow> ('r \<Rightarrow> 'r result) \<Rightarrow>
    'r \<Rightarrow> 'c list \<Rightarrow> bool"
  for isEnd getCycle nextCycle where
  reads_end: "isEnd r \<Longrightarrow> reads isEnd getCycle nextCycle r []"
| reads_cycle: "\<not> isEnd r \<Longrightarrow> getCycle r = Inr (Some c) \<Longrightarrow> nextCycle r = Inr r' \<Longrightarrow>
    reads isEnd getCycle nextCycle r' cs \<Longrightarrow> reads isEnd getCycle nextCycle r (c # cs)"

inductive_cases reads_NilE: "reads isEnd getCycle nextCycle r []"
inductive_cases reads_ConsE: "reads isEnd getCycle nextCycle r (c # cs)"

abbreviation memory_reads :: "TraceBinaryMemoryReader \<Rightarrow> BinaryCycle list \<Rightarrow> bool" where
  "memory_reads \<equiv> reads MemoryReader_IsEnd (\<lambda>r. Inr (MemoryReader_GetCycle r)) MemoryReader_Next"

text \<open>A cycle of a trace, the contents of its nodes, and its bytes.\<close>

record logged =
  lg_cycle :: u32
  lg_xlen :: XLEN
  lg_pc :: u64
  lg_nodes :: "node list"

definition logged_ok :: "logged \<Rightarrow> bool" where
  "logged_ok l \<longleftrightarrow> list_all (node_ok (lg_xlen l)) (lg_nodes l)"

definition logged_bytes :: "logged \<Rightarrow> u8 list" where
  "logged_bytes l = cycle_bytes (lg_cycle l) (lg_xlen l) (lg_pc l) (lg_nodes l)"

definition shows_logged :: "logged \<Rightarrow> BinaryCycle \<Rightarrow> bool" where
  "shows_logged l c \<longleftrightarrow> cycle_shows (lg_cycle l) (lg_xlen l) (lg_pc l) (lg_nodes l) c"

lemma logged_bytes_length: "24 < length (logged_bytes l)"
  by (simp add: logged_bytes_def cycle_bytes_def basic_bytes_def NodeBasic_bytes_def)

lemma Parse_logged:
  assumes "logged_ok l"
  obtains c where "BinaryCycle_Parse (logged_bytes l @ rest) = Inr c" "shows_logged l c"
    "BinaryCycle_GetSize c = length (logged_bytes l)"
  using Parse_cycle_bytes [of "lg_xlen l" "lg_nodes l" "lg_cycle l" "lg_pc l" rest] parsed_shows assms
  unfolding logged_ok_def logged_bytes_def shows_logged_def by blast

text \<open>The reader at some cycle of a trace.\<close>

lemma reader_at:
  assumes "list_all logged_ok (l # ls)" "tmr_m_pBuffer r = before @ concat (map logged_bytes (l # ls))"
    "tmr_m_Offset r = length before" "tmr_m_pCycle r = Some c" "shows_logged l c"
    "BinaryCycle_GetSize c = length (logged_bytes l)"
  shows "\<exists>cs. memory_reads r cs \<and> list_all2 shows_logged (l # ls) cs"
  using assms
proof (induction ls arbitrary: l before r c)
  case Nil
  let ?r = "r\<lparr>tmr_m_Offset := length (before @ logged_bytes l), tmr_m_pCycle := None\<rparr>"
  have "MemoryReader_Next r = Inr ?r" using Nil.prems by (simp add: MemoryReader_Next_def Let_def)
  moreover have "memory_reads ?r []" using Nil.prems by (intro reads_end) (simp add: MemoryReader_IsEnd_def)
  moreover have "\<not> MemoryReader_IsEnd r"
    using Nil.prems(2,3) logged_bytes_length [of l] by (auto simp: MemoryReader_IsEnd_def)
  ultimately have "memory_reads r [c]"
    using Nil.prems(4) by (intro reads_cycle) (simp_all add: MemoryReader_GetCycle_def)
  then show ?case using Nil.prems(5) by auto
next
  case (Cons l' ls)
  let ?before = "before @ logged_bytes l"
  have "list_all logged_ok (l' # ls)" and l': "logged_ok l'" using Cons.prems(1) by simp_all
  obtain c' where c': "BinaryCycle_Parse (logged_bytes l' @ concat (map logged_bytes ls)) = Inr c'"
      "shows_logged l' c'" "BinaryCycle_GetSize c' = length (logged_bytes l')"
    using Parse_logged [OF l'] by blast
  let ?r = "r\<lparr>tmr_m_Offset := length ?before, tmr_m_pCycle := Some c'\<rparr>"
  obtain cs where cs: "memory_reads ?r cs" "list_all2 shows_logged (l' # ls) cs"
    using Cons.IH [of l' ?r ?before c'] \<open>list_all logged_ok (l' # ls)\<close> Cons.prems(2) c'(2,3) by auto
  have "MemoryReader_Next r = Inr ?r"
    using Cons.prems(2-4,6) c'(1) logged_bytes_length [of l'] by (auto simp: MemoryReader_Next_def Let_def)
  moreover have "\<not> MemoryReader_IsEnd r"
    using Cons.prems(2,3) logged_bytes_length [of l] by (auto simp: MemoryReader_IsEnd_def)
  ultimately have "memory_reads r (c # cs)"
    using Cons.prems(4) cs(1) by (intro reads_cycle) (simp_all add: MemoryReader_GetCycle_def)
  then show ?case using Cons.prems(5) cs(2) by auto
qed

lemma MemoryReader_reads:
  assumes "list_all logged_ok (l # ls)"
  shows "\<exists>r cs. MemoryReader_new (concat (map logged_bytes (l # ls))) = Inr r \<and> memory_reads r cs \<and>
    list_all2 shows_logged (l # ls) cs"
proof -
  have l: "logged_ok l" using assms by simp
  let ?buffer = "logged_bytes l @ concat (map logged_bytes ls)"
  obtain c where c: "BinaryCycle_Parse ?buffer = Inr c" "shows_logged l c"
      "BinaryCycle_GetSize c = length (logged_bytes l)"
    using Parse_logged [OF l] by blast
  let ?r = "\<lparr>tmr_m_pBuffer = ?buffer, tmr_m_Offset = 0, tmr_m_pCycle = Some c\<rparr>"
  have "MemoryReader_new ?buffer = Inr ?r"
    using c(1) logged_bytes_length [of l] by (simp add: MemoryReader_new_def)
  moreover obtain cs where "memory_reads ?r cs" "list_all2 shows_logged (l # ls) cs"
    using reader_at [OF assms, of ?r "[]" c] c(2,3) by auto
  ultimately show ?thesis by auto
qed

end
