(* ===== verification/Rafi_TraceIndex.thy ===== *)
theory Rafi_TraceIndex
  imports Rafi_Trace
begin

text \<open>
  Traces in files (\<^verbatim>\<open>src/librafi_trace/\<close>): the reader of one binary file, and the indexed trace, an index
  file of the paths of binary files and their numbers of cycles, with its writer and its reader.
  The file system is a map from paths to contents. Opening a file for writing and allocating
  memory succeed; what is written to a file is in it when the file is closed.
\<close>

section \<open>Files and text\<close>

type_synonym files = "string \<Rightarrow> u8 list option"

definition text_bytes :: "string \<Rightarrow> u8 list" where
  "text_bytes s = map of_char s"

definition bytes_text :: "u8 list \<Rightarrow> string" where
  "bytes_text bs = map (\<lambda>b. char_of (unat b)) bs"

text \<open>The conversion \<open>%d\<close> of \<open>printf\<close>, and \<open><<\<close> of an \<open>int\<close>.\<close>

fun print_nat :: "nat \<Rightarrow> string" where
  "print_nat n = (if n < 10 then [char_of (48 + n)] else print_nat (n div 10) @ [char_of (48 + n mod 10)])"

declare print_nat.simps [simp del]

definition print_int :: "i32 \<Rightarrow> string" where
  "print_int i = (if i <s 0 then CHR ''-'' # print_nat (nat (- sint i)) else print_nat (nat (sint i)))"

section \<open>Input streams\<close>

record istream =
  is_rest :: string
  is_eof :: bool
  is_fail :: bool

definition istream_of :: "string \<Rightarrow> istream" where
  "istream_of s = \<lparr>is_rest = s, is_eof = False, is_fail = False\<rparr>"

definition isspace :: "char \<Rightarrow> bool" where
  "isspace c \<longleftrightarrow> (of_char c :: nat) = 32 \<or> 9 \<le> (of_char c :: nat) \<and> (of_char c :: nat) \<le> 13"

definition isdigit :: "char \<Rightarrow> bool" where
  "isdigit c \<longleftrightarrow> 48 \<le> (of_char c :: nat) \<and> (of_char c :: nat) \<le> 57"

text \<open>
  What every extraction does first: a stream that is not good fails, white space is skipped, and
  nothing behind it is the end of the file and a failure. \<open>None\<close> when nothing is to be extracted.
\<close>

definition sentry :: "istream \<Rightarrow> string option \<times> istream" where
  "sentry f = (if is_eof f \<or> is_fail f then (None, f\<lparr>is_fail := True\<rparr>)
     else let rest = dropWhile isspace (is_rest f) in
       if rest = [] then (None, \<lparr>is_rest = [], is_eof = True, is_fail = True\<rparr>) else (Some rest, f))"

text \<open>\<open>>>\<close> into a \<open>std::string\<close> that is empty.\<close>

definition stream_string :: "istream \<Rightarrow> string \<times> istream" where
  "stream_string f = (case sentry f of
     (None, f) \<Rightarrow> ([], f)
   | (Some s, _) \<Rightarrow> let rest = dropWhile (\<lambda>c. \<not> isspace c) s in
       (takeWhile (\<lambda>c. \<not> isspace c) s, \<lparr>is_rest = rest, is_eof = (rest = []), is_fail = False\<rparr>))"

primrec digits_value :: "nat \<Rightarrow> string \<Rightarrow> nat" where
  "digits_value acc [] = acc"
| "digits_value acc (c # cs) = digits_value (acc * 10 + (of_char c - 48)) cs"

text \<open>
  \<open>>>\<close> into a \<open>uint32_t\<close>: a sign, digits, zero and a failure without digits, the largest value and
  a failure on overflow. \<open>None\<close> leaves the variable as it was.
\<close>

definition stream_u32 :: "istream \<Rightarrow> u32 option \<times> istream" where
  "stream_u32 f = (case sentry f of
     (None, f) \<Rightarrow> (None, f)
   | (Some s, _) \<Rightarrow>
       let negative = (hd s = CHR ''-'');
           s = (if hd s = CHR ''-'' \<or> hd s = CHR ''+'' then tl s else s);
           digits = takeWhile isdigit s; rest = dropWhile isdigit s; n = digits_value 0 digits;
           result = (\<lambda>v fail. (Some v, \<lparr>is_rest = rest, is_eof = (rest = []), is_fail = fail\<rparr>)) in
       if digits = [] then result 0 True
       else if 0xffffffff < n then result 0xffffffff True
       else result (if negative then - of_nat n else of_nat n) False)"

section \<open>One binary file\<close>

text \<open>\<open>m_pImpl\<close> is null when the file is empty.\<close>

type_synonym TraceBinaryReader = "TraceBinaryMemoryReader option"

definition BinaryReader_new :: "files \<Rightarrow> string \<Rightarrow> TraceBinaryReader result" where
  "BinaryReader_new fs path = (case fs path of
     None \<Rightarrow> Inl FileOpenFailure
   | Some content \<Rightarrow> if content = [] then Inr None else map_sum id Some (MemoryReader_new content))"

text \<open>The answer \<open>None\<close> is a null cycle.\<close>

definition BinaryReader_GetCycle :: "TraceBinaryReader \<Rightarrow> BinaryCycle option result" where
  "BinaryReader_GetCycle r = (case r of None \<Rightarrow> Inl Undefined | Some m \<Rightarrow> Inr (MemoryReader_GetCycle m))"

definition BinaryReader_IsEnd :: "TraceBinaryReader \<Rightarrow> bool" where
  "BinaryReader_IsEnd r = (case r of None \<Rightarrow> True | Some m \<Rightarrow> MemoryReader_IsEnd m)"

definition BinaryReader_Next :: "TraceBinaryReader \<Rightarrow> TraceBinaryReader result" where
  "BinaryReader_Next r = (case r of None \<Rightarrow> Inl Undefined | Some m \<Rightarrow> map_sum id Some (MemoryReader_Next m))"

section \<open>The writer of an indexed trace\<close>

definition MaxFileSize :: nat where "MaxFileSize = 256 * 1024 * 1024"

text \<open>\<open>tiw_index\<close> is what was printed to the index file, \<open>tiw_m_pData\<close> the filled part of the buffer.\<close>

record TraceIndexWriter =
  tiw_files :: files
  tiw_m_PathBase :: string
  tiw_index :: string
  tiw_m_pData :: "u8 list"
  tiw_m_CycleCount :: i32
  tiw_m_DataFileCount :: i32

definition IndexWriter_new :: "files \<Rightarrow> string \<Rightarrow> TraceIndexWriter" where
  "IndexWriter_new fs pathBase = \<lparr>tiw_files = fs(pathBase @ ''.tidx'' \<mapsto> []),
     tiw_m_PathBase = pathBase, tiw_index = [], tiw_m_pData = [], tiw_m_CycleCount = 0,
     tiw_m_DataFileCount = 0\<rparr>"

definition FlushData :: "TraceIndexWriter \<Rightarrow> TraceIndexWriter" where
  "FlushData w = (if tiw_m_pData w = [] then w
     else let path = tiw_m_PathBase w @ ''.'' @ print_int (tiw_m_DataFileCount w) @ ''.tbin'' in
       w\<lparr>tiw_files := (tiw_files w)(path \<mapsto> tiw_m_pData w),
         tiw_index := tiw_index w @ path @ '' '' @ print_int (tiw_m_CycleCount w) @ [CHR 0x0A],
         tiw_m_pData := [], tiw_m_CycleCount := 0,
         tiw_m_DataFileCount := tiw_m_DataFileCount w + 1\<rparr>)"

definition IndexWriter_Write :: "u8 list \<Rightarrow> TraceIndexWriter \<Rightarrow> TraceIndexWriter result" where
  "IndexWriter_Write buffer w =
    (if MaxFileSize < length buffer then Inl TraceException
     else let w = (if MaxFileSize < length (tiw_m_pData w) + length buffer then FlushData w else w) in
       Inr (w\<lparr>tiw_m_pData := tiw_m_pData w @ buffer, tiw_m_CycleCount := tiw_m_CycleCount w + 1\<rparr>))"

text \<open>The destructor; the file system it leaves.\<close>

definition IndexWriter_delete :: "TraceIndexWriter \<Rightarrow> files" where
  "IndexWriter_delete w = (let w = FlushData w in
     (tiw_files w)(tiw_m_PathBase w @ ''.tidx'' \<mapsto> text_bytes (tiw_index w)))"

section \<open>The reader of an indexed trace\<close>

text \<open>
  The loop of \<open>ParseIndexFile\<close>. A path with white space but no number behind it leaves the number
  of its entry uninitialized.
\<close>

lemma sentry_Some: "sentry f = (Some s, f1) \<Longrightarrow> s = dropWhile isspace (is_rest f) \<and> s \<noteq> []"
  by (auto simp: sentry_def Let_def split: if_splits)

lemma sentry_None: "sentry f = (None, f1) \<Longrightarrow> length (is_rest f1) \<le> length (is_rest f)"
  by (auto simp: sentry_def Let_def split: if_splits)

lemma stream_string_shorter:
  assumes "stream_string f = (path, f')" "path \<noteq> []"
  shows "length (is_rest f') < length (is_rest f)"
proof -
  obtain s f1 where s: "sentry f = (Some s, f1)" "path = takeWhile (\<lambda>c. \<not> isspace c) s"
      "is_rest f' = dropWhile (\<lambda>c. \<not> isspace c) s"
    using assms by (auto simp: stream_string_def Let_def split: prod.splits option.splits)
  then have "length s = length path + length (is_rest f')"
    by (metis length_append takeWhile_dropWhile_id)
  moreover have "length s \<le> length (is_rest f)"
    using sentry_Some [OF s(1)] by (simp add: length_dropWhile_le)
  ultimately show ?thesis using assms(2) by (cases path) auto
qed

lemma stream_u32_shorter:
  assumes "stream_u32 f = (v, f')"
  shows "length (is_rest f') \<le> length (is_rest f)"
proof (cases "sentry f")
  case (Pair o1 f1)
  show ?thesis
  proof (cases o1)
    case None
    then show ?thesis using assms Pair sentry_None [of f f1] by (simp add: stream_u32_def)
  next
    case (Some s)
    then have s: "length s \<le> length (is_rest f)"
      using sentry_Some [of f s f1] Pair by (simp add: length_dropWhile_le)
    have "is_rest f' = dropWhile isdigit (if hd s = CHR ''-'' \<or> hd s = CHR ''+'' then tl s else s)"
      using assms Pair Some by (auto simp: stream_u32_def Let_def split: if_splits)
    then show ?thesis
      using s length_dropWhile_le [of isdigit s] length_dropWhile_le [of isdigit "tl s"]
      by (auto intro: le_trans)
  qed
qed

function ParseIndexFile_loop :: "istream \<Rightarrow> (string \<times> u32) list result" where
  "ParseIndexFile_loop f =
    (if is_eof f then Inr []
     else case stream_string f of (path, f1) \<Rightarrow>
       if path = [] then Inr []
       else if is_eof f1 then map_sum id (Cons (path, 0)) (ParseIndexFile_loop f1)
       else case stream_u32 f1 of (cycle, f2) \<Rightarrow> (case cycle of
           None \<Rightarrow> Inl Undefined
         | Some cycle \<Rightarrow> map_sum id (Cons (path, cycle)) (ParseIndexFile_loop f2)))"
  by pat_completeness auto

termination
proof (relation "measure (\<lambda>f. length (is_rest f))")
  fix f path f1
  assume "(path, f1) = stream_string f" "path \<noteq> []"
  then have "length (is_rest f1) < length (is_rest f)" using stream_string_shorter by metis
  then show "(f1, f) \<in> measure (\<lambda>f. length (is_rest f))" by simp
next
  fix f path f1 cycle f2
  assume "(path, f1) = stream_string f" "path \<noteq> []" "(cycle, f2) = stream_u32 f1"
  then have "length (is_rest f1) < length (is_rest f)" "length (is_rest f2) \<le> length (is_rest f1)"
    using stream_string_shorter stream_u32_shorter by metis+
  then show "(f2, f) \<in> measure (\<lambda>f. length (is_rest f))" by simp
qed simp

declare ParseIndexFile_loop.simps [simp del]

record TraceIndexReader =
  tir_m_Entries :: "(string \<times> u32) list"
  tir_m_EntryIndex :: nat
  tir_m_Cycle :: u32
  tir_m_pTraceBinary :: "TraceBinaryReader option"

definition UpdateTraceBinary :: "files \<Rightarrow> TraceIndexReader \<Rightarrow> TraceIndexReader result" where
  "UpdateTraceBinary fs r =
    (if tir_m_EntryIndex r < length (tir_m_Entries r) then
       map_sum id (\<lambda>b. r\<lparr>tir_m_pTraceBinary := Some b\<rparr>)
         (BinaryReader_new fs (fst (tir_m_Entries r ! tir_m_EntryIndex r)))
     else Inr (r\<lparr>tir_m_pTraceBinary := None\<rparr>))"

definition IndexReader_new :: "files \<Rightarrow> string \<Rightarrow> TraceIndexReader result" where
  "IndexReader_new fs path = (case fs path of
     None \<Rightarrow> Inl FileOpenFailure
   | Some content \<Rightarrow> (case ParseIndexFile_loop (istream_of (bytes_text content)) of
       Inl e \<Rightarrow> Inl e
     | Inr entries \<Rightarrow> UpdateTraceBinary fs \<lparr>tir_m_Entries = entries, tir_m_EntryIndex = 0,
         tir_m_Cycle = 0, tir_m_pTraceBinary = None\<rparr>))"

definition IndexReader_GetCycle :: "TraceIndexReader \<Rightarrow> BinaryCycle option result" where
  "IndexReader_GetCycle r = (case tir_m_pTraceBinary r of
     None \<Rightarrow> Inl Undefined | Some b \<Rightarrow> BinaryReader_GetCycle b)"

definition IndexReader_IsEnd :: "TraceIndexReader \<Rightarrow> bool" where
  "IndexReader_IsEnd r \<longleftrightarrow> tir_m_EntryIndex r = length (tir_m_Entries r)"

definition IndexReader_Next :: "files \<Rightarrow> TraceIndexReader \<Rightarrow> TraceIndexReader result" where
  "IndexReader_Next fs r = (case tir_m_pTraceBinary r of
     None \<Rightarrow> Inl Undefined
   | Some b \<Rightarrow> (case BinaryReader_Next b of
       Inl e \<Rightarrow> Inl e
     | Inr b \<Rightarrow>
         let r = r\<lparr>tir_m_pTraceBinary := Some b, tir_m_Cycle := tir_m_Cycle r + 1\<rparr> in
         if \<not> BinaryReader_IsEnd b then Inr r
         else
           let r = r\<lparr>tir_m_EntryIndex := tir_m_EntryIndex r + 1\<rparr> in
           if tir_m_EntryIndex r = length (tir_m_Entries r) then Inr r
           else UpdateTraceBinary fs r))"

text \<open>
  \<open>Next\<close> with a number of cycles: the entry that holds the destination is opened at its first
  cycle, and the rest is stepped. \<open>skip_entries\<close> is the search, with the number of skipped cycles.
\<close>

fun skip_entries :: "u32 \<Rightarrow> (string \<times> u32) list \<Rightarrow> nat \<Rightarrow> u32 \<Rightarrow> (nat \<times> u32) option" where
  "skip_entries dst [] i skipped = None"
| "skip_entries dst (entry # entries) i skipped =
    (if dst < skipped + snd entry then Some (i, skipped)
     else skip_entries dst entries (i + 1) (skipped + snd entry))"

primrec IndexReader_steps :: "files \<Rightarrow> nat \<Rightarrow> TraceIndexReader \<Rightarrow> TraceIndexReader result" where
  "IndexReader_steps fs 0 r = Inr r"
| "IndexReader_steps fs (Suc n) r = (case IndexReader_Next fs r of
     Inl e \<Rightarrow> Inl e | Inr r' \<Rightarrow> IndexReader_steps fs n r')"

definition IndexReader_NextBy :: "files \<Rightarrow> u32 \<Rightarrow> TraceIndexReader \<Rightarrow> TraceIndexReader result" where
  "IndexReader_NextBy fs cycle r =
    (let dstCycle = tir_m_Cycle r + cycle in
     case skip_entries dstCycle (tir_m_Entries r) 0 0 of
       None \<Rightarrow> Inl TraceException
     | Some (entryIndex, skippedCycle) \<Rightarrow>
         (case UpdateTraceBinary fs
             (r\<lparr>tir_m_EntryIndex := entryIndex, tir_m_Cycle := skippedCycle\<rparr>) of
            Inl e \<Rightarrow> Inl e
          | Inr r' \<Rightarrow> IndexReader_steps fs (unat dstCycle - unat skippedCycle) r'))"

end
