(* ===== verification/Rafi_TraceIndex_Ok.thy ===== *)
theory Rafi_TraceIndex_Ok
  imports Rafi_Trace_Ok Rafi_TraceIndex
begin

text \<open>
  The indexed trace: what the writer puts into its files is what the reader finds in them, whatever
  the number of files the cycles are spread over.
\<close>

section \<open>Text\<close>

lemma bytes_text_of [simp]: "bytes_text (text_bytes s) = s"
proof (induction s)
  case (Cons c s)
  have "unat (of_nat (of_char c :: nat) :: u8) = of_char c" by (subst unat_of_nat) (simp add: take_bit_eq_mod)
  then have "unat (of_char c :: u8) = (of_char c :: nat)" by (simp only: of_nat_of_char)
  with Cons show ?case by (simp add: bytes_text_def text_bytes_def)
qed (simp_all add: bytes_text_def text_bytes_def)

lemma print_nat_digits: "list_all isdigit (print_nat n) \<and> print_nat n \<noteq> []"
proof (induction n rule: print_nat.induct)
  case (1 n)
  then show ?case by (cases "n < 10") (simp_all add: print_nat.simps [of n] isdigit_def)
qed

lemma digits_value_append:
  "digits_value acc (s @ t) = digits_value (digits_value acc s) t"
  by (induction s arbitrary: acc) simp_all

lemma digits_print_nat [simp]: "digits_value 0 (print_nat n) = n"
proof (induction n rule: print_nat.induct)
  case (1 n)
  then show ?case by (subst print_nat.simps) (simp add: digits_value_append)
qed

lemma print_int_nat: "k < 2 ^ 31 \<Longrightarrow> print_int (of_nat k) = print_nat k"
proof -
  assume "k < 2 ^ 31"
  then have "sint (of_nat k :: i32) = int k" by (simp add: signed_of_nat signed_take_bit_int_eq_self)
  then show "print_int (of_nat k) = print_nat k" by (simp add: print_int_def word_sless_alt)
qed

lemma isdigit_not_isspace: "isdigit c \<Longrightarrow> \<not> isspace c"
  by (auto simp: isdigit_def isspace_def)

section \<open>The index file\<close>

definition index_line :: "string \<times> nat \<Rightarrow> string" where
  "index_line e = fst e @ '' '' @ print_nat (snd e) @ [CHR 0x0A]"

definition path_ok :: "string \<Rightarrow> bool" where
  "path_ok p \<longleftrightarrow> p \<noteq> [] \<and> list_all (\<lambda>c. \<not> isspace c) p"

lemma spaces [simp]: "isspace (CHR '' '')" "isspace (CHR 0x0A)"
  by (simp_all add: isspace_def)

lemma read_path:
  assumes "path_ok p" "list_all isspace ws"
  shows "stream_string \<lparr>is_rest = ws @ p @ CHR '' '' # t, is_eof = False, is_fail = False\<rparr> =
    (p, \<lparr>is_rest = CHR '' '' # t, is_eof = False, is_fail = False\<rparr>)"
proof -
  obtain c p' where p: "p = c # p'" "\<not> isspace c" using assms(1) by (cases p) (auto simp: path_ok_def)
  have "dropWhile isspace (ws @ p @ CHR '' '' # t) = p @ CHR '' '' # t"
    using assms(2) p by (simp add: dropWhile_append2 list_all_iff)
  moreover have "takeWhile (\<lambda>c. \<not> isspace c) (p @ CHR '' '' # t) = p"
    "dropWhile (\<lambda>c. \<not> isspace c) (p @ CHR '' '' # t) = CHR '' '' # t"
    using assms(1) by (simp_all add: path_ok_def list_all_iff takeWhile_append2 dropWhile_append2)
  ultimately show ?thesis using p by (simp add: stream_string_def sentry_def Let_def)
qed

lemma read_count:
  assumes "n < 2 ^ 32"
  shows "stream_u32 \<lparr>is_rest = CHR '' '' # print_nat n @ CHR 0x0A # t, is_eof = False, is_fail = False\<rparr> =
    (Some (of_nat n), \<lparr>is_rest = CHR 0x0A # t, is_eof = False, is_fail = False\<rparr>)"
proof -
  obtain c s where s: "print_nat n = c # s" "isdigit c"
    using print_nat_digits [of n] by (cases "print_nat n") auto
  have d: "\<forall>x \<in> set (print_nat n). isdigit x" using print_nat_digits [of n] by (simp add: list_all_iff)
  have c: "c \<noteq> CHR ''-''" "c \<noteq> CHR ''+''" using s(2) by (auto simp: isdigit_def)
  have v: "digits_value (of_char c - 48) s = n" using digits_print_nat [of n] unfolding s(1) by simp
  have nd: "\<not> isdigit (CHR 0x0A)" by (simp add: isdigit_def)
  have "takeWhile isdigit (print_nat n @ CHR 0x0A # t) = print_nat n"
    "dropWhile isdigit (print_nat n @ CHR 0x0A # t) = CHR 0x0A # t"
    using d nd by (simp_all add: takeWhile_append2 dropWhile_append2)
  moreover have "hd (print_nat n @ CHR 0x0A # t) = c" using s(1) by simp
  moreover have "dropWhile isspace (CHR '' '' # print_nat n @ CHR 0x0A # t) = print_nat n @ CHR 0x0A # t"
    using s isdigit_not_isspace by simp
  ultimately show ?thesis
    using c assms s(1) v by (simp add: stream_u32_def sentry_def Let_def)
qed

lemma parse_index:
  assumes "list_all (\<lambda>e. path_ok (fst e) \<and> snd e < 2 ^ 32) es" "list_all isspace ws"
  shows "ParseIndexFile_loop \<lparr>is_rest = ws @ concat (map index_line es), is_eof = False, is_fail = False\<rparr> =
    Inr (map (\<lambda>e. (fst e, of_nat (snd e))) es)"
  using assms
proof (induction es arbitrary: ws)
  case Nil
  have "dropWhile isspace ws = []" using Nil(2) by (simp add: list_all_iff)
  then have "fst (stream_string \<lparr>is_rest = ws, is_eof = False, is_fail = False\<rparr>) = []"
    by (simp add: stream_string_def sentry_def Let_def)
  then show ?case by (subst ParseIndexFile_loop.simps) (simp add: split_beta)
next
  case (Cons e es)
  have e: "path_ok (fst e)" "snd e < 2 ^ 32" using Cons.prems(1) by simp_all
  have p: "fst e \<noteq> []" using e(1) by (simp add: path_ok_def)
  let ?rest = "concat (map index_line es)"
  have line: "ws @ concat (map index_line (e # es)) = ws @ fst e @ CHR '' '' # print_nat (snd e) @ CHR 0x0A # ?rest"
    by (simp add: index_line_def)
  have "ParseIndexFile_loop \<lparr>is_rest = [CHR 0x0A] @ ?rest, is_eof = False, is_fail = False\<rparr> =
      Inr (map (\<lambda>e. (fst e, of_nat (snd e))) es)"
    using Cons.prems(1) by (intro Cons.IH) simp_all
  then show ?case
    unfolding line using p
    by (subst ParseIndexFile_loop.simps) (simp add: read_path [OF e(1) Cons.prems(2)] read_count [OF e(2)])
qed

section \<open>The files of the writer\<close>

definition data_path :: "string \<Rightarrow> nat \<Rightarrow> string" where
  "data_path base k = base @ ''.'' @ print_nat k @ ''.tbin''"

lemma data_path_inject [simp]: "data_path base j = data_path base k \<longleftrightarrow> j = k"
  by (auto simp: data_path_def dest: arg_cong [where f = "digits_value 0"])

lemma data_path_index: "data_path base k \<noteq> base @ ''.tidx''"
proof
  obtain c s where s: "print_nat k = c # s" "isdigit c"
    using print_nat_digits [of k] by (cases "print_nat k") auto
  assume "data_path base k = base @ ''.tidx''"
  then have "c = CHR ''t''" using s(1) by (simp add: data_path_def)
  then show False using s(2) by (simp add: isdigit_def)
qed

lemma path_ok_data_path: "path_ok base \<Longrightarrow> path_ok (data_path base k)"
  using print_nat_digits [of k] isdigit_not_isspace
  by (auto simp: path_ok_def data_path_def list_all_iff isspace_def)

text \<open>The bytes of a file that holds the cycles \<open>g\<close>, and the index entries of the files \<open>gs\<close>.\<close>

definition group_bytes :: "logged list \<Rightarrow> u8 list" where
  "group_bytes g = concat (map logged_bytes g)"

lemma group_bytes_Nil [simp]: "group_bytes g = [] \<longleftrightarrow> g = []"
proof (cases g)
  case (Cons l g')
  then show ?thesis using logged_bytes_length [of l] by (auto simp: group_bytes_def)
qed (simp add: group_bytes_def)

definition group_entries :: "string \<Rightarrow> logged list list \<Rightarrow> (string \<times> nat) list" where
  "group_entries base gs = map (\<lambda>k. (data_path base k, length (gs ! k))) [0..<length gs]"

lemma group_entries_snoc:
  "group_entries base (gs @ [g]) = group_entries base gs @ [(data_path base (length gs), length g)]"
  by (simp add: group_entries_def nth_append)

definition holds_groups :: "string \<Rightarrow> logged list list \<Rightarrow> files \<Rightarrow> bool" where
  "holds_groups base gs fs \<longleftrightarrow> (\<forall>k < length gs. fs (data_path base k) = Some (group_bytes (gs ! k)))"

lemma holds_groups_snoc:
  "holds_groups base gs fs \<Longrightarrow>
   holds_groups base (gs @ [g]) (fs(data_path base (length gs) \<mapsto> group_bytes g))"
  by (auto simp: holds_groups_def nth_append less_Suc_eq)

text \<open>The writer when the files \<open>gs\<close> are written and the cycles \<open>g\<close> are in its buffer.\<close>

definition writer_at :: "string \<Rightarrow> logged list list \<Rightarrow> logged list \<Rightarrow> TraceIndexWriter \<Rightarrow> bool" where
  "writer_at base gs g w \<longleftrightarrow> tiw_m_PathBase w = base \<and> [] \<notin> set gs \<and>
     tiw_m_pData w = group_bytes g \<and> tiw_m_CycleCount w = of_nat (length g) \<and>
     tiw_m_DataFileCount w = of_nat (length gs) \<and>
     tiw_index w = concat (map index_line (group_entries base gs)) \<and> holds_groups base gs (tiw_files w)"

lemma writer_at_new: "writer_at base [] [] (IndexWriter_new fs base)"
  by (simp add: writer_at_def IndexWriter_new_def group_entries_def holds_groups_def group_bytes_def)

lemma groups_bound: "[] \<notin> set gs \<Longrightarrow> length gs \<le> length (concat gs)"
proof (induction gs)
  case (Cons g gs)
  then show ?case by (cases g) auto
qed simp

lemma FlushData_groups:
  assumes "writer_at base gs g w" "length (concat gs @ g) < 2 ^ 31"
  shows "writer_at base (if g = [] then gs else gs @ [g]) [] (FlushData w)"
proof (cases "g = []")
  case True
  then show ?thesis using assms(1) by (simp add: writer_at_def FlushData_def)
next
  case False
  have w: "tiw_m_PathBase w = base" "[] \<notin> set gs" "tiw_m_pData w = group_bytes g"
    "tiw_m_CycleCount w = of_nat (length g)" "tiw_m_DataFileCount w = of_nat (length gs)"
    "tiw_index w = concat (map index_line (group_entries base gs))" "holds_groups base gs (tiw_files w)"
    using assms(1) by (simp_all add: writer_at_def)
  have "length gs < 2 ^ 31" "length g < 2 ^ 31" using groups_bound [OF w(2)] assms(2) by simp_all
  then have p: "print_int (of_nat (length gs)) = print_nat (length gs)"
    "print_int (of_nat (length g)) = print_nat (length g)"
    by (simp_all add: print_int_nat)
  have "FlushData w = w\<lparr>tiw_files := (tiw_files w)(data_path base (length gs) \<mapsto> group_bytes g),
      tiw_index := tiw_index w @ index_line (data_path base (length gs), length g),
      tiw_m_pData := [], tiw_m_CycleCount := 0, tiw_m_DataFileCount := of_nat (length (gs @ [g]))\<rparr>"
    using False w(1,3-5) by (simp add: FlushData_def Let_def p index_line_def data_path_def add.commute)
  then show ?thesis
    using False w(1,2,6) holds_groups_snoc [OF w(7)]
    by (simp add: writer_at_def group_entries_snoc group_bytes_def)
qed

primrec IndexWriter_write_all :: "u8 list list \<Rightarrow> TraceIndexWriter \<Rightarrow> TraceIndexWriter result" where
  "IndexWriter_write_all [] w = Inr w"
| "IndexWriter_write_all (b # bs) w = (case IndexWriter_Write b w of
     Inl e \<Rightarrow> Inl e | Inr w' \<Rightarrow> IndexWriter_write_all bs w')"

lemma Write_groups:
  assumes "writer_at base gs g w" "length (concat gs @ g) < 2 ^ 31" "length (logged_bytes l) \<le> MaxFileSize"
  shows "\<exists>w' gs' g'. IndexWriter_Write (logged_bytes l) w = Inr w' \<and> writer_at base gs' g' w' \<and>
    concat gs' @ g' = concat gs @ g @ [l]"
proof (cases "MaxFileSize < length (tiw_m_pData w) + length (logged_bytes l)")
  case True
  then show ?thesis
    using assms(3) FlushData_groups [OF assms(1,2)]
    by (intro exI [of _ "(FlushData w)\<lparr>tiw_m_pData := logged_bytes l, tiw_m_CycleCount := 1\<rparr>"]
        exI [of _ "if g = [] then gs else gs @ [g]"] exI [of _ "[l]"])
      (auto simp: IndexWriter_Write_def Let_def writer_at_def group_bytes_def)
next
  case False
  then show ?thesis
    using assms(1,3)
    by (intro exI [of _ "w\<lparr>tiw_m_pData := group_bytes (g @ [l]), tiw_m_CycleCount := of_nat (length (g @ [l]))\<rparr>"]
        exI [of _ gs] exI [of _ "g @ [l]"])
      (simp add: IndexWriter_Write_def Let_def writer_at_def group_bytes_def)
qed

lemma write_all_groups:
  assumes "writer_at base gs g w" "length (concat gs @ g @ ls) < 2 ^ 31"
    "list_all (\<lambda>l. length (logged_bytes l) \<le> MaxFileSize) ls"
  shows "\<exists>w' gs' g'. IndexWriter_write_all (map logged_bytes ls) w = Inr w' \<and> writer_at base gs' g' w' \<and>
    concat gs' @ g' = concat gs @ g @ ls"
  using assms
proof (induction ls arbitrary: gs g w)
  case (Cons l ls)
  obtain w1 gs1 g1 where 1: "IndexWriter_Write (logged_bytes l) w = Inr w1" "writer_at base gs1 g1 w1"
      "concat gs1 @ g1 = concat gs @ g @ [l]"
    using Write_groups [OF Cons.prems(1), of l] Cons.prems(2,3) by auto
  have c: "concat gs1 @ g1 @ ls = concat gs @ g @ l # ls" using 1(3) by (metis append.assoc append_Cons append_Nil)
  obtain w' gs' g' where "IndexWriter_write_all (map logged_bytes ls) w1 = Inr w'" "writer_at base gs' g' w'"
      "concat gs' @ g' = concat gs1 @ g1 @ ls"
    using Cons.IH [OF 1(2)] Cons.prems(2,3) unfolding c by auto
  then show ?case using 1(1) c by auto
qed fastforce

text \<open>What the writer leaves: the data files and the index.\<close>

lemma written_files:
  assumes "list_all (\<lambda>l. length (logged_bytes l) \<le> MaxFileSize) ls" "length ls < 2 ^ 31"
  shows "\<exists>w gs. IndexWriter_write_all (map logged_bytes ls) (IndexWriter_new fs base) = Inr w \<and>
    concat gs = ls \<and> [] \<notin> set gs \<and> holds_groups base gs (IndexWriter_delete w) \<and>
    IndexWriter_delete w (base @ ''.tidx'') =
      Some (text_bytes (concat (map index_line (group_entries base gs))))"
proof -
  obtain w gs g where w: "IndexWriter_write_all (map logged_bytes ls) (IndexWriter_new fs base) = Inr w"
      "writer_at base gs g w" "concat gs @ g = ls"
    using write_all_groups [OF writer_at_new [of base fs], of ls] assms by auto
  let ?gs = "if g = [] then gs else gs @ [g]"
  have "writer_at base ?gs [] (FlushData w)" using FlushData_groups [OF w(2)] w(3) assms(2) by simp
  moreover have "concat ?gs = ls" using w(3) by auto
  ultimately show ?thesis
    using w(1) data_path_index [of base]
    by (intro exI [of _ w] exI [of _ ?gs])
      (simp add: writer_at_def IndexWriter_delete_def Let_def holds_groups_def)
qed

section \<open>The reader of the files\<close>

lemma parse_written_index:
  assumes "path_ok base" "length (concat gs) < 2 ^ 31"
  shows "ParseIndexFile_loop (istream_of (concat (map index_line (group_entries base gs)))) =
    Inr (map (\<lambda>e. (fst e, of_nat (snd e))) (group_entries base gs))"
proof -
  have "length g \<le> length (concat gs)" if "g \<in> set gs" for g
    using that by (induction gs) auto
  then have "length (gs ! k) < 2 ^ 31" if "k < length gs" for k
    using assms(2) nth_mem [OF that] by (meson le_less_trans)
  then have "list_all (\<lambda>e. path_ok (fst e) \<and> snd e < 2 ^ 32) (group_entries base gs)"
    using assms(1) by (fastforce simp: list_all_iff group_entries_def path_ok_data_path)
  then show ?thesis using parse_index [of _ "[]"] by (simp add: istream_of_def)
qed

abbreviation index_reads :: "files \<Rightarrow> TraceIndexReader \<Rightarrow> BinaryCycle list \<Rightarrow> bool" where
  "index_reads fs \<equiv> reads IndexReader_IsEnd IndexReader_GetCycle (IndexReader_Next fs)"

text \<open>
  Within a file the reader answers the cycles of the file; behind its last cycle it goes on as the
  reader does at the next entry.
\<close>

definition next_file :: "files \<Rightarrow> TraceBinaryReader \<Rightarrow> u32 \<Rightarrow> TraceIndexReader \<Rightarrow> TraceIndexReader result" where
  "next_file fs b n r =
    (let r = r\<lparr>tir_m_pTraceBinary := Some b, tir_m_Cycle := n, tir_m_EntryIndex := tir_m_EntryIndex r + 1\<rparr> in
     if tir_m_EntryIndex r = length (tir_m_Entries r) then Inr r else UpdateTraceBinary fs r)"

lemma index_reads_file:
  assumes "memory_reads m cs" "cs \<noteq> []"
    "tir_m_EntryIndex r < length (tir_m_Entries r)" "tir_m_pTraceBinary r = Some (Some m)"
    "\<And>b n. \<exists>r' cs'. next_file fs b n r = Inr r' \<and> P cs' \<and> index_reads fs r' cs'"
  shows "\<exists>cs'. P cs' \<and> index_reads fs r (cs @ cs')"
  using assms
proof (induction arbitrary: r rule: reads.induct)
  case (reads_cycle m c m' cs)
  let ?r = "r\<lparr>tir_m_pTraceBinary := Some (Some m'), tir_m_Cycle := tir_m_Cycle r + 1\<rparr>"
  have start: "\<not> IndexReader_IsEnd r" "IndexReader_GetCycle r = Inr (Some c)"
    using reads_cycle.hyps(2) reads_cycle.prems(2,3)
    by (simp_all add: IndexReader_IsEnd_def IndexReader_GetCycle_def BinaryReader_GetCycle_def)
  have more: "index_reads fs r (c # cs'')" if "IndexReader_Next fs r = Inr r'" "index_reads fs r' cs''" for r' cs''
    using reads.reads_cycle [where isEnd = IndexReader_IsEnd and getCycle = IndexReader_GetCycle] start that by blast
  have n: "BinaryReader_Next (Some m) = Inr (Some m')" using reads_cycle.hyps(3) by (simp add: BinaryReader_Next_def)
  show ?case
  proof (cases cs)
    case Nil
    then have "MemoryReader_IsEnd m'" using reads_cycle.hyps(4) by (auto elim: reads_NilE)
    then have "IndexReader_Next fs r = next_file fs (Some m') (tir_m_Cycle r + 1) r"
      using n reads_cycle.prems(3) by (simp add: IndexReader_Next_def next_file_def BinaryReader_IsEnd_def Let_def)
    moreover obtain r' cs' where "next_file fs (Some m') (tir_m_Cycle r + 1) r = Inr r'" "P cs'" "index_reads fs r' cs'"
      using reads_cycle.prems(4) by blast
    ultimately show ?thesis using more unfolding Nil by auto
  next
    case (Cons c2 cs2)
    then have "\<not> MemoryReader_IsEnd m'" using reads_cycle.hyps(4) by (auto elim: reads_ConsE)
    then have "IndexReader_Next fs r = Inr ?r"
      using n reads_cycle.prems(3) by (simp add: IndexReader_Next_def BinaryReader_IsEnd_def)
    moreover have "\<exists>cs'. P cs' \<and> index_reads fs ?r (cs @ cs')"
      using reads_cycle.prems Cons by (intro reads_cycle.IH) (simp_all add: next_file_def)
    ultimately show ?thesis using more by auto
  qed
qed simp

text \<open>The reader at the first cycle of a file of the writer.\<close>

lemma UpdateTraceBinary_reads:
  assumes "map fst (tir_m_Entries r) = map (data_path base) [0..<length (before @ gs)]"
    "holds_groups base (before @ gs) fs" "tir_m_EntryIndex r = length before"
    "[] \<notin> set gs" "gs \<noteq> []" "list_all logged_ok (concat gs)"
  shows "\<exists>r' cs. UpdateTraceBinary fs r = Inr r' \<and> index_reads fs r' cs \<and> list_all2 shows_logged (concat gs) cs"
  using assms
proof (induction gs arbitrary: before r)
  case (Cons g gs)
  have len: "length (tir_m_Entries r) = Suc (length before + length gs)"
    using arg_cong [OF Cons.prems(1), of length] by simp
  have "fst (tir_m_Entries r ! length before) = data_path base (length before)"
    using arg_cong [OF Cons.prems(1), of "\<lambda>xs. xs ! length before"] len by (simp del: upt_Suc)
  moreover have "fs (data_path base (length before)) = Some (group_bytes g)"
    using Cons.prems(2) by (force simp: holds_groups_def nth_append)
  moreover obtain l g' where g: "g = l # g'" using Cons.prems(4) by (cases g) auto
  then obtain m cs1 where m: "MemoryReader_new (group_bytes g) = Inr m" "memory_reads m cs1"
      "list_all2 shows_logged g cs1"
    using MemoryReader_reads [of l g'] Cons.prems(6) by (auto simp: group_bytes_def)
  ultimately have update: "UpdateTraceBinary fs r = Inr (r\<lparr>tir_m_pTraceBinary := Some (Some m)\<rparr>)"
    using Cons.prems(3,4) len by (auto simp add: UpdateTraceBinary_def BinaryReader_new_def)
  have cs1: "cs1 \<noteq> []" using m(3) g by auto
  have "\<exists>cs2. list_all2 shows_logged (concat gs) cs2 \<and>
      index_reads fs (r\<lparr>tir_m_pTraceBinary := Some (Some m)\<rparr>) (cs1 @ cs2)"
  proof (rule index_reads_file [OF m(2) cs1])
    fix b n
    let ?r = "r\<lparr>tir_m_pTraceBinary := Some b, tir_m_Cycle := n, tir_m_EntryIndex := tir_m_EntryIndex r + 1\<rparr>"
    have "next_file fs b n (r\<lparr>tir_m_pTraceBinary := Some (Some m)\<rparr>) = next_file fs b n r"
      by (simp add: next_file_def)
    moreover have "\<exists>r' cs'. next_file fs b n r = Inr r' \<and> list_all2 shows_logged (concat gs) cs' \<and>
        index_reads fs r' cs'"
    proof (cases "gs = []")
      case True
      then have "next_file fs b n r = Inr ?r" "index_reads fs ?r []"
        using len Cons.prems(3) by (auto simp: next_file_def IndexReader_IsEnd_def intro: reads_end)
      with True show ?thesis by auto
    next
      case False
      then have "next_file fs b n r = UpdateTraceBinary fs ?r"
        using len Cons.prems(3) by (simp add: next_file_def)
      then show ?thesis
        using Cons.IH [of ?r "before @ [g]"] Cons.prems False by (auto simp del: upt_Suc)
    qed
    ultimately show "\<exists>r' cs'. next_file fs b n (r\<lparr>tir_m_pTraceBinary := Some (Some m)\<rparr>) = Inr r' \<and>
        list_all2 shows_logged (concat gs) cs' \<and> index_reads fs r' cs'" by simp
  qed (use len Cons.prems(3) in simp_all)
  then obtain cs2 where "list_all2 shows_logged (concat gs) cs2"
      "index_reads fs (r\<lparr>tir_m_pTraceBinary := Some (Some m)\<rparr>) (cs1 @ cs2)" by blast
  then show ?case using update m(3) by (auto intro: list_all2_appendI)
qed simp

lemma UpdateTraceBinary_keeps:
  "UpdateTraceBinary fs r = Inr r' \<Longrightarrow>
   tir_m_Entries r' = tir_m_Entries r \<and> tir_m_Cycle r' = tir_m_Cycle r"
  by (cases "BinaryReader_new fs (fst (tir_m_Entries r ! tir_m_EntryIndex r))")
    (auto simp: UpdateTraceBinary_def split: if_splits)

text \<open>The index and the reader that is opened on it.\<close>

definition reader_of :: "string \<Rightarrow> logged list list \<Rightarrow> TraceIndexReader" where
  "reader_of base gs = \<lparr>tir_m_Entries = map (\<lambda>e. (fst e, of_nat (snd e))) (group_entries base gs),
    tir_m_EntryIndex = 0, tir_m_Cycle = 0, tir_m_pTraceBinary = None\<rparr>"

lemma reader_of_paths: "map fst (tir_m_Entries (reader_of base gs)) = map (data_path base) [0..<length gs]"
  by (simp add: reader_of_def group_entries_def)

lemma reader_of_reads:
  assumes "holds_groups base gs fs" "[] \<notin> set gs" "list_all logged_ok (concat gs)"
  shows "\<exists>r cs. UpdateTraceBinary fs (reader_of base gs) = Inr r \<and> index_reads fs r cs \<and>
    list_all2 shows_logged (concat gs) cs"
proof (cases "gs = []")
  case True
  then have "UpdateTraceBinary fs (reader_of base gs) = Inr (reader_of base gs)"
      "index_reads fs (reader_of base gs) []"
    by (auto simp: UpdateTraceBinary_def IndexReader_IsEnd_def reader_of_def group_entries_def intro: reads_end)
  with True show ?thesis by auto
next
  case False
  then show ?thesis
    using UpdateTraceBinary_reads [of "reader_of base gs" base "[]" gs fs] reader_of_paths assms
    by (simp add: reader_of_def)
qed

abbreviation logs :: "logged \<Rightarrow> u8 list \<Rightarrow> bool" where
  "logs l b \<equiv> log_cycle (lg_cycle l) (lg_xlen l) (lg_pc l) (lg_nodes l) = Inr b"

lemma written_index:
  assumes "list_all2 logs ls bs" "length ls < 2 ^ 31" "path_ok base"
  shows "\<exists>w gs. IndexWriter_write_all bs (IndexWriter_new fs base) = Inr w \<and> concat gs = ls \<and>
    [] \<notin> set gs \<and> holds_groups base gs (IndexWriter_delete w) \<and>
    IndexReader_new (IndexWriter_delete w) (base @ ''.tidx'') =
      UpdateTraceBinary (IndexWriter_delete w) (reader_of base gs)"
proof -
  have "b = logged_bytes l \<and> length (logged_bytes l) \<le> MaxFileSize" if "logs l b" for l b
    using log_cycle_bytes [OF that] by (simp add: logged_bytes_def MaxFileSize_def DefaultBufferSize_def)
  then have "list_all2 (\<lambda>l b. b = logged_bytes l \<and> length (logged_bytes l) \<le> MaxFileSize) ls bs"
    using assms(1) by (rule list_all2_mono [rotated])
  then have bs: "bs = map logged_bytes ls" "list_all (\<lambda>l. length (logged_bytes l) \<le> MaxFileSize) ls"
    by (induction rule: list_all2_induct) auto
  obtain w gs where w: "IndexWriter_write_all bs (IndexWriter_new fs base) = Inr w" "concat gs = ls"
      "[] \<notin> set gs" "holds_groups base gs (IndexWriter_delete w)"
      "IndexWriter_delete w (base @ ''.tidx'') = Some (text_bytes (concat (map index_line (group_entries base gs))))"
    using written_files [OF bs(2) assms(2), of fs base] bs(1) by blast
  have "IndexReader_new (IndexWriter_delete w) (base @ ''.tidx'') =
      UpdateTraceBinary (IndexWriter_delete w) (reader_of base gs)"
    using parse_written_index [OF assms(3), of gs] w(2,5) assms(2) by (simp add: IndexReader_new_def reader_of_def)
  with w show ?thesis by blast
qed

section \<open>Skipping cycles\<close>

lemma steps_reads:
  "index_reads fs r cs \<Longrightarrow> n \<le> length cs \<Longrightarrow>
   \<exists>r'. IndexReader_steps fs n r = Inr r' \<and> index_reads fs r' (drop n cs)"
proof (induction n arbitrary: r cs)
  case (Suc n)
  obtain c cs' where "cs = c # cs'" using Suc.prems(2) by (cases cs) auto
  with Suc.prems obtain r1 where "IndexReader_Next fs r = Inr r1" "index_reads fs r1 cs'"
    by (auto elim: reads_ConsE)
  with Suc.IH [of r1 cs'] Suc.prems(2) \<open>cs = c # cs'\<close> show ?case by auto
qed simp

lemma skip_entries_finds:
  assumes "skipped \<le> n" "n < skipped + sum_list (map snd es)" "skipped + sum_list (map snd es) < 2 ^ 32"
  shows "\<exists>k < length es. skip_entries (of_nat n) (map (\<lambda>e. (fst e, of_nat (snd e))) es) i (of_nat skipped) =
      Some (i + k, of_nat (skipped + sum_list (map snd (take k es)))) \<and>
    skipped + sum_list (map snd (take k es)) \<le> n"
  using assms
proof (induction es arbitrary: i skipped)
  case (Cons e es)
  have u: "unat (of_nat m :: u32) = m" if "m < 2 ^ 32" for m
    using that by (simp add: unat_of_nat take_bit_nat_eq_self)
  have "n < skipped + snd e \<longleftrightarrow> (of_nat n :: u32) < of_nat (skipped + snd e)"
    using Cons.prems by (simp add: word_less_nat_alt u del: of_nat_add)
  then have less: "(of_nat n :: u32) < of_nat skipped + of_nat (snd e) \<longleftrightarrow> n < skipped + snd e" by simp
  show ?case
  proof (cases "n < skipped + snd e")
    case True
    then show ?thesis using Cons.prems less by (intro exI [of _ 0]) simp
  next
    case False
    then obtain k where "k < length es"
      "skip_entries (of_nat n) (map (\<lambda>e. (fst e, of_nat (snd e))) es) (i + 1) (of_nat (skipped + snd e)) =
        Some (i + 1 + k, of_nat (skipped + snd e + sum_list (map snd (take k es))))"
      "skipped + snd e + sum_list (map snd (take k es)) \<le> n"
      using Cons.IH [of "skipped + snd e" "i + 1"] Cons.prems by auto
    then show ?thesis using False less by (intro exI [of _ "Suc k"]) (simp add: add.assoc)
  qed
qed simp

lemma group_entries_counts:
  "k \<le> length gs \<Longrightarrow> sum_list (map snd (take k (group_entries base gs))) = length (concat (take k gs))"
proof -
  assume "k \<le> length gs"
  then have "map snd (take k (group_entries base gs)) = map length (take k gs)"
    by (intro nth_equalityI) (simp_all add: group_entries_def)
  then show ?thesis by (simp add: length_concat)
qed

lemma NextBy_reads:
  assumes "holds_groups base gs fs" "[] \<notin> set gs" "list_all logged_ok (concat gs)"
    "length (concat gs) < 2 ^ 31" "n < length (concat gs)"
    "tir_m_Entries r = tir_m_Entries (reader_of base gs)" "tir_m_Cycle r = 0"
  shows "\<exists>r' cs. IndexReader_NextBy fs (of_nat n) r = Inr r' \<and> index_reads fs r' cs \<and>
    list_all2 shows_logged (drop n (concat gs)) cs"
proof -
  have len: "length (group_entries base gs) = length gs" by (simp add: group_entries_def)
  obtain k where k: "k < length gs"
    "skip_entries (of_nat n) (tir_m_Entries r) 0 0 = Some (k, of_nat (length (concat (take k gs))))"
    "length (concat (take k gs)) \<le> n"
    using skip_entries_finds [of 0 n "group_entries base gs" 0] group_entries_counts [of "length gs" gs base]
      group_entries_counts [of _ gs base] assms(4-6) len by (auto simp: reader_of_def)
  let ?skipped = "length (concat (take k gs))"
  let ?r = "r\<lparr>tir_m_EntryIndex := k, tir_m_Cycle := of_nat ?skipped\<rparr>"
  have gs: "gs = take k gs @ drop k gs" by simp
  have all: "concat gs = concat (take k gs) @ concat (drop k gs)"
    by (metis append_take_drop_id concat_append)
  have "\<exists>r1 cs. UpdateTraceBinary fs ?r = Inr r1 \<and> index_reads fs r1 cs \<and>
      list_all2 shows_logged (concat (drop k gs)) cs"
  proof (rule UpdateTraceBinary_reads [of _ base "take k gs"])
    show "list_all logged_ok (concat (drop k gs))" using assms(3) all by (metis list_all_append)
    show "[] \<notin> set (drop k gs)" using assms(2) by (meson in_set_dropD)
  qed (use assms(1,6) k(1) reader_of_paths [of base gs] in simp_all)
  then obtain r1 cs where r1: "UpdateTraceBinary fs ?r = Inr r1" "index_reads fs r1 cs"
      "list_all2 shows_logged (concat (drop k gs)) cs" by blast
  have "unat (of_nat m :: u32) = m" if "m \<le> n" for m
    using that assms(4,5) by (simp add: unat_of_nat take_bit_nat_eq_self)
  then have u: "unat (of_nat n :: u32) - unat (of_nat ?skipped :: u32) = n - ?skipped" using k(3) by simp
  have "n - ?skipped \<le> length cs"
    using list_all2_lengthD [OF r1(3)] assms(5) arg_cong [OF all, of length] by simp
  then obtain r' where r': "IndexReader_steps fs (n - ?skipped) r1 = Inr r'" "index_reads fs r' (drop (n - ?skipped) cs)"
    using steps_reads [OF r1(2)] by blast
  have "IndexReader_NextBy fs (of_nat n) r = Inr r'"
    using k(2) r1(1) r'(1) u assms(7) by (simp add: IndexReader_NextBy_def Let_def)
  moreover have "drop n (concat gs) = drop (n - ?skipped) (concat (drop k gs))"
    using k(3) by (subst all) simp
  ultimately show ?thesis using r'(2) list_all2_dropI [OF r1(3)] by metis
qed

lemma shown_pcs: "list_all2 shows_logged ls cs \<Longrightarrow> map BinaryCycle_GetPc cs = map (\<lambda>l. Inr (lg_pc l)) ls"
  by (induction rule: list_all2_induct) (simp_all add: shows_logged_def cycle_shows_def)

lemma example_logs:
  "\<exists>bs. list_all2 logs [\<lparr>lg_cycle = 0, lg_xlen = XLEN32, lg_pc = 0x1000, lg_nodes = []\<rparr>,
    \<lparr>lg_cycle = 1, lg_xlen = XLEN32, lg_pc = 0x1004, lg_nodes = [Node_OpEvent \<lparr>no_insn = 0x13, no_priv = 3\<rparr>]\<rparr>] bs"
  by (simp add: list_all2_Cons1 log_cycle_fits cycle_bytes_def basic_bytes_def NodeBasic_bytes_def
      NodeOpEvent_bytes_def DefaultBufferSize_def)

text \<open>
  C15: an indexed trace is read back: when logged cycles are written one after the other and the
  writer is deleted, the reader that is opened on the index file finds the data files, however many
  the cycles were spread over, and answers exactly the written cycles in their order, each with its
  contents, and then its end.
\<close>

theorem index_trace_roundtrip:
  assumes "list_all2 logs ls bs" "list_all logged_ok ls" "length ls < 2 ^ 31" "path_ok base"
  shows "\<exists>w r cs. IndexWriter_write_all bs (IndexWriter_new fs base) = Inr w \<and>
    IndexReader_new (IndexWriter_delete w) (base @ ''.tidx'') = Inr r \<and>
    index_reads (IndexWriter_delete w) r cs \<and> list_all2 shows_logged ls cs"
  using written_index [OF assms(1,3,4), of fs] reader_of_reads assms(2) by metis

theorem index_trace_roundtrip_witness:
  "\<exists>bs w r cs. IndexWriter_write_all bs (IndexWriter_new Map.empty ''trace'') = Inr w \<and>
    IndexReader_new (IndexWriter_delete w) (''trace'' @ ''.tidx'') = Inr r \<and>
    index_reads (IndexWriter_delete w) r cs \<and> map BinaryCycle_GetPc cs = [Inr 0x1000, Inr 0x1004]"
proof -
  let ?ls = "[\<lparr>lg_cycle = 0, lg_xlen = XLEN32, lg_pc = 0x1000, lg_nodes = []\<rparr>,
    \<lparr>lg_cycle = 1, lg_xlen = XLEN32, lg_pc = 0x1004, lg_nodes = [Node_OpEvent \<lparr>no_insn = 0x13, no_priv = 3\<rparr>]\<rparr>]"
  obtain bs where bs: "list_all2 logs ?ls bs" using example_logs by blast
  have "list_all logged_ok ?ls" "path_ok ''trace''" "length ?ls < 2 ^ 31"
    by (simp_all add: logged_ok_def node_ok_def path_ok_def isspace_def)
  from index_trace_roundtrip [OF bs this(1,3,2), of Map.empty] obtain w r cs where
    "IndexWriter_write_all bs (IndexWriter_new Map.empty ''trace'') = Inr w"
    "IndexReader_new (IndexWriter_delete w) (''trace'' @ ''.tidx'') = Inr r"
    "index_reads (IndexWriter_delete w) r cs" "list_all2 shows_logged ?ls cs" by blast
  moreover from this(4) have "map BinaryCycle_GetPc cs = [Inr 0x1000, Inr 0x1004]"
    by (auto dest: shown_pcs)
  ultimately show ?thesis by (intro exI conjI)
qed

text \<open>
  C33: skipping \<open>n\<close> cycles of an indexed trace, which opens the data file of the destination instead
  of stepping through the files, leaves the reader where it answers the cycles from number \<open>n\<close> on.
\<close>

theorem index_trace_skip:
  assumes "list_all2 logs ls bs" "list_all logged_ok ls" "length ls < 2 ^ 31" "path_ok base" "n < length ls"
  shows "\<exists>w r r' cs. IndexWriter_write_all bs (IndexWriter_new fs base) = Inr w \<and>
    IndexReader_new (IndexWriter_delete w) (base @ ''.tidx'') = Inr r \<and>
    IndexReader_NextBy (IndexWriter_delete w) (of_nat n) r = Inr r' \<and>
    index_reads (IndexWriter_delete w) r' cs \<and> list_all2 shows_logged (drop n ls) cs"
proof -
  obtain w gs where w: "IndexWriter_write_all bs (IndexWriter_new fs base) = Inr w" "concat gs = ls"
      "[] \<notin> set gs" "holds_groups base gs (IndexWriter_delete w)"
      "IndexReader_new (IndexWriter_delete w) (base @ ''.tidx'') =
        UpdateTraceBinary (IndexWriter_delete w) (reader_of base gs)"
    using written_index [OF assms(1,3,4), of fs] by blast
  obtain r where r: "UpdateTraceBinary (IndexWriter_delete w) (reader_of base gs) = Inr r"
    using reader_of_reads [OF w(4,3)] assms(2) w(2) by blast
  then have "tir_m_Entries r = tir_m_Entries (reader_of base gs)" "tir_m_Cycle r = 0"
    by (simp_all add: UpdateTraceBinary_keeps [OF r] reader_of_def)
  then show ?thesis
    using NextBy_reads [OF w(4,3), of n r] assms(2,3,5) w(1,2,5) r by auto
qed

theorem index_trace_skip_witness:
  "\<exists>bs w r r' cs. IndexWriter_write_all bs (IndexWriter_new Map.empty ''trace'') = Inr w \<and>
    IndexReader_new (IndexWriter_delete w) (''trace'' @ ''.tidx'') = Inr r \<and>
    IndexReader_NextBy (IndexWriter_delete w) (of_nat 1) r = Inr r' \<and>
    index_reads (IndexWriter_delete w) r' cs \<and> map BinaryCycle_GetPc cs = [Inr 0x1004]"
proof -
  let ?ls = "[\<lparr>lg_cycle = 0, lg_xlen = XLEN32, lg_pc = 0x1000, lg_nodes = []\<rparr>,
    \<lparr>lg_cycle = 1, lg_xlen = XLEN32, lg_pc = 0x1004, lg_nodes = [Node_OpEvent \<lparr>no_insn = 0x13, no_priv = 3\<rparr>]\<rparr>]"
  obtain bs where bs: "list_all2 logs ?ls bs" using example_logs by blast
  have "list_all logged_ok ?ls" "path_ok ''trace''" "length ?ls < 2 ^ 31" "1 < length ?ls"
    by (simp_all add: logged_ok_def node_ok_def path_ok_def isspace_def)
  from index_trace_skip [OF bs this(1,3,2,4), of Map.empty] obtain w r r' cs where
    "IndexWriter_write_all bs (IndexWriter_new Map.empty ''trace'') = Inr w"
    "IndexReader_new (IndexWriter_delete w) (''trace'' @ ''.tidx'') = Inr r"
    "IndexReader_NextBy (IndexWriter_delete w) (of_nat 1) r = Inr r'"
    "index_reads (IndexWriter_delete w) r' cs" "list_all2 shows_logged (drop 1 ?ls) cs" by blast
  moreover from this(5) have "map BinaryCycle_GetPc cs = [Inr 0x1004]"
    by (auto dest: shown_pcs)
  ultimately show ?thesis by (intro exI conjI)
qed

end
