(* ===== verification/Rafi_TraceLogger.thy ===== *)
theory Rafi_TraceLogger
  imports Rafi_Emulator Rafi_TraceIndex
begin

text \<open>
  The trace logger (\<^verbatim>\<open>src/rafi-emu/TraceLogger.cpp\<close>) and the loop of the emulator with it
  (\<open>Emulator::Process\<close> of \<^verbatim>\<open>src/rafi-emu/Emulator.cpp\<close>). \<open>Emulator_Process\<close> is the same loop
  without the logger.
\<close>

section \<open>The logger\<close>

record TraceLoggerConfig =
  tlc_enabled :: bool
  tlc_enableDumpCsr :: bool
  tlc_enableDumpFpReg :: bool
  tlc_enableDumpIntReg :: bool
  tlc_enableDumpMemory :: bool
  tlc_enableDumpHostIo :: bool
  tlc_path :: string

record TraceLogger =
  tl_m_XLEN :: XLEN
  tl_m_Config :: TraceLoggerConfig
  tl_m_pTraceWriter :: "TraceIndexWriter option"
  tl_m_pCurrentCycle :: "BinaryCycleLogger option"

type_synonym 'a log_act = "(TraceLogger, 'a) act"

text \<open>The constructor and the destructor take the file system to the one they leave.\<close>

definition TraceLogger_new :: "XLEN \<Rightarrow> TraceLoggerConfig \<Rightarrow> files \<Rightarrow> TraceLogger" where
  "TraceLogger_new xlen config fs = \<lparr>tl_m_XLEN = xlen, tl_m_Config = config,
     tl_m_pTraceWriter = (if tlc_enabled config then Some (IndexWriter_new fs (tlc_path config)) else None),
     tl_m_pCurrentCycle = None\<rparr>"

definition TraceLogger_delete :: "TraceLogger \<Rightarrow> files \<Rightarrow> files" where
  "TraceLogger_delete logger fs = (case tl_m_pTraceWriter logger of
     None \<Rightarrow> fs | Some w \<Rightarrow> IndexWriter_delete w)"

text \<open>\<open>if (!m_Config.enabled) return;\<close>\<close>

definition when_enabled :: "unit log_act \<Rightarrow> unit log_act" where
  "when_enabled m = bindM (getM (\<lambda>l. tlc_enabled (tl_m_Config l))) (\<lambda>enabled. whenM enabled m)"

definition BeginCycle :: "i32 \<Rightarrow> vaddr_t \<Rightarrow> unit log_act" where
  "BeginCycle cycle pc = when_enabled
     (bindM (getM tl_m_XLEN) (\<lambda>xlen.
      bindM (liftM (BinaryCycleLogger_new cycle xlen pc)) (\<lambda>logger.
      modifyM (\<lambda>l. l\<lparr>tl_m_pCurrentCycle := Some logger\<rparr>))))"

text \<open>A call through \<open>m_pCurrentCycle\<close>.\<close>

definition on_current :: "(BinaryCycleLogger \<Rightarrow> BinaryCycleLogger result) \<Rightarrow> unit log_act" where
  "on_current f = bindM (getM tl_m_pCurrentCycle) (\<lambda>current. case current of
     None \<Rightarrow> failM Undefined
   | Some logger \<Rightarrow> bindM (liftM (f logger)) (\<lambda>logger'.
       modifyM (\<lambda>l. l\<lparr>tl_m_pCurrentCycle := Some logger'\<rparr>)))"

abbreviation add_node :: "node \<Rightarrow> unit log_act" where
  "add_node n \<equiv> on_current (Logger_Add n)"

definition RecordState :: "System \<Rightarrow> unit log_act" where
  "RecordState s = when_enabled
     (bindM (getM tl_m_Config) (\<lambda>config.
      bindM (getM tl_m_XLEN) (\<lambda>xlen.
      bindM (whenM (tlc_enableDumpIntReg config) (case xlen of
          XLEN32 \<Rightarrow> add_node (NodeIntReg32 (System_CopyIntReg32 s))
        | XLEN64 \<Rightarrow> add_node (NodeIntReg64 (System_CopyIntReg64 s))
        | XLEN128 \<Rightarrow> failM EmuException)) (\<lambda>_.
      bindM (whenM (tlc_enableDumpFpReg config)
        (bindM (liftM (System_CopyFpReg 256 s)) (\<lambda>regs. add_node (NodeFpReg regs)))) (\<lambda>_.
      bindM (whenM (tlc_enableDumpHostIo config)
        (bindM (liftM (System_GetHostIoValue s)) (\<lambda>value.
          add_node (Node_Io \<lparr>ni_hostIo = value, ni_reserved = 0\<rparr>)))) (\<lambda>_.
      whenM (tlc_enableDumpCsr config \<or> tlc_enableDumpMemory config) (failM ProcessExit)))))))"

definition TrapType_value :: "TrapType \<Rightarrow> u32" where
  "TrapType_value t = (case t of Interrupt \<Rightarrow> 0 | Exception \<Rightarrow> 1 | Return \<Rightarrow> 2)"

definition MemoryAccessType_value :: "MemoryAccessType \<Rightarrow> u32" where
  "MemoryAccessType_value t = (case t of Instruction \<Rightarrow> 0 | Load \<Rightarrow> 2 | Store \<Rightarrow> 3)"

definition op_node :: "OpEvent \<Rightarrow> NodeOpEvent" where
  "op_node e = \<lparr>no_insn = oe_insn e, no_priv = ucast (PrivilegeLevel_value (oe_privilegeLevel e))\<rparr>"

definition trap_node :: "TrapEvent \<Rightarrow> NodeTrapEvent" where
  "trap_node e = \<lparr>nt_trapType = TrapType_value (te_trapType e),
     nt_from = ucast (PrivilegeLevel_value (te_from e)), nt_to = ucast (PrivilegeLevel_value (te_to e)),
     nt_cause = te_trapCause e, nt_trapValue = te_trapValue e\<rparr>"

definition memory_node :: "MemoryAccessEvent \<Rightarrow> NodeMemoryEvent" where
  "memory_node e = \<lparr>nm_accessType = MemoryAccessType_value (mae_accessType e), nm_size = mae_size e,
     nm_value = mae_value e, nm_vaddr = mae_virtualAddress e, nm_paddr = mae_physicalAddress e\<rparr>"

text \<open>The loop over the memory events; \<open>fuel\<close> is the number of events left.\<close>

primrec record_memory_events :: "nat \<Rightarrow> i32 \<Rightarrow> System \<Rightarrow> unit log_act" where
  "record_memory_events 0 index s = returnM ()"
| "record_memory_events (Suc n) index s =
     bindM (liftM (System_CopyMemoryAccessEvent index s)) (\<lambda>e.
     bindM (add_node (Node_MemoryEvent (memory_node e))) (\<lambda>_.
     record_memory_events n (index + 1) s))"

definition RecordEvent :: "System \<Rightarrow> unit log_act" where
  "RecordEvent s = when_enabled
     (bindM (whenM (System_IsOpEventExist s) (add_node (Node_OpEvent (op_node (System_CopyOpEvent s))))) (\<lambda>_.
      bindM (whenM (System_IsTrapEventExist s) (add_node (Node_TrapEvent (trap_node (System_CopyTrapEvent s))))) (\<lambda>_.
      record_memory_events (unat (System_GetMemoryAccessEventCount s)) 0 s)))"

definition EndCycle :: "unit log_act" where
  "EndCycle = when_enabled
     (bindM (on_current Logger_Break) (\<lambda>_.
      bindM (getM tl_m_pTraceWriter) (\<lambda>writer.
      bindM (getM tl_m_pCurrentCycle) (\<lambda>current. case (writer, current) of
          (Some w, Some data) \<Rightarrow> bindM (liftM (IndexWriter_Write data w)) (\<lambda>w'.
            modifyM (\<lambda>l. l\<lparr>tl_m_pTraceWriter := Some w', tl_m_pCurrentCycle := None\<rparr>))
        | _ \<Rightarrow> failM Undefined))))"

section \<open>The loop of the emulator with the logger\<close>

text \<open>
  The loop reads \<open>dump-skip-cycle\<close> before each cycle through the reference \<open>m_Option\<close>, which the
  constructor of \<open>Emulator\<close> binds to its own parameter and which dangles when the loop runs. What such
  a read yields is nothing that the program defines: \<open>skip k\<close> is the value that it yields when the
  counter is \<open>k\<close>, an argument of the model. The number of a logged cycle is the bound of the loop.
\<close>

definition dump_begin :: "bool \<Rightarrow> i32 \<Rightarrow> System \<Rightarrow> unit log_act" where
  "dump_begin dumpEnabled cycle s =
     whenM dumpEnabled (bindM (BeginCycle cycle (System_GetPc s)) (\<lambda>_. RecordState s))"

definition dump_end :: "bool \<Rightarrow> System \<Rightarrow> unit log_act" where
  "dump_end dumpEnabled s = whenM dumpEnabled (bindM (RecordEvent s) (\<lambda>_. EndCycle))"

partial_function (option) Emulator_ProcessTraced ::
  "Libraries \<Rightarrow> (i32 \<Rightarrow> i32) \<Rightarrow> i32 \<Rightarrow> i32 \<Rightarrow> Emulator \<Rightarrow> TraceLogger \<Rightarrow> ((Emulator \<times> TraceLogger) result) option" where
  "Emulator_ProcessTraced libs skip condition cycle e l =
    (if emu_m_Cycle e <s cycle \<or> cycle = CycleForever then
       let dumpEnabled = skip (emu_m_Cycle e) \<le>s emu_m_Cycle e in
       (case dump_begin dumpEnabled cycle (emu_m_System e) l of
          Inl f \<Rightarrow> Some (Inl f)
        | Inr begun \<Rightarrow> (case IsStopConditionFilledPre condition (emu_m_System e) of
            Inl f \<Rightarrow> Some (Inl f)
          | Inr stop \<Rightarrow>
              if stop then Some (map_sum id (\<lambda>r. (e, snd r)) (whenM dumpEnabled EndCycle (snd begun)))
              else (case System_ProcessCycle libs (emu_m_System e) of
                  Inl f \<Rightarrow> Some (Inl f)
                | Inr r \<Rightarrow> (case dump_end dumpEnabled (snd r) (snd begun) of
                    Inl f \<Rightarrow> Some (Inl f)
                  | Inr ended \<Rightarrow>
                      if IsStopConditionFilledPost condition (snd r)
                      then Some (Inr (e\<lparr>emu_m_System := snd r\<rparr>, snd ended))
                      else if emu_m_Cycle e = 0x7fffffff then None
                      else Emulator_ProcessTraced libs skip condition cycle
                        (e\<lparr>emu_m_System := snd r, emu_m_Cycle := emu_m_Cycle e + 1\<rparr>) (snd ended)))))
     else Some (Inr (e, l)))"

end
