(* ===== verification/Rafi_TraceLogger_Ok.thy ===== *)
theory Rafi_TraceLogger_Ok
  imports Rafi_TraceLogger Rafi_TraceIndex_Ok Rafi_Run_Ok Rafi_Gdb_Ok
begin

text \<open>
  Tracing: the loop with the logger runs the machine as the loop without it does, and what the
  reader finds in the files that the logger leaves is the run, cycle by cycle.
\<close>

section \<open>One turn of the loop\<close>

lemma Traced_turn:
  fixes e :: Emulator
  assumes "Emulator_ProcessTraced libs skip condition cycle e l = Some (Inr (e', l'))"
  obtains (out) "\<not> in_bound cycle (emu_m_Cycle e)" "e' = e" "l' = l"
  | (pre) l1 where "in_bound cycle (emu_m_Cycle e)"
      "dump_begin (skip (emu_m_Cycle e) \<le>s emu_m_Cycle e) cycle (emu_m_System e) l = Inr ((), l1)"
      "IsStopConditionFilledPre condition (emu_m_System e) = Inr True" "e' = e"
      "whenM (skip (emu_m_Cycle e) \<le>s emu_m_Cycle e) EndCycle l1 = Inr ((), l')"
  | (post) l1 t where "in_bound cycle (emu_m_Cycle e)"
      "dump_begin (skip (emu_m_Cycle e) \<le>s emu_m_Cycle e) cycle (emu_m_System e) l = Inr ((), l1)"
      "IsStopConditionFilledPre condition (emu_m_System e) = Inr False"
      "System_ProcessCycle libs (emu_m_System e) = Inr ((), t)"
      "dump_end (skip (emu_m_Cycle e) \<le>s emu_m_Cycle e) t l1 = Inr ((), l')"
      "IsStopConditionFilledPost condition t" "e' = e\<lparr>emu_m_System := t\<rparr>"
  | (go_on) l1 t l2 where "in_bound cycle (emu_m_Cycle e)"
      "dump_begin (skip (emu_m_Cycle e) \<le>s emu_m_Cycle e) cycle (emu_m_System e) l = Inr ((), l1)"
      "System_ProcessCycle libs (emu_m_System e) = Inr ((), t)" "continues condition (emu_m_System e) t"
      "dump_end (skip (emu_m_Cycle e) \<le>s emu_m_Cycle e) t l1 = Inr ((), l2)" "emu_m_Cycle e \<noteq> 0x7fffffff"
      "Emulator_ProcessTraced libs skip condition cycle
        (e\<lparr>emu_m_System := t, emu_m_Cycle := emu_m_Cycle e + 1\<rparr>) l2 = Some (Inr (e', l'))"
proof -
  let ?D = "skip (emu_m_Cycle e) \<le>s emu_m_Cycle e"
  note unf = assms [unfolded Emulator_ProcessTraced.simps [of libs skip condition cycle e l] in_bound_def [symmetric] Let_def]
  show ?thesis
  proof (cases "in_bound cycle (emu_m_Cycle e)")
    case False
    then show ?thesis using unf by (intro out) simp_all
  next
    case inb: True
    obtain l1 where l1: "dump_begin ?D cycle (emu_m_System e) l = Inr ((), l1)"
      using unf inb by (cases "dump_begin ?D cycle (emu_m_System e) l") auto
    obtain b where b: "IsStopConditionFilledPre condition (emu_m_System e) = Inr b"
      using unf inb l1 by (cases "IsStopConditionFilledPre condition (emu_m_System e)") simp_all
    show ?thesis
    proof (cases b)
      case True
      then show ?thesis using unf inb l1 b pre by (auto simp: map_sum_eq_Inr)
    next
      case False
      obtain t where t: "System_ProcessCycle libs (emu_m_System e) = Inr ((), t)"
        using unf inb l1 b False by (cases "System_ProcessCycle libs (emu_m_System e)") auto
      obtain l2 where l2: "dump_end ?D t l1 = Inr ((), l2)"
        using unf inb l1 b False t by (cases "dump_end ?D t l1") auto
      show ?thesis
      proof (cases "IsStopConditionFilledPost condition t")
        case True
        then show ?thesis using unf inb l1 b False t l2 post by simp
      next
        case nopost: False
        then have "emu_m_Cycle e \<noteq> 0x7fffffff" using unf inb l1 b False t l2 by (auto split: if_splits)
        then show ?thesis using unf inb l1 b False t l2 nopost go_on by (simp add: continues_def)
      qed
    qed
  qed
qed

text \<open>The counter grows from turn to turn, and a run can be followed by induction on what is left of it.\<close>

lemma run_left:
  fixes c :: i32
  assumes "c \<noteq> 0x7fffffff"
  shows "nat (2 ^ 31 - 1 - sint (c + 1)) < nat (2 ^ 31 - 1 - sint c)"
  using sint_inc [OF assms] sint_lt [of "c + 1"] by simp

section \<open>The machine is not disturbed\<close>

lemma traced_transparent:
  assumes "Emulator_ProcessTraced libs skip condition cycle e l = Some (Inr (e', l'))"
  shows "Emulator_Process libs condition cycle e = Some (Inr e')"
  using assms
proof (induction "nat (2 ^ 31 - 1 - sint (emu_m_Cycle e))" arbitrary: e l rule: less_induct)
  case less
  from less.prems show ?case
  proof (cases rule: Traced_turn)
    case out then show ?thesis using Process_out by simp
  next
    case (pre l1) then show ?thesis using Process_pre_stop by simp
  next
    case (post l1 t)
    then show ?thesis by (subst Emulator_Process.simps) (simp add: in_bound_def)
  next
    case (go_on l1 t l2)
    then show ?thesis using less.hyps [OF _ go_on(7)] run_left [OF go_on(6)] Process_step [OF go_on(1,3,4,6)] by simp
  qed
qed

lemma disabled_eval:
  assumes "\<not> tlc_enabled (tl_m_Config l)"
  shows "dump_begin b cycle s l = Inr ((), l)" "dump_end b s l = Inr ((), l)" "whenM b EndCycle l = Inr ((), l)"
  using assms
  by (simp_all add: dump_begin_def dump_end_def BeginCycle_def RecordState_def RecordEvent_def EndCycle_def
      when_enabled_def whenM_def bindM_def getM_def returnM_def)

lemma traced_disabled:
  fixes e :: Emulator
  assumes "\<not> tlc_enabled (tl_m_Config l)"
  shows "Emulator_ProcessTraced libs skip condition cycle e l =
    map_option (map_sum id (\<lambda>e'. (e', l))) (Emulator_Process libs condition cycle e)"
proof (induction "nat (2 ^ 31 - 1 - sint (emu_m_Cycle e))" arbitrary: e rule: less_induct)
  case less
  note unf = Emulator_ProcessTraced.simps [of libs skip condition cycle e l] Emulator_Process.simps [of libs condition cycle e]
    disabled_eval [OF assms]
  have step: "Emulator_ProcessTraced libs skip condition cycle (e\<lparr>emu_m_System := t, emu_m_Cycle := emu_m_Cycle e + 1\<rparr>) l =
      map_option (map_sum id (\<lambda>e'. (e', l))) (Emulator_Process libs condition cycle
        (e\<lparr>emu_m_System := t, emu_m_Cycle := emu_m_Cycle e + 1\<rparr>))" if "emu_m_Cycle e \<noteq> 0x7fffffff" for t
    using less run_left [OF that] by simp
  show ?case
  proof (cases "IsStopConditionFilledPre condition (emu_m_System e)")
    case (Inl f) then show ?thesis unfolding unf Let_def by simp
  next
    case pre: (Inr b)
    show ?thesis
    proof (cases "System_ProcessCycle libs (emu_m_System e)")
      case (Inl f) then show ?thesis using pre unfolding unf Let_def by (simp add: disabled_eval [OF assms])
    next
      case (Inr r)
      then show ?thesis
        using pre step unfolding unf in_bound_def [symmetric] Let_def by (simp add: disabled_eval [OF assms])
    qed
  qed
qed

section \<open>The nodes of a cycle\<close>

definition state_nodes :: "TraceLoggerConfig \<Rightarrow> XLEN \<Rightarrow> System \<Rightarrow> node list" where
  "state_nodes config xlen s =
     (if tlc_enableDumpIntReg config then (case xlen of XLEN32 \<Rightarrow> [NodeIntReg32 (System_CopyIntReg32 s)]
        | XLEN64 \<Rightarrow> [NodeIntReg64 (System_CopyIntReg64 s)] | XLEN128 \<Rightarrow> []) else []) @
     (if tlc_enableDumpFpReg config then [NodeFpReg (fpreg_m_Entries (cpu_m_FpRegFile (sys_m_Processor s)))] else []) @
     (if tlc_enableDumpHostIo config then (case System_GetHostIoValue s of Inl _ \<Rightarrow> []
        | Inr v \<Rightarrow> [Node_Io \<lparr>ni_hostIo = v, ni_reserved = 0\<rparr>]) else [])"

definition memory_events :: "System \<Rightarrow> MemoryAccessEvent list" where
  "memory_events s = take (unat (System_GetMemoryAccessEventCount s))
     (mau_m_Events (cpu_m_MemAccessUnit (sys_m_Processor s)))"

definition op_events :: "System \<Rightarrow> OpEvent list" where
  "op_events s = (if System_IsOpEventExist s then [System_CopyOpEvent s] else [])"

definition trap_events :: "System \<Rightarrow> TrapEvent list" where
  "trap_events s = (if System_IsTrapEventExist s then [System_CopyTrapEvent s] else [])"

definition event_nodes :: "System \<Rightarrow> node list" where
  "event_nodes s = map (\<lambda>e. Node_OpEvent (op_node e)) (op_events s) @
     map (\<lambda>e. Node_TrapEvent (trap_node e)) (trap_events s) @
     map (\<lambda>e. Node_MemoryEvent (memory_node e)) (memory_events s)"

text \<open>An action of the logger that does nothing but add nodes to the current cycle.\<close>

definition adds :: "TraceLogger \<Rightarrow> node list \<Rightarrow> TraceLogger \<Rightarrow> bool" where
  "adds l ns l' \<longleftrightarrow> (\<exists>b b'. tl_m_pCurrentCycle l = Some b \<and> Logger_AddAll ns b = Inr b' \<and>
     l' = l\<lparr>tl_m_pCurrentCycle := Some b'\<rparr>)"

lemma AddAll_append: "Logger_AddAll (ns @ ms) b = (case Logger_AddAll ns b of Inl e \<Rightarrow> Inl e | Inr b' \<Rightarrow> Logger_AddAll ms b')"
  by (induction ns arbitrary: b) (simp_all split: sum.split)

lemma adds_Nil: "adds l [] l \<longleftrightarrow> tl_m_pCurrentCycle l \<noteq> None"
  by (cases l) (auto simp: adds_def)

lemma adds_append: "adds l ns l1 \<Longrightarrow> adds l1 ms l2 \<Longrightarrow> adds l (ns @ ms) l2"
  by (auto simp: adds_def AddAll_append)

lemma adds_current: "adds l ns l1 \<Longrightarrow> tl_m_pCurrentCycle l1 \<noteq> None \<and> tl_m_Config l1 = tl_m_Config l \<and>
    tl_m_XLEN l1 = tl_m_XLEN l \<and> tl_m_pTraceWriter l1 = tl_m_pTraceWriter l"
  by (auto simp: adds_def)

lemma add_node_adds: "add_node n l = Inr ((), l1) \<Longrightarrow> adds l [n] l1"
  by (auto simp: on_current_def bindM_eq_Inr getM_def liftM_eq_Inr modifyM_def failM_def adds_def split: option.splits)

lemma whenM_add_node:
  assumes "whenM b (add_node n) l = Inr ((), l1)" "tl_m_pCurrentCycle l \<noteq> None"
  shows "adds l (if b then [n] else []) l1"
  using assms add_node_adds by (cases b) (auto simp: returnM_def adds_Nil)

lemma RecordState_adds:
  assumes "RecordState s l = Inr ((), l1)" "tlc_enabled (tl_m_Config l)" "tl_m_pCurrentCycle l \<noteq> None"
  shows "adds l (state_nodes (tl_m_Config l) (tl_m_XLEN l) s) l1"
proof -
  let ?c = "tl_m_Config l"
  obtain l2 l3 where l2: "whenM (tlc_enableDumpIntReg ?c) (case tl_m_XLEN l of
          XLEN32 \<Rightarrow> add_node (NodeIntReg32 (System_CopyIntReg32 s))
        | XLEN64 \<Rightarrow> add_node (NodeIntReg64 (System_CopyIntReg64 s))
        | XLEN128 \<Rightarrow> failM EmuException) l = Inr ((), l2)"
    and l3: "whenM (tlc_enableDumpFpReg ?c)
        (bindM (liftM (System_CopyFpReg 256 s)) (\<lambda>regs. add_node (NodeFpReg regs))) l2 = Inr ((), l3)"
    and l1: "whenM (tlc_enableDumpHostIo ?c) (bindM (liftM (System_GetHostIoValue s)) (\<lambda>value.
          add_node (Node_Io \<lparr>ni_hostIo = value, ni_reserved = 0\<rparr>))) l3 = Inr ((), l1)"
    using assms(1,2) unfolding RecordState_def when_enabled_def
    by (auto simp: bindM_eq_Inr getM_def whenM_def returnM_def failM_def split: if_splits)
  have 2: "adds l (if tlc_enableDumpIntReg ?c then (case tl_m_XLEN l of XLEN32 \<Rightarrow> [NodeIntReg32 (System_CopyIntReg32 s)]
        | XLEN64 \<Rightarrow> [NodeIntReg64 (System_CopyIntReg64 s)] | XLEN128 \<Rightarrow> []) else []) l2"
    using l2 assms(3) add_node_adds
    by (cases "tlc_enableDumpIntReg ?c"; cases "tl_m_XLEN l") (auto simp: returnM_def adds_Nil failM_def)
  have 3: "adds l2 (if tlc_enableDumpFpReg ?c then [NodeFpReg (fpreg_m_Entries (cpu_m_FpRegFile (sys_m_Processor s)))] else []) l3"
    using l3 adds_current [OF 2] add_node_adds
    by (cases "tlc_enableDumpFpReg ?c")
      (auto simp: returnM_def adds_Nil bindM_eq_Inr liftM_eq_Inr System_CopyFpReg_def Processor_CopyFpReg_def
        FpRegFile_Copy_def split: if_splits)
  have 1: "adds l3 (if tlc_enableDumpHostIo ?c then (case System_GetHostIoValue s of Inl _ \<Rightarrow> []
        | Inr v \<Rightarrow> [Node_Io \<lparr>ni_hostIo = v, ni_reserved = 0\<rparr>]) else []) l1"
    using l1 adds_current [OF 3] add_node_adds
    by (cases "tlc_enableDumpHostIo ?c") (auto simp: returnM_def adds_Nil bindM_eq_Inr liftM_eq_Inr)
  show ?thesis using adds_append [OF 2 adds_append [OF 3 1]] by (simp add: state_nodes_def)
qed

lemma adds_small: "adds l ns l1 \<Longrightarrow> length ns \<le> 512"
proof (cases ns rule: rev_cases)
  case (snoc ms n)
  assume "adds l ns l1"
  then obtain b b2 where "Logger_AddAll (ms @ [n]) b = Inr b2" unfolding snoc by (auto simp: adds_def)
  then obtain b1 where b: "Logger_AddAll ms b = Inr b1" "Logger_Add n b1 = Inr b2"
    by (cases "Logger_AddAll ms b") (auto simp: AddAll_append split: sum.splits)
  have len: "8 * length ks \<le> length (concat (map (\<lambda>n. chunk (node_id n) (node_bytes n)) ks))" for ks
    by (induction ks) simp_all
  have "8 * length ms \<le> length b1" unfolding AddAll_chunks [OF b(1)] using len [of ms] by simp
  moreover have "length b1 + 8 \<le> 4096"
    using AddData_chunk [OF b(2) [unfolded Logger_Add_node]] by (auto simp: DefaultBufferSize_def)
  ultimately show ?thesis by (simp add: snoc)
qed simp

lemma record_memory_events_count:
  "record_memory_events n index s l = Inr ((), l1) \<Longrightarrow> tl_m_pCurrentCycle l \<noteq> None \<Longrightarrow>
   \<exists>ns. adds l ns l1 \<and> length ns = n"
proof (induction n arbitrary: index l)
  case (Suc n)
  then obtain e l2 where l2: "add_node (Node_MemoryEvent (memory_node e)) l = Inr ((), l2)"
      "record_memory_events n (index + 1) s l2 = Inr ((), l1)"
    by (auto simp: bindM_eq_Inr liftM_eq_Inr)
  from add_node_adds [OF l2(1)] Suc.IH [OF l2(2)] show ?case
    using adds_append adds_current by fastforce
qed (auto simp: returnM_def adds_Nil)

lemma record_memory_events_adds:
  "record_memory_events n (of_nat i) s l = Inr ((), l1) \<Longrightarrow> tl_m_pCurrentCycle l \<noteq> None \<Longrightarrow> i + n \<le> 512 \<Longrightarrow>
   adds l (map (\<lambda>e. Node_MemoryEvent (memory_node e))
     (take n (drop i (mau_m_Events (cpu_m_MemAccessUnit (sys_m_Processor s)))))) l1"
proof (induction n arbitrary: i l)
  case (Suc n)
  let ?es = "mau_m_Events (cpu_m_MemAccessUnit (sys_m_Processor s))"
  obtain e l2 where l2: "System_CopyMemoryAccessEvent (of_nat i) s = Inr e"
      "add_node (Node_MemoryEvent (memory_node e)) l = Inr ((), l2)"
      "record_memory_events n (of_nat (Suc i)) s l2 = Inr ((), l1)"
    using Suc.prems(1) by (auto simp: bindM_eq_Inr liftM_eq_Inr add.commute)
  have "sint (of_nat i :: i32) = int i"
    using Suc.prems(3) by (simp add: signed_of_nat signed_take_bit_int_eq_self)
  then have e: "i < length ?es" "e = ?es ! i"
    using l2(1) by (auto simp: System_CopyMemoryAccessEvent_def Processor_CopyMemoryAccessEvent_def CopyEvent_def
        array_get_def split: if_splits)
  have "adds l2 (map (\<lambda>e. Node_MemoryEvent (memory_node e)) (take n (drop (Suc i) ?es))) l1"
    using Suc.IH [OF l2(3)] adds_current [OF add_node_adds [OF l2(2)]] Suc.prems(3) by simp
  then show ?case
    using adds_append [OF add_node_adds [OF l2(2)]] e by (simp add: Cons_nth_drop_Suc [symmetric])
qed (auto simp: returnM_def adds_Nil)

lemma RecordEvent_adds:
  assumes "RecordEvent s l = Inr ((), l1)" "tlc_enabled (tl_m_Config l)" "tl_m_pCurrentCycle l \<noteq> None"
  shows "adds l (event_nodes s) l1"
proof -
  obtain l2 l3 where l2: "whenM (System_IsOpEventExist s) (add_node (Node_OpEvent (op_node (System_CopyOpEvent s)))) l = Inr ((), l2)"
    and l3: "whenM (System_IsTrapEventExist s) (add_node (Node_TrapEvent (trap_node (System_CopyTrapEvent s)))) l2 = Inr ((), l3)"
    and l1: "record_memory_events (unat (System_GetMemoryAccessEventCount s)) 0 s l3 = Inr ((), l1)"
    using assms(1,2) unfolding RecordEvent_def when_enabled_def
    by (auto simp: bindM_eq_Inr getM_def)
  note 2 = whenM_add_node [OF l2 assms(3)]
  note 3 = whenM_add_node [OF l3 adds_current [OF 2, THEN conjunct1]]
  have c: "tl_m_pCurrentCycle l3 \<noteq> None" using adds_current [OF 3] by simp
  have "unat (System_GetMemoryAccessEventCount s) \<le> 512"
    using record_memory_events_count [OF l1 c] adds_small by fastforce
  then have "adds l3 (map (\<lambda>e. Node_MemoryEvent (memory_node e)) (memory_events s)) l1"
    using record_memory_events_adds [of _ 0 s l3 l1] l1 c by (simp add: memory_events_def)
  moreover have "(if System_IsOpEventExist s then [Node_OpEvent (op_node (System_CopyOpEvent s))] else []) =
      map (\<lambda>e. Node_OpEvent (op_node e)) (op_events s)"
    "(if System_IsTrapEventExist s then [Node_TrapEvent (trap_node (System_CopyTrapEvent s))] else []) =
      map (\<lambda>e. Node_TrapEvent (trap_node e)) (trap_events s)"
    by (simp_all add: op_events_def trap_events_def)
  ultimately show ?thesis using adds_append [OF 2 adds_append [OF 3]] by (simp add: event_nodes_def)
qed

section \<open>A whole cycle\<close>

text \<open>A logger between two cycles.\<close>

definition idle :: "TraceLoggerConfig \<Rightarrow> XLEN \<Rightarrow> TraceIndexWriter \<Rightarrow> TraceLogger \<Rightarrow> bool" where
  "idle config xlen w l \<longleftrightarrow> tl_m_Config l = config \<and> tl_m_XLEN l = xlen \<and> tl_m_pTraceWriter l = Some w"

text \<open>A logger in the cycle of the state \<open>s\<close>, with the nodes \<open>ns\<close> added.\<close>

definition logging :: "TraceLoggerConfig \<Rightarrow> XLEN \<Rightarrow> TraceIndexWriter \<Rightarrow> i32 \<Rightarrow> System \<Rightarrow> node list \<Rightarrow> TraceLogger \<Rightarrow> bool" where
  "logging config xlen w cycle s ns l \<longleftrightarrow> idle config xlen w l \<and>
     (\<exists>b b'. BinaryCycleLogger_new cycle xlen (System_GetPc s) = Inr b \<and> Logger_AddAll ns b = Inr b' \<and>
       tl_m_pCurrentCycle l = Some b')"

lemma logging_adds: "logging config xlen w cycle s ns l \<Longrightarrow> adds l ms l1 \<Longrightarrow> logging config xlen w cycle s (ns @ ms) l1"
  by (auto simp: logging_def idle_def adds_def AddAll_append)

lemma dump_begin_logging:
  assumes "dump_begin True cycle s l = Inr ((), l1)" "idle config xlen w l" "tlc_enabled config"
  shows "logging config xlen w cycle s (state_nodes config xlen s) l1"
proof -
  obtain l2 where l2: "BeginCycle cycle (System_GetPc s) l = Inr ((), l2)" "RecordState s l2 = Inr ((), l1)"
    using assms(1) by (auto simp: dump_begin_def bindM_eq_Inr)
  have "logging config xlen w cycle s [] l2"
    using l2(1) assms(2,3)
    by (auto simp: BeginCycle_def when_enabled_def bindM_eq_Inr getM_def liftM_eq_Inr modifyM_def logging_def idle_def)
  moreover have "adds l2 (state_nodes config xlen s) l1"
    using RecordState_adds [OF l2(2)] calculation assms(3) by (auto simp: logging_def idle_def)
  ultimately show ?thesis using logging_adds by fastforce
qed

lemma EndCycle_writes:
  assumes "EndCycle l = Inr ((), l1)" "logging config xlen w cycle s ns l" "tlc_enabled config"
  shows "\<exists>bytes w'. log_cycle cycle xlen (System_GetPc s) ns = Inr bytes \<and> IndexWriter_Write bytes w = Inr w' \<and>
    idle config xlen w' l1"
  using assms
  by (auto simp: EndCycle_def when_enabled_def on_current_def bindM_eq_Inr getM_def liftM_eq_Inr modifyM_def
      logging_def idle_def log_cycle_def)

section \<open>The run that a trace shows\<close>

text \<open>
  The records of one turn of the loop, with the counter at \<open>k\<close>: one, or none if the counter is below
  \<open>skip k\<close>. \<open>R s r x\<close> says that \<open>x\<close> is the record of the cycle that began in \<open>s\<close> and went to \<open>r\<close>, or
  that stopped before it went anywhere.
\<close>

definition recorded :: "(System \<Rightarrow> System option \<Rightarrow> 'x \<Rightarrow> bool) \<Rightarrow> (i32 \<Rightarrow> i32) \<Rightarrow> i32 \<Rightarrow> System \<Rightarrow> System option \<Rightarrow> 'x list \<Rightarrow> bool" where
  "recorded R skip k s r xs \<longleftrightarrow> (if skip k \<le>s k then \<exists>x. xs = [x] \<and> R s r x else xs = [])"

text \<open>The loop from \<open>s\<close>, with its counter at \<open>k\<close>, ends in \<open>u\<close>, and \<open>xs\<close> are the records of its cycles.\<close>

inductive trail :: "Libraries \<Rightarrow> i32 \<Rightarrow> i32 \<Rightarrow> (System \<Rightarrow> System option \<Rightarrow> 'x \<Rightarrow> bool) \<Rightarrow> (i32 \<Rightarrow> i32) \<Rightarrow> i32 \<Rightarrow> System \<Rightarrow> 'x list \<Rightarrow> System \<Rightarrow> bool"
  for libs condition cycle R skip where
  trail_bound: "\<not> in_bound cycle k \<Longrightarrow> trail libs condition cycle R skip k s [] s"
| trail_pre: "in_bound cycle k \<Longrightarrow> IsStopConditionFilledPre condition s = Inr True \<Longrightarrow>
    recorded R skip k s None xs \<Longrightarrow> trail libs condition cycle R skip k s xs s"
| trail_post: "in_bound cycle k \<Longrightarrow> IsStopConditionFilledPre condition s = Inr False \<Longrightarrow>
    System_ProcessCycle libs s = Inr ((), t) \<Longrightarrow> IsStopConditionFilledPost condition t \<Longrightarrow>
    recorded R skip k s (Some t) xs \<Longrightarrow> trail libs condition cycle R skip k s xs t"
| trail_step: "in_bound cycle k \<Longrightarrow> k \<noteq> 0x7fffffff \<Longrightarrow> System_ProcessCycle libs s = Inr ((), t) \<Longrightarrow> continues condition s t \<Longrightarrow>
    recorded R skip k s (Some t) xs \<Longrightarrow> trail libs condition cycle R skip (k + 1) t ys u \<Longrightarrow>
    trail libs condition cycle R skip k s (xs @ ys) u"

lemma trail_stopped:
  "trail libs condition cycle R skip k s xs u \<Longrightarrow> in_bound cycle k \<Longrightarrow>
   IsStopConditionFilledPre condition s = Inr True \<Longrightarrow> recorded R skip k s None xs"
  by (erule trail.cases) (auto simp: continues_def)

lemma recorded_mono:
  assumes "recorded R skip k s r xs" "list_all2 Q xs ys" "\<And>s r x y. R s r x \<Longrightarrow> Q x y \<Longrightarrow> R' s r y"
  shows "recorded R' skip k s r ys"
  using assms by (auto simp: recorded_def list_all2_Cons1 split: if_splits)

lemma trail_mono:
  assumes "trail libs condition cycle R skip k s xs u" "list_all2 Q xs ys"
    "\<And>s r x y. R s r x \<Longrightarrow> Q x y \<Longrightarrow> R' s r y"
  shows "trail libs condition cycle R' skip k s ys u"
  using assms(1,2)
proof (induction arbitrary: ys rule: trail.induct)
  case (trail_step k s t xs zs u)
  then obtain xs' zs' where ys: "ys = xs' @ zs'" "list_all2 Q xs xs'" "list_all2 Q zs zs'"
    by (auto simp: list_all2_append1)
  show ?case
    unfolding ys(1)
    using trail.trail_step [OF trail_step.hyps(1-4) recorded_mono [OF trail_step.hyps(5) ys(2) assms(3)] trail_step.IH [OF ys(3)]] .
qed (auto intro: trail.intros recorded_mono [OF _ _ assms(3)])

text \<open>The record that the logger makes.\<close>

definition logged_run :: "TraceLoggerConfig \<Rightarrow> XLEN \<Rightarrow> i32 \<Rightarrow> System \<Rightarrow> System option \<Rightarrow> logged \<Rightarrow> bool" where
  "logged_run config xlen cycle s r l \<longleftrightarrow> l = \<lparr>lg_cycle = cycle, lg_xlen = xlen, lg_pc = System_GetPc s,
     lg_nodes = state_nodes config xlen s @ (case r of None \<Rightarrow> [] | Some t \<Rightarrow> event_nodes t)\<rparr>"

lemma state_nodes_ok:
  assumes "reachable libs xlen pc ramSize s" "logged_run config xlen cycle s r l"
  shows "logged_ok l"
proof -
  have "length (fpreg_m_Entries (cpu_m_FpRegFile (sys_m_Processor s))) = 32"
    using reachable_inv [OF assms(1)] by (simp add: sys_inv_def fpreg_wf_def)
  then have "list_all (node_ok xlen) (state_nodes config xlen s)"
    by (auto simp: state_nodes_def node_ok_def System_CopyIntReg32_def System_CopyIntReg64_def Processor_CopyIntReg32_def
        Processor_CopyIntReg64_def IntRegFile_Copy32_def IntRegFile_Copy64_def IntRegCount_def split: XLEN.split sum.split)
  moreover have "list_all (node_ok xlen) (event_nodes t)" for t
    by (auto simp: event_nodes_def node_ok_def list_all_iff)
  ultimately show ?thesis
    using assms(2) by (simp add: logged_run_def logged_ok_def split: option.split)
qed

lemma dump_end_writes:
  assumes "dump_end True t l = Inr ((), l1)" "logging config xlen w cycle s ns l" "tlc_enabled config"
  shows "\<exists>bytes w'. log_cycle cycle xlen (System_GetPc s) (ns @ event_nodes t) = Inr bytes \<and>
    IndexWriter_Write bytes w = Inr w' \<and> idle config xlen w' l1"
proof -
  obtain l2 where l2: "RecordEvent t l = Inr ((), l2)" "EndCycle l2 = Inr ((), l1)"
    using assms(1) by (auto simp: dump_end_def bindM_eq_Inr)
  have "adds l (event_nodes t) l2"
    using RecordEvent_adds [OF l2(1)] assms(2,3) by (auto simp: logging_def idle_def)
  from EndCycle_writes [OF l2(2) logging_adds [OF assms(2) this] assms(3)] show ?thesis .
qed

text \<open>What a run with the logger has written.\<close>

definition written :: "Libraries \<Rightarrow> TraceLoggerConfig \<Rightarrow> XLEN \<Rightarrow> (i32 \<Rightarrow> i32) \<Rightarrow> i32 \<Rightarrow> i32 \<Rightarrow> Emulator \<Rightarrow> TraceIndexWriter \<Rightarrow>
    Emulator \<Rightarrow> TraceLogger \<Rightarrow> bool" where
  "written libs config xlen skip condition cycle e w e' l' \<longleftrightarrow> (\<exists>ls bs w'. list_all2 logs ls bs \<and>
     IndexWriter_write_all bs w = Inr w' \<and> idle config xlen w' l' \<and>
     trail libs condition cycle (logged_run config xlen cycle) skip (emu_m_Cycle e) (emu_m_System e) ls (emu_m_System e') \<and>
     list_all logged_ok ls \<and> sint (emu_m_Cycle e) + int (length ls) \<le> sint (emu_m_Cycle e') + 1)"

text \<open>The records of one turn, and what is written of them.\<close>

definition turn_written :: "TraceLoggerConfig \<Rightarrow> XLEN \<Rightarrow> (i32 \<Rightarrow> i32) \<Rightarrow> i32 \<Rightarrow> Emulator \<Rightarrow> System option \<Rightarrow>
    TraceIndexWriter \<Rightarrow> logged list \<Rightarrow> TraceIndexWriter \<Rightarrow> TraceLogger \<Rightarrow> bool" where
  "turn_written config xlen skip cycle e r w ls w' l' \<longleftrightarrow> (\<exists>bs. list_all2 logs ls bs \<and>
     IndexWriter_write_all bs w = Inr w' \<and> idle config xlen w' l' \<and> list_all logged_ok ls \<and> length ls \<le> 1 \<and>
     recorded (logged_run config xlen cycle) skip (emu_m_Cycle e) (emu_m_System e) r ls)"

lemma turn_logged:
  assumes "idle config xlen w l" "tlc_enabled config" "reachable libs xlen pc ramSize (emu_m_System e)"
    "dump_begin (skip (emu_m_Cycle e) \<le>s emu_m_Cycle e) cycle (emu_m_System e) l = Inr ((), l1)"
    "(case r of None \<Rightarrow> whenM (skip (emu_m_Cycle e) \<le>s emu_m_Cycle e) EndCycle l1 | Some t \<Rightarrow> dump_end (skip (emu_m_Cycle e) \<le>s emu_m_Cycle e) t l1) =
       Inr ((), l2)"
  shows "\<exists>ls w'. turn_written config xlen skip cycle e r w ls w' l2"
proof (cases "skip (emu_m_Cycle e) \<le>s emu_m_Cycle e")
  case True
  let ?s = "emu_m_System e"
  let ?ns = "state_nodes config xlen ?s @ (case r of None \<Rightarrow> [] | Some t \<Rightarrow> event_nodes t)"
  let ?x = "\<lparr>lg_cycle = cycle, lg_xlen = xlen, lg_pc = System_GetPc ?s, lg_nodes = ?ns\<rparr>"
  have x: "logged_run config xlen cycle ?s r ?x" by (simp add: logged_run_def)
  have begun: "logging config xlen w cycle ?s (state_nodes config xlen ?s) l1"
    using dump_begin_logging [OF _ assms(1,2)] assms(4) True by simp
  have "\<exists>b w'. log_cycle cycle xlen (System_GetPc ?s) ?ns = Inr b \<and> IndexWriter_Write b w = Inr w' \<and> idle config xlen w' l2"
  proof (cases r)
    case None
    then show ?thesis using EndCycle_writes [OF _ begun assms(2), of l2] assms(5) True by simp
  next
    case (Some t)
    then show ?thesis using dump_end_writes [OF _ begun assms(2), of t l2] assms(5) True by simp
  qed
  then obtain b w' where "log_cycle cycle xlen (System_GetPc ?s) ?ns = Inr b" "IndexWriter_Write b w = Inr w'" "idle config xlen w' l2"
    by blast
  then show ?thesis
    using state_nodes_ok [OF assms(3) x] x True
    by (intro exI [of _ "[?x]"] exI [of _ w']) (simp add: turn_written_def recorded_def list_all2_Cons1)
next
  case False
  then have "l2 = l" using assms(4,5) by (cases r) (simp_all add: dump_begin_def dump_end_def returnM_def)
  then show ?thesis
    using assms(1) False by (intro exI [of _ "[]"] exI [of _ w]) (simp add: turn_written_def recorded_def)
qed

lemma write_all_append:
  "IndexWriter_write_all bs w = Inr w1 \<Longrightarrow> IndexWriter_write_all (bs @ cs) w = IndexWriter_write_all cs w1"
  by (induction bs arbitrary: w) (auto split: sum.splits)

lemma written_step:
  fixes e :: Emulator
  assumes "turn_written config xlen skip cycle e (Some t) w ls w1 l1" "emu_m_Cycle e \<noteq> 0x7fffffff"
    "written libs config xlen skip condition cycle (e\<lparr>emu_m_System := t, emu_m_Cycle := emu_m_Cycle e + 1\<rparr>) w1 e' l'"
    "in_bound cycle (emu_m_Cycle e)" "System_ProcessCycle libs (emu_m_System e) = Inr ((), t)"
    "continues condition (emu_m_System e) t"
  shows "written libs config xlen skip condition cycle e w e' l'"
proof -
  obtain bs where 1: "list_all2 logs ls bs" "IndexWriter_write_all bs w = Inr w1" "list_all logged_ok ls" "length ls \<le> 1"
    "recorded (logged_run config xlen cycle) skip (emu_m_Cycle e) (emu_m_System e) (Some t) ls"
    using assms(1) by (auto simp: turn_written_def)
  obtain ls2 bs2 w2 where 2: "list_all2 logs ls2 bs2" "IndexWriter_write_all bs2 w1 = Inr w2" "idle config xlen w2 l'"
    "trail libs condition cycle (logged_run config xlen cycle) skip (emu_m_Cycle e + 1) t ls2 (emu_m_System e')"
    "list_all logged_ok ls2" "sint (emu_m_Cycle e) + 1 + int (length ls2) \<le> sint (emu_m_Cycle e') + 1"
    using assms(3) sint_inc [OF assms(2)] by (auto simp: written_def)
  have "list_all2 logs (ls @ ls2) (bs @ bs2)" using 1(1) 2(1) by (rule list_all2_appendI)
  moreover have "trail libs condition cycle (logged_run config xlen cycle) skip (emu_m_Cycle e) (emu_m_System e) (ls @ ls2) (emu_m_System e')"
    using trail_step [OF assms(4,2,5,6) 1(5) 2(4)] .
  ultimately show ?thesis unfolding written_def
    using 1(3,4) 2(3,5,6) write_all_append [OF 1(2), of bs2] 2(2)
    by (intro exI [of _ "ls @ ls2"] exI [of _ "bs @ bs2"] exI [of _ w2]) simp
qed

lemma traced_writes:
  fixes e :: Emulator
  assumes "Emulator_ProcessTraced libs skip condition cycle e l = Some (Inr (e', l'))"
    and "idle config xlen w l" "tlc_enabled config" "reachable libs xlen pc ramSize (emu_m_System e)"
  shows "written libs config xlen skip condition cycle e w e' l'"
  using assms(1,2,4)
proof (induction "nat (2 ^ 31 - 1 - sint (emu_m_Cycle e))" arbitrary: e l w rule: less_induct)
  case less
  note turn = turn_logged [OF less.prems(2) assms(3) less.prems(3)]
  have last: "written libs config xlen skip condition cycle e w e' l'"
    if "turn_written config xlen skip cycle e r w ls w' l'" "emu_m_Cycle e' = emu_m_Cycle e"
      "recorded (logged_run config xlen cycle) skip (emu_m_Cycle e) (emu_m_System e) r ls \<Longrightarrow>
        trail libs condition cycle (logged_run config xlen cycle) skip (emu_m_Cycle e) (emu_m_System e) ls (emu_m_System e')"
    for r ls w'
    using that unfolding turn_written_def written_def by auto
  from less.prems(1) show ?case
  proof (cases rule: Traced_turn)
    case out
    then show ?thesis
      using less.prems(2) unfolding written_def
      by (intro exI [of _ "[]"] exI [of _ "[]"] exI [of _ w]) (simp add: trail_bound)
  next
    case (pre l1)
    then obtain ls w' where "turn_written config xlen skip cycle e None w ls w' l'" using turn [of skip cycle l1 None l'] by auto
    then show ?thesis by (rule last) (use trail_pre [OF pre(1,3)] pre(4) in simp_all)
  next
    case (post l1 t)
    then obtain ls w' where "turn_written config xlen skip cycle e (Some t) w ls w' l'"
      using turn [of skip cycle l1 "Some t" l'] by auto
    then show ?thesis by (rule last) (use trail_post [OF post(1,3,4,6)] post(7) in simp_all)
  next
    case (go_on l1 t l2)
    then obtain ls w1 where w1: "turn_written config xlen skip cycle e (Some t) w ls w1 l2"
      using turn [of skip cycle l1 "Some t" l2] by auto
    then have "idle config xlen w1 l2" by (auto simp: turn_written_def)
    then have "written libs config xlen skip condition cycle (e\<lparr>emu_m_System := t, emu_m_Cycle := emu_m_Cycle e + 1\<rparr>) w1 e' l'"
      using less.hyps [OF _ go_on(7)] run_left [OF go_on(6)] reachable.cycle [OF less.prems(3) go_on(3)] by simp
    then show ?thesis using written_step [OF w1 go_on(6) _ go_on(1,3,4)] by simp
  qed
qed

section \<open>What is read back\<close>

definition shown_run :: "TraceLoggerConfig \<Rightarrow> XLEN \<Rightarrow> i32 \<Rightarrow> System \<Rightarrow> System option \<Rightarrow> BinaryCycle \<Rightarrow> bool" where
  "shown_run config xlen cycle s r c \<longleftrightarrow>
     BinaryCycle_GetCycle c = Inr cycle \<and> BinaryCycle_GetXLEN c = Inr (XLEN_value xlen) \<and>
     BinaryCycle_GetPc c = Inr (System_GetPc s) \<and>
     (tlc_enableDumpIntReg config \<longrightarrow> (\<forall>i < 32. BinaryCycle_GetIntReg i c =
        Inr (let x = intreg_m_Entries (cpu_m_IntRegFile (sys_m_Processor s)) ! i in
          if xlen = XLEN32 then take_bit 32 x else x))) \<and>
     (tlc_enableDumpFpReg config \<longrightarrow> (\<forall>i < 32. BinaryCycle_GetFpReg i c =
        Inr (fpreg_m_Entries (cpu_m_FpRegFile (sys_m_Processor s)) ! i))) \<and>
     (tlc_enableDumpHostIo config \<longrightarrow> (\<forall>v. System_GetHostIoValue s = Inr v \<longrightarrow>
        BinaryCycle_CopyIo c = Inr \<lparr>ni_hostIo = v, ni_reserved = 0\<rparr>)) \<and>
     (let ops = (case r of None \<Rightarrow> [] | Some t \<Rightarrow> op_events t) in
        BinaryCycle_GetOpEventCount c = length ops \<and>
        (\<forall>i < length ops. BinaryCycle_CopyOpEvent i c = Inr (op_node (ops ! i)))) \<and>
     (let traps = (case r of None \<Rightarrow> [] | Some t \<Rightarrow> trap_events t) in
        BinaryCycle_GetTrapEventCount c = length traps \<and>
        (\<forall>i < length traps. BinaryCycle_CopyTrapEvent i c = Inr (trap_node (traps ! i)))) \<and>
     (let memories = (case r of None \<Rightarrow> [] | Some t \<Rightarrow> memory_events t) in
        BinaryCycle_GetMemoryEventCount c = length memories \<and>
        (\<forall>i < length memories. BinaryCycle_CopyMemoryEvent i c = Inr (memory_node (memories ! i))))"

lemma kinds_append: "int32s (ns @ ms) = int32s ns @ int32s ms" "int64s (ns @ ms) = int64s ns @ int64s ms"
  "fps (ns @ ms) = fps ns @ fps ms" "ios (ns @ ms) = ios ns @ ios ms" "ops (ns @ ms) = ops ns @ ops ms"
  "traps (ns @ ms) = traps ns @ traps ms" "memories (ns @ ms) = memories ns @ memories ms"
  by (simp_all add: node_kinds)

lemma concat_singletons: "concat (map (\<lambda>x. [f x]) xs) = map f xs" "concat (map (\<lambda>x. []) xs) = []"
  by (induction xs) simp_all

lemma kinds_events: "int32s (event_nodes t) = []" "int64s (event_nodes t) = []" "fps (event_nodes t) = []"
  "ios (event_nodes t) = []" "ops (event_nodes t) = map op_node (op_events t)"
  "traps (event_nodes t) = map trap_node (trap_events t)" "memories (event_nodes t) = map memory_node (memory_events t)"
  by (simp_all add: node_kinds event_nodes_def comp_def concat_singletons(2))

lemma kinds_if: "int32s (if b then ns else []) = (if b then int32s ns else [])"
  "int64s (if b then ns else []) = (if b then int64s ns else [])" "fps (if b then ns else []) = (if b then fps ns else [])"
  "ios (if b then ns else []) = (if b then ios ns else [])" "ops (if b then ns else []) = (if b then ops ns else [])"
  "traps (if b then ns else []) = (if b then traps ns else [])"
  "memories (if b then ns else []) = (if b then memories ns else [])"
  by (simp_all add: node_kinds)

lemma kinds_state:
  "int32s (state_nodes config xlen s) = (if tlc_enableDumpIntReg config \<and> xlen = XLEN32 then [System_CopyIntReg32 s] else [])"
  "int64s (state_nodes config xlen s) = (if tlc_enableDumpIntReg config \<and> xlen = XLEN64 then [System_CopyIntReg64 s] else [])"
  "fps (state_nodes config xlen s) =
    (if tlc_enableDumpFpReg config then [fpreg_m_Entries (cpu_m_FpRegFile (sys_m_Processor s))] else [])"
  "ios (state_nodes config xlen s) = (if tlc_enableDumpHostIo config then (case System_GetHostIoValue s of Inl _ \<Rightarrow> []
     | Inr v \<Rightarrow> [\<lparr>ni_hostIo = v, ni_reserved = 0\<rparr>]) else [])"
  "ops (state_nodes config xlen s) = []" "traps (state_nodes config xlen s) = []"
  "memories (state_nodes config xlen s) = []"
  unfolding state_nodes_def kinds_append kinds_if
  by (cases xlen; cases "System_GetHostIoValue s"; simp add: node_kinds)+

lemma shown_logged:
  assumes "logged_run config xlen cycle s r l" "shows_logged l c" "xlen \<noteq> XLEN128"
  shows "shown_run config xlen cycle s r c"
proof -
  let ?ns = "state_nodes config xlen s @ (case r of None \<Rightarrow> [] | Some t \<Rightarrow> event_nodes t)"
  have c: "cycle_shows cycle xlen (System_GetPc s) ?ns c"
    using assms(1,2) by (simp add: logged_run_def shows_logged_def)
  have kinds: "int32s ?ns = (if tlc_enableDumpIntReg config \<and> xlen = XLEN32 then [System_CopyIntReg32 s] else [])"
    "int64s ?ns = (if tlc_enableDumpIntReg config \<and> xlen = XLEN64 then [System_CopyIntReg64 s] else [])"
    "fps ?ns = (if tlc_enableDumpFpReg config then [fpreg_m_Entries (cpu_m_FpRegFile (sys_m_Processor s))] else [])"
    "ios ?ns = (if tlc_enableDumpHostIo config then (case System_GetHostIoValue s of Inl _ \<Rightarrow> []
       | Inr v \<Rightarrow> [\<lparr>ni_hostIo = v, ni_reserved = 0\<rparr>]) else [])"
    "ops ?ns = map op_node (case r of None \<Rightarrow> [] | Some t \<Rightarrow> op_events t)"
    "traps ?ns = map trap_node (case r of None \<Rightarrow> [] | Some t \<Rightarrow> trap_events t)"
    "memories ?ns = map memory_node (case r of None \<Rightarrow> [] | Some t \<Rightarrow> memory_events t)"
    by (cases r; simp add: kinds_append kinds_events kinds_state; simp add: node_kinds)+
  have low: "ucast (ucast x :: u32) = take_bit 32 x" for x :: u64
    by (rule bit_word_eqI) (auto simp: bit_simps)
  have regs: "ucast (System_CopyIntReg32 s ! i) = take_bit 32 (intreg_m_Entries (cpu_m_IntRegFile (sys_m_Processor s)) ! i)"
    "System_CopyIntReg64 s ! i = intreg_m_Entries (cpu_m_IntRegFile (sys_m_Processor s)) ! i" if "i < 32" for i
    using that by (simp_all add: System_CopyIntReg32_def System_CopyIntReg64_def Processor_CopyIntReg32_def
      Processor_CopyIntReg64_def IntRegFile_Copy32_def IntRegFile_Copy64_def IntRegCount_def low)
  have width: "xlen = XLEN32 \<or> xlen = XLEN64" using assms(3) by (cases xlen) simp_all
  show ?thesis
    using c width unfolding shown_run_def cycle_shows_def kinds Let_def
    by (auto simp: regs)
qed

lemma traced_run_shown:
  fixes e :: Emulator
  assumes "reachable libs xlen pc ramSize (emu_m_System e)" "emu_m_Cycle e = 0"
    and "tlc_enabled config" "path_ok (tlc_path config)"
    and "Emulator_ProcessTraced libs skip condition cycle e (TraceLogger_new xlen config fs) = Some (Inr (e', l'))"
    and "emu_m_Cycle e' \<noteq> 0x7fffffff"
  shows "Emulator_Process libs condition cycle e = Some (Inr e') \<and>
    (\<exists>r cs. IndexReader_new (TraceLogger_delete l' fs) (tlc_path config @ ''.tidx'') = Inr r \<and>
      index_reads (TraceLogger_delete l' fs) r cs \<and>
      trail libs condition cycle (shown_run config xlen cycle) skip 0 (emu_m_System e) cs (emu_m_System e'))"
proof -
  let ?w = "IndexWriter_new fs (tlc_path config)"
  have "idle config xlen ?w (TraceLogger_new xlen config fs)"
    using assms(3) by (simp add: idle_def TraceLogger_new_def)
  from traced_writes [OF assms(5) this assms(3,1)] obtain ls bs w where ls: "list_all2 logs ls bs"
    "IndexWriter_write_all bs ?w = Inr w" "idle config xlen w l'"
    "trail libs condition cycle (logged_run config xlen cycle) skip 0 (emu_m_System e) ls (emu_m_System e')"
    "list_all logged_ok ls" "int (length ls) \<le> sint (emu_m_Cycle e') + 1"
    using assms(2) by (auto simp: written_def)
  have "length ls < 2 ^ 31"
    using ls(6) sint_inc [OF assms(6)] sint_lt [of "emu_m_Cycle e' + 1"] by simp
  from written_index [OF ls(1) this assms(4), of fs] obtain gs where gs: "concat gs = ls" "[] \<notin> set gs"
    "holds_groups (tlc_path config) gs (IndexWriter_delete w)"
    "IndexReader_new (IndexWriter_delete w) (tlc_path config @ ''.tidx'') =
      UpdateTraceBinary (IndexWriter_delete w) (reader_of (tlc_path config) gs)"
    using ls(2) by auto
  obtain r cs where r: "UpdateTraceBinary (IndexWriter_delete w) (reader_of (tlc_path config) gs) = Inr r"
    "index_reads (IndexWriter_delete w) r cs" "list_all2 shows_logged ls cs"
    using reader_of_reads [OF gs(3,2)] gs(1) ls(5) by blast
  have "trail libs condition cycle (shown_run config xlen cycle) skip 0 (emu_m_System e) cs (emu_m_System e')"
    using reachable_width [OF assms(1)] by (intro trail_mono [OF ls(4) r(3)] shown_logged)
  moreover have "TraceLogger_delete l' fs = IndexWriter_delete w"
    using ls(3) by (simp add: TraceLogger_delete_def idle_def)
  ultimately show ?thesis using traced_transparent [OF assms(5)] gs(4) r(1,2) by auto
qed

text \<open>A run that stops at once, on the machine that has written 42 to its host port.\<close>

definition host_io_config :: TraceLoggerConfig where
  "host_io_config = \<lparr>tlc_enabled = True, tlc_enableDumpCsr = False, tlc_enableDumpFpReg = False,
     tlc_enableDumpIntReg = False, tlc_enableDumpMemory = False, tlc_enableDumpHostIo = True, tlc_path = ''trace''\<rparr>"

lemma host_io_cycle:
  assumes "System_GetHostIoValue s = Inr v"
  shows "\<exists>l1 l2. dump_begin True cycle s (TraceLogger_new xlen host_io_config fs) = Inr ((), l1) \<and>
    EndCycle l1 = Inr ((), l2)"
  using assms
  by (simp add: dump_begin_def BeginCycle_def RecordState_def EndCycle_def when_enabled_def on_current_def bindM_def
      getM_def modifyM_def returnM_def TraceLogger_new_def host_io_config_def BinaryCycleLogger_new_def
      Logger_Break_def AddData_fits DefaultBufferSize_def NodeBasic_bytes_def NodeIo_bytes_def IndexWriter_Write_def
      MaxFileSize_def IndexWriter_new_def Let_def)

lemma host_io_run:
  obtains libs l' and e :: Emulator where "reachable libs XLEN64 0x80000000 32 (emu_m_System e)" "emu_m_Cycle e = 0"
    "System_GetHostIoValue (emu_m_System e) = Inr 42"
    "Emulator_ProcessTraced libs (\<lambda>_. 0) EmulationStop_HostIo CycleForever e (TraceLogger_new XLEN64 host_io_config Map.empty) =
      Some (Inr (e, l'))"
proof -
  obtain libs and e e' :: Emulator where e: "reachable libs XLEN64 0x80000000 32 (emu_m_System e)"
    "cycles libs 5 (emu_m_System e) = Inr ((), emu_m_System e')"
    "System_GetHostIoValue (emu_m_System e') = Inr 42"
    by (rule product_reports)
  let ?e = "\<lparr>emu_m_System = emu_m_System e', emu_m_Cycle = 0\<rparr>"
  obtain l1 l2 where l: "dump_begin True CycleForever (emu_m_System e') (TraceLogger_new XLEN64 host_io_config Map.empty) = Inr ((), l1)"
      "EndCycle l1 = Inr ((), l2)"
    using host_io_cycle [OF e(3)] by blast
  have "IsStopConditionFilledPre EmulationStop_HostIo (emu_m_System e') = Inr True"
    using e(3) by (simp add: IsStopConditionFilledPre_def EmulationStop_HostIo_def)
  then have "Emulator_ProcessTraced libs (\<lambda>_. 0) EmulationStop_HostIo CycleForever ?e
      (TraceLogger_new XLEN64 host_io_config Map.empty) = Some (Inr (?e, l2))"
    using l by (subst Emulator_ProcessTraced.simps) (simp add: Let_def)
  then show ?thesis
    using that [of libs ?e l2] cycles_reachable [OF e(2,1)] e(3) by simp
qed

text \<open>
  C8: a trace shows the run. A run with tracing enabled that returns has taken the machine where the
  run without tracing takes it, and the files its logger leaves, opened by the index reader, hold a
  cycle for each cycle of the run whose number is not below what the loop reads as \<open>dump-skip-cycle\<close>
  before it, whatever it reads, in their order: the program counter, the registers and the host port are those of the machine before the cycle, the operation,
  trap and memory events those of the machine after it, and a last cycle that stopped on the host
  port has no events. The number of every cycle is the bound of the loop.
\<close>

theorem trace_shows_run:
  fixes e :: Emulator
  assumes "reachable libs xlen pc ramSize (emu_m_System e)" "emu_m_Cycle e = 0"
    and "tlc_enabled config" "path_ok (tlc_path config)"
    and "Emulator_ProcessTraced libs skip condition cycle e (TraceLogger_new xlen config fs) = Some (Inr (e', l'))"
    and "emu_m_Cycle e' \<noteq> 0x7fffffff"
  shows "Emulator_Process libs condition cycle e = Some (Inr e') \<and>
    (\<exists>r cs. IndexReader_new (TraceLogger_delete l' fs) (tlc_path config @ ''.tidx'') = Inr r \<and>
      index_reads (TraceLogger_delete l' fs) r cs \<and>
      trail libs condition cycle (shown_run config xlen cycle) skip 0 (emu_m_System e) cs (emu_m_System e'))"
  by (rule traced_run_shown [OF assms])

theorem trace_shows_run_witness:
  "\<exists>libs (e :: Emulator) l' r c. reachable libs XLEN64 0x80000000 32 (emu_m_System e) \<and>
    Emulator_ProcessTraced libs (\<lambda>_. 0) EmulationStop_HostIo CycleForever e (TraceLogger_new XLEN64 host_io_config Map.empty) =
      Some (Inr (e, l')) \<and>
    IndexReader_new (TraceLogger_delete l' Map.empty) (''trace'' @ ''.tidx'') = Inr r \<and>
    index_reads (TraceLogger_delete l' Map.empty) r [c] \<and>
    BinaryCycle_CopyIo c = Inr \<lparr>ni_hostIo = 42, ni_reserved = 0\<rparr>"
proof -
  obtain libs l' and e :: Emulator where e: "reachable libs XLEN64 0x80000000 32 (emu_m_System e)" "emu_m_Cycle e = 0"
    "System_GetHostIoValue (emu_m_System e) = Inr 42"
    "Emulator_ProcessTraced libs (\<lambda>_. 0) EmulationStop_HostIo CycleForever e (TraceLogger_new XLEN64 host_io_config Map.empty) =
      Some (Inr (e, l'))"
    by (rule host_io_run)
  have config: "tlc_enabled host_io_config" "tlc_path host_io_config = ''trace''" "path_ok ''trace''"
    "tlc_enableDumpHostIo host_io_config"
    by (simp_all add: host_io_config_def path_ok_def isspace_def)
  obtain r cs where r: "IndexReader_new (TraceLogger_delete l' Map.empty) (''trace'' @ ''.tidx'') = Inr r"
    "index_reads (TraceLogger_delete l' Map.empty) r cs"
    "trail libs EmulationStop_HostIo CycleForever (shown_run host_io_config XLEN64 CycleForever) (\<lambda>_. 0) 0 (emu_m_System e) cs (emu_m_System e)"
    using trace_shows_run [OF e(1,2) config(1) _ e(4)] config(2,3) e(2) by auto
  have "IsStopConditionFilledPre EmulationStop_HostIo (emu_m_System e) = Inr True"
    using e(3) by (simp add: IsStopConditionFilledPre_def EmulationStop_HostIo_def)
  then obtain c where "cs = [c]" "shown_run host_io_config XLEN64 CycleForever (emu_m_System e) None c"
    using trail_stopped [OF r(3)] by (auto simp: in_bound_def recorded_def)
  then show ?thesis
    using e r(1,2) config(4)
    by (intro exI [of _ libs] exI [of _ e] exI [of _ l'] exI [of _ r] exI [of _ c]) (simp add: shown_run_def)
qed

text \<open>
  Without a dump path the logger has no effect: the loop with it is the loop without it, on
  every machine, in failures and in runs that never end too, and it leaves the logger as it was.
\<close>

theorem trace_disabled:
  assumes "\<not> tlc_enabled config"
  shows "Emulator_ProcessTraced libs skip condition cycle e (TraceLogger_new xlen config fs) =
    map_option (map_sum id (\<lambda>e'. (e', TraceLogger_new xlen config fs))) (Emulator_Process libs condition cycle e)"
  by (rule traced_disabled) (simp add: assms TraceLogger_new_def)

theorem trace_disabled_witness:
  "\<forall>libs skip condition cycle e. Emulator_ProcessTraced libs skip condition cycle e
      (TraceLogger_new XLEN64 (host_io_config\<lparr>tlc_enabled := False\<rparr>) Map.empty) =
    map_option (map_sum id (\<lambda>e'. (e', TraceLogger_new XLEN64 (host_io_config\<lparr>tlc_enabled := False\<rparr>) Map.empty)))
      (Emulator_Process libs condition cycle e)"
  by (intro allI trace_disabled) simp

end
