(* ===== verification/Rafi_TraceText.thy ===== *)
theory Rafi_TraceText
  imports Rafi_TraceIndex
begin

text \<open>
  The text traces of \<^verbatim>\<open>src/librafi_trace/\<close>: the format of the emulator (\<open>TextCycle\<close>, \<open>TextTrace\<close>) and the
  log of a debugger (\<open>GdbCycle\<close>, \<open>GdbTrace\<close>). A variable that was never written has the value
  \<open>None\<close>, and reading it is undefined.
\<close>

section \<open>Hexadecimal input\<close>

definition isxdigit :: "char \<Rightarrow> bool" where
  "isxdigit c \<longleftrightarrow> isdigit c \<or> 65 \<le> (of_char c :: nat) \<and> (of_char c :: nat) \<le> 70 \<or>
     97 \<le> (of_char c :: nat) \<and> (of_char c :: nat) \<le> 102"

definition xdigit_value :: "char \<Rightarrow> nat" where
  "xdigit_value c = (let n = of_char c :: nat in
     if n \<le> 57 then n - 48 else if n \<le> 70 then n - 55 else n - 87)"

primrec xdigits_value :: "nat \<Rightarrow> string \<Rightarrow> nat" where
  "xdigits_value acc [] = acc"
| "xdigits_value acc (c # cs) = xdigits_value (acc * 16 + xdigit_value c) cs"

text \<open>
  \<open>>>\<close> with \<open>std::hex\<close> into an unsigned variable: a sign, the prefix \<open>0x\<close>, digits; zero and a
  failure without digits, the largest value and a failure on overflow. \<open>None\<close> when nothing is
  extracted.
\<close>

definition hex_start :: "string \<Rightarrow> string" where
  "hex_start s = (let s = (if hd s = CHR ''-'' \<or> hd s = CHR ''+'' then tl s else s) in
     if take 2 s = ''0x'' \<or> take 2 s = ''0X'' then drop 2 s else s)"

definition stream_hex :: "istream \<Rightarrow> 'a::len word option \<times> istream" where
  "stream_hex f = (case sentry f of
     (None, f) \<Rightarrow> (None, f)
   | (Some s, _) \<Rightarrow>
       let digits = takeWhile isxdigit (hex_start s); rest = dropWhile isxdigit (hex_start s);
           n = xdigits_value 0 digits;
           result = (\<lambda>v fail. (Some v, \<lparr>is_rest = rest, is_eof = (rest = []), is_fail = fail\<rparr>)) in
       if digits = [] then result 0 True
       else if 2 ^ LENGTH('a) \<le> n then result (- 1) True
       else result (if hd s = CHR ''-'' then - of_nat n else of_nat n) False)"

text \<open>Into a variable, which keeps its value when nothing is extracted.\<close>

definition stream_hex_into :: "'a::len word option \<Rightarrow> istream \<Rightarrow> 'a word option \<times> istream" where
  "stream_hex_into x f = (case stream_hex f of (None, f') \<Rightarrow> (x, f') | (Some v, f') \<Rightarrow> (Some v, f'))"

text \<open>Nothing is put back into a stream.\<close>

lemma stream_string_le: "length (is_rest (snd (stream_string f))) \<le> length (is_rest f)"
proof (cases "sentry f")
  case (Pair o1 f1)
  then show ?thesis
  proof (cases o1)
    case None
    then show ?thesis using Pair sentry_None [of f f1] by (simp add: stream_string_def)
  next
    case (Some s)
    then have "length s \<le> length (is_rest f)"
      using sentry_Some [of f s f1] Pair by (simp add: length_dropWhile_le)
    then show ?thesis
      using Pair Some length_dropWhile_le [of "\<lambda>c. \<not> isspace c" s]
      by (simp add: stream_string_def Let_def)
  qed
qed

lemma stream_hex_le:
  "length (is_rest (snd (stream_hex f :: 'a::len word option \<times> istream))) \<le> length (is_rest f)"
proof (cases "sentry f")
  case (Pair o1 f1)
  show ?thesis
  proof (cases o1)
    case None
    then show ?thesis using Pair sentry_None [of f f1] by (simp add: stream_hex_def)
  next
    case (Some s)
    then have "length s \<le> length (is_rest f)"
      using sentry_Some [of f s f1] Pair by (simp add: length_dropWhile_le)
    moreover have "length (hex_start s) \<le> length s" by (simp add: hex_start_def Let_def)
    ultimately show ?thesis
      using Pair Some length_dropWhile_le [of isxdigit "hex_start s"]
      by (simp add: stream_hex_def Let_def)
  qed
qed

lemma stream_hex_into_le:
  fixes x :: "'a::len word option"
  shows "length (is_rest (snd (stream_hex_into x f))) \<le> length (is_rest f)"
proof (cases "stream_hex f :: 'a word option \<times> istream")
  case (Pair v f1)
  then show ?thesis
    using stream_hex_le [of f, where ?'a = 'a] by (simp add: stream_hex_into_def split: option.split)
qed

section \<open>Cycles in the text of the emulator\<close>

record TextCycle =
  tc_m_CycleCount :: "u32 option"
  tc_m_XLEN :: u32
  tc_m_Pc :: "u64 option"
  tc_m_BasicExist :: bool
  tc_m_IntRegExist :: bool
  tc_m_FpRegExist :: bool
  tc_m_IntRegs :: "u64 option list"
  tc_m_FpRegs :: "u64 option list"

definition TextCycle_new :: "XLEN \<Rightarrow> TextCycle" where
  "TextCycle_new xlen = \<lparr>tc_m_CycleCount = None, tc_m_XLEN = XLEN_value xlen, tc_m_Pc = None,
     tc_m_BasicExist = False, tc_m_IntRegExist = False, tc_m_FpRegExist = False,
     tc_m_IntRegs = replicate 32 None, tc_m_FpRegs = replicate 32 None\<rparr>"

text \<open>The local variable \<open>xlen\<close> has no value before it is read.\<close>

definition ParseBasic :: "istream \<Rightarrow> TextCycle \<Rightarrow> (TextCycle \<times> istream) result" where
  "ParseBasic f c =
    (let (cycle, f) = stream_hex_into (tc_m_CycleCount c) f;
         (xlen, f) = stream_hex_into None f;
         (pc, f) = stream_hex_into (tc_m_Pc c) f in
     case xlen of
       None \<Rightarrow> Inl Undefined
     | Some xlen \<Rightarrow> Inr (c\<lparr>tc_m_CycleCount := cycle, tc_m_XLEN := xlen, tc_m_Pc := pc,
         tc_m_BasicExist := True\<rparr>, f))"

text \<open>The loop over the registers; the list holds the old values.\<close>

primrec read_regs :: "u64 option list \<Rightarrow> istream \<Rightarrow> u64 option list \<times> istream" where
  "read_regs [] f = ([], f)"
| "read_regs (r # rs) f = (let (r', f) = stream_hex_into r f; (rs', f) = read_regs rs f in (r' # rs', f))"

definition ParseIntReg :: "istream \<Rightarrow> TextCycle \<Rightarrow> TextCycle \<times> istream" where
  "ParseIntReg f c = (let (regs, f) = read_regs (tc_m_IntRegs c) f in
     (c\<lparr>tc_m_IntRegs := regs, tc_m_IntRegExist := True\<rparr>, f))"

text \<open>It has no caller.\<close>

definition ParseFpReg :: "istream \<Rightarrow> TextCycle \<Rightarrow> TextCycle \<times> istream" where
  "ParseFpReg f c = (let (regs, f) = read_regs (tc_m_FpRegs c) f in
     (c\<lparr>tc_m_FpRegs := regs, tc_m_FpRegExist := True\<rparr>, f))"

lemma ParseBasic_le: "ParseBasic f c = Inr (c', f') \<Longrightarrow> length (is_rest f') \<le> length (is_rest f)"
  using stream_hex_into_le [of "tc_m_CycleCount c" f]
    stream_hex_into_le [of "None :: u32 option" "snd (stream_hex_into (tc_m_CycleCount c) f)"]
    stream_hex_into_le [of "tc_m_Pc c" "snd (stream_hex_into (None :: u32 option) (snd (stream_hex_into (tc_m_CycleCount c) f)))"]
  by (auto simp: ParseBasic_def Let_def split_beta split: option.splits)

lemma read_regs_le: "length (is_rest (snd (read_regs rs f))) \<le> length (is_rest f)"
proof (induction rs arbitrary: f)
  case (Cons r rs)
  then show ?case
    using stream_hex_into_le [of r f] by (simp add: Let_def split_beta) (meson le_trans)
qed simp

lemma ParseIntReg_le: "ParseIntReg f c = (c', f') \<Longrightarrow> length (is_rest f') \<le> length (is_rest f)"
  using read_regs_le [of "tc_m_IntRegs c" f] by (auto simp: ParseIntReg_def split_beta)

text \<open>The loop of \<open>Parse\<close>, with the rest of the stream. The section \<open>FP\<close> calls \<open>ParseIntReg\<close>.\<close>

function TextCycle_Parse_loop :: "istream \<Rightarrow> TextCycle \<Rightarrow> (TextCycle \<times> istream) result" where
  "TextCycle_Parse_loop f c = (case stream_string f of (s, f1) \<Rightarrow>
     if s = ''BREAK'' then Inr (c, f1)
     else if s = ''BASIC'' then (case ParseBasic f1 c of
         Inl e \<Rightarrow> Inl e | Inr (c', f2) \<Rightarrow> TextCycle_Parse_loop f2 c')
     else if s = ''INT'' then (case ParseIntReg f1 c of (c', f2) \<Rightarrow> TextCycle_Parse_loop f2 c')
     else if s = ''FP'' then (case ParseIntReg f1 c of (c', f2) \<Rightarrow> TextCycle_Parse_loop f2 c')
     else Inl TraceException)"
  by pat_completeness auto

termination
proof (relation "measure (\<lambda>(f, c). length (is_rest f))")
  fix f s f1 c z c' f2 and c0 :: TextCycle
  assume "(s, f1) = stream_string f" "s = ''BASIC''" "ParseBasic f1 c0 = Inr z" "(c', f2) = z"
  then have "length (is_rest f1) < length (is_rest f)" "length (is_rest f2) \<le> length (is_rest f1)"
    using stream_string_shorter [of f s f1] ParseBasic_le [of f1 c0 c' f2] by simp_all
  then show "((f2, c'), (f, c0)) \<in> measure (\<lambda>(f, c). length (is_rest f))" by simp
next
  fix f s f1 c' f2 and c0 :: TextCycle
  assume "(s, f1) = stream_string f" "s = ''INT''" "(c', f2) = ParseIntReg f1 c0"
  then have "length (is_rest f1) < length (is_rest f)" "length (is_rest f2) \<le> length (is_rest f1)"
    using stream_string_shorter [of f s f1] ParseIntReg_le [of f1 c0 c' f2] by simp_all
  then show "((f2, c'), (f, c0)) \<in> measure (\<lambda>(f, c). length (is_rest f))" by simp
next
  fix f s f1 c' f2 and c0 :: TextCycle
  assume "(s, f1) = stream_string f" "s = ''FP''" "(c', f2) = ParseIntReg f1 c0"
  then have "length (is_rest f1) < length (is_rest f)" "length (is_rest f2) \<le> length (is_rest f1)"
    using stream_string_shorter [of f s f1] ParseIntReg_le [of f1 c0 c' f2] by simp_all
  then show "((f2, c'), (f, c0)) \<in> measure (\<lambda>(f, c). length (is_rest f))" by simp
qed simp

declare TextCycle_Parse_loop.simps [simp del]

definition TextCycle_Parse :: "istream \<Rightarrow> XLEN \<Rightarrow> (TextCycle \<times> istream) result" where
  "TextCycle_Parse f xlen = TextCycle_Parse_loop f (TextCycle_new xlen)"

text \<open>The accessors. \<open>value_of\<close> reads a variable.\<close>

definition value_of :: "'a option \<Rightarrow> 'a result" where
  "value_of x = (case x of None \<Rightarrow> Inl Undefined | Some v \<Rightarrow> Inr v)"

definition TextCycle_GetCycle :: "TextCycle \<Rightarrow> u32 result" where
  "TextCycle_GetCycle c = (if tc_m_BasicExist c then value_of (tc_m_CycleCount c) else Inl TraceException)"

definition TextCycle_GetXLEN :: "TextCycle \<Rightarrow> u32 result" where
  "TextCycle_GetXLEN c = (if tc_m_BasicExist c then Inr (tc_m_XLEN c) else Inl TraceException)"

definition TextCycle_GetPc :: "TextCycle \<Rightarrow> u64 result" where
  "TextCycle_GetPc c = (if tc_m_BasicExist c then value_of (tc_m_Pc c) else Inl TraceException)"

definition TextCycle_GetIntReg :: "nat \<Rightarrow> TextCycle \<Rightarrow> u64 result" where
  "TextCycle_GetIntReg i c = (if tc_m_IntRegExist c \<and> i < 32 then value_of (tc_m_IntRegs c ! i)
     else Inl TraceException)"

text \<open>\<open>GetFpReg\<close> asks for the integer registers.\<close>

definition TextCycle_GetFpReg :: "nat \<Rightarrow> TextCycle \<Rightarrow> u64 result" where
  "TextCycle_GetFpReg i c = (if tc_m_IntRegExist c \<and> i < 32 then value_of (tc_m_FpRegs c ! i)
     else Inl TraceException)"

record TextTrace =
  tt_m_XLEN :: XLEN
  tt_m_pInput :: istream
  tt_m_pTextCycle :: "TextCycle option"

text \<open>Behind a trace exception there is no cycle, and the stream is not read again.\<close>

definition UpdateTextCycle :: "TextTrace \<Rightarrow> TextTrace result" where
  "UpdateTextCycle t = (case TextCycle_Parse (tt_m_pInput t) (tt_m_XLEN t) of
     Inr (c, f) \<Rightarrow> Inr (t\<lparr>tt_m_pTextCycle := Some c, tt_m_pInput := f\<rparr>)
   | Inl e \<Rightarrow> if e = TraceException then Inr (t\<lparr>tt_m_pTextCycle := None\<rparr>) else Inl e)"

definition TextTrace_new :: "istream \<Rightarrow> TextTrace result" where
  "TextTrace_new f = (case stream_string f of (s, f) \<Rightarrow>
     if s \<noteq> ''XLEN'' then Inl TraceException
     else case stream_string f of (s, f) \<Rightarrow>
       if s = ''32'' then UpdateTextCycle \<lparr>tt_m_XLEN = XLEN32, tt_m_pInput = f, tt_m_pTextCycle = None\<rparr>
       else if s = ''64'' then UpdateTextCycle \<lparr>tt_m_XLEN = XLEN64, tt_m_pInput = f, tt_m_pTextCycle = None\<rparr>
       else Inl TraceException)"

definition TextTrace_IsEnd :: "TextTrace \<Rightarrow> bool" where
  "TextTrace_IsEnd t \<longleftrightarrow> tt_m_pTextCycle t = None"

definition TextTrace_Next :: "TextTrace \<Rightarrow> TextTrace result" where
  "TextTrace_Next t = (if TextTrace_IsEnd t then Inl TraceException else UpdateTextCycle t)"

section \<open>Cycles in the log of a debugger\<close>

definition g_IntRegNames :: "string list" where
  "g_IntRegNames = [''zero'', ''ra'', ''sp'', ''gp'', ''tp'', ''t0'', ''t1'', ''t2'',
     ''s0'', ''s1'', ''a0'', ''a1'', ''a2'', ''a3'', ''a4'', ''a5'',
     ''a6'', ''a7'', ''s2'', ''s3'', ''s4'', ''s5'', ''s6'', ''s7'',
     ''s8'', ''s9'', ''s10'', ''s11'', ''t3'', ''t4'', ''t5'', ''t6'']"

record GdbCycle =
  gc_m_CycleCount :: u32
  gc_m_Pc :: u64
  gc_m_IntRegs :: "u64 list"

definition GdbCycle_new :: "u32 \<Rightarrow> GdbCycle" where
  "GdbCycle_new cycle = \<lparr>gc_m_CycleCount = cycle, gc_m_Pc = 0, gc_m_IntRegs = replicate 32 0\<rparr>"

text \<open>A number into a variable with a value, and the word behind it.\<close>

definition read_value :: "u64 \<Rightarrow> istream \<Rightarrow> u64 \<times> istream" where
  "read_value x f = (case stream_hex f of (v, f) \<Rightarrow>
     (case v of None \<Rightarrow> x | Some v \<Rightarrow> v, snd (stream_string f)))"

primrec name_index :: "string \<Rightarrow> string list \<Rightarrow> nat option" where
  "name_index s [] = None"
| "name_index s (n # ns) = (if s = n then Some 0 else map_option Suc (name_index s ns))"

lemma read_value_le: "read_value x f = (v, f') \<Longrightarrow> length (is_rest f') \<le> length (is_rest f)"
  using stream_hex_le [of f, where ?'a = 64] stream_string_le [of "snd (stream_hex f :: u64 option \<times> istream)"]
  by (auto simp: read_value_def split: prod.splits)

lemma name_index_Nil: "name_index [] g_IntRegNames = None"
  by (simp add: g_IntRegNames_def)

function GdbCycle_Parse_loop :: "istream \<Rightarrow> GdbCycle \<Rightarrow> (GdbCycle \<times> istream) result" where
  "GdbCycle_Parse_loop f c = (case stream_string f of (head, f1) \<Rightarrow>
     if head = ''BREAK'' then Inr (c, f1)
     else if head = ''pc'' then (case read_value (gc_m_Pc c) f1 of
         (v, f2) \<Rightarrow> GdbCycle_Parse_loop f2 (c\<lparr>gc_m_Pc := v\<rparr>))
     else if head = ''priv'' then GdbCycle_Parse_loop (snd (stream_string f1)) c
     else (case name_index head g_IntRegNames of
         None \<Rightarrow> Inl TraceException
       | Some i \<Rightarrow> (case read_value (gc_m_IntRegs c ! i) f1 of
           (v, f2) \<Rightarrow> GdbCycle_Parse_loop f2 (c\<lparr>gc_m_IntRegs := (gc_m_IntRegs c)[i := v]\<rparr>))))"
  by pat_completeness auto

termination
proof (relation "measure (\<lambda>(f, c). length (is_rest f))")
  fix f head f1 v f2 and c :: GdbCycle
  assume "(head, f1) = stream_string f" "head = ''pc''" "(v, f2) = read_value (gc_m_Pc c) f1"
  then have "length (is_rest f1) < length (is_rest f)" "length (is_rest f2) \<le> length (is_rest f1)"
    using stream_string_shorter [of f head f1] read_value_le [of "gc_m_Pc c" f1 v f2] by simp_all
  then show "((f2, c\<lparr>gc_m_Pc := v\<rparr>), (f, c)) \<in> measure (\<lambda>(f, c). length (is_rest f))" by simp
next
  fix f head f1 and c :: GdbCycle
  assume "(head, f1) = stream_string f" "head = ''priv''"
  then have "length (is_rest f1) < length (is_rest f)"
    using stream_string_shorter [of f head f1] by simp
  then show "((snd (stream_string f1), c), (f, c)) \<in> measure (\<lambda>(f, c). length (is_rest f))"
    using stream_string_le [of f1] by simp
next
  fix f head f1 i v f2 and c :: GdbCycle
  assume "(head, f1) = stream_string f" "name_index head g_IntRegNames = Some i"
    "(v, f2) = read_value (gc_m_IntRegs c ! i) f1"
  then have "length (is_rest f1) < length (is_rest f)" "length (is_rest f2) \<le> length (is_rest f1)"
    using stream_string_shorter [of f head f1] read_value_le [OF sym] name_index_Nil
    by (cases head; simp)+
  then show "((f2, c\<lparr>gc_m_IntRegs := (gc_m_IntRegs c)[i := v]\<rparr>), (f, c)) \<in> measure (\<lambda>(f, c). length (is_rest f))"
    by simp
qed simp

declare GdbCycle_Parse_loop.simps [simp del]

definition GdbCycle_Parse :: "istream \<Rightarrow> u32 \<Rightarrow> (GdbCycle \<times> istream) result" where
  "GdbCycle_Parse f cycle = GdbCycle_Parse_loop f (GdbCycle_new cycle)"

definition GdbCycle_GetIntReg :: "nat \<Rightarrow> GdbCycle \<Rightarrow> u64 result" where
  "GdbCycle_GetIntReg i c = (if i < 32 then Inr (gc_m_IntRegs c ! i) else Inl TraceException)"

record GdbTrace =
  gt_m_CycleCount :: u32
  gt_m_pInput :: istream
  gt_m_pGdbCycle :: "GdbCycle option"

definition GdbTrace_Update :: "GdbTrace \<Rightarrow> GdbTrace result" where
  "GdbTrace_Update t =
    (let t' = t\<lparr>gt_m_CycleCount := gt_m_CycleCount t + 1\<rparr> in
     case GdbCycle_Parse (gt_m_pInput t) (gt_m_CycleCount t) of
       Inr (c, f) \<Rightarrow> Inr (t'\<lparr>gt_m_pGdbCycle := Some c, gt_m_pInput := f\<rparr>)
     | Inl e \<Rightarrow> if e = TraceException then Inr (t'\<lparr>gt_m_pGdbCycle := None\<rparr>) else Inl e)"

definition GdbTrace_new :: "istream \<Rightarrow> GdbTrace result" where
  "GdbTrace_new f = GdbTrace_Update \<lparr>gt_m_CycleCount = 0, gt_m_pInput = f, gt_m_pGdbCycle = None\<rparr>"

definition GdbTrace_IsEnd :: "GdbTrace \<Rightarrow> bool" where
  "GdbTrace_IsEnd t \<longleftrightarrow> gt_m_pGdbCycle t = None"

definition GdbTrace_Next :: "GdbTrace \<Rightarrow> GdbTrace result" where
  "GdbTrace_Next t = (if GdbTrace_IsEnd t then Inl TraceException else GdbTrace_Update t)"

text \<open>The stream of a file; one that cannot be opened has failed.\<close>

definition open_stream :: "files \<Rightarrow> string \<Rightarrow> istream" where
  "open_stream fs path = (case fs path of
     None \<Rightarrow> \<lparr>is_rest = [], is_eof = False, is_fail = True\<rparr>
   | Some content \<Rightarrow> istream_of (bytes_text content))"

end
