(* ===== verification/Rafi_TraceReader.thy ===== *)
theory Rafi_TraceReader
  imports Rafi_TraceText
begin

text \<open>
  The readers of traces behind their common interface: \<open>ICycle\<close> and \<open>ITraceReader\<close> of
  \<^verbatim>\<open>include/rafi/trace\<close>, and \<open>MakeTraceReader\<close> of \<^verbatim>\<open>src/util/TraceUtil.cpp\<close>, which chooses the reader
  by the name of the file. A virtual function is a function on the classes that implement it. A
  file can be rewritten while an index is read, therefore \<open>Next\<close> takes the files.
\<close>

section \<open>Cycles\<close>

datatype ICycle = ICycle_Binary BinaryCycle | ICycle_Text TextCycle | ICycle_Gdb GdbCycle

primrec ICycle_GetCycle :: "ICycle \<Rightarrow> u32 result" where
  "ICycle_GetCycle (ICycle_Binary c) = BinaryCycle_GetCycle c"
| "ICycle_GetCycle (ICycle_Text c) = TextCycle_GetCycle c"
| "ICycle_GetCycle (ICycle_Gdb c) = Inr (gc_m_CycleCount c)"

primrec ICycle_GetXLEN :: "ICycle \<Rightarrow> u32 result" where
  "ICycle_GetXLEN (ICycle_Binary c) = BinaryCycle_GetXLEN c"
| "ICycle_GetXLEN (ICycle_Text c) = TextCycle_GetXLEN c"
| "ICycle_GetXLEN (ICycle_Gdb c) = Inr (XLEN_value XLEN64)"

primrec ICycle_GetPc :: "ICycle \<Rightarrow> u64 result" where
  "ICycle_GetPc (ICycle_Binary c) = BinaryCycle_GetPc c"
| "ICycle_GetPc (ICycle_Text c) = TextCycle_GetPc c"
| "ICycle_GetPc (ICycle_Gdb c) = Inr (gc_m_Pc c)"

primrec ICycle_IsIntRegExist :: "ICycle \<Rightarrow> bool" where
  "ICycle_IsIntRegExist (ICycle_Binary c) = BinaryCycle_IsIntRegExist c"
| "ICycle_IsIntRegExist (ICycle_Text c) = tc_m_IntRegExist c"
| "ICycle_IsIntRegExist (ICycle_Gdb c) = True"

primrec ICycle_IsFpRegExist :: "ICycle \<Rightarrow> bool" where
  "ICycle_IsFpRegExist (ICycle_Binary c) = BinaryCycle_IsFpRegExist c"
| "ICycle_IsFpRegExist (ICycle_Text c) = tc_m_FpRegExist c"
| "ICycle_IsFpRegExist (ICycle_Gdb c) = False"

primrec ICycle_IsIoExist :: "ICycle \<Rightarrow> bool" where
  "ICycle_IsIoExist (ICycle_Binary c) = BinaryCycle_IsIoExist c"
| "ICycle_IsIoExist (ICycle_Text c) = False"
| "ICycle_IsIoExist (ICycle_Gdb c) = False"

primrec ICycle_GetOpEventCount :: "ICycle \<Rightarrow> nat" where
  "ICycle_GetOpEventCount (ICycle_Binary c) = BinaryCycle_GetOpEventCount c"
| "ICycle_GetOpEventCount (ICycle_Text c) = 0"
| "ICycle_GetOpEventCount (ICycle_Gdb c) = 0"

primrec ICycle_GetMemoryEventCount :: "ICycle \<Rightarrow> nat" where
  "ICycle_GetMemoryEventCount (ICycle_Binary c) = BinaryCycle_GetMemoryEventCount c"
| "ICycle_GetMemoryEventCount (ICycle_Text c) = 0"
| "ICycle_GetMemoryEventCount (ICycle_Gdb c) = 0"

primrec ICycle_GetTrapEventCount :: "ICycle \<Rightarrow> nat" where
  "ICycle_GetTrapEventCount (ICycle_Binary c) = BinaryCycle_GetTrapEventCount c"
| "ICycle_GetTrapEventCount (ICycle_Text c) = 0"
| "ICycle_GetTrapEventCount (ICycle_Gdb c) = 0"

primrec ICycle_GetIntReg :: "nat \<Rightarrow> ICycle \<Rightarrow> u64 result" where
  "ICycle_GetIntReg i (ICycle_Binary c) = BinaryCycle_GetIntReg i c"
| "ICycle_GetIntReg i (ICycle_Text c) = TextCycle_GetIntReg i c"
| "ICycle_GetIntReg i (ICycle_Gdb c) = GdbCycle_GetIntReg i c"

primrec ICycle_GetFpReg :: "nat \<Rightarrow> ICycle \<Rightarrow> u64 result" where
  "ICycle_GetFpReg i (ICycle_Binary c) = BinaryCycle_GetFpReg i c"
| "ICycle_GetFpReg i (ICycle_Text c) = TextCycle_GetFpReg i c"
| "ICycle_GetFpReg i (ICycle_Gdb c) = Inr 0"

text \<open>The text formats do not implement the nodes that they do not have.\<close>

primrec ICycle_CopyIo :: "ICycle \<Rightarrow> NodeIo result" where
  "ICycle_CopyIo (ICycle_Binary c) = BinaryCycle_CopyIo c"
| "ICycle_CopyIo (ICycle_Text c) = Inl ProcessExit"
| "ICycle_CopyIo (ICycle_Gdb c) = Inl ProcessExit"

primrec ICycle_CopyOpEvent :: "nat \<Rightarrow> ICycle \<Rightarrow> NodeOpEvent result" where
  "ICycle_CopyOpEvent i (ICycle_Binary c) = BinaryCycle_CopyOpEvent i c"
| "ICycle_CopyOpEvent i (ICycle_Text c) = Inl ProcessExit"
| "ICycle_CopyOpEvent i (ICycle_Gdb c) = Inl ProcessExit"

primrec ICycle_CopyMemoryEvent :: "nat \<Rightarrow> ICycle \<Rightarrow> NodeMemoryEvent result" where
  "ICycle_CopyMemoryEvent i (ICycle_Binary c) = BinaryCycle_CopyMemoryEvent i c"
| "ICycle_CopyMemoryEvent i (ICycle_Text c) = Inl ProcessExit"
| "ICycle_CopyMemoryEvent i (ICycle_Gdb c) = Inl ProcessExit"

primrec ICycle_CopyTrapEvent :: "nat \<Rightarrow> ICycle \<Rightarrow> NodeTrapEvent result" where
  "ICycle_CopyTrapEvent i (ICycle_Binary c) = BinaryCycle_CopyTrapEvent i c"
| "ICycle_CopyTrapEvent i (ICycle_Text c) = Inl ProcessExit"
| "ICycle_CopyTrapEvent i (ICycle_Gdb c) = Inl ProcessExit"

section \<open>Readers\<close>

datatype ITraceReader = Reader_Binary TraceBinaryReader | Reader_Index TraceIndexReader
  | Reader_Text TextTrace | Reader_Gdb GdbTrace

text \<open>The answer \<open>None\<close> is a null pointer.\<close>

primrec ITraceReader_GetCycle :: "ITraceReader \<Rightarrow> ICycle option result" where
  "ITraceReader_GetCycle (Reader_Binary r) = map_sum id (map_option ICycle_Binary) (BinaryReader_GetCycle r)"
| "ITraceReader_GetCycle (Reader_Index r) = map_sum id (map_option ICycle_Binary) (IndexReader_GetCycle r)"
| "ITraceReader_GetCycle (Reader_Text r) = Inr (map_option ICycle_Text (tt_m_pTextCycle r))"
| "ITraceReader_GetCycle (Reader_Gdb r) = Inr (map_option ICycle_Gdb (gt_m_pGdbCycle r))"

primrec ITraceReader_IsEnd :: "ITraceReader \<Rightarrow> bool" where
  "ITraceReader_IsEnd (Reader_Binary r) = BinaryReader_IsEnd r"
| "ITraceReader_IsEnd (Reader_Index r) = IndexReader_IsEnd r"
| "ITraceReader_IsEnd (Reader_Text r) = TextTrace_IsEnd r"
| "ITraceReader_IsEnd (Reader_Gdb r) = GdbTrace_IsEnd r"

primrec ITraceReader_Next :: "files \<Rightarrow> ITraceReader \<Rightarrow> ITraceReader result" where
  "ITraceReader_Next fs (Reader_Binary r) = map_sum id Reader_Binary (BinaryReader_Next r)"
| "ITraceReader_Next fs (Reader_Index r) = map_sum id Reader_Index (IndexReader_Next fs r)"
| "ITraceReader_Next fs (Reader_Text r) = map_sum id Reader_Text (TextTrace_Next r)"
| "ITraceReader_Next fs (Reader_Gdb r) = map_sum id Reader_Gdb (GdbTrace_Next r)"

text \<open>\<open>Next\<close> with a number of cycles: all but the index reader step.\<close>

primrec ITraceReader_steps :: "files \<Rightarrow> nat \<Rightarrow> ITraceReader \<Rightarrow> ITraceReader result" where
  "ITraceReader_steps fs 0 r = Inr r"
| "ITraceReader_steps fs (Suc n) r = (case ITraceReader_Next fs r of
     Inl e \<Rightarrow> Inl e | Inr r' \<Rightarrow> ITraceReader_steps fs n r')"

definition ITraceReader_NextBy :: "files \<Rightarrow> u32 \<Rightarrow> ITraceReader \<Rightarrow> ITraceReader result" where
  "ITraceReader_NextBy fs cycle r = (case r of
     Reader_Index i \<Rightarrow> map_sum id Reader_Index (IndexReader_NextBy fs cycle i)
   | _ \<Rightarrow> ITraceReader_steps fs (unat cycle) r)"

text \<open>The parameter is \<open>boost::algorithm::ends_with\<close>.\<close>

definition MakeTraceReader :: "(string \<Rightarrow> string \<Rightarrow> bool) \<Rightarrow> files \<Rightarrow> string \<Rightarrow> ITraceReader result" where
  "MakeTraceReader ends_with fs path =
    (if ends_with path ''.tbin'' \<or> ends_with path ''.bin'' then map_sum id Reader_Binary (BinaryReader_new fs path)
     else if ends_with path ''.tidx'' \<or> ends_with path ''.idx'' then map_sum id Reader_Index (IndexReader_new fs path)
     else if ends_with path ''.gdb.log'' then map_sum id Reader_Gdb (GdbTrace_new (open_stream fs path))
     else map_sum id Reader_Text (TextTrace_new (open_stream fs path)))"

end
