(* ===== verification/Rafi_Disassembly.thy ===== *)
theory Rafi_Disassembly
  imports Rafi_Decoder Rafi_Csr Rafi_TraceIndex Rafi_Gdb
begin

text \<open>
  The names of enumerators and registers and the text of an operation: \<^verbatim>\<open>src/librafi_common/OpApi.cpp\<close>
  and \<^verbatim>\<open>src/librafi_common/RvApi.cpp\<close>. An overload of \<open>GetString\<close> has the type as its suffix; an
  enumeration of a trace is its value, and a value that is no enumerator takes the default. \<open>%d\<close> is
  \<open>print_int\<close>, \<open>%x\<close> is \<open>print_hex\<close>.
\<close>

section \<open>OpApi.cpp\<close>

text \<open>The arrays \<open>IntRegNames\<close> and \<open>FpRegNames\<close>.\<close>

definition IntRegNames :: "string list" where
  "IntRegNames = [''x0'', ''x1'', ''x2'', ''x3'', ''x4'', ''x5'', ''x6'', ''x7'', ''x8'', ''x9'',
     ''x10'', ''x11'', ''x12'', ''x13'', ''x14'', ''x15'', ''x16'', ''x17'', ''x18'', ''x19'',
     ''x20'', ''x21'', ''x22'', ''x23'', ''x24'', ''x25'', ''x26'', ''x27'', ''x28'', ''x29'',
     ''x30'', ''x31'']"

definition GetString_OpClass :: "OpClass \<Rightarrow> string" where
  "GetString_OpClass c = (case c of RV32I \<Rightarrow> ''RV32I'' | RV32A \<Rightarrow> ''RV32A'' | RV32M \<Rightarrow> ''RV32M''
     | _ \<Rightarrow> ''unknown'')"

text \<open>The \<open>switch\<close> of \<open>GetString\<close>, by the groups of its comments.\<close>

definition OpCodeI_string :: "OpCodeI \<Rightarrow> string" where
  "OpCodeI_string c = (case c of
     i_lui \<Rightarrow> ''lui'' | i_auipc \<Rightarrow> ''auipc''
   | i_jal \<Rightarrow> ''jal'' | i_jalr \<Rightarrow> ''jalr''
   | i_beq \<Rightarrow> ''beq'' | i_bne \<Rightarrow> ''bne'' | i_blt \<Rightarrow> ''blt''
   | i_bge \<Rightarrow> ''bge'' | i_bltu \<Rightarrow> ''bltu''
   | i_bgeu \<Rightarrow> ''bgeu'' | i_lb \<Rightarrow> ''lb'' | i_lh \<Rightarrow> ''lh''
   | i_lw \<Rightarrow> ''lw'' | i_lbu \<Rightarrow> ''lbu'' | i_lhu \<Rightarrow> ''lhu''
   | i_sb \<Rightarrow> ''sb'' | i_sh \<Rightarrow> ''sh'' | i_sw \<Rightarrow> ''sw''
   | i_addi \<Rightarrow> ''addi'' | i_slti \<Rightarrow> ''slti''
   | i_sltiu \<Rightarrow> ''sltiu'' | i_xori \<Rightarrow> ''xori''
   | i_ori \<Rightarrow> ''ori'' | i_andi \<Rightarrow> ''andi''
   | i_slli \<Rightarrow> ''slli'' | i_srli \<Rightarrow> ''srli''
   | i_srai \<Rightarrow> ''srai'' | i_add \<Rightarrow> ''add''
   | i_sub \<Rightarrow> ''sub'' | i_sll \<Rightarrow> ''sll'' | i_slt \<Rightarrow> ''slt''
   | i_sltu \<Rightarrow> ''sltu'' | i_xor \<Rightarrow> ''xor_''
   | i_srl \<Rightarrow> ''srl'' | i_sra \<Rightarrow> ''sra'' | i_or \<Rightarrow> ''or_''
   | i_and \<Rightarrow> ''and_'' | i_fence \<Rightarrow> ''fence''
   | i_fence_i \<Rightarrow> ''fence_i'' | i_ecall \<Rightarrow> ''ecall''
   | i_ebreak \<Rightarrow> ''ebreak'' | i_csrrw \<Rightarrow> ''csrrw''
   | i_csrrs \<Rightarrow> ''csrrs'' | i_csrrc \<Rightarrow> ''csrrc''
   | i_csrrwi \<Rightarrow> ''csrrwi'' | i_csrrsi \<Rightarrow> ''csrrsi''
   | i_csrrci \<Rightarrow> ''csrrci'' | i_mret \<Rightarrow> ''mret''
   | i_sret \<Rightarrow> ''sret'' | i_uret \<Rightarrow> ''uret''
   | i_wfi \<Rightarrow> ''wfi'' | i_sfence_vma \<Rightarrow> ''sfence_vma''
   | _ \<Rightarrow> ''unknown'')"

definition OpCodeM_string :: "OpCodeM \<Rightarrow> string" where
  "OpCodeM_string c = (case c of
     i_mul \<Rightarrow> ''mul'' | i_mulh \<Rightarrow> ''mulh''
   | i_mulhsu \<Rightarrow> ''mulhsu'' | i_mulhu \<Rightarrow> ''mulhu''
   | i_div \<Rightarrow> ''div'' | i_divu \<Rightarrow> ''divu''
   | i_rem \<Rightarrow> ''rem'' | i_remu \<Rightarrow> ''remu''
   | _ \<Rightarrow> ''unknown'')"

definition OpCodeA_string :: "OpCodeA \<Rightarrow> string" where
  "OpCodeA_string c = (case c of
     i_lr_w \<Rightarrow> ''lr_w'' | i_sc_w \<Rightarrow> ''sc_w''
   | i_amoswap_w \<Rightarrow> ''amoswap_w'' | i_amoadd_w \<Rightarrow> ''amoadd_w''
   | i_amoxor_w \<Rightarrow> ''amoxor_w'' | i_amoand_w \<Rightarrow> ''amoand_w''
   | i_amoor_w \<Rightarrow> ''amoor_w'' | i_amomin_w \<Rightarrow> ''amomin_w''
   | i_amomax_w \<Rightarrow> ''amomax_w'' | i_amominu_w \<Rightarrow> ''amominu_w''
   | i_amomaxu_w \<Rightarrow> ''amomaxu_w'' | _ \<Rightarrow> ''unknown'')"

definition OpCodeF_string :: "OpCodeF \<Rightarrow> string" where
  "OpCodeF_string c = (case c of
     i_flw \<Rightarrow> ''flw'' | i_fsw \<Rightarrow> ''fsw''
   | i_fmadd_s \<Rightarrow> ''fmadd_s'' | i_fmsub_s \<Rightarrow> ''fmsub_s''
   | i_fnmsub_s \<Rightarrow> ''fnmsub_s'' | i_fnmadd_s \<Rightarrow> ''fnmadd_s''
   | i_fadd_s \<Rightarrow> ''fadd_s'' | i_fsub_s \<Rightarrow> ''fsub_s''
   | i_fmul_s \<Rightarrow> ''fmul_s'' | i_fdiv_s \<Rightarrow> ''fdiv_s''
   | i_fsqrt_s \<Rightarrow> ''fsqrt_s'' | i_fsgnj_s \<Rightarrow> ''fsgnj_s''
   | i_fsgnjn_s \<Rightarrow> ''fsgnjn_s'' | i_fsgnjx_s \<Rightarrow> ''fsgnjx_s''
   | i_fmin_s \<Rightarrow> ''fmin_s'' | i_fmax_s \<Rightarrow> ''fmax_s''
   | i_fcvt_w_s \<Rightarrow> ''fcvt_w_s'' | i_fcvt_wu_s \<Rightarrow> ''fcvt_wu_s''
   | i_fmv_x_w \<Rightarrow> ''fmv_x_w'' | i_feq_s \<Rightarrow> ''feq_s''
   | i_flt_s \<Rightarrow> ''flt_s'' | i_fle_s \<Rightarrow> ''fle_s''
   | i_fclass_s \<Rightarrow> ''fclass_s'' | i_fcvt_s_w \<Rightarrow> ''fcvt_s_w''
   | i_fcvt_s_wu \<Rightarrow> ''fcvt_s_wu'' | i_fmv_w_x \<Rightarrow> ''fmv_w_x''
   | _ \<Rightarrow> ''unknown'')"

definition OpCodeD_string :: "OpCodeD \<Rightarrow> string" where
  "OpCodeD_string c = (case c of
     i_fld \<Rightarrow> ''fld'' | i_fsd \<Rightarrow> ''fsd''
   | i_fmadd_d \<Rightarrow> ''fmadd_d'' | i_fmsub_d \<Rightarrow> ''fmsub_d''
   | i_fnmsub_d \<Rightarrow> ''fnmsub_d'' | i_fnmadd_d \<Rightarrow> ''fnmadd_d''
   | i_fadd_d \<Rightarrow> ''fadd_d'' | i_fsub_d \<Rightarrow> ''fsub_d''
   | i_fmul_d \<Rightarrow> ''fmul_d'' | i_fdiv_d \<Rightarrow> ''fdiv_d''
   | i_fsqrt_d \<Rightarrow> ''fsqrt_d'' | i_fsgnj_d \<Rightarrow> ''fsgnj_d''
   | i_fsgnjn_d \<Rightarrow> ''fsgnjn_d'' | i_fsgnjx_d \<Rightarrow> ''fsgnjx_d''
   | i_fmin_d \<Rightarrow> ''fmin_d'' | i_fmax_d \<Rightarrow> ''fmax_d''
   | i_fcvt_s_d \<Rightarrow> ''fcvt_s_d'' | i_fcvt_d_s \<Rightarrow> ''fcvt_d_s''
   | i_feq_d \<Rightarrow> ''feq_d'' | i_flt_d \<Rightarrow> ''flt_d''
   | i_fle_d \<Rightarrow> ''fle_d'' | i_fclass_d \<Rightarrow> ''fclass_d''
   | i_fcvt_w_d \<Rightarrow> ''fcvt_w_d'' | i_fcvt_wu_d \<Rightarrow> ''fcvt_wu_d''
   | i_fcvt_d_w \<Rightarrow> ''fcvt_d_w'' | i_fcvt_d_wu \<Rightarrow> ''fcvt_d_wu''
   | _ \<Rightarrow> ''unknown'')"

definition OpCodeC_string :: "OpCodeC \<Rightarrow> string" where
  "OpCodeC_string c = (case c of
     i_c_addi4spn \<Rightarrow> ''c_addi4spn'' | i_c_fld \<Rightarrow> ''c_fld''
   | i_c_lq \<Rightarrow> ''c_lq'' | i_c_lw \<Rightarrow> ''c_lw''
   | i_c_flw \<Rightarrow> ''c_flw'' | i_c_ld \<Rightarrow> ''c_ld''
   | i_c_fsd \<Rightarrow> ''c_fsd'' | i_c_sq \<Rightarrow> ''c_sq''
   | i_c_sw \<Rightarrow> ''c_sw'' | i_c_fsw \<Rightarrow> ''c_fsw''
   | i_c_sd \<Rightarrow> ''c_sd'' | i_c_nop \<Rightarrow> ''c_nop''
   | i_c_addi \<Rightarrow> ''c_addi'' | i_c_jal \<Rightarrow> ''c_jal''
   | i_c_addiw \<Rightarrow> ''c_addiw'' | i_c_li \<Rightarrow> ''c_li''
   | i_c_addi16sp \<Rightarrow> ''c_addi16sp'' | i_c_lui \<Rightarrow> ''c_lui''
   | i_c_srli \<Rightarrow> ''c_srli'' | i_c_srli64 \<Rightarrow> ''c_srli64''
   | i_c_srai \<Rightarrow> ''c_srai'' | i_c_srai64 \<Rightarrow> ''c_srai64''
   | i_c_andi \<Rightarrow> ''c_andi'' | i_c_sub \<Rightarrow> ''c_sub''
   | i_c_xor \<Rightarrow> ''c_xor'' | i_c_or \<Rightarrow> ''c_or''
   | i_c_and \<Rightarrow> ''c_and'' | i_c_subw \<Rightarrow> ''c_subw''
   | i_c_addw \<Rightarrow> ''c_addw'' | i_c_j \<Rightarrow> ''c_j''
   | i_c_beqz \<Rightarrow> ''c_beqz'' | i_c_bnez \<Rightarrow> ''c_bnez''
   | i_c_slli \<Rightarrow> ''c_slli'' | i_c_slli64 \<Rightarrow> ''c_slli64''
   | i_c_fldsp \<Rightarrow> ''c_fldsp'' | i_c_lqsp \<Rightarrow> ''c_lqsp''
   | i_c_lwsp \<Rightarrow> ''c_lwsp'' | i_c_flwsp \<Rightarrow> ''c_flwsp''
   | i_c_ldsp \<Rightarrow> ''c_ldsp'' | i_c_jr \<Rightarrow> ''c_jr''
   | i_c_mv \<Rightarrow> ''c_mv'' | i_c_ebreak \<Rightarrow> ''c_ebreak''
   | i_c_jalr \<Rightarrow> ''c_jalr'' | i_c_add \<Rightarrow> ''c_add''
   | i_c_fsdsp \<Rightarrow> ''c_fsdsp'' | i_c_sqsp \<Rightarrow> ''c_sqsp''
   | i_c_swsp \<Rightarrow> ''c_swsp'' | i_c_fswsp \<Rightarrow> ''c_fswsp''
   | i_c_sdsp \<Rightarrow> ''c_sdsp'')"

definition GetString_OpCode :: "OpCode \<Rightarrow> string" where
  "GetString_OpCode opCode = (case opCode of
     Op_unknown \<Rightarrow> ''unknown'' | OpI c \<Rightarrow> OpCodeI_string c | OpM c \<Rightarrow> OpCodeM_string c
   | OpA c \<Rightarrow> OpCodeA_string c | OpF c \<Rightarrow> OpCodeF_string c | OpD c \<Rightarrow> OpCodeD_string c
   | OpC c \<Rightarrow> OpCodeC_string c)"

section \<open>RvApi.cpp\<close>

definition FpRegNames :: "string list" where
  "FpRegNames = [''ft0'', ''ft1'', ''ft2'', ''ft3'', ''ft4'', ''ft5'', ''ft6'', ''ft7'', ''fs0'', ''fs1'',
     ''fa0'', ''fa1'', ''fa2'', ''fa3'', ''fa4'', ''fa5'', ''fa6'', ''fa7'', ''fs2'', ''fs3'', ''fs4'',
     ''fs5'', ''fs6'', ''fs7'', ''fs8'', ''fs9'', ''fs10'', ''fs11'', ''ft8'', ''ft9'', ''ft10'', ''ft11'']"

definition GetString_MemoryAccessType :: "u32 \<Rightarrow> string" where
  "GetString_MemoryAccessType v = (if v = 0 then ''Instruction'' else if v = 2 then ''Load''
     else if v = 3 then ''Store'' else ''Unknown MemoryAccessType'')"

definition GetString_PrivilegeLevel :: "u32 \<Rightarrow> string" where
  "GetString_PrivilegeLevel v = (if v = 0 then ''User'' else if v = 1 then ''Supervisor''
     else if v = 2 then ''Reserved'' else if v = 3 then ''Machine'' else ''Unknown PrivilegeLevel'')"

definition GetString_TrapType :: "u32 \<Rightarrow> string" where
  "GetString_TrapType v = (if v = 0 then ''Interrupt'' else if v = 1 then ''Exception''
     else if v = 2 then ''Return'' else ''Unknown TrapType'')"

definition GetString_ExceptionType :: "u32 \<Rightarrow> string" where
  "GetString_ExceptionType v = (if v = 0 then ''InstructionAddressMisaligned''
     else if v = 1 then ''InstructionAccessFault'' else if v = 2 then ''IllegalInstruction''
     else if v = 3 then ''Breakpoint'' else if v = 4 then ''LoadAddressMisaligned''
     else if v = 5 then ''LoadAccessFault'' else if v = 6 then ''StoreAddressMisaligned''
     else if v = 7 then ''StoreAccessFault'' else if v = 8 then ''EnvironmentCallFromUser''
     else if v = 9 then ''EnvironmentCallFromSupervisor''
     else if v = 11 then ''EnvironmentCallFromMachine'' else if v = 12 then ''InstructionPageFault''
     else if v = 13 then ''LoadPageFault'' else if v = 15 then ''StorePageFault''
     else ''Unknown PrivilegeLevel'')"

definition GetString_InterruptType :: "u32 \<Rightarrow> string" where
  "GetString_InterruptType v = (if v = 0 then ''UserSoftware'' else if v = 1 then ''SupervisorSoftware''
     else if v = 3 then ''MachineSoftware'' else if v = 4 then ''UserTimer''
     else if v = 5 then ''SupervisorTimer'' else if v = 7 then ''MachineTimer''
     else if v = 8 then ''UserExternal'' else if v = 9 then ''SupervisorExternal''
     else if v = 11 then ''MachineExternal'' else ''Unknown PrivilegeLevel'')"

text \<open>The addresses of the trigger and debug registers, which no register has.\<close>

definition CSR_tselect :: csr_addr_t where [simp]: "CSR_tselect = 0x7a0"
definition CSR_tdata1 :: csr_addr_t where [simp]: "CSR_tdata1 = 0x7a1"
definition CSR_tdata2 :: csr_addr_t where [simp]: "CSR_tdata2 = 0x7a2"
definition CSR_tdata3 :: csr_addr_t where [simp]: "CSR_tdata3 = 0x7a3"
definition CSR_dcsr :: csr_addr_t where [simp]: "CSR_dcsr = 0x7b0"
definition CSR_dpc :: csr_addr_t where [simp]: "CSR_dpc = 0x7b1"
definition CSR_dscratch :: csr_addr_t where [simp]: "CSR_dscratch = 0x7b2"

definition csr_names :: "(csr_addr_t \<times> string) list" where
  "csr_names = [
     (CSR_ustatus, ''ustatus''), (CSR_uie, ''uie''), (CSR_utvec, ''utvec''),
     (CSR_uscratch, ''uscratch''), (CSR_uepc, ''uepc''), (CSR_ucause, ''ucause''),
     (CSR_utval, ''utval''), (CSR_uip, ''uip''), (CSR_fflags, ''fflags''), (CSR_frm, ''frm''),
     (CSR_fcsr, ''fcsr''), (CSR_sstatus, ''sstatus''), (CSR_sedeleg, ''sedeleg''),
     (CSR_sideleg, ''sideleg''), (CSR_sie, ''sie''), (CSR_stvec, ''stvec''),
     (CSR_scounteren, ''scounteren''), (CSR_sscratch, ''sscratch''), (CSR_sepc, ''sepc''),
     (CSR_scause, ''scause''), (CSR_stval, ''stval''), (CSR_sip, ''sip''),
     (CSR_satp, ''satp''), (CSR_mstatus, ''mstatus''), (CSR_misa, ''misa''),
     (CSR_medeleg, ''medeleg''), (CSR_mideleg, ''mideleg''), (CSR_mie, ''mie''),
     (CSR_mtvec, ''mtvec''), (CSR_mcounteren, ''mcounteren''), (CSR_mscratch, ''mscratch''),
     (CSR_mepc, ''mepc''), (CSR_mcause, ''mcause''), (CSR_mtval, ''mtval''),
     (CSR_mip, ''mip''), (CSR_pmpcfg0, ''pmpcfg0''), (CSR_pmpcfg1, ''pmpcfg1''),
     (CSR_pmpcfg2, ''pmpcfg2''), (CSR_pmpcfg3, ''pmpcfg3''), (CSR_tselect, ''tselect''),
     (CSR_tdata1, ''tdata1''), (CSR_tdata2, ''tdata2''), (CSR_tdata3, ''tdata3''),
     (CSR_dcsr, ''dcsr''), (CSR_dpc, ''dpc''), (CSR_dscratch, ''dscratch''),
     (CSR_mvendorid, ''mvendorid''), (CSR_marchid, ''marchid''), (CSR_mimpid, ''mimpid''),
     (CSR_mhartid, ''mhartid'')]"

text \<open>The second range ends at \<open>hpmcounter_end\<close>.\<close>

definition GetString_csr_default :: "csr_addr_t \<Rightarrow> string \<Rightarrow> string" where
  "GetString_csr_default addr defaultValue =
    (if CSR_hpmcounter_begin \<le> addr \<and> addr < CSR_hpmcounter_end then ''hpmcounter*''
     else if CSR_hpmcounterh_begin \<le> addr \<and> addr < CSR_hpmcounter_end then ''hpmcounterh*''
     else if CSR_mhpmcounter_begin \<le> addr \<and> addr < CSR_mhpmcounter_end then ''mhpmcounter*''
     else if CSR_mhpmcounterh_begin \<le> addr \<and> addr < CSR_mhpmcounterh_end then ''mhpmcounterh*''
     else if CSR_pmpaddr_begin \<le> addr \<and> addr < CSR_pmpaddr_end then ''pmpaddr*''
     else (case map_of csr_names addr of None \<Rightarrow> defaultValue | Some s \<Rightarrow> s))"

definition GetString_csr :: "csr_addr_t \<Rightarrow> string" where
  "GetString_csr addr = GetString_csr_default addr ''Unknown CSR address''"

text \<open>\<open>None\<close> is a null pointer.\<close>

definition GetFpRegName :: "i32 \<Rightarrow> string option" where
  "GetFpRegName index = (if \<not> (0 \<le>s index \<and> index <s 32) then None else Some (FpRegNames ! unat index))"

section \<open>The text of an operation\<close>

abbreviation hex32 :: "u32 \<Rightarrow> string" where
  "hex32 v \<equiv> ''0x'' @ print_hex (unat v)"

text \<open>\<open>IntRegNames\<close> at the numbers of registers; outside of the array the access is undefined.\<close>

definition with_names :: "i32 list \<Rightarrow> (string list \<Rightarrow> string) \<Rightarrow> string result" where
  "with_names regs f = (if list_all (\<lambda>r. unat r < 32) regs
     then Inr (f (map (\<lambda>r. IntRegNames ! unat r) regs)) else Inl Undefined)"

text \<open>The overloads of \<open>SNPrintOpVisitor\<close>; the text before it is cut to the buffer.\<close>

primrec Operand_text :: "string \<Rightarrow> Operand \<Rightarrow> string result" where
  "Operand_text opCode (OperandR rd rs1 rs2 funct3 funct7) = Inr (opCode @ '' (rd:'' @ print_int rd @
     '', rs1:'' @ print_int rs1 @ '', rs2:'' @ print_int rs2 @ '')'')"
| "Operand_text opCode (OperandR4 rd rs1 rs2 rs3 funct3 funct2) = Inr (opCode @ '' (rd:'' @ print_int rd @
     '', rs1:'' @ print_int rs1 @ '', rs2:'' @ print_int rs2 @ '', rs3:'' @ print_int rs3 @ '')'')"
| "Operand_text opCode (OperandI imm rd rs1 funct3) = Inr (opCode @ '' (rd:'' @ print_int rd @
     '', imm:'' @ hex32 (ucast imm) @ '')'')"
| "Operand_text opCode (OperandS imm rs1 rs2 funct3) = Inr (opCode @ '' (rs1:'' @ print_int rs1 @
     '', imm:'' @ hex32 (ucast imm) @ '', rs2:'' @ print_int rs2 @ '')'')"
| "Operand_text opCode (OperandB imm rs1 rs2 funct3) = with_names [rs1, rs2] (\<lambda>names.
     opCode @ '' '' @ names ! 0 @ '','' @ print_int (ucast imm) @ ''('' @ names ! 1 @ '')'')"
| "Operand_text opCode (OperandU imm rd) = with_names [rd] (\<lambda>names.
     opCode @ '' '' @ names ! 0 @ '','' @ hex32 (ucast imm))"
| "Operand_text opCode (OperandJ imm rd) = with_names [rd] (\<lambda>names.
     opCode @ '' '' @ names ! 0 @ '','' @ hex32 (ucast imm))"
| "Operand_text opCode (OperandShiftImm rd rs1 shamt) = with_names [rd, rs1] (\<lambda>names.
     opCode @ '' '' @ names ! 0 @ '','' @ names ! 1 @ '','' @ hex32 shamt)"
| "Operand_text opCode (OperandCsr rd rs1 csr) = with_names [rd, rs1] (\<lambda>names.
     opCode @ '' '' @ names ! 0 @ '','' @ GetString_csr csr @ '','' @ names ! 1)"
| "Operand_text opCode (OperandCsrImm zimm rd csr) = with_names [rd] (\<lambda>names.
     opCode @ '' '' @ names ! 0 @ '','' @ GetString_csr csr @ '','' @ hex32 zimm)"
| "Operand_text opCode (OperandFence pred succ) = Inr (opCode @ '' (pred:'' @ hex32 pred @
     '', succ:'' @ hex32 succ @ '')'')"
| "Operand_text opCode (OperandCR rd rs1 rs2) = Inr (opCode @ '' (rd:'' @ print_int rd @
     '', rs1:'' @ print_int rs1 @ '', rs2:'' @ print_int rs2 @ '')'')"
| "Operand_text opCode (OperandCI imm rd rs1) = Inr (opCode @ '' (rd:'' @ print_int rd @
     '', rs1:'' @ print_int rs1 @ '', imm:'' @ hex32 (ucast imm) @ '')'')"
| "Operand_text opCode (OperandCSS imm rs2) = Inr (opCode @ '' (imm:'' @ hex32 (ucast imm) @
     '', rs2:'' @ print_int rs2 @ '')'')"
| "Operand_text opCode (OperandCIW imm rd) = Inr (opCode @ '' (rd:'' @ print_int rd @
     '', imm:'' @ hex32 (ucast imm) @ '')'')"
| "Operand_text opCode (OperandCL imm rd rs1) = Inr (opCode @ '' (rd:'' @ print_int rd @
     '', rs1:'' @ print_int rs1 @ '', imm:'' @ hex32 (ucast imm) @ '')'')"
| "Operand_text opCode (OperandCS imm rs1 rs2) = Inr (opCode @ '' (rs1:'' @ print_int rs1 @
     '', imm:'' @ hex32 (ucast imm) @ '', rs2:'' @ print_int rs2 @ '')'')"
| "Operand_text opCode (OperandCB imm rs1) = with_names [rs1] (\<lambda>names.
     opCode @ '' '' @ names ! 0 @ '','' @ print_int (ucast imm))"
| "Operand_text opCode (OperandCJ imm) = Inr (opCode @ '' '' @ print_int (ucast imm))"
| "Operand_text opCode OperandNone = Inr opCode"

text \<open>\<open>snprintf\<close> puts what fits before a null character, and answers the length of the text.\<close>

definition SNPrintOp :: "nat \<Rightarrow> Op \<Rightarrow> (string \<times> nat) result" where
  "SNPrintOp bufferSize op = map_sum id (\<lambda>s. (take (bufferSize - 1) s, length s))
     (Operand_text (GetString_OpCode (op_opCode op)) (op_operand op))"

end
