(* ===== verification/Rafi_TracePrinter.thy ===== *)
theory Rafi_TracePrinter
  imports Rafi_TraceReader Rafi_Disassembly
begin

text \<open>
  The printers of cycles: \<open>TraceTextPrinterImpl\<close>, \<open>TracePcPrinter\<close> and \<open>TraceJsonPrinterImpl\<close> of
  \<^verbatim>\<open>src/librafi_trace\<close>. A printer answers the text it prints of a cycle. What \<open>%e\<close> prints of a
  \<open>float\<close> and of a \<open>double\<close> with given bits is a parameter of the JSON printer.
\<close>

definition bindR :: "'a result \<Rightarrow> ('a \<Rightarrow> 'b result) \<Rightarrow> 'b result" where
  "bindR m f = (case m of Inl e \<Rightarrow> Inl e | Inr x \<Rightarrow> f x)"

text \<open>Results one after the other.\<close>

primrec all_results :: "'a result list \<Rightarrow> 'a list result" where
  "all_results [] = Inr []"
| "all_results (m # ms) = bindR m (\<lambda>x. bindR (all_results ms) (\<lambda>xs. Inr (x # xs)))"

definition prints :: "string result list \<Rightarrow> string result" where
  "prints ms = map_sum id concat (all_results ms)"

definition pad0 :: "nat \<Rightarrow> string \<Rightarrow> string" where
  "pad0 n s = replicate (n - length s) CHR ''0'' @ s"

abbreviation nl :: string where
  "nl \<equiv> [CHR 0x0A]"

abbreviation hex :: "'a::len word \<Rightarrow> string" where
  "hex v \<equiv> print_hex (unat v)"

section \<open>Text\<close>

definition PrintHeader :: "u64 \<Rightarrow> ICycle \<Rightarrow> string result" where
  "PrintHeader m_Cycle c = (if m_Cycle = 0 then Inr []
     else bindR (ICycle_GetXLEN c) (\<lambda>xlen.
       if xlen = XLEN_value XLEN32 then Inr (''XLEN  32'' @ nl)
       else if xlen = XLEN_value XLEN64 then Inr (''XLEN  64'' @ nl)
       else Inl ProcessExit))"

definition PrintBasic :: "ICycle \<Rightarrow> string result" where
  "PrintBasic c = bindR (ICycle_GetCycle c) (\<lambda>cycle. bindR (ICycle_GetXLEN c) (\<lambda>xlen.
     bindR (ICycle_GetPc c) (\<lambda>pc.
     Inr (''BASIC '' @ pad0 8 (hex cycle) @ '' '' @ hex xlen @ '' '' @ pad0 16 (hex pc) @ '' 0'' @ nl))))"

text \<open>32 registers, four in a line.\<close>

definition reg_lines :: "u64 list \<Rightarrow> string" where
  "reg_lines regs = concat (map (\<lambda>i. '' '' @ pad0 16 (hex (regs ! i)) @ (if i mod 4 = 3 then nl else [])) [0..<32])"

definition PrintIntReg :: "ICycle \<Rightarrow> string result" where
  "PrintIntReg c = (if \<not> ICycle_IsIntRegExist c then Inr []
     else bindR (all_results (map (\<lambda>i. ICycle_GetIntReg i c) [0..<32])) (\<lambda>regs.
       Inr (''INT'' @ nl @ reg_lines regs)))"

definition PrintFpReg :: "ICycle \<Rightarrow> string result" where
  "PrintFpReg c = (if \<not> ICycle_IsFpRegExist c then Inr []
     else bindR (all_results (map (\<lambda>i. ICycle_GetFpReg i c) [0..<32])) (\<lambda>regs.
       Inr (''FP'' @ nl @ reg_lines regs)))"

definition PrintIoState :: "ICycle \<Rightarrow> string result" where
  "PrintIoState c = (if \<not> ICycle_IsIoExist c then Inr []
     else bindR (ICycle_CopyIo c) (\<lambda>n. Inr (''IO '' @ pad0 8 (hex (ni_hostIo n)) @ nl)))"

definition PrintOpEvent :: "ICycle \<Rightarrow> string result" where
  "PrintOpEvent c = prints (map (\<lambda>i. bindR (ICycle_CopyOpEvent i c) (\<lambda>e.
     Inr (''OP '' @ hex (no_insn e) @ '' '' @ GetString_PrivilegeLevel (no_priv e) @ nl)))
     [0..<ICycle_GetOpEventCount c])"

definition PrintMemoryEvent :: "ICycle \<Rightarrow> string result" where
  "PrintMemoryEvent c = prints (map (\<lambda>i. bindR (ICycle_CopyMemoryEvent i c) (\<lambda>e.
     Inr (''MA '' @ GetString_MemoryAccessType (nm_accessType e) @ '' '' @ hex (nm_size e) @ '' '' @
       hex (nm_value e) @ '' '' @ hex (nm_vaddr e) @ '' '' @ hex (nm_paddr e) @ nl)))
     [0..<ICycle_GetMemoryEventCount c])"

definition PrintTrapEvent :: "ICycle \<Rightarrow> string result" where
  "PrintTrapEvent c = prints (map (\<lambda>i. bindR (ICycle_CopyTrapEvent i c) (\<lambda>e.
     Inr (''TRAP '' @ GetString_TrapType (nt_trapType e) @ '' '' @ GetString_PrivilegeLevel (nt_from e) @ '' '' @
       GetString_PrivilegeLevel (nt_to e) @ '' '' @ hex (nt_cause e) @ '' '' @ hex (nt_trapValue e) @ nl)))
     [0..<ICycle_GetTrapEventCount c])"

text \<open>\<open>Print\<close>, with the value of \<open>m_Cycle\<close>, which counts the printed cycles.\<close>

definition TextPrinter_Print :: "u64 \<Rightarrow> ICycle \<Rightarrow> string result" where
  "TextPrinter_Print m_Cycle c = prints [PrintHeader m_Cycle c, PrintBasic c, PrintIntReg c, PrintFpReg c,
     PrintIoState c, PrintOpEvent c, PrintMemoryEvent c, PrintTrapEvent c, Inr (''BREAK'' @ nl)]"

definition PcPrinter_Print :: "ICycle \<Rightarrow> string result" where
  "PcPrinter_Print c = bindR (ICycle_GetPc c) (\<lambda>pc. Inr (''0x'' @ pad0 16 (hex pc) @ nl))"

section \<open>JSON\<close>

definition GetCauseString :: "u32 \<Rightarrow> u32 \<Rightarrow> string" where
  "GetCauseString trapType cause = (if trapType = 1 then GetString_ExceptionType cause
     else if trapType = 0 then GetString_InterruptType cause else [])"

definition Json_PrintPc :: "ICycle \<Rightarrow> string result" where
  "Json_PrintPc c = bindR (ICycle_GetPc c) (\<lambda>pc. Inr (''  Pc {'' @ nl @
     ''    vaddr: 0x'' @ hex pc @ nl @ ''    paddr: 0'' @ nl @ ''  }'' @ nl))"

text \<open>The labels of the registers in the format string.\<close>

definition json_labels :: "(string \<times> string) list" where
  "json_labels = [(''x0:  '', ''zero''), (''x1:  '', ''ra''), (''x2:  '', ''sp''), (''x3:  '', ''gp''),
     (''x4:  '', ''tp''), (''x5:  '', ''t0''), (''x6:  '', ''t1''), (''x7:  '', ''t2''),
     (''x8:  '', ''s0 (fp)''), (''x9:  '', ''s1''), (''x10: '', ''a0''), (''x11: '', ''a1''),
     (''x12: '', ''a2''), (''x13: '', ''a3''), (''x14: '', ''a4''), (''x15: '', ''a5''),
     (''x16: '', ''a6''), (''x17: '', ''a7''), (''x18: '', ''s2''), (''x19: '', ''s3''),
     (''x20: '', ''s4''), (''x21: '', ''s5''), (''x22: '', ''s6''), (''x23: '', ''s7''),
     (''x24: '', ''s8''), (''x25: '', ''s9''), (''x26: '', ''s10''), (''x27: '', ''s11''),
     (''x28: '', ''t3''), (''x29: '', ''t4''), (''x30: '', ''t5''), (''x31: '', ''t6'')]"

definition Json_PrintIntReg :: "ICycle \<Rightarrow> string result" where
  "Json_PrintIntReg c = (if \<not> ICycle_IsIntRegExist c then Inr []
     else bindR (all_results (map (\<lambda>i. ICycle_GetIntReg i c) [0..<32])) (\<lambda>regs.
       Inr (''  IntReg: {'' @ nl @ concat (map (\<lambda>((label, name), r).
           ''    '' @ label @ ''0x'' @ hex r @ '' // '' @ name @ nl) (zip json_labels regs)) @ ''  }'' @ nl)))"

text \<open>
  The union of a register: the \<open>float\<close> is its lower half. \<open>%-2d\<close> fills up with blanks, and the name
  of no register is printed as null pointers are.
\<close>

definition Json_PrintFpReg :: "(u32 \<Rightarrow> string) \<Rightarrow> (u64 \<Rightarrow> string) \<Rightarrow> ICycle \<Rightarrow> string result" where
  "Json_PrintFpReg print_float print_double c = (if \<not> ICycle_IsFpRegExist c then Inr []
     else bindR (prints (map (\<lambda>i. bindR (ICycle_GetFpReg i c) (\<lambda>v.
         Inr (''    f'' @ print_nat i @ (if i < 10 then '' '' else []) @ '': { u64: 0x'' @ hex v @
           '', f32: '' @ print_float (ucast v) @ '', f64: '' @ print_double v @ '' } // '' @
           (case GetFpRegName (of_nat i) of None \<Rightarrow> ''(null)'' | Some s \<Rightarrow> s) @ nl))) [0..<32]))
       (\<lambda>s. Inr (''  FpReg: {'' @ nl @ s @ ''  }'' @ nl)))"

definition Json_PrintIoState :: "ICycle \<Rightarrow> string result" where
  "Json_PrintIoState c = (if \<not> ICycle_IsIoExist c then Inr []
     else bindR (ICycle_CopyIo c) (\<lambda>n.
       Inr (''  Io {'' @ nl @ ''    host: 0x'' @ hex (ni_hostIo n) @ nl @ ''  }'' @ nl)))"

text \<open>A decoder is made for the width of the cycle; any other value than two of them is like \<open>XLEN128\<close>.\<close>

definition XLEN_of :: "u32 \<Rightarrow> XLEN" where
  "XLEN_of v = (if v = XLEN_value XLEN32 then XLEN32 else if v = XLEN_value XLEN64 then XLEN64 else XLEN128)"

definition Json_PrintOpEvent :: "ICycle \<Rightarrow> string result" where
  "Json_PrintOpEvent c = bindR (ICycle_GetXLEN c) (\<lambda>xlen. prints (map (\<lambda>i.
     bindR (ICycle_CopyOpEvent i c) (\<lambda>e.
     bindR (Decode (XLEN_of xlen) (no_insn e)) (\<lambda>op.
     bindR (SNPrintOp 64 op) (\<lambda>(opStr, _).
     Inr (''  Op {'' @ nl @ ''    insn:  0x'' @ hex (no_insn e) @ '' // '' @ opStr @ nl @
       ''    priv:  '' @ GetString_PrivilegeLevel (no_priv e) @ nl @ ''  }'' @ nl)))))
     [0..<ICycle_GetOpEventCount c]))"

definition Json_PrintMemoryEvent :: "ICycle \<Rightarrow> string result" where
  "Json_PrintMemoryEvent c = prints (map (\<lambda>i. bindR (ICycle_CopyMemoryEvent i c) (\<lambda>e.
     Inr (''  MemoryAccess {'' @ nl @
       ''    accessType: '' @ GetString_MemoryAccessType (nm_accessType e) @ nl @
       ''    size: '' @ print_int (nm_size e) @ '' // byte'' @ nl @
       ''    value: 0x'' @ hex (nm_value e) @ nl @ ''    vaddr: 0x'' @ hex (nm_vaddr e) @ nl @
       ''    paddr: 0x'' @ hex (nm_paddr e) @ nl @ ''  }'' @ nl))) [0..<ICycle_GetMemoryEventCount c])"

definition Json_PrintTrapEvent :: "ICycle \<Rightarrow> string result" where
  "Json_PrintTrapEvent c = prints (map (\<lambda>i. bindR (ICycle_CopyTrapEvent i c) (\<lambda>e.
     Inr (''  Trap {'' @ nl @ ''    type:  '' @ GetString_TrapType (nt_trapType e) @ nl @
       ''    from:  '' @ GetString_PrivilegeLevel (nt_from e) @ nl @
       ''    to:    '' @ GetString_PrivilegeLevel (nt_to e) @ nl @
       ''    cause: '' @ GetCauseString (nt_trapType e) (nt_cause e) @ nl @
       ''    trapValue: 0x'' @ hex (nt_trapValue e) @ nl @ ''  }'' @ nl))) [0..<ICycle_GetTrapEventCount c])"

definition JsonPrinter_Print :: "(u32 \<Rightarrow> string) \<Rightarrow> (u64 \<Rightarrow> string) \<Rightarrow> ICycle \<Rightarrow> string result" where
  "JsonPrinter_Print print_float print_double c = prints [Inr (''{'' @ nl), Json_PrintPc c, Json_PrintIntReg c,
     Json_PrintFpReg print_float print_double c, Json_PrintIoState c, Json_PrintOpEvent c,
     Json_PrintMemoryEvent c, Json_PrintTrapEvent c, Inr (''}'' @ nl)]"

section \<open>Choosing a printer\<close>

datatype PrinterType = Printer_Text | Printer_Json | Printer_Pc

text \<open>\<open>MakeTracePrinter\<close>, and \<open>Print\<close> of the printer it makes.\<close>

definition MakeTracePrinter ::
  "(u32 \<Rightarrow> string) \<Rightarrow> (u64 \<Rightarrow> string) \<Rightarrow> PrinterType \<Rightarrow> u64 \<Rightarrow> ICycle \<Rightarrow> string result" where
  "MakeTracePrinter print_float print_double printerType m_Cycle c = (case printerType of
     Printer_Text \<Rightarrow> TextPrinter_Print m_Cycle c
   | Printer_Json \<Rightarrow> JsonPrinter_Print print_float print_double c
   | Printer_Pc \<Rightarrow> PcPrinter_Print c)"

end
