(* ===== verification/Rafi_TraceTools.thy ===== *)
theory Rafi_TraceTools
  imports Rafi_TracePrinter
begin

text \<open>
  The tools that read traces: \<^verbatim>\<open>src/rafi-check-io\<close>, \<^verbatim>\<open>src/rafi-diff\<close>, \<^verbatim>\<open>src/rafi-conv\<close> and
  \<^verbatim>\<open>src/rafi-dump\<close>. Boost parses their command lines: what it answers is an argument. The loops
  over a trace are partial functions, \<open>None\<close> being a loop that does not end. The lines that
  \<open>CheckIo\<close> prints, and the messages of exceptions, are left out.
\<close>

text \<open>A call through the pointer that \<open>GetCycle\<close> answers.\<close>

definition on_cycle :: "ITraceReader \<Rightarrow> (ICycle \<Rightarrow> 'a result) \<Rightarrow> 'a result" where
  "on_cycle r f = bindR (ITraceReader_GetCycle r) (\<lambda>c. case c of None \<Rightarrow> Inl Undefined | Some c \<Rightarrow> f c)"

text \<open>The exceptions that the tools catch.\<close>

definition caught :: "failure \<Rightarrow> bool" where
  "caught e \<longleftrightarrow> e = FileOpenFailure \<or> e = TraceException"

text \<open>
  What the parser of Boost does with a command line that the program has described to it: the
  variables, the exception that the programs catch, or another one; and how reading the options can
  end a program.
\<close>

datatype 'v boost_parse = Parsed 'v | Error_with_option_name | Other_error

datatype option_end = Option_exit i32 | Option_uncaught

section \<open>rafi-check-io\<close>

definition ExpectedHostIoValue :: u32 where "ExpectedHostIoValue = 1"

text \<open>One turn of the loop of \<open>GetLastHostIoValue\<close>.\<close>

definition host_io_turn :: "files \<Rightarrow> ITraceReader \<Rightarrow> (u32 \<times> ITraceReader) result" where
  "host_io_turn fs r = bindR (on_cycle r ICycle_CopyIo) (\<lambda>io.
     bindR (ITraceReader_Next fs r) (\<lambda>r'. Inr (ni_hostIo io, r')))"

partial_function (option) GetLastHostIoValue_loop :: "files \<Rightarrow> u32 \<Rightarrow> ITraceReader \<Rightarrow> u32 result option" where
  "GetLastHostIoValue_loop fs hostIoValue r =
    (if ITraceReader_IsEnd r then Some (Inr hostIoValue)
     else (case host_io_turn fs r of
         Inl e \<Rightarrow> Some (Inl e)
       | Inr (hostIoValue', r') \<Rightarrow> GetLastHostIoValue_loop fs hostIoValue' r'))"

definition GetLastHostIoValue :: "files \<Rightarrow> ITraceReader \<Rightarrow> u32 result option" where
  "GetLastHostIoValue fs r = GetLastHostIoValue_loop fs 0 r"

definition CheckIo :: "(string \<Rightarrow> string \<Rightarrow> bool) \<Rightarrow> files \<Rightarrow> string \<Rightarrow> bool result option" where
  "CheckIo ends_with fs path =
    (let verdict = (\<lambda>v. case v of
       Inr hostIoValue \<Rightarrow> Inr (hostIoValue = ExpectedHostIoValue)
     | Inl e \<Rightarrow> if caught e then Inr False else Inl e) in
     case MakeTraceReader ends_with fs path of
       Inl e \<Rightarrow> Some (verdict (Inl e))
     | Inr r \<Rightarrow> map_option verdict (GetLastHostIoValue fs r))"

text \<open>\<open>main\<close>: the number of failures is the status of the process.\<close>

primrec check_io_main :: "(string \<Rightarrow> string \<Rightarrow> bool) \<Rightarrow> files \<Rightarrow> string list \<Rightarrow> i32 result option" where
  "check_io_main ends_with fs [] = Some (Inr 0)"
| "check_io_main ends_with fs (path # paths) = (case CheckIo ends_with fs path of
     None \<Rightarrow> None
   | Some (Inl e) \<Rightarrow> Some (Inl e)
   | Some (Inr b) \<Rightarrow> map_option (map_sum id (\<lambda>failCount. if b then failCount else failCount + 1))
       (check_io_main ends_with fs paths))"

section \<open>rafi-diff\<close>

definition IsPcMatched :: "ICycle \<Rightarrow> ICycle \<Rightarrow> bool result" where
  "IsPcMatched expect actual =
     bindR (ICycle_GetPc expect) (\<lambda>x. bindR (ICycle_GetPc actual) (\<lambda>y. Inr (x = y)))"

primrec int_regs_matched :: "ICycle \<Rightarrow> ICycle \<Rightarrow> nat list \<Rightarrow> bool result" where
  "int_regs_matched expect actual [] = Inr True"
| "int_regs_matched expect actual (i # is) =
     bindR (ICycle_GetIntReg i expect) (\<lambda>x. bindR (ICycle_GetIntReg i actual) (\<lambda>y.
     if x \<noteq> y then Inr False else int_regs_matched expect actual is))"

definition IsIntRegMatched :: "ICycle \<Rightarrow> ICycle \<Rightarrow> bool result" where
  "IsIntRegMatched expect actual =
    (if \<not> ICycle_IsIntRegExist expect \<or> \<not> ICycle_IsIntRegExist actual then Inr False
     else int_regs_matched expect actual [0..<32])"

definition IsMatched :: "ICycle \<Rightarrow> ICycle \<Rightarrow> bool result" where
  "IsMatched expect actual = bindR (IsPcMatched expect actual) (\<lambda>pc.
     if \<not> pc then Inr False else IsIntRegMatched expect actual)"

definition PrintDiffPc :: "ICycle \<Rightarrow> ICycle \<Rightarrow> string result" where
  "PrintDiffPc expect actual =
     bindR (ICycle_GetPc expect) (\<lambda>x. bindR (ICycle_GetPc actual) (\<lambda>y. Inr (if x \<noteq> y then
       ''    - virtual PCs are not matched (expect:0x'' @ hex x @ '', actual:0x'' @ hex y @ '')'' @ nl
     else [])))"

definition PrintDiffIntReg :: "ICycle \<Rightarrow> ICycle \<Rightarrow> string result" where
  "PrintDiffIntReg expect actual = prints [
     Inr (if \<not> ICycle_IsIntRegExist expect then ''    - expect has no IntReg32Node.'' @ nl else []),
     Inr (if \<not> ICycle_IsIntRegExist actual then ''    - actual has no IntReg32Node.'' @ nl else []),
     if ICycle_IsIntRegExist expect \<and> ICycle_IsIntRegExist actual then
       prints (map (\<lambda>i. bindR (ICycle_GetIntReg i expect) (\<lambda>x. bindR (ICycle_GetIntReg i actual) (\<lambda>y.
         Inr (if x \<noteq> y then ''    - x'' @ print_nat i @ '' not matched (expect:0x'' @ hex x @
           '', actual:0x'' @ hex y @ '')'' @ nl else [])))) [0..<32])
     else Inr []]"

definition PrintDiff :: "ICycle \<Rightarrow> ICycle \<Rightarrow> string result" where
  "PrintDiff expect actual = bindR (IsPcMatched expect actual) (\<lambda>pc.
     if \<not> pc then PrintDiffPc expect actual
     else bindR (IsIntRegMatched expect actual) (\<lambda>regs.
       if \<not> regs then PrintDiffIntReg expect actual else Inr []))"

record DiffOption =
  do_m_ExpectPath :: string
  do_m_ActualPath :: string
  do_m_CycleCount :: i32
  do_m_Threshold :: i32

text \<open>The constructor; \<open>notify\<close> asks for both paths before the test for help.\<close>

record diff_variables =
  dv_expect :: string
  dv_actual :: string
  dv_count :: i32
  dv_threshold :: i32
  dv_help :: bool

definition DiffOption_new :: "diff_variables boost_parse \<Rightarrow> option_end + DiffOption" where
  "DiffOption_new vars = (case vars of
     Other_error \<Rightarrow> Inl Option_uncaught
   | Error_with_option_name \<Rightarrow> Inl (Option_exit 1)
   | Parsed v \<Rightarrow> if dv_help v then Inl (Option_exit 0)
       else Inr \<lparr>do_m_ExpectPath = dv_expect v, do_m_ActualPath = dv_actual v, do_m_CycleCount = dv_count v,
         do_m_Threshold = dv_threshold v\<rparr>)"

text \<open>The local variables of \<open>CompareTrace\<close>, and what it has printed.\<close>

record compare =
  cmp_expect :: ITraceReader
  cmp_actual :: ITraceReader
  cmp_continuousUnmatchCount :: i32
  cmp_checkOpCount :: i32
  cmp_expectOpCount :: i32
  cmp_actualOpCount :: i32
  cmp_out :: string

text \<open>The lines of the two counters.\<close>

definition counts_text :: "string \<Rightarrow> i32 \<Rightarrow> i32 \<Rightarrow> string" where
  "counts_text unit_text expectOpCount actualOpCount =
     ''    - expect: 0x'' @ hex expectOpCount @ '' ('' @ print_int expectOpCount @ '') '' @ unit_text @ nl @
     ''    - actual: 0x'' @ hex actualOpCount @ '' ('' @ print_int actualOpCount @ '') '' @ unit_text @ nl"

text \<open>One turn of the loop, \<open>i\<close> being its counter; the answer tells whether the loop goes on.\<close>

definition compare_turn :: "files \<Rightarrow> DiffOption \<Rightarrow> nat \<Rightarrow> compare \<Rightarrow> (bool \<times> compare) result" where
  "compare_turn fs opt i v =
    (let progress = (\<lambda>v. (True, if 0 < i \<and> i mod 100000 = 0
         then v\<lparr>cmp_out := cmp_out v @ ''Compare '' @ print_nat i @ '' cycles.'' @ nl\<rparr> else v)) in
     if ITraceReader_IsEnd (cmp_expect v) \<or> ITraceReader_IsEnd (cmp_actual v) then Inr (False, v)
     else on_cycle (cmp_expect v) (\<lambda>expectCycle. on_cycle (cmp_actual v) (\<lambda>actualCycle.
       bindR (IsMatched expectCycle actualCycle) (\<lambda>matched.
       if matched then
         bindR (ITraceReader_Next fs (cmp_expect v)) (\<lambda>expect.
         bindR (ITraceReader_Next fs (cmp_actual v)) (\<lambda>actual.
         Inr (progress (v\<lparr>cmp_expect := expect, cmp_actual := actual, cmp_continuousUnmatchCount := 0,
           cmp_checkOpCount := cmp_checkOpCount v + 1, cmp_expectOpCount := cmp_expectOpCount v + 1,
           cmp_actualOpCount := cmp_actualOpCount v + 1\<rparr>))))
       else
         bindR (PrintDiff expectCycle actualCycle) (\<lambda>diff.
         let out = cmp_out v @ ''Detect mismatched cycle.'' @ nl @
               counts_text ''cycle.'' (cmp_expectOpCount v) (cmp_actualOpCount v) @ ''Proceed actual.'' @ nl @ diff;
             unmatched = cmp_continuousUnmatchCount v + 1;
             v = v\<lparr>cmp_continuousUnmatchCount := unmatched, cmp_out := out\<rparr> in
         if unmatched = do_m_Threshold opt then
           Inr (False, v\<lparr>cmp_out := out @ ''=========================================='' @ nl @
             ''STOP: detect '' @ print_int (do_m_Threshold opt) @ '' contiguous unmatced cycles'' @ nl\<rparr>)
         else
           bindR (ITraceReader_Next fs (cmp_actual v)) (\<lambda>actual.
           Inr (progress (v\<lparr>cmp_actual := actual, cmp_actualOpCount := cmp_actualOpCount v + 1\<rparr>))))))))"

text \<open>The loop with \<open>n\<close> turns left.\<close>

primrec CompareTrace_loop :: "files \<Rightarrow> DiffOption \<Rightarrow> nat \<Rightarrow> nat \<Rightarrow> compare \<Rightarrow> compare result" where
  "CompareTrace_loop fs opt 0 i v = Inr v"
| "CompareTrace_loop fs opt (Suc n) i v = bindR (compare_turn fs opt i v) (\<lambda>(more, v').
     if more then CompareTrace_loop fs opt n (i + 1) v' else Inr v')"

definition CompareTrace :: "files \<Rightarrow> ITraceReader \<Rightarrow> ITraceReader \<Rightarrow> DiffOption \<Rightarrow> compare result" where
  "CompareTrace fs expect actual opt =
     bindR (CompareTrace_loop fs opt (nat (sint (do_m_CycleCount opt))) 0
       \<lparr>cmp_expect = expect, cmp_actual = actual, cmp_continuousUnmatchCount = 0, cmp_checkOpCount = 0,
        cmp_expectOpCount = 0, cmp_actualOpCount = 0, cmp_out = []\<rparr>)
       (\<lambda>v. Inr (v\<lparr>cmp_out := cmp_out v @ ''Comparation finished.'' @ nl @
          counts_text ''ops.'' (cmp_expectOpCount v) (cmp_actualOpCount v)\<rparr>))"

text \<open>\<open>main\<close>: the readers are made outside of the \<open>try\<close>; the answer is the status of the process.\<close>

definition diff_main :: "(string \<Rightarrow> string \<Rightarrow> bool) \<Rightarrow> files \<Rightarrow> DiffOption \<Rightarrow> i32 result" where
  "diff_main ends_with fs opt =
     bindR (MakeTraceReader ends_with fs (do_m_ExpectPath opt)) (\<lambda>expect.
     bindR (MakeTraceReader ends_with fs (do_m_ActualPath opt)) (\<lambda>actual.
     case CompareTrace fs expect actual opt of
       Inr _ \<Rightarrow> Inr 0
     | Inl e \<Rightarrow> if e = TraceException then Inr 1 else Inl e))"

section \<open>rafi-conv\<close>

text \<open>The cycle logger of a cycle, with its break. The width need not be an enumerator.\<close>

definition Convert_cycle :: "ICycle \<Rightarrow> u8 list result" where
  "Convert_cycle c =
     bindR (ICycle_GetCycle c) (\<lambda>cycle. bindR (ICycle_GetXLEN c) (\<lambda>xlen. bindR (ICycle_GetPc c) (\<lambda>pc.
     bindR (Logger_AddData NodeId_BA (NodeBasic_bytes \<lparr>nb_cycle = cycle, nb_xlen = xlen, nb_pc = pc\<rparr>) []) (\<lambda>logger.
     bindR (if \<not> ICycle_IsIntRegExist c then Inr logger
       else if xlen = XLEN_value XLEN32 then
         bindR (all_results (map (\<lambda>i. ICycle_GetIntReg i c) [0..<32])) (\<lambda>regs.
           Logger_Add (NodeIntReg32 (map ucast regs)) logger)
       else if xlen = XLEN_value XLEN64 then
         bindR (all_results (map (\<lambda>i. ICycle_GetIntReg i c) [0..<32])) (\<lambda>regs.
           Logger_Add (NodeIntReg64 regs) logger)
       else Inl ProcessExit)
     Logger_Break))))"

text \<open>
  One turn of the loop of \<open>Convert\<close>; the reader sees the files as the writer has changed them. A
  failure behind \<open>Write\<close> has the cycle in the writer.
\<close>

definition Convert_turn :: "TraceIndexWriter \<Rightarrow> ITraceReader \<Rightarrow> TraceIndexWriter \<times> ITraceReader result" where
  "Convert_turn w r = (case bindR (on_cycle r Convert_cycle) (\<lambda>bytes. IndexWriter_Write bytes w) of
     Inl e \<Rightarrow> (w, Inl e)
   | Inr w' \<Rightarrow> (w', ITraceReader_Next (tiw_files w') r))"

text \<open>The writer when the loop ends or fails.\<close>

partial_function (option) Convert_loop ::
    "TraceIndexWriter \<Rightarrow> ITraceReader \<Rightarrow> (TraceIndexWriter \<times> failure option) option" where
  "Convert_loop w r =
    (if ITraceReader_IsEnd r then Some (w, None)
     else (case Convert_turn w r of
         (w', Inl e) \<Rightarrow> Some (w', Some e)
       | (w', Inr r') \<Rightarrow> Convert_loop w' r'))"

text \<open>The files that are left; a caught exception deletes the writer, and an exit of the process does not return.\<close>

definition Convert :: "(string \<Rightarrow> string \<Rightarrow> bool) \<Rightarrow> files \<Rightarrow> string \<Rightarrow> string \<Rightarrow> files result option" where
  "Convert ends_with fs inPath outPathBase = (case MakeTraceReader ends_with fs inPath of
     Inl e \<Rightarrow> Some (if caught e then Inr fs else Inl e)
   | Inr r \<Rightarrow> map_option (\<lambda>(w, failed). case failed of
         None \<Rightarrow> Inr (IndexWriter_delete w)
       | Some e \<Rightarrow> if caught e then Inr (IndexWriter_delete w) else Inl e)
       (Convert_loop (IndexWriter_new fs outPathBase) r))"

section \<open>rafi-dump\<close>

datatype IFilter = DefaultFilter | PcFilter u64 bool
  | MemoryAccessFilter u64 bool bool bool  \<comment> \<open>address, isPhysical, checkLoad, checkStore\<close>

definition event_passes :: "u64 \<Rightarrow> bool \<Rightarrow> bool \<Rightarrow> bool \<Rightarrow> NodeMemoryEvent \<Rightarrow> bool" where
  "event_passes m_Address m_IsPhysical m_CheckLoad m_CheckStore e =
    (let address = (if m_IsPhysical then nm_paddr e else nm_vaddr e);
         addressIncluded = (address \<le> m_Address \<and> m_Address < address + ucast (nm_size e)) in
     if nm_accessType e = 0 \<or> nm_accessType e = 2 then m_CheckLoad \<and> addressIncluded
     else if nm_accessType e = 3 then m_CheckStore \<and> addressIncluded
     else False)"

primrec some_event_passes :: "(NodeMemoryEvent \<Rightarrow> bool) \<Rightarrow> ICycle \<Rightarrow> nat list \<Rightarrow> bool result" where
  "some_event_passes P c [] = Inr False"
| "some_event_passes P c (i # is) = bindR (ICycle_CopyMemoryEvent i c) (\<lambda>e.
     if P e then Inr True else some_event_passes P c is)"

primrec IFilter_Apply :: "IFilter \<Rightarrow> ICycle \<Rightarrow> bool result" where
  "IFilter_Apply DefaultFilter c = Inr True"
| "IFilter_Apply (PcFilter m_Address m_IsPhysical) c =
    (if m_IsPhysical then Inl AssertionFailure
     else bindR (ICycle_GetPc c) (\<lambda>pc. Inr (pc = m_Address)))"
| "IFilter_Apply (MemoryAccessFilter m_Address m_IsPhysical m_CheckLoad m_CheckStore) c =
     some_event_passes (event_passes m_Address m_IsPhysical m_CheckLoad m_CheckStore) c
       [0..<ICycle_GetMemoryEventCount c]"

text \<open>The number behind the command is undefined when there is none.\<close>

definition MakeFilter :: "string \<Rightarrow> IFilter result" where
  "MakeFilter description =
    (if description = [] then Inr DefaultFilter
     else let s = map (\<lambda>c. if c = CHR '':'' then CHR '' '' else c) description;
         (command, f) = stream_string (istream_of s);
         make = (\<lambda>filter_of. case fst (stream_hex f) of None \<Rightarrow> Inl Undefined | Some value \<Rightarrow> Inr (filter_of value)) in
       if command = ''A'' then make (\<lambda>v. MemoryAccessFilter v False True True)
       else if command = ''AP'' then make (\<lambda>v. MemoryAccessFilter v True True True)
       else if command = ''L'' then make (\<lambda>v. MemoryAccessFilter v False True False)
       else if command = ''LP'' then make (\<lambda>v. MemoryAccessFilter v True True False)
       else if command = ''S'' then make (\<lambda>v. MemoryAccessFilter v False False True)
       else if command = ''SP'' then make (\<lambda>v. MemoryAccessFilter v True False True)
       else if command = ''P'' then make (\<lambda>v. PcFilter v False)
       else Inl ProcessExit)"

record DumpOption =
  dmp_m_PrinterType :: PrinterType
  dmp_m_FilterDescription :: string
  dmp_m_Path :: string
  dmp_m_CycleBegin :: i32
  dmp_m_CycleCount :: i32
  dmp_m_CycleEnd :: i32

record dump_variables =
  dmpv_begin :: i32
  dmpv_count :: i32
  dmpv_end :: i32
  dmpv_filter :: "string option"
  dmpv_input :: "string option"
  dmpv_mode :: "string option"
  dmpv_help :: bool

definition DumpOption_new :: "dump_variables boost_parse \<Rightarrow> option_end + DumpOption" where
  "DumpOption_new vars = (case vars of
     Other_error \<Rightarrow> Inl Option_uncaught
   | Error_with_option_name \<Rightarrow> Inl (Option_exit 1)
   | Parsed v \<Rightarrow> (case dmpv_input v of
       None \<Rightarrow> Inl (Option_exit 0)
     | Some path \<Rightarrow>
         let mode = case_option [] id (dmpv_mode v);
             option = (\<lambda>printerType. \<lparr>dmp_m_PrinterType = printerType,
               dmp_m_FilterDescription = case_option [] id (dmpv_filter v), dmp_m_Path = path,
               dmp_m_CycleBegin = dmpv_begin v, dmp_m_CycleCount = dmpv_count v, dmp_m_CycleEnd = dmpv_end v\<rparr>) in
         if dmpv_help v then Inl (Option_exit 0)
         else if mode = [] \<or> mode = ''text'' then Inr (option Printer_Text)
         else if mode = ''json'' then Inr (option Printer_Json)
         else if mode = ''pc'' then Inr (option Printer_Pc)
         else Inl (Option_exit 1)))"

text \<open>The loop with \<open>n\<close> turns left: \<open>printed\<close> is the number of cycles the printer has printed.\<close>

primrec PrintTrace_loop :: "files \<Rightarrow> (u64 \<Rightarrow> ICycle \<Rightarrow> string result) \<Rightarrow> IFilter \<Rightarrow> nat \<Rightarrow> u64 \<Rightarrow>
    ITraceReader \<Rightarrow> string result" where
  "PrintTrace_loop fs printer flt 0 printed r = Inr []"
| "PrintTrace_loop fs printer flt (Suc n) printed r =
    (if ITraceReader_IsEnd r then Inr []
     else bindR (on_cycle r (IFilter_Apply flt)) (\<lambda>passes.
       bindR (if passes then on_cycle r (printer printed) else Inr []) (\<lambda>text.
       bindR (ITraceReader_Next fs r) (\<lambda>r'.
       bindR (PrintTrace_loop fs printer flt n (if passes then printed + 1 else printed) r') (\<lambda>more.
       Inr (text @ more))))))"

definition PrintTrace :: "(string \<Rightarrow> string \<Rightarrow> bool) \<Rightarrow> (u32 \<Rightarrow> string) \<Rightarrow> (u64 \<Rightarrow> string) \<Rightarrow> files \<Rightarrow> DumpOption \<Rightarrow> IFilter \<Rightarrow> string result" where
  "PrintTrace ends_with print_float print_double fs opt flt =
    (let begin_cycle = dmp_m_CycleBegin opt;
         last_cycle = begin_cycle + dmp_m_CycleCount opt;
         end_cycle = (if dmp_m_CycleEnd opt <s last_cycle then dmp_m_CycleEnd opt else last_cycle) in
     bindR (MakeTraceReader ends_with fs (dmp_m_Path opt)) (\<lambda>r.
     bindR (if 0 <s begin_cycle then ITraceReader_NextBy fs begin_cycle r else Inr r) (\<lambda>r.
     PrintTrace_loop fs (MakeTracePrinter print_float print_double (dmp_m_PrinterType opt)) flt
       (nat (sint end_cycle - sint begin_cycle)) 0 r)))"

definition dump_main :: "(string \<Rightarrow> string \<Rightarrow> bool) \<Rightarrow> (u32 \<Rightarrow> string) \<Rightarrow> (u64 \<Rightarrow> string) \<Rightarrow> files \<Rightarrow> DumpOption \<Rightarrow> string result" where
  "dump_main ends_with print_float print_double fs opt =
     bindR (MakeFilter (dmp_m_FilterDescription opt)) (PrintTrace ends_with print_float print_double fs opt)"

end
