(* ===== verification/Rafi_TraceReader_Ok.thy ===== *)
theory Rafi_TraceReader_Ok
  imports Rafi_TraceReader Rafi_TraceIndex_Ok
begin

text \<open>
  The contract of a reader of traces: \<open>Next\<close> goes on towards the end, whatever is in the files. Every
  reader has it, so that a loop over a trace ends. What a reader reads is not changed by the
  interface it is used through.
\<close>

section \<open>The contract\<close>

text \<open>\<open>ok\<close> is the invariant of the reader, \<open>behind\<close> relates a reader to those it has left behind.\<close>

locale trace_reader =
  fixes ok :: "'r \<Rightarrow> bool" and isEnd :: "'r \<Rightarrow> bool"
    and nextCycle :: "files \<Rightarrow> 'r \<Rightarrow> 'r result" and behind :: "('r \<times> 'r) set"
  assumes wf_behind: "wf behind"
    and next_ok: "ok r \<Longrightarrow> \<not> isEnd r \<Longrightarrow> nextCycle fs r = Inr r' \<Longrightarrow> ok r'"
    and next_behind: "ok r \<Longrightarrow> \<not> isEnd r \<Longrightarrow> nextCycle fs r = Inr r' \<Longrightarrow> (r', r) \<in> behind"
begin

text \<open>Induction over the cycles that are left, when the files may change on the way.\<close>

lemma reader_induct [consumes 1, case_names step]:
  assumes "ok r"
    and step: "\<And>r. ok r \<Longrightarrow> (\<And>fs r'. \<not> isEnd r \<Longrightarrow> nextCycle fs r = Inr r' \<Longrightarrow> P r') \<Longrightarrow> P r"
  shows "P r"
  using wf_behind assms(1)
proof (induction r rule: wf_induct_rule)
  case (less r)
  show ?case
  proof (rule step [OF less.prems])
    fix fs r'
    assume r': "\<not> isEnd r" "nextCycle fs r = Inr r'"
    show "P r'" by (rule less.IH [OF next_behind [OF less.prems r'] next_ok [OF less.prems r']])
  qed
qed

text \<open>A loop that stops at the end and else goes to the next cycle or fails.\<close>

lemma loop_ends:
  assumes "ok r"
    and stop: "\<And>r x. isEnd r \<Longrightarrow> loop x r \<noteq> None"
    and turn: "\<And>r x. \<not> isEnd r \<Longrightarrow> (\<exists>y. loop x r = Some y) \<or>
      (\<exists>fs r' x'. nextCycle fs r = Inr r' \<and> loop x r = loop x' r')"
  shows "loop x r \<noteq> None"
  using assms(1)
proof (induction arbitrary: x rule: reader_induct)
  case (step r)
  show ?case
  proof (cases "isEnd r")
    case False
    from turn [OF this, of x] show ?thesis
    proof (elim disjE exE conjE)
      fix fs r' x'
      assume "nextCycle fs r = Inr r'" "loop x r = loop x' r'"
      with step.IH [OF False] show ?thesis by metis
    qed simp
  qed (rule stop)
qed

end

section \<open>The readers\<close>

lemma map_sum_Inr: "map_sum f g x = Inr y \<longleftrightarrow> (\<exists>z. x = Inr z \<and> y = g z)"
  by (cases x) auto

lemma ParseNode_id_size: "ParseNode_id i p c = Inr c' \<Longrightarrow> bc_m_Size c' = bc_m_Size c"
  by (auto simp: ParseNode_id_def split: if_splits option.splits sum.splits)

lemma ParseNode_grows:
  assumes "ParseNode buffer c = Inr (n, c')"
  shows "bc_m_Size c' = bc_m_Size c" "8 \<le> n"
  using assms ParseNode_size [OF assms] ParseNode_id_size
  by (auto simp: ParseNode_def Let_def map_sum_Inr split: if_splits)

lemma Parse_loop_size:
  "Parse_loop buffer c = Inr c' \<Longrightarrow> bc_m_Size c + (if bc_m_Break c then 0 else 8) \<le> bc_m_Size c'"
proof (induction buffer c rule: Parse_loop.induct)
  case (1 buffer c)
  show ?case
  proof (cases "bc_m_Break c")
    case True
    then show ?thesis using 1(2) by (simp add: Parse_loop.simps [of buffer c])
  next
    case False
    then obtain n c1 where c1: "ParseNode buffer c = Inr (n, c1)"
      "Parse_loop (drop n buffer) (c1\<lparr>bc_m_Size := bc_m_Size c1 + n\<rparr>) = Inr c'"
      using 1(2) by (subst (asm) Parse_loop.simps) (auto split: sum.splits)
    have "bc_m_Size c1 + n \<le> bc_m_Size c'" using 1(1) [OF False c1(1) refl c1(2)] by (simp split: if_splits)
    then show ?thesis using ParseNode_grows [OF c1(1)] by simp
  qed
qed

lemma Parse_size: "BinaryCycle_Parse buffer = Inr c \<Longrightarrow> 8 \<le> bc_m_Size c"
  using Parse_loop_size [of buffer BinaryCycle_new c] by (simp add: BinaryCycle_Parse_def BinaryCycle_new_def)

definition memory_ok :: "TraceBinaryMemoryReader \<Rightarrow> bool" where
  "memory_ok m \<longleftrightarrow> (\<forall>c. tmr_m_pCycle m = Some c \<longrightarrow> 8 \<le> bc_m_Size c)"

definition memory_left :: "TraceBinaryMemoryReader \<Rightarrow> nat" where
  "memory_left m = length (tmr_m_pBuffer m) - tmr_m_Offset m"

lemma MemoryReader_new_ok: "MemoryReader_new buffer = Inr m \<Longrightarrow> memory_ok m"
  by (auto simp: MemoryReader_new_def memory_ok_def map_sum_Inr dest: Parse_size split: if_splits)

lemma MemoryReader_Next_on:
  assumes "memory_ok m" "MemoryReader_Next m = Inr m'"
  shows "memory_ok m'" "memory_left m' < memory_left m"
  using assms
  by (auto simp: MemoryReader_Next_def memory_ok_def memory_left_def Let_def map_sum_Inr
      BinaryCycle_GetSize_def dest: Parse_size split: option.splits if_splits)

definition binary_ok :: "TraceBinaryReader \<Rightarrow> bool" where
  "binary_ok b \<longleftrightarrow> (case b of None \<Rightarrow> True | Some m \<Rightarrow> memory_ok m)"

definition binary_left :: "TraceBinaryReader \<Rightarrow> nat" where
  "binary_left b = (case b of None \<Rightarrow> 0 | Some m \<Rightarrow> memory_left m)"

lemma BinaryReader_new_ok: "BinaryReader_new fs path = Inr b \<Longrightarrow> binary_ok b"
  by (auto simp: BinaryReader_new_def binary_ok_def map_sum_Inr dest: MemoryReader_new_ok
      split: option.splits if_splits)

lemma BinaryReader_Next_on:
  assumes "binary_ok b" "BinaryReader_Next b = Inr b'"
  shows "binary_ok b'" "binary_left b' < binary_left b"
  using assms
  by (auto simp: BinaryReader_Next_def binary_ok_def binary_left_def map_sum_Inr
      dest: MemoryReader_Next_on split: option.splits)

interpretation binary: trace_reader binary_ok BinaryReader_IsEnd "\<lambda>fs. BinaryReader_Next" "measure binary_left"
  by unfold_locales (simp_all add: BinaryReader_Next_on)

text \<open>In an index a file is left behind for the next entry, or the cycles of a file are.\<close>

definition index_ok :: "TraceIndexReader \<Rightarrow> bool" where
  "index_ok r \<longleftrightarrow> (case tir_m_pTraceBinary r of None \<Rightarrow> True | Some b \<Rightarrow> binary_ok b)"

definition files_left :: "TraceIndexReader \<Rightarrow> nat" where
  "files_left r = (case tir_m_pTraceBinary r of None \<Rightarrow> 0
     | Some b \<Rightarrow> 1 + (length (tir_m_Entries r) - tir_m_EntryIndex r))"

definition file_left :: "TraceIndexReader \<Rightarrow> nat" where
  "file_left r = (case tir_m_pTraceBinary r of None \<Rightarrow> 0 | Some b \<Rightarrow> binary_left b)"

lemma UpdateTraceBinary_on:
  assumes "UpdateTraceBinary fs r = Inr r'"
  shows "index_ok r'" "files_left r' \<le> (if tir_m_EntryIndex r < length (tir_m_Entries r)
    then 1 + (length (tir_m_Entries r) - tir_m_EntryIndex r) else 0)"
  using assms
  by (auto simp: UpdateTraceBinary_def index_ok_def files_left_def map_sum_Inr
      dest: BinaryReader_new_ok split: if_splits)

lemma IndexReader_Next_on:
  assumes "index_ok r" "IndexReader_Next fs r = Inr r'"
  shows "index_ok r'" "(r', r) \<in> measures [files_left, file_left]"
proof -
  obtain b b' where b: "tir_m_pTraceBinary r = Some b" "BinaryReader_Next b = Inr b'"
    using assms(2) by (auto simp: IndexReader_Next_def split: option.splits sum.splits)
  let ?r = "r\<lparr>tir_m_pTraceBinary := Some b', tir_m_Cycle := tir_m_Cycle r + 1\<rparr>"
  let ?r1 = "?r\<lparr>tir_m_EntryIndex := tir_m_EntryIndex r + 1\<rparr>"
  have on: "binary_ok b'" "binary_left b' < binary_left b"
    using BinaryReader_Next_on [OF _ b(2)] assms(1) b(1) by (simp_all add: index_ok_def)
  have step: "IndexReader_Next fs r = (if \<not> BinaryReader_IsEnd b' then Inr ?r
      else if tir_m_EntryIndex r + 1 = length (tir_m_Entries r) then Inr ?r1 else UpdateTraceBinary fs ?r1)"
    using b by (simp add: IndexReader_Next_def Let_def)
  have "index_ok r' \<and> (r', r) \<in> measures [files_left, file_left]"
  proof (cases "\<not> BinaryReader_IsEnd b'")
    case True
    then have "r' = ?r" using assms(2) step by simp
    then show ?thesis using on b(1) by (simp add: index_ok_def files_left_def file_left_def)
  next
    case False
    show ?thesis
    proof (cases "tir_m_EntryIndex r + 1 = length (tir_m_Entries r)")
      case True
      then have "r' = ?r1" using assms(2) step False by simp
      then show ?thesis using on b(1) True by (simp add: index_ok_def files_left_def)
    next
      case further: False
      then have "UpdateTraceBinary fs ?r1 = Inr r'" using assms(2) step False by simp
      from UpdateTraceBinary_on [OF this] show ?thesis using b(1) by (auto simp: files_left_def split: if_splits)
    qed
  qed
  then show "index_ok r'" "(r', r) \<in> measures [files_left, file_left]" by simp_all
qed

interpretation index: trace_reader index_ok IndexReader_IsEnd IndexReader_Next "measures [files_left, file_left]"
  by unfold_locales (simp_all add: IndexReader_Next_on del: in_measures)

text \<open>A text format leaves text behind.\<close>

lemma TextCycle_Parse_loop_shorter:
  "TextCycle_Parse_loop f c = Inr (c', f') \<Longrightarrow> length (is_rest f') < length (is_rest f)"
proof (induction f c rule: TextCycle_Parse_loop.induct)
  case (1 f c)
  obtain s f1 where s: "stream_string f = (s, f1)" by (cases "stream_string f")
  show ?case
  proof (cases "s = []")
    case True
    then show ?thesis using 1(4) s by (subst (asm) TextCycle_Parse_loop.simps) simp
  next
    case False
    note shorter = stream_string_shorter [OF s False]
    consider "s = ''BREAK''" | "s = ''BASIC''" | "s = ''INT''" | "s = ''FP''"
      using 1(4) s by (subst (asm) TextCycle_Parse_loop.simps) (auto split: if_splits)
    then show ?thesis
    proof cases
      case 1
      then show ?thesis using "1.prems" s shorter by (subst (asm) TextCycle_Parse_loop.simps) simp
    next
      case 2
      then obtain c2 f2 where c2: "ParseBasic f1 c = Inr (c2, f2)" "TextCycle_Parse_loop f2 c2 = Inr (c', f')"
        using "1.prems" s by (subst (asm) TextCycle_Parse_loop.simps) (auto split: sum.splits)
      then show ?thesis using "1.IH"(1) [OF s [symmetric]] 2 ParseBasic_le [OF c2(1)] shorter by fastforce
    next
      case 3
      obtain c2 f2 where c2: "ParseIntReg f1 c = (c2, f2)" by (cases "ParseIntReg f1 c")
      then have "TextCycle_Parse_loop f2 c2 = Inr (c', f')"
        using "1.prems" s 3 by (subst (asm) TextCycle_Parse_loop.simps) simp
      then show ?thesis using "1.IH"(2) [OF s [symmetric]] 3 c2 ParseIntReg_le [OF c2] shorter by fastforce
    next
      case 4
      obtain c2 f2 where c2: "ParseIntReg f1 c = (c2, f2)" by (cases "ParseIntReg f1 c")
      then have "TextCycle_Parse_loop f2 c2 = Inr (c', f')"
        using "1.prems" s 4 by (subst (asm) TextCycle_Parse_loop.simps) simp
      then show ?thesis using "1.IH"(3) [OF s [symmetric]] 4 c2 ParseIntReg_le [OF c2] shorter by fastforce
    qed
  qed
qed

definition text_left :: "TextTrace \<Rightarrow> nat" where
  "text_left t = (case tt_m_pTextCycle t of None \<Rightarrow> 0 | Some _ \<Rightarrow> Suc (length (is_rest (tt_m_pInput t))))"

lemma TextTrace_Next_on: "TextTrace_Next t = Inr t' \<Longrightarrow> text_left t' < text_left t"
  by (auto simp: TextTrace_Next_def TextTrace_IsEnd_def UpdateTextCycle_def text_left_def TextCycle_Parse_def
      dest!: TextCycle_Parse_loop_shorter split: if_splits sum.splits option.splits)

interpretation text_trace: trace_reader "\<lambda>_. True" TextTrace_IsEnd "\<lambda>fs. TextTrace_Next" "measure text_left"
  by unfold_locales (simp_all add: TextTrace_Next_on)

lemma GdbCycle_Parse_loop_shorter:
  "GdbCycle_Parse_loop f c = Inr (c', f') \<Longrightarrow> length (is_rest f') < length (is_rest f)"
proof (induction f c rule: GdbCycle_Parse_loop.induct)
  case (1 f c)
  obtain s f1 where s: "stream_string f = (s, f1)" by (cases "stream_string f")
  show ?case
  proof (cases "s = []")
    case True
    then show ?thesis using 1(4) s by (subst (asm) GdbCycle_Parse_loop.simps) (simp add: name_index_Nil)
  next
    case False
    note shorter = stream_string_shorter [OF s False]
    consider "s = ''BREAK''" | "s = ''pc''" | "s = ''priv''"
      | i where "s \<noteq> ''BREAK''" "s \<noteq> ''pc''" "s \<noteq> ''priv''" "name_index s g_IntRegNames = Some i"
      using 1(4) s by (subst (asm) GdbCycle_Parse_loop.simps) (auto split: if_splits option.splits)
    then show ?thesis
    proof cases
      case 1
      then show ?thesis using "1.prems" s shorter by (subst (asm) GdbCycle_Parse_loop.simps) simp
    next
      case 2
      obtain v f2 where v: "read_value (gc_m_Pc c) f1 = (v, f2)" by (cases "read_value (gc_m_Pc c) f1")
      then have "GdbCycle_Parse_loop f2 (c\<lparr>gc_m_Pc := v\<rparr>) = Inr (c', f')"
        using "1.prems" s 2 by (subst (asm) GdbCycle_Parse_loop.simps) simp
      then show ?thesis using "1.IH"(1) [OF s [symmetric]] 2 v read_value_le [OF v] shorter by fastforce
    next
      case 3
      then have "GdbCycle_Parse_loop (snd (stream_string f1)) c = Inr (c', f')"
        using "1.prems" s by (subst (asm) GdbCycle_Parse_loop.simps) simp
      then show ?thesis using "1.IH"(2) [OF s [symmetric]] 3 stream_string_le [of f1] shorter by fastforce
    next
      case 4
      obtain v f2 where v: "read_value (gc_m_IntRegs c ! i) f1 = (v, f2)" by (cases "read_value (gc_m_IntRegs c ! i) f1")
      then have "GdbCycle_Parse_loop f2 (c\<lparr>gc_m_IntRegs := (gc_m_IntRegs c)[i := v]\<rparr>) = Inr (c', f')"
        using "1.prems" s 4 by (subst (asm) GdbCycle_Parse_loop.simps) simp
      then show ?thesis using "1.IH"(3) [OF s [symmetric]] 4 v read_value_le [OF v] shorter by fastforce
    qed
  qed
qed

definition gdb_left :: "GdbTrace \<Rightarrow> nat" where
  "gdb_left t = (case gt_m_pGdbCycle t of None \<Rightarrow> 0 | Some _ \<Rightarrow> Suc (length (is_rest (gt_m_pInput t))))"

lemma GdbTrace_Next_on: "GdbTrace_Next t = Inr t' \<Longrightarrow> gdb_left t' < gdb_left t"
  by (auto simp: GdbTrace_Next_def GdbTrace_IsEnd_def GdbTrace_Update_def gdb_left_def GdbCycle_Parse_def Let_def
      dest!: GdbCycle_Parse_loop_shorter split: if_splits sum.splits option.splits)

interpretation gdb_trace: trace_reader "\<lambda>_. True" GdbTrace_IsEnd "\<lambda>fs. GdbTrace_Next" "measure gdb_left"
  by unfold_locales (simp_all add: GdbTrace_Next_on)

section \<open>The interface\<close>

definition reader_ok :: "ITraceReader \<Rightarrow> bool" where
  "reader_ok r \<longleftrightarrow> (case r of Reader_Binary b \<Rightarrow> binary_ok b | Reader_Index i \<Rightarrow> index_ok i | _ \<Rightarrow> True)"

definition reader_first :: "ITraceReader \<Rightarrow> nat" where
  "reader_first r = (case r of Reader_Binary b \<Rightarrow> binary_left b | Reader_Index i \<Rightarrow> files_left i
     | Reader_Text t \<Rightarrow> text_left t | Reader_Gdb t \<Rightarrow> gdb_left t)"

definition reader_second :: "ITraceReader \<Rightarrow> nat" where
  "reader_second r = (case r of Reader_Index i \<Rightarrow> file_left i | _ \<Rightarrow> 0)"

lemmas reader_defs = reader_ok_def reader_first_def reader_second_def

interpretation reader: trace_reader reader_ok ITraceReader_IsEnd ITraceReader_Next
  "measures [reader_first, reader_second]"
proof unfold_locales
  fix fs r r'
  assume r: "reader_ok r" "\<not> ITraceReader_IsEnd r" "ITraceReader_Next fs r = Inr r'"
  show "reader_ok r'"
    using r by (cases r) (auto simp: reader_defs map_sum_Inr dest: binary.next_ok index.next_ok)
  show "(r', r) \<in> measures [reader_first, reader_second]"
    using r by (cases r) (auto simp: reader_defs map_sum_Inr dest: binary.next_behind index.next_behind
      TextTrace_Next_on GdbTrace_Next_on)
qed simp

lemma MakeTraceReader_ok: "MakeTraceReader ends_with fs path = Inr r \<Longrightarrow> reader_ok r"
  by (auto simp: MakeTraceReader_def reader_ok_def map_sum_Inr IndexReader_new_def BinaryReader_new_ok
      dest: UpdateTraceBinary_on(1) split: if_splits option.splits sum.splits)

text \<open>What the interface reads is what the reader behind it reads.\<close>

abbreviation trace_reads :: "files \<Rightarrow> ITraceReader \<Rightarrow> ICycle list \<Rightarrow> bool" where
  "trace_reads fs \<equiv> reads ITraceReader_IsEnd ITraceReader_GetCycle (ITraceReader_Next fs)"

lemma index_trace_reads: "index_reads fs r cs \<Longrightarrow> trace_reads fs (Reader_Index r) (map ICycle_Binary cs)"
  by (induction rule: reads.induct) (auto intro: reads.intros)

end
