(* ===== verification/Rafi_TraceTools_Ok.thy ===== *)
theory Rafi_TraceTools_Ok
  imports Rafi_TraceTools Rafi_TraceReader_Ok Rafi_TraceLogger_Ok "HOL-Library.Sublist"
begin

text \<open>
  The tools that read traces: they end, and what they answer follows from the cycles that their
  readers read.
\<close>

section \<open>The loops end\<close>

lemma bindR_Inr: "bindR m f = Inr y \<longleftrightarrow> (\<exists>x. m = Inr x \<and> f x = Inr y)"
  by (cases m) (simp_all add: bindR_def)

lemma bindR_simps [simp]: "bindR (Inr x) f = f x" "bindR (Inl e) f = Inl e"
  by (simp_all add: bindR_def)

lemma host_io_ends: "reader_ok r \<Longrightarrow> GetLastHostIoValue_loop fs v r \<noteq> None"
proof (rule reader.loop_ends [where loop = "GetLastHostIoValue_loop fs"])
  fix r v
  assume "ITraceReader_IsEnd r"
  then show "GetLastHostIoValue_loop fs v r \<noteq> None" by (simp add: GetLastHostIoValue_loop.simps [of fs v r])
next
  fix r v
  assume on: "\<not> ITraceReader_IsEnd r"
  show "(\<exists>y. GetLastHostIoValue_loop fs v r = Some y) \<or> (\<exists>fs' r' v'. ITraceReader_Next fs' r = Inr r' \<and>
      GetLastHostIoValue_loop fs v r = GetLastHostIoValue_loop fs v' r')"
  proof (cases "host_io_turn fs r")
    case (Inl e)
    then show ?thesis using on by (simp add: GetLastHostIoValue_loop.simps [of fs v r])
  next
    case (Inr x)
    then obtain v' r' where x: "x = (v', r')" "ITraceReader_Next fs r = Inr r'"
      by (auto simp: host_io_turn_def bindR_Inr)
    then show ?thesis using on Inr by (auto simp: GetLastHostIoValue_loop.simps [of fs v r])
  qed
qed

lemma Convert_ends: "reader_ok r \<Longrightarrow> Convert_loop w r \<noteq> None"
proof (rule reader.loop_ends [where loop = Convert_loop])
  fix r w
  assume "ITraceReader_IsEnd r"
  then show "Convert_loop w r \<noteq> None" by (simp add: Convert_loop.simps [of w r])
next
  fix r w
  assume on: "\<not> ITraceReader_IsEnd r"
  obtain w' v where turn: "Convert_turn w r = (w', v)" by (cases "Convert_turn w r")
  show "(\<exists>y. Convert_loop w r = Some y) \<or> (\<exists>fs r' w'. ITraceReader_Next fs r = Inr r' \<and>
      Convert_loop w r = Convert_loop w' r')"
  proof (cases v)
    case (Inl e)
    then show ?thesis using on turn by (simp add: Convert_loop.simps [of w r])
  next
    case (Inr r')
    then have "ITraceReader_Next (tiw_files w') r = Inr r'"
      using turn by (auto simp: Convert_turn_def split: sum.splits)
    moreover have "Convert_loop w r = Convert_loop w' r'" using on turn Inr by (simp add: Convert_loop.simps [of w r])
    ultimately show ?thesis by blast
  qed
qed

lemma CheckIo_ends: "CheckIo ends_with fs path \<noteq> None"
  using host_io_ends [OF MakeTraceReader_ok] by (simp add: CheckIo_def GetLastHostIoValue_def Let_def split: sum.split)

text \<open>
  C39: the tools end on every file system: a check of any number of traces, of whatever kind and
  contents, and a conversion, which may overwrite the files that its own reader still has to open.
\<close>

theorem trace_tools_end: "check_io_main ends_with fs paths \<noteq> None \<and> Convert ends_with fs inPath outPathBase \<noteq> None"
proof
  show "check_io_main ends_with fs paths \<noteq> None"
    by (induction paths) (auto simp: CheckIo_ends split: option.split sum.split)
  show "Convert ends_with fs inPath outPathBase \<noteq> None"
    using Convert_ends MakeTraceReader_ok [of ends_with fs inPath] by (auto simp: Convert_def split: sum.split)
qed

section \<open>The verdict on a trace\<close>

lemma host_io_reads:
  assumes "trace_reads fs r cs" "list_all2 (\<lambda>c io. ICycle_CopyIo c = Inr io) cs outs"
  shows "GetLastHostIoValue_loop fs v r = Some (Inr (last (v # map ni_hostIo outs)))"
  using assms
proof (induction arbitrary: v outs rule: reads.induct)
  case (reads_end r)
  then show ?case by (simp add: GetLastHostIoValue_loop.simps [of fs v r])
next
  case (reads_cycle r c r' cs)
  then obtain io outs' where outs: "outs = io # outs'" "ICycle_CopyIo c = Inr io"
    "list_all2 (\<lambda>c io. ICycle_CopyIo c = Inr io) cs outs'"
    by (auto simp: list_all2_Cons1)
  have "host_io_turn fs r = Inr (ni_hostIo io, r')"
    using reads_cycle.hyps outs(2) by (simp add: host_io_turn_def on_cycle_def)
  then show ?case
    using reads_cycle.hyps(1) reads_cycle.IH [OF outs(3)] outs(1)
    by (simp add: GetLastHostIoValue_loop.simps [of fs v r])
qed

text \<open>What \<open>boost::algorithm::ends_with\<close> is documented to answer.\<close>

definition ends_with_law :: "(string \<Rightarrow> string \<Rightarrow> bool) \<Rightarrow> bool" where
  "ends_with_law ends_with \<longleftrightarrow> (\<forall>s t. ends_with s t \<longleftrightarrow> suffix t s)"

lemma MakeTraceReader_tidx:
  assumes "ends_with_law ends_with"
  shows "MakeTraceReader ends_with fs (s @ ''.tidx'') = map_sum id Reader_Index (IndexReader_new fs (s @ ''.tidx''))"
proof -
  have "ends_with (s @ ''.tidx'') t \<longleftrightarrow> suffix t (s @ ''.tidx'')" for t
    using assms by (simp add: ends_with_law_def)
  then show ?thesis by (simp add: MakeTraceReader_def suffix_def)
qed

lemma suffix_law: "ends_with_law (\<lambda>s t. suffix t s)"
  by (simp add: ends_with_law_def)

lemma CheckIo_index:
  assumes "IndexReader_new fs (s @ ''.tidx'') = Inr r" "index_reads fs r cs"
    and law: "ends_with_law ends_with"
    and "list_all2 (\<lambda>c v. BinaryCycle_CopyIo c = Inr \<lparr>ni_hostIo = v, ni_reserved = 0\<rparr>) cs vs"
  shows "CheckIo ends_with fs (s @ ''.tidx'') = Some (Inr (last (0 # vs) = 1))"
proof -
  let ?outs = "map (\<lambda>v. \<lparr>ni_hostIo = v, ni_reserved = 0\<rparr>) vs"
  have "list_all2 (\<lambda>c io. ICycle_CopyIo c = Inr io) (map ICycle_Binary cs) ?outs"
    using assms(4) by (simp add: list_all2_map1 list_all2_map2)
  from host_io_reads [OF index_trace_reads [OF assms(2)] this] show ?thesis
    using assms(1) by (simp add: CheckIo_def GetLastHostIoValue_def MakeTraceReader_tidx [OF law] Let_def
      ExpectedHostIoValue_def comp_def)
qed

text \<open>A run that waits for the host port ends with a record of the machine that has written it.\<close>

lemma host_io_pre: "IsStopConditionFilledPre EmulationStop_HostIo s = Inr b \<longleftrightarrow>
    (\<exists>v. System_GetHostIoValue s = Inr v \<and> b = (v \<noteq> 0))"
  by (auto simp: IsStopConditionFilledPre_def EmulationStop_HostIo_def map_sum_Inr)

lemma host_io_trail:
  assumes "trail libs EmulationStop_HostIo CycleForever R skip k s xs u"
    "\<And>s r x v. R s r x \<Longrightarrow> System_GetHostIoValue s = Inr v \<Longrightarrow> Q v x"
  shows "\<exists>kf v vs. Emulator_Process libs EmulationStop_HostIo CycleForever \<lparr>emu_m_System = s, emu_m_Cycle = k\<rparr> =
      Some (Inr \<lparr>emu_m_System = u, emu_m_Cycle = kf\<rparr>) \<and>
    System_GetHostIoValue u = Inr v \<and> v \<noteq> 0 \<and> set vs \<subseteq> {0} \<and>
    list_all2 Q (vs @ (if skip kf \<le>s kf then [v] else [])) xs"
  using assms(1)
proof (induction rule: trail.induct)
  case (trail_bound k s)
  then show ?case by (simp add: in_bound_def)
next
  case (trail_pre k s xs)
  then obtain v where v: "System_GetHostIoValue s = Inr v" "v \<noteq> 0" by (auto simp: host_io_pre)
  then have "list_all2 Q (if skip k \<le>s k then [v] else []) xs"
    using trail_pre.hyps(3) assms(2) by (auto simp: recorded_def)
  then show ?case using v Process_pre_stop trail_pre.hyps(1,2) by (intro exI [of _ k] exI [of _ v] exI [of _ "[]"]) simp
next
  case (trail_post k s t xs)
  then show ?case by (simp add: IsStopConditionFilledPost_def EmulationStop_HostIo_def EmulationStop_Breakpoint_def)
next
  case (trail_step k s t xs ys u)
  then obtain kf v vs where v: "Emulator_Process libs EmulationStop_HostIo CycleForever \<lparr>emu_m_System = t, emu_m_Cycle = k + 1\<rparr> =
      Some (Inr \<lparr>emu_m_System = u, emu_m_Cycle = kf\<rparr>)"
    "System_GetHostIoValue u = Inr v" "v \<noteq> 0" "set vs \<subseteq> {0}" "list_all2 Q (vs @ (if skip kf \<le>s kf then [v] else [])) ys"
    by blast
  have "System_GetHostIoValue s = Inr 0"
    using trail_step.hyps(4) by (auto simp: continues_def host_io_pre)
  then have "list_all2 Q (if skip k \<le>s k then [0] else []) xs"
    using trail_step.hyps(5) assms(2) by (auto simp: recorded_def)
  from list_all2_appendI [OF this v(5)] v(1-4) show ?case
    using Process_step [of CycleForever "\<lparr>emu_m_System = s, emu_m_Cycle = k\<rparr>"] trail_step.hyps(1-4)
    by (intro exI [of _ kf] exI [of _ v] exI [of _ "(if skip k \<le>s k then [0] else []) @ vs"]) auto
qed

text \<open>
  The verdict on a trace is the verdict on the run, if it saw its end: when a program runs until it
  writes to the host port and its trace has the port, \<open>CheckIo\<close> on the files that the logger leaves
  passes exactly when the machine that the run ends in, which is the one the run without tracing ends
  in, has 1 there and the last turn of the loop was recorded.
\<close>

lemma last_zeros: "set vs \<subseteq> {0} \<Longrightarrow> last (0 # vs @ (if b then [v] else [])) = 1 \<longleftrightarrow> b \<and> v = (1 :: u32)"
  by (cases vs rule: rev_cases) auto

lemma traced_run_checked:
  fixes e :: Emulator
  assumes "reachable libs xlen pc ramSize (emu_m_System e)" "emu_m_Cycle e = 0"
    and "tlc_enabled config" "path_ok (tlc_path config)" "tlc_enableDumpHostIo config"
    and "Emulator_ProcessTraced libs skip EmulationStop_HostIo CycleForever e (TraceLogger_new xlen config fs) =
      Some (Inr (e', l'))"
    and "emu_m_Cycle e' \<noteq> 0x7fffffff" "ends_with_law ends_with"
  shows "\<exists>v. Emulator_Process libs EmulationStop_HostIo CycleForever e = Some (Inr e') \<and>
    System_GetHostIoValue (emu_m_System e') = Inr v \<and> v \<noteq> 0 \<and>
    CheckIo ends_with (TraceLogger_delete l' fs) (tlc_path config @ ''.tidx'') =
      Some (Inr (v = 1 \<and> skip (emu_m_Cycle e') \<le>s emu_m_Cycle e'))"
proof -
  obtain r cs where r: "IndexReader_new (TraceLogger_delete l' fs) (tlc_path config @ ''.tidx'') = Inr r"
    "index_reads (TraceLogger_delete l' fs) r cs"
    "trail libs EmulationStop_HostIo CycleForever (shown_run config xlen CycleForever) skip 0 (emu_m_System e) cs (emu_m_System e')"
    and run: "Emulator_Process libs EmulationStop_HostIo CycleForever e = Some (Inr e')"
    using traced_run_shown [OF assms(1-4,6,7)] by auto
  let ?Q = "\<lambda>v c. BinaryCycle_CopyIo c = Inr \<lparr>ni_hostIo = v, ni_reserved = 0\<rparr>"
  have "\<exists>kf v vs. Emulator_Process libs EmulationStop_HostIo CycleForever \<lparr>emu_m_System = emu_m_System e, emu_m_Cycle = 0\<rparr> =
      Some (Inr \<lparr>emu_m_System = emu_m_System e', emu_m_Cycle = kf\<rparr>) \<and>
    System_GetHostIoValue (emu_m_System e') = Inr v \<and> v \<noteq> 0 \<and> set vs \<subseteq> {0} \<and>
    list_all2 ?Q (vs @ (if skip kf \<le>s kf then [v] else [])) cs"
  proof (rule host_io_trail [OF r(3)])
    fix s t c v
    assume "shown_run config xlen CycleForever s t c" "System_GetHostIoValue s = Inr v"
    then show "?Q v c" using assms(5) by (simp add: shown_run_def)
  qed
  then obtain kf v vs where v: "Emulator_Process libs EmulationStop_HostIo CycleForever \<lparr>emu_m_System = emu_m_System e, emu_m_Cycle = 0\<rparr> =
      Some (Inr \<lparr>emu_m_System = emu_m_System e', emu_m_Cycle = kf\<rparr>)"
    "System_GetHostIoValue (emu_m_System e') = Inr v" "v \<noteq> 0" "set vs \<subseteq> {0}"
    "list_all2 ?Q (vs @ (if skip kf \<le>s kf then [v] else [])) cs"
    by blast
  have "e = \<lparr>emu_m_System = emu_m_System e, emu_m_Cycle = 0\<rparr>" using assms(2) by (cases e) simp
  then have kf: "kf = emu_m_Cycle e'" using v(1) run by (cases e') simp
  from CheckIo_index [OF r(1,2) assms(8), of "vs @ (if skip kf \<le>s kf then [v] else [])"] v(5)
  have "CheckIo ends_with (TraceLogger_delete l' fs) (tlc_path config @ ''.tidx'') =
      Some (Inr (last (0 # vs @ (if skip kf \<le>s kf then [v] else [])) = 1))"
    by (simp add: list_all2_conv_all_nth)
  then show ?thesis using v(2,3) run last_zeros [OF v(4)] kf by auto
qed

end
