(* ===== verification/Rafi_TraceConv_Ok.thy ===== *)
theory Rafi_TraceConv_Ok
  imports Rafi_TraceTools_Ok
begin

text \<open>
  The conversion of a trace: the indexed trace that \<open>Convert\<close> writes is read back as the cycles that
  its reader reads.
\<close>

section \<open>One cycle\<close>

lemma all_results_map: "\<forall>x \<in> set xs. f x = Inr (g x) \<Longrightarrow> all_results (map f xs) = Inr (map g xs)"
  by (induction xs) simp_all

text \<open>A cycle that can be converted, and a cycle that says of it what the conversion keeps.\<close>

definition convertible :: "ICycle \<Rightarrow> bool" where
  "convertible c \<longleftrightarrow> (\<exists>cycle. ICycle_GetCycle c = Inr cycle) \<and>
     (\<exists>xlen. ICycle_GetXLEN c = Inr (XLEN_value xlen) \<and> xlen \<noteq> XLEN128) \<and> (\<exists>pc. ICycle_GetPc c = Inr pc) \<and>
     (ICycle_IsIntRegExist c \<longrightarrow> (\<forall>i < 32. \<exists>v. ICycle_GetIntReg i c = Inr v))"

definition same_cycle :: "ICycle \<Rightarrow> BinaryCycle \<Rightarrow> bool" where
  "same_cycle c b \<longleftrightarrow> BinaryCycle_GetCycle b = ICycle_GetCycle c \<and> BinaryCycle_GetXLEN b = ICycle_GetXLEN c \<and>
     BinaryCycle_GetPc b = ICycle_GetPc c \<and> BinaryCycle_IsIntRegExist b = ICycle_IsIntRegExist c \<and>
     (ICycle_IsIntRegExist c \<longrightarrow> (\<forall>i < 32. BinaryCycle_GetIntReg i b =
        (if ICycle_GetXLEN c = Inr (XLEN_value XLEN32) then map_sum id (take_bit 32) else id) (ICycle_GetIntReg i c))) \<and>
     \<not> BinaryCycle_IsFpRegExist b \<and> \<not> BinaryCycle_IsIoExist b \<and> BinaryCycle_GetOpEventCount b = 0 \<and>
     BinaryCycle_GetMemoryEventCount b = 0 \<and> BinaryCycle_GetTrapEventCount b = 0"

lemma low_word: "ucast (ucast x :: u32) = take_bit 32 (x :: u64)"
  by (rule bit_word_eqI) (auto simp: bit_simps)

definition convert_nodes :: "XLEN \<Rightarrow> u64 list option \<Rightarrow> node list" where
  "convert_nodes xlen regs = (case regs of None \<Rightarrow> []
     | Some regs \<Rightarrow> [if xlen = XLEN32 then NodeIntReg32 (map ucast regs) else NodeIntReg64 regs])"

lemma convert_nodes_log:
  assumes "\<forall>rs. regs = Some rs \<longrightarrow> length rs = 32"
  shows "log_cycle cycle xlen pc (convert_nodes xlen regs) = Inr (cycle_bytes cycle xlen pc (convert_nodes xlen regs))"
  using assms
  by (intro log_cycle_fits) (auto simp: cycle_bytes_def basic_bytes_def NodeBasic_bytes_def convert_nodes_def
      DefaultBufferSize_def length_concat comp_def sum_list_triv split: option.split)

lemma Convert_cycle_logs:
  assumes "convertible c"
  shows "\<exists>l b. Convert_cycle c = Inr b \<and> logs l b \<and> logged_ok l \<and> (\<forall>s. shows_logged l s \<longrightarrow> same_cycle c s)"
proof -
  obtain cycle xlen pc where c: "ICycle_GetCycle c = Inr cycle" "ICycle_GetXLEN c = Inr (XLEN_value xlen)"
    "ICycle_GetPc c = Inr pc" "xlen \<noteq> XLEN128"
    using assms by (auto simp: convertible_def)
  then have width: "xlen = XLEN32 \<or> xlen = XLEN64" by (cases xlen) simp_all
  obtain rs where rs: "length rs = 32" "ICycle_IsIntRegExist c \<Longrightarrow> (\<forall>i < 32. ICycle_GetIntReg i c = Inr (rs ! i)) \<and>
      all_results (map (\<lambda>i. ICycle_GetIntReg i c) [0..<32]) = Inr rs"
  proof
    let ?rs = "map (\<lambda>i. projr (ICycle_GetIntReg i c)) [0..<32]"
    show "length ?rs = 32" by simp
    assume "ICycle_IsIntRegExist c"
    then have r: "\<forall>i < 32. ICycle_GetIntReg i c = Inr (projr (ICycle_GetIntReg i c))"
      using assms unfolding convertible_def by (metis sum.sel(2))
    then have "all_results (map (\<lambda>i. ICycle_GetIntReg i c) [0..<32]) = Inr ?rs" by (intro all_results_map) auto
    with r show "(\<forall>i < 32. ICycle_GetIntReg i c = Inr (?rs ! i)) \<and>
      all_results (map (\<lambda>i. ICycle_GetIntReg i c) [0..<32]) = Inr ?rs" by simp
  qed
  let ?regs = "if ICycle_IsIntRegExist c then Some rs else None"
  let ?nodes = "convert_nodes xlen ?regs"
  let ?l = "\<lparr>lg_cycle = cycle, lg_xlen = xlen, lg_pc = pc, lg_nodes = ?nodes\<rparr>"
  have "Convert_cycle c = log_cycle cycle xlen pc ?nodes"
    using width rs(2)
    by (auto simp: Convert_cycle_def c(1-3) log_cycle_def BinaryCycleLogger_new_def convert_nodes_def XLEN_value_def
        bindR_def split: sum.split)
  moreover have "logs ?l (cycle_bytes cycle xlen pc ?nodes)" by (simp add: convert_nodes_log rs(1))
  moreover have "logged_ok ?l" using width rs(1) by (auto simp: logged_ok_def node_ok_def convert_nodes_def)
  moreover have "same_cycle c s" if "shows_logged ?l s" for s
  proof -
    have "ICycle_GetXLEN c = Inr (XLEN_value XLEN32) \<longleftrightarrow> xlen = XLEN32"
      using c(2) width by (auto simp: XLEN_value_def)
    then show ?thesis
      using that width rs unfolding same_cycle_def
      by (auto simp: c(1-3) shows_logged_def cycle_shows_def convert_nodes_def node_kinds low_word)
  qed
  ultimately show ?thesis using convert_nodes_log [of ?regs cycle xlen pc] rs(1) by (intro exI [of _ ?l]) auto
qed

section \<open>Reading beside a writer\<close>

text \<open>The files that the writer of \<open>base\<close> writes, and the file systems that it leaves.\<close>

definition written_path :: "string \<Rightarrow> string \<Rightarrow> bool" where
  "written_path base path \<longleftrightarrow> path = base @ ''.tidx'' \<or> (\<exists>k. path = base @ ''.'' @ print_int k @ ''.tbin'')"

definition beside :: "string \<Rightarrow> files \<Rightarrow> files set" where
  "beside base fs = {fs'. \<forall>path. \<not> written_path base path \<longrightarrow> fs' path = fs path}"

text \<open>A reader reads the cycles under each of these file systems.\<close>

inductive reads_beside :: "files set \<Rightarrow> ITraceReader \<Rightarrow> ICycle list \<Rightarrow> bool" for F where
  beside_end: "ITraceReader_IsEnd r \<Longrightarrow> reads_beside F r []"
| beside_cycle: "\<not> ITraceReader_IsEnd r \<Longrightarrow> ITraceReader_GetCycle r = Inr (Some c) \<Longrightarrow>
    (\<And>fs. fs \<in> F \<Longrightarrow> ITraceReader_Next fs r = Inr r') \<Longrightarrow> reads_beside F r' cs \<Longrightarrow> reads_beside F r (c # cs)"

text \<open>All but an indexed trace is in memory; an indexed trace needs its own files.\<close>

lemma reads_beside_opened:
  assumes "trace_reads fs r cs" "\<nexists>i. r = Reader_Index i"
  shows "reads_beside F r cs"
  using assms
proof (induction rule: reads.induct)
  case (reads_cycle r c r' cs)
  have "\<nexists>i. r' = Reader_Index i" "\<And>fs'. ITraceReader_Next fs' r = Inr r'"
    using reads_cycle.hyps(3) reads_cycle.prems by (cases r; auto simp: map_sum_Inr)+
  then show ?case using reads_cycle beside_cycle by metis
qed (simp add: beside_end)

lemma IndexReader_Next_beside:
  assumes "\<forall>e \<in> set (tir_m_Entries r). fs' (fst e) = fs (fst e)"
  shows "IndexReader_Next fs' r = IndexReader_Next fs r"
  using assms by (auto simp: IndexReader_Next_def UpdateTraceBinary_def BinaryReader_new_def Let_def
      split: option.split sum.split)

lemma IndexReader_Next_entries: "IndexReader_Next fs r = Inr r' \<Longrightarrow> tir_m_Entries r' = tir_m_Entries r"
  by (auto simp: IndexReader_Next_def Let_def dest!: UpdateTraceBinary_keeps split: option.splits sum.splits if_splits)

lemma index_reads_beside:
  assumes "index_reads fs r cs" "\<forall>e \<in> set (tir_m_Entries r). \<not> written_path base (fst e)"
  shows "reads_beside (beside base fs) (Reader_Index r) (map ICycle_Binary cs)"
  using assms
proof (induction rule: reads.induct)
  case (reads_cycle r c r' cs)
  have "IndexReader_Next fs' r = Inr r'" if "fs' \<in> beside base fs" for fs'
    using IndexReader_Next_beside [of r fs' fs] that reads_cycle.prems reads_cycle.hyps(3) by (auto simp: beside_def)
  then show ?case
    using reads_cycle IndexReader_Next_entries [OF reads_cycle.hyps(3)] by (auto intro!: beside_cycle)
qed (simp add: beside_end)

lemma FlushData_beside: "tiw_files w \<in> beside (tiw_m_PathBase w) fs \<Longrightarrow> tiw_files (FlushData w) \<in> beside (tiw_m_PathBase w) fs"
  by (auto simp: FlushData_def beside_def written_path_def Let_def)

lemma FlushData_base: "tiw_m_PathBase (FlushData w) = tiw_m_PathBase w"
  by (simp add: FlushData_def Let_def)

lemma Write_beside:
  assumes "IndexWriter_Write b w = Inr w'" "tiw_files w \<in> beside (tiw_m_PathBase w) fs"
  shows "tiw_files w' \<in> beside (tiw_m_PathBase w) fs" "tiw_m_PathBase w' = tiw_m_PathBase w"
  using assms FlushData_beside [of w fs] FlushData_base [of w]
  by (auto simp: IndexWriter_Write_def Let_def split: if_splits)

lemma delete_beside:
  "tiw_files w \<in> beside (tiw_m_PathBase w) fs \<Longrightarrow> IndexWriter_delete w \<in> beside (tiw_m_PathBase w) fs"
  using FlushData_beside [of w fs] FlushData_base [of w]
  by (auto simp: IndexWriter_delete_def Let_def beside_def written_path_def)

lemma Convert_writes:
  assumes "reads_beside (beside base fs) r cs" "list_all convertible cs"
    "tiw_files w \<in> beside base fs" "tiw_m_PathBase w = base"
    "\<And>bs. list_all (\<lambda>b. length b \<le> MaxFileSize) bs \<Longrightarrow> \<exists>w'. IndexWriter_write_all bs w = Inr w'"
  shows "\<exists>w' ls bs. Convert_loop w r = Some (w', None) \<and> IndexWriter_write_all bs w = Inr w' \<and>
    list_all2 logs ls bs \<and> list_all logged_ok ls \<and>
    list_all2 (\<lambda>c l. \<forall>s. shows_logged l s \<longrightarrow> same_cycle c s) cs ls \<and>
    tiw_files w' \<in> beside base fs \<and> tiw_m_PathBase w' = base"
  using assms
proof (induction arbitrary: w rule: reads_beside.induct)
  case (beside_end r)
  then show ?case by (intro exI [of _ w] exI [of _ "[]"]) (simp add: Convert_loop.simps [of w r])
next
  case (beside_cycle r c r' cs)
  obtain l b where l: "Convert_cycle c = Inr b" "logs l b" "logged_ok l" "\<forall>s. shows_logged l s \<longrightarrow> same_cycle c s"
    using Convert_cycle_logs [of c] beside_cycle.prems(1) by auto
  have small: "length b \<le> MaxFileSize"
    using log_cycle_bytes(2) [OF l(2)] by (simp add: MaxFileSize_def DefaultBufferSize_def)
  obtain w1 where w1: "IndexWriter_Write b w = Inr w1"
    using beside_cycle.prems(4) [of "[b]"] small by (auto split: sum.splits)
  have on: "tiw_files w1 \<in> beside base fs" "tiw_m_PathBase w1 = base"
    using Write_beside [OF w1] beside_cycle.prems(2,3) by auto
  have "\<exists>w'. IndexWriter_write_all bs w1 = Inr w'" if "list_all (\<lambda>b. length b \<le> MaxFileSize) bs" for bs
    using beside_cycle.prems(4) [of "b # bs"] that small w1 by auto
  then obtain w' ls bs where w': "Convert_loop w1 r' = Some (w', None)" "IndexWriter_write_all bs w1 = Inr w'"
    "list_all2 logs ls bs" "list_all logged_ok ls"
    "list_all2 (\<lambda>c l. \<forall>s. shows_logged l s \<longrightarrow> same_cycle c s) cs ls"
    "tiw_files w' \<in> beside base fs" "tiw_m_PathBase w' = base"
    using beside_cycle.IH [of w1] beside_cycle.prems(1) on by auto
  have "Convert_turn w r = (w1, Inr r')"
    using beside_cycle.hyps(2,3) on l(1) w1 by (simp add: Convert_turn_def on_cycle_def)
  then have "Convert_loop w r = Some (w', None)"
    using beside_cycle.hyps(1) w'(1) by (simp add: Convert_loop.simps [of w r])
  then show ?case
    using w' w1 l by (intro exI [of _ w'] exI [of _ "l # ls"] exI [of _ "b # bs"]) simp
qed

lemma write_all_defined:
  "list_all (\<lambda>b. length b \<le> MaxFileSize) bs \<Longrightarrow> \<exists>w'. IndexWriter_write_all bs w = Inr w'"
proof (induction bs arbitrary: w)
  case (Cons b bs)
  then obtain w1 where "IndexWriter_Write b w = Inr w1" by (auto simp: IndexWriter_Write_def Let_def)
  then show ?case using Cons by simp
qed simp

text \<open>
  C10: a conversion keeps the cycles: when the input can be read while the files of the output are
  written, and each of its cycles has its number, width, program counter and, if any, its integer
  registers, \<open>Convert\<close> leaves an indexed trace whose reader reads, cycle for cycle, the same number,
  width, program counter and integer registers (their lower half in a 32-bit cycle), and changes no
  other file. It keeps nothing else of a cycle.
\<close>

theorem convert_roundtrip:
  assumes "MakeTraceReader ends_with fs inPath = Inr r" "reads_beside (beside base fs) r cs" "list_all convertible cs"
    and "length cs < 2 ^ 31" "path_ok base"
  shows "\<exists>fs' r' bs. Convert ends_with fs inPath base = Some (Inr fs') \<and> fs' \<in> beside base fs \<and>
    IndexReader_new fs' (base @ ''.tidx'') = Inr r' \<and> index_reads fs' r' bs \<and> list_all2 same_cycle cs bs"
proof -
  let ?w = "IndexWriter_new fs base"
  have "tiw_files ?w \<in> beside base fs" "tiw_m_PathBase ?w = base"
    by (auto simp: IndexWriter_new_def beside_def written_path_def)
  from Convert_writes [OF assms(2,3) this write_all_defined] obtain w ls bytes where
    w: "Convert_loop ?w r = Some (w, None)" "IndexWriter_write_all bytes ?w = Inr w" "list_all2 logs ls bytes"
      "list_all logged_ok ls" "tiw_files w \<in> beside base fs" "tiw_m_PathBase w = base"
    and same: "list_all2 (\<lambda>c l. \<forall>s. shows_logged l s \<longrightarrow> same_cycle c s) cs ls" by blast
  have "length ls < 2 ^ 31" using list_all2_lengthD [OF same] assms(4) by simp
  from written_index [OF w(3) this assms(5), of fs] obtain gs where gs: "concat gs = ls" "[] \<notin> set gs"
    "holds_groups base gs (IndexWriter_delete w)"
    "IndexReader_new (IndexWriter_delete w) (base @ ''.tidx'') = UpdateTraceBinary (IndexWriter_delete w) (reader_of base gs)"
    using w(2) by auto
  obtain r' bs where r': "UpdateTraceBinary (IndexWriter_delete w) (reader_of base gs) = Inr r'"
    "index_reads (IndexWriter_delete w) r' bs" "list_all2 shows_logged ls bs"
    using reader_of_reads [OF gs(3,2)] gs(1) w(4) by blast
  have "list_all2 same_cycle cs bs" by (rule list_all2_trans [OF _ same r'(3)]) simp
  moreover have "Convert ends_with fs inPath base = Some (Inr (IndexWriter_delete w))"
    using assms(1) w(1) by (simp add: Convert_def)
  ultimately show ?thesis using r'(1,2) gs(4) delete_beside [of w fs] w(5,6) by auto
qed

lemma data_path_other:
  assumes "hd base \<noteq> hd base'" "base \<noteq> []" "base' \<noteq> []"
  shows "\<not> written_path base' (data_path base k)"
  using assms by (cases base; cases base') (auto simp: written_path_def data_path_def)

theorem convert_roundtrip_witness:
  "\<exists>fs fs' r' b b'. Convert (\<lambda>s t. suffix t s) fs (''trace'' @ ''.tidx'') ''out'' = Some (Inr fs') \<and>
    IndexReader_new fs' (''out'' @ ''.tidx'') = Inr r' \<and> index_reads fs' r' [b, b'] \<and>
    BinaryCycle_GetPc b = Inr 0x1000 \<and> BinaryCycle_GetPc b' = Inr 0x1004"
proof -
  let ?ls = "[\<lparr>lg_cycle = 0, lg_xlen = XLEN32, lg_pc = 0x1000, lg_nodes = []\<rparr>,
    \<lparr>lg_cycle = 1, lg_xlen = XLEN32, lg_pc = 0x1004, lg_nodes = [Node_OpEvent \<lparr>no_insn = 0x13, no_priv = 3\<rparr>]\<rparr>]"
  have path: "path_ok ''trace''" "path_ok ''out''" by (simp_all add: path_ok_def isspace_def)
  obtain bytes where bytes: "list_all2 logs ?ls bytes" using example_logs by blast
  have ok: "list_all logged_ok ?ls" by (simp add: logged_ok_def node_ok_def)
  obtain w gs where w: "concat gs = ?ls" "[] \<notin> set gs" "holds_groups ''trace'' gs (IndexWriter_delete w)"
    "IndexReader_new (IndexWriter_delete w) (''trace'' @ ''.tidx'') =
      UpdateTraceBinary (IndexWriter_delete w) (reader_of ''trace'' gs)"
    using written_index [OF bytes _ path(1), of Map.empty] by auto
  let ?fs = "IndexWriter_delete w"
  obtain r cs where r: "UpdateTraceBinary ?fs (reader_of ''trace'' gs) = Inr r" "index_reads ?fs r cs"
    "list_all2 shows_logged ?ls cs"
    using reader_of_reads [OF w(3,2)] ok w(1) by auto
  have "tir_m_Entries r = tir_m_Entries (reader_of ''trace'' gs)" using UpdateTraceBinary_keeps [OF r(1)] by simp
  then have "\<forall>e \<in> set (tir_m_Entries r). \<not> written_path ''out'' (fst e)"
    by (auto simp: reader_of_def group_entries_def data_path_other)
  from index_reads_beside [OF r(2) this] have beside: "reads_beside (beside ''out'' ?fs) (Reader_Index r) (map ICycle_Binary cs)" .
  have make: "MakeTraceReader (\<lambda>s t. suffix t s) ?fs (''trace'' @ ''.tidx'') = Inr (Reader_Index r)"
    unfolding MakeTraceReader_tidx [OF suffix_law] w(4) r(1) by simp
  obtain c c' where cs: "cs = [c, c']" and c: "shows_logged (?ls ! 0) c" "shows_logged (?ls ! 1) c'"
    using r(3) by (auto simp: list_all2_Cons1)
  have "list_all convertible (map ICycle_Binary cs)"
    using c unfolding cs by (auto simp: convertible_def shows_logged_def cycle_shows_def node_kinds intro: exI [of _ XLEN32])
  from convert_roundtrip [OF make beside this _ path(2)] obtain fs' r' bs where
    out: "Convert (\<lambda>s t. suffix t s) ?fs (''trace'' @ ''.tidx'') ''out'' = Some (Inr fs')" "IndexReader_new fs' (''out'' @ ''.tidx'') = Inr r'"
      "index_reads fs' r' bs" "list_all2 same_cycle (map ICycle_Binary cs) bs"
    unfolding cs by auto
  then obtain b b' where bs: "bs = [b, b']" "same_cycle (ICycle_Binary c) b" "same_cycle (ICycle_Binary c') b'"
    unfolding cs by (auto simp: list_all2_Cons1)
  then have "BinaryCycle_GetPc b = Inr 0x1000" "BinaryCycle_GetPc b' = Inr 0x1004"
    using c by (simp_all add: same_cycle_def shows_logged_def cycle_shows_def)
  then show ?thesis using out(1-3) unfolding bs(1) by blast
qed

end
