(* ===== verification/Rafi_TraceDiff_Ok.thy ===== *)
theory Rafi_TraceDiff_Ok
  imports Rafi_TraceConv_Ok
begin

text \<open>
  The comparison of two traces and the printing of one: what \<^verbatim>\<open>rafi-diff\<close> counts, and which cycles
  \<^verbatim>\<open>rafi-dump\<close> prints.
\<close>

section \<open>Comparing cycles\<close>

text \<open>A cycle that can be compared, and when two cycles agree.\<close>

definition comparable :: "ICycle \<Rightarrow> bool" where
  "comparable c \<longleftrightarrow> (\<exists>pc. ICycle_GetPc c = Inr pc) \<and>
     (ICycle_IsIntRegExist c \<longrightarrow> (\<forall>i < 32. \<exists>v. ICycle_GetIntReg i c = Inr v))"

definition agree :: "ICycle \<Rightarrow> ICycle \<Rightarrow> bool" where
  "agree c d \<longleftrightarrow> ICycle_GetPc c = ICycle_GetPc d \<and> ICycle_IsIntRegExist c \<and> ICycle_IsIntRegExist d \<and>
     (\<forall>i < 32. ICycle_GetIntReg i c = ICycle_GetIntReg i d)"

lemma int_regs_matched_eq:
  assumes "\<forall>i \<in> set is. (\<exists>v. ICycle_GetIntReg i c = Inr v) \<and> (\<exists>v. ICycle_GetIntReg i d = Inr v)"
  shows "int_regs_matched c d is = Inr (\<forall>i \<in> set is. ICycle_GetIntReg i c = ICycle_GetIntReg i d)"
  using assms by (induction "is") auto

lemma IsIntRegMatched_eq:
  assumes "comparable c" "comparable d"
  shows "IsIntRegMatched c d = Inr (ICycle_IsIntRegExist c \<and> ICycle_IsIntRegExist d \<and>
      (\<forall>i < 32. ICycle_GetIntReg i c = ICycle_GetIntReg i d))"
  using assms int_regs_matched_eq [of "[0..<32]" c d] by (auto simp: IsIntRegMatched_def comparable_def)

lemma IsMatched_eq:
  assumes "comparable c" "comparable d"
  shows "IsMatched c d = Inr (agree c d)"
  using assms IsIntRegMatched_eq [OF assms] by (auto simp: IsMatched_def IsPcMatched_def comparable_def agree_def)

lemma prints_defined: "\<forall>m \<in> set ms. \<exists>s. m = Inr s \<Longrightarrow> \<exists>s. prints ms = Inr s"
proof -
  assume "\<forall>m \<in> set ms. \<exists>s. m = Inr s"
  then have "\<exists>xs. all_results ms = Inr xs" by (induction ms) auto
  then show ?thesis by (auto simp: prints_def)
qed

lemma bindR_defined: "\<exists>x. m = Inr x \<Longrightarrow> (\<And>x. \<exists>y. f x = Inr y) \<Longrightarrow> \<exists>y. bindR m f = Inr y"
  by auto

lemma PrintDiff_defined:
  assumes "comparable c" "comparable d"
  shows "\<exists>s. PrintDiff c d = Inr s"
proof -
  note b = IsIntRegMatched_eq [OF assms]
  have "\<exists>s. PrintDiffIntReg c d = Inr s"
    unfolding PrintDiffIntReg_def using assms by (intro prints_defined) (auto simp: comparable_def intro!: prints_defined bindR_defined)
  then show ?thesis using assms b by (auto simp: PrintDiff_def PrintDiffPc_def IsPcMatched_def comparable_def)
qed

section \<open>Comparing traces\<close>

lemma trace_reads_cases:
  assumes "trace_reads fs r cs"
  obtains "cs = []" "ITraceReader_IsEnd r"
  | c cs' r' where "cs = c # cs'" "\<not> ITraceReader_IsEnd r" "ITraceReader_GetCycle r = Inr (Some c)"
    "ITraceReader_Next fs r = Inr r'" "trace_reads fs r' cs'"
  using assms by (cases rule: reads.cases) auto

text \<open>
  What a comparison finds, on the lists of the cycles: \<open>n\<close> cycles of the actual trace may still be
  looked at, \<open>u\<close> have been passed since the last match. For the next expected cycle, the first of
  them that agrees with it is its match; when \<open>T\<close> in a row do not agree, the comparison stops, and so
  it does at the end of the traces or of the bound. The answer is the number of matches, the number
  of cycles of the actual trace that were passed, and whether it stopped because of \<open>T\<close>.
\<close>

fun matched_counts :: "nat \<Rightarrow> nat \<Rightarrow> nat \<Rightarrow> ICycle list \<Rightarrow> ICycle list \<Rightarrow> nat \<times> nat \<times> bool" where
  "matched_counts T u n [] ds = (0, 0, False)"
| "matched_counts T u n (c # cs) ds =
    (let gap = length (takeWhile (\<lambda>d. \<not> agree c d) (take n ds)) in
     if T \<le> u + gap then (0, T - 1 - u, True)
     else if gap = length (take n ds) then (0, gap, False)
     else case matched_counts T 0 (n - Suc gap) cs (drop (Suc gap) ds) of (p, q, stopped) \<Rightarrow> (Suc p, Suc (gap + q), stopped))"

text \<open>One turn of the loop is one cycle of the actual trace.\<close>

lemma matched_counts_end: "u < T \<Longrightarrow> matched_counts T u 0 cs ds = (0, 0, False)" "u < T \<Longrightarrow> matched_counts T u n cs [] = (0, 0, False)"
  by (cases cs; simp)+

lemma matched_counts_agree:
  "u < T \<Longrightarrow> agree c d \<Longrightarrow> matched_counts T u (Suc n) (c # cs) (d # ds) =
    (case matched_counts T 0 n cs ds of (p, q, stopped) \<Rightarrow> (Suc p, Suc q, stopped))"
  by simp

lemma matched_counts_stop: "Suc u = T \<Longrightarrow> \<not> agree c d \<Longrightarrow> matched_counts T u (Suc n) (c # cs) (d # ds) = (0, 0, True)"
  by simp

lemma matched_counts_pass:
  assumes "Suc u < T" "\<not> agree c d"
  shows "matched_counts T u (Suc n) (c # cs) (d # ds) =
    (case matched_counts T (Suc u) n (c # cs) ds of (p, q, stopped) \<Rightarrow> (p, Suc q, stopped))"
proof -
  let ?g = "length (takeWhile (\<lambda>d. \<not> agree c d) (take n ds))"
  have "T - Suc u = Suc (T - Suc (Suc u))" using assms(1) by simp
  moreover have "length (take (Suc n) (d # ds)) = Suc (length (take n ds))" by simp
  ultimately show ?thesis using assms by (simp add: Let_def split: prod.split)
qed

declare matched_counts.simps [simp del]

lemma matched_counts_all:
  assumes "u < T" "matched_counts T u n cs ds = (p, q, stopped)"
  shows "p \<le> q" "q \<le> n" "p \<le> length cs" "q \<le> length ds"
    "p = q \<and> p = min n (min (length cs) (length ds)) \<longleftrightarrow> (\<forall>k < min n (min (length cs) (length ds)). agree (cs ! k) (ds ! k))"
proof -
  have "p \<le> q \<and> q \<le> n \<and> p \<le> length cs \<and> q \<le> length ds \<and>
    (p = q \<and> p = min n (min (length cs) (length ds)) \<longleftrightarrow> (\<forall>k < min n (min (length cs) (length ds)). agree (cs ! k) (ds ! k)))"
    using assms
  proof (induction n arbitrary: u cs ds p q stopped)
    case 0
    then show ?case by (auto simp: matched_counts_end)
  next
    case (Suc n)
    show ?case
    proof (cases "cs = [] \<or> ds = []")
      case True
      then show ?thesis using Suc.prems by (cases cs) (auto simp: matched_counts_end matched_counts.simps(1))
    next
      case False
      then obtain c cs' d ds' where split: "cs = c # cs'" "ds = d # ds'" by (meson list.exhaust)
      have all: "(\<forall>k < min (Suc n) (min (length cs) (length ds)). agree (cs ! k) (ds ! k)) \<longleftrightarrow>
          agree c d \<and> (\<forall>k < min n (min (length cs') (length ds')). agree (cs' ! k) (ds' ! k))"
        unfolding split by (auto simp: less_Suc_eq_0_disj min_Suc_Suc all_conj_distrib)
      consider "agree c d" | "\<not> agree c d" "Suc u = T" | "\<not> agree c d" "Suc u < T" using Suc.prems(1) by linarith
      then show ?thesis
      proof cases
        case 1
        then obtain p' q' where "matched_counts T 0 n cs' ds' = (p', q', stopped)" "p = Suc p'" "q = Suc q'"
          using Suc.prems by (auto simp: split matched_counts_agree split: prod.splits)
        then show ?thesis using Suc.IH [of 0 cs' ds' p' q' stopped] Suc.prems(1) 1 unfolding all by (simp add: split)
      next
        case 2
        then show ?thesis using Suc.prems unfolding all by (simp add: split matched_counts_stop)
      next
        case 3
        then obtain q' where "matched_counts T (Suc u) n (c # cs') ds' = (p, q', stopped)" "q = Suc q'"
          using Suc.prems by (auto simp: split matched_counts_pass split: prod.splits)
        then show ?thesis using Suc.IH [of "Suc u" cs ds' p q' stopped] 3 unfolding all by (auto simp: split)
      qed
    qed
  qed
  then show "p \<le> q" "q \<le> n" "p \<le> length cs" "q \<le> length ds"
    "p = q \<and> p = min n (min (length cs) (length ds)) \<longleftrightarrow> (\<forall>k < min n (min (length cs) (length ds)). agree (cs ! k) (ds ! k))"
    by blast+
qed

text \<open>The loop finds that, from any state of it.\<close>

definition counted :: "compare \<Rightarrow> nat \<Rightarrow> nat \<Rightarrow> nat \<Rightarrow> compare \<Rightarrow> bool" where
  "counted v p q u v' \<longleftrightarrow> cmp_checkOpCount v' = cmp_checkOpCount v + of_nat p \<and>
     cmp_expectOpCount v' = cmp_expectOpCount v + of_nat p \<and>
     cmp_actualOpCount v' = cmp_actualOpCount v + of_nat q \<and> cmp_continuousUnmatchCount v' = of_nat u"

lemma counted_step: "counted v p q u v1 \<Longrightarrow> counted v1 p' q' u' v' \<Longrightarrow> counted v (p + p') (q + q') u' v'"
  by (simp add: counted_def)

lemma CompareTrace_counts:
  assumes "trace_reads fs (cmp_expect v) cs" "trace_reads fs (cmp_actual v) ds"
    "list_all comparable cs" "list_all comparable ds"
    and "cmp_continuousUnmatchCount v = of_nat u" "u < T" "do_m_Threshold opt = of_nat T" "T < 2 ^ 31"
    and "matched_counts T u n cs ds = (p, q, stopped)"
  shows "\<exists>v' u'. CompareTrace_loop fs opt n i v = Inr v' \<and> counted v p q u' v' \<and> u' \<le> T \<and> (stopped \<longleftrightarrow> u' = T)"
  using assms
proof (induction n arbitrary: i v cs ds u p q)
  case 0
  then show ?case by (auto simp: matched_counts_end counted_def intro!: exI [of _ v] exI [of _ u])
next
  case (Suc n)
  have ended: ?case if "cs = [] \<or> ds = []" "ITraceReader_IsEnd (cmp_expect v) \<or> ITraceReader_IsEnd (cmp_actual v)"
  proof -
    have "(p, q, stopped) = (0, 0, False)"
      using that(1) Suc.prems(6,9) by (cases cs) (auto simp: matched_counts_end matched_counts.simps(1))
    then show ?thesis using that(2) Suc.prems(5,6)
      by (intro exI [of _ v] exI [of _ u]) (auto simp: compare_turn_def counted_def)
  qed
  show ?case
  proof (cases rule: trace_reads_cases [OF Suc.prems(1)])
    case 1
    then show ?thesis using ended by simp
  next
    case expect: (2 c cs' e)
    show ?thesis
    proof (cases rule: trace_reads_cases [OF Suc.prems(2)])
      case 1
      then show ?thesis using ended by simp
    next
      case actual: (2 d ds' a)
      have comparable: "comparable c" "comparable d" "list_all comparable cs'" "list_all comparable ds'"
        using Suc.prems(3,4) expect(1) actual(1) by simp_all
      obtain diff where diff: "PrintDiff c d = Inr diff" using PrintDiff_defined comparable(1,2) by blast
      note turn = expect(2-4) actual(2-4) IsMatched_eq [OF comparable(1,2)] diff
      have T: "cmp_continuousUnmatchCount v + 1 = do_m_Threshold opt \<longleftrightarrow> Suc u = T"
      proof -
        have "cmp_continuousUnmatchCount v + 1 = of_nat (Suc u)" using Suc.prems(5) by simp
        moreover have "of_nat (Suc u) = (of_nat T :: i32) \<longleftrightarrow> Suc u = T"
          using Suc.prems(6,8) by (simp add: word_unat_eq_iff unat_of_nat take_bit_nat_eq_self del: of_nat_Suc)
        ultimately show ?thesis using Suc.prems(7) by metis
      qed
      consider "agree c d" | "\<not> agree c d" "Suc u = T" | "\<not> agree c d" "Suc u < T" using Suc.prems(6) by linarith
      then show ?thesis
      proof cases
        case 1
        then obtain p' q' where m: "matched_counts T 0 n cs' ds' = (p', q', stopped)" "p = Suc p'" "q = Suc q'"
          using Suc.prems(6,9) by (auto simp: expect(1) actual(1) matched_counts_agree split: prod.splits)
        obtain v1 where v1: "compare_turn fs opt i v = Inr (True, v1)" "cmp_expect v1 = e" "cmp_actual v1 = a"
            "counted v 1 1 0 v1"
          using turn 1 by (simp add: compare_turn_def on_cycle_def counted_def)
        obtain v' u' where "CompareTrace_loop fs opt n (i + 1) v1 = Inr v'" "counted v1 p' q' u' v'" "u' \<le> T" "stopped \<longleftrightarrow> u' = T"
          using Suc.IH [of v1 cs' ds' 0 p' q' "i + 1"] v1(2-4) expect(5) actual(5) comparable(3,4) Suc.prems(6-8) m(1)
          by (auto simp: counted_def)
        then show ?thesis using v1(1) m(2,3) counted_step [OF v1(4)] by fastforce
      next
        case 2
        obtain v1 where "compare_turn fs opt i v = Inr (False, v1)" "counted v 0 0 T v1"
          using turn 2 T Suc.prems(7) by (simp add: compare_turn_def on_cycle_def Let_def counted_def)
        then show ?thesis
          using 2 Suc.prems(9) by (auto simp: expect(1) actual(1) matched_counts_stop)
      next
        case 3
        then obtain q' where m: "matched_counts T (Suc u) n cs ds' = (p, q', stopped)" "q = Suc q'"
          using Suc.prems(9) by (auto simp: expect(1) actual(1) matched_counts_pass split: prod.splits)
        obtain v1 where v1: "compare_turn fs opt i v = Inr (True, v1)" "cmp_expect v1 = cmp_expect v" "cmp_actual v1 = a"
            "counted v 0 1 (Suc u) v1"
          using turn 3 T Suc.prems(5) by (simp add: compare_turn_def on_cycle_def Let_def counted_def)
        obtain v' u' where "CompareTrace_loop fs opt n (i + 1) v1 = Inr v'" "counted v1 p q' u' v'" "u' \<le> T" "stopped \<longleftrightarrow> u' = T"
          using Suc.IH [of v1 cs ds' "Suc u" p q' "i + 1"] v1(2-4) Suc.prems(1,3,7,8) actual(5) comparable(4) 3(2) m(1)
          by (auto simp: counted_def)
        then show ?thesis using v1(1) m(2) counted_step [OF v1(4)] by fastforce
      qed
    qed
  qed
qed

text \<open>
  C37: what a comparison of two traces counts. On any two traces that can be read and compared, and a
  positive threshold, \<open>CompareTrace\<close> returns, and its counters are what \<open>matched_counts\<close> finds on the two
  lists of cycles: each expected cycle is matched with the next cycle of the actual trace that has the
  same program counter and integer registers, the cycles in between are passed, and the comparison
  stops when as many in a row as the threshold says do not agree, which is when the counter of
  unmatched cycles has the threshold. All cycles that can be compared, up to the bound of the option
  and the end of the shorter trace, are matched with none passed exactly when they agree pairwise.
\<close>

theorem compare_trace_verdict:
  assumes "trace_reads fs expect cs" "trace_reads fs actual ds" "list_all comparable cs" "list_all comparable ds"
    and "0 <s do_m_Threshold opt" "m = nat (sint (do_m_CycleCount opt))"
    and "matched_counts (nat (sint (do_m_Threshold opt))) 0 m cs ds = (p, q, stopped)"
    and "n = min m (min (length cs) (length ds))"
  shows "\<exists>v. CompareTrace fs expect actual opt = Inr v \<and>
    sint (cmp_checkOpCount v) = int p \<and> sint (cmp_expectOpCount v) = int p \<and> sint (cmp_actualOpCount v) = int q \<and>
    (stopped \<longleftrightarrow> cmp_continuousUnmatchCount v = do_m_Threshold opt) \<and>
    (p = n \<and> q = n \<longleftrightarrow> (\<forall>k < n. agree (cs ! k) (ds ! k)))"
proof -
  let ?v = "\<lparr>cmp_expect = expect, cmp_actual = actual, cmp_continuousUnmatchCount = 0, cmp_checkOpCount = 0,
    cmp_expectOpCount = 0, cmp_actualOpCount = 0, cmp_out = []\<rparr>"
  let ?T = "nat (sint (do_m_Threshold opt))"
  have T: "0 < ?T" "?T < 2 ^ 31" "do_m_Threshold opt = of_nat ?T"
    using assms(5) sint_lt [of "do_m_Threshold opt"] by (simp_all add: word_sless_alt)
  obtain v u where v: "CompareTrace_loop fs opt m 0 ?v = Inr v" "counted ?v p q u v" "u \<le> ?T" "stopped \<longleftrightarrow> u = ?T"
    using CompareTrace_counts [OF _ _ assms(3,4) _ T(1,3,2) assms(7), where v = ?v and i = 0 and fs = fs] assms(1,2) by auto
  note bounds = matched_counts_all [OF T(1) assms(7)]
  have "m < 2 ^ 31" using sint_lt [of "do_m_CycleCount opt"] by (simp add: assms(6))
  then have small: "p < 2 ^ 31" "q < 2 ^ 31" using bounds(1,2) by simp_all
  have "of_nat u = (of_nat ?T :: i32) \<longleftrightarrow> u = ?T"
    using v(3) T(2) by (simp add: word_unat_eq_iff unat_of_nat take_bit_nat_eq_self)
  then have "stopped \<longleftrightarrow> cmp_continuousUnmatchCount v = do_m_Threshold opt"
    using v(2,4) T(3) by (simp add: counted_def)
  moreover have "p = n \<and> q = n \<longleftrightarrow> (\<forall>k < n. agree (cs ! k) (ds ! k))" using bounds(5) assms(8) by auto
  moreover have "sint (cmp_checkOpCount v) = int p" "sint (cmp_expectOpCount v) = int p" "sint (cmp_actualOpCount v) = int q"
    using v(2) small by (simp_all add: counted_def sint_of_nat)
  ultimately show ?thesis using v(1) unfolding CompareTrace_def assms(6) [symmetric] by auto
qed

text \<open>A trace to compare with itself.\<close>

lemma readable_index:
  assumes "list_all2 logs ls bytes" "list_all logged_ok ls" "length ls < 2 ^ 31"
  shows "\<exists>fs r cs. MakeTraceReader (\<lambda>s t. suffix t s) fs (''trace'' @ ''.tidx'') = Inr (Reader_Index r) \<and> index_reads fs r cs \<and>
    list_all2 shows_logged ls cs"
proof -
  have "path_ok ''trace''" by (simp add: path_ok_def isspace_def)
  from written_index [OF assms(1,3) this, of Map.empty] obtain w gs where w: "concat gs = ls" "[] \<notin> set gs"
    "holds_groups ''trace'' gs (IndexWriter_delete w)"
    "IndexReader_new (IndexWriter_delete w) (''trace'' @ ''.tidx'') =
      UpdateTraceBinary (IndexWriter_delete w) (reader_of ''trace'' gs)"
    by auto
  obtain r cs where "UpdateTraceBinary (IndexWriter_delete w) (reader_of ''trace'' gs) = Inr r"
    "index_reads (IndexWriter_delete w) r cs" "list_all2 shows_logged ls cs"
    using reader_of_reads [OF w(3,2)] assms(2) w(1) by auto
  then have "MakeTraceReader (\<lambda>s t. suffix t s) (IndexWriter_delete w) (''trace'' @ ''.tidx'') = Inr (Reader_Index r)"
    unfolding MakeTraceReader_tidx [OF suffix_law] w(4) by simp
  then show ?thesis using \<open>index_reads _ r cs\<close> \<open>list_all2 shows_logged ls cs\<close> by blast
qed

definition example_logged :: logged where
  "example_logged = \<lparr>lg_cycle = 0, lg_xlen = XLEN32, lg_pc = 0x1000, lg_nodes = [NodeIntReg32 (replicate 32 7),
     Node_MemoryEvent \<lparr>nm_accessType = 3, nm_size = 4, nm_value = 7, nm_vaddr = 0x2000, nm_paddr = 0x2000\<rparr>]\<rparr>"

lemma example_trace:
  obtains fs r c where "MakeTraceReader (\<lambda>s t. suffix t s) fs (''trace'' @ ''.tidx'') = Inr (Reader_Index r)" "index_reads fs r [c]"
    "shows_logged example_logged c"
proof -
  have "logs example_logged (logged_bytes example_logged)"
    unfolding logged_bytes_def
    by (intro log_cycle_fits) (simp add: example_logged_def cycle_bytes_def basic_bytes_def NodeBasic_bytes_def
        NodeMemoryEvent_bytes_def DefaultBufferSize_def length_concat comp_def sum_list_triv sum_list_replicate)
  then have "list_all2 logs [example_logged] [logged_bytes example_logged]" by simp
  moreover have "list_all logged_ok [example_logged]" by (simp add: example_logged_def logged_ok_def node_ok_def)
  ultimately show ?thesis using readable_index [of "[example_logged]"] that by (auto simp: list_all2_Cons1)
qed

lemma example_cycle:
  assumes "shows_logged example_logged c"
  shows "BinaryCycle_GetPc c = Inr 0x1000" "BinaryCycle_IsIntRegExist c" "\<forall>i < 32. BinaryCycle_GetIntReg i c = Inr 7"
    "BinaryCycle_GetMemoryEventCount c = 1" "BinaryCycle_CopyMemoryEvent 0 c =
      Inr \<lparr>nm_accessType = 3, nm_size = 4, nm_value = 7, nm_vaddr = 0x2000, nm_paddr = 0x2000\<rparr>"
  using assms by (simp_all add: shows_logged_def cycle_shows_def example_logged_def node_kinds)

theorem compare_trace_verdict_witness:
  "\<exists>fs r v. CompareTrace fs (Reader_Index r) (Reader_Index r) \<lparr>do_m_ExpectPath = [], do_m_ActualPath = [], do_m_CycleCount = 10, do_m_Threshold = 10\<rparr> = Inr v \<and>
    sint (cmp_checkOpCount v) = 1 \<and> sint (cmp_actualOpCount v) = 1 \<and> cmp_continuousUnmatchCount v \<noteq> 10"
proof -
  obtain fs r c where r: "index_reads fs r [c]" "shows_logged example_logged c" using example_trace by metis
  have reads: "trace_reads fs (Reader_Index r) [ICycle_Binary c]" using index_trace_reads [OF r(1)] by simp
  have "list_all comparable [ICycle_Binary c]" using example_cycle [OF r(2)] by (simp add: comparable_def)
  moreover have "matched_counts 10 0 10 [ICycle_Binary c] [ICycle_Binary c] = (1, 1, False)"
    using example_cycle [OF r(2)] by (simp add: matched_counts.simps agree_def)
  ultimately show ?thesis
    using compare_trace_verdict [OF reads reads, of "\<lparr>do_m_ExpectPath = [], do_m_ActualPath = [], do_m_CycleCount = 10, do_m_Threshold = 10\<rparr>" 10 1 1 False 1]
    by (auto simp: word_sless_alt)
qed

section \<open>Printing a trace\<close>

lemma hex_print_hex:
  "list_all isxdigit (print_hex n) \<and> xdigits_value 0 (print_hex n) = n \<and> print_hex n \<noteq> []"
proof (induction n rule: print_hex.induct)
  case (1 n)
  have digit: "isxdigit (lower_hex k)" "xdigit_value (lower_hex k) = k" if "k < 16" for k
    using that by (cases "k < 10"; simp add: isxdigit_def isdigit_def xdigit_value_def hex_digit_code)+
  have append: "xdigits_value acc (s @ t) = xdigits_value (xdigits_value acc s) t" for acc s t
    by (induction s arbitrary: acc) simp_all
  show ?case
  proof (cases "n < 16")
    case True
    then show ?thesis by (subst (1 2 3) print_hex.simps) (simp add: digit)
  next
    case False
    then show ?thesis using 1 by (subst (1 2 3) print_hex.simps) (simp add: digit append)
  qed
qed

lemma isxdigit_class: "isxdigit c \<Longrightarrow> \<not> isspace c \<and> c \<noteq> CHR '':'' \<and> c \<noteq> CHR ''-'' \<and> c \<noteq> CHR ''+'' \<and>
    c \<noteq> CHR ''x'' \<and> c \<noteq> CHR ''X''"
  by (auto simp: isxdigit_def isdigit_def isspace_def)

lemma stream_hex_print:
  "stream_hex \<lparr>is_rest = CHR '' '' # print_hex (unat v), is_eof = False, is_fail = False\<rparr> =
    (Some (v :: u64), \<lparr>is_rest = [], is_eof = True, is_fail = False\<rparr>)"
proof -
  let ?s = "print_hex (unat v)"
  obtain c s where s: "?s = c # s" "isxdigit c" "list_all isxdigit s"
    using hex_print_hex [of "unat v"] by (cases ?s) auto
  note c = isxdigit_class [OF s(2)]
  have "dropWhile isspace (CHR '' '' # ?s) = ?s" using c unfolding s(1) by simp
  moreover have "hex_start ?s = ?s"
    using c s(3) isxdigit_class unfolding s(1) by (cases s) (auto simp: hex_start_def Let_def)
  moreover have parts: "takeWhile isxdigit ?s = ?s" "dropWhile isxdigit ?s = []"
    using hex_print_hex [of "unat v"] by (simp_all add: list_all_iff takeWhile_eq_all_conv dropWhile_eq_Nil_conv)
  moreover have "hd ?s \<noteq> CHR ''-''" "?s \<noteq> []" using c unfolding s(1) by simp_all
  moreover have "unat v < 2 ^ LENGTH(64)" by (rule unsigned_less)
  ultimately show ?thesis
    using hex_print_hex [of "unat v"] by (simp add: stream_hex_def sentry_def Let_def not_le parts)
qed

text \<open>The filter of stores to an address.\<close>

lemma MakeFilter_stores: "MakeFilter (''S:'' @ print_hex (unat a)) = Inr (MemoryAccessFilter a False False True)"
proof -
  have "map (\<lambda>c. if c = CHR '':'' then CHR '' '' else c) (print_hex (unat a)) = print_hex (unat a)"
    using hex_print_hex [of "unat a"] isxdigit_class by (auto simp: list_all_iff intro!: map_idI)
  moreover have "stream_string (istream_of (''S '' @ s)) = (''S'', \<lparr>is_rest = CHR '' '' # s, is_eof = False, is_fail = False\<rparr>)" for s
    by (simp add: stream_string_def istream_of_def sentry_def Let_def isspace_def)
  ultimately show ?thesis by (simp add: MakeFilter_def Let_def stream_hex_print)
qed

definition events :: "ICycle \<Rightarrow> NodeMemoryEvent list \<Rightarrow> bool" where
  "events c es \<longleftrightarrow> ICycle_GetMemoryEventCount c = length es \<and> (\<forall>i < length es. ICycle_CopyMemoryEvent i c = Inr (es ! i))"

text \<open>The bytes that an access covers; the filter compares with the sum of 64 bits, which must not wrap.\<close>

definition stores_to :: "u64 \<Rightarrow> NodeMemoryEvent \<Rightarrow> bool" where
  "stores_to a e \<longleftrightarrow> nm_accessType e = MemoryAccessType_value Store \<and>
     unat (nm_vaddr e) \<le> unat a \<and> unat a < unat (nm_vaddr e) + unat (nm_size e)"

definition inside_memory :: "NodeMemoryEvent \<Rightarrow> bool" where
  "inside_memory e \<longleftrightarrow> unat (nm_vaddr e) + unat (nm_size e) < 2 ^ 64"

lemma event_passes_store:
  assumes "inside_memory e"
  shows "event_passes a False False True e = stores_to a e"
proof -
  have size: "unat (ucast (nm_size e) :: u64) = unat (nm_size e)"
  proof -
    have "unat (nm_size e) < 2 ^ 64" using assms by (simp add: inside_memory_def)
    then show ?thesis by (simp add: unsigned_ucast_eq take_bit_nat_eq_self)
  qed
  then have "unat (nm_vaddr e + ucast (nm_size e)) = unat (nm_vaddr e) + unat (nm_size e)"
    using assms unat_add_lem [of "nm_vaddr e" "ucast (nm_size e)"] by (simp add: inside_memory_def)
  then show ?thesis
    by (auto simp: event_passes_def stores_to_def MemoryAccessType_value_def Let_def word_le_nat_alt word_less_nat_alt)
qed

lemma some_event_passes_eq:
  assumes "events c es" "\<forall>i \<in> set is. i < length es"
  shows "some_event_passes P c is = Inr (\<exists>i \<in> set is. P (es ! i))"
  using assms by (induction "is") (auto simp: events_def)

lemma stores_filter:
  assumes "events c es" "list_all inside_memory es"
  shows "IFilter_Apply (MemoryAccessFilter a False False True) c = Inr (\<exists>e \<in> set es. stores_to a e)"
proof -
  have "IFilter_Apply (MemoryAccessFilter a False False True) c =
      Inr (\<exists>i \<in> {0..<length es}. event_passes a False False True (es ! i))"
    using some_event_passes_eq [OF assms(1), of "[0..<length es]"] assms(1) by (simp add: events_def)
  moreover have "event_passes a False False True (es ! i) = stores_to a (es ! i)" if "i < length es" for i
    using assms(2) that by (intro event_passes_store) (simp add: list_all_length)
  moreover have "(\<exists>i < length es. stores_to a (es ! i)) \<longleftrightarrow> (\<exists>e \<in> set es. stores_to a e)"
    by (auto simp: in_set_conv_nth Bex_def)
  ultimately show ?thesis by (simp add: Bex_def cong: conj_cong)
qed

text \<open>The texts of the printed cycles, with the number that the printer gives to each.\<close>

definition printed_texts :: "(nat \<Rightarrow> ICycle \<Rightarrow> string) \<Rightarrow> nat \<Rightarrow> ICycle list \<Rightarrow> string" where
  "printed_texts txt k cs = concat (map (\<lambda>(k, c). txt k c) (enumerate k cs))"

lemma printed_texts_simps:
  "printed_texts txt k [] = []" "printed_texts txt k (c # cs) = txt k c @ printed_texts txt (Suc k) cs"
  by (simp_all add: printed_texts_def)

lemma PrintTrace_prints:
  assumes "trace_reads fs r cs" "\<And>c. c \<in> set cs \<Longrightarrow> IFilter_Apply flt c = Inr (pass c)"
    "\<And>c k. c \<in> set cs \<Longrightarrow> printer (of_nat k) c = Inr (txt k c)"
  shows "PrintTrace_loop fs printer flt n (of_nat k) r = Inr (printed_texts txt k (filter pass (take n cs)))"
  using assms
proof (induction n arbitrary: r cs k)
  case (Suc n)
  show ?case
  proof (cases rule: trace_reads_cases [OF Suc.prems(1)])
    case (2 c cs' r')
    then have IH: "PrintTrace_loop fs printer flt n (of_nat k) r' = Inr (printed_texts txt k (filter pass (take n cs')))" for k
      using Suc.prems(2,3) by (intro Suc.IH) simp_all
    show ?thesis
      using 2 Suc.prems(2,3) IH [of k] IH [of "Suc k"]
      by (cases "pass c") (simp_all add: on_cycle_def printed_texts_simps add.commute)
  qed (simp add: printed_texts_simps)
qed (simp add: printed_texts_simps)

text \<open>
  C38: the printed cycles are the selected ones. With the filter \<open>S:\<close> and an address in hexadecimal,
  \<open>rafi-dump\<close> prints, in the order of the trace, what the printer of its option makes of exactly those
  cycles in which a store covers the address, among the cycles that the reader yields once it has
  skipped to the first bound, and up to both other bounds. No bound overflows, and no access reaches
  the end of the address space: the filter takes one that does for one that covers nothing.
\<close>

theorem dump_prints_stores:
  assumes "MakeTraceReader ends_with fs (dmp_m_Path opt) = Inr r0"
    and "(if 0 <s dmp_m_CycleBegin opt then ITraceReader_NextBy fs (dmp_m_CycleBegin opt) r0 else Inr r0) = Inr r"
    and "trace_reads fs r cs" "dmp_m_FilterDescription opt = ''S:'' @ print_hex (unat a)"
    and "\<forall>c \<in> set cs. events c (events_of c) \<and> list_all inside_memory (events_of c)"
    and "\<forall>c \<in> set cs. \<forall>k. MakeTracePrinter print_float print_double (dmp_m_PrinterType opt) (of_nat k) c = Inr (txt k c)"
    and "sint (dmp_m_CycleBegin opt + dmp_m_CycleCount opt) = sint (dmp_m_CycleBegin opt) + sint (dmp_m_CycleCount opt)"
    and "n = nat (min (sint (dmp_m_CycleCount opt)) (sint (dmp_m_CycleEnd opt) - sint (dmp_m_CycleBegin opt)))"
  shows "dump_main ends_with print_float print_double fs opt =
    Inr (printed_texts txt 0 (filter (\<lambda>c. \<exists>e \<in> set (events_of c). stores_to a e) (take n cs)))"
proof -
  let ?last = "dmp_m_CycleBegin opt + dmp_m_CycleCount opt"
  have "nat (sint (if dmp_m_CycleEnd opt <s ?last then dmp_m_CycleEnd opt else ?last) - sint (dmp_m_CycleBegin opt)) = n"
    unfolding assms(8) by (simp add: word_sless_alt assms(7) min_def)
  moreover have "PrintTrace_loop fs (MakeTracePrinter print_float print_double (dmp_m_PrinterType opt))
      (MemoryAccessFilter a False False True) n (of_nat 0) r =
      Inr (printed_texts txt 0 (filter (\<lambda>c. \<exists>e \<in> set (events_of c). stores_to a e) (take n cs)))"
    using assms(5,6) stores_filter by (intro PrintTrace_prints [OF assms(3)]) auto
  ultimately show ?thesis
    unfolding dump_main_def assms(4) MakeFilter_stores
    by (simp add: assms(1,2) PrintTrace_def Let_def)
qed

theorem dump_prints_stores_witness:
  "\<exists>fs. dump_main (\<lambda>s t. suffix t s) (\<lambda>_. []) (\<lambda>_. []) fs \<lparr>dmp_m_PrinterType = Printer_Pc, dmp_m_FilterDescription = ''S:2002'',
      dmp_m_Path = ''trace'' @ ''.tidx'', dmp_m_CycleBegin = 0, dmp_m_CycleCount = 10, dmp_m_CycleEnd = 10\<rparr> =
    Inr (''0x'' @ replicate 12 (CHR ''0'') @ ''1000'' @ nl)"
proof -
  obtain fs r c where r: "MakeTraceReader (\<lambda>s t. suffix t s) fs (''trace'' @ ''.tidx'') = Inr (Reader_Index r)" "index_reads fs r [c]"
    "shows_logged example_logged c" using example_trace by metis
  let ?e = "\<lparr>nm_accessType = 3, nm_size = 4, nm_value = 7, nm_vaddr = 0x2000, nm_paddr = 0x2000\<rparr>"
  let ?opt = "\<lparr>dmp_m_PrinterType = Printer_Pc, dmp_m_FilterDescription = ''S:2002'',
      dmp_m_Path = ''trace'' @ ''.tidx'', dmp_m_CycleBegin = 0, dmp_m_CycleCount = 10, dmp_m_CycleEnd = 10\<rparr>"
  let ?txt = "\<lambda>_ _. ''0x'' @ pad0 16 (hex (0x1000 :: u64)) @ nl"
  have reads: "trace_reads fs (Reader_Index r) [ICycle_Binary c]" using index_trace_reads [OF r(2)] by simp
  have events: "\<forall>c \<in> set [ICycle_Binary c]. events c ((\<lambda>_. [?e]) c) \<and> list_all inside_memory ((\<lambda>_. [?e]) c)"
    using example_cycle(4,5) [OF r(3)] by (simp add: events_def inside_memory_def)
  have texts: "\<forall>c \<in> set [ICycle_Binary c]. \<forall>k. MakeTracePrinter (\<lambda>_. []) (\<lambda>_. []) (dmp_m_PrinterType ?opt) (of_nat k) c = Inr (?txt k c)"
    using example_cycle(1) [OF r(3)] by (simp add: MakeTracePrinter_def PcPrinter_Print_def)
  have hex: "print_hex 0x2002 = ''2002''" "print_hex 0x1000 = ''1000''"
    by (simp_all add: print_hex.simps lower_hex_def char_of_def bit_0)
  then have filter: "dmp_m_FilterDescription ?opt = ''S:'' @ print_hex (unat (0x2002 :: u64))" by simp
  have "dump_main (\<lambda>s t. suffix t s) (\<lambda>_. []) (\<lambda>_. []) fs ?opt =
      Inr (printed_texts ?txt 0 (filter (\<lambda>c. \<exists>e \<in> set ((\<lambda>_. [?e]) c). stores_to 0x2002 e) (take 10 [ICycle_Binary c])))"
    by (rule dump_prints_stores [OF _ _ reads filter events texts]) (use r(1) in simp_all)
  also have "printed_texts ?txt 0 (filter (\<lambda>c. \<exists>e \<in> set ((\<lambda>_. [?e]) c). stores_to 0x2002 e) (take 10 [ICycle_Binary c])) =
      ''0x'' @ replicate 12 (CHR ''0'') @ ''1000'' @ nl"
    using hex(2) by (simp add: stores_to_def MemoryAccessType_value_def printed_texts_simps pad0_def)
  finally show ?thesis by blast
qed

end
