(* ===== verification/Rafi_TraceText_Ok.thy ===== *)
theory Rafi_TraceText_Ok
  imports Rafi_TraceDiff_Ok
begin

text \<open>
  The text format of traces: what the reader accepts, in the layout that the printer gives to numbers
  and registers, and why it does not accept what the printer prints.
\<close>

section \<open>Words and numbers\<close>

abbreviation spaces :: "string \<Rightarrow> bool" where
  "spaces \<equiv> list_all isspace"

lemma isspace_blank [simp]: "isspace (CHR '' '')" "isspace (CHR 0x0A)"
  by (simp_all add: isspace_def)

lemma sentry_word:
  assumes "spaces sp" "w \<noteq> []" "\<not> isspace (hd w)"
  shows "sentry (istream_of (sp @ w)) = (Some w, istream_of (sp @ w))"
proof -
  have "dropWhile isspace (sp @ w) = w"
    using assms by (cases w) (auto simp: list_all_iff dropWhile_append2)
  then show ?thesis using assms(2) by (simp add: sentry_def istream_of_def)
qed

lemma stream_word:
  assumes "spaces sp" "w \<noteq> []" "list_all (\<lambda>c. \<not> isspace c) w" "isspace c"
  shows "stream_string (istream_of (sp @ w @ c # r)) = (w, istream_of (c # r))"
proof -
  have "hd (w @ c # r) = hd w" "\<not> isspace (hd w)" using assms(2,3) by (cases w; simp)+
  then have "sentry (istream_of (sp @ w @ c # r)) = (Some (w @ c # r), istream_of (sp @ w @ c # r))"
    using sentry_word [OF assms(1), of "w @ c # r"] by simp
  moreover have "takeWhile (\<lambda>c. \<not> isspace c) (w @ c # r) = w" "dropWhile (\<lambda>c. \<not> isspace c) (w @ c # r) = c # r"
    using assms(3,4) by (auto simp: list_all_iff takeWhile_append2 dropWhile_append2)
  ultimately show ?thesis by (simp add: stream_string_def Let_def istream_of_def)
qed

lemma pad0_digits:
  "list_all isxdigit (pad0 n (print_hex k)) \<and> xdigits_value 0 (pad0 n (print_hex k)) = k \<and> pad0 n (print_hex k) \<noteq> []"
proof -
  have "xdigits_value 0 (replicate m (CHR ''0'') @ s) = xdigits_value 0 s" for m s
    by (induction m) (simp_all add: xdigit_value_def)
  moreover have "isxdigit (CHR ''0'')" by (simp add: isxdigit_def isdigit_def)
  ultimately show ?thesis using hex_print_hex [of k] by (auto simp: pad0_def list_all_iff)
qed

lemma stream_digits:
  assumes "spaces sp" "d \<noteq> []" "list_all isxdigit d" "xdigits_value 0 d = unat (v :: 'a::len word)" "isspace c"
  shows "stream_hex_into x (istream_of (sp @ d @ c # r)) = (Some v, istream_of (c # r))"
proof -
  obtain h t where d: "d = h # t" "isxdigit h" "list_all isxdigit t" using assms(2,3) by (cases d) auto
  note h = isxdigit_class [OF d(2)]
  have c: "\<not> isxdigit c" "c \<noteq> CHR ''x''" "c \<noteq> CHR ''X''"
    using assms(5) isxdigit_class [of c] by (auto simp: isspace_def)
  have "sentry (istream_of (sp @ d @ c # r)) = (Some (d @ c # r), istream_of (sp @ d @ c # r))"
    using sentry_word [OF assms(1), of "d @ c # r"] h d(1) by simp
  moreover have "hex_start (d @ c # r) = d @ c # r"
    using h d(3) c isxdigit_class unfolding d(1) by (cases t) (auto simp: hex_start_def Let_def)
  moreover have "takeWhile isxdigit (d @ c # r) = d" "dropWhile isxdigit (d @ c # r) = c # r"
    using assms(3) c by (auto simp: list_all_iff takeWhile_append2 dropWhile_append2)
  moreover have "hd (d @ c # r) \<noteq> CHR ''-''" using h d(1) by simp
  moreover have "unat v < 2 ^ LENGTH('a)" by (rule unsigned_less)
  ultimately show ?thesis
    using assms(2,4) by (simp add: stream_hex_into_def stream_hex_def Let_def not_le istream_of_def)
qed

lemmas stream_pad0 = stream_digits [OF _ pad0_digits [THEN conjunct2, THEN conjunct2]
  pad0_digits [THEN conjunct1] pad0_digits [THEN conjunct2, THEN conjunct1]]

lemmas stream_hex_number = stream_digits [OF _ hex_print_hex [THEN conjunct2, THEN conjunct2]
  hex_print_hex [THEN conjunct1] hex_print_hex [THEN conjunct2, THEN conjunct1]]

section \<open>Registers\<close>

abbreviation reg_text :: "u64 list \<Rightarrow> nat \<Rightarrow> string" where
  "reg_text regs i \<equiv> '' '' @ pad0 16 (hex (regs ! i)) @ (if i mod 4 = 3 then nl else [])"

lemma read_reg_lines:
  assumes "is \<noteq> []" "last is mod 4 = 3" "length old = length is" "spaces sp"
  shows "read_regs old (istream_of (sp @ concat (map (reg_text regs) is) @ r)) =
    (map (\<lambda>i. Some (regs ! i)) is, istream_of (nl @ r))"
  using assms
proof (induction "is" arbitrary: old sp)
  case (Cons i "is")
  obtain o1 old' where old: "old = o1 # old'" "length old' = length is" using Cons.prems(3) by (cases old) auto
  let ?nl = "if i mod 4 = 3 then nl else []"
  let ?rest = "?nl @ concat (map (reg_text regs) is) @ r"
  obtain c r' where rest: "?rest = c # r'" "isspace c"
    using Cons.prems(2) by (cases "is"; cases "i mod 4 = 3") auto
  have "spaces (sp @ '' '')" using Cons.prems(4) by simp
  from stream_pad0 [OF this rest(2), of o1 16 "regs ! i" r']
  have number: "stream_hex_into o1 (istream_of (sp @ concat (map (reg_text regs) (i # is)) @ r)) =
      (Some (regs ! i), istream_of ?rest)"
    unfolding rest(1) [symmetric] by simp
  show ?case
  proof (cases "is = []")
    case True
    then show ?thesis using number old Cons.prems(2) by simp
  next
    case False
    have "spaces ?nl" by simp
    from Cons.IH [OF False _ old(2) this] Cons.prems(2) False
    have "read_regs old' (istream_of ?rest) = (map (\<lambda>i. Some (regs ! i)) is, istream_of (nl @ r))" by simp
    then show ?thesis using number old(1) by simp
  qed
qed simp

section \<open>Cycles\<close>

text \<open>What a text trace holds of a cycle, and its text.\<close>

record text_node =
  tx_cycle :: u32
  tx_pc :: u64
  tx_regs :: "u64 list"

definition basic_text :: "XLEN \<Rightarrow> text_node \<Rightarrow> string" where
  "basic_text xlen n = ''BASIC '' @ pad0 8 (hex (tx_cycle n)) @ '' '' @ hex (XLEN_value xlen) @ '' '' @ pad0 16 (hex (tx_pc n))"

definition cycle_text :: "XLEN \<Rightarrow> text_node \<Rightarrow> string" where
  "cycle_text xlen n = basic_text xlen n @ nl @ ''INT'' @ nl @ reg_lines (tx_regs n) @ ''BREAK'' @ nl"

definition trace_text :: "XLEN \<Rightarrow> text_node list \<Rightarrow> string" where
  "trace_text xlen ns = ''XLEN  '' @ (if xlen = XLEN32 then ''32'' else ''64'') @ nl @ concat (map (cycle_text xlen) ns)"

definition shows_text :: "XLEN \<Rightarrow> text_node \<Rightarrow> ICycle \<Rightarrow> bool" where
  "shows_text xlen n c \<longleftrightarrow> ICycle_GetCycle c = Inr (tx_cycle n) \<and> ICycle_GetXLEN c = Inr (XLEN_value xlen) \<and>
     ICycle_GetPc c = Inr (tx_pc n) \<and> ICycle_IsIntRegExist c \<and> (\<forall>i < 32. ICycle_GetIntReg i c = Inr (tx_regs n ! i))"

lemma ParseBasic_text:
  "ParseBasic (istream_of ('' '' @ pad0 8 (hex (tx_cycle n)) @ '' '' @ hex (XLEN_value xlen) @ '' '' @ pad0 16 (hex (tx_pc n)) @ nl @ r)) c =
    Inr (c\<lparr>tc_m_CycleCount := Some (tx_cycle n), tc_m_XLEN := XLEN_value xlen, tc_m_Pc := Some (tx_pc n),
      tc_m_BasicExist := True\<rparr>, istream_of (nl @ r))"
  by (simp add: ParseBasic_def Let_def
      stream_pad0 [where sp = "'' ''", simplified] stream_hex_number [where sp = "'' ''", simplified])

lemma Parse_cycle_text:
  assumes "length (tx_regs n) = 32" "spaces sp"
  shows "\<exists>c. TextCycle_Parse (istream_of (sp @ cycle_text xlen n @ r)) xlen' = Inr (c, istream_of (nl @ r)) \<and>
    shows_text xlen n (ICycle_Text c)"
proof -
  let ?c0 = "TextCycle_new xlen'"
  let ?c1 = "?c0\<lparr>tc_m_CycleCount := Some (tx_cycle n), tc_m_XLEN := XLEN_value xlen, tc_m_Pc := Some (tx_pc n),
      tc_m_BasicExist := True\<rparr>"
  let ?c2 = "?c1\<lparr>tc_m_IntRegs := map (\<lambda>i. Some (tx_regs n ! i)) [0..<32], tc_m_IntRegExist := True\<rparr>"
  let ?r1 = "''BREAK'' @ nl @ r"
  let ?r2 = "nl @ ''INT'' @ nl @ reg_lines (tx_regs n) @ ?r1"
  have word: "list_all (\<lambda>c. \<not> isspace c) ''BASIC''" "list_all (\<lambda>c. \<not> isspace c) ''INT''" "list_all (\<lambda>c. \<not> isspace c) ''BREAK''"
    by (simp_all add: isspace_def)
  have b: "stream_string (istream_of (sp @ cycle_text xlen n @ r)) = (''BASIC'', istream_of ('' '' @ pad0 8 (hex (tx_cycle n)) @ '' '' @
      hex (XLEN_value xlen) @ '' '' @ pad0 16 (hex (tx_pc n)) @ ?r2))"
    using stream_word [OF assms(2) _ word(1), of "CHR '' ''"] by (simp add: cycle_text_def basic_text_def)
  have i: "stream_string (istream_of ?r2) = (''INT'', istream_of (nl @ reg_lines (tx_regs n) @ ?r1))"
    using stream_word [OF _ _ word(2), of nl "CHR 0x0A"] by simp
  have regs: "ParseIntReg (istream_of (nl @ reg_lines (tx_regs n) @ ?r1)) ?c1 = (?c2, istream_of (nl @ ?r1))"
    using read_reg_lines [of "[0..<32]" "tc_m_IntRegs ?c1" nl "tx_regs n" ?r1]
    by (simp add: ParseIntReg_def reg_lines_def TextCycle_new_def)
  have e: "stream_string (istream_of (nl @ ?r1)) = (''BREAK'', istream_of (nl @ r))"
    using stream_word [OF _ _ word(3), of nl "CHR 0x0A"] by simp
  have "TextCycle_Parse_loop (istream_of (nl @ ?r1)) ?c2 = Inr (?c2, istream_of (nl @ r))"
    by (subst TextCycle_Parse_loop.simps) (simp only: e prod.case, simp)
  then have "TextCycle_Parse_loop (istream_of ?r2) ?c1 = Inr (?c2, istream_of (nl @ r))"
    by (subst TextCycle_Parse_loop.simps) (simp only: i regs prod.case, simp)
  then have "TextCycle_Parse (istream_of (sp @ cycle_text xlen n @ r)) xlen' = Inr (?c2, istream_of (nl @ r))"
    unfolding TextCycle_Parse_def
    by (subst TextCycle_Parse_loop.simps) (simp only: b ParseBasic_text prod.case, simp)
  moreover have "shows_text xlen n (ICycle_Text ?c2)"
    by (simp add: shows_text_def TextCycle_GetCycle_def TextCycle_GetXLEN_def TextCycle_GetPc_def TextCycle_GetIntReg_def value_of_def)
  ultimately show ?thesis by blast
qed

section \<open>Traces\<close>

lemma end_of_text: "spaces sp \<Longrightarrow> stream_string (istream_of sp) = ([], \<lparr>is_rest = [], is_eof = True, is_fail = True\<rparr>)"
  by (simp add: stream_string_def sentry_def istream_of_def list_all_iff dropWhile_eq_Nil_conv [THEN iffD2])

lemma text_reads:
  assumes "list_all (\<lambda>n. length (tx_regs n) = 32) ns" "spaces sp"
  shows "\<exists>t cs. UpdateTextCycle \<lparr>tt_m_XLEN = xlen, tt_m_pInput = istream_of (sp @ concat (map (cycle_text xlen) ns)),
      tt_m_pTextCycle = c\<rparr> = Inr t \<and> trace_reads fs (Reader_Text t) cs \<and> list_all2 (shows_text xlen) ns cs"
  using assms
proof (induction ns arbitrary: sp c)
  case Nil
  have "TextCycle_Parse (istream_of sp) xlen = Inl TraceException"
    unfolding TextCycle_Parse_def by (subst TextCycle_Parse_loop.simps) (simp add: end_of_text [OF Nil(2)])
  then show ?case
    by (intro exI [of _ "\<lparr>tt_m_XLEN = xlen, tt_m_pInput = istream_of sp, tt_m_pTextCycle = None\<rparr>"] exI [of _ "[]"])
      (simp add: UpdateTextCycle_def TextTrace_IsEnd_def reads.intros)
next
  case (Cons n ns)
  let ?r = "concat (map (cycle_text xlen) ns)"
  obtain d where d: "TextCycle_Parse (istream_of (sp @ cycle_text xlen n @ ?r)) xlen = Inr (d, istream_of (nl @ ?r))"
      "shows_text xlen n (ICycle_Text d)"
    using Parse_cycle_text [of n sp xlen ?r xlen] Cons.prems by auto
  let ?t = "\<lparr>tt_m_XLEN = xlen, tt_m_pInput = istream_of (nl @ ?r), tt_m_pTextCycle = Some d\<rparr>"
  obtain t cs where t: "UpdateTextCycle ?t = Inr t" "trace_reads fs (Reader_Text t) cs" "list_all2 (shows_text xlen) ns cs"
    using Cons.IH [of nl "Some d"] Cons.prems(1) by auto
  have "trace_reads fs (Reader_Text ?t) (ICycle_Text d # cs)"
    using t(1,2) by (intro reads.intros) (simp_all add: TextTrace_IsEnd_def TextTrace_Next_def)
  then show ?case
    using d t(3) by (intro exI [of _ ?t] exI [of _ "ICycle_Text d # cs"]) (simp add: UpdateTextCycle_def)
qed

text \<open>
  C36: a text trace is read as it says. The text of cycles, with a header of their width and in each
  cycle its number, width and program counter and the lines of registers that the printer prints, is
  read as exactly these cycles, in their order, with these values, and nothing behind them.
\<close>

theorem text_trace_roundtrip:
  assumes "list_all (\<lambda>n. length (tx_regs n) = 32) ns" "xlen \<noteq> XLEN128"
  shows "\<exists>t cs. TextTrace_new (istream_of (trace_text xlen ns)) = Inr t \<and> trace_reads fs (Reader_Text t) cs \<and>
    list_all2 (shows_text xlen) ns cs"
proof -
  let ?r = "nl @ concat (map (cycle_text xlen) ns)" and ?w = "if xlen = XLEN32 then ''32'' else ''64''"
  have "stream_string (istream_of (trace_text xlen ns)) = (''XLEN'', istream_of (''  '' @ ?w @ ?r))"
    using stream_word [of "[]" "''XLEN''" "CHR '' ''"] by (simp add: trace_text_def isspace_def)
  moreover have "stream_string (istream_of (''  '' @ ?w @ ?r)) = (?w, istream_of ?r)"
    using stream_word [of "''  ''" ?w "CHR 0x0A"] by (simp add: isspace_def)
  ultimately have "TextTrace_new (istream_of (trace_text xlen ns)) =
      UpdateTextCycle \<lparr>tt_m_XLEN = xlen, tt_m_pInput = istream_of ?r, tt_m_pTextCycle = None\<rparr>"
    using assms(2) by (cases xlen) (simp_all add: TextTrace_new_def)
  then show ?thesis using text_reads [OF assms(1), of nl] by simp
qed

text \<open>Two cycles, of which the second has an \<open>x\<^sub>1\<close> that needs all its digits.\<close>

abbreviation text_example :: "text_node list" where
  "text_example \<equiv> [\<lparr>tx_cycle = 0, tx_pc = 0x80000000, tx_regs = replicate 32 0\<rparr>,
     \<lparr>tx_cycle = 1, tx_pc = 0x80000004, tx_regs = (replicate 32 0)[1 := 0xFFFFFFFFFFFFFFFF]\<rparr>]"

theorem text_trace_roundtrip_witness:
  "\<exists>t cs. TextTrace_new (istream_of (trace_text XLEN64 text_example)) = Inr t \<and> trace_reads Map.empty (Reader_Text t) cs \<and>
    list_all2 (shows_text XLEN64) text_example cs"
  by (rule text_trace_roundtrip) simp_all

section \<open>What the printer prints\<close>

lemma bindR_InrE: "bindR m f = Inr y \<Longrightarrow> \<exists>x. m = Inr x \<and> f x = Inr y"
  by (cases m) simp_all

lemma prints_Cons_Inr: "prints (m # ms) = Inr s \<Longrightarrow> \<exists>a b. m = Inr a \<and> prints ms = Inr b \<and> s = a @ b"
  by (cases m; cases "all_results ms") (auto simp: prints_def)

lemma printed_start:
  assumes "TextPrinter_Print n c = Inr s"
  obtains h a x p r where "PrintHeader n c = Inr h"
    "s = h @ ''BASIC '' @ pad0 8 (hex (a :: u32)) @ '' '' @ hex (x :: u32) @ '' '' @ pad0 16 (hex (p :: u64)) @ '' 0'' @ nl @ r"
  using assms unfolding TextPrinter_Print_def
  by (auto dest!: prints_Cons_Inr bindR_InrE simp: PrintBasic_def)

lemma Parse_printed:
  assumes "spaces sp"
  shows "TextCycle_Parse (istream_of (sp @ ''BASIC '' @ pad0 8 (hex (a :: u32)) @ '' '' @ hex (x :: u32) @ '' '' @
    pad0 16 (hex (p :: u64)) @ '' 0'' @ nl @ r)) xlen = Inl TraceException"
proof -
  let ?r = "'' 0'' @ nl @ r"
  let ?n = "'' '' @ pad0 8 (hex a) @ '' '' @ hex x @ '' '' @ pad0 16 (hex p) @ ?r"
  let ?c = "(TextCycle_new xlen)\<lparr>tc_m_CycleCount := Some a, tc_m_XLEN := x, tc_m_Pc := Some p, tc_m_BasicExist := True\<rparr>"
  have "stream_string (istream_of (sp @ ''BASIC '' @ pad0 8 (hex a) @ '' '' @ hex x @ '' '' @ pad0 16 (hex p) @ ?r)) =
      (''BASIC'', istream_of ?n)"
    using stream_word [OF assms, of "''BASIC''" "CHR '' ''"] by (simp add: isspace_def)
  moreover have "ParseBasic (istream_of ?n) (TextCycle_new xlen) = Inr (?c, istream_of ?r)"
    by (simp add: ParseBasic_def Let_def
        stream_pad0 [where sp = "'' ''", simplified] stream_hex_number [where sp = "'' ''", simplified])
  moreover have "stream_string (istream_of ?r) = (''0'', istream_of (nl @ r))"
    using stream_word [of "'' ''" "''0''" "CHR 0x0A"] by (simp add: isspace_def)
  then have "TextCycle_Parse_loop (istream_of ?r) ?c = Inl TraceException"
    by (subst TextCycle_Parse_loop.simps) (simp only: prod.case, simp)
  ultimately show ?thesis
    unfolding TextCycle_Parse_def by (subst TextCycle_Parse_loop.simps) (simp only: prod.case, simp)
qed

text \<open>
  What is printed of a cycle is never read as one: of the first cycle it is refused, for want of a
  header, and of every other cycle it is an empty trace, for the line of its basic data has one
  number more than the reader takes.
\<close>

lemma printed_text_unread:
  assumes "TextPrinter_Print n c = Inr s"
  shows "TextTrace_new (istream_of (s @ r)) = Inl TraceException \<or>
    (\<exists>t. TextTrace_new (istream_of (s @ r)) = Inr t \<and> TextTrace_IsEnd t)"
proof -
  obtain h a x p r' where h: "PrintHeader n c = Inr h" and
    s: "s = h @ ''BASIC '' @ pad0 8 (hex (a :: u32)) @ '' '' @ hex (x :: u32) @ '' '' @ pad0 16 (hex (p :: u64)) @ '' 0'' @ nl @ r'"
    by (rule printed_start [OF assms])
  let ?b = "''BASIC '' @ pad0 8 (hex a) @ '' '' @ hex x @ '' '' @ pad0 16 (hex p) @ '' 0'' @ nl @ r' @ r"
  show ?thesis
  proof (cases "h = []")
    case True
    have "fst (stream_string (istream_of ?b)) = ''BASIC''"
      using stream_word [of "[]" "''BASIC''" "CHR '' ''"] by (simp add: isspace_def)
    then show ?thesis using True s by (auto simp: TextTrace_new_def split: prod.splits)
  next
    case False
    then obtain w where w: "h = ''XLEN  '' @ w @ nl" "w = ''32'' \<or> w = ''64''"
      using h by (auto simp: PrintHeader_def split: if_splits dest!: bindR_InrE)
    have "stream_string (istream_of (s @ r)) = (''XLEN'', istream_of (''  '' @ w @ nl @ ?b))"
      using stream_word [of "[]" "''XLEN''" "CHR '' ''"] w(1) s by (simp add: isspace_def)
    moreover have "stream_string (istream_of (''  '' @ w @ nl @ ?b)) = (w, istream_of (nl @ ?b))"
      using stream_word [of "''  ''" w "CHR 0x0A"] w(2) by (auto simp: isspace_def)
    moreover have "TextCycle_Parse (istream_of (nl @ ?b)) xlen = Inl TraceException" for xlen
      using Parse_printed [of nl] by simp
    ultimately show ?thesis
      using w(2) by (auto simp: TextTrace_new_def UpdateTextCycle_def TextTrace_IsEnd_def)
  qed
qed

end
