(* ===== verification/Rafi_Disassembly_Ok.thy ===== *)
theory Rafi_Disassembly_Ok
  imports Rafi_Disassembly Rafi_Decoder_Ok
begin

text \<open>
  The text of an operation: no register name outside of the table of names is asked for, and the text
  of every instruction fits into the buffer of the JSON printer.
\<close>

lemma print_hex_length: "n < 16 ^ Suc k \<Longrightarrow> length (print_hex n) \<le> Suc k"
proof (induction k arbitrary: n)
  case 0
  then show ?case by (simp add: print_hex.simps)
next
  case (Suc k)
  then have "n div 16 < 16 ^ Suc k" by (simp add: less_mult_imp_div_less)
  from Suc.IH [OF this] show ?case by (subst print_hex.simps) simp
qed

lemma print_nat_length: "n < 10 ^ Suc k \<Longrightarrow> length (print_nat n) \<le> Suc k"
proof (induction k arbitrary: n)
  case 0
  then show ?case by (simp add: print_nat.simps)
next
  case (Suc k)
  then have "n div 10 < 10 ^ Suc k" by (simp add: less_mult_imp_div_less)
  from Suc.IH [OF this] show ?case by (subst print_nat.simps) simp
qed

lemma hex32_length: "length (print_hex (unat v)) \<le> 8" for v :: u32
  using print_hex_length [of "unat v" 7] unsigned_less [of v] by simp

lemma name_length: "length (GetString_OpCode code) \<le> 11"
  by (cases code) (simp_all add: GetString_OpCode_def OpCodeI_string_def OpCodeM_string_def OpCodeA_string_def
    OpCodeF_string_def OpCodeD_string_def OpCodeC_string_def
    split: OpCodeI.split OpCodeM.split OpCodeA.split OpCodeF.split OpCodeD.split OpCodeC.split)

lemma csr_name_length: "length (GetString_csr a) \<le> 19"
proof -
  have "length s \<le> 19" if "map_of csr_names a = Some s" for s
  proof -
    have "list_all (\<lambda>p. length (snd p) \<le> 19) csr_names" by (simp add: csr_names_def)
    then show ?thesis using map_of_SomeD [OF that] by (auto simp: list_all_iff)
  qed
  then show ?thesis by (auto simp: GetString_csr_def GetString_csr_default_def split: option.split)
qed

lemma reg_name_length: "i < 32 \<Longrightarrow> length (IntRegNames ! i) \<le> 3"
proof -
  have "list_all (\<lambda>s. length s \<le> 3) IntRegNames" "length IntRegNames = 32" by (simp_all add: IntRegNames_def)
  then show "i < 32 \<Longrightarrow> length (IntRegNames ! i) \<le> 3" by (simp add: list_all_length)
qed

lemma print_int_length: "length (print_int i) \<le> 11"
proof -
  have "- 2147483648 \<le> sint i" "sint i < 2147483648" using sint_ge [of i] sint_lt [of i] by simp_all
  then have "nat (- sint i) < 10 ^ Suc 9" "nat (sint i) < 10 ^ Suc 9" by simp_all
  then show ?thesis using print_nat_length [of _ 9] by (fastforce simp: print_int_def)
qed

lemma reg_unat: "r < 32 \<longleftrightarrow> unat r < 32" for r :: i32
  by (simp add: word_less_nat_alt)

lemma print_reg_length: "r < 32 \<Longrightarrow> length (print_int r) \<le> 2"
proof -
  assume r: "r < 32"
  then have "uint r < 32" by (simp add: word_less_alt)
  moreover have "- 2147483648 \<le> uint r" by (rule order.trans [of _ 0]) simp_all
  ultimately have "sint r = uint r" by (simp add: sint_uint signed_take_bit_int_eq_self_iff)
  then have "\<not> r <s 0" "nat (sint r) < 10 ^ Suc 1" using r reg_unat [of r] by (simp_all add: word_sless_alt)
  then show ?thesis using print_nat_length [of "nat (sint r)" 1] by (simp add: print_int_def)
qed

lemma with_names_regs [simp]:
  "list_all (\<lambda>r. r < 32) regs \<Longrightarrow> with_names regs f = Inr (f (map (\<lambda>r. IntRegNames ! unat r) regs))"
  by (simp add: with_names_def list_all_iff reg_unat)

text \<open>The pieces of a text, and how many characters each of them takes.\<close>

lemma name_of_reg_length: "r < 32 \<Longrightarrow> length (IntRegNames ! unat r) \<le> 3" for r :: i32
  by (rule reg_name_length) (simp add: reg_unat)

lemma print_imm_length: "length (print_int (ucast (imm :: i64))) \<le> 11"
  by (rule print_int_length)

lemmas fits_intros = Suc_le_mono [THEN iffD2] add_mono print_imm_length print_reg_length name_of_reg_length
  hex32_length csr_name_length

lemma Operand_text_fits:
  "operand_in fmt operand \<Longrightarrow> length name \<le> 11 \<Longrightarrow> \<exists>s. Operand_text name operand = Inr s \<and> length s < 64"
  by (cases operand; simp add: operand_in_def; (elim conjE)?;
      (rule le_less_trans, (rule fits_intros | assumption)+, simp))

section \<open>Instructions\<close>

text \<open>
  C40: the text of every instruction fits. Of every word that the decoder is given on RV32 and RV64,
  the operation it answers has a text, which asks for no register name outside of the table, and
  \<open>SNPrintOp\<close> puts all of it into a buffer of 64 characters, the one that the JSON printer has.
\<close>

theorem disassembly_fits:
  assumes "xlen \<noteq> XLEN128"
  shows "\<exists>op s. Decode xlen insn = Inr op \<and> Operand_text (GetString_OpCode (op_opCode op)) (op_operand op) = Inr s \<and>
    SNPrintOp 64 op = Inr (s, length s)"
proof -
  obtain op where op: "Decode xlen insn = Inr op" "operand_in (format_of (op_opCode op)) (op_operand op)"
    using decoded_for_Decode [OF assms, of insn] by (auto simp: decoded_for_def decoded_def op_ok_def)
  obtain s where "Operand_text (GetString_OpCode (op_opCode op)) (op_operand op) = Inr s" "length s < 64"
    using Operand_text_fits [OF op(2) name_length] by blast
  then show ?thesis using op(1) by (simp add: SNPrintOp_def)
qed

text \<open>A \<open>csrrsi\<close> of a performance counter, one of the longest texts, and a word that is no instruction.\<close>

theorem disassembly_fits_witness:
  "(\<exists>op s. Decode XLEN64 0xb03fe2f3 = Inr op \<and> Operand_text (GetString_OpCode (op_opCode op)) (op_operand op) = Inr s \<and>
    SNPrintOp 64 op = Inr (s, length s)) \<and>
   (\<exists>op s. Decode XLEN32 0xffffffff = Inr op \<and> Operand_text (GetString_OpCode (op_opCode op)) (op_operand op) = Inr s \<and>
    SNPrintOp 64 op = Inr (s, length s))"
  using disassembly_fits [of XLEN64 "0xb03fe2f3"] disassembly_fits [of XLEN32 "0xffffffff"] by simp

end
