(* ===== verification/Rafi_Main.thy ===== *)
theory Rafi_Main
  imports Rafi_Gdb Rafi_TraceTools Rafi_TraceLogger
begin

text \<open>
  The program itself: \<^verbatim>\<open>src/rafi-emu/CommandLineOption.cpp\<close> and \<^verbatim>\<open>src/rafi-emu/Main.cpp\<close>, and the loop
  of the debugger's server over its clients. Boost parses the command line: what it answers is an
  argument, the record \<open>variables\<close> having the options that the source describes to it.
\<close>

section \<open>How the program ends\<close>

text \<open>
  It exits, is ended by an exception that is not caught (of the emulator or of Boost), returns from
  \<open>main\<close>, leaving a machine and files, or hands the machine and its logger to the debugger's server.
\<close>

datatype main_end = Exit i32 | Uncaught failure | Uncaught_boost | Return Emulator files
  | Serve Emulator TraceLogger

type_synonym 'a main_result = "main_end + 'a"

section \<open>The command line\<close>

text \<open>The variables behind \<open>po::notify\<close>; those with a default always have a value.\<close>

record variables =
  var_cycle :: i32
  var_dump_path :: "string option"
  var_dump_skip_cycle :: i32
  var_enable_dump_csr :: bool
  var_enable_dump_fp_reg :: bool
  var_enable_dump_memory :: bool
  var_gdb :: "i32 option"
  var_load :: "string list option"
  var_help :: bool
  var_host_io_addr :: "string option"
  var_dtb_addr :: "string option"
  var_pc :: "string option"
  var_ram_size :: u64
  var_xlen :: "i32 option"

text \<open>\<open>strtoull\<close> in base 16.\<close>

definition strtoull16 :: "string \<Rightarrow> u64" where
  "strtoull16 str = (let s = dropWhile isspace str;
       n = xdigits_value 0 (takeWhile isxdigit (hex_start s)) in
     if s = [] then 0
     else if 2 ^ 64 \<le> n then - 1
     else if hd s = CHR ''-'' then - of_nat n else of_nat n)"

record LoadOption =
  lo_m_Path :: string
  lo_m_Address :: u64

text \<open>\<open>None\<close> is the \<open>CommandLineOptionException\<close>; \<open>strtoull\<close> throws nothing.\<close>

definition LoadOption_new :: "string \<Rightarrow> LoadOption option" where
  "LoadOption_new arg =
    (if CHR '':'' \<notin> set arg then None
     else let path = takeWhile (\<lambda>c. c \<noteq> CHR '':'') arg;
         address = strtoull16 (drop (length path + 1) arg) in
       if address = 0 then None else Some \<lparr>lo_m_Path = path, lo_m_Address = address\<rparr>)"

record CommandLineOption =
  clo_m_TraceLoggerConfig :: TraceLoggerConfig
  clo_m_LoadOptions :: "LoadOption list"
  clo_m_XLEN :: XLEN
  clo_m_Cycle :: i32
  clo_m_DumpSkipCycle :: i32
  clo_m_GdbPort :: i32
  clo_m_RamSize :: u64
  clo_m_DtbAddress :: u64
  clo_m_HostIoAddress :: u64
  clo_m_Pc :: u64
  clo_m_GdbEnabled :: bool
  clo_m_HostIoEnabled :: bool

text \<open>
  The configuration of the logger has no values before it is written: without \<open>dump-path\<close> all but
  \<open>enabled\<close> and the path are what \<open>anyConfig\<close> has. No option has the name \<open>enable-memory-csr\<close>, by which
  \<open>enableDumpCsr\<close> is set last.
\<close>

definition trace_config :: "TraceLoggerConfig \<Rightarrow> variables \<Rightarrow> TraceLoggerConfig" where
  "trace_config anyConfig v = (case var_dump_path v of
     None \<Rightarrow> anyConfig\<lparr>tlc_enabled := False, tlc_path := []\<rparr>
   | Some path \<Rightarrow> \<lparr>tlc_enabled = True, tlc_enableDumpCsr = False,
       tlc_enableDumpFpReg = var_enable_dump_fp_reg v, tlc_enableDumpIntReg = True,
       tlc_enableDumpMemory = False, tlc_enableDumpHostIo = (var_host_io_addr v \<noteq> None), tlc_path = path\<rparr>)"

definition hex_option :: "string option \<Rightarrow> u64" where
  "hex_option str = (case str of None \<Rightarrow> 0 | Some s \<Rightarrow> strtoull16 s)"

text \<open>Without \<open>load\<close>, the value of the option is asked for all the same.\<close>

definition CommandLineOption_new :: "TraceLoggerConfig \<Rightarrow> variables boost_parse \<Rightarrow> CommandLineOption main_result" where
  "CommandLineOption_new anyConfig vars = (case vars of
     Other_error \<Rightarrow> Inl Uncaught_boost
   | Error_with_option_name \<Rightarrow> Inl (Exit 1)
   | Parsed v \<Rightarrow>
       if var_help v then Inl (Exit 0)
       else (case var_load v of
         None \<Rightarrow> Inl Uncaught_boost
       | Some strs \<Rightarrow> (case those (map LoadOption_new strs) of
           None \<Rightarrow> Inl (Exit 1)
         | Some loads \<Rightarrow>
             let option = (\<lambda>xlen. \<lparr>clo_m_TraceLoggerConfig = trace_config anyConfig v, clo_m_LoadOptions = loads,
               clo_m_XLEN = xlen, clo_m_Cycle = var_cycle v, clo_m_DumpSkipCycle = var_dump_skip_cycle v,
               clo_m_GdbPort = (case var_gdb v of None \<Rightarrow> 0 | Some port \<Rightarrow> port), clo_m_RamSize = var_ram_size v,
               clo_m_DtbAddress = hex_option (var_dtb_addr v), clo_m_HostIoAddress = hex_option (var_host_io_addr v),
               clo_m_Pc = hex_option (var_pc v), clo_m_GdbEnabled = (var_gdb v \<noteq> None),
               clo_m_HostIoEnabled = (var_host_io_addr v \<noteq> None)\<rparr>) in
             (case var_xlen v of
               None \<Rightarrow> Inr (option XLEN32)
             | Some n \<Rightarrow> if n = 32 then Inr (option XLEN32) else if n = 64 then Inr (option XLEN64)
                 else Inl (Exit 0)))))"

section \<open>The emulator of the options\<close>

text \<open>The constructor of \<open>Emulator\<close>: the system, the logger, the addresses.\<close>

definition Emulator_of_option ::
  "InterruptType \<Rightarrow> TrapEvent \<Rightarrow> OpEvent \<Rightarrow> files \<Rightarrow> CommandLineOption \<Rightarrow> (Emulator \<times> TraceLogger) result" where
  "Emulator_of_option anyInterrupt anyTrapEvent anyOpEvent fs opt =
    (case System_new (clo_m_XLEN opt) (clo_m_Pc opt) (clo_m_RamSize opt) anyInterrupt anyTrapEvent anyOpEvent of
       Inl f \<Rightarrow> Inl f
     | Inr system \<Rightarrow> map_sum id (\<lambda>e. (e, TraceLogger_new (clo_m_XLEN opt) (clo_m_TraceLoggerConfig opt) fs))
         (Emulator_new system (if clo_m_HostIoEnabled opt then Some (clo_m_HostIoAddress opt) else None)
           (clo_m_DtbAddress opt)))"

primrec load_files :: "files \<Rightarrow> LoadOption list \<Rightarrow> unit emu_act" where
  "load_files fs [] = returnM ()"
| "load_files fs (l # ls) = bindM (Emulator_LoadFileToMemory (fs (lo_m_Path l)) (ucast (lo_m_Address l))) (\<lambda>_.
     load_files fs ls)"

text \<open>The files while the logger is writing.\<close>

definition files_of_logger :: "files \<Rightarrow> TraceLogger \<Rightarrow> files" where
  "files_of_logger fs l = (case tl_m_pTraceWriter l of None \<Rightarrow> fs | Some w \<Rightarrow> tiw_files w)"

section \<open>\<open>main\<close>\<close>

text \<open>Up to the machine that is to be run; what the loads throw is not what is caught around them.\<close>

definition main_start ::
  "InterruptType \<Rightarrow> TrapEvent \<Rightarrow> OpEvent \<Rightarrow> files \<Rightarrow> CommandLineOption \<Rightarrow> (Emulator \<times> TraceLogger) main_result" where
  "main_start anyInterrupt anyTrapEvent anyOpEvent fs opt =
    (case Emulator_of_option anyInterrupt anyTrapEvent anyOpEvent fs opt of
       Inl f \<Rightarrow> Inl (Uncaught f)
     | Inr (e, l) \<Rightarrow> (case load_files (files_of_logger fs l) (clo_m_LoadOptions opt) e of
         Inl f \<Rightarrow> Inl (if f = FileOpenFailure then Exit 1 else Uncaught f)
       | Inr (_, e') \<Rightarrow> Inr (e', l)))"

definition main_condition :: "CommandLineOption \<Rightarrow> i32" where
  "main_condition opt = (if clo_m_HostIoEnabled opt then EmulationStop_HostIo else EmulationStop_None)"

text \<open>
  The whole; \<open>None\<close> is a run that does not end. The destructor of the emulator deletes the logger
  when \<open>main\<close> returns. The loop does not see the option \<open>dump-skip-cycle\<close>, but what the dangling
  \<open>m_Option\<close> of the emulator yields: \<open>dangling k\<close> when the counter is \<open>k\<close>.
\<close>

definition emulator_main ::
  "Libraries \<Rightarrow> (i32 \<Rightarrow> i32) \<Rightarrow> TraceLoggerConfig \<Rightarrow> InterruptType \<Rightarrow> TrapEvent \<Rightarrow> OpEvent \<Rightarrow> files \<Rightarrow> variables boost_parse \<Rightarrow>
   main_end option" where
  "emulator_main libs dangling anyConfig anyInterrupt anyTrapEvent anyOpEvent fs vars =
    (case CommandLineOption_new anyConfig vars of
       Inl x \<Rightarrow> Some x
     | Inr opt \<Rightarrow> (case main_start anyInterrupt anyTrapEvent anyOpEvent fs opt of
         Inl x \<Rightarrow> Some x
       | Inr (e, l) \<Rightarrow> map_option (\<lambda>r. case r of
             Inl f \<Rightarrow> if f = EmuException then Exit 1 else Uncaught f
           | Inr (e', l') \<Rightarrow> if clo_m_GdbEnabled opt then Serve e' l' else Return e' (TraceLogger_delete l' fs))
           (Emulator_ProcessTraced libs dangling (main_condition opt) (clo_m_Cycle opt) e l)))"

section \<open>The debugger's server\<close>

text \<open>
  \<open>Process\<close> over the clients that \<open>accept\<close> answers until it fails, each with the text that it sends:
  what is sent to each of them, and the state of the server. The trace of the cycles that the
  debugger runs is left out.
\<close>

primrec GdbServer_Process ::
  "Libraries \<Rightarrow> XLEN \<Rightarrow> string list \<Rightarrow> GdbState \<Rightarrow> ((string list \<times> GdbState) result) option" where
  "GdbServer_Process libs xlen [] g = Some (Inr ([], g))"
| "GdbServer_Process libs xlen (client # clients) g = (case ProcessSession libs xlen client g of
     None \<Rightarrow> None
   | Some (Inl f) \<Rightarrow> Some (Inl f)
   | Some (Inr (out, g')) \<Rightarrow> map_option (map_sum id (map_prod (\<lambda>outs. out # outs) id))
       (GdbServer_Process libs xlen clients g'))"

end
