(* ===== verification/Rafi_Main_Ok.thy ===== *)
theory Rafi_Main_Ok
  imports Rafi_Main Rafi_TraceTools_Ok Rafi_Gdb_Ok
begin

text \<open>
  The program from its command line to the machine it leaves: the machine that \<open>main\<close> builds from
  the options and the files, and what \<open>main\<close> reports of its run.
\<close>

section \<open>The machine that is built\<close>

text \<open>The files that are loaded can be opened and fit into the RAM.\<close>

definition loadable :: "u64 \<Rightarrow> files \<Rightarrow> LoadOption list \<Rightarrow> bool" where
  "loadable ramSize fs loads \<longleftrightarrow> list_all (\<lambda>l. case fs (lo_m_Path l) of
     None \<Rightarrow> False | Some bs \<Rightarrow> in_ram ramSize (lo_m_Address l) (length bs)) loads"

text \<open>The memory of the abstract machine: zeros, and the files in the order of their options.\<close>

primrec load_memory :: "files \<Rightarrow> LoadOption list \<Rightarrow> mem \<Rightarrow> mem" where
  "load_memory fs [] mem = mem"
| "load_memory fs (l # ls) mem = load_memory fs ls (mem_write (the (fs (lo_m_Path l))) (lo_m_Address l) mem)"

definition first_machine :: "files \<Rightarrow> CommandLineOption \<Rightarrow> misa" where
  "first_machine fs opt = \<lparr>misa_core = \<lparr>isa_pc = clo_m_Pc opt,
       isa_x = (\<lambda>_. 0)(11 := ucast (ucast (clo_m_DtbAddress opt) :: u32))\<rparr>,
     misa_mem = load_memory fs (clo_m_LoadOptions opt)
       (\<lambda>a. if in_ram (clo_m_RamSize opt) a 1 then Some 0 else None)\<rparr>"

lemma in_ram_inside:
  assumes "in_ram ramSize a n" "unat (b - a) < n"
  shows "in_ram ramSize b 1"
proof -
  have "unat a + unat (b - a) < 2 ^ 64" using assms in_ram_arith(1) [OF assms(1)] by (simp add: in_ram_def)
  then have "unat (a + (b - a)) = unat a + unat (b - a)" using unat_add_lem [of a "b - a"] by simp
  then have "unat b = unat a + unat (b - a)" by simp
  then show ?thesis using assms by (simp add: in_ram_def)
qed

lemma memory_load:
  assumes "in_ram ramSize a (length bs)"
  shows "memory_of ramSize (put_ram bs a s) = mem_write bs a (memory_of ramSize s)"
proof
  fix b
  have "ram_offset b - ram_offset a = b - a" by (simp add: ram_offset_def)
  then show "memory_of ramSize (put_ram bs a s) b = mem_write bs a (memory_of ramSize s) b"
    using in_ram_inside [OF assms] by (auto simp: memory_of_def mem_write_def put_ram_def body_write_def)
qed

lemma LoadFile_ram:
  assumes "wired ramSize s" "in_ram ramSize a (length bs)"
  shows "System_LoadFileToMemory (Some bs) a s = Inr ((), put_ram bs a s)"
proof -
  note ar = in_ram_arith [OF assms(2)] and decode = ram_decode [OF assms(2)]
  have "unat (ramSize - ram_offset a) = unat ramSize - unat (ram_offset a)"
    using ar(2) by (simp add: unat_sub word_le_nat_alt)
  then have "take (unat (ramSize - ram_offset a)) bs = bs" using ar(2) by simp
  moreover have "\<not> ramSize < ram_offset a" using ar(2) by (simp add: word_less_nat_alt)
  moreover have "\<not> ((ucast (ram_offset a) :: i32) <s 0)"
  proof -
    have "\<not> bit (unat (ram_offset a)) 31" using ar(3) by (simp add: bit_iff_odd)
    then show ?thesis by (simp add: word_sless_alt sint_uint signed_take_bit_eq bit_simps)
  qed
  ultimately show ?thesis
    using assms(1) decode
    by (simp add: System_LoadFileToMemory_def wired_def bindM_def queryM_def memory_LoadFile_def zoomM_def updateM_def
        Ram_LoadFile_def load_body_def put_ram_def Ram_GetCapacity_def)
qed

lemma loads_ram:
  assumes "loadable ramSize fs ls" "sys_inv XLEN64 ramSize (emu_m_System e)" "quiet_data (emu_m_System e)"
  shows "\<exists>s. load_files fs ls e = Inr ((), e\<lparr>emu_m_System := s\<rparr>) \<and> sys_inv XLEN64 ramSize s \<and> quiet_data s \<and>
    isa_of s = isa_of (emu_m_System e) \<and> sys_m_HostIoAddress s = sys_m_HostIoAddress (emu_m_System e) \<and>
    memory_of ramSize s = load_memory fs ls (memory_of ramSize (emu_m_System e)) \<and>
    (\<forall>libs pc. reachable libs XLEN64 pc ramSize (emu_m_System e) \<longrightarrow> reachable libs XLEN64 pc ramSize s)"
  using assms
proof (induction ls arbitrary: e)
  case (Cons l ls)
  let ?s = "emu_m_System e"
  obtain bs where bs: "fs (lo_m_Path l) = Some bs" "in_ram ramSize (lo_m_Address l) (length bs)" "loadable ramSize fs ls"
    using Cons.prems(1) by (auto simp: loadable_def split: option.splits)
  let ?t = "put_ram bs (lo_m_Address l) ?s"
  have load: "System_LoadFileToMemory (Some bs) (lo_m_Address l) ?s = Inr ((), ?t)"
    by (rule LoadFile_ram [OF sys_inv_wired [OF Cons.prems(2)] bs(2)])
  have t: "sys_inv XLEN64 ramSize ?t" "quiet_data ?t" "isa_of ?t = isa_of ?s"
      "sys_m_HostIoAddress ?t = sys_m_HostIoAddress ?s"
    using Cons.prems(2,3) sys_inv_put_ram [of XLEN64 ramSize bs "lo_m_Address l" ?s]
    by (simp_all add: quiet_data_def quiet_def isa_of_def put_ram_def) (simp add: xreg_def fun_eq_iff)
  have "reachable libs XLEN64 pc ramSize ?s \<Longrightarrow> reachable libs XLEN64 pc ramSize ?t" for libs pc
    by (rule reachable.load_file [OF _ load])
  moreover have "load_files fs (l # ls) e = load_files fs ls (e\<lparr>emu_m_System := ?t\<rparr>)"
    using bs(1) load by (simp add: Emulator_LoadFileToMemory_def bindM_def zoomM_def)
  ultimately show ?case
    using Cons.IH [OF bs(3), of "e\<lparr>emu_m_System := ?t\<rparr>"] t bs(1) memory_load [OF bs(2), of ?s] by fastforce
qed (auto simp: returnM_def intro!: exI [of _ "emu_m_System e" for e])

text \<open>The machine of the constructor, on any values of what it leaves uninitialised.\<close>

lemma System_start:
  assumes "System_new XLEN64 pc ramSize i t o' = Inr s"
  shows "quiet_data s" "isa_of s = \<lparr>isa_pc = pc, isa_x = (\<lambda>_. 0)\<rparr>"
    "memory_of ramSize s = (\<lambda>a. if in_ram ramSize a 1 then Some 0 else None)"
  using assms by (auto simp: quiet_data_def quiet_def isa_of_def memory_of_def xreg_def System_new_def Processor_new_def
      Csr_new_def Csr_init_ISA_def Let_def IntRegFile_new_def IntRegCount_def reg_small fun_eq_iff Ram_new_def)

lemma System_new_64: "\<exists>s. System_new XLEN64 pc ramSize i t o' = Inr s"
  by (simp add: System_new_def Processor_new_def Csr_new_def Csr_init_ISA_def Let_def)

lemma SetDtb:
  assumes "sys_inv XLEN64 ramSize s" "quiet_data s" "isa_of s = \<lparr>isa_pc = pc, isa_x = (\<lambda>_. 0)\<rparr>"
  shows "\<exists>t. System_SetDtbAddress a s = Inr ((), t) \<and> quiet_data t \<and> memory_of ramSize t = memory_of ramSize s \<and>
    isa_of t = \<lparr>isa_pc = pc, isa_x = (\<lambda>_. 0)(11 := ucast (ucast a :: u32))\<rparr> \<and>
    sys_m_HostIoAddress t = sys_m_HostIoAddress s"
proof -
  let ?es = "intreg_m_Entries (sys_intreg s)"
  let ?v = "ucast (ucast a :: u32) :: u64"
  have wf: "intreg_wf (sys_intreg s)" using assms(1) by (simp add: sys_inv_def)
  have zero: "?es ! unat r = 0" for r :: reg
    using assms(3) by (simp add: isa_of_def xreg_def fun_eq_iff)
  have "IntRegFile_WriteUInt32 11 (ucast a) (sys_intreg s) = Inr ((sys_intreg s)\<lparr>intreg_m_Entries := ?es[11 := ?v]\<rparr>)"
    using IntRegFile_update_ok [OF _ wf, of 11 "entry_set_low (ucast a)"] zero [of 11]
    by (simp add: IntRegFile_WriteUInt32_def entry_set_low_def)
  moreover obtain t where t_def: "t = update_processor (cpu_m_IntRegFile_update (\<lambda>_. (sys_intreg s)\<lparr>intreg_m_Entries := ?es[11 := ?v]\<rparr>)) s" by blast
  ultimately have "System_SetDtbAddress a s = Inr ((), t)"
    by (simp add: System_SetDtbAddress_def Processor_SetIntReg_def on_IntRegFile_def zoomM_def updateM_def)
  moreover have "xreg t r = ((\<lambda>_. 0)(11 := ?v)) r" for r
    using wf zero [of r]
    by (auto simp: t_def xreg_def intreg_wf_def nth_list_update word_unat_eq_iff)
  ultimately show ?thesis
    using assms(2,3) by (intro exI [of _ t]) (simp add: t_def quiet_data_def quiet_def isa_of_def memory_of_def fun_eq_iff)
qed

lemma SetHostIo:
  "sys_inv x n (System_SetHostIoAddress a s) = sys_inv x n s"
  "quiet_data (System_SetHostIoAddress a s) = quiet_data s"
  "isa_of (System_SetHostIoAddress a s) = isa_of s"
  "memory_of n (System_SetHostIoAddress a s) = memory_of n s"
  by (simp_all add: System_SetHostIoAddress_def sys_inv_def quiet_data_def quiet_def isa_of_def memory_of_def)
    (simp_all add: xreg_def fun_eq_iff)

text \<open>The machine before its first cycle, with 64 bits, and its logger.\<close>

lemma main_start_64:
  assumes "clo_m_XLEN opt = XLEN64" "loadable (clo_m_RamSize opt) fs' (clo_m_LoadOptions opt)"
    and "fs' = files_of_logger fs (TraceLogger_new XLEN64 (clo_m_TraceLoggerConfig opt) fs)"
  shows "\<exists>e. main_start i t o' fs opt = Inr (e, TraceLogger_new XLEN64 (clo_m_TraceLoggerConfig opt) fs) \<and>
    sys_inv XLEN64 (clo_m_RamSize opt) (emu_m_System e) \<and> quiet_data (emu_m_System e) \<and> emu_m_Cycle e = 0 \<and>
    misa_of (clo_m_RamSize opt) (emu_m_System e) = first_machine fs' opt \<and>
    (clo_m_HostIoEnabled opt \<longrightarrow> sys_m_HostIoAddress (emu_m_System e) = ucast (clo_m_HostIoAddress opt))"
proof -
  let ?n = "clo_m_RamSize opt" and ?pc = "clo_m_Pc opt" and ?l = "TraceLogger_new XLEN64 (clo_m_TraceLoggerConfig opt) fs"
  obtain s where s: "System_new XLEN64 ?pc ?n i t o' = Inr s" using System_new_64 by blast
  let ?u = "if clo_m_HostIoEnabled opt then System_SetHostIoAddress (clo_m_HostIoAddress opt) s else s"
  have u: "sys_inv XLEN64 ?n ?u" "quiet_data ?u" "isa_of ?u = \<lparr>isa_pc = ?pc, isa_x = (\<lambda>_. 0)\<rparr>"
      "memory_of ?n ?u = (\<lambda>a. if in_ram ?n a 1 then Some 0 else None)"
    using System_new_inv [OF s] System_start [OF s]
    by (simp_all add: SetHostIo)
  obtain v where v: "System_SetDtbAddress (clo_m_DtbAddress opt) ?u = Inr ((), v)" "quiet_data v"
      "memory_of ?n v = memory_of ?n ?u" "sys_m_HostIoAddress v = sys_m_HostIoAddress ?u"
      "isa_of v = \<lparr>isa_pc = ?pc, isa_x = (\<lambda>_. 0)(11 := ucast (ucast (clo_m_DtbAddress opt) :: u32))\<rparr>"
    using SetDtb [OF u(1-3), of "clo_m_DtbAddress opt"] by blast
  let ?e = "\<lparr>emu_m_System = v, emu_m_Cycle = 0\<rparr>"
  have "Emulator_of_option i t o' fs opt = Inr (?e, ?l)"
    using s v(1) assms(1) by (simp add: Emulator_of_option_def Emulator_new_def Let_def split: if_splits)
  moreover have "sys_inv XLEN64 ?n (emu_m_System ?e)" using preservesD [OF preserves_owner(2) u(1)] v(1) by simp
  moreover note loads_ram [OF assms(2), of ?e]
  ultimately show ?thesis
    using v(2-5) u(4) by (auto simp: main_start_def assms(3) misa_of_def first_machine_def System_SetHostIoAddress_def)
qed

section \<open>What the program reports\<close>

text \<open>
  C1: the program runs programs. With 64 bits, a host address, no bound on the cycles, no trace and no
  debugger, on files that fit into the RAM: when the abstract machine, starting at the program counter
  of the options with zero registers (but the address of the device tree) and the contents of the files
  in its memory, runs \<open>n\<close> instructions until it writes \<open>v\<close> to the host port, \<open>main\<close> returns, and leaves
  exactly the machine of the abstract run with \<open>v\<close> in its port, after \<open>n\<close> cycles, and no file changed,
  whatever the dangling reads of \<open>dump-skip-cycle\<close> yield.
\<close>

theorem main_reports_program:
  assumes "CommandLineOption_new anyConfig vars = Inr opt" "clo_m_XLEN opt = XLEN64"
    and "clo_m_HostIoEnabled opt" "clo_m_Cycle opt = CycleForever" "\<not> clo_m_GdbEnabled opt"
    and "\<not> tlc_enabled (clo_m_TraceLoggerConfig opt)" "loadable (clo_m_RamSize opt) fs (clo_m_LoadOptions opt)"
    and "a = ucast (ucast (clo_m_HostIoAddress opt) :: u32)" "multiplies libs"
    and "mrun (\<lambda>m. port_value a m = Some 0) (first_machine fs opt) n m" "port_value a m = Some v" "v \<noteq> 0" "n < 2 ^ 31"
  shows "\<exists>e. emulator_main libs dangling anyConfig i t o' fs vars = Some (Return e fs) \<and>
    misa_of (clo_m_RamSize opt) (emu_m_System e) = m \<and> emu_m_Cycle e = of_nat n \<and>
    System_GetHostIoValue (emu_m_System e) = Inr v"
proof -
  let ?l = "TraceLogger_new XLEN64 (clo_m_TraceLoggerConfig opt) fs"
  obtain e where e: "main_start i t o' fs opt = Inr (e, ?l)" "sys_inv XLEN64 (clo_m_RamSize opt) (emu_m_System e)"
      "quiet_data (emu_m_System e)" "emu_m_Cycle e = 0" "misa_of (clo_m_RamSize opt) (emu_m_System e) = first_machine fs opt"
      "sys_m_HostIoAddress (emu_m_System e) = ucast (clo_m_HostIoAddress opt)"
    using main_start_64 [OF assms(2,7), of fs i t o'] assms(3,6) by (auto simp: files_of_logger_def TraceLogger_new_def)
  obtain e' where e': "Emulator_Process libs EmulationStop_HostIo CycleForever e = Some (Inr e')"
      "misa_of (clo_m_RamSize opt) (emu_m_System e') = m" "emu_m_Cycle e' = of_nat n"
      "System_GetHostIoValue (emu_m_System e') = Inr v"
    using Process_reports [OF e(2,3) assms(9) _ _ assms(11,12) e(4) assms(13)] assms(8,10) e(5,6) by auto
  have "Emulator_ProcessTraced libs dangling EmulationStop_HostIo CycleForever e ?l = Some (Inr (e', ?l))"
    using e'(1) assms(6) by (subst traced_disabled) (simp_all add: TraceLogger_new_def)
  then show ?thesis
    using assms(1,3-6) e(1) e'(2-4)
    by (simp add: emulator_main_def main_condition_def TraceLogger_delete_def TraceLogger_new_def)
qed

lemma loads_reachable:
  assumes "load_files fs ls e = Inr ((), e')" "reachable libs xlen pc ramSize (emu_m_System e)"
  shows "reachable libs xlen pc ramSize (emu_m_System e') \<and> emu_m_Cycle e' = emu_m_Cycle e"
  using assms
proof (induction ls arbitrary: e)
  case (Cons l ls)
  then obtain s where "System_LoadFileToMemory (fs (lo_m_Path l)) (ucast (lo_m_Address l)) (emu_m_System e) = Inr ((), s)"
      "load_files fs ls (e\<lparr>emu_m_System := s\<rparr>) = Inr ((), e')"
    by (auto simp: bindM_eq_Inr Emulator_LoadFileToMemory_def zoomM_eq_Inr)
  then show ?case using Cons.IH [of "e\<lparr>emu_m_System := s\<rparr>"] reachable.load_file Cons.prems(2) by fastforce
qed (simp add: returnM_def)

text \<open>The machine that is run is one that the constructor and its owner can build.\<close>

lemma main_start_reachable:
  assumes "main_start i t o' fs opt = Inr (e, l)"
  shows "reachable libs (clo_m_XLEN opt) (clo_m_Pc opt) (clo_m_RamSize opt) (emu_m_System e)" "emu_m_Cycle e = 0"
    "l = TraceLogger_new (clo_m_XLEN opt) (clo_m_TraceLoggerConfig opt) fs"
proof -
  let ?reach = "reachable libs (clo_m_XLEN opt) (clo_m_Pc opt) (clo_m_RamSize opt)"
  obtain e0 where e0: "Emulator_of_option i t o' fs opt = Inr (e0, l)"
      "load_files (files_of_logger fs l) (clo_m_LoadOptions opt) e0 = Inr ((), e)"
    using assms by (auto simp: main_start_def split: sum.splits prod.splits)
  obtain s where s: "System_new (clo_m_XLEN opt) (clo_m_Pc opt) (clo_m_RamSize opt) i t o' = Inr s"
      "Emulator_new s (if clo_m_HostIoEnabled opt then Some (clo_m_HostIoAddress opt) else None) (clo_m_DtbAddress opt) = Inr e0"
      "l = TraceLogger_new (clo_m_XLEN opt) (clo_m_TraceLoggerConfig opt) fs"
    using e0(1) by (auto simp: Emulator_of_option_def map_sum_eq_Inr split: sum.splits)
  have "?reach s" by (rule reachable.start [OF s(1)])
  then have "?reach (emu_m_System e0) \<and> emu_m_Cycle e0 = 0"
    using s(2) by (auto simp: Emulator_new_def Let_def map_sum_eq_Inr split: if_splits
        intro: reachable.set_dtb reachable.set_host_io)
  then show "?reach (emu_m_System e)" "emu_m_Cycle e = 0" "l = TraceLogger_new (clo_m_XLEN opt) (clo_m_TraceLoggerConfig opt) fs"
    using loads_reachable [OF e0(2)] s(3) by auto
qed

lemma option_config:
  assumes "CommandLineOption_new anyConfig vars = Inr opt" "tlc_enabled (clo_m_TraceLoggerConfig opt)"
  shows "tlc_enableDumpHostIo (clo_m_TraceLoggerConfig opt) = clo_m_HostIoEnabled opt"
  using assms by (auto simp: CommandLineOption_new_def trace_config_def Let_def split: boost_parse.splits option.splits if_splits)

text \<open>The logger does not keep a run from ending.\<close>

lemma traced_returns:
  fixes e :: Emulator
  assumes "Emulator_Process libs condition cycle e = Some r"
  shows "\<exists>r. Emulator_ProcessTraced libs skip condition cycle e l = Some r"
  using assms
proof (induction "nat (2 ^ 31 - 1 - sint (emu_m_Cycle e))" arbitrary: e l rule: less_induct)
  case less
  note unf = Emulator_ProcessTraced.simps [of libs skip condition cycle e l]
  show ?case
  proof (rule Process_turn [of cycle e libs condition])
    fix t
    assume go: "in_bound cycle (emu_m_Cycle e)" "System_ProcessCycle libs (emu_m_System e) = Inr ((), t)"
      "continues condition (emu_m_System e) t" "emu_m_Cycle e \<noteq> 0x7fffffff"
    let ?e = "e\<lparr>emu_m_System := t, emu_m_Cycle := emu_m_Cycle e + 1\<rparr>"
    have "Emulator_Process libs condition cycle ?e = Some r"
      using less.prems Process_step [OF go] by simp
    then have "\<exists>r. Emulator_ProcessTraced libs skip condition cycle ?e l' = Some r" for l'
      using less.hyps [of ?e] run_left [OF go(4)] by simp
    then show ?thesis
      using go unfolding unf by (auto simp: Let_def split: sum.split)
  next
    fix f
    assume "in_bound cycle (emu_m_Cycle e)" "\<not> undisturbed libs condition 1 (emu_m_System e)"
    then show ?thesis
      unfolding unf by (auto simp: Let_def continues_def split: sum.split)
  next
    assume "in_bound cycle (emu_m_Cycle e)" "IsStopConditionFilledPre condition (emu_m_System e) = Inr True"
    then show ?thesis unfolding unf by (auto simp: Let_def split: sum.split)
  next
    fix t
    assume "in_bound cycle (emu_m_Cycle e)" "System_ProcessCycle libs (emu_m_System e) = Inr ((), t)"
      "IsStopConditionFilledPre condition (emu_m_System e) = Inr False" "IsStopConditionFilledPost condition t"
    then show ?thesis unfolding unf by (auto simp: Let_def split: sum.split)
  qed (use less.prems in \<open>simp_all add: unf in_bound_def\<close>)
qed

text \<open>A program that returns has run the machine it started.\<close>

lemma main_run:
  assumes "CommandLineOption_new anyConfig vars = Inr opt"
    and "emulator_main libs dangling anyConfig i t o' fs vars = Some (Return e fs')"
  obtains e0 l0 l where "main_start i t o' fs opt = Inr (e0, l0)" "fs' = TraceLogger_delete l fs"
    "Emulator_ProcessTraced libs dangling (main_condition opt) (clo_m_Cycle opt) e0 l0 = Some (Inr (e, l))"
proof (cases "main_start i t o' fs opt")
  case (Inl x)
  then have "x \<noteq> Return e fs'" by (auto simp: main_start_def split: sum.splits if_splits)
  with Inl show ?thesis using assms by (simp add: emulator_main_def)
next
  case (Inr r)
  then obtain z where "Emulator_ProcessTraced libs dangling (main_condition opt) (clo_m_Cycle opt) (fst r) (snd r) = Some z"
    using assms by (cases r) (auto simp: emulator_main_def)
  with Inr show ?thesis
    using assms that by (cases r; cases z) (auto simp: emulator_main_def split: if_splits)
qed

text \<open>The program has a machine to run, no bound on its cycles, and nothing stops a cycle of it.\<close>

definition runs_on ::
  "Libraries \<Rightarrow> TraceLoggerConfig \<Rightarrow> InterruptType \<Rightarrow> TrapEvent \<Rightarrow> OpEvent \<Rightarrow> files \<Rightarrow> variables boost_parse \<Rightarrow> bool" where
  "runs_on libs anyConfig i t o' fs vars \<longleftrightarrow> (\<exists>opt e l. CommandLineOption_new anyConfig vars = Inr opt \<and>
     main_start i t o' fs opt = Inr (e, l) \<and> clo_m_Cycle opt = CycleForever \<and>
     (\<forall>n < 2 ^ 31. undisturbed libs (main_condition opt) (Suc n) (emu_m_System e)))"

text \<open>
  C19: when the program ends. On every command line and all contents of the files, and whatever the
  dangling reads yield, \<open>main\<close> exits, is ended by an exception, returns, or hands over to the
  debugger's server, unless the command line is accepted, the machine is built and loaded, no bound on
  the cycles is given, and none of the cycles that the counter can number fails or meets the stop
  condition. In that case, without a trace, it does none of these.
\<close>

theorem main_returns:
  "(\<not> runs_on libs anyConfig i t o' fs vars \<longrightarrow> (\<exists>x. emulator_main libs dangling anyConfig i t o' fs vars = Some x)) \<and>
   (runs_on libs anyConfig i t o' fs vars \<and>
     (\<forall>opt. CommandLineOption_new anyConfig vars = Inr opt \<longrightarrow> \<not> tlc_enabled (clo_m_TraceLoggerConfig opt)) \<longrightarrow>
     emulator_main libs dangling anyConfig i t o' fs vars = None)"
proof (cases "\<exists>opt e l. CommandLineOption_new anyConfig vars = Inr opt \<and> main_start i t o' fs opt = Inr (e, l)")
  case False
  then have "\<exists>x. emulator_main libs dangling anyConfig i t o' fs vars = Some x"
    by (auto simp: emulator_main_def split: sum.split)
  then show ?thesis using False by (auto simp: runs_on_def)
next
  case True
  then obtain opt e l where start: "CommandLineOption_new anyConfig vars = Inr opt" "main_start i t o' fs opt = Inr (e, l)"
    by blast
  let ?run = "Emulator_Process libs (main_condition opt) (clo_m_Cycle opt) e"
  note at = main_start_reachable(2,3) [OF start(2)]
  have "turns_left e = 2 ^ 31" using at(1) by (simp add: turns_left_def)
  then have ends: "(\<exists>r. ?run = Some r) \<longleftrightarrow> \<not> runs_on libs anyConfig i t o' fs vars"
    using Process_has_result [of libs "main_condition opt" "clo_m_Cycle opt" e] start by (auto simp: runs_on_def)
  have "\<exists>x. emulator_main libs dangling anyConfig i t o' fs vars = Some x" if "?run = Some r" for r
    using traced_returns [OF that, of dangling l] start by (auto simp: emulator_main_def)
  moreover have "emulator_main libs dangling anyConfig i t o' fs vars = None"
    if "?run = None" "\<not> tlc_enabled (clo_m_TraceLoggerConfig opt)"
    using traced_disabled [of l libs dangling "main_condition opt" "clo_m_Cycle opt" e] that start at(2)
    by (simp add: emulator_main_def TraceLogger_new_def)
  ultimately show ?thesis using ends start(1) by (cases ?run) auto
qed

text \<open>
  C9: the trace that the program leaves has a verdict on its run. When \<open>main\<close>, with a host port, a
  trace and no bound on its cycles, returns before the last number of the counter, the machine it
  leaves has a value in its host port, and \<open>rafi-check-io\<close> on the files it leaves passes the trace
  exactly when that value is 1 and the loop read a \<open>dump-skip-cycle\<close> not above its counter in its last
  turn. That read is one through the dangling reference \<open>m_Option\<close>, so that the verdict of a good run
  depends on what the program does not define.
\<close>

theorem main_trace_checked:
  assumes "CommandLineOption_new anyConfig vars = Inr opt"
    and "emulator_main libs dangling anyConfig i t o' fs vars = Some (Return e fs')"
    and "tlc_enabled (clo_m_TraceLoggerConfig opt)" "path_ok (tlc_path (clo_m_TraceLoggerConfig opt))"
    and "clo_m_HostIoEnabled opt" "clo_m_Cycle opt = CycleForever"
    and "emu_m_Cycle e \<noteq> 0x7fffffff" "ends_with_law ends_with"
  shows "\<exists>v. System_GetHostIoValue (emu_m_System e) = Inr v \<and> v \<noteq> 0 \<and>
    CheckIo ends_with fs' (tlc_path (clo_m_TraceLoggerConfig opt) @ ''.tidx'') =
      Some (Inr (v = 1 \<and> dangling (emu_m_Cycle e) \<le>s emu_m_Cycle e))"
proof -
  obtain e0 l0 l where e0: "main_start i t o' fs opt = Inr (e0, l0)" "fs' = TraceLogger_delete l fs"
      "Emulator_ProcessTraced libs dangling EmulationStop_HostIo CycleForever e0 l0 = Some (Inr (e, l))"
    using main_run [OF assms(1,2)] assms(5,6) by (auto simp: main_condition_def)
  note start = main_start_reachable [OF e0(1)]
  show ?thesis
    using traced_run_checked [OF start(1,2) assms(3,4) _ e0(3) [unfolded start(3)] assms(7,8)]
      option_config [OF assms(1,3)] assms(5) e0(2) by blast
qed

text \<open>The program that multiplies, in a file, and the command line that runs it.\<close>

definition product_files :: files where
  "product_files = [''prog'' \<mapsto> product_bytes]"

definition product_variables :: "string option \<Rightarrow> variables" where
  "product_variables dump_path = \<lparr>var_cycle = - 1, var_dump_path = dump_path, var_dump_skip_cycle = 0,
     var_enable_dump_csr = False, var_enable_dump_fp_reg = False, var_enable_dump_memory = False, var_gdb = None,
     var_load = Some [''prog:80000000''], var_help = False, var_host_io_addr = Some ''80000018'',
     var_dtb_addr = None, var_pc = Some ''80000000'', var_ram_size = 32, var_xlen = Some 64\<rparr>"

lemma product_numbers: "strtoull16 ''80000000'' = 0x80000000" "strtoull16 ''80000018'' = 0x80000018"
  by (simp_all add: strtoull16_def hex_start_def isspace_def isxdigit_def isdigit_def xdigit_value_def)

lemma product_option:
  "CommandLineOption_new anyConfig (Parsed (product_variables dump_path)) = Inr \<lparr>
     clo_m_TraceLoggerConfig = trace_config anyConfig (product_variables dump_path),
     clo_m_LoadOptions = [\<lparr>lo_m_Path = ''prog'', lo_m_Address = 0x80000000\<rparr>], clo_m_XLEN = XLEN64,
     clo_m_Cycle = - 1, clo_m_DumpSkipCycle = 0, clo_m_GdbPort = 0, clo_m_RamSize = 32, clo_m_DtbAddress = 0,
     clo_m_HostIoAddress = 0x80000018, clo_m_Pc = 0x80000000, clo_m_GdbEnabled = False, clo_m_HostIoEnabled = True\<rparr>"
proof -
  have "LoadOption_new ''prog:80000000'' = Some \<lparr>lo_m_Path = ''prog'', lo_m_Address = 0x80000000\<rparr>"
    by (simp add: LoadOption_new_def Let_def product_numbers)
  then show ?thesis
    by (simp add: CommandLineOption_new_def product_variables_def hex_option_def product_numbers)
qed

lemma product_loadable: "loadable 32 product_files [\<lparr>lo_m_Path = ''prog'', lo_m_Address = 0x80000000\<rparr>]"
  by (simp add: loadable_def product_files_def in_ram_def product_bytes_eq)

lemma product_machine:
  "clo_m_LoadOptions opt = [\<lparr>lo_m_Path = ''prog'', lo_m_Address = 0x80000000\<rparr>] \<Longrightarrow> clo_m_RamSize opt = 32 \<Longrightarrow>
    clo_m_Pc opt = 0x80000000 \<Longrightarrow> clo_m_DtbAddress opt = 0 \<Longrightarrow> first_machine product_files opt = product_start"
proof -
  assume opt: "clo_m_LoadOptions opt = [\<lparr>lo_m_Path = ''prog'', lo_m_Address = 0x80000000\<rparr>]" "clo_m_RamSize opt = 32"
    "clo_m_Pc opt = 0x80000000" "clo_m_DtbAddress opt = 0"
  have "mem_write product_bytes 0x80000000 (\<lambda>a. if in_ram 32 a 1 then Some 0 else None) a = product_mem a" for a
  proof -
    have "in_ram 32 a 1 \<longleftrightarrow> 0x80000000 \<le> a \<and> a < 0x80000020"
      by (auto simp: in_ram_def word_le_nat_alt word_less_nat_alt)
    moreover have "unat (a - 0x80000000) < length product_bytes \<Longrightarrow> in_ram 32 a 1"
      using in_ram_inside [of 32 "0x80000000" "length product_bytes" a] by (simp add: in_ram_def product_bytes_eq)
    ultimately show ?thesis by (auto simp: mem_write_def product_mem_def)
  qed
  then show ?thesis using opt by (simp add: first_machine_def product_start_def product_files_def fun_eq_iff)
qed

theorem main_reports_program_witness:
  "\<exists>libs dangling anyConfig i t o' e. emulator_main libs dangling anyConfig i t o' product_files (Parsed (product_variables None)) =
      Some (Return e product_files) \<and> emu_m_Cycle e = 5 \<and> System_GetHostIoValue (emu_m_System e) = Inr 42"
proof -
  obtain libs0 :: Libraries where True by blast
  have "\<exists>e. emulator_main (word_libs libs0) dangling anyConfig i t o' product_files (Parsed (product_variables None)) =
      Some (Return e product_files) \<and> misa_of 32 (emu_m_System e) = product_end \<and> emu_m_Cycle e = of_nat 5 \<and>
      System_GetHostIoValue (emu_m_System e) = Inr 42" for anyConfig i t o'
    using main_reports_program [OF product_option [of anyConfig None], where a = "0x80000018" and n = 5
        and m = product_end and v = 42 and fs = product_files and libs = "word_libs libs0" and i = i and t = t and o' = o']
      product_loadable product_machine multiplies_word_libs product_run product_port(2)
    by (simp add: CycleForever_def trace_config_def product_variables_def)
  then show ?thesis by fastforce
qed

theorem main_returns_witness:
  "\<forall>libs dangling anyConfig i t o'. \<exists>x. emulator_main libs dangling anyConfig i t o' product_files
    (Parsed (product_variables None\<lparr>var_cycle := 5\<rparr>)) = Some x"
proof (intro allI)
  fix libs dangling anyConfig i t o'
  have "\<not> runs_on libs anyConfig i t o' product_files (Parsed (product_variables None\<lparr>var_cycle := 5\<rparr>))"
    by (auto simp: runs_on_def CommandLineOption_new_def product_variables_def Let_def CycleForever_def
        split: option.splits)
  then show "\<exists>x. emulator_main libs dangling anyConfig i t o' product_files
      (Parsed (product_variables None\<lparr>var_cycle := 5\<rparr>)) = Some x"
    using main_returns by blast
qed

text \<open>A machine that has 1 in its host port before its first cycle: one cycle is traced.\<close>

definition passed_files :: files where
  "passed_files = [''prog'' \<mapsto> replicate 24 0 @ [1, 0, 0, 0]]"

lemma passed_machine:
  assumes "CommandLineOption_new anyConfig (Parsed (product_variables (Some ''trace''))) = Inr opt"
  shows "\<exists>e. main_start i t o' passed_files opt =
      Inr (e, TraceLogger_new XLEN64 (clo_m_TraceLoggerConfig opt) passed_files) \<and>
    System_GetHostIoValue (emu_m_System e) = Inr 1 \<and> emu_m_Cycle e = 0"
proof -
  let ?fs = "passed_files(''trace.tidx'' \<mapsto> [])"
  have opt: "clo_m_XLEN opt = XLEN64" "clo_m_RamSize opt = 32" "clo_m_HostIoEnabled opt"
      "clo_m_LoadOptions opt = [\<lparr>lo_m_Path = ''prog'', lo_m_Address = 0x80000000\<rparr>]"
      "clo_m_HostIoAddress opt = 0x80000018" "tlc_enabled (clo_m_TraceLoggerConfig opt)"
      "tlc_path (clo_m_TraceLoggerConfig opt) = ''trace''"
    using assms unfolding product_option by (auto simp: trace_config_def product_variables_def)
  have load: "loadable 32 ?fs [\<lparr>lo_m_Path = ''prog'', lo_m_Address = 0x80000000\<rparr>]"
    by (simp add: loadable_def passed_files_def in_ram_def)
  have files: "?fs = files_of_logger passed_files (TraceLogger_new XLEN64 (clo_m_TraceLoggerConfig opt) passed_files)"
    using opt(6,7) by (simp add: files_of_logger_def TraceLogger_new_def IndexWriter_new_def)
  have "port_value 0x80000018 (first_machine ?fs opt) = Some 1"
    using opt(4) by (simp add: port_value_def first_machine_def mem_read_4 mem_write_def passed_files_def nth_append)
  then show ?thesis
    using main_start_64 [OF opt(1) _ files, of i t o'] load opt(2-5) host_port_value by fastforce
qed

lemma passed_cycle:
  assumes "System_GetHostIoValue s = Inr v" "config = trace_config anyConfig (product_variables (Some ''trace''))"
  shows "\<exists>l1 l2. dump_begin True cycle s (TraceLogger_new XLEN64 config fs) = Inr ((), l1) \<and>
    EndCycle l1 = Inr ((), l2)"
  using assms
  by (simp add: dump_begin_def BeginCycle_def RecordState_def EndCycle_def when_enabled_def on_current_def bindM_def
      getM_def modifyM_def returnM_def TraceLogger_new_def trace_config_def product_variables_def BinaryCycleLogger_new_def
      Logger_Break_def AddData_fits DefaultBufferSize_def NodeBasic_bytes_def NodeIo_bytes_def IndexWriter_Write_def
      MaxFileSize_def IndexWriter_new_def Let_def System_CopyIntReg64_def Processor_CopyIntReg64_def IntRegFile_Copy64_def IntRegCount_def
      length_concat comp_def sum_list_triv)

theorem main_trace_checked_witness:
  "\<exists>libs anyConfig i t o' e fs'. emulator_main libs (\<lambda>_. 0) anyConfig i t o' passed_files
      (Parsed (product_variables (Some ''trace''))) = Some (Return e fs') \<and>
    System_GetHostIoValue (emu_m_System e) = Inr 1 \<and>
    CheckIo (\<lambda>s t. suffix t s) fs' (''trace'' @ ''.tidx'') = Some (Inr True)"
proof -
  fix libs anyConfig i t o'
  obtain opt where opt: "CommandLineOption_new anyConfig (Parsed (product_variables (Some ''trace''))) = Inr opt"
      "clo_m_TraceLoggerConfig opt = trace_config anyConfig (product_variables (Some ''trace''))"
      "clo_m_HostIoEnabled opt" "clo_m_Cycle opt = CycleForever" "\<not> clo_m_GdbEnabled opt"
    using product_option [of anyConfig "Some ''trace''"] by (simp add: CycleForever_def)
  let ?config = "clo_m_TraceLoggerConfig opt" and ?vars = "Parsed (product_variables (Some ''trace''))"
  have config: "tlc_enabled ?config" "tlc_path ?config = ''trace''" "path_ok ''trace''"
    using opt(2) by (simp_all add: trace_config_def product_variables_def path_ok_def isspace_def)
  obtain e where e: "main_start i t o' passed_files opt = Inr (e, TraceLogger_new XLEN64 ?config passed_files)"
      "System_GetHostIoValue (emu_m_System e) = Inr 1" "emu_m_Cycle e = 0"
    using passed_machine [OF opt(1)] by blast
  obtain l1 l2 where l: "dump_begin True CycleForever (emu_m_System e) (TraceLogger_new XLEN64 ?config passed_files) = Inr ((), l1)"
      "EndCycle l1 = Inr ((), l2)"
    using passed_cycle [OF e(2) opt(2)] by blast
  have "IsStopConditionFilledPre EmulationStop_HostIo (emu_m_System e) = Inr True"
    using e(2) by (simp add: IsStopConditionFilledPre_def EmulationStop_HostIo_def)
  then have "Emulator_ProcessTraced libs (\<lambda>_. 0) EmulationStop_HostIo CycleForever e
      (TraceLogger_new XLEN64 ?config passed_files) = Some (Inr (e, l2))"
    using l e(3) by (subst Emulator_ProcessTraced.simps) (simp add: Let_def)
  then have run: "emulator_main libs (\<lambda>_. 0) anyConfig i t o' passed_files ?vars = Some (Return e (TraceLogger_delete l2 passed_files))"
    using opt e(1) by (simp add: emulator_main_def main_condition_def)
  have "CheckIo (\<lambda>s t. suffix t s) (TraceLogger_delete l2 passed_files) (''trace'' @ ''.tidx'') = Some (Inr True)"
    using main_trace_checked [OF opt(1) run config(1) _ opt(3,4) _ suffix_law] e(2,3) config(2,3) by auto
  then show ?thesis
    using run e(2) by (intro exI [of _ libs] exI [of _ anyConfig] exI [of _ i] exI [of _ t] exI [of _ o'] exI [of _ e]) blast
qed

section \<open>A file that is missing\<close>

lemma loads_append: "load_files fs (ls @ ms) = bindM (load_files fs ls) (\<lambda>_. load_files fs ms)"
  by (induction ls) (simp_all add: returnM_def bindM_def fun_eq_iff split: sum.split)

text \<open>
  C35: a missing file is not reported. When a file that is to be loaded into the RAM, behind others that
  can be loaded, cannot be opened, the program does not exit with status 1, as the handler around the
  loads would have it do: the exception of the memory is another one, and ends the program uncaught.
\<close>

theorem main_missing_file:
  assumes "CommandLineOption_new anyConfig vars = Inr opt" "clo_m_XLEN opt = XLEN64"
    and "\<not> tlc_enabled (clo_m_TraceLoggerConfig opt)"
    and "clo_m_LoadOptions opt = ls @ l # ms" "loadable (clo_m_RamSize opt) fs ls"
    and "fs (lo_m_Path l) = None" "in_ram (clo_m_RamSize opt) (lo_m_Address l) 1"
  shows "emulator_main libs dangling anyConfig i t o' fs vars = Some (Uncaught EmuException)"
proof -
  let ?opt = "opt\<lparr>clo_m_LoadOptions := ls\<rparr>" and ?log = "TraceLogger_new XLEN64 (clo_m_TraceLoggerConfig opt) fs"
  have files: "files_of_logger fs ?log = fs" using assms(3) by (simp add: files_of_logger_def TraceLogger_new_def)
  have same: "Emulator_of_option i t o' fs ?opt = Emulator_of_option i t o' fs opt"
    by (simp add: Emulator_of_option_def cong: if_cong sum.case_cong)
  obtain e where e: "main_start i t o' fs ?opt = Inr (e, ?log)" "sys_inv XLEN64 (clo_m_RamSize opt) (emu_m_System e)"
    using main_start_64 [of ?opt fs fs i t o'] assms(2,5) files by auto
  then obtain e0 where e0: "Emulator_of_option i t o' fs opt = Inr (e0, ?log)" "load_files fs ls e0 = Inr ((), e)"
    using files by (auto simp: main_start_def same split: sum.splits prod.splits)
  have "System_LoadFileToMemory None (lo_m_Address l) (emu_m_System e) = Inl EmuException"
    using sys_inv_wired [OF e(2)] ram_decode(3) [OF assms(7)]
    by (simp add: System_LoadFileToMemory_def wired_def bindM_def queryM_def memory_LoadFile_def zoomM_def updateM_def
        Ram_LoadFile_def load_body_def)
  then have "load_files fs (ls @ l # ms) e0 = Inl EmuException"
    using e0(2) assms(6) by (simp add: loads_append bindM_def Emulator_LoadFileToMemory_def zoomM_def)
  then show ?thesis using assms(1,4) e0(1) files by (simp add: emulator_main_def main_start_def)
qed

theorem main_missing_file_witness:
  "\<exists>libs dangling anyConfig i t o'. emulator_main libs dangling anyConfig i t o' Map.empty (Parsed (product_variables None)) =
    Some (Uncaught EmuException)"
  using main_missing_file [OF product_option, where ls = "[]" and ms = "[]" and fs = Map.empty]
  by (simp add: trace_config_def product_variables_def loadable_def in_ram_def)

section \<open>The debugger's server\<close>

text \<open>Whatever its clients send, the machine keeps its invariant.\<close>

lemma GdbServer_reachable:
  assumes "GdbServer_Process libs xlen' clients g = Some (Inr (outs, g'))" "gdb_reachable libs xlen pc ramSize g"
  shows "gdb_reachable libs xlen pc ramSize g'"
  using assms
proof (induction clients arbitrary: g outs)
  case (Cons client clients)
  then show ?case
    using session_reachable by (auto simp: map_sum_eq_Inr split: option.splits sum.splits)
qed simp

end
