(* ===== verification/Spec2Isabelle.thy ===== *)
theory Spec2Isabelle
  imports Rafi_Encoding Rafi_Formats Rafi_RegFile Rafi_Trap_Ok Rafi_Devices_Ok Rafi_System_Ok
    Rafi_Failures_Ok Rafi_Emulator_Ok Rafi_Memory_Ok Rafi_Isa_Ok Rafi_Isa_Mem
    Rafi_Isa_Mem_Ok Rafi_Cycle_Ok Rafi_Run_Ok Rafi_Gdb_Ok Rafi_Gdb_Run_Ok Rafi_Trace_Ok Rafi_TraceIndex_Ok Rafi_TraceLogger_Ok
    Rafi_TraceDiff_Ok Rafi_TraceText_Ok Rafi_Disassembly_Ok Rafi_Main_Ok
begin

text \<open>
  A verification of rafi-emu, an emulator of RISC-V machines (RV32 and RV64, IMAFDC, with privilege
  levels, address translation and devices) written in C++.

  \<^bold>\<open>The program.\<close> \<^verbatim>\<open>src/rafi-emu\<close> is the emulator: \<open>Emulator\<close> owns a \<open>System\<close> and a \<open>TraceLogger\<close>;
  \<open>System\<close> owns the memories, the devices, the \<open>Bus\<close> that decodes addresses to them, and the
  \<open>Processor\<close>; the processor owns the register files, the control and status registers (\<open>Csr\<close>), the
  interrupt controller, the trap processor, the memory access unit and the executor. One cycle ticks
  the devices, updates the interrupt lines, takes an interrupt or fetches, decodes, checks and
  executes one instruction. \<^verbatim>\<open>src/librafi_common\<close> has the decoder, \<^verbatim>\<open>src/librafi_fp\<close> the interface to the
  floating-point library, \<^verbatim>\<open>src/librafi_trace\<close> the traces that the logger writes and that the tools
  read, and \<^verbatim>\<open>src/rafi-emu/gdb\<close> the debugger's protocol.

  \<^bold>\<open>How code becomes definitions.\<close> An object is a record, an enumeration a datatype, an unsigned or
  signed integer of \<open>w\<close> bits a word of \<open>w\<close> bits, an array a list whose every access says what happens
  out of range. A routine that changes its object or can fail is an action, a function from the state
  to a failure or a result with the new state (\<open>Rafi_Prelude\<close>): a thrown exception, a failed
  assertion, an exit of the process and undefined behaviour are values of \<open>failure\<close>. Two kinds of
  undefined behaviour are modelled otherwise: a run that overflows the counter of its cycles has no
  result, and a read through a dangling reference yields a value that is an argument of the model.
  The model is that of a build with assertions; one with \<^verbatim>\<open>NDEBUG\<close> goes on where it has
  \<open>AssertionFailure\<close>. Routines and fields have the names of the source, the fields behind a short prefix of
  their class; an overloaded name has a suffix.

  \<^bold>\<open>Theories of the model.\<close>
  \<^item> \<open>Rafi_Prelude\<close>, \<open>Rafi_Bits\<close>, \<open>Rafi_Types\<close>: actions, failures, their two judgements (\<open>preserves\<close>:
    an action keeps an invariant when it returns; \<open>returns\<close>: it returns); bit fields and ranges
    (\<^verbatim>\<open>include/rafi/common\<close>, \<^verbatim>\<open>include/rafi/emu/Macro.h\<close>); the common enumerations.
  \<^item> \<open>Rafi_Decoder\<close>: \<^verbatim>\<open>DecoderImpl.cpp\<close>, every instruction class and operand format.
  \<^item> \<open>Rafi_RegFile\<close>, \<open>Rafi_Trap\<close>, \<open>Rafi_Csr\<close>, \<open>Rafi_TrapProcessor\<close>: register files, reservation, trap
    values, control and status registers, trap entry and return, interrupt controller.
  \<^item> \<open>Rafi_Bytes\<close>, \<open>Rafi_Devices\<close>, \<open>Rafi_State\<close>, \<open>Rafi_Bus\<close>: memories, devices, the state of the
    whole machine and the decoding of addresses.
  \<^item> \<open>Rafi_MemoryAccess\<close>: address translation (Sv32, Sv39, Sv48), its checks, loads and stores.
  \<^item> \<open>Rafi_Fp\<close>, \<open>Rafi_Exec_Base\<close>, \<open>Rafi_PreCheck\<close>, \<open>Rafi_Exec_RV32\<close>, \<open>Rafi_Exec_RV64\<close>, \<open>Rafi_Exec_Fp\<close>,
    \<open>Rafi_Executor\<close>: the executor.
  \<^item> \<open>Rafi_Processor\<close>, \<open>Rafi_Emulator\<close>: the cycle of the processor and of the system, the loop of the
    emulator, and what the emulator offers to its owners.
  \<^item> \<open>Rafi_Gdb\<close>: the debugger's commands, packets and session.
  \<^item> \<open>Rafi_Trace\<close>, \<open>Rafi_TraceIndex\<close>, \<open>Rafi_TraceLogger\<close>: the bytes of a traced cycle and their parser,
    traces in files and their index, the logger and the loop of the emulator with it.
  \<^item> \<open>Rafi_TraceText\<close>, \<open>Rafi_TraceReader\<close>: the two text formats of traces on an input stream, and the
    common interface of the readers of all four formats.
  \<^item> \<open>Rafi_Disassembly\<close>, \<open>Rafi_TracePrinter\<close>, \<open>Rafi_TraceTools\<close>: the names of operations and registers
    (\<^verbatim>\<open>OpApi.cpp\<close>, \<^verbatim>\<open>RvApi.cpp\<close>), the three printers of traces, and the programs \<^verbatim>\<open>rafi-check-io\<close>,
    \<^verbatim>\<open>rafi-diff\<close>, \<^verbatim>\<open>rafi-conv\<close> and \<^verbatim>\<open>rafi-dump\<close>.
  \<^item> \<open>Rafi_Main\<close>: the options of the emulator, the machine that is built from them and from files, \<open>main\<close>,
    and the loop of the debugger's server over its clients.

  \<^bold>\<open>Interfaces.\<close> The contracts between components are locales, each interpreted on the definitions of
  the model: \<open>lens\<close> and \<open>lens_pair\<close> for bit fields (\<open>Rafi_Bits\<close>), \<open>register_file\<close> and
  \<open>zero_register_file\<close> for the two register files at their widths (\<open>Rafi_RegFile\<close>), \<open>processor_part\<close> for
  the objects inside the processor (\<open>Rafi_State\<close>), \<open>readable_memory\<close>, \<open>writable_memory\<close> and \<open>io_device\<close>
  for what the bus is wired to (\<open>Rafi_Devices_Ok\<close>), \<open>status_stack\<close> for the interrupt enables that trap
  entry saves and trap return restores (\<open>Rafi_Trap_Ok\<close>), \<open>trace_reader\<close> for the five readers of traces,
  from which the tools' loops are shown to end (\<open>Rafi_TraceReader_Ok\<close>).

  \<^bold>\<open>Theories of results.\<close>
  \<^item> \<open>Rafi_Decoder_Ok\<close>, \<open>Rafi_Encoding\<close>, \<open>Rafi_Formats\<close>: the decoder is total and gives each opcode the
    operand type its executor reads; it recognises exactly the words of a table of encodings; every
    operand that an instruction format can hold is decoded from its assembly.
  \<^item> \<open>Rafi_Csr_Ok\<close>, \<open>Rafi_Trap_Ok\<close>: access control, masks and read-back of the control and status
    registers, trap entry and return against a specification by bit fields, the selection of
    interrupts.
  \<^item> \<open>Rafi_Devices_Ok\<close>, \<open>Rafi_Memory_Ok\<close>: accesses through the bus.
  \<^item> \<open>Rafi_System_Ok\<close>, \<open>Rafi_Failures_Ok\<close>: the invariant of the machine in all reachable states, kept
    by every routine, and failures that no routine has.
  \<^item> \<open>Rafi_Isa\<close>, \<open>Rafi_Isa_Mem\<close>: an abstract RV64IM machine, with integers for its arithmetic;
    \<open>Rafi_Isa_Ok\<close>, \<open>Rafi_Cycle_Ok\<close>, \<open>Rafi_Isa_Mem_Ok\<close>: one instruction, one cycle and a run of the
    emulator refine it, in a machine without pending interrupts and with data addresses untranslated.
  \<^item> \<open>Rafi_Emulator_Ok\<close>, \<open>Rafi_Run_Ok\<close>: when the loop ends, why and where it stops, and a whole
    program run by it reports what the abstract machine computes.
  \<^item> \<open>Rafi_Gdb_Ok\<close>, \<open>Rafi_Gdb_Run_Ok\<close>: which packets are received, what sessions answer, that they
    cannot break the invariant, breakpoints, and \<open>continue\<close> to a breakpoint.
  \<^item> \<open>Rafi_Trace_Ok\<close>, \<open>Rafi_TraceIndex_Ok\<close>, \<open>Rafi_TraceLogger_Ok\<close>: a cycle, an indexed trace and the
    trace of a run are read back as they were written.
  \<^item> \<open>Rafi_TraceReader_Ok\<close>, \<open>Rafi_TraceTools_Ok\<close>, \<open>Rafi_TraceConv_Ok\<close>, \<open>Rafi_TraceDiff_Ok\<close>: the tools end
    on every input; the verdict of \<^verbatim>\<open>rafi-check-io\<close> on the trace of a run that was recorded to its end is the
    state of the machine; what a conversion keeps, what a comparison of two traces counts, and which
    cycles are printed.
  \<^item> \<open>Rafi_TraceText_Ok\<close>: a trace in the text format is read as the cycles it says, and what the text
    printer prints is not (\<open>printed_text_unread\<close>). \<open>Rafi_Disassembly_Ok\<close>: every instruction has a text,
    which fits into the buffer it is printed to.
  \<^item> \<open>Rafi_Main_Ok\<close>: from the command line and the files to the machine that the program leaves and the
    verdict on its trace; when the program ends; a file that is missing.

  \<^bold>\<open>Parameters.\<close> The floating-point library and the 128-bit integers of Boost are not in the
  repository: their operations are the fields of the record \<open>Libraries\<close>, and the one hypothesis on
  them, \<open>multiplies\<close>, says that multiplication, right shift and conversion of these integers compute
  what they mean where the result is in their range; \<open>word_libs\<close> has it. The
  connection of the debugger is the text that its client sends, of which a call of \<open>recv\<close> for \<open>n\<close>
  characters is taken to deliver \<open>n\<close>, the file system a map from paths to
  contents. The emulator reads the option \<open>dump-skip-cycle\<close> through a reference to the parameter of its
  constructor, which is gone by then: what the read before the cycle with number \<open>k\<close> yields is \<open>skip k\<close>
  in \<open>Emulator_ProcessTraced\<close> and \<open>dangling k\<close> in \<open>emulator_main\<close>, and the results hold for all values. The function
  \<open>ends_with\<close> of Boost, by which a reader is chosen, is an argument of \<open>MakeTraceReader\<close>, with the law
  \<open>ends_with_law\<close>, and what its parser answers to a command line is an argument of the constructors of
  the options, in records that have the options described to it (\<open>variables\<close>, \<open>diff_variables\<close>,
  \<open>dump_variables\<close>); the conversion \<^verbatim>\<open>%e\<close> of floating-point numbers is an argument of the JSON printer.

  \<^bold>\<open>Bounds and fuel.\<close> The loop of the emulator is a partial function in the option type. \<open>None\<close> is
  a run that never ends, and one that reaches the overflow of the counter of its cycles, an \<open>int\<close>,
  after which nothing is defined; \<open>emulator_loop_terminates\<close>, and \<open>main_returns\<close> for the program, say
  exactly when the loop has a result: with a bound on the cycles, or when one of the cycles that the
  counter can number stops it. A session of the debugger has a result when each \<open>continue\<close> in it has.
  The loops of \<^verbatim>\<open>rafi-check-io\<close> and \<^verbatim>\<open>rafi-conv\<close>
  over a trace are partial functions too, and \<open>trace_tools_end\<close> shows that they return on every
  content of the files. No other routine has fuel: loops are
  structural or have a measure. \<open>record_memory_events\<close> counts down the number of the events.

  \<^bold>\<open>Not modelled.\<close> The socket calls, and the trace that a debugger's \<open>continue\<close> would add to: the model of
  \<open>main\<close> ends where the server takes over. Messages on the standard error, the status dump, the lines that
  \<^verbatim>\<open>rafi-check-io\<close> and \<open>main\<close> print and the texts of exceptions are left out of the routines that print them; what
  the serial devices print is part of the state. A tool that fails has no output in the model.
\<close>

end
